(* ===== verification/Prelude.thy ===== *)
theory Prelude
  imports Main
begin

text \<open>
  Shared vocabulary of the development: times, the JavaScript string and array
  operations the modelled code uses, the values of an optional field, and the
  generic lemmas on them.

  A stored timestamp is an ISO string that the code reads with \<open>Date.parse\<close> and writes
  with \<open>toISOString\<close>; the model keeps the number of milliseconds since the epoch and
  prints it where the code prints it. A JavaScript string is a HOL \<open>string\<close>; the
  typographic quotes and dashes of display texts are written in ASCII.
\<close>

section \<open>Collections of simplification rules\<close>

named_theorems decide_defs
  \<open>the definitions of the decision functions, unfolded together\<close>

named_theorems frame_simps
  \<open>what an operation leaves unchanged\<close>

section \<open>Types\<close>

type_synonym time = int

section \<open>Optional fields\<close>

text \<open>
  A field that may be absent is an \<open>option\<close>. A field that may also hold \<open>null\<close>
  is an \<open>option option\<close>: \<open>None\<close> is absent, \<open>Some None\<close> is \<open>null\<close>;
  the code's readers go through \<open>?.\<close>, which takes both for nothing
  (\<open>present\<close>). A write names a field (\<open>Put\<close>), drops it (\<open>Drop\<close>: an explicit
  \<open>undefined\<close>) or leaves it (\<open>Keep\<close>).
\<close>

definition present :: "'a option option \<Rightarrow> 'a option" where
  "present x = (case x of Some (Some v) \<Rightarrow> Some v | _ \<Rightarrow> None)"

lemma present_simps [simp]:
  "present None = None" "present (Some None) = None" "present (Some (Some v)) = Some v"
  by (simp_all add: present_def)

datatype 'a edit = Keep | Drop | Put 'a

fun edit_opt :: "'a edit \<Rightarrow> 'a option \<Rightarrow> 'a option" where
  "edit_opt Keep old = old"
| "edit_opt Drop old = None"
| "edit_opt (Put v) old = Some v"

definition over :: "'a option \<Rightarrow> 'a \<Rightarrow> 'a" where
  "over new old = (case new of None \<Rightarrow> old | Some v \<Rightarrow> v)"

lemma over_simps [simp]: "over None old = old" "over (Some v) old = v"
  by (simp_all add: over_def)

lemma over_if [simp]: "over (if b then Some v else None) old = (if b then v else old)"
  by simp

text \<open>A string field counts as set only when it is not empty (JavaScript truthiness).\<close>

definition truthy :: "string option \<Rightarrow> bool" where
  "truthy s = (case s of None \<Rightarrow> False | Some t \<Rightarrow> t \<noteq> [])"

lemma truthy_simps [simp]: "\<not> truthy None" "truthy (Some t) = (t \<noteq> [])"
  by (simp_all add: truthy_def)

section \<open>Strings\<close>

definition is_space :: "char \<Rightarrow> bool" where
  "is_space c = (c \<in> {CHR '' '', CHR 0x09, CHR 0x0A, CHR 0x0B, CHR 0x0C, CHR 0x0D})"

definition js_trim :: "string \<Rightarrow> string" where
  "js_trim s = rev (dropWhile is_space (rev (dropWhile is_space s)))"

definition js_slice :: "nat \<Rightarrow> string \<Rightarrow> string" where
  "js_slice n s = take n s"

lemma length_js_slice [simp]: "length (js_slice n s) \<le> n"
  by (simp add: js_slice_def)

fun js_join :: "string \<Rightarrow> string list \<Rightarrow> string" where
  "js_join sep [] = []"
| "js_join sep [s] = s"
| "js_join sep (s # t # ts) = s @ sep @ js_join sep (t # ts)"

definition lower_char :: "char \<Rightarrow> char" where
  "lower_char c =
     (if 65 \<le> (of_char c :: nat) \<and> (of_char c :: nat) \<le> 90 then char_of ((of_char c :: nat) + 32) else c)"

definition js_lower :: "string \<Rightarrow> string" where
  "js_lower s = map lower_char s"

definition starts_with :: "string \<Rightarrow> string \<Rightarrow> bool" where
  "starts_with p s = (take (length p) s = p)"

fun includes_str :: "string \<Rightarrow> string \<Rightarrow> bool" where
  "includes_str p [] = (p = [])"
| "includes_str p (c # cs) = (starts_with p (c # cs) \<or> includes_str p cs)"

fun string_of_nat :: "nat \<Rightarrow> string" where
  "string_of_nat n =
     (if n < 10 then [char_of (48 + n)]
      else string_of_nat (n div 10) @ [char_of (48 + n mod 10)])"

declare string_of_nat.simps [simp del]

lemma string_of_nat_small [simp]: "n < 10 \<Longrightarrow> string_of_nat n = [char_of (48 + n)]"
  by (simp add: string_of_nat.simps)

lemma digit_chars [simp]:
  "char_of (48::nat) = CHR ''0''" "char_of (49::nat) = CHR ''1''" "char_of (50::nat) = CHR ''2''"
  "char_of (51::nat) = CHR ''3''" "char_of (52::nat) = CHR ''4''" "char_of (53::nat) = CHR ''5''"
  "char_of (54::nat) = CHR ''6''" "char_of (55::nat) = CHR ''7''" "char_of (56::nat) = CHR ''8''"
  "char_of (57::nat) = CHR ''9''"
  by code_simp+

definition string_of_int :: "int \<Rightarrow> string" where
  "string_of_int i = (if i < 0 then CHR ''-'' # string_of_nat (nat (- i)) else string_of_nat (nat i))"

text \<open>\<open>Date.prototype.toISOString\<close>, for the years 0 to 9999 (the proleptic calendar).\<close>

definition pad :: "nat \<Rightarrow> nat \<Rightarrow> string" where
  "pad w n = (let d = string_of_nat n in replicate (w - length d) (CHR ''0'') @ d)"

definition iso_of :: "time \<Rightarrow> string" where
  "iso_of t =
    (let days = t div 86400000; ms = nat (t mod 86400000);
         z = days + 719468;
         era = z div 146097;
         doe = z mod 146097;
         yoe = (doe - doe div 1460 + doe div 36524 - doe div 146096) div 365;
         doy = doe - (365 * yoe + yoe div 4 - yoe div 100);
         mp = (5 * doy + 2) div 153;
         d = doy - (153 * mp + 2) div 5 + 1;
         m = (if mp < 10 then mp + 3 else mp - 9);
         y = yoe + era * 400 + (if m \<le> 2 then 1 else 0)
     in pad 4 (nat y) @ ''-'' @ pad 2 (nat m) @ ''-'' @ pad 2 (nat d) @ ''T''
        @ pad 2 (ms div 3600000) @ '':'' @ pad 2 (ms div 60000 mod 60) @ '':''
        @ pad 2 (ms div 1000 mod 60) @ ''.'' @ pad 3 (ms mod 1000) @ ''Z'')"

section \<open>Lists\<close>

text \<open>\<open>[...new Set(xs)]\<close>: the first occurrence of each element, in order.\<close>

fun dedup :: "'a list \<Rightarrow> 'a list" where
  "dedup [] = []"
| "dedup (x # xs) = x # dedup (filter (\<lambda>y. y \<noteq> x) xs)"
  
lemma set_dedup [simp]: "set (dedup xs) = set xs"
  by (induction xs rule: dedup.induct) auto

lemma distinct_dedup [simp]: "distinct (dedup xs)"
  by (induction xs rule: dedup.induct) auto

text \<open>\<open>xs.findIndex(p)\<close>, \<open>None\<close> for the code's \<open>-1\<close>.\<close>

fun find_index :: "('a \<Rightarrow> bool) \<Rightarrow> 'a list \<Rightarrow> nat option" where
  "find_index p [] = None"
| "find_index p (x # xs) = (if p x then Some 0 else map_option Suc (find_index p xs))"

lemma find_index_None: "find_index p xs = None \<longleftrightarrow> (\<forall>x\<in>set xs. \<not> p x)"
  by (induction xs) auto

lemma find_index_Some:
  "find_index p xs = Some i \<Longrightarrow> i < length xs \<and> p (xs ! i) \<and> (\<forall>j<i. \<not> p (xs ! j))"
proof (induction xs arbitrary: i)
  case Nil
  then show ?case by simp
next
  case (Cons x xs)
  show ?case
  proof (cases "p x")
    case True
    with Cons.prems show ?thesis by simp
  next
    case False
    with Cons.prems obtain k where k: "find_index p xs = Some k" "i = Suc k" by auto
    from Cons.IH [OF k(1)] False k(2) show ?thesis
      by (auto simp: nth_Cons split: nat.splits)
  qed
qed

text \<open>\<open>xs[i]\<close>: nothing out of range.\<close>

definition nth_opt :: "'a list \<Rightarrow> nat \<Rightarrow> 'a option" where
  "nth_opt xs i = (if i < length xs then Some (xs ! i) else None)"

text \<open>A list as a keyed collection: the last entry of a key wins, at its first position.\<close>

fun put_keyed :: "('a \<Rightarrow> 'k) \<Rightarrow> 'a \<Rightarrow> 'a list \<Rightarrow> 'a list" where
  "put_keyed key v [] = [v]"
| "put_keyed key v (x # xs) = (if key x = key v then v # xs else x # put_keyed key v xs)"

lemma keys_put_keyed: "key ` set (put_keyed key v xs) = insert (key v) (key ` set xs)"
  by (induction xs) auto

lemma distinct_put_keyed:
  "distinct (map key xs) \<Longrightarrow> distinct (map key (put_keyed key v xs))"
proof (induction xs)
  case (Cons x xs)
  then show ?case using keys_put_keyed [of key v xs] by (auto simp: image_iff)
qed simp

lemma find_put_keyed:
  "find (\<lambda>x. key x = k) (put_keyed key v xs) =
     (if key v = k then Some v else find (\<lambda>x. key x = k) xs)"
  by (induction xs) auto

lemma find_None_all: "find p xs = None \<longleftrightarrow> (\<forall>x\<in>set xs. \<not> p x)"
  by (induction xs) auto

lemma find_Some_in: "find p xs = Some x \<Longrightarrow> x \<in> set xs \<and> p x"
  by (induction xs) (auto split: if_splits)

lemma find_append:
  "find P (xs @ ys) = (case find P xs of Some x \<Rightarrow> Some x | None \<Rightarrow> find P ys)"
  by (induction xs) auto

text \<open>Folding the insertion over a list: its keys, its one entry per key, its last value.\<close>

lemma fold_put_keyed:
  "key ` set (fold (put_keyed key) vs xs) = key ` set xs \<union> key ` set vs
   \<and> (distinct (map key xs) \<longrightarrow> distinct (map key (fold (put_keyed key) vs xs)))"
  by (induction vs arbitrary: xs) (auto simp: keys_put_keyed distinct_put_keyed)

lemma find_fold_put_keyed:
  "find (\<lambda>x. key x = k) (fold (put_keyed key) vs xs) =
     (case find (\<lambda>x. key x = k) (rev vs) of Some v \<Rightarrow> Some v | None \<Rightarrow> find (\<lambda>x. key x = k) xs)"
proof (induction vs rule: rev_induct)
  case (snoc v vs)
  then show ?case by (simp add: find_put_keyed)
qed simp

lemma find_key_distinct:
  "distinct (map key xs) \<Longrightarrow> x \<in> set xs \<Longrightarrow> find (\<lambda>y. key y = key x) xs = Some x"
  by (induction xs) (auto simp: image_iff)

end
