(* ===== verification/Plan_Diagnostics.thy ===== *)
theory Plan_Diagnostics
  imports Prelude "HOL-Library.Multiset"
begin

text \<open>
  The diagnostics of a plan import (\<open>packages/planning/src/diagnostics.ts\<close>) with their order,
  and JavaScript's stable sort by a comparator, which the digest uses too. The locale
  comparator (\<open>localeCompare\<close> in English) is a parameter.
\<close>

section \<open>A stable sort by a comparator\<close>

fun insert_by :: "('a \<Rightarrow> 'a \<Rightarrow> int) \<Rightarrow> 'a \<Rightarrow> 'a list \<Rightarrow> 'a list" where
  "insert_by cmp x [] = [x]"
| "insert_by cmp x (y # ys) = (if cmp x y \<le> 0 then x # y # ys else y # insert_by cmp x ys)"

definition js_sort :: "('a \<Rightarrow> 'a \<Rightarrow> int) \<Rightarrow> 'a list \<Rightarrow> 'a list" where
  "js_sort cmp xs = foldr (insert_by cmp) xs []"

lemma mset_insert_by [simp]: "mset (insert_by cmp x ys) = add_mset x (mset ys)"
  by (induction ys) auto

lemma mset_js_sort [simp]: "mset (js_sort cmp xs) = mset xs"
  unfolding js_sort_def by (induction xs) auto

lemma set_js_sort [simp]: "set (js_sort cmp xs) = set xs"
  by (metis mset_js_sort set_mset_mset)

lemma length_js_sort [simp]: "length (js_sort cmp xs) = length xs"
  by (metis mset_js_sort size_mset)

text \<open>A comparator that orders its arguments totally (it may call different ones equal).\<close>

locale comparator =
  fixes cmp :: "'a \<Rightarrow> 'a \<Rightarrow> int" and good :: "'a \<Rightarrow> bool"
  assumes cmp_total: "good x \<Longrightarrow> good y \<Longrightarrow> 0 < cmp x y \<Longrightarrow> cmp y x \<le> 0"
    and cmp_trans: "good x \<Longrightarrow> good y \<Longrightarrow> good z \<Longrightarrow> cmp x y \<le> 0 \<Longrightarrow> cmp y z \<le> 0 \<Longrightarrow> cmp x z \<le> 0"
begin

lemma sorted_insert_by:
  assumes "good x" "\<forall>y\<in>set ys. good y" "sorted_wrt (\<lambda>x y. cmp x y \<le> 0) ys"
  shows "sorted_wrt (\<lambda>x y. cmp x y \<le> 0) (insert_by cmp x ys)"
  using assms(2,3)
proof (induction ys)
  case (Cons y ys)
  have mem: "set (insert_by cmp x ys) = insert x (set ys)"
    using mset_insert_by [of cmp x ys] by (metis set_mset_add_mset_insert set_mset_mset)
  show ?case
  proof (cases "cmp x y \<le> 0")
    case True
    with Cons.prems assms(1) show ?thesis by (auto intro: cmp_trans [of x y])
  next
    case False
    then have "cmp y x \<le> 0" using cmp_total [of x y] assms(1) Cons.prems by simp
    with False Cons mem show ?thesis by auto
  qed
qed simp

lemma sorted_js_sort:
  "\<forall>x\<in>set xs. good x \<Longrightarrow> sorted_wrt (\<lambda>x y. cmp x y \<le> 0) (js_sort cmp xs)"
  unfolding js_sort_def
proof (induction xs)
  case (Cons x xs)
  have "set (foldr (insert_by cmp) xs []) = set xs"
    using set_js_sort [of cmp xs] by (simp add: js_sort_def)
  with Cons show ?case by (auto intro!: sorted_insert_by)
qed simp

text \<open>When equal means identical, the sorted list depends on the multiset alone.\<close>

lemma sorted_unique:
  assumes "sorted_wrt (\<lambda>x y. cmp x y \<le> 0) xs" "sorted_wrt (\<lambda>x y. cmp x y \<le> 0) ys" "mset xs = mset ys"
    "\<And>x y. x \<in> set xs \<Longrightarrow> y \<in> set xs \<Longrightarrow> cmp x y \<le> 0 \<Longrightarrow> cmp y x \<le> 0 \<Longrightarrow> x = y"
  shows "xs = ys"
  using assms
proof (induction xs arbitrary: ys)
  case (Cons x xs)
  then obtain y ys' where ys: "ys = y # ys'" by (cases ys) auto
  have sets: "set (x # xs) = set (y # ys')" using Cons.prems(3) ys mset_eq_setD by blast
  have "x = y"
  proof (rule ccontr)
    assume ne: "x \<noteq> y"
    with sets have "x \<in> set ys'" "y \<in> set xs" by auto
    with Cons.prems(1,2) ys have "cmp y x \<le> 0" "cmp x y \<le> 0" by auto
    with Cons.prems(4) \<open>y \<in> set xs\<close> ne show False by (metis list.set_intros)
  qed
  moreover have "xs = ys'"
    by (rule Cons.IH) (use Cons.prems ys \<open>x = y\<close> in auto)
  ultimately show ?case by (simp add: ys)
qed simp

lemma js_sort_canonical:
  assumes "mset xs = mset ys" "\<forall>x\<in>set xs. good x"
    "\<And>x y. x \<in> set xs \<Longrightarrow> y \<in> set xs \<Longrightarrow> cmp x y \<le> 0 \<Longrightarrow> cmp y x \<le> 0 \<Longrightarrow> x = y"
  shows "js_sort cmp xs = js_sort cmp ys"
proof (rule sorted_unique)
  have "set xs = set ys" using assms(1) by (rule mset_eq_setD)
  then show "sorted_wrt (\<lambda>x y. cmp x y \<le> 0) (js_sort cmp ys)" using assms(2) by (simp add: sorted_js_sort)
qed (use assms in \<open>auto intro: sorted_js_sort\<close>)

end

section \<open>Diagnostics\<close>

datatype severity_level = Level_error | Level_warning | Level_info

datatype plan_code =
    Required_artifact_missing | Duplicate_artifact_role | Unknown_artifact_role
  | Duplicate_logical_filename | Invalid_logical_filename | Unsupported_media_type
  | Artifact_role_format_mismatch | Artifact_too_large | Too_many_artifacts | Total_size_exceeded
  | Empty_artifact
  | Invalid_yaml | Multiple_yaml_documents | Unsafe_yaml_key | Unsupported_yaml_scalar
  | Yaml_too_complex | Checksum_mismatch
  | Invalid_work_breakdown | Missing_work_items | Too_many_work_items | Duplicate_work_item_id
  | Invalid_work_item_id | Invalid_work_item_field
  | Missing_required_dependency | Self_dependency | Required_dependency_cycle
  | Duplicate_required_dependency | Unknown_recommended_dependency | Unrecognized_risk
  | Checksum_unmatched_entry | Field_truncated

fun plan_code_text :: "plan_code \<Rightarrow> string" where
  "plan_code_text Required_artifact_missing = ''required-artifact-missing''"
| "plan_code_text Duplicate_artifact_role = ''duplicate-artifact-role''"
| "plan_code_text Unknown_artifact_role = ''unknown-artifact-role''"
| "plan_code_text Duplicate_logical_filename = ''duplicate-logical-filename''"
| "plan_code_text Invalid_logical_filename = ''invalid-logical-filename''"
| "plan_code_text Unsupported_media_type = ''unsupported-media-type''"
| "plan_code_text Artifact_role_format_mismatch = ''artifact-role-format-mismatch''"
| "plan_code_text Artifact_too_large = ''artifact-too-large''"
| "plan_code_text Too_many_artifacts = ''too-many-artifacts''"
| "plan_code_text Total_size_exceeded = ''total-size-exceeded''"
| "plan_code_text Empty_artifact = ''empty-artifact''"
| "plan_code_text Invalid_yaml = ''invalid-yaml''"
| "plan_code_text Multiple_yaml_documents = ''multiple-yaml-documents''"
| "plan_code_text Unsafe_yaml_key = ''unsafe-yaml-key''"
| "plan_code_text Unsupported_yaml_scalar = ''unsupported-yaml-scalar''"
| "plan_code_text Yaml_too_complex = ''yaml-too-complex''"
| "plan_code_text Checksum_mismatch = ''checksum-mismatch''"
| "plan_code_text Invalid_work_breakdown = ''invalid-work-breakdown''"
| "plan_code_text Missing_work_items = ''missing-work-items''"
| "plan_code_text Too_many_work_items = ''too-many-work-items''"
| "plan_code_text Duplicate_work_item_id = ''duplicate-work-item-id''"
| "plan_code_text Invalid_work_item_id = ''invalid-work-item-id''"
| "plan_code_text Invalid_work_item_field = ''invalid-work-item-field''"
| "plan_code_text Missing_required_dependency = ''missing-required-dependency''"
| "plan_code_text Self_dependency = ''self-dependency''"
| "plan_code_text Required_dependency_cycle = ''required-dependency-cycle''"
| "plan_code_text Duplicate_required_dependency = ''duplicate-required-dependency''"
| "plan_code_text Unknown_recommended_dependency = ''unknown-recommended-dependency''"
| "plan_code_text Unrecognized_risk = ''unrecognized-risk''"
| "plan_code_text Checksum_unmatched_entry = ''checksum-unmatched-entry''"
| "plan_code_text Field_truncated = ''field-truncated''"

record diagnostic_detail =
  dd_artifactName :: "string option"
  dd_path :: "string option"
  dd_workItem :: "string option"
  dd_line :: "nat option"
  dd_column :: "nat option"

record plan_diagnostic =
  pd_severity :: severity_level
  pd_code :: plan_code
  pd_message :: string
  pd_detail :: diagnostic_detail

definition no_detail :: diagnostic_detail where
  "no_detail = \<lparr>dd_artifactName = None, dd_path = None, dd_workItem = None, dd_line = None, dd_column = None\<rparr>"

definition in_artifact :: "string \<Rightarrow> diagnostic_detail" where
  "in_artifact name = no_detail\<lparr>dd_artifactName := Some name\<rparr>"

definition at_path :: "string \<Rightarrow> string \<Rightarrow> diagnostic_detail" where
  "at_path name path = (in_artifact name)\<lparr>dd_path := Some path\<rparr>"

definition of_item :: "string \<Rightarrow> string \<Rightarrow> string \<Rightarrow> diagnostic_detail" where
  "of_item name path sourceId = (at_path name path)\<lparr>dd_workItem := Some sourceId\<rparr>"

definition plan_error :: "plan_code \<Rightarrow> string \<Rightarrow> diagnostic_detail \<Rightarrow> plan_diagnostic" where
  "plan_error code m detail = \<lparr>pd_severity = Level_error, pd_code = code, pd_message = m, pd_detail = detail\<rparr>"

definition plan_warning :: "plan_code \<Rightarrow> string \<Rightarrow> diagnostic_detail \<Rightarrow> plan_diagnostic" where
  "plan_warning code m detail = \<lparr>pd_severity = Level_warning, pd_code = code, pd_message = m, pd_detail = detail\<rparr>"

lemma plan_error_sel [simp]:
  "pd_severity (plan_error code m d) = Level_error" "pd_code (plan_error code m d) = code"
  "pd_severity (plan_warning code m d) = Level_warning" "pd_code (plan_warning code m d) = code"
  by (simp_all add: plan_error_def plan_warning_def)

fun severity_order :: "severity_level \<Rightarrow> int" where
  "severity_order Level_error = 0" | "severity_order Level_warning = 1" | "severity_order Level_info = 2"

text \<open>The levels in their order, the most severe first.\<close>

instantiation severity_level :: linorder
begin

definition less_eq_severity_level :: "severity_level \<Rightarrow> severity_level \<Rightarrow> bool" where
  "less_eq_severity_level a b = (severity_order a \<le> severity_order b)"

definition less_severity_level :: "severity_level \<Rightarrow> severity_level \<Rightarrow> bool" where
  "less_severity_level a b = (severity_order a < severity_order b)"

instance
proof
  fix a b :: severity_level
  show "a \<le> b \<Longrightarrow> b \<le> a \<Longrightarrow> a = b" by (cases a; cases b) (simp_all add: less_eq_severity_level_def)
qed (auto simp: less_eq_severity_level_def less_severity_level_def)

end

lemma error_first [simp]: "Level_error \<le> s" "s \<le> Level_error \<longleftrightarrow> s = Level_error"
  by (cases s; simp add: less_eq_severity_level_def)+

fun first_difference :: "int list \<Rightarrow> int" where
  "first_difference [] = 0"
| "first_difference (d # ds) = (if d \<noteq> 0 then d else first_difference ds)"

definition diagnostic_keys :: "plan_diagnostic \<Rightarrow> string list" where
  "diagnostic_keys d =
     [plan_code_text (pd_code d), over (dd_artifactName (pd_detail d)) [], over (dd_workItem (pd_detail d)) [],
      over (dd_path (pd_detail d)) [], pd_message d]"

definition compare_diagnostics ::
    "(string \<Rightarrow> string \<Rightarrow> int) \<Rightarrow> plan_diagnostic \<Rightarrow> plan_diagnostic \<Rightarrow> int" where
  "compare_diagnostics collate l r =
     (let bySeverity = severity_order (pd_severity l) - severity_order (pd_severity r)
      in if bySeverity \<noteq> 0 then bySeverity
         else first_difference (map2 collate (diagnostic_keys l) (diagnostic_keys r)))"

definition sortDiagnostics ::
    "(string \<Rightarrow> string \<Rightarrow> int) \<Rightarrow> plan_diagnostic list \<Rightarrow> plan_diagnostic list" where
  "sortDiagnostics collate ds = js_sort (compare_diagnostics collate) ds"

fun countBySeverity :: "plan_diagnostic list \<Rightarrow> nat \<times> nat" where
  "countBySeverity [] = (0, 0)"
| "countBySeverity (d # ds) =
     (let (e, w) = countBySeverity ds
      in case pd_severity d of Level_error \<Rightarrow> (e + 1, w) | Level_warning \<Rightarrow> (e, w + 1) | Level_info \<Rightarrow> (e, w))"

definition hasFatal :: "plan_diagnostic list \<Rightarrow> bool" where
  "hasFatal ds = (\<exists>d\<in>set ds. pd_severity d = Level_error)"

lemma hasFatal_simps [simp]:
  "\<not> hasFatal []" "hasFatal (d # ds) = (pd_severity d = Level_error \<or> hasFatal ds)"
  "hasFatal (ds @ es) = (hasFatal ds \<or> hasFatal es)"
  by (auto simp: hasFatal_def)

lemma errors_counted: "hasFatal ds \<longleftrightarrow> 0 < fst (countBySeverity ds)"
  by (induction ds) (auto simp: split_beta split: severity_level.splits)

text \<open>
  Whatever the collation, the sorted diagnostics stand in the order of their severities; so a
  cut of them keeps an error when there is one.
\<close>

lemma compared_severity:
  "compare_diagnostics collate l r \<le> 0 \<Longrightarrow> pd_severity l \<le> pd_severity r"
  "\<not> compare_diagnostics collate l r \<le> 0 \<Longrightarrow> pd_severity r \<le> pd_severity l"
  by (auto simp: compare_diagnostics_def less_eq_severity_level_def Let_def split: if_splits)

lemma insert_by_severity:
  "sorted (map pd_severity ys) \<Longrightarrow> sorted (map pd_severity (insert_by (compare_diagnostics collate) x ys))"
proof (induction ys)
  case (Cons y ys)
  have "set (insert_by (compare_diagnostics collate) x ys) = insert x (set ys)"
    using mset_insert_by [of "compare_diagnostics collate" x ys] by (metis set_mset_add_mset_insert set_mset_mset)
  with Cons compared_severity [of collate x y] show ?case by (auto intro: order_trans)
qed simp

lemma sorted_severities: "sorted (map pd_severity (sortDiagnostics collate ds))"
  unfolding sortDiagnostics_def js_sort_def by (induction ds) (simp_all add: insert_by_severity)

lemma sorted_error_first:
  assumes "hasFatal ds"
  shows "ds \<noteq> [] \<and> pd_severity (hd (sortDiagnostics collate ds)) = Level_error"
proof -
  from assms obtain d where "d \<in> set (sortDiagnostics collate ds)" "pd_severity d = Level_error"
    by (auto simp: hasFatal_def sortDiagnostics_def)
  with sorted_severities [of collate ds] assms show ?thesis
    by (cases "sortDiagnostics collate ds") fastforce+
qed

text \<open>
  The order compares neither the line nor the column: two diagnostics that differ in their
  position alone keep the order they were found in.
\<close>

lemma order_ignores_position:
  assumes "\<And>x. collate x x = 0"
  shows "compare_diagnostics collate d
    (d\<lparr>pd_detail := (pd_detail d)\<lparr>dd_line := line, dd_column := column\<rparr>\<rparr>) = 0"
  using assms by (simp add: compare_diagnostics_def diagnostic_keys_def)

lemma cut_keeps_error:
  assumes "0 < n"
  shows "hasFatal (take n (sortDiagnostics collate ds)) \<longleftrightarrow> hasFatal ds"
proof
  assume f: "hasFatal ds"
  from sorted_error_first [OF this, of collate] have "pd_severity (hd (sortDiagnostics collate ds)) = Level_error"
    and "ds \<noteq> []" by auto
  moreover from this(2) have "sortDiagnostics collate ds \<noteq> []"
    by (metis length_js_sort length_0_conv sortDiagnostics_def)
  ultimately show "hasFatal (take n (sortDiagnostics collate ds))"
    using assms by (cases "sortDiagnostics collate ds"; cases n) auto
next
  assume "hasFatal (take n (sortDiagnostics collate ds))"
  then show "hasFatal ds"
    by (auto simp: hasFatal_def sortDiagnostics_def dest!: in_set_takeD)
qed

end
