(* ===== verification/Plan_Digest.thy ===== *)
theory Plan_Digest
  imports Plan_Diagnostics "HOL-Library.Word"
begin

text \<open>
  The canonical digest of a plan bundle (\<open>packages/planning/src/digest.ts\<close>): the artifacts in
  an order of their own, every field with its length before it. Bytes are \<open>8 word\<close>; SHA-256 is
  a parameter. An accepted artifact's role, filename and media type are ASCII, whose UTF-8
  bytes are its characters. A length that does not fit its field throws: \<open>None\<close>.
\<close>

type_synonym bytes = "8 word list"

record digest_artifact =
  da_role :: string
  da_logicalFilename :: string
  da_mediaType :: string
  da_bytes :: bytes

section \<open>The encoding\<close>

fun big_endian :: "nat \<Rightarrow> nat \<Rightarrow> bytes" where
  "big_endian 0 n = []"
| "big_endian (Suc k) n = big_endian k (n div 256) @ [word_of_nat n]"

definition u32be :: "nat \<Rightarrow> bytes option" where
  "u32be n = (if n < 2 ^ 32 then Some (big_endian 4 n) else None)"

definition u64be :: "nat \<Rightarrow> bytes option" where
  "u64be n = (if n < 2 ^ 64 then Some (big_endian 8 n) else None)"

definition text_bytes :: "string \<Rightarrow> bytes" where
  "text_bytes s = map (\<lambda>c. word_of_nat (of_char c)) s"

definition prefixed :: "bytes option \<Rightarrow> bytes \<Rightarrow> bytes option" where
  "prefixed len b = map_option (\<lambda>l. l @ b) len"

definition lengthPrefixedText :: "string \<Rightarrow> bytes option" where
  "lengthPrefixedText v = prefixed (u32be (length (text_bytes v))) (text_bytes v)"

text \<open>\<open>Buffer.compare\<close>\<close>

fun compare_buffers :: "bytes \<Rightarrow> bytes \<Rightarrow> int" where
  "compare_buffers [] [] = 0"
| "compare_buffers [] (b # bs) = - 1"
| "compare_buffers (a # as) [] = 1"
| "compare_buffers (a # as) (b # bs) = (if a < b then - 1 else if b < a then 1 else compare_buffers as bs)"

definition compareBytes :: "string \<Rightarrow> string \<Rightarrow> int" where
  "compareBytes l r = compare_buffers (text_bytes l) (text_bytes r)"

definition compare_artifacts :: "digest_artifact \<Rightarrow> digest_artifact \<Rightarrow> int" where
  "compare_artifacts l r =
     (let byRole = compareBytes (da_role l) (da_role r)
      in if byRole \<noteq> 0 then byRole else compareBytes (da_logicalFilename l) (da_logicalFilename r))"

definition join_bytes :: "bytes option \<Rightarrow> bytes option \<Rightarrow> bytes option" where
  "join_bytes x y = (case (x, y) of (Some a, Some b) \<Rightarrow> Some (a @ b) | _ \<Rightarrow> None)"

definition artifact_bytes :: "digest_artifact \<Rightarrow> bytes option" where
  "artifact_bytes a =
     join_bytes (lengthPrefixedText (da_role a))
       (join_bytes (lengthPrefixedText (da_logicalFilename a))
         (join_bytes (lengthPrefixedText (da_mediaType a))
           (prefixed (u64be (length (da_bytes a))) (da_bytes a))))"

fun artifacts_bytes :: "digest_artifact list \<Rightarrow> bytes option" where
  "artifacts_bytes [] = Some []"
| "artifacts_bytes (a # as) = join_bytes (artifact_bytes a) (artifacts_bytes as)"

definition domain_separator :: string where
  "domain_separator = ''craftingtable-plan-bundle-digest-v1''"

definition digest_stream :: "digest_artifact list \<Rightarrow> bytes option" where
  "digest_stream as =
     (let ordered = js_sort compare_artifacts as
      in join_bytes (Some (text_bytes domain_separator @ [0]))
           (join_bytes (u32be (length ordered)) (artifacts_bytes ordered)))"

definition computeBundleDigest :: "(bytes \<Rightarrow> string) \<Rightarrow> digest_artifact list \<Rightarrow> string option" where
  "computeBundleDigest sha256 as = map_option sha256 (digest_stream as)"

section \<open>The encoding is injective\<close>

lemma length_big_endian [simp]: "length (big_endian k n) = k"
  by (induction k arbitrary: n) simp_all

lemma big_endian_inj:
  "big_endian k m = big_endian k n \<Longrightarrow> m < 256 ^ k \<Longrightarrow> n < 256 ^ k \<Longrightarrow> m = n"
proof (induction k arbitrary: m n)
  case (Suc k)
  from Suc.prems(1) have "big_endian k (m div 256) = big_endian k (n div 256)"
    and w: "(word_of_nat m :: 8 word) = word_of_nat n" by simp_all
  with Suc have "m div 256 = n div 256" by (simp add: less_mult_imp_div_less mult.commute)
  moreover have "m mod 256 = n mod 256"
    using arg_cong [OF w, of unat] by (simp add: unat_of_nat)
  ultimately show "m = n" by (metis div_mult_mod_eq)
qed simp

lemma word_char_inj: "(word_of_nat (of_char c) :: 8 word) = word_of_nat (of_char d) \<Longrightarrow> c = d"
proof -
  assume w: "(word_of_nat (of_char c) :: 8 word) = word_of_nat (of_char d)"
  have "(of_char c :: nat) mod 256 = of_char d mod 256"
    using arg_cong [OF w, of unat] by (simp add: unat_of_nat)
  then show "c = d" by simp
qed

lemma text_bytes_inj: "text_bytes s = text_bytes t \<longleftrightarrow> s = t"
  unfolding text_bytes_def using word_char_inj by (intro inj_map_eq_map injI)

text \<open>A field with its length before it can be told from whatever follows it.\<close>

lemma prefixed_unique:
  assumes "prefixed (u32be (length a)) a = Some x" "prefixed (u32be (length b)) b = Some y" "x @ r = y @ s"
  shows "a = b \<and> r = s"
proof -
  have x: "x = big_endian 4 (length a) @ a" "length a < 2 ^ 32" and y: "y = big_endian 4 (length b) @ b" "length b < 2 ^ 32"
    using assms(1,2) by (auto simp: prefixed_def u32be_def split: if_splits)
  from assms(3) x(1) y(1) have e: "big_endian 4 (length a) = big_endian 4 (length b) \<and> a @ r = b @ s"
    by simp
  with x(2) y(2) have "length a = length b" by (intro big_endian_inj [of 4]) auto
  with e show ?thesis by simp
qed

lemma prefixed64_unique:
  assumes "prefixed (u64be (length a)) a = Some x" "prefixed (u64be (length b)) b = Some y" "x @ r = y @ s"
  shows "a = b \<and> r = s"
proof -
  have x: "x = big_endian 8 (length a) @ a" "length a < 2 ^ 64" and y: "y = big_endian 8 (length b) @ b" "length b < 2 ^ 64"
    using assms(1,2) by (auto simp: prefixed_def u64be_def split: if_splits)
  from assms(3) x(1) y(1) have e: "big_endian 8 (length a) = big_endian 8 (length b) \<and> a @ r = b @ s"
    by simp
  with x(2) y(2) have "length a = length b" by (intro big_endian_inj [of 8]) auto
  with e show ?thesis by simp
qed

lemma text_unique:
  assumes "lengthPrefixedText s = Some x" "lengthPrefixedText t = Some y" "x @ r = y @ r'"
  shows "s = t \<and> r = r'"
  using prefixed_unique [of "text_bytes s" x "text_bytes t" y r r'] assms text_bytes_inj
  by (simp add: lengthPrefixedText_def)

lemma join_bytes_Some: "join_bytes x y = Some z \<longleftrightarrow> (\<exists>a b. x = Some a \<and> y = Some b \<and> z = a @ b)"
  by (auto simp: join_bytes_def split: option.splits)

lemma artifact_unique:
  assumes "artifact_bytes a = Some x" "artifact_bytes b = Some y" "x @ r = y @ s"
  shows "a = b \<and> r = s"
proof -
  obtain x1 x2 x3 x4 where x: "lengthPrefixedText (da_role a) = Some x1" "lengthPrefixedText (da_logicalFilename a) = Some x2"
    "lengthPrefixedText (da_mediaType a) = Some x3" "prefixed (u64be (length (da_bytes a))) (da_bytes a) = Some x4"
    "x = x1 @ x2 @ x3 @ x4" using assms(1) by (auto simp: artifact_bytes_def join_bytes_Some)
  obtain y1 y2 y3 y4 where y: "lengthPrefixedText (da_role b) = Some y1" "lengthPrefixedText (da_logicalFilename b) = Some y2"
    "lengthPrefixedText (da_mediaType b) = Some y3" "prefixed (u64be (length (da_bytes b))) (da_bytes b) = Some y4"
    "y = y1 @ y2 @ y3 @ y4" using assms(2) by (auto simp: artifact_bytes_def join_bytes_Some)
  have "x1 @ x2 @ x3 @ x4 @ r = y1 @ y2 @ y3 @ y4 @ s" using assms(3) x(5) y(5) by simp
  from text_unique [OF x(1) y(1) this] have r: "da_role a = da_role b" "x2 @ x3 @ x4 @ r = y2 @ y3 @ y4 @ s" by auto
  from text_unique [OF x(2) y(2) r(2)] have f: "da_logicalFilename a = da_logicalFilename b" "x3 @ x4 @ r = y3 @ y4 @ s" by auto
  from text_unique [OF x(3) y(3) f(2)] have m: "da_mediaType a = da_mediaType b" "x4 @ r = y4 @ s" by auto
  from prefixed64_unique [OF x(4) y(4) m(2)] r f m show ?thesis by simp
qed

lemma artifacts_unique:
  "artifacts_bytes as = Some x \<Longrightarrow> artifacts_bytes bs = Some x \<Longrightarrow> length as = length bs \<Longrightarrow> as = bs"
proof (induction as arbitrary: bs x)
  case (Cons a as)
  then obtain b bs' where bs: "bs = b # bs'" by (cases bs) auto
  from Cons.prems bs obtain x1 x2 y1 y2 where "artifact_bytes a = Some x1" "artifacts_bytes as = Some x2" "x = x1 @ x2"
    "artifact_bytes b = Some y1" "artifacts_bytes bs' = Some y2" "x = y1 @ y2"
    by (auto simp: join_bytes_Some)
  with artifact_unique [of a x1 b y1 x2 y2] Cons.IH [of x2 bs'] Cons.prems(3) bs show ?case by simp
qed simp

lemma stream_unique:
  assumes "digest_stream as = Some x" "digest_stream bs = Some x"
  shows "js_sort compare_artifacts as = js_sort compare_artifacts bs"
proof -
  obtain l1 s1 where x: "u32be (length as) = Some l1" "artifacts_bytes (js_sort compare_artifacts as) = Some s1"
    "x = (text_bytes domain_separator @ [0]) @ l1 @ s1"
    using assms(1) by (auto simp: digest_stream_def Let_def join_bytes_Some)
  obtain l2 s2 where y: "u32be (length bs) = Some l2" "artifacts_bytes (js_sort compare_artifacts bs) = Some s2"
    "x = (text_bytes domain_separator @ [0]) @ l2 @ s2"
    using assms(2) by (auto simp: digest_stream_def Let_def join_bytes_Some)
  have l: "l1 = big_endian 4 (length as)" "length as < 2 ^ 32" "l2 = big_endian 4 (length bs)" "length bs < 2 ^ 32"
    using x(1) y(1) by (auto simp: u32be_def split: if_splits)
  from x(3) y(3) have "l1 @ s1 = l2 @ s2" by simp
  with l have "l1 = l2" "s1 = s2" by simp_all
  moreover have "length as = length bs" using l \<open>l1 = l2\<close> by (intro big_endian_inj [of 4]) auto
  ultimately show ?thesis using artifacts_unique [OF x(2)] y(2) by simp
qed

section \<open>The order is one of bytes\<close>

lemma compare_buffers_values: "compare_buffers a b = - 1 \<or> compare_buffers a b = 0 \<or> compare_buffers a b = 1"
  by (induction a b rule: compare_buffers.induct) auto

lemma compare_buffers_swap: "compare_buffers b a = - compare_buffers a b"
  by (induction a b rule: compare_buffers.induct) auto

lemma compare_buffers_zero: "compare_buffers a b = 0 \<longleftrightarrow> a = b"
  by (induction a b rule: compare_buffers.induct) auto

lemma compare_buffers_trans: "compare_buffers a b \<le> 0 \<Longrightarrow> compare_buffers b c \<le> 0 \<Longrightarrow> compare_buffers a c \<le> 0"
proof (induction a b arbitrary: c rule: compare_buffers.induct)
  case (2 b bs)
  then show ?case by (cases c) auto
next
  case (4 a as b bs)
  then show ?case by (cases c) (auto split: if_splits)
qed (auto split: if_splits)

lemma compareBytes_zero: "compareBytes l r = 0 \<longleftrightarrow> l = r"
  by (simp add: compareBytes_def compare_buffers_zero text_bytes_inj)

lemma compareBytes_swap: "compareBytes r l = - compareBytes l r"
  unfolding compareBytes_def by (rule compare_buffers_swap)

lemma compareBytes_trans:
  "compareBytes l m \<le> 0 \<Longrightarrow> compareBytes m r \<le> 0 \<Longrightarrow> compareBytes l r \<le> 0"
  unfolding compareBytes_def by (rule compare_buffers_trans)

interpretation names: comparator compareBytes "\<lambda>_. True"
proof
  fix x y assume "0 < compareBytes x y"
  with compareBytes_swap [of y x] show "compareBytes y x \<le> 0" by simp
qed (rule compareBytes_trans)

lemma compare_artifacts_le:
  "compare_artifacts x y \<le> 0 \<longleftrightarrow> compareBytes (da_role x) (da_role y) < 0
     \<or> (da_role x = da_role y \<and> compareBytes (da_logicalFilename x) (da_logicalFilename y) \<le> 0)"
  using compareBytes_zero [of "da_role x" "da_role y"] by (auto simp: compare_artifacts_def Let_def)

lemma compareBytes_strict:
  assumes "compareBytes l m < 0" "compareBytes m r \<le> 0"
  shows "compareBytes l r < 0"
proof (rule ccontr)
  assume "\<not> compareBytes l r < 0"
  moreover have "compareBytes l r \<le> 0" using assms by (intro compareBytes_trans [of l m r]) auto
  ultimately have "compareBytes l r = 0" by simp
  then have "l = r" by (simp add: compareBytes_zero)
  with assms compareBytes_swap [of l m] show False by simp
qed

interpretation artifacts: comparator compare_artifacts "\<lambda>_. True"
proof
  fix x y assume "0 < compare_artifacts x y"
  then have "\<not> compare_artifacts x y \<le> 0" by simp
  then show "compare_artifacts y x \<le> 0"
    unfolding compare_artifacts_le
    using compareBytes_swap [of "da_role x" "da_role y"] compareBytes_zero [of "da_role x" "da_role y"]
      compareBytes_swap [of "da_logicalFilename x" "da_logicalFilename y"] by auto
next
  fix x y z assume "compare_artifacts x y \<le> 0" "compare_artifacts y z \<le> 0"
  then show "compare_artifacts x z \<le> 0"
    unfolding compare_artifacts_le
    using compareBytes_strict [of "da_role x" "da_role y" "da_role z"]
      compareBytes_trans [of "da_logicalFilename x" "da_logicalFilename y" "da_logicalFilename z"] by auto
qed

definition artifact_name :: "digest_artifact \<Rightarrow> string \<times> string" where
  "artifact_name a = (da_role a, da_logicalFilename a)"

lemma compareBytes_antisym: "compareBytes l r \<le> 0 \<Longrightarrow> compareBytes r l \<le> 0 \<Longrightarrow> l = r"
  using compareBytes_swap [of r l] compareBytes_zero [of l r] by linarith

lemma compared_equal:
  assumes "compare_artifacts x y \<le> 0" "compare_artifacts y x \<le> 0"
  shows "artifact_name x = artifact_name y"
proof -
  have "compareBytes (da_role x) (da_role y) < 0 \<Longrightarrow> \<not> compareBytes (da_role y) (da_role x) < 0"
    using compareBytes_swap [of "da_role x" "da_role y"] by linarith
  then have "da_role x = da_role y" "compareBytes (da_logicalFilename x) (da_logicalFilename y) \<le> 0"
    "compareBytes (da_logicalFilename y) (da_logicalFilename x) \<le> 0"
    using assms compareBytes_zero [of "da_role x" "da_role x"] unfolding compare_artifacts_le by metis+
  with compareBytes_antisym show ?thesis by (simp add: artifact_name_def)
qed

lemma same_order:
  assumes "mset as = mset bs" "distinct (map artifact_name as)"
  shows "js_sort compare_artifacts as = js_sort compare_artifacts bs"
proof (rule artifacts.js_sort_canonical [OF assms(1)])
  fix x y assume "x \<in> set as" "y \<in> set as" "compare_artifacts x y \<le> 0" "compare_artifacts y x \<le> 0"
  with compared_equal assms(2) show "x = y" by (meson distinct_map inj_onD)
qed simp

end
