(* ===== verification/Plan_Archive.thy ===== *)
theory Plan_Archive
  imports Plan_Digest
begin

text \<open>
  The bounded ZIP reader (\<open>packages/planning/src/archive.ts\<close>): the records of an archive are read
  from its bytes, checked against each other and against the limits, and never extracted. A read
  outside the buffer is \<open>Out_of_range\<close>, Node's \<open>RangeError\<close>; offsets are natural numbers, which
  JavaScript's stay exactly, and the checksum works on 32-bit words. Inflation, SHA-256, UTF-8
  decoding and Unicode normalization are parameters.
\<close>

unbundle bit_operations_syntax

section \<open>Attempts\<close>

datatype archive_error = Archive_error string string | Out_of_range

type_synonym 'a attempt = "archive_error + 'a"

definition and_do :: "'a attempt \<Rightarrow> ('a \<Rightarrow> 'b attempt) \<Rightarrow> 'b attempt" where
  "and_do m f = (case m of Inl e \<Rightarrow> Inl e | Inr x \<Rightarrow> f x)"

definition zip_fail :: "string \<Rightarrow> 'a attempt" where
  "zip_fail message = Inl (Archive_error ''invalid-archive'' message)"

definition require :: "bool \<Rightarrow> string \<Rightarrow> unit attempt" where
  "require ok message = (if ok then Inr () else zip_fail message)"

section \<open>Limits and paths\<close>

definition max_compressed_bytes :: nat where "max_compressed_bytes = 8388608"
definition max_expanded_bytes :: nat where "max_expanded_bytes = 33554432"
definition max_entry_bytes :: nat where "max_entry_bytes = 2097152"
definition max_entries :: nat where "max_entries = 512"
definition max_path_length :: nat where "max_path_length = 400"

lemmas archive_limits =
  max_compressed_bytes_def max_expanded_bytes_def max_entry_bytes_def max_entries_def max_path_length_def

record archive_entry =
  ae_path :: string
  ae_bytes :: bytes
  ae_sha256 :: string

record archive_library =
  al_inflate :: "bytes \<Rightarrow> nat \<Rightarrow> bytes option" \<comment> \<open>\<open>inflateRawSync\<close> within a length, \<open>None\<close> when it throws\<close>
  al_sha256 :: "bytes \<Rightarrow> string"
  al_utf8 :: "bytes \<Rightarrow> string option" \<comment> \<open>the fatal decoder, \<open>None\<close> when it throws\<close>
  al_nfc :: "string \<Rightarrow> string"

fun split_on :: "char \<Rightarrow> string \<Rightarrow> string list" where
  "split_on c [] = [[]]"
| "split_on c (x # xs) =
     (if x = c then [] # split_on c xs
      else case split_on c xs of [] \<Rightarrow> [[x]] | p # ps \<Rightarrow> (x # p) # ps)"

definition control_character :: "char \<Rightarrow> bool" where
  "control_character c = ((of_char c :: nat) < 32 \<or> (of_char c :: nat) = 127)"

definition safe_part :: "string \<Rightarrow> bool" where
  "safe_part p = (p \<noteq> [] \<and> p \<noteq> ''.'' \<and> p \<noteq> ''..'' \<and> js_trim p = p)"

definition safeArchivePath :: "string \<Rightarrow> bool" where
  "safeArchivePath path =
     (path \<noteq> [] \<and> length path \<le> max_path_length \<and> CHR 0x5C \<notin> set path \<and> CHR '':'' \<notin> set path
      \<and> \<not> list_ex control_character path \<and> \<not> starts_with ''/'' path
      \<and> list_all safe_part (split_on (CHR ''/'') path))"

section \<open>The checksum\<close>

definition crc_step :: "32 word \<Rightarrow> 32 word" where
  "crc_step v = (if bit v 0 then 0xEDB88320 XOR drop_bit 1 v else drop_bit 1 v)"

definition crcTable :: "32 word list" where
  "crcTable = map (\<lambda>n. (crc_step ^^ 8) (word_of_nat n)) [0..<256]"

definition crc_byte :: "32 word \<Rightarrow> 8 word \<Rightarrow> 32 word" where
  "crc_byte crc b = crcTable ! unat ((crc XOR ucast b) AND 0xFF) XOR drop_bit 8 crc"

definition crc32 :: "bytes \<Rightarrow> 32 word" where
  "crc32 bs = foldl crc_byte 0xFFFFFFFF bs XOR 0xFFFFFFFF"

definition decodeUtf8 :: "archive_library \<Rightarrow> bytes \<Rightarrow> string attempt" where
  "decodeUtf8 lib bs =
     (case al_utf8 lib bs of
        None \<Rightarrow> Inl (Archive_error ''invalid-utf8'' ''A planning document is not valid UTF-8.'')
      | Some t \<Rightarrow> Inr t)"

section \<open>Reading the buffer\<close>

definition need :: "bytes \<Rightarrow> nat \<Rightarrow> nat \<Rightarrow> unit attempt" where
  "need d offset n = require (offset + n \<le> length d) ''ZIP contains truncated records.''"

definition u16 :: "bytes \<Rightarrow> nat \<Rightarrow> nat" where
  "u16 d i = unat (d ! i) + 256 * unat (d ! (i + 1))"

definition u32 :: "bytes \<Rightarrow> nat \<Rightarrow> nat" where
  "u32 d i = u16 d i + 65536 * u16 d (i + 2)"

definition readUInt16LE :: "bytes \<Rightarrow> nat \<Rightarrow> nat attempt" where
  "readUInt16LE d i = (if i + 2 \<le> length d then Inr (u16 d i) else Inl Out_of_range)"

definition readUInt32LE :: "bytes \<Rightarrow> nat \<Rightarrow> nat attempt" where
  "readUInt32LE d i = (if i + 4 \<le> length d then Inr (u32 d i) else Inl Out_of_range)"

definition subarray :: "bytes \<Rightarrow> nat \<Rightarrow> nat \<Rightarrow> bytes" where
  "subarray d i n = take n (drop i d)"

section \<open>The end record\<close>

definition ends_at :: "bytes \<Rightarrow> nat \<Rightarrow> bool attempt" where
  "ends_at d i =
     and_do (readUInt32LE d i) (\<lambda>signature.
       if signature \<noteq> 0x06054b50 then Inr False
       else and_do (readUInt16LE d (i + 20)) (\<lambda>comment. Inr (i + 22 + comment = length d)))"

text \<open>From the last place the record fits down to the first its comment's length allows.\<close>

fun find_end :: "bytes \<Rightarrow> nat \<Rightarrow> nat \<Rightarrow> nat option attempt" where
  "find_end d lowest 0 = Inr None"
| "find_end d lowest (Suc n) =
     and_do (ends_at d (lowest + n)) (\<lambda>here.
       if here then Inr (Some (lowest + n)) else find_end d lowest n)"

definition end_record :: "bytes \<Rightarrow> nat option attempt" where
  "end_record d = (let lowest = length d - 65557 in find_end d lowest (length d - 21 - lowest))"

section \<open>A central record\<close>

record central_record =
  zc_flags :: nat
  zc_method :: nat
  zc_crc :: nat
  zc_compressed :: nat
  zc_size :: nat
  zc_nameSize :: nat
  zc_extraSize :: nat
  zc_commentSize :: nat
  zc_mode :: nat
  zc_offset :: nat

text \<open>The bits of a 16-bit field.\<close>

definition has_bits :: "nat \<Rightarrow> 16 word \<Rightarrow> bool" where
  "has_bits flags bits = ((word_of_nat flags :: 16 word) AND bits \<noteq> 0)"

definition read_central :: "bytes \<Rightarrow> nat \<Rightarrow> central_record attempt" where
  "read_central d cursor =
     and_do (need d cursor 46) (\<lambda>_.
     and_do (readUInt32LE d cursor) (\<lambda>signature.
     and_do (require (signature = 0x02014b50) ''Invalid ZIP central record.'') (\<lambda>_.
     and_do (readUInt16LE d (cursor + 8)) (\<lambda>flags.
     and_do (readUInt16LE d (cursor + 10)) (\<lambda>compression.
     and_do (readUInt32LE d (cursor + 16)) (\<lambda>crc.
     and_do (readUInt32LE d (cursor + 20)) (\<lambda>compressed.
     and_do (readUInt32LE d (cursor + 24)) (\<lambda>size.
     and_do (readUInt16LE d (cursor + 28)) (\<lambda>nameSize.
     and_do (readUInt16LE d (cursor + 30)) (\<lambda>extraSize.
     and_do (readUInt16LE d (cursor + 32)) (\<lambda>commentSize.
     and_do (readUInt32LE d (cursor + 38)) (\<lambda>attributes.
     and_do (readUInt32LE d (cursor + 42)) (\<lambda>offset.
     and_do (readUInt16LE d (cursor + 34)) (\<lambda>disk.
     and_do (require (\<not> has_bits flags (NOT 0x080E) \<and> compression \<in> {0, 8} \<and> disk = 0)
        ''Encrypted ZIPs or this compression format are unsupported.'') (\<lambda>_.
     and_do (require (0xFFFFFFFF \<notin> {compressed, size, offset}) ''ZIP64 is unsupported.'') (\<lambda>_.
     and_do (need d (cursor + 46) (nameSize + extraSize + commentSize)) (\<lambda>_.
     Inr \<lparr>zc_flags = flags, zc_method = compression, zc_crc = crc, zc_compressed = compressed, zc_size = size,
       zc_nameSize = nameSize, zc_extraSize = extraSize, zc_commentSize = commentSize,
       zc_mode = attributes div 65536, zc_offset = offset\<rparr>)))))))))))))))))"

text \<open>The raw name, the path it stands for, and whether it is a directory.\<close>

definition read_name :: "archive_library \<Rightarrow> bytes \<Rightarrow> nat \<Rightarrow> central_record \<Rightarrow> (bytes \<times> string \<times> bool) attempt" where
  "read_name lib d cursor z =
     (let raw = subarray d (cursor + 46) (zc_nameSize z) in
      and_do (require (has_bits (zc_flags z) 0x800 \<or> \<not> list_ex (\<lambda>b. 127 < b) raw)
        ''Non-ASCII ZIP names must declare UTF-8.'') (\<lambda>_.
      and_do (decodeUtf8 lib raw) (\<lambda>name.
        let directory = (name \<noteq> [] \<and> last name = CHR ''/'');
            path = (if directory then butlast name else name)
        in and_do (require (safeArchivePath path \<and> path = al_nfc lib path)
             (''Unsafe archive path: '' @ js_slice 100 path)) (\<lambda>_. Inr (raw, path, directory)))))"

section \<open>A local record and its content\<close>

definition local_sizes_agree :: "bytes \<Rightarrow> nat \<Rightarrow> central_record \<Rightarrow> bool attempt" where
  "local_sizes_agree d at z =
     and_do (readUInt32LE d at) (\<lambda>crc.
     and_do (readUInt32LE d (at + 4)) (\<lambda>compressed.
     and_do (readUInt32LE d (at + 8)) (\<lambda>size.
     Inr (crc = zc_crc z \<and> compressed = zc_compressed z \<and> size = zc_size z))))"

definition data_descriptor :: "bytes \<Rightarrow> central_record \<Rightarrow> nat \<Rightarrow> nat attempt" where
  "data_descriptor d z dataEnd =
     (if \<not> has_bits (zc_flags z) 8 then Inr dataEnd
      else and_do (need d dataEnd 12) (\<lambda>_.
        and_do (readUInt32LE d dataEnd) (\<lambda>signature.
        let descriptor = (if signature = 0x08074b50 then dataEnd + 4 else dataEnd) in
        and_do (need d descriptor 12) (\<lambda>_.
        and_do (local_sizes_agree d descriptor z) (\<lambda>agree.
        and_do (require agree ''ZIP data descriptor disagrees.'') (\<lambda>_. Inr (descriptor + 12)))))))"

text \<open>Where the content starts, and where the record ends.\<close>

definition read_local :: "bytes \<Rightarrow> nat \<Rightarrow> central_record \<Rightarrow> bytes \<Rightarrow> (nat \<times> nat) attempt" where
  "read_local d centralStart z raw =
     (let offset = zc_offset z in
      and_do (need d offset 30) (\<lambda>_.
      and_do (require (offset < centralStart) ''Invalid ZIP local record.'') (\<lambda>_.
      and_do (readUInt32LE d offset) (\<lambda>signature.
      and_do (require (signature = 0x04034b50) ''Invalid ZIP local record.'') (\<lambda>_.
      and_do (readUInt16LE d (offset + 26)) (\<lambda>nameSize.
      and_do (readUInt16LE d (offset + 28)) (\<lambda>extraSize.
      and_do (need d (offset + 30) (nameSize + extraSize)) (\<lambda>_.
      and_do (readUInt16LE d (offset + 6)) (\<lambda>flags.
      and_do (readUInt16LE d (offset + 8)) (\<lambda>compression.
      and_do (require (flags = zc_flags z \<and> compression = zc_method z
          \<and> subarray d (offset + 30) nameSize = raw) ''ZIP local and central records disagree.'') (\<lambda>_.
      and_do (if has_bits (zc_flags z) 8 then Inr True else local_sizes_agree d (offset + 14) z) (\<lambda>agree.
      and_do (require agree ''ZIP local sizes or checksum disagree.'') (\<lambda>_.
      let start = offset + 30 + nameSize + extraSize in
      and_do (data_descriptor d z (start + zc_compressed z)) (\<lambda>rangeEnd.
      and_do (require (rangeEnd \<le> centralStart) ''ZIP entries overlap the central directory.'') (\<lambda>_.
      and_do (need d start (zc_compressed z)) (\<lambda>_. Inr (start, rangeEnd)))))))))))))))))"

definition unpack :: "archive_library \<Rightarrow> bytes \<Rightarrow> central_record \<Rightarrow> nat \<Rightarrow> bytes option" where
  "unpack lib d z start =
     (let stored = subarray d start (zc_compressed z)
      in if zc_method z = 0 then Some stored else al_inflate lib stored (max 1 (zc_size z)))"

section \<open>The entries\<close>

record archive_state =
  as_entries :: "archive_entry list"
  as_names :: "string list"
  as_ranges :: "(nat \<times> nat) list"
  as_expanded :: nat
  as_cursor :: nat

definition file_type_ok :: "nat \<Rightarrow> bool \<Rightarrow> bool" where
  "file_type_ok mode directory =
     (let fileType = (word_of_nat mode :: 16 word) AND 0xF000
      in fileType = 0 \<or> fileType = (if directory then 0x4000 else 0x8000))"

definition within_limits :: "nat \<Rightarrow> nat \<Rightarrow> bool" where
  "within_limits n expanded = (n \<le> max_entry_bytes \<and> expanded + n \<le> max_expanded_bytes)"

definition overlaps :: "nat \<times> nat \<Rightarrow> nat \<times> nat \<Rightarrow> bool" where
  "overlaps r s = (fst r < snd s \<and> fst s < snd r)"

definition read_content ::
    "archive_library \<Rightarrow> bytes \<Rightarrow> central_record \<Rightarrow> string \<Rightarrow> bool \<Rightarrow> nat \<Rightarrow> bytes attempt" where
  "read_content lib d z path directory start =
     (case unpack lib d z start of
        None \<Rightarrow> zip_fail (''Invalid or oversized compressed entry: '' @ path)
      | Some content \<Rightarrow>
          and_do (require (length content = zc_size z \<and> unat (crc32 content) = zc_crc z
              \<and> (directory \<longrightarrow> zc_size z = 0)) (''ZIP size/checksum mismatch: '' @ path)) (\<lambda>_. Inr content))"

definition read_entry ::
    "archive_library \<Rightarrow> bytes \<Rightarrow> nat \<Rightarrow> archive_state \<Rightarrow> archive_state attempt" where
  "read_entry lib d centralStart s =
     and_do (read_central d (as_cursor s)) (\<lambda>z.
     and_do (read_name lib d (as_cursor s) z) (\<lambda>(raw, path, directory).
     and_do (require (js_lower path \<notin> set (as_names s)) (''Duplicate archive path: '' @ path)) (\<lambda>_.
     and_do (require (file_type_ok (zc_mode z) directory)
       (''Links or special files are unsupported: '' @ path)) (\<lambda>_.
     and_do (require (within_limits (zc_size z) (as_expanded s))
       ''ZIP exceeds the 2 MiB entry or 32 MiB expanded limit.'') (\<lambda>_.
     and_do (read_local d centralStart z raw) (\<lambda>(start, rangeEnd).
     and_do (require (\<not> list_ex (overlaps (zc_offset z, rangeEnd)) (as_ranges s)) ''ZIP entries overlap.'') (\<lambda>_.
     and_do (read_content lib d z path directory start) (\<lambda>content.
     Inr \<lparr>as_entries = (if directory then as_entries s
            else as_entries s @ [\<lparr>ae_path = path, ae_bytes = content, ae_sha256 = al_sha256 lib content\<rparr>]),
       as_names = js_lower path # as_names s,
       as_ranges = as_ranges s @ [(zc_offset z, rangeEnd)],
       as_expanded = as_expanded s + zc_size z,
       as_cursor = as_cursor s + 46 + zc_nameSize z + zc_extraSize z + zc_commentSize z\<rparr>))))))))"

fun read_entries ::
    "archive_library \<Rightarrow> bytes \<Rightarrow> nat \<Rightarrow> nat \<Rightarrow> archive_state \<Rightarrow> archive_state attempt" where
  "read_entries lib d centralStart 0 s = Inr s"
| "read_entries lib d centralStart (Suc n) s =
     and_do (read_entry lib d centralStart s) (read_entries lib d centralStart n)"

text \<open>The directories a path lies in.\<close>

definition directories_of :: "string \<Rightarrow> string list" where
  "directories_of path =
     (let parts = split_on (CHR ''/'') (js_lower path)
      in map (\<lambda>k. js_join ''/'' (take k parts)) (rev [1..<length parts]))"

definition file_as_directory :: "archive_entry list \<Rightarrow> bool" where
  "file_as_directory es =
     list_ex (\<lambda>e. list_ex (\<lambda>dir. dir \<in> set (map (\<lambda>x. js_lower (ae_path x)) es)) (directories_of (ae_path e))) es"

definition start_state :: "nat \<Rightarrow> archive_state" where
  "start_state centralStart =
     \<lparr>as_entries = [], as_names = [], as_ranges = [], as_expanded = 0, as_cursor = centralStart\<rparr>"

definition readArchive :: "archive_library \<Rightarrow> bytes \<Rightarrow> archive_entry list attempt" where
  "readArchive lib d =
     and_do (require (length d \<le> max_compressed_bytes) ''ZIP exceeds the 8 MiB upload limit.'') (\<lambda>_.
     and_do (end_record d) (\<lambda>found.
     case found of
       None \<Rightarrow> zip_fail ''ZIP end record is missing.''
     | Some eor \<Rightarrow>
         and_do (readUInt16LE d (eor + 4)) (\<lambda>disk.
         and_do (readUInt16LE d (eor + 6)) (\<lambda>directoryDisk.
         and_do (require (disk = 0 \<and> directoryDisk = 0) ''Multi-disk ZIPs are unsupported.'') (\<lambda>_.
         and_do (readUInt16LE d (eor + 10)) (\<lambda>records.
         and_do (readUInt32LE d (eor + 12)) (\<lambda>centralSize.
         and_do (readUInt32LE d (eor + 16)) (\<lambda>centralStart.
         and_do (readUInt16LE d (eor + 8)) (\<lambda>diskCount.
         and_do (require (records \<noteq> 0 \<and> records \<le> max_entries \<and> records = diskCount)
           ''ZIP entry count is invalid or exceeds 512.'') (\<lambda>_.
         and_do (require (centralSize \<noteq> 0xFFFFFFFF \<and> centralStart \<noteq> 0xFFFFFFFF \<and> centralStart + centralSize = eor)
           ''ZIP64 or inconsistent central directory is unsupported.'') (\<lambda>_.
         and_do (need d centralStart centralSize) (\<lambda>_.
         and_do (read_entries lib d centralStart records (start_state centralStart)) (\<lambda>s.
         and_do (require (as_cursor s = eor) ''ZIP central directory length is inconsistent.'') (\<lambda>_.
         and_do (require (\<not> file_as_directory (as_entries s)) ''A ZIP file is also used as a directory.'') (\<lambda>_.
         Inr (as_entries s))))))))))))))))"

section \<open>The table computes the checksum bit by bit\<close>

lemma crc_step_xor: "crc_step (a XOR b) = crc_step a XOR crc_step b"
  by (simp add: crc_step_def bit_xor_iff ac_simps)

lemma crc_steps_xor: "(crc_step ^^ k) (a XOR b) = (crc_step ^^ k) a XOR (crc_step ^^ k) b"
  by (induction k) (simp_all add: crc_step_xor)

text \<open>Zero bits are shifted out.\<close>

lemma crc_steps_shift: "(\<And>i. i < k \<Longrightarrow> \<not> bit v i) \<Longrightarrow> (crc_step ^^ k) v = drop_bit k v"
proof (induction k)
  case (Suc k)
  have "(crc_step ^^ Suc k) v = crc_step (drop_bit k v)" using Suc by simp
  also have "\<dots> = drop_bit (Suc k) v" using Suc.prems [of k] by (simp add: crc_step_def bit_drop_bit_eq)
  finally show ?case .
qed simp

lemma low_byte_index: "unat (v AND 0xFF :: 32 word) < 256"
proof -
  have "v AND 0xFF \<le> (0xFF :: 32 word)" by (rule word_and_le1)
  then show ?thesis by (simp add: word_le_nat_alt)
qed

lemma crc_byte_steps: "crc_byte crc b = (crc_step ^^ 8) (crc XOR ucast b)"
proof -
  let ?v = "crc XOR ucast b :: 32 word"
  have table: "crcTable ! unat (?v AND 0xFF) = (crc_step ^^ 8) (?v AND 0xFF)"
    using low_byte_index [of ?v] by (simp add: crcTable_def)
  have m: "NOT 0xFF = (NOT (mask 8) :: 32 word)" by (simp add: mask_eq_exp_minus_1)
  have low: "bit (?v AND NOT 0xFF) i \<longleftrightarrow> bit ?v i \<and> 8 \<le> i" for i
    unfolding m by (auto simp: bit_and_iff bit_not_iff bit_mask_iff dest: bit_imp_le_length)
  then have "(crc_step ^^ 8) (?v AND NOT 0xFF) = drop_bit 8 (?v AND NOT 0xFF)"
    by (intro crc_steps_shift) simp
  also have "\<dots> = drop_bit 8 crc"
  proof (rule bit_eqI)
    fix n
    have "\<not> bit b (8 + n)" by (auto dest: bit_imp_le_length)
    then show "bit (drop_bit 8 (?v AND NOT 0xFF)) n \<longleftrightarrow> bit (drop_bit 8 crc) n"
      unfolding bit_drop_bit_eq comp_def low by (simp add: bit_xor_iff bit_ucast_iff)
  qed
  finally have high: "(crc_step ^^ 8) (?v AND NOT 0xFF) = drop_bit 8 crc" .
  have "w = (w AND m) XOR (w AND NOT m)" for w m :: "32 word"
    by (rule bit_eqI) (auto simp: bit_and_iff bit_not_iff bit_xor_iff)
  then have "(crc_step ^^ 8) ?v = (crc_step ^^ 8) (?v AND 0xFF) XOR (crc_step ^^ 8) (?v AND NOT 0xFF)"
    by (subst crc_steps_xor [symmetric]) (rule arg_cong)
  with table high show ?thesis by (simp add: crc_byte_def)
qed

text \<open>The reflected CRC-32 of the bytes, a bit at a time.\<close>

definition crc_bitwise :: "bytes \<Rightarrow> 32 word" where
  "crc_bitwise bs = NOT (foldl (\<lambda>crc b. (crc_step ^^ 8) (crc XOR ucast b)) (NOT 0) bs)"

lemma xor_cancel: "x XOR y = x XOR z \<longleftrightarrow> y = z" "y XOR x = z XOR x \<longleftrightarrow> y = z" for x y z :: "32 word"
proof -
  have twice: "x XOR (x XOR w) = w" for w by (simp flip: xor.assoc)
  show "x XOR y = x XOR z \<longleftrightarrow> y = z" by (metis twice)
  then show "y XOR x = z XOR x \<longleftrightarrow> y = z" by (simp add: xor.commute [of _ x])
qed

lemma crc_step_inj: "crc_step a = crc_step b \<longleftrightarrow> a = b"
proof
  assume eq: "crc_step a = crc_step b"
  have top: "bit (crc_step v) 31 \<longleftrightarrow> bit v 0" for v :: "32 word"
    by (auto simp: crc_step_def bit_xor_iff bit_drop_bit_eq dest: bit_imp_le_length)
  from eq have low: "bit a 0 \<longleftrightarrow> bit b 0" by (simp flip: top)
  with eq have shifted: "drop_bit 1 a = drop_bit 1 b"
    by (auto simp: crc_step_def xor_cancel split: if_splits)
  show "a = b"
  proof (rule bit_eqI)
    fix n assume "possible_bit TYPE(32 word) n"
    show "bit a n \<longleftrightarrow> bit b n"
      using low arg_cong [OF shifted, of "\<lambda>w. bit w (n - 1)"] by (cases n) (simp_all add: bit_drop_bit_eq)
  qed
qed simp

lemma crc_steps_inj: "(crc_step ^^ k) a = (crc_step ^^ k) b \<longleftrightarrow> a = b"
  by (induction k) (simp_all add: crc_step_inj)

lemma ucast_byte_inj: "(ucast (a :: 8 word) :: 32 word) = ucast b \<longleftrightarrow> a = b"
  by transfer (simp add: min_def)

lemma crc_byte_inj:
  "crc_byte c a = crc_byte c b \<longleftrightarrow> a = b" "crc_byte c a = crc_byte e a \<longleftrightarrow> c = e"
proof -
  show "crc_byte c a = crc_byte c b \<longleftrightarrow> a = b"
    by (simp add: crc_byte_steps crc_steps_inj xor_cancel ucast_byte_inj)
  show "crc_byte c a = crc_byte e a \<longleftrightarrow> c = e"
    by (simp add: crc_byte_steps crc_steps_inj xor_cancel)
qed

lemma crc_bytes_inj: "foldl crc_byte c bs = foldl crc_byte e bs \<longleftrightarrow> c = e"
  by (induction bs arbitrary: c e) (simp_all add: crc_byte_inj)

section \<open>What an attempt leaves\<close>

text \<open>The attempt does not read outside the buffer, and what it leaves has the property.\<close>

definition leaves :: "'a attempt \<Rightarrow> ('a \<Rightarrow> bool) \<Rightarrow> bool" where
  "leaves m P = (case m of Inl e \<Rightarrow> e \<noteq> Out_of_range | Inr x \<Rightarrow> P x)"

lemma leaves_simps [simp]:
  "leaves (Inr x) P = P x" "leaves (zip_fail s) P" "leaves (Inl (Archive_error code message)) P"
  "leaves (and_do m f) P = leaves m (\<lambda>x. leaves (f x) P)"
  "leaves (require ok s) Q = (ok \<longrightarrow> Q ())"
  "leaves (need d i n) Q = (i + n \<le> length d \<longrightarrow> Q ())"
  "leaves (readUInt16LE d i) R = (i + 2 \<le> length d \<and> R (u16 d i))"
  "leaves (readUInt32LE d i) R = (i + 4 \<le> length d \<and> R (u32 d i))"
  "leaves (decodeUtf8 lib bs) T = (\<forall>t. al_utf8 lib bs = Some t \<longrightarrow> T t)"
  by (auto simp: leaves_def zip_fail_def and_do_def require_def need_def readUInt16LE_def
      readUInt32LE_def decodeUtf8_def split: option.splits sum.splits)

lemma leaves_weaken: "leaves m P \<Longrightarrow> (\<And>x. P x \<Longrightarrow> Q x) \<Longrightarrow> leaves m Q"
  by (auto simp: leaves_def split: sum.splits)

text \<open>The end record and a central record, by their bytes.\<close>

definition end_at :: "bytes \<Rightarrow> nat \<Rightarrow> bool" where
  "end_at d i = (u32 d i = 0x06054b50 \<and> i + 22 + u16 d (i + 20) = length d)"

definition central_at :: "bytes \<Rightarrow> nat \<Rightarrow> central_record \<Rightarrow> bool" where
  "central_at d i z =
     (u32 d i = 0x02014b50 \<and> i + 46 + u16 d (i + 28) \<le> length d
      \<and> z = \<lparr>zc_flags = u16 d (i + 8), zc_method = u16 d (i + 10), zc_crc = u32 d (i + 16),
             zc_compressed = u32 d (i + 20), zc_size = u32 d (i + 24), zc_nameSize = u16 d (i + 28),
             zc_extraSize = u16 d (i + 30), zc_commentSize = u16 d (i + 32),
             zc_mode = u32 d (i + 38) div 65536, zc_offset = u32 d (i + 42)\<rparr>)"

lemma leaves_ends_at: "i + 22 \<le> length d \<Longrightarrow> leaves (ends_at d i) (\<lambda>b. b \<longrightarrow> end_at d i)"
  by (simp add: ends_at_def end_at_def)

lemma leaves_find_end:
  "lowest + n + 21 \<le> length d \<or> n = 0
   \<Longrightarrow> leaves (find_end d lowest n) (\<lambda>r. \<forall>i. r = Some i \<longrightarrow> i + 22 \<le> length d \<and> end_at d i)"
proof (induction n)
  case (Suc n)
  then have "leaves (ends_at d (lowest + n)) (\<lambda>b. b \<longrightarrow> end_at d (lowest + n))" by (intro leaves_ends_at) simp
  then show ?case by (simp, elim leaves_weaken) (use Suc in auto)
qed simp

lemma leaves_end_record: "leaves (end_record d) (\<lambda>r. \<forall>i. r = Some i \<longrightarrow> i + 22 \<le> length d \<and> end_at d i)"
  unfolding end_record_def Let_def by (rule leaves_find_end) auto

lemma leaves_central: "leaves (read_central d cursor) (central_at d cursor)"
  by (auto simp: read_central_def central_at_def)

lemma leaves_name:
  "leaves (read_name lib d cursor z) (\<lambda>(raw, path, directory). safeArchivePath path \<and> path = al_nfc lib path
     \<and> raw = subarray d (cursor + 46) (zc_nameSize z) \<and> (\<not> directory \<longrightarrow> al_utf8 lib raw = Some path))"
  by (auto simp: read_name_def Let_def)

lemma leaves_sizes: "at + 12 \<le> length d \<Longrightarrow> leaves (local_sizes_agree d at z) (\<lambda>_. True)"
  by (simp add: local_sizes_agree_def)

lemma leaves_descriptor: "leaves (data_descriptor d z dataEnd) (\<lambda>rangeEnd. dataEnd \<le> rangeEnd)"
  unfolding data_descriptor_def Let_def
  by (auto intro!: leaves_weaken [OF leaves_sizes])

text \<open>A local record of a name, by its bytes, and where its content starts.\<close>

definition local_at :: "bytes \<Rightarrow> nat \<Rightarrow> bytes \<Rightarrow> nat \<Rightarrow> bool" where
  "local_at d i raw start =
     (u32 d i = 0x04034b50 \<and> subarray d (i + 30) (u16 d (i + 26)) = raw
      \<and> start = i + 30 + u16 d (i + 26) + u16 d (i + 28))"

lemma leaves_local:
  "leaves (read_local d centralStart z raw) (\<lambda>(start, rangeEnd).
     local_at d (zc_offset z) raw start \<and> start + zc_compressed z \<le> rangeEnd \<and> rangeEnd \<le> centralStart)"
  unfolding read_local_def local_at_def Let_def
  by (auto intro!: leaves_weaken [OF leaves_sizes] leaves_weaken [OF leaves_descriptor])

lemma leaves_content:
  "leaves (read_content lib d z path directory start) (\<lambda>content. unpack lib d z start = Some content
     \<and> length content = zc_size z \<and> unat (crc32 content) = zc_crc z \<and> (directory \<longrightarrow> zc_size z = 0))"
  by (auto simp: read_content_def split: option.split)

section \<open>What the reader keeps\<close>

definition entry_key :: "archive_entry \<Rightarrow> string" where
  "entry_key e = js_lower (ae_path e)"

definition entry_ok :: "archive_library \<Rightarrow> archive_entry \<Rightarrow> bool" where
  "entry_ok lib e =
     (safeArchivePath (ae_path e) \<and> ae_path e = al_nfc lib (ae_path e)
      \<and> length (ae_bytes e) \<le> max_entry_bytes \<and> ae_sha256 e = al_sha256 lib (ae_bytes e))"

text \<open>
  The entry's part of the archive: a central record, past the place \<open>cs\<close> where they start, names the
  entry; the local record at its offset has the same name; and the content is what is unpacked from
  the bytes after it, with the size and the checksum the central record states.
\<close>

definition entry_part :: "archive_library \<Rightarrow> bytes \<Rightarrow> nat \<Rightarrow> archive_entry \<Rightarrow> nat \<times> nat \<Rightarrow> bool" where
  "entry_part lib d cs e r =
     (\<exists>cursor z start. cs \<le> cursor \<and> central_at d cursor z
        \<and> al_utf8 lib (subarray d (cursor + 46) (zc_nameSize z)) = Some (ae_path e)
        \<and> fst r = zc_offset z \<and> local_at d (fst r) (subarray d (cursor + 46) (zc_nameSize z)) start
        \<and> start + zc_compressed z \<le> snd r \<and> snd r \<le> cs
        \<and> unpack lib d z start = Some (ae_bytes e)
        \<and> length (ae_bytes e) = zc_size z \<and> unat (crc32 (ae_bytes e)) = zc_crc z)"

definition apart :: "(nat \<times> nat) list \<Rightarrow> bool" where
  "apart = sorted_wrt (\<lambda>r s. \<not> overlaps r s)"

definition archive_inv :: "archive_library \<Rightarrow> bytes \<Rightarrow> nat \<Rightarrow> archive_state \<Rightarrow> bool" where
  "archive_inv lib d cs s =
     (cs \<le> as_cursor s \<and> list_all (entry_ok lib) (as_entries s)
      \<and> distinct (map entry_key (as_entries s)) \<and> entry_key ` set (as_entries s) \<subseteq> set (as_names s)
      \<and> (\<Sum>e\<leftarrow>as_entries s. length (ae_bytes e)) \<le> as_expanded s \<and> as_expanded s \<le> max_expanded_bytes
      \<and> length (as_entries s) \<le> length (as_names s)
      \<and> (\<exists>rs. list_all2 (entry_part lib d cs) (as_entries s) rs \<and> apart rs \<and> set rs \<subseteq> set (as_ranges s)))"

lemma overlaps_sym: "overlaps r s = overlaps s r"
  by (auto simp: overlaps_def)

lemma apart_snoc: "apart rs \<Longrightarrow> \<forall>s\<in>set rs. \<not> overlaps r s \<Longrightarrow> apart (rs @ [r])"
  by (auto simp: apart_def sorted_wrt_append overlaps_sym)

lemma inv_step:
  assumes "archive_inv lib d cs s" "t = \<lparr>as_entries = es, as_names = js_lower path # as_names s,
      as_ranges = as_ranges s @ [(zc_offset z, rangeEnd)], as_expanded = as_expanded s + zc_size z, as_cursor = n\<rparr>"
    "es = (if directory then as_entries s
       else as_entries s @ [\<lparr>ae_path = path, ae_bytes = content, ae_sha256 = al_sha256 lib content\<rparr>])"
    "central_at d (as_cursor s) z" "as_cursor s \<le> n"
    "\<not> directory \<longrightarrow> al_utf8 lib (subarray d (as_cursor s + 46) (zc_nameSize z)) = Some path"
    "safeArchivePath path" "path = al_nfc lib path" "js_lower path \<notin> set (as_names s)"
    "within_limits (zc_size z) (as_expanded s)" "\<forall>r\<in>set (as_ranges s). \<not> overlaps (zc_offset z, rangeEnd) r"
    "local_at d (zc_offset z) (subarray d (as_cursor s + 46) (zc_nameSize z)) start"
    "start + zc_compressed z \<le> rangeEnd" "rangeEnd \<le> cs"
    "unpack lib d z start = Some content" "length content = zc_size z" "unat (crc32 content) = zc_crc z"
  shows "archive_inv lib d cs t"
proof -
  obtain rs where rs: "list_all2 (entry_part lib d cs) (as_entries s) rs" "apart rs" "set rs \<subseteq> set (as_ranges s)"
    using assms(1) by (auto simp: archive_inv_def)
  show ?thesis
  proof (cases directory)
    case True
    with assms(1,2,3,5,10) rs show ?thesis
      by (auto simp: archive_inv_def within_limits_def)
  next
    case False
    let ?e = "\<lparr>ae_path = path, ae_bytes = content, ae_sha256 = al_sha256 lib content\<rparr>"
    have "cs \<le> as_cursor s" using assms(1) by (simp add: archive_inv_def)
    then have "entry_part lib d cs ?e (zc_offset z, rangeEnd)"
      unfolding entry_part_def using assms(4,6,12,13,14,15,16,17) False
      by (intro exI [of _ "as_cursor s"] exI [of _ z] exI [of _ start]) simp
    with rs(1) have "list_all2 (entry_part lib d cs) (as_entries s @ [?e]) (rs @ [(zc_offset z, rangeEnd)])"
      by (simp add: list_all2_appendI)
    moreover have "apart (rs @ [(zc_offset z, rangeEnd)])"
      using rs assms(11) by (intro apart_snoc) auto
    moreover have "entry_ok lib ?e" using assms(7,8,10,16) by (simp add: entry_ok_def within_limits_def)
    moreover have "entry_key ?e \<notin> entry_key ` set (as_entries s)"
      using assms(1, 9) by (auto simp: archive_inv_def entry_key_def)
    ultimately show ?thesis using False assms(1,2,3,5,10,16) rs
      by (auto simp: archive_inv_def within_limits_def entry_key_def
          intro!: exI [of _ "rs @ [(zc_offset z, rangeEnd)]"])
  qed
qed

lemma leaves_entry:
  assumes "archive_inv lib d cs s"
  shows "leaves (read_entry lib d cs s)
    (\<lambda>t. archive_inv lib d cs t \<and> length (as_names t) = Suc (length (as_names s)))"
proof -
  have kept: "leaves (read_content lib d z path directory start) (\<lambda>content. archive_inv lib d cs
      \<lparr>as_entries = (if directory then as_entries s
         else as_entries s @ [\<lparr>ae_path = path, ae_bytes = content, ae_sha256 = al_sha256 lib content\<rparr>]),
        as_names = js_lower path # as_names s, as_ranges = as_ranges s @ [(zc_offset z, rangeEnd)],
        as_expanded = as_expanded s + zc_size z,
        as_cursor = as_cursor s + 46 + zc_nameSize z + zc_extraSize z + zc_commentSize z\<rparr>)"
    if "central_at d (as_cursor s) z" "safeArchivePath path" "path = al_nfc lib path"
      "\<not> directory \<longrightarrow> al_utf8 lib (subarray d (as_cursor s + 46) (zc_nameSize z)) = Some path"
      "js_lower path \<notin> set (as_names s)" "within_limits (zc_size z) (as_expanded s)"
      "local_at d (zc_offset z) (subarray d (as_cursor s + 46) (zc_nameSize z)) start"
      "start + zc_compressed z \<le> rangeEnd" "rangeEnd \<le> cs"
      "\<not> list_ex (overlaps (zc_offset z, rangeEnd)) (as_ranges s)"
    for z path directory start rangeEnd
    using that by (intro leaves_weaken [OF leaves_content] inv_step [OF assms refl refl])
      (auto simp: list_ex_iff)
  note kept_directory = kept [where directory = True, simplified]
  show ?thesis
    unfolding read_entry_def
    by (auto intro!: leaves_weaken [OF leaves_central] leaves_weaken [OF leaves_name]
        leaves_weaken [OF leaves_local] kept kept_directory
        split del: if_split)
qed

lemma leaves_entries:
  "archive_inv lib d cs s \<Longrightarrow>
     leaves (read_entries lib d cs n s)
       (\<lambda>t. archive_inv lib d cs t \<and> length (as_names t) = length (as_names s) + n)"
proof (induction n arbitrary: s)
  case (Suc n)
  from leaves_entry [OF Suc.prems] show ?case
    by (simp, elim leaves_weaken) (use Suc in \<open>fastforce elim: leaves_weaken\<close>)
qed simp

lemma start_inv: "archive_inv lib d cs (start_state cs)"
  by (simp add: archive_inv_def start_state_def apart_def)

definition archive_ok :: "archive_library \<Rightarrow> bytes \<Rightarrow> archive_entry list \<Rightarrow> bool" where
  "archive_ok lib d es =
     (length es \<le> max_entries \<and> (\<Sum>e\<leftarrow>es. length (ae_bytes e)) \<le> max_expanded_bytes
      \<and> list_all (entry_ok lib) es \<and> distinct (map entry_key es)
      \<and> (\<forall>e\<in>set es. entry_key ` set es \<inter> set (directories_of (ae_path e)) = {})
      \<and> (\<exists>eor rs. end_at d eor \<and> u32 d (eor + 16) \<le> eor
           \<and> list_all2 (entry_part lib d (u32 d (eor + 16))) es rs \<and> apart rs))"

lemma file_as_directory_iff:
  "file_as_directory es \<longleftrightarrow> (\<exists>e\<in>set es. entry_key ` set es \<inter> set (directories_of (ae_path e)) \<noteq> {})"
  unfolding file_as_directory_def list_ex_iff entry_key_def by fastforce

lemma leaves_archive: "leaves (readArchive lib d) (\<lambda>es. length d \<le> max_compressed_bytes \<and> archive_ok lib d es)"
proof -
  have entries: "leaves (read_entries lib d (u32 d (eor + 16)) n (start_state (u32 d (eor + 16))))
      (\<lambda>s. as_cursor s = eor \<longrightarrow> \<not> file_as_directory (as_entries s)
        \<longrightarrow> archive_ok lib d (as_entries s))"
    if "end_at d eor" "u32 d (eor + 16) \<le> eor" "n \<le> max_entries" for n eor
    using that
    by (intro leaves_weaken [OF leaves_entries [OF start_inv]])
       (auto simp: archive_ok_def archive_inv_def start_state_def file_as_directory_iff)
  show ?thesis
    unfolding readArchive_def
    by (auto intro!: leaves_weaken [OF leaves_end_record] entries split: option.split)
qed

section \<open>Properties\<close>

text \<open>
  C18. No archive, whatever its bytes, makes the reader read outside its buffer: every offset an
  archive names is checked before it is used.
\<close>

theorem archive_reads_inside: "readArchive lib d \<noteq> Inl Out_of_range"
  using leaves_archive [of lib d] by (auto simp: leaves_def)


definition plain_library :: archive_library where
  "plain_library = \<lparr>al_inflate = (\<lambda>_ _. None), al_sha256 = (\<lambda>_. ''hash''),
     al_utf8 = (\<lambda>bs. Some (map (\<lambda>b. char_of (unat b)) bs)), al_nfc = id\<rparr>"

text \<open>One stored file \<open>a\<close> whose content is \<open>a\<close>.\<close>

definition sample_local :: bytes where
  "sample_local = [0x50, 0x4B, 3, 4, 20, 0, 0, 0, 0, 0, 0, 0, 0, 0, 0x43, 0xBE, 0xB7, 0xE8, 1, 0, 0, 0, 1, 0, 0, 0,
     1, 0, 0, 0, 0x61, 0x61]"

definition sample_central :: bytes where
  "sample_central = [0x50, 0x4B, 1, 2, 20, 0, 20, 0, 0, 0, 0, 0, 0, 0, 0, 0, 0x43, 0xBE, 0xB7, 0xE8, 1, 0, 0, 0,
     1, 0, 0, 0, 1, 0, 0, 0, 0, 0, 0, 0, 0, 0, 0, 0, 0xA4, 0x81, 0, 0, 0, 0, 0x61]"

definition sample_end :: bytes where
  "sample_end = [0x50, 0x4B, 5, 6, 0, 0, 0, 0, 1, 0, 1, 0, 47, 0, 0, 0, 32, 0, 0, 0, 0, 0]"

definition sample_zip :: bytes where
  "sample_zip = sample_local @ sample_central @ sample_end"

lemmas sample_zip_defs = sample_zip_def sample_local_def sample_central_def sample_end_def

lemma sample_length [simp]: "length sample_zip = 101"
  by (simp add: sample_zip_defs)

lemmas zip_reads = and_do_def require_def need_def readUInt32LE_def readUInt16LE_def u32_def u16_def

lemma sample_end_record: "end_record sample_zip = Inr (Some 79)"
proof -
  have "ends_at sample_zip 79 = Inr True" by (simp add: ends_at_def zip_reads sample_zip_defs)
  then have "find_end sample_zip 0 (Suc 79) = Inr (Some 79)" by (simp only: find_end.simps) (simp add: and_do_def)
  then show ?thesis by (simp add: end_record_def)
qed

definition sample_record :: central_record where
  "sample_record = \<lparr>zc_flags = 0, zc_method = 0, zc_crc = 0xE8B7BE43, zc_compressed = 1, zc_size = 1, zc_nameSize = 1,
     zc_extraSize = 0, zc_commentSize = 0, zc_mode = 0x81A4, zc_offset = 0\<rparr>"

lemma sample_central_read: "read_central sample_zip 32 = Inr sample_record"
  by (simp add: read_central_def zip_reads sample_zip_defs sample_record_def has_bits_def)

lemma char_97: "char_of (97::nat) = CHR ''a''"
  by code_simp

lemma safe_a: "safeArchivePath ''a''"
  by (simp add: safeArchivePath_def max_path_length_def control_character_def starts_with_def safe_part_def
      js_trim_def is_space_def)

lemma sample_name_read: "read_name plain_library sample_zip 32 sample_record = Inr ([0x61], ''a'', False)"
  by (simp add: read_name_def zip_reads sample_zip_defs sample_record_def has_bits_def subarray_def decodeUtf8_def
      plain_library_def char_97 safe_a Let_def)

lemma sample_local_read: "read_local sample_zip 32 sample_record [0x61] = Inr (31, 32)"
  by (simp add: read_local_def data_descriptor_def local_sizes_agree_def zip_reads sample_zip_defs
      sample_record_def has_bits_def subarray_def)

lemma crc_step_numeral:
  "crc_step (numeral n) =
     (if bit (numeral n :: 32 word) 0 then 0xEDB88320 XOR drop_bit 1 (numeral n) else drop_bit 1 (numeral n))"
  by (rule crc_step_def)

lemma eight_steps:
  "(crc_step ^^ 8) v = crc_step (crc_step (crc_step (crc_step (crc_step (crc_step (crc_step (crc_step v)))))))"
  by (simp add: numeral_eq_Suc)

lemma crc_of_a: "crc32 [0x61] = 0xE8B7BE43"
  by (simp add: crc32_def crc_byte_steps crc_step_numeral eight_steps)

lemma sample_content: "read_content plain_library sample_zip sample_record ''a'' False 31 = Inr [0x61]"
  by (simp add: read_content_def unpack_def sample_record_def subarray_def sample_zip_defs crc_of_a zip_reads)

lemma sample_zip_read:
  "readArchive plain_library sample_zip = Inr [\<lparr>ae_path = ''a'', ae_bytes = [0x61], ae_sha256 = ''hash''\<rparr>]"
proof -
  have "read_entry plain_library sample_zip 32 (start_state 32) =
      Inr \<lparr>as_entries = [\<lparr>ae_path = ''a'', ae_bytes = [0x61], ae_sha256 = ''hash''\<rparr>], as_names = [js_lower ''a''],
        as_ranges = [(0, 32)], as_expanded = 1, as_cursor = 79\<rparr>"
    using sample_central_read sample_name_read sample_local_read sample_content
    by (simp add: read_entry_def and_do_def require_def start_state_def file_type_ok_def within_limits_def
        archive_limits sample_record_def plain_library_def)
  then have entries: "read_entries plain_library sample_zip 32 (Suc 0) (start_state 32) =
      Inr \<lparr>as_entries = [\<lparr>ae_path = ''a'', ae_bytes = [0x61], ae_sha256 = ''hash''\<rparr>], as_names = [js_lower ''a''],
        as_ranges = [(0, 32)], as_expanded = 1, as_cursor = 79\<rparr>"
    by (simp add: and_do_def)
  have "u16 sample_zip 83 = 0" "u16 sample_zip 85 = 0" "u16 sample_zip 87 = Suc 0" "u16 sample_zip 89 = Suc 0"
    "u32 sample_zip 91 = 47" "u32 sample_zip 95 = 32"
    by (simp_all add: u32_def u16_def sample_zip_defs)
  with entries show ?thesis
    by (simp add: readArchive_def sample_end_record and_do_def require_def need_def readUInt16LE_def readUInt32LE_def
        archive_limits file_as_directory_def directories_of_def js_lower_def del: read_entries.simps)
qed


text \<open>
  C24. The table-driven checksum is the reflected CRC-32 computed a bit at a time.
\<close>

theorem crc32_bitwise: "crc32 bs = crc_bitwise bs"
proof -
  have "crc_byte = (\<lambda>crc b. (crc_step ^^ 8) (crc XOR ucast b))"
    by (intro ext) (rule crc_byte_steps)
  moreover have "(0xFFFFFFFF :: 32 word) = - 1" by simp
  ultimately show ?thesis unfolding crc32_def crc_bitwise_def by (simp only:) simp
qed

text \<open>
  The checksum notices any change of a single byte of an entry.
\<close>

theorem crc32_detects_byte: "crc32 (xs @ a # ys) = crc32 (xs @ b # ys) \<longleftrightarrow> a = b"
  by (simp add: crc32_def xor_cancel crc_bytes_inj crc_byte_inj)

end
