(* ===== verification/Plan_Json.thy ===== *)
theory Plan_Json
  imports Plan_Diagnostics
begin

text \<open>
  Plain JSON data from a parsed document
  (\<open>packages/planning/src/parse.ts\<close>, \<open>toJsonValue\<close> and \<open>normalizeJsonDocument\<close>): the
  parser's output is rebuilt as a JSON value while its depth and its nodes are bounded and
  unsafe keys and unrepresentable scalars are refused. The YAML library is a parameter of
  \<open>parseYamlDocument\<close>, whose tree of values is \<open>raw_value\<close>.
\<close>

section \<open>Values\<close>

text \<open>Numbers are kept as the text they print as.\<close>

datatype json =
    J_null
  | J_bool bool
  | J_num string
  | J_str string
  | J_array "json list"
  | J_object "(string \<times> json) list"

datatype raw_value =
    R_null
  | R_bool bool
  | R_num string
  | R_infinite
  | R_str string
  | R_array "raw_value list"
  | R_object "(string \<times> raw_value) list"
  | R_other string \<comment> \<open>a value of another JavaScript type, by the type's name\<close>

definition max_nodes :: nat where "max_nodes = 20000"
definition max_depth :: nat where "max_depth = 32"

definition unsafe_keys :: "string list" where
  "unsafe_keys = [''__proto__'', ''constructor'', ''prototype'']"

definition key_path :: "string \<Rightarrow> string \<Rightarrow> string" where
  "key_path path k = (if path = [] then k else path @ ''.'' @ k)"

definition index_path :: "string \<Rightarrow> nat \<Rightarrow> string" where
  "index_path path i = path @ ''['' @ string_of_nat i @ '']''"

text \<open>
  The walk threads the count of nodes and the diagnostics; \<open>None\<close> is the code's
  \<open>undefined\<close>, which ends it.
\<close>

type_synonym walk = "nat \<times> plan_diagnostic list"

fun toJsonValue :: "string \<Rightarrow> string \<Rightarrow> nat \<Rightarrow> raw_value \<Rightarrow> walk \<Rightarrow> json option \<times> walk"
and json_items :: "string \<Rightarrow> string \<Rightarrow> nat \<Rightarrow> nat \<Rightarrow> raw_value list \<Rightarrow> walk \<Rightarrow> json list option \<times> walk"
and json_entries :: "string \<Rightarrow> string \<Rightarrow> nat \<Rightarrow> (string \<times> raw_value) list \<Rightarrow> walk \<Rightarrow> (string \<times> json) list option \<times> walk"
where
  "toJsonValue name path depth v (nodes, ds) =
     (let nodes' = nodes + 1 in
      if max_nodes < nodes' then
        (None, nodes', if ds = [] then [plan_error Yaml_too_complex
           (''Document exceeds '' @ string_of_nat max_nodes @ '' nodes'') (in_artifact name)] else ds)
      else if max_depth < depth then
        (None, nodes', ds @ [plan_error Yaml_too_complex
           (''Document nests deeper than '' @ string_of_nat max_depth @ '' levels'') (at_path name path)])
      else case v of
        R_null \<Rightarrow> (Some J_null, nodes', ds)
      | R_bool b \<Rightarrow> (Some (J_bool b), nodes', ds)
      | R_str s \<Rightarrow> (Some (J_str s), nodes', ds)
      | R_num n \<Rightarrow> (Some (J_num n), nodes', ds)
      | R_infinite \<Rightarrow> (None, nodes', ds @ [plan_error Unsupported_yaml_scalar
           ''Infinity and NaN are not representable'' (at_path name path)])
      | R_array vs \<Rightarrow>
          (case json_items name path depth 0 vs (nodes', ds) of
             (None, w) \<Rightarrow> (None, w) | (Some xs, w) \<Rightarrow> (Some (J_array xs), w))
      | R_object kvs \<Rightarrow>
          (case json_entries name path depth kvs (nodes', ds) of
             (None, w) \<Rightarrow> (None, w) | (Some xs, w) \<Rightarrow> (Some (J_object xs), w))
      | R_other kind \<Rightarrow> (None, nodes', ds @ [plan_error Unsupported_yaml_scalar
           (''Value of type '' @ kind @ '' is not representable as JSON'') (at_path name path)]))"
| "json_items name path depth i [] w = (Some [], w)"
| "json_items name path depth i (v # vs) w =
     (case toJsonValue name (index_path path i) (depth + 1) v w of
        (None, w') \<Rightarrow> (None, w')
      | (Some x, w') \<Rightarrow>
          (case json_items name path depth (i + 1) vs w' of
             (None, w'') \<Rightarrow> (None, w'') | (Some xs, w'') \<Rightarrow> (Some (x # xs), w'')))"
| "json_entries name path depth [] w = (Some [], w)"
| "json_entries name path depth ((k, v) # kvs) (nodes, ds) =
     (if k \<in> set unsafe_keys then
        (None, nodes, ds @ [plan_error Unsafe_yaml_key
           (''Key \"'' @ k @ ''\" is not permitted in planning input'') (at_path name (key_path path k))])
      else case toJsonValue name (key_path path k) (depth + 1) v (nodes, ds) of
        (None, w') \<Rightarrow> (None, w')
      | (Some x, w') \<Rightarrow>
          (case json_entries name path depth kvs w' of
             (None, w'') \<Rightarrow> (None, w'') | (Some xs, w'') \<Rightarrow> (Some ((k, x) # xs), w'')))"

definition normalizeJsonDocument :: "raw_value \<Rightarrow> string \<Rightarrow> plan_diagnostic list + json" where
  "normalizeJsonDocument raw name =
     (case toJsonValue name [] 0 raw (0, []) of
        (Some v, w) \<Rightarrow> Inr v
      | (None, _, ds) \<Rightarrow>
          Inl (if ds \<noteq> [] then ds
               else [plan_error Invalid_yaml ''YAML document produced no value'' (in_artifact name)]))"

section \<open>A parsed document\<close>

text \<open>
  What the YAML library returns for a text: it throws, or gives its documents, each with its
  problems (errors before warnings, with a position), whether it uses references, tags or
  non-string keys, and its materialised value, which may throw.
\<close>

record yaml_document =
  yd_problems :: "(string \<times> (nat \<times> nat) option) list"
  yd_unsafe :: bool
  yd_toJS :: "string + raw_value"

type_synonym yaml_library = "string \<Rightarrow> string + yaml_document list"

definition problem_detail :: "string \<Rightarrow> (nat \<times> nat) option \<Rightarrow> diagnostic_detail" where
  "problem_detail name pos =
     (case pos of
        None \<Rightarrow> in_artifact name
      | Some (l, c) \<Rightarrow> (in_artifact name)\<lparr>dd_line := Some l, dd_column := Some c\<rparr>)"

definition parseYamlDocument ::
    "yaml_library \<Rightarrow> string \<Rightarrow> string \<Rightarrow> bool \<Rightarrow> plan_diagnostic list + json" where
  "parseYamlDocument yaml text name strictReferences =
     (case yaml text of
        Inl why \<Rightarrow> Inl [plan_error Invalid_yaml (''YAML could not be parsed: '' @ why) (in_artifact name)]
      | Inr [] \<Rightarrow> Inl [plan_error Invalid_yaml ''YAML document is empty'' (in_artifact name)]
      | Inr [d] \<Rightarrow>
          if yd_problems d \<noteq> []
          then Inl (map (\<lambda>(m, pos). plan_error Invalid_yaml m (problem_detail name pos)) (take 10 (yd_problems d)))
          else if strictReferences \<and> yd_unsafe d
          then Inl [plan_error Invalid_yaml
            ''Aliases, anchors, explicit tags, merge keys and non-string keys are unsupported.''
            (in_artifact name)]
          else (case yd_toJS d of
                  Inl why \<Rightarrow> Inl [plan_error Yaml_too_complex
                    (''YAML could not be materialised: '' @ why) (in_artifact name)]
                | Inr raw \<Rightarrow> normalizeJsonDocument raw name)
      | Inr docs \<Rightarrow> Inl [plan_error Multiple_yaml_documents
          (''Expected one YAML document, found '' @ string_of_nat (length docs)) (in_artifact name)])"

section \<open>Bounds of the value\<close>

fun json_nodes :: "json \<Rightarrow> nat" where
  "json_nodes (J_array xs) = 1 + sum_list (map json_nodes xs)"
| "json_nodes (J_object kvs) = 1 + sum_list (map (\<lambda>(k, v). json_nodes v) kvs)"
| "json_nodes _ = 1"

text \<open>The depth of a value's deepest node below it, and the keys it uses anywhere.\<close>

fun within_depth :: "nat \<Rightarrow> json \<Rightarrow> bool" where
  "within_depth d (J_array xs) = (\<forall>x\<in>set xs. 0 < d \<and> within_depth (d - 1) x)"
| "within_depth d (J_object kvs) = (\<forall>(k, v)\<in>set kvs. 0 < d \<and> within_depth (d - 1) v)"
| "within_depth d _ = True"

fun safe_keys :: "json \<Rightarrow> bool" where
  "safe_keys (J_array xs) = (\<forall>x\<in>set xs. safe_keys x)"
| "safe_keys (J_object kvs) = (\<forall>(k, v)\<in>set kvs. k \<notin> set unsafe_keys \<and> safe_keys v)"
| "safe_keys _ = True"

text \<open>The walk counts every node it keeps, and only accepts while within the bounds.\<close>

definition entry_ok :: "nat \<Rightarrow> string \<times> json \<Rightarrow> bool" where
  "entry_ok depth kv = (fst kv \<notin> set unsafe_keys \<and> depth < max_depth
     \<and> within_depth (max_depth - depth - 1) (snd kv) \<and> safe_keys (snd kv))"

definition item_ok :: "nat \<Rightarrow> json \<Rightarrow> bool" where
  "item_ok depth x = (depth < max_depth \<and> within_depth (max_depth - depth - 1) x \<and> safe_keys x)"

lemma nodes_of_entries: "json_nodes (J_object kvs) = 1 + sum_list (map (json_nodes \<circ> snd) kvs)"
  by (simp add: split_def comp_def)

lemma array_ok: "\<forall>x\<in>set xs. item_ok depth x \<Longrightarrow> within_depth (max_depth - depth) (J_array xs) \<and> safe_keys (J_array xs)"
  by (auto simp: item_ok_def)

lemma object_ok: "\<forall>x\<in>set xs. entry_ok depth x \<Longrightarrow> within_depth (max_depth - depth) (J_object xs) \<and> safe_keys (J_object xs)"
  by (auto simp: entry_ok_def)

lemma walk_accepts:
  "toJsonValue name path depth v w = (Some x, w') \<Longrightarrow>
     fst w' = fst w + json_nodes x \<and> fst w' \<le> max_nodes \<and> depth \<le> max_depth
     \<and> within_depth (max_depth - depth) x \<and> safe_keys x"
  "json_items name path depth i vs w = (Some xs, w') \<Longrightarrow> fst w \<le> max_nodes \<Longrightarrow>
     fst w' = fst w + sum_list (map json_nodes xs) \<and> fst w' \<le> max_nodes \<and> (\<forall>x\<in>set xs. item_ok depth x)"
  "json_entries name path depth kvs w = (Some ys, w') \<Longrightarrow> fst w \<le> max_nodes \<Longrightarrow>
     fst w' = fst w + sum_list (map (json_nodes \<circ> snd) ys) \<and> fst w' \<le> max_nodes \<and> (\<forall>y\<in>set ys. entry_ok depth y)"
proof (induction name path depth v w and name path depth i vs w and name path depth kvs w
    arbitrary: x w' and xs w' and ys w' rule: toJsonValue_json_items_json_entries.induct)
  case (1 name path depth v n ds)
  have ok: "\<not> max_nodes < n + 1" "\<not> max_depth < depth"
    using 1(3) by (auto simp: Let_def split: if_splits)
  show ?case
  proof (cases v)
    case (R_array vs)
    with 1(3) ok obtain xs where xs: "json_items name path depth 0 vs (n + 1, ds) = (Some xs, w')" "x = J_array xs"
      by (auto simp: Let_def split: option.splits prod.splits)
    from 1(1) [OF refl ok R_array xs(1)] ok array_ok [of xs depth] xs(2) show ?thesis by simp
  next
    case (R_object kvs)
    with 1(3) ok obtain ys where ys: "json_entries name path depth kvs (n + 1, ds) = (Some ys, w')" "x = J_object ys"
      by (auto simp: Let_def split: option.splits prod.splits)
    from 1(2) [OF refl ok R_object ys(1)] ok object_ok [of ys depth] ys(2) nodes_of_entries [of ys]
    show ?thesis by (simp add: comp_def)
  qed (use 1(3) ok in \<open>auto simp: Let_def\<close>)
next
  case (3 name path depth i v vs w)
  then obtain x1 w1 xs1 where j: "toJsonValue name (index_path path i) (depth + 1) v w = (Some x1, w1)"
    "json_items name path depth (i + 1) vs w1 = (Some xs1, w')" "xs = x1 # xs1"
    by (auto split: option.splits prod.splits)
  from 3(1) [OF j(1)] have h: "fst w1 = fst w + json_nodes x1" "fst w1 \<le> max_nodes" "item_ok depth x1"
    by (auto simp: item_ok_def)
  from 3(2) [OF j(1) [symmetric] refl j(2) h(2)] h j(3) show ?case by simp
next
  case (5 name path depth k v kvs n ds)
  then obtain x1 w1 ys1 where j: "k \<notin> set unsafe_keys" "toJsonValue name (key_path path k) (depth + 1) v (n, ds) = (Some x1, w1)"
    "json_entries name path depth kvs w1 = (Some ys1, w')" "ys = (k, x1) # ys1"
    by (auto split: option.splits prod.splits if_splits)
  from 5(1) [OF j(1,2)] have h: "fst w1 = n + json_nodes x1" "fst w1 \<le> max_nodes" "entry_ok depth (k, x1)"
    using j(1) by (auto simp: entry_ok_def)
  from 5(2) [OF j(1) j(2) [symmetric] refl j(3) h(2)] h j(4) show ?case by simp
qed auto

lemma normalized_bounds:
  assumes "normalizeJsonDocument raw name = Inr v"
  shows "json_nodes v \<le> max_nodes" "within_depth max_depth v" "safe_keys v"
proof -
  from assms obtain w where "toJsonValue name [] 0 raw (0, []) = (Some v, w)"
    by (auto simp: normalizeJsonDocument_def split: option.splits prod.splits)
  from walk_accepts(1) [OF this]
  show "json_nodes v \<le> max_nodes" "within_depth max_depth v" "safe_keys v" by simp_all
qed

end
