(* ===== verification/Plan_Normalize.thy ===== *)
theory Plan_Normalize
  imports Plan_Json
begin

text \<open>
  A work breakdown as a plan (\<open>packages/planning/src/normalize.ts\<close>, with the profile of
  \<open>exo-work-breakdown-schema.ts\<close> and the limits of \<open>limits.ts\<close>): every structural problem
  is collected, and the items that have what a work item needs are kept. The Unicode
  normalization (NFC) is a parameter.
\<close>

section \<open>The plan\<close>

datatype work_item_risk = Risk_low | Risk_medium | Risk_high | Risk_critical | Risk_unspecified

record normalized_work_item =
  nw_sourceId :: string
  nw_ordinal :: nat
  nw_title :: string
  nw_risk :: work_item_risk
  nw_phase :: "string option"
  nw_primaryAreas :: "string list"
  nw_exitGate :: string
  nw_requiredDependencies :: "string list"
  nw_recommendedDependencies :: "string list"
  nw_sourceFields :: json

record normalized_plan =
  np_document :: string
  np_repository :: "string option"
  np_baselineCommit :: "string option"
  np_contract :: "string option"
  np_stackRevision :: "string option"
  np_status :: "string option"
  np_phase :: "string option"
  np_metadata :: json
  np_workItems :: "normalized_work_item list"

definition max_work_items :: nat where "max_work_items = 2000"
definition max_source_id :: nat where "max_source_id = 64"
definition max_title :: nat where "max_title = 300"
definition max_document :: nat where "max_document = 300"
definition max_exit_gate :: nat where "max_exit_gate = 1000"
definition max_phase :: nat where "max_phase = 64"
definition max_primary_areas :: nat where "max_primary_areas = 32"
definition max_primary_area :: nat where "max_primary_area = 64"
definition max_dependencies :: nat where "max_dependencies = 64"
definition max_reported_cycles :: nat where "max_reported_cycles = 20"
definition max_diagnostics :: nat where "max_diagnostics = 500"

lemmas plan_limits = max_work_items_def max_source_id_def max_title_def max_document_def max_exit_gate_def
  max_phase_def max_primary_areas_def max_primary_area_def max_dependencies_def

section \<open>Fields\<close>

type_synonym fields = "(string \<times> json) list"

definition alnum :: "char \<Rightarrow> bool" where
  "alnum c = ((65 \<le> (of_char c :: nat) \<and> (of_char c :: nat) \<le> 90) \<or> (97 \<le> (of_char c :: nat) \<and> (of_char c :: nat) \<le> 122)
     \<or> (48 \<le> (of_char c :: nat) \<and> (of_char c :: nat) \<le> 57))"

text \<open>\<open>SOURCE_ID_PATTERN\<close>\<close>

fun well_formed_id :: "string \<Rightarrow> bool" where
  "well_formed_id [] = False"
| "well_formed_id (c # cs) = (alnum c \<and> (\<forall>x\<in>set cs. alnum x \<or> x \<in> {CHR ''.'', CHR ''_'', CHR ''-''}))"

definition optionalString :: "(string \<Rightarrow> string) \<Rightarrow> fields \<Rightarrow> string \<Rightarrow> string option" where
  "optionalString nfc r key =
     (case map_of r key of
        Some (J_str s) \<Rightarrow> let v = js_trim (nfc s) in if v = [] then None else Some v
      | _ \<Rightarrow> None)"

definition truncated ::
    "string \<Rightarrow> nat \<Rightarrow> string \<Rightarrow> diagnostic_detail \<Rightarrow> string \<times> plan_diagnostic list" where
  "truncated v n field detail =
     (if length v \<le> n then (v, [])
      else (js_slice n v, [plan_warning Field_truncated
        (''\"'' @ field @ ''\" is '' @ string_of_nat (length v) @ '' characters; only the first ''
          @ string_of_nat n @ '' are imported (the full text stays in the source fields)'') detail]))"

text \<open>\<open>itemPath.key\<close>\<close>

definition field_path :: "string \<Rightarrow> string \<Rightarrow> string" where
  "field_path itemPath key = itemPath @ ''.'' @ key"

fun dependency_entries ::
    "(string \<Rightarrow> string) \<Rightarrow> string \<Rightarrow> string \<Rightarrow> string \<Rightarrow> string \<Rightarrow> nat \<Rightarrow> json list
     \<Rightarrow> string list \<times> plan_diagnostic list" where
  "dependency_entries nfc key sourceId itemPath name i [] = ([], [])"
| "dependency_entries nfc key sourceId itemPath name i (e # es) =
     (let (vs, ds) = dependency_entries nfc key sourceId itemPath name (i + 1) es;
          detail = of_item name (index_path (field_path itemPath key) i) sourceId
      in case e of
           J_str s \<Rightarrow>
             let v = js_trim (nfc s) in
             if v = [] \<or> \<not> well_formed_id v
             then (vs, plan_error Invalid_work_item_id
                     (''\"'' @ s @ ''\" is not a well-formed work-item identifier'') detail # ds)
             else (v # vs, ds)
         | _ \<Rightarrow> (vs, plan_error Invalid_work_item_field
                  (''\"'' @ key @ ''\" entries must be strings'') detail # ds))"

definition dependencyList ::
    "(string \<Rightarrow> string) \<Rightarrow> fields \<Rightarrow> string \<Rightarrow> string \<Rightarrow> string \<Rightarrow> string \<Rightarrow> string list \<times> plan_diagnostic list" where
  "dependencyList nfc r key sourceId itemPath name =
     (let detail = of_item name (field_path itemPath key) sourceId in
      case map_of r key of
        None \<Rightarrow> ([], [])
      | Some J_null \<Rightarrow> ([], [])
      | Some (J_array xs) \<Rightarrow>
          if max_dependencies < length xs
          then ([], [plan_error Invalid_work_item_field
            (''\"'' @ key @ ''\" exceeds '' @ string_of_nat max_dependencies @ '' entries'') detail])
          else dependency_entries nfc key sourceId itemPath name 0 xs
      | Some v \<Rightarrow> ([], [plan_error Invalid_work_item_field
          (''\"'' @ key @ ''\" must be a list of work-item identifiers'') detail]))"

fun area_entries ::
    "(string \<Rightarrow> string) \<Rightarrow> string \<Rightarrow> string \<Rightarrow> string \<Rightarrow> nat \<Rightarrow> json list
     \<Rightarrow> string list \<times> plan_diagnostic list" where
  "area_entries nfc sourceId itemPath name i [] = ([], [])"
| "area_entries nfc sourceId itemPath name i (e # es) =
     (let (vs, ds) = area_entries nfc sourceId itemPath name (i + 1) es;
          detail = of_item name (index_path (field_path itemPath ''primary_areas'') i) sourceId
      in case e of
           J_str s \<Rightarrow>
             let (v, w) = truncated (js_trim (nfc s)) max_primary_area ''primary_areas'' detail
             in (if v = [] then vs else v # vs, w @ ds)
         | _ \<Rightarrow> (vs, plan_error Invalid_work_item_field ''\"primary_areas\" entries must be strings'' detail # ds))"

definition primaryAreas ::
    "(string \<Rightarrow> string) \<Rightarrow> fields \<Rightarrow> string \<Rightarrow> string \<Rightarrow> string \<Rightarrow> string list \<times> plan_diagnostic list" where
  "primaryAreas nfc r sourceId itemPath name =
     (let detail = of_item name (field_path itemPath ''primary_areas'') sourceId in
      case map_of r ''primary_areas'' of
        None \<Rightarrow> ([], [])
      | Some J_null \<Rightarrow> ([], [])
      | Some (J_array xs) \<Rightarrow>
          let cut = (if max_primary_areas < length xs
                     then [plan_warning Field_truncated
                       (''\"primary_areas\" has '' @ string_of_nat (length xs) @ '' entries; only the first ''
                         @ string_of_nat max_primary_areas
                         @ '' are imported (the full list stays in the source fields)'') detail]
                     else []);
              (vs, ds) = area_entries nfc sourceId itemPath name 0 (take max_primary_areas xs)
          in (vs, cut @ ds)
      | Some v \<Rightarrow> ([], [plan_error Invalid_work_item_field ''\"primary_areas\" must be a list of strings'' detail]))"

definition risk_of :: "string \<Rightarrow> work_item_risk option" where
  "risk_of v = map_of [(''low'', Risk_low), (''medium'', Risk_medium), (''high'', Risk_high),
     (''critical'', Risk_critical), (''unspecified'', Risk_unspecified)] v"

definition normalizeRisk ::
    "(string \<Rightarrow> string) \<Rightarrow> fields \<Rightarrow> string \<Rightarrow> string \<Rightarrow> string \<Rightarrow> work_item_risk \<times> plan_diagnostic list" where
  "normalizeRisk nfc r sourceId itemPath name =
     (let detail = of_item name (field_path itemPath ''risk'') sourceId;
          missing = (Risk_unspecified, [plan_error Invalid_work_item_field
            ''\"risk\" is required and must be a non-empty string'' detail])
      in case map_of r ''risk'' of
           Some (J_str s) \<Rightarrow>
             if js_trim s = [] then missing
             else (case risk_of (js_lower (js_trim (nfc s))) of
                     Some k \<Rightarrow> if k \<noteq> Risk_unspecified then (k, [])
                       else (Risk_unspecified, [plan_warning Unrecognized_risk
                         (''Risk \"'' @ s @ ''\" is not recognized; recorded as unspecified'') detail])
                   | None \<Rightarrow> (Risk_unspecified, [plan_warning Unrecognized_risk
                       (''Risk \"'' @ s @ ''\" is not recognized; recorded as unspecified'') detail]))
         | _ \<Rightarrow> missing)"

definition requiredText ::
    "(string \<Rightarrow> string) \<Rightarrow> fields \<Rightarrow> string \<Rightarrow> nat \<Rightarrow> string \<Rightarrow> string \<Rightarrow> string
     \<Rightarrow> string option \<times> plan_diagnostic list" where
  "requiredText nfc r key n sourceId itemPath name =
     (let detail = of_item name (field_path itemPath key) sourceId in
      case map_of r key of
        Some (J_str s) \<Rightarrow>
          let v = js_trim (nfc s) in
          if v = [] then (None, [plan_error Invalid_work_item_field (''\"'' @ key @ ''\" must not be empty'') detail])
          else (let (t, ds) = truncated v n key detail in (Some t, ds))
      | _ \<Rightarrow> (None, [plan_error Invalid_work_item_field
          (''\"'' @ key @ ''\" is required and must be a string'') detail]))"

definition missing_field :: "fields \<Rightarrow> string \<Rightarrow> string \<Rightarrow> string \<Rightarrow> string \<Rightarrow> plan_diagnostic list" where
  "missing_field r key sourceId itemPath name =
     (if map_of r key = None
      then [plan_error Invalid_work_item_field (''\"'' @ key @ ''\" is required'')
              (of_item name (field_path itemPath key) sourceId)]
      else [])"

definition item_phase ::
    "(string \<Rightarrow> string) \<Rightarrow> fields \<Rightarrow> string \<Rightarrow> string \<Rightarrow> string \<Rightarrow> string option \<times> plan_diagnostic list" where
  "item_phase nfc r sourceId itemPath name =
     (case optionalString nfc r ''phase'' of
        None \<Rightarrow> (None, [])
      | Some p \<Rightarrow>
          if max_phase < length p
          then (None, [plan_error Invalid_work_item_field
            (''\"phase\" exceeds '' @ string_of_nat max_phase @ '' characters'')
            (of_item name (field_path itemPath ''phase'') sourceId)])
          else (Some p, []))"

section \<open>Items\<close>

definition item_path :: "nat \<Rightarrow> string" where
  "item_path i = index_path ''pull_requests'' i"

text \<open>The item of an identified entry; \<open>None\<close> when its title or its exit gate is missing.\<close>

definition normalized_item ::
    "(string \<Rightarrow> string) \<Rightarrow> string \<Rightarrow> nat \<Rightarrow> string \<Rightarrow> fields \<Rightarrow> normalized_work_item option \<times> plan_diagnostic list" where
  "normalized_item nfc name ordinal sourceId r =
     (let path = item_path ordinal;
          (title, d1) = requiredText nfc r ''title'' max_title sourceId path name;
          (gate, d2) = requiredText nfc r ''exit_gate'' max_exit_gate sourceId path name;
          d3 = missing_field r ''depends_on'' sourceId path name;
          d4 = missing_field r ''primary_areas'' sourceId path name;
          (risk, d5) = normalizeRisk nfc r sourceId path name;
          (phase, d6) = item_phase nfc r sourceId path name;
          ds = d1 @ d2 @ d3 @ d4 @ d5 @ d6
      in case (title, gate) of
           (Some t, Some g) \<Rightarrow>
             (let (areas, d7) = primaryAreas nfc r sourceId path name;
                  (required, d8) = dependencyList nfc r ''depends_on'' sourceId path name;
                  (recommended, d9) = dependencyList nfc r ''recommends'' sourceId path name
              in (Some \<lparr>nw_sourceId = sourceId, nw_ordinal = ordinal, nw_title = t, nw_risk = risk,
                    nw_phase = phase, nw_primaryAreas = areas, nw_exitGate = g,
                    nw_requiredDependencies = required, nw_recommendedDependencies = recommended,
                    nw_sourceFields = J_object r\<rparr>, ds @ d7 @ d8 @ d9))
         | _ \<Rightarrow> (None, ds))"

text \<open>
  The entries in their order; \<open>seen\<close> is each identifier's first position, an item without a
  title or an exit gate included.
\<close>

fun plan_items ::
    "(string \<Rightarrow> string) \<Rightarrow> string \<Rightarrow> nat \<Rightarrow> (string \<rightharpoonup> nat) \<Rightarrow> json list
     \<Rightarrow> normalized_work_item list \<times> plan_diagnostic list" where
  "plan_items nfc name i seen [] = ([], [])"
| "plan_items nfc name i seen (e # es) =
     (case e of
        J_object r \<Rightarrow>
          (case map_of r ''id'' of
             Some (J_str raw) \<Rightarrow>
               (let sourceId = js_trim (nfc raw) in
                if sourceId = [] \<or> max_source_id < length sourceId \<or> \<not> well_formed_id sourceId
                then (let (items, ds) = plan_items nfc name (i + 1) seen es
                      in (items, plan_error Invalid_work_item_id
                           (''\"'' @ raw @ ''\" is not a well-formed work-item identifier'')
                           (at_path name (field_path (item_path i) ''id'')) # ds))
                else case seen sourceId of
                  Some first \<Rightarrow>
                    (let (items, ds) = plan_items nfc name (i + 1) seen es
                     in (items, plan_error Duplicate_work_item_id
                          (''Work-item identifier \"'' @ sourceId @ ''\" appears at positions ''
                            @ string_of_nat first @ '' and '' @ string_of_nat i)
                          (of_item name (field_path (item_path i) ''id'') sourceId) # ds))
                | None \<Rightarrow>
                    (let (item, d) = normalized_item nfc name i sourceId r;
                         (items, ds) = plan_items nfc name (i + 1) (seen(sourceId \<mapsto> i)) es
                     in (case item of None \<Rightarrow> items | Some x \<Rightarrow> x # items, d @ ds)))
           | _ \<Rightarrow>
               (let (items, ds) = plan_items nfc name (i + 1) seen es
                in (items, plan_error Invalid_work_item_id ''\"id\" is required and must be a string''
                     (at_path name (field_path (item_path i) ''id'')) # ds)))
      | _ \<Rightarrow>
          (let (items, ds) = plan_items nfc name (i + 1) seen es
           in (items, plan_error Invalid_work_breakdown ''Each work item must be a mapping''
                (at_path name (item_path i)) # ds)))"

section \<open>The plan of a document\<close>

definition required_top_level_fields :: "string list" where
  "required_top_level_fields = [''document'', ''pull_requests'']"

definition missing_top_level :: "fields \<Rightarrow> string \<Rightarrow> plan_diagnostic list" where
  "missing_top_level r name =
     map (\<lambda>f. plan_error Invalid_work_breakdown (''Required top-level field \"'' @ f @ ''\" is missing'') (at_path name f))
       (filter (\<lambda>f. map_of r f = None) required_top_level_fields)"

definition empty_document :: "(string \<Rightarrow> string) \<Rightarrow> fields \<Rightarrow> string \<Rightarrow> plan_diagnostic list" where
  "empty_document nfc r name =
     (if map_of r ''document'' \<noteq> None \<and> optionalString nfc r ''document'' = None
      then [plan_error Invalid_work_breakdown ''\"document\" must be a non-empty string'' (at_path name ''document'')]
      else [])"

definition plan_of ::
    "(string \<Rightarrow> string) \<Rightarrow> fields \<Rightarrow> string \<Rightarrow> normalized_work_item list \<Rightarrow> normalized_plan" where
  "plan_of nfc r document items =
     \<lparr>np_document = document, np_repository = optionalString nfc r ''repository'',
      np_baselineCommit = optionalString nfc r ''baseline_commit'',
      np_contract = optionalString nfc r ''contract'',
      np_stackRevision = optionalString nfc r ''stack_revision'',
      np_status = optionalString nfc r ''status'', np_phase = optionalString nfc r ''phase'',
      np_metadata = J_object r, np_workItems = items\<rparr>"

definition normalizePlan ::
    "(string \<Rightarrow> string) \<Rightarrow> json \<Rightarrow> string \<Rightarrow> normalized_plan option \<times> plan_diagnostic list" where
  "normalizePlan nfc v name =
     (case v of
        J_object r \<Rightarrow>
          (let d1 = missing_top_level r name; d2 = empty_document nfc r name in
           case map_of r ''pull_requests'' of
             Some (J_array es) \<Rightarrow>
               (let d3 = (if es = [] then [plan_error Missing_work_items ''Work breakdown contains no work items''
                            (at_path name ''pull_requests'')] else [])
                in if max_work_items < length es
                   then (None, d1 @ d2 @ d3 @ [plan_error Too_many_work_items
                     (''Work breakdown contains '' @ string_of_nat (length es) @ '' items; the limit is ''
                       @ string_of_nat max_work_items) (at_path name ''pull_requests'')])
                   else (let (items, d4) = plan_items nfc name 0 Map.empty es in
                     case optionalString nfc r ''document'' of
                       None \<Rightarrow> (None, d1 @ d2 @ d3 @ d4)
                     | Some doc \<Rightarrow>
                         (let (text, d5) = truncated doc max_document ''document'' (at_path name ''document'')
                          in (Some (plan_of nfc r text items), d1 @ d2 @ d3 @ d4 @ d5))))
           | None \<Rightarrow>
               (case optionalString nfc r ''document'' of
                  None \<Rightarrow> (None, d1 @ d2)
                | Some doc \<Rightarrow>
                    (let (text, d5) = truncated doc max_document ''document'' (at_path name ''document'')
                     in (Some (plan_of nfc r text []), d1 @ d2 @ d5)))
           | Some x \<Rightarrow> (None, d1 @ d2 @ [plan_error Invalid_work_breakdown
               ''\"pull_requests\" must be a list'' (at_path name ''pull_requests'')]))
      | _ \<Rightarrow> (None, [plan_error Invalid_work_breakdown ''Work breakdown must be a YAML mapping''
               (in_artifact name)]))"

section \<open>What is kept of an entry\<close>

definition valid_item :: "normalized_work_item \<Rightarrow> bool" where
  "valid_item x =
     (well_formed_id (nw_sourceId x) \<and> length (nw_sourceId x) \<le> max_source_id
      \<and> nw_title x \<noteq> [] \<and> length (nw_title x) \<le> max_title
      \<and> nw_exitGate x \<noteq> [] \<and> length (nw_exitGate x) \<le> max_exit_gate
      \<and> (\<forall>p. nw_phase x = Some p \<longrightarrow> p \<noteq> [] \<and> length p \<le> max_phase)
      \<and> length (nw_primaryAreas x) \<le> max_primary_areas
      \<and> (\<forall>a\<in>set (nw_primaryAreas x). a \<noteq> [] \<and> length a \<le> max_primary_area)
      \<and> length (nw_requiredDependencies x) \<le> max_dependencies
      \<and> length (nw_recommendedDependencies x) \<le> max_dependencies
      \<and> (\<forall>d\<in>set (nw_requiredDependencies x) \<union> set (nw_recommendedDependencies x). well_formed_id d))"

lemma truncated_fits:
  "v \<noteq> [] \<Longrightarrow> 0 < n \<Longrightarrow> fst (truncated v n field d) \<noteq> [] \<and> length (fst (truncated v n field d)) \<le> n"
  by (auto simp: truncated_def js_slice_def)

lemma truncated_no_error [simp]: "\<not> hasFatal (snd (truncated v n field d))"
  by (simp add: truncated_def)

lemma dependency_entries_ok:
  "length (fst (dependency_entries nfc key s path name i es)) \<le> length es
   \<and> (\<forall>d\<in>set (fst (dependency_entries nfc key s path name i es)). well_formed_id d)
   \<and> (\<not> hasFatal (snd (dependency_entries nfc key s path name i es)) \<longrightarrow>
        length (fst (dependency_entries nfc key s path name i es)) = length es)"
  by (induction es arbitrary: i) (auto simp: Let_def split_beta le_SucI split: json.splits)

lemma dependencyList_ok:
  "length (fst (dependencyList nfc r key s path name)) \<le> max_dependencies
   \<and> (\<forall>d\<in>set (fst (dependencyList nfc r key s path name)). well_formed_id d)"
  using dependency_entries_ok [of nfc key s path name 0]
  by (auto simp: dependencyList_def Let_def split: option.splits json.splits)
     (meson le_trans linorder_not_less)+

lemma area_entries_ok:
  "length (fst (area_entries nfc s path name i es)) \<le> length es
   \<and> (\<forall>a\<in>set (fst (area_entries nfc s path name i es)). a \<noteq> [] \<and> length a \<le> max_primary_area)"
proof (induction es arbitrary: i)
  case (Cons e es)
  have "length (fst (truncated v max_primary_area f d)) \<le> max_primary_area" for v f d
    by (simp add: truncated_def)
  with Cons [of "i + 1"] show ?case
    by (auto simp: Let_def split_beta le_SucI split: json.splits)
qed simp

lemma primaryAreas_ok:
  "length (fst (primaryAreas nfc r s path name)) \<le> max_primary_areas
   \<and> (\<forall>a\<in>set (fst (primaryAreas nfc r s path name)). a \<noteq> [] \<and> length a \<le> max_primary_area)"
proof (cases "map_of r ''primary_areas''")
  case (Some v)
  show ?thesis
  proof (cases v)
    case (J_array xs)
    have "fst (primaryAreas nfc r s path name) = fst (area_entries nfc s path name 0 (take max_primary_areas xs))"
      using Some J_array by (simp add: primaryAreas_def Let_def split_beta)
    with area_entries_ok [of nfc s path name 0 "take max_primary_areas xs"] show ?thesis by auto
  qed (use Some in \<open>auto simp: primaryAreas_def Let_def\<close>)
qed (simp add: primaryAreas_def)

lemma requiredText_ok:
  "fst (requiredText nfc r key n s path name) = Some t \<Longrightarrow> 0 < n \<Longrightarrow> t \<noteq> [] \<and> length t \<le> n"
  using truncated_fits
  by (auto simp: requiredText_def Let_def split_beta split: option.splits json.splits if_splits)

lemma requiredText_reported:
  "fst (requiredText nfc r key n s path name) = None \<Longrightarrow> hasFatal (snd (requiredText nfc r key n s path name))"
  by (auto simp: requiredText_def Let_def split_beta split: option.splits json.splits if_splits)

lemma item_phase_ok:
  "fst (item_phase nfc r s path name) = Some p \<Longrightarrow> p \<noteq> [] \<and> length p \<le> max_phase"
  by (auto simp: item_phase_def optionalString_def Let_def split: option.splits json.splits if_splits)

lemma normalized_item_ok:
  assumes "normalized_item nfc name i s r = (Some x, ds)" "well_formed_id s" "length s \<le> max_source_id"
  shows "valid_item x" "nw_sourceId x = s" "nw_ordinal x = i"
proof -
  from assms(1) have x: "nw_sourceId x = s" "nw_ordinal x = i"
    "fst (requiredText nfc r ''title'' max_title s (item_path i) name) = Some (nw_title x)"
    "fst (requiredText nfc r ''exit_gate'' max_exit_gate s (item_path i) name) = Some (nw_exitGate x)"
    "nw_phase x = fst (item_phase nfc r s (item_path i) name)"
    "nw_primaryAreas x = fst (primaryAreas nfc r s (item_path i) name)"
    "nw_requiredDependencies x = fst (dependencyList nfc r ''depends_on'' s (item_path i) name)"
    "nw_recommendedDependencies x = fst (dependencyList nfc r ''recommends'' s (item_path i) name)"
    by (auto simp: normalized_item_def Let_def split_beta split: option.splits)
  show "nw_sourceId x = s" "nw_ordinal x = i" by (rule x)+
  have "0 < max_title" "0 < max_exit_gate" by (simp_all add: plan_limits)
  with requiredText_ok [OF x(3)] requiredText_ok [OF x(4)]
  show "valid_item x"
    using assms(2,3) item_phase_ok [of nfc r s "item_path i" name] primaryAreas_ok [of nfc r s "item_path i" name]
      dependencyList_ok [of nfc r _ s "item_path i" name]
    by (auto simp: valid_item_def x(1,5-8))
qed

lemma normalized_item_reported:
  assumes "normalized_item nfc name i s r = (item, ds)"
  shows "item = None \<Longrightarrow> hasFatal ds"
  using assms requiredText_reported
  by (auto simp: normalized_item_def Let_def split_beta split: option.splits)

text \<open>
  The items of the entries: valid, each identifier once and none of those seen before, the
  positions increasing; when nothing is reported as an error every entry is an item.
\<close>

lemma plan_items_ok:
  assumes "plan_items nfc name i seen es = (items, ds)"
  shows "(\<forall>x\<in>set items. valid_item x \<and> i \<le> nw_ordinal x \<and> nw_ordinal x < i + length es \<and> seen (nw_sourceId x) = None)
     \<and> distinct (map nw_sourceId items) \<and> sorted_wrt (<) (map nw_ordinal items)
     \<and> (\<not> hasFatal ds \<longrightarrow> map nw_ordinal items = [i..<i + length es])"
  using assms
proof (induction es arbitrary: i seen items ds)
  case Nil
  then show ?case by simp
next
  case (Cons e es)
  obtain items1 ds1 where skip: "plan_items nfc name (i + 1) seen es = (items1, ds1)" by (meson surj_pair)
  show ?case
  proof (cases "\<exists>r raw. e = J_object r \<and> map_of r ''id'' = Some (J_str raw)
      \<and> \<not> (js_trim (nfc raw) = [] \<or> max_source_id < length (js_trim (nfc raw)) \<or> \<not> well_formed_id (js_trim (nfc raw)))
      \<and> seen (js_trim (nfc raw)) = None")
    case False
    with Cons.prems skip have "items = items1 \<and> hasFatal ds"
      by (auto simp: Let_def split: json.splits option.splits if_splits)
    with Cons.IH [OF skip] show ?thesis by fastforce
  next
    case True
    then obtain r raw where e: "e = J_object r" "map_of r ''id'' = Some (J_str raw)"
      and ok: "\<not> (js_trim (nfc raw) = [] \<or> max_source_id < length (js_trim (nfc raw)) \<or> \<not> well_formed_id (js_trim (nfc raw)))"
      and new: "seen (js_trim (nfc raw)) = None" by blast
    let ?s = "js_trim (nfc raw)"
    obtain item d where item: "normalized_item nfc name i ?s r = (item, d)" by (meson surj_pair)
    obtain items2 ds2 where rest: "plan_items nfc name (i + 1) (seen(?s \<mapsto> i)) es = (items2, ds2)" by (meson surj_pair)
    from Cons.prems e ok new item rest have res: "items = (case item of None \<Rightarrow> items2 | Some x \<Rightarrow> x # items2)" "ds = d @ ds2"
      by (auto simp: Let_def)
    note ih = Cons.IH [OF rest]
    have fresh: "x \<in> set items2 \<Longrightarrow> nw_sourceId x \<noteq> ?s \<and> seen (nw_sourceId x) = None" for x
      using ih by (auto split: if_splits)
    show ?thesis
    proof (cases item)
      case None
      with normalized_item_reported [OF item] have "hasFatal d" by simp
      with None res ih fresh show ?thesis by fastforce
    next
      case (Some x)
      from normalized_item_ok [OF item [unfolded Some]] ok
      have x: "valid_item x" "nw_sourceId x = ?s" "nw_ordinal x = i" by auto
      have "\<not> hasFatal ds2 \<Longrightarrow> map nw_ordinal items = [i..<i + length (e # es)]"
        using ih Some res x(3) by (simp add: upt_conv_Cons del: upt_Suc)
      moreover have "sorted_wrt (<) (map nw_ordinal items)" using ih Some res x(3) by fastforce
      moreover have "?s \<notin> nw_sourceId ` set items2" using fresh by (metis imageE)
      then have "distinct (map nw_sourceId items)" using ih Some res(1) x(2) by simp
      moreover have "\<forall>y\<in>set items. valid_item y \<and> i \<le> nw_ordinal y \<and> nw_ordinal y < i + length (e # es) \<and> seen (nw_sourceId y) = None"
        using ih fresh Some res x new by fastforce
      ultimately show ?thesis using res(2) by simp
    qed
  qed
qed

definition plan_entries :: "json \<Rightarrow> json list" where
  "plan_entries v =
     (case v of J_object r \<Rightarrow> (case map_of r ''pull_requests'' of Some (J_array es) \<Rightarrow> es | _ \<Rightarrow> []) | _ \<Rightarrow> [])"

lemma normalized_plan_ok:
  assumes "normalizePlan nfc v name = (Some p, ds)"
  shows "\<forall>x\<in>set (np_workItems p). valid_item x" "distinct (map nw_sourceId (np_workItems p))"
    "sorted_wrt (<) (map nw_ordinal (np_workItems p))" "\<forall>x\<in>set (np_workItems p). nw_ordinal x < max_work_items"
    "np_document p \<noteq> []" "length (np_document p) \<le> max_document"
    "\<not> hasFatal ds \<Longrightarrow> map nw_ordinal (np_workItems p) = [0..<length (plan_entries v)] \<and> plan_entries v \<noteq> []"
proof -
  obtain r where v: "v = J_object r" using assms by (cases v) (auto simp: normalizePlan_def)
  obtain doc where doc: "optionalString nfc r ''document'' = Some doc"
    and fits: "np_document p = fst (truncated doc max_document ''document'' (at_path name ''document''))"
    using assms v
    by (cases "optionalString nfc r ''document''")
       (auto simp: normalizePlan_def plan_of_def Let_def split_beta split: option.splits json.splits if_splits)
  have "doc \<noteq> []" using doc by (auto simp: optionalString_def Let_def split: option.splits json.splits if_splits)
  from truncated_fits [OF this, of max_document] fits
  show "np_document p \<noteq> []" "length (np_document p) \<le> max_document" by (simp_all add: max_document_def)
  have "(\<forall>x\<in>set (np_workItems p). valid_item x \<and> nw_ordinal x < max_work_items)
     \<and> distinct (map nw_sourceId (np_workItems p)) \<and> sorted_wrt (<) (map nw_ordinal (np_workItems p))
     \<and> (\<not> hasFatal ds \<longrightarrow> map nw_ordinal (np_workItems p) = [0..<length (plan_entries v)] \<and> plan_entries v \<noteq> [])"
  proof (cases "map_of r ''pull_requests''")
    case None
    then have "np_workItems p = []" "hasFatal ds"
      using assms v doc by (auto simp: normalizePlan_def plan_of_def Let_def split_beta missing_top_level_def required_top_level_fields_def)
    then show ?thesis by simp
  next
    case (Some c)
    obtain es where es: "c = J_array es"
      using assms v Some by (cases c) (auto simp: normalizePlan_def Let_def)
    obtain items d where items: "plan_items nfc name 0 Map.empty es = (items, d)" by (meson surj_pair)
    have p: "np_workItems p = items" "length es \<le> max_work_items" and fatal: "\<not> hasFatal ds \<longrightarrow> \<not> hasFatal d \<and> es \<noteq> []"
      using assms v Some es doc items
      by (auto simp: normalizePlan_def plan_of_def Let_def split_beta split: if_splits)
    from plan_items_ok [OF items] p fatal v Some es show ?thesis
      by (auto simp: plan_entries_def)
  qed
  then show "\<forall>x\<in>set (np_workItems p). valid_item x" "distinct (map nw_sourceId (np_workItems p))"
    "sorted_wrt (<) (map nw_ordinal (np_workItems p))" "\<forall>x\<in>set (np_workItems p). nw_ordinal x < max_work_items"
    "\<not> hasFatal ds \<Longrightarrow> map nw_ordinal (np_workItems p) = [0..<length (plan_entries v)] \<and> plan_entries v \<noteq> []"
    by blast+
qed

lemma unplanned_reported: "normalizePlan nfc v name = (None, ds) \<Longrightarrow> hasFatal ds"
proof (cases v)
  case (J_object r)
  assume n: "normalizePlan nfc v name = (None, ds)"
  have "optionalString nfc r ''document'' = None \<Longrightarrow> hasFatal (missing_top_level r name @ empty_document nfc r name)"
    by (auto simp: missing_top_level_def required_top_level_fields_def empty_document_def)
  with n J_object show ?thesis
    by (auto simp: normalizePlan_def Let_def split_beta split: option.splits json.splits if_splits)
qed (auto simp: normalizePlan_def)

end
