(* ===== verification/Plan_Graph.thy ===== *)
theory Plan_Graph
  imports Plan_Normalize
begin

text \<open>
  The dependency graph of a plan (\<open>packages/planning/src/graph.ts\<close>): the required and
  recommended edges with what is wrong with them, the iterative depth-first search for cycles,
  the roots and the items that are ready. A \<open>Map\<close> is its entries in insertion order; the
  search terminates because each push colours a node that was not visited, and every other
  step moves a frame on or pops it.
\<close>

section \<open>Cycles\<close>

type_synonym adjacency = "(string \<times> string list) list"

definition outgoing :: "adjacency \<Rightarrow> string \<Rightarrow> string list" where
  "outgoing succs n = over (map_of succs n) []"

datatype colour = White | Grey | Black

definition max_safe_integer :: nat where "max_safe_integer = 9007199254740991"

definition ordinal_or :: "(string \<rightharpoonup> nat) \<Rightarrow> string \<Rightarrow> nat" where
  "ordinal_or ordinalOf i = over (ordinalOf i) max_safe_integer"

fun pivot_index :: "(string \<rightharpoonup> nat) \<Rightarrow> string list \<Rightarrow> nat \<Rightarrow> nat \<Rightarrow> string list \<Rightarrow> nat" where
  "pivot_index ordinalOf cycle i pivot [] = pivot"
| "pivot_index ordinalOf cycle i pivot (x # xs) =
     pivot_index ordinalOf cycle (i + 1)
       (if ordinal_or ordinalOf x < ordinal_or ordinalOf (cycle ! pivot) then i else pivot) xs"

definition canonicalizeCycle :: "string list \<Rightarrow> (string \<rightharpoonup> nat) \<Rightarrow> string list" where
  "canonicalizeCycle cycle ordinalOf =
     (let p = pivot_index ordinalOf cycle 1 0 (tl cycle) in drop p cycle @ take p cycle)"

fun last_index :: "'a list \<Rightarrow> 'a \<Rightarrow> nat option" where
  "last_index [] x = None"
| "last_index (y # ys) x =
     (case last_index ys x of Some i \<Rightarrow> Some (Suc i) | None \<Rightarrow> if y = x then Some 0 else None)"

type_synonym found_cycles = "(string \<times> string list) list"

definition record_cycle :: "(string \<rightharpoonup> nat) \<Rightarrow> string list \<Rightarrow> found_cycles \<Rightarrow> found_cycles" where
  "record_cycle ordinalOf cycle found =
     (let c = canonicalizeCycle cycle ordinalOf
      in put_keyed fst (js_join [CHR 0x00] c, c) found)"

lemma put_keyed_members: "set (put_keyed key v xs) \<subseteq> insert v (set xs) \<and> put_keyed key v xs \<noteq> []"
  by (induction xs) auto

definition unvisited :: "adjacency \<Rightarrow> (string \<rightharpoonup> colour) \<Rightarrow> string set" where
  "unvisited succs colour =
     {t \<in> \<Union>(set ` snd ` set succs). colour t \<noteq> Some Grey \<and> colour t \<noteq> Some Black}"

lemma finite_unvisited [simp]: "finite (unvisited succs colour)"
  by (simp add: unvisited_def)

lemma unvisited_less:
  assumes "t \<in> set (outgoing succs n)" "colour t \<noteq> Some Grey" "colour t \<noteq> Some Black"
  shows "card (unvisited succs (colour(t \<mapsto> Grey))) < card (unvisited succs colour)"
proof (rule psubset_card_mono)
  have "t \<in> unvisited succs colour"
    using assms by (cases "map_of succs n") (force simp: unvisited_def outgoing_def dest: map_of_SomeD)+
  then show "unvisited succs (colour(t \<mapsto> Grey)) \<subset> unvisited succs colour"
    by (auto simp: unvisited_def split: if_splits)
qed simp

lemma unvisited_black: "card (unvisited succs (colour(n \<mapsto> Black))) \<le> card (unvisited succs colour)"
  by (rule card_mono) (auto simp: unvisited_def split: if_splits)

definition edges_left :: "adjacency \<Rightarrow> (string \<times> nat) list \<Rightarrow> nat" where
  "edges_left succs stack = sum_list (map (\<lambda>(n, i). length (outgoing succs n) - i) stack) + length stack"

text \<open>The stack's top frame is its first; a frame is a node and its next outgoing edge.\<close>

function depth_first ::
    "adjacency \<Rightarrow> (string \<rightharpoonup> nat) \<Rightarrow> (string \<rightharpoonup> colour) \<Rightarrow> string list \<Rightarrow> (string \<times> nat) list \<Rightarrow> found_cycles
     \<Rightarrow> (string \<rightharpoonup> colour) \<times> found_cycles" where
  "depth_first succs ordinalOf colour path [] found = (colour, found)"
| "depth_first succs ordinalOf colour path ((node, i) # stack) found =
     (if length (outgoing succs node) \<le> i
      then depth_first succs ordinalOf (colour(node \<mapsto> Black)) (butlast path) stack found
      else let target = outgoing succs node ! i in
        if colour target = Some Grey
        then depth_first succs ordinalOf colour path ((node, Suc i) # stack)
               (case last_index path target of
                  None \<Rightarrow> found
                | Some k \<Rightarrow> record_cycle ordinalOf (drop k path) found)
        else if colour target = Some Black
        then depth_first succs ordinalOf colour path ((node, Suc i) # stack) found
        else depth_first succs ordinalOf (colour(target \<mapsto> Grey)) (path @ [target])
               ((target, 0) # (node, Suc i) # stack) found)"
  by pat_completeness auto

termination
proof (relation "measures [\<lambda>(succs, ordinalOf, colour, path, stack, found). card (unvisited succs colour),
    \<lambda>(succs, ordinalOf, colour, path, stack, found). edges_left succs stack]", goal_cases)
  case (2 succs ordinalOf colour path node i stack found)
  then show ?case using unvisited_black [of succs colour node] by (auto simp: edges_left_def)
next
  case (5 succs ordinalOf colour path node i stack found target)
  then show ?case using unvisited_less [of target succs node colour] by auto
qed (auto simp: edges_left_def)

declare depth_first.simps(2) [simp del]

lemma depth_first_steps:
  "length (outgoing succs n) \<le> i \<Longrightarrow> depth_first succs ordinalOf colour path ((n, i) # stack) found =
     depth_first succs ordinalOf (colour(n \<mapsto> Black)) (butlast path) stack found"
  "\<not> length (outgoing succs n) \<le> i \<Longrightarrow> colour (outgoing succs n ! i) = Some Grey \<Longrightarrow>
     depth_first succs ordinalOf colour path ((n, i) # stack) found =
     depth_first succs ordinalOf colour path ((n, Suc i) # stack)
       (case last_index path (outgoing succs n ! i) of None \<Rightarrow> found | Some k \<Rightarrow> record_cycle ordinalOf (drop k path) found)"
  "\<not> length (outgoing succs n) \<le> i \<Longrightarrow> colour (outgoing succs n ! i) = Some Black \<Longrightarrow>
     depth_first succs ordinalOf colour path ((n, i) # stack) found =
     depth_first succs ordinalOf colour path ((n, Suc i) # stack) found"
  "\<not> length (outgoing succs n) \<le> i \<Longrightarrow> colour (outgoing succs n ! i) \<noteq> Some Grey \<Longrightarrow>
     colour (outgoing succs n ! i) \<noteq> Some Black \<Longrightarrow>
     depth_first succs ordinalOf colour path ((n, i) # stack) found =
     depth_first succs ordinalOf (colour(outgoing succs n ! i \<mapsto> Grey)) (path @ [outgoing succs n ! i])
       ((outgoing succs n ! i, 0) # (n, Suc i) # stack) found"
  by (simp_all add: depth_first.simps(2) [of succs ordinalOf colour path n i] Let_def)

fun search_from ::
    "adjacency \<Rightarrow> (string \<rightharpoonup> nat) \<Rightarrow> string list \<Rightarrow> (string \<rightharpoonup> colour) \<Rightarrow> found_cycles \<Rightarrow> (string \<rightharpoonup> colour) \<times> found_cycles" where
  "search_from succs ordinalOf [] colour found = (colour, found)"
| "search_from succs ordinalOf (s # ss) colour found =
     (if colour s \<noteq> Some White then search_from succs ordinalOf ss colour found
      else let (colour', found') = depth_first succs ordinalOf (colour(s \<mapsto> Grey)) [s] [(s, 0)] found
           in search_from succs ordinalOf ss colour' found')"

definition detectCycles ::
    "(string \<Rightarrow> string \<Rightarrow> int) \<Rightarrow> string list \<Rightarrow> adjacency \<Rightarrow> (string \<rightharpoonup> nat) \<Rightarrow> string list list" where
  "detectCycles collate sourceIds succs ordinalOf =
     map snd (js_sort (\<lambda>l r. collate (fst l) (fst r))
       (snd (search_from succs ordinalOf sourceIds (\<lambda>i. if i \<in> set sourceIds then Some White else None) [])))"

section \<open>The search finds exactly the cycles there are\<close>

definition arrows :: "adjacency \<Rightarrow> (string \<times> string) set" where
  "arrows succs = {(a, b). b \<in> set (outgoing succs a)}"

text \<open>A simple cycle: each member leads to the next, the last to the first.\<close>

definition simple_cycle :: "adjacency \<Rightarrow> string list \<Rightarrow> bool" where
  "simple_cycle succs c =
     (c \<noteq> [] \<and> distinct c \<and> successively (\<lambda>a b. (a, b) \<in> arrows succs) c \<and> (last c, hd c) \<in> arrows succs)"

lemma rotated_cycle:
  assumes "simple_cycle succs c"
  shows "simple_cycle succs (drop p c @ take p c)"
proof (cases "p = 0 \<or> length c \<le> p")
  case True
  with assms show ?thesis by auto
next
  case False
  let ?a = "take p c" and ?b = "drop p c"
  have ne: "?a \<noteq> []" "?b \<noteq> []" using False assms by (auto simp: simple_cycle_def)
  have "successively (\<lambda>a b. (a, b) \<in> arrows succs) (?a @ ?b)" using assms by (simp add: simple_cycle_def)
  then have "successively (\<lambda>a b. (a, b) \<in> arrows succs) ?a" "successively (\<lambda>a b. (a, b) \<in> arrows succs) ?b"
    "(last ?a, hd ?b) \<in> arrows succs"
    using ne unfolding successively_append_iff by auto
  moreover have "last c = last ?b" "hd c = hd ?a"
    using ne False by (simp_all add: last_drop hd_take)
  moreover have "distinct (?b @ ?a)"
    using assms distinct_append [of ?a ?b] by (auto simp: simple_cycle_def)
  ultimately show ?thesis
    using assms ne unfolding simple_cycle_def successively_append_iff by auto
qed

lemma successively_path:
  "successively (\<lambda>a b. (a, b) \<in> r) c \<Longrightarrow> c \<noteq> [] \<Longrightarrow> (hd c, last c) \<in> r\<^sup>*"
proof (induction c)
  case (Cons x xs)
  then show ?case by (cases xs) (auto intro: converse_rtrancl_into_rtrancl)
qed simp

lemma simple_cycle_cyclic: "simple_cycle succs c \<Longrightarrow> \<not> acyclic (arrows succs)"
  unfolding simple_cycle_def acyclic_def
  using successively_path [of "arrows succs" c] rtrancl_into_trancl1 [of "hd c" "last c" "arrows succs" "hd c"]
  by blast

lemma last_index_Some:
  "last_index xs x = Some i \<Longrightarrow> i < length xs \<and> xs ! i = x"
  by (induction xs arbitrary: i) (auto split: option.splits if_splits)

lemma last_index_None: "last_index xs x = None \<longleftrightarrow> x \<notin> set xs"
  by (induction xs) (auto split: option.splits)

text \<open>
  What the search has of a frame: every edge before its next one leads to a black node, or to
  the node above it.
\<close>

fun frames_done :: "adjacency \<Rightarrow> (string \<rightharpoonup> colour) \<Rightarrow> string option \<Rightarrow> (string \<times> nat) list \<Rightarrow> bool" where
  "frames_done succs colour upper [] = True"
| "frames_done succs colour upper ((n, i) # stack) =
     (i \<le> length (outgoing succs n)
      \<and> (\<forall>j<i. colour (outgoing succs n ! j) = Some Black \<or> Some (outgoing succs n ! j) = upper)
      \<and> frames_done succs colour (Some n) stack)"

lemma frames_done_mono:
  assumes "\<And>n. colour n = Some Black \<Longrightarrow> colour' n = Some Black"
    "\<And>n. upper = Some n \<Longrightarrow> upper' = Some n \<or> colour' n = Some Black"
  shows "frames_done succs colour upper stack \<Longrightarrow> frames_done succs colour' upper' stack"
  using assms(2)
proof (induction stack arbitrary: upper upper')
  case (Cons f stack)
  obtain n i where f: "f = (n, i)" by (cases f)
  have "frames_done succs colour' (Some n) stack" by (rule Cons.IH [of "Some n"]) (use Cons.prems f in auto)
  with Cons.prems assms(1) show ?case by (auto simp: f)
qed simp

text \<open>
  The invariant: the path is the stack's nodes, grey, each an edge from the one before; the
  cycles recorded are cycles. While none is recorded, the black nodes lead only to black
  nodes, and a rank decreases along their edges.
\<close>

definition closed :: "adjacency \<Rightarrow> (string \<rightharpoonup> colour) \<Rightarrow> bool" where
  "closed succs colour =
     (\<forall>a b. colour a = Some Black \<longrightarrow> (a, b) \<in> arrows succs \<longrightarrow> colour b = Some Black)"

definition ranked :: "adjacency \<Rightarrow> (string \<rightharpoonup> colour) \<Rightarrow> bool" where
  "ranked succs colour =
     (\<exists>rank :: string \<Rightarrow> nat. \<forall>a b. colour a = Some Black \<longrightarrow> (a, b) \<in> arrows succs \<longrightarrow> rank b < rank a)"

lemma ranked_mono:
  "(\<And>a. colour' a = Some Black \<Longrightarrow> colour a = Some Black) \<Longrightarrow> ranked succs colour \<Longrightarrow> ranked succs colour'"
  unfolding ranked_def by blast

definition clean :: "adjacency \<Rightarrow> (string \<rightharpoonup> colour) \<Rightarrow> (string \<times> nat) list \<Rightarrow> bool" where
  "clean succs colour stack =
     (frames_done succs colour None stack \<and> closed succs colour \<and> ranked succs colour)"

definition searching ::
    "adjacency \<Rightarrow> (string \<rightharpoonup> colour) \<Rightarrow> string list \<Rightarrow> (string \<times> nat) list \<Rightarrow> found_cycles \<Rightarrow> bool" where
  "searching succs colour path stack found =
     (path = rev (map fst stack) \<and> distinct path
      \<and> (\<forall>n. colour n = Some Grey \<longleftrightarrow> n \<in> set path)
      \<and> successively (\<lambda>a b. (a, b) \<in> arrows succs) path
      \<and> (\<forall>(k, c)\<in>set found. simple_cycle succs c)
      \<and> (found = [] \<longrightarrow> clean succs colour stack))"

lemma searchingD:
  assumes "searching succs colour path stack found"
  shows "path = rev (map fst stack)" "distinct path" "\<And>m. colour m = Some Grey \<longleftrightarrow> m \<in> set path"
    "successively (\<lambda>a b. (a, b) \<in> arrows succs) path"
  using assms unfolding searching_def by blast+

lemma searching_advance:
  assumes "searching succs colour path ((n, i) # stack) found"
    "\<forall>(k, c)\<in>set found'. simple_cycle succs c" "found' = [] \<Longrightarrow> clean succs colour ((n, Suc i) # stack)"
  shows "searching succs colour path ((n, Suc i) # stack) found'"
  using assms unfolding searching_def by clarsimp

lemma recorded_cycles:
  assumes "\<forall>(k, c)\<in>set found. simple_cycle succs c" "simple_cycle succs cycle"
  shows "(\<forall>(k, c)\<in>set (record_cycle ordinalOf cycle found). simple_cycle succs c)
     \<and> record_cycle ordinalOf cycle found \<noteq> []"
  using assms(1) rotated_cycle [OF assms(2)] put_keyed_members [of fst _ found]
  unfolding record_cycle_def Let_def canonicalizeCycle_def by (metis (no_types, lifting) case_prodI2 insertE prod.inject subsetD)

lemma searching_pop:
  assumes s: "searching succs colour path ((n, i) # stack) found" and i: "length (outgoing succs n) \<le> i"
  shows "searching succs (colour(n \<mapsto> Black)) (butlast path) stack found"
proof -
  let ?c = "colour(n \<mapsto> Black)"
  have path: "path = rev (map fst stack) @ [n]" and d: "distinct path"
    and grey: "\<And>m. colour m = Some Grey \<longleftrightarrow> m \<in> set path" and e: "successively (\<lambda>a b. (a, b) \<in> arrows succs) path"
    using searchingD [OF s] by simp_all
  have n: "colour n = Some Grey" using grey path by simp
  have clean: "clean succs ?c stack" if "found = []"
  proof -
    from s that have c: "clean succs colour ((n, i) # stack)" by (simp add: searching_def)
    then have outs: "\<And>b. (n, b) \<in> arrows succs \<Longrightarrow> colour b = Some Black"
      using i by (auto simp: clean_def arrows_def in_set_conv_nth)
    from c obtain rank :: "string \<Rightarrow> nat" where
      rank: "\<And>a b. colour a = Some Black \<Longrightarrow> (a, b) \<in> arrows succs \<Longrightarrow> rank b < rank a"
      unfolding clean_def ranked_def by blast
    have closed: "\<And>a b. colour a = Some Black \<Longrightarrow> (a, b) \<in> arrows succs \<Longrightarrow> colour b = Some Black"
      using c unfolding clean_def closed_def by blast
    let ?rank = "rank(n := Suc (sum_list (map rank (outgoing succs n))))"
    have "?rank b < ?rank a" if "?c a = Some Black" "(a, b) \<in> arrows succs" for a b
    proof (cases "a = n")
      case True
      with that outs n have "b \<noteq> n" "b \<in> set (outgoing succs n)" by (auto simp: arrows_def)
      then have "rank b \<le> sum_list (map rank (outgoing succs n))"
        by (intro member_le_sum_list) auto
      with True \<open>b \<noteq> n\<close> show ?thesis by simp
    next
      case False
      with that have "colour a = Some Black" by simp
      with that(2) closed [of a b] n have "b \<noteq> n" by auto
      with False rank [OF \<open>colour a = Some Black\<close> that(2)] show ?thesis by simp
    qed
    moreover have "?c b = Some Black" if "?c a = Some Black" "(a, b) \<in> arrows succs" for a b
      using that outs closed by (cases "a = n") auto
    moreover have "frames_done succs ?c None stack"
      by (rule frames_done_mono [of colour _ "Some n"]) (use c in \<open>auto simp: clean_def\<close>)
    ultimately show ?thesis unfolding clean_def closed_def ranked_def by blast
  qed
  have "successively (\<lambda>a b. (a, b) \<in> arrows succs) (rev (map fst stack))"
    using e path by (simp add: successively_append_iff)
  with s clean path d grey show ?thesis
    by (auto simp: searching_def)
qed

lemma searching_grey:
  assumes s: "searching succs colour path ((n, i) # stack) found" and i: "i < length (outgoing succs n)"
    and g: "colour (outgoing succs n ! i) = Some Grey"
  shows "searching succs colour path ((n, Suc i) # stack)
     (case last_index path (outgoing succs n ! i) of None \<Rightarrow> found | Some k \<Rightarrow> record_cycle ordinalOf (drop k path) found)"
proof -
  let ?t = "outgoing succs n ! i"
  have path: "path = rev (map fst stack) @ [n]" and d: "distinct path"
    and e: "successively (\<lambda>a b. (a, b) \<in> arrows succs) path" and t: "?t \<in> set path"
    using searchingD [OF s] g by simp_all
  from t obtain k where k: "last_index path ?t = Some k" using last_index_None [of path ?t] by auto
  with last_index_Some have kt: "k < length path" "path ! k = ?t" by metis+
  have "simple_cycle succs (drop k path)"
  proof -
    have "successively (\<lambda>a b. (a, b) \<in> arrows succs) (take k path @ drop k path)" using e by simp
    then have "successively (\<lambda>a b. (a, b) \<in> arrows succs) (drop k path)"
      unfolding successively_append_iff by blast
    moreover have "last (drop k path) = n" using kt(1) path by (simp add: last_drop)
    moreover have "hd (drop k path) = ?t" using kt by (simp add: hd_drop_conv_nth)
    ultimately show ?thesis using d kt(1) i by (auto simp: simple_cycle_def arrows_def)
  qed
  from recorded_cycles [OF _ this, of found ordinalOf] s k show ?thesis
    by (intro searching_advance [OF s]) (simp_all add: searching_def)
qed

lemma searching_black:
  assumes "searching succs colour path ((n, i) # stack) found" "i < length (outgoing succs n)"
    "colour (outgoing succs n ! i) = Some Black"
  shows "searching succs colour path ((n, Suc i) # stack) found"
  by (rule searching_advance [OF assms(1)]) (use assms in \<open>auto simp: searching_def clean_def less_Suc_eq\<close>)

lemma searching_push:
  assumes s: "searching succs colour path ((n, i) # stack) found" and i: "i < length (outgoing succs n)"
    and g: "colour (outgoing succs n ! i) \<noteq> Some Grey" "colour (outgoing succs n ! i) \<noteq> Some Black"
  shows "searching succs (colour(outgoing succs n ! i \<mapsto> Grey)) (path @ [outgoing succs n ! i])
     ((outgoing succs n ! i, 0) # (n, Suc i) # stack) found"
proof -
  let ?t = "outgoing succs n ! i" and ?c = "colour(outgoing succs n ! i \<mapsto> Grey)"
  have path: "path = rev (map fst stack) @ [n]" and d: "distinct path"
    and grey: "\<And>m. colour m = Some Grey \<longleftrightarrow> m \<in> set path"
    and e: "successively (\<lambda>a b. (a, b) \<in> arrows succs) path"
    using searchingD [OF s] by simp_all
  have t: "?t \<notin> set path" using grey g by simp
  have "(n, ?t) \<in> arrows succs" using i by (simp add: arrows_def)
  then have "successively (\<lambda>a b. (a, b) \<in> arrows succs) (path @ [?t])"
    using e path by (auto simp: successively_append_iff)
  moreover have "clean succs ?c ((?t, 0) # (n, Suc i) # stack)" if "found = []"
  proof -
    from s that have c: "clean succs colour ((n, i) # stack)" by (simp add: searching_def)
    have "frames_done succs ?c (Some n) stack"
      by (rule frames_done_mono [of colour _ "Some n"]) (use c g in \<open>auto simp: clean_def\<close>)
    moreover have "closed succs ?c" using c g by (auto simp: clean_def closed_def)
    moreover have "ranked succs ?c"
      by (rule ranked_mono [of _ colour]) (use c in \<open>auto simp: clean_def split: if_splits\<close>)
    ultimately show ?thesis using c i by (auto simp: clean_def less_Suc_eq)
  qed
  ultimately show ?thesis using s d t grey path by (auto simp: searching_def)
qed

text \<open>Once a node is grey or black it ends black, and no node's colour is forgotten.\<close>

definition settles :: "(string \<rightharpoonup> colour) \<Rightarrow> (string \<rightharpoonup> colour) \<Rightarrow> bool" where
  "settles colour colour' =
     ((\<forall>n. colour n = Some Grey \<or> colour n = Some Black \<longrightarrow> colour' n = Some Black)
      \<and> (\<forall>n. colour n \<noteq> None \<longrightarrow> colour' n \<noteq> None))"

lemma settles_update:
  "settles (colour(n \<mapsto> x)) colour' \<Longrightarrow> colour n \<noteq> Some Grey \<and> colour n \<noteq> Some Black \<or> x = Black \<Longrightarrow> settles colour colour'"
  unfolding settles_def by (metis fun_upd_apply option.distinct(1))

lemma depth_first_inv:
  assumes "searching succs colour path stack found"
    "depth_first succs ordinalOf colour path stack found = (colour', found')"
  shows "searching succs colour' [] [] found' \<and> settles colour colour'"
  using assms
proof (induction succs ordinalOf colour path stack found rule: depth_first.induct)
  case (1 succs ordinalOf colour path found)
  then show ?case by (simp add: searching_def settles_def)
next
  case (2 succs ordinalOf colour path n i stack found)
  let ?t = "outgoing succs n ! i"
  consider (pop) "length (outgoing succs n) \<le> i"
    | (grey) "\<not> length (outgoing succs n) \<le> i" "colour ?t = Some Grey"
    | (black) "\<not> length (outgoing succs n) \<le> i" "colour ?t \<noteq> Some Grey" "colour ?t = Some Black"
    | (push) "\<not> length (outgoing succs n) \<le> i" "colour ?t \<noteq> Some Grey" "colour ?t \<noteq> Some Black"
    by blast
  then show ?case
  proof cases
    case pop
    from 2(6) depth_first_steps pop have "depth_first succs ordinalOf (colour(n \<mapsto> Black)) (butlast path) stack found = (colour', found')"
      by metis
    from 2(1) [OF pop searching_pop [OF 2(5) pop] this] settles_update show ?thesis by blast
  next
    case grey
    from 2(6) depth_first_steps grey have e: "depth_first succs ordinalOf colour path ((n, Suc i) # stack)
        (case last_index path ?t of None \<Rightarrow> found | Some k \<Rightarrow> record_cycle ordinalOf (drop k path) found) = (colour', found')"
      by metis
    have "i < length (outgoing succs n)" using grey by simp
    from 2(2) [OF grey(1) refl grey(2) searching_grey [OF 2(5) this grey(2)] e] show ?thesis .
  next
    case black
    from 2(6) depth_first_steps black have e: "depth_first succs ordinalOf colour path ((n, Suc i) # stack) found = (colour', found')"
      by metis
    have "i < length (outgoing succs n)" using black by simp
    from 2(3) [OF black(1) refl black(2,3) searching_black [OF 2(5) this black(3)] e] show ?thesis .
  next
    case push
    from 2(6) depth_first_steps push have e: "depth_first succs ordinalOf (colour(?t \<mapsto> Grey)) (path @ [?t])
        ((?t, 0) # (n, Suc i) # stack) found = (colour', found')" by metis
    have "i < length (outgoing succs n)" using push by simp
    from 2(4) [OF push(1) refl push(2,3) searching_push [OF 2(5) this push(2,3)] e] push settles_update
    show ?thesis by blast
  qed
qed

lemma search_from_inv:
  assumes "searching succs colour [] [] found" "\<forall>s\<in>set ss. colour s \<noteq> None"
    "search_from succs ordinalOf ss colour found = (colour', found')"
  shows "searching succs colour' [] [] found' \<and> settles colour colour' \<and> (\<forall>s\<in>set ss. colour' s = Some Black)"
  using assms
proof (induction ss arbitrary: colour found)
  case Nil
  then show ?case by (simp add: settles_def searching_def)
next
  case (Cons s ss)
  have grey: "colour s \<noteq> Some Grey" using searchingD(3) [OF Cons.prems(1), of s] by simp
  show ?case
  proof (cases "colour s = Some White")
    case False
    with grey Cons.prems(2) have b: "colour s = Some Black" by (cases "colour s"; cases "the (colour s)") auto
    from Cons.IH [OF Cons.prems(1)] Cons.prems(2,3) False
    have "searching succs colour' [] [] found' \<and> settles colour colour' \<and> (\<forall>s\<in>set ss. colour' s = Some Black)" by simp
    with b show ?thesis by (auto simp: settles_def)
  next
    case True
    obtain c1 f1 where d: "depth_first succs ordinalOf (colour(s \<mapsto> Grey)) [s] [(s, 0)] found = (c1, f1)"
      by (meson surj_pair)
    have white: "colour s \<noteq> Some Grey \<and> colour s \<noteq> Some Black" using True by simp
    have "closed succs (colour(s \<mapsto> Grey))" if "found = []"
      using Cons.prems(1) that white by (auto simp: searching_def clean_def closed_def)
    moreover have "ranked succs (colour(s \<mapsto> Grey))" if "found = []"
      by (rule ranked_mono [of _ colour])
         (use Cons.prems(1) that in \<open>auto simp: searching_def clean_def split: if_splits\<close>)
    ultimately have "searching succs (colour(s \<mapsto> Grey)) [s] [(s, 0)] found"
      using Cons.prems(1) by (auto simp: searching_def clean_def)
    from depth_first_inv [OF this d] have i: "searching succs c1 [] [] f1" "settles (colour(s \<mapsto> Grey)) c1" by auto
    have se: "settles colour c1" using settles_update [OF i(2)] white by blast
    have "\<forall>x\<in>set ss. c1 x \<noteq> None" using se Cons.prems(2) by (simp add: settles_def)
    from Cons.IH [OF i(1) this] Cons.prems(3) True d
    have r: "searching succs colour' [] [] found'" "settles c1 colour'" "\<forall>s\<in>set ss. colour' s = Some Black" by auto
    moreover have "colour' s = Some Black" using i(2) r(2) by (simp add: settles_def)
    moreover have "settles colour colour'" using se r(2) by (simp add: settles_def)
    ultimately show ?thesis by simp
  qed
qed

lemma ranked_acyclic:
  assumes "ranked succs colour" "\<And>a b. (a, b) \<in> arrows succs \<Longrightarrow> colour a = Some Black"
  shows "acyclic (arrows succs)"
proof -
  from assms obtain rank :: "string \<Rightarrow> nat" where "\<And>a b. (a, b) \<in> arrows succs \<Longrightarrow> rank b < rank a"
    unfolding ranked_def by metis
  then have "arrows succs \<subseteq> (measure rank)\<inverse>" by auto
  moreover have "acyclic ((measure rank)\<inverse>)" by (simp add: wf_acyclic)
  ultimately show ?thesis by (rule acyclic_subset [rotated])
qed

lemma detected_cycles:
  assumes "\<And>a b. (a, b) \<in> arrows succs \<Longrightarrow> a \<in> set sourceIds"
  shows "detectCycles collate sourceIds succs ordinalOf = [] \<longleftrightarrow> acyclic (arrows succs)"
    and "c \<in> set (detectCycles collate sourceIds succs ordinalOf) \<Longrightarrow> simple_cycle succs c"
proof -
  let ?c0 = "\<lambda>i. if i \<in> set sourceIds then Some White else None"
  obtain colour found where s: "search_from succs ordinalOf sourceIds ?c0 [] = (colour, found)" by (meson surj_pair)
  have "searching succs ?c0 [] [] []"
    by (auto simp: searching_def clean_def closed_def ranked_def split: if_splits)
  from search_from_inv [OF this _ s]
  have i: "searching succs colour [] [] found" "\<forall>s\<in>set sourceIds. colour s = Some Black" by auto
  have members: "set (detectCycles collate sourceIds succs ordinalOf) = snd ` set found"
    by (simp add: detectCycles_def s)
  have real: "c \<in> set (detectCycles collate sourceIds succs ordinalOf) \<Longrightarrow> simple_cycle succs c" for c
    using i(1) members by (auto simp: searching_def)
  then show "c \<in> set (detectCycles collate sourceIds succs ordinalOf) \<Longrightarrow> simple_cycle succs c" .
  show "detectCycles collate sourceIds succs ordinalOf = [] \<longleftrightarrow> acyclic (arrows succs)"
  proof
    assume "detectCycles collate sourceIds succs ordinalOf = []"
    with members have "found = []" by simp
    with i(1) have "ranked succs colour" by (simp add: searching_def clean_def)
    then show "acyclic (arrows succs)" by (rule ranked_acyclic) (use assms i(2) in blast)
  next
    assume a: "acyclic (arrows succs)"
    show "detectCycles collate sourceIds succs ordinalOf = []"
    proof (rule ccontr)
      assume "detectCycles collate sourceIds succs ordinalOf \<noteq> []"
      then obtain c where "c \<in> set (detectCycles collate sourceIds succs ordinalOf)" by (meson list.set_sel(1))
      with real simple_cycle_cyclic a show False by blast
    qed
  qed
qed

text \<open>A reported cycle starts from its member of the lowest ordinal.\<close>

lemma pivot_least:
  assumes "cycle = done @ xs" "i = length done" "pivot < i"
    "\<forall>x\<in>set done. ordinal_or ordinalOf (cycle ! pivot) \<le> ordinal_or ordinalOf x"
  shows "pivot_index ordinalOf cycle i pivot xs < length cycle
     \<and> (\<forall>x\<in>set cycle. ordinal_or ordinalOf (cycle ! pivot_index ordinalOf cycle i pivot xs) \<le> ordinal_or ordinalOf x)"
  using assms
proof (induction xs arbitrary: "done" i pivot)
  case (Cons x xs)
  let ?p = "if ordinal_or ordinalOf x < ordinal_or ordinalOf (cycle ! pivot) then i else pivot"
  have nth: "cycle ! i = x" using Cons.prems(1,2) by simp
  have "pivot_index ordinalOf cycle (i + 1) ?p xs < length cycle
     \<and> (\<forall>y\<in>set cycle. ordinal_or ordinalOf (cycle ! pivot_index ordinalOf cycle (i + 1) ?p xs) \<le> ordinal_or ordinalOf y)"
    by (rule Cons.IH [of "done @ [x]"]) (use Cons.prems nth in \<open>auto intro: order_trans less_imp_le\<close>)
  then show ?case by simp
qed simp

lemma canonical_least:
  assumes "cycle \<noteq> []"
  shows "\<forall>x\<in>set cycle. ordinal_or ordinalOf (hd (canonicalizeCycle cycle ordinalOf)) \<le> ordinal_or ordinalOf x"
proof -
  obtain c cs where c: "cycle = c # cs" using assms by (cases cycle) auto
  have "pivot_index ordinalOf cycle 1 0 (tl cycle) < length cycle
     \<and> (\<forall>x\<in>set cycle. ordinal_or ordinalOf (cycle ! pivot_index ordinalOf cycle 1 0 (tl cycle)) \<le> ordinal_or ordinalOf x)"
    by (rule pivot_least [of _ "[c]"]) (simp_all add: c)
  then show ?thesis
    by (simp add: canonicalizeCycle_def Let_def hd_append hd_drop_conv_nth)
qed

section \<open>The graph of a plan\<close>

record plan_edge =
  pe_predecessor :: string
  pe_successor :: string
  pe_ordinal :: nat

record plan_graph =
  pg_requiredEdges :: "plan_edge list"
  pg_recommendedEdges :: "plan_edge list"
  pg_rootSourceIds :: "string list"
  pg_planningReadySourceIds :: "string list"
  pg_requiredPredecessors :: adjacency
  pg_requiredSuccessors :: adjacency

fun required_of ::
    "string list \<Rightarrow> string \<Rightarrow> string \<Rightarrow> string \<Rightarrow> nat \<Rightarrow> string list \<Rightarrow> string list \<Rightarrow> plan_edge list \<times> plan_diagnostic list" where
  "required_of known name path s i seen [] = ([], [])"
| "required_of known name path s i seen (t # ts) =
     (let detail = of_item name (index_path (field_path path ''depends_on'') i) s in
      if t = s then
        (let (es, ds) = required_of known name path s (i + 1) seen ts
         in (es, plan_error Self_dependency (''\"'' @ s @ ''\" cannot depend on itself'') detail # ds))
      else if t \<notin> set known then
        (let (es, ds) = required_of known name path s (i + 1) seen ts
         in (es, plan_error Missing_required_dependency
              (''\"'' @ s @ ''\" requires \"'' @ t @ ''\", which is not present in this plan version'') detail # ds))
      else if t \<in> set seen then
        (let (es, ds) = required_of known name path s (i + 1) seen ts
         in (es, plan_warning Duplicate_required_dependency
              (''\"'' @ s @ ''\" lists \"'' @ t @ ''\" more than once; the duplicate was ignored'') detail # ds))
      else
        (let (es, ds) = required_of known name path s (i + 1) (seen @ [t]) ts
         in (\<lparr>pe_predecessor = t, pe_successor = s, pe_ordinal = length seen\<rparr> # es, ds)))"

fun recommended_of ::
    "string list \<Rightarrow> string \<Rightarrow> string \<Rightarrow> string \<Rightarrow> nat \<Rightarrow> string list \<Rightarrow> string list \<Rightarrow> plan_edge list \<times> plan_diagnostic list" where
  "recommended_of known name path s i seen [] = ([], [])"
| "recommended_of known name path s i seen (t # ts) =
     (if t = s \<or> t \<notin> set known \<or> t \<in> set seen then
        (let (es, ds) = recommended_of known name path s (i + 1) seen ts
         in (es, if t \<notin> set known
                 then plan_warning Unknown_recommended_dependency
                   (''\"'' @ s @ ''\" recommends \"'' @ t @ ''\", which is not present in this plan version'')
                   (of_item name (index_path (field_path path ''recommends'') i) s) # ds
                 else ds))
      else
        (let (es, ds) = recommended_of known name path s (i + 1) (seen @ [t]) ts
         in (\<lparr>pe_predecessor = t, pe_successor = s, pe_ordinal = length seen\<rparr> # es, ds)))"

text \<open>\<open>map.get(k)?.push(v)\<close>\<close>

definition push_at :: "string \<Rightarrow> string \<Rightarrow> adjacency \<Rightarrow> adjacency" where
  "push_at k v m = map (\<lambda>(k', vs). if k' = k then (k', vs @ [v]) else (k', vs)) m"

definition empty_lists :: "string list \<Rightarrow> adjacency" where
  "empty_lists sourceIds = map (\<lambda>i. (i, [])) (dedup sourceIds)"

definition cycle_diagnostics :: "string \<Rightarrow> string list list \<Rightarrow> plan_diagnostic list" where
  "cycle_diagnostics name cycles =
     map (\<lambda>c. plan_error Required_dependency_cycle
         (''Required dependency cycle: '' @ js_join '' -> '' (c @ (case c of [] \<Rightarrow> [[]] | x # xs \<Rightarrow> [x])))
         ((in_artifact name)\<lparr>dd_workItem := (case c of [] \<Rightarrow> None | x # xs \<Rightarrow> Some x)\<rparr>))
       (take max_reported_cycles cycles)
     @ (if max_reported_cycles < length cycles
        then [plan_error Required_dependency_cycle
          (string_of_nat (length cycles) @ '' required dependency cycles were found; only the first ''
            @ string_of_nat max_reported_cycles @ '' are listed'') (in_artifact name)]
        else [])"

definition item_edges ::
    "string list \<Rightarrow> string \<Rightarrow> normalized_work_item \<Rightarrow> (plan_edge list \<times> plan_edge list) \<times> plan_diagnostic list" where
  "item_edges known name item =
     (let path = item_path (nw_ordinal item);
          (es, ds) = required_of known name path (nw_sourceId item) 0 [] (nw_requiredDependencies item);
          (rs, ws) = recommended_of known name path (nw_sourceId item) 0 [] (nw_recommendedDependencies item)
      in ((es, rs), ds @ ws))"

definition analyzePlanGraph ::
    "(string \<Rightarrow> string \<Rightarrow> int) \<Rightarrow> normalized_plan \<Rightarrow> string \<Rightarrow> string list \<Rightarrow> plan_graph \<times> plan_diagnostic list" where
  "analyzePlanGraph collate plan name completed =
     (let items = np_workItems plan;
          sourceIds = map nw_sourceId items;
          ordinalOf = map_of (rev (map (\<lambda>x. (nw_sourceId x, nw_ordinal x)) items));
          parts = map (item_edges sourceIds name) items;
          required = concat (map (fst \<circ> fst) parts);
          recommended = concat (map (snd \<circ> fst) parts);
          preds = fold (\<lambda>e. push_at (pe_successor e) (pe_predecessor e)) required (empty_lists sourceIds);
          succs = fold (\<lambda>e. push_at (pe_predecessor e) (pe_successor e)) required (empty_lists sourceIds);
          cycles = detectCycles collate sourceIds succs ordinalOf
      in (\<lparr>pg_requiredEdges = required, pg_recommendedEdges = recommended,
           pg_rootSourceIds = filter (\<lambda>i. outgoing preds i = []) sourceIds,
           pg_planningReadySourceIds =
             filter (\<lambda>i. \<forall>p\<in>set (outgoing preds i). p \<in> set completed) sourceIds,
           pg_requiredPredecessors = preds, pg_requiredSuccessors = succs\<rparr>,
          concat (map snd parts) @ cycle_diagnostics name cycles))"

section \<open>The edges of the graph\<close>

lemma keys_push_at [simp]: "map fst (push_at k v m) = map fst m"
  by (simp add: push_at_def split_def comp_def if_distrib cong: if_cong)

lemma map_of_push_at:
  "map_of (push_at k v m) n = (if n = k then map_option (\<lambda>vs. vs @ [v]) (map_of m k) else map_of m n)"
  by (induction m) (auto simp: push_at_def)

lemma outgoing_push_at:
  "outgoing (push_at k v m) n = outgoing m n @ (if n = k \<and> k \<in> fst ` set m then [v] else [])"
proof (cases "map_of m k")
  case None
  then have "k \<notin> fst ` set m" by (simp add: map_of_eq_None_iff)
  with None show ?thesis by (simp add: outgoing_def map_of_push_at)
next
  case (Some vs)
  then have "k \<in> fst ` set m" by (metis map_of_eq_None_iff option.distinct(1))
  with Some show ?thesis by (simp add: outgoing_def map_of_push_at)
qed

lemma outgoing_fold_push:
  assumes "\<forall>e\<in>set es. f e \<in> fst ` set m"
  shows "outgoing (fold (\<lambda>e. push_at (f e) (g e)) es m) n = outgoing m n @ map g (filter (\<lambda>e. f e = n) es)"
  using assms
proof (induction es arbitrary: m)
  case (Cons e es)
  have "fst ` set (push_at (f e) (g e) m) = fst ` set m" by (metis keys_push_at list.set_map)
  with Cons show ?case by (auto simp: outgoing_push_at)
qed simp

lemma outgoing_empty [simp]: "outgoing (empty_lists ids) n = []"
proof -
  have "map_of (empty_lists ids) n = (if n \<in> set ids then Some [] else None)"
    by (simp add: empty_lists_def map_of_map_restrict)
  then show ?thesis by (simp add: outgoing_def)
qed

lemma keys_empty [simp]: "fst ` set (empty_lists ids) = set ids"
  by (simp add: empty_lists_def image_image)

lemma required_of_edges:
  "e \<in> set (fst (required_of known name path s i seen ts)) \<Longrightarrow>
     pe_successor e = s \<and> pe_predecessor e \<in> set ts \<and> pe_predecessor e \<in> set known \<and> pe_predecessor e \<noteq> s"
  by (induction known name path s i seen ts rule: required_of.induct)
     (auto simp: Let_def split_beta split: if_splits)

lemma graph_edges:
  assumes "e \<in> set (pg_requiredEdges (fst (analyzePlanGraph collate plan name completed)))"
  shows "pe_predecessor e \<in> nw_sourceId ` set (np_workItems plan)"
    "pe_successor e \<in> nw_sourceId ` set (np_workItems plan)" "pe_predecessor e \<noteq> pe_successor e"
  using assms
  by (auto simp: analyzePlanGraph_def Let_def item_edges_def split_beta dest!: required_of_edges)

lemma graph_outgoing:
  fixes collate plan name completed
  defines "g \<equiv> fst (analyzePlanGraph collate plan name completed)"
  shows "outgoing (pg_requiredSuccessors g) n = map pe_successor (filter (\<lambda>e. pe_predecessor e = n) (pg_requiredEdges g))"
    "outgoing (pg_requiredPredecessors g) n = map pe_predecessor (filter (\<lambda>e. pe_successor e = n) (pg_requiredEdges g))"
proof -
  let ?ids = "map nw_sourceId (np_workItems plan)"
  have es: "\<forall>e\<in>set (pg_requiredEdges g). pe_predecessor e \<in> fst ` set (empty_lists ?ids) \<and> pe_successor e \<in> fst ` set (empty_lists ?ids)"
    using graph_edges unfolding g_def by auto
  have "pg_requiredSuccessors g = fold (\<lambda>e. push_at (pe_predecessor e) (pe_successor e)) (pg_requiredEdges g) (empty_lists ?ids)"
    "pg_requiredPredecessors g = fold (\<lambda>e. push_at (pe_successor e) (pe_predecessor e)) (pg_requiredEdges g) (empty_lists ?ids)"
    by (simp_all add: g_def analyzePlanGraph_def Let_def)
  then show "outgoing (pg_requiredSuccessors g) n = map pe_successor (filter (\<lambda>e. pe_predecessor e = n) (pg_requiredEdges g))"
    "outgoing (pg_requiredPredecessors g) n = map pe_predecessor (filter (\<lambda>e. pe_successor e = n) (pg_requiredEdges g))"
    using es by (simp_all add: outgoing_fold_push)
qed

definition required_relation :: "plan_graph \<Rightarrow> (string \<times> string) set" where
  "required_relation g = (\<lambda>e. (pe_predecessor e, pe_successor e)) ` set (pg_requiredEdges g)"

lemma graph_arrows:
  "arrows (pg_requiredSuccessors (fst (analyzePlanGraph collate plan name completed)))
     = required_relation (fst (analyzePlanGraph collate plan name completed))"
  by (auto simp: arrows_def graph_outgoing required_relation_def)

lemma item_codes:
  "d \<in> set (snd (item_edges known name item)) \<Longrightarrow> pd_code d \<noteq> Required_dependency_cycle"
proof -
  have "d \<in> set (snd (required_of known name path s i seen ts)) \<Longrightarrow> pd_code d \<noteq> Required_dependency_cycle"
    for path s i seen ts
    by (induction known name path s i seen ts rule: required_of.induct)
       (auto simp: Let_def split_beta split: if_splits)
  moreover have "d \<in> set (snd (recommended_of known name path s i seen ts)) \<Longrightarrow> pd_code d \<noteq> Required_dependency_cycle"
    for path s i seen ts
    by (induction known name path s i seen ts rule: recommended_of.induct)
       (auto simp: Let_def split_beta split: if_splits)
  ultimately show "d \<in> set (snd (item_edges known name item)) \<Longrightarrow> pd_code d \<noteq> Required_dependency_cycle"
    by (auto simp: item_edges_def Let_def split_beta)
qed

lemma cycle_reported:
  "(\<exists>d\<in>set (cycle_diagnostics name cycles). pd_code d = Required_dependency_cycle) \<longleftrightarrow> cycles \<noteq> []"
  by (cases cycles) (auto simp: cycle_diagnostics_def max_reported_cycles_def)

lemma graph_cycle_exact:
  "(\<exists>d\<in>set (snd (analyzePlanGraph collate plan name completed)). pd_code d = Required_dependency_cycle)
     \<longleftrightarrow> \<not> acyclic (required_relation (fst (analyzePlanGraph collate plan name completed)))"
proof -
  let ?g = "fst (analyzePlanGraph collate plan name completed)"
  let ?ids = "map nw_sourceId (np_workItems plan)"
  obtain ordinalOf where ds: "snd (analyzePlanGraph collate plan name completed) =
      concat (map (snd \<circ> item_edges ?ids name) (np_workItems plan))
        @ cycle_diagnostics name (detectCycles collate ?ids (pg_requiredSuccessors ?g) ordinalOf)"
    by (simp add: analyzePlanGraph_def Let_def)
  have known: "\<And>a b. (a, b) \<in> arrows (pg_requiredSuccessors ?g) \<Longrightarrow> a \<in> set ?ids"
    using graph_edges unfolding graph_arrows required_relation_def by auto
  have "detectCycles collate ?ids (pg_requiredSuccessors ?g) ordinalOf \<noteq> [] \<longleftrightarrow> \<not> acyclic (required_relation ?g)"
    using detected_cycles(1) [of "pg_requiredSuccessors ?g" ?ids collate ordinalOf] known
    unfolding graph_arrows by blast
  moreover have "\<not> (\<exists>d\<in>set (concat (map (snd \<circ> item_edges ?ids name) (np_workItems plan))).
      pd_code d = Required_dependency_cycle)" using item_codes by auto
  ultimately show ?thesis unfolding ds set_append bex_Un cycle_reported by simp
qed

end
