(* ===== verification/Attention.thy ===== *)
theory Attention
  imports Prelude
begin

text \<open>
  Typed attention (\<open>packages/domain/src/attention.ts\<close>) and the reads of a cycle's stop
  record (\<open>packages/domain/src/cycle-stop.ts\<close>). Whoever stops a cycle, a roadmap or a
  roadmap entry declares what the stop is (a code) and who moves it next (an owner); a
  cycle's record keeps the stop with the moment its status was entered, and an ended
  cycle keeps how it ended.
\<close>

section \<open>Codes and owners\<close>

datatype attention_owner = Operator | Controller

datatype (plugins only: code) attention_code =
      Service_failure_not_retryable | Service_retries_exhausted | Provider_credentials_rejected
  | Exit_with_open_questions | Completion_continuations_exhausted | Background_work_unsafe
  | Step_incomplete | Resolution_needs_guidance | Workflow_report_invalid
  | Workflow_questions_disagree | Shared_decision_required | Work_item_questions
  | Finalization_needs_input | Design_investigation_finished | Design_report_invalid
  | Design_dependency_continuations_exhausted | Design_dependency_unsupported
  | Design_planning_conflict | Design_decision_required | Design_open_questions
  | Implementation_open_questions | Review_open_questions_at_limit | Review_open_questions
  | Finalization_report_rejected | Polish_assessment_needs_attention
  | Legacy_finalization_retired | Scope_review_open_questions | Scope_review_recovery
  | Review_needs_attention | Restart_session_lost | Agent_environment_unavailable
  | Agent_model_misnamed | Restart_resume | Controller_error | Upstream_transition_undeclared
  | Upstream_pin_moved | Repository_checks_undeclared | Check_definition_changed | Phase_gate
  | Item_unavailable | Item_not_admitted | Item_completed_unmerged | Predecessors_incomplete
  | Predecessor_merge_missing | Worktree_state | Resolution_not_ready | Launch_refused
  | Roadmap_binding_changed | Delegation_authority_lost | Review_capture_failed
  | Finalization_inactive | Service_unavailable | Reassessment_failed | Worktree_inactive
  | Authority_lost | Design_recheck_unavailable | Step_time_limit | Service_retry_mismatch
  | Scope_review_snapshot_changed | Review_baseline_changed | Security_reviewer_unassigned
  | Workflow_obligation | Checkpoint_attestation_failed | Stage_report_invalid
  | Finalization_ledger_full | Plan_change_decision | Stage_batch_selection
  | Stage_review_changes_requested | Remediation_exhausted | Remediation_no_change
  | Remediation_stalled | Implementation_commit_failed | Integration_refresh_limit
  | Integration_conflict | Integration_update_failed | Resolution_abandoned | Merge_approval
  | Merge_requirements | Final_promotion | Record_scope_evidence | Controller_wait
  | Scheduling_held | Legacy_attention

text \<open>The constructors name the source's codes in its order; the table's value is the owner.\<close>

definition cycle_attention_owner :: "attention_code \<Rightarrow> attention_owner" where
  "cycle_attention_owner c =
     (if c = Controller_wait \<or> c = Scheduling_held then Controller else Operator)"

definition awaiting_merge_gates :: "attention_code list" where
  "awaiting_merge_gates =
     [Merge_approval, Merge_requirements, Final_promotion, Record_scope_evidence,
      Controller_wait, Scheduling_held]"

text \<open>The codes as the records and messages spell them.\<close>

definition code_texts :: "(attention_code \<times> string) list" where
  "code_texts =
    [(Service_failure_not_retryable, ''service-failure-not-retryable''),
     (Service_retries_exhausted, ''service-retries-exhausted''),
     (Provider_credentials_rejected, ''provider-credentials-rejected''),
     (Exit_with_open_questions, ''exit-with-open-questions''),
     (Completion_continuations_exhausted, ''completion-continuations-exhausted''),
     (Background_work_unsafe, ''background-work-unsafe''),
     (Step_incomplete, ''step-incomplete''),
     (Resolution_needs_guidance, ''resolution-needs-guidance''),
     (Workflow_report_invalid, ''workflow-report-invalid''),
     (Workflow_questions_disagree, ''workflow-questions-disagree''),
     (Shared_decision_required, ''shared-decision-required''),
     (Work_item_questions, ''work-item-questions''),
     (Finalization_needs_input, ''finalization-needs-input''),
     (Design_investigation_finished, ''design-investigation-finished''),
     (Design_report_invalid, ''design-report-invalid''),
     (Design_dependency_continuations_exhausted, ''design-dependency-continuations-exhausted''),
     (Design_dependency_unsupported, ''design-dependency-unsupported''),
     (Design_planning_conflict, ''design-planning-conflict''),
     (Design_decision_required, ''design-decision-required''),
     (Design_open_questions, ''design-open-questions''),
     (Implementation_open_questions, ''implementation-open-questions''),
     (Review_open_questions_at_limit, ''review-open-questions-at-limit''),
     (Review_open_questions, ''review-open-questions''),
     (Finalization_report_rejected, ''finalization-report-rejected''),
     (Polish_assessment_needs_attention, ''polish-assessment-needs-attention''),
     (Legacy_finalization_retired, ''legacy-finalization-retired''),
     (Scope_review_open_questions, ''scope-review-open-questions''),
     (Scope_review_recovery, ''scope-review-recovery''),
     (Review_needs_attention, ''review-needs-attention''),
     (Restart_session_lost, ''restart-session-lost''),
     (Agent_environment_unavailable, ''agent-environment-unavailable''),
     (Agent_model_misnamed, ''agent-model-misnamed''), (Restart_resume, ''restart-resume''),
     (Controller_error, ''controller-error''),
     (Upstream_transition_undeclared, ''upstream-transition-undeclared''),
     (Upstream_pin_moved, ''upstream-pin-moved''),
     (Repository_checks_undeclared, ''repository-checks-undeclared''),
     (Check_definition_changed, ''check-definition-changed''), (Phase_gate, ''phase-gate''),
     (Item_unavailable, ''item-unavailable''), (Item_not_admitted, ''item-not-admitted''),
     (Item_completed_unmerged, ''item-completed-unmerged''),
     (Predecessors_incomplete, ''predecessors-incomplete''),
     (Predecessor_merge_missing, ''predecessor-merge-missing''),
     (Worktree_state, ''worktree-state''), (Resolution_not_ready, ''resolution-not-ready''),
     (Launch_refused, ''launch-refused''),
     (Roadmap_binding_changed, ''roadmap-binding-changed''),
     (Delegation_authority_lost, ''delegation-authority-lost''),
     (Review_capture_failed, ''review-capture-failed''),
     (Finalization_inactive, ''finalization-inactive''),
     (Service_unavailable, ''service-unavailable''),
     (Reassessment_failed, ''reassessment-failed''), (Worktree_inactive, ''worktree-inactive''),
     (Authority_lost, ''authority-lost''),
     (Design_recheck_unavailable, ''design-recheck-unavailable''),
     (Step_time_limit, ''step-time-limit''),
     (Service_retry_mismatch, ''service-retry-mismatch''),
     (Scope_review_snapshot_changed, ''scope-review-snapshot-changed''),
     (Review_baseline_changed, ''review-baseline-changed''),
     (Security_reviewer_unassigned, ''security-reviewer-unassigned''),
     (Workflow_obligation, ''workflow-obligation''),
     (Checkpoint_attestation_failed, ''checkpoint-attestation-failed''),
     (Stage_report_invalid, ''stage-report-invalid''),
     (Finalization_ledger_full, ''finalization-ledger-full''),
     (Plan_change_decision, ''plan-change-decision''),
     (Stage_batch_selection, ''stage-batch-selection''),
     (Stage_review_changes_requested, ''stage-review-changes-requested''),
     (Remediation_exhausted, ''remediation-exhausted''),
     (Remediation_no_change, ''remediation-no-change''),
     (Remediation_stalled, ''remediation-stalled''),
     (Implementation_commit_failed, ''implementation-commit-failed''),
     (Integration_refresh_limit, ''integration-refresh-limit''),
     (Integration_conflict, ''integration-conflict''),
     (Integration_update_failed, ''integration-update-failed''),
     (Resolution_abandoned, ''resolution-abandoned''), (Merge_approval, ''merge-approval''),
     (Merge_requirements, ''merge-requirements''), (Final_promotion, ''final-promotion''),
     (Record_scope_evidence, ''record-scope-evidence''), (Controller_wait, ''controller-wait''),
     (Scheduling_held, ''scheduling-held''), (Legacy_attention, ''legacy-attention'')]"

definition code_text :: "attention_code \<Rightarrow> string" where
  "code_text c = over (map_of code_texts c) []"

datatype roadmap_attention_code =
      RA_restart_resume | RA_scheduler_error | RA_entry_preparation_failed | RA_entry_blocked
  | RA_evidence_not_current | RA_recovery_not_converging | RA_cycle_needs_attention
  | RA_legacy_attention

definition roadmap_attention_owner :: "roadmap_attention_code \<Rightarrow> attention_owner" where
  "roadmap_attention_owner c = Operator"

datatype entry_wait_code =
      EW_dependency_blocked | EW_capacity_blocked | EW_exclusion_blocked | EW_phase_blocked
  | EW_integration_held | EW_review_running | EW_recovery_round | EW_cycle_waiting
  | EW_cycle_attention | EW_cycle_paused | EW_cycle_ended | EW_entry_held
  | EW_predecessor_merge_missing

definition entry_wait_owner :: "entry_wait_code \<Rightarrow> attention_owner" where
  "entry_wait_owner c =
     (if c \<in> {EW_cycle_attention, EW_cycle_paused, EW_cycle_ended, EW_entry_held,
              EW_predecessor_merge_missing}
      then Operator else Controller)"

datatype (plugins only: code) phase_blocker_code =
      PB_binding_changed | PB_plan_inactive | PB_repository_unavailable | PB_binding_retired
  | PB_amendment_pending | PB_runtime_definition_unavailable | PB_binding_superseded
  | PB_decision_adoption_required | PB_merge_resource_mismatch | PB_reviewer_assignment
  | PB_environment_approval | PB_resource_unsupported | PB_dependency_environment_missing
  | PB_upstream_pin_missing | PB_external_qualification_required | PB_predecessor_not_accepted
  | PB_parent_not_accepted | PB_slice_not_started | PB_slice_not_merged
  | PB_slice_attempt_active | PB_slice_requirement | PB_required_slice_unmerged
  | PB_required_slice_unverified | PB_checkpoint_evidence | PB_decision_checkpoint_evidence
  | PB_staged_approval_prerequisite | PB_resource_busy | PB_scheduling_held | PB_legacy_blocker

text \<open>\<open>PHASE_BLOCKERS\<close>: who resolves a blocker, and whether the controller waits for it.\<close>

definition phase_blocker_waits :: "phase_blocker_code \<Rightarrow> bool" where
  "phase_blocker_waits c =
     (c \<notin> {PB_binding_changed, PB_plan_inactive, PB_repository_unavailable, PB_binding_retired,
          PB_amendment_pending, PB_runtime_definition_unavailable, PB_binding_superseded,
          PB_decision_adoption_required, PB_merge_resource_mismatch, PB_reviewer_assignment,
          PB_legacy_blocker})"

definition phase_blocker_owner :: "phase_blocker_code \<Rightarrow> attention_owner" where
  "phase_blocker_owner c =
     (if \<not> phase_blocker_waits c
         \<or> c \<in> {PB_environment_approval, PB_resource_unsupported,
               PB_dependency_environment_missing, PB_upstream_pin_missing,
               PB_external_qualification_required, PB_decision_checkpoint_evidence}
      then Operator else Controller)"

definition setup_blocker_codes :: "phase_blocker_code list" where
  "setup_blocker_codes = [PB_reviewer_assignment, PB_environment_approval, PB_resource_unsupported]"

section \<open>Attention records\<close>

record moved_pin =
  pin_alias :: string
  pin_pinnedCommitSha :: string
  pin_currentCommitSha :: string

record attention_refs =
  ref_checkpointId :: "string option"
  ref_cycleId :: "string option"
  ref_entryId :: "string option"
  ref_definitionId :: "string option"
  ref_repositoryId :: "string option"
  ref_checkId :: "string option"
  ref_blockers :: "phase_blocker_code list option"
  ref_cause :: "attention_code option"
  ref_pins :: "moved_pin list option"

definition no_refs :: attention_refs where
  "no_refs = \<lparr>ref_checkpointId = None, ref_cycleId = None, ref_entryId = None,
     ref_definitionId = None, ref_repositoryId = None, ref_checkId = None,
     ref_blockers = None, ref_cause = None, ref_pins = None\<rparr>"

datatype attention_claim =
    Claim_roadmap_merge | Claim_roadmap_verification | Claim_roadmap_acceptance
  | Claim_conflict_automation | Claim_scope_recovery | Claim_prerequisite_work

record cycle_attention =
  at_code :: attention_code
  at_owner :: attention_owner
  at_claim :: "attention_claim option"
  at_refs :: "attention_refs option"
  at_detail :: "string option"
  at_repairAttempts :: "nat option"

record roadmap_attention =
  ra_code :: roadmap_attention_code
  ra_owner :: attention_owner
  ra_refs :: "attention_refs option"

text \<open>
  \<open>cycleAttention(code, refs, { claim, detail, repairAttempts })\<close>, the only way the code
  builds cycle attention: an empty detail and a zero count are left out.
\<close>

definition make_attention ::
    "attention_code \<Rightarrow> attention_refs option \<Rightarrow> attention_claim option \<Rightarrow> string option
     \<Rightarrow> nat option \<Rightarrow> cycle_attention" where
  "make_attention code refs claim detail repairs =
     \<lparr>at_code = code,
      at_owner = (if claim \<noteq> None then Controller else cycle_attention_owner code),
      at_claim = claim,
      at_refs = refs,
      at_detail = (if truthy detail then map_option (js_slice 2000) detail else None),
      at_repairAttempts = (if repairs = Some 0 then None else repairs)\<rparr>"

definition merge_adopts_checks :: "cycle_attention option \<Rightarrow> bool" where
  "merge_adopts_checks a =
     (case a of None \<Rightarrow> False
      | Some x \<Rightarrow> (at_code x = Merge_approval \<or> at_code x = Merge_requirements)
          \<and> (case at_refs x of None \<Rightarrow> False | Some r \<Rightarrow> ref_repositoryId r \<noteq> None))"

definition make_roadmap_attention ::
    "roadmap_attention_code \<Rightarrow> attention_refs option \<Rightarrow> roadmap_attention" where
  "make_roadmap_attention code refs =
     \<lparr>ra_code = code, ra_owner = roadmap_attention_owner code, ra_refs = refs\<rparr>"

section \<open>Phase blockers\<close>

datatype phase_blocker_kind =
  Blk_dependency | Blk_evidence | Blk_review | Blk_authorization | Blk_resource

record phase_blocker_refs =
  pbr_checkpointId :: "string option"
  pbr_sliceId :: "string option"
  pbr_resourceKey :: "string option"

record phase_blocker =
  pb_kind :: phase_blocker_kind
  pb_message :: string
  pb_code :: phase_blocker_code
  pb_refs :: "phase_blocker_refs option"

section \<open>The stop a cycle holds\<close>

datatype cycle_status =
  Running | Paused | Needs_attention | Awaiting_merge | Stopped | Completed

datatype cycle_end_code =
  Operator_stopped | Roadmap_wound_down | Amendment_retired | Integrated | Scope_evidence_recorded

datatype stop_kind = Attention_stop | Gate_stop

text \<open>
  \<open>CycleStop\<close>: an operator's stop or a merge gate with the moment its status was entered,
  or how and when the cycle ended.
\<close>

datatype cycle_stop =
    Held_at stop_kind cycle_attention time
  | Ended_by cycle_end_code time

text \<open>
  The readers of the stop take the two fields they read, the status and the stop, as the
  source's \<open>Pick<WorkCycle, 'status' | 'stop'>\<close> does.
\<close>

definition heldStop :: "cycle_stop option \<Rightarrow> cycle_attention option" where
  "heldStop stop = (case stop of Some (Held_at k a since) \<Rightarrow> Some a | _ \<Rightarrow> None)"

definition cycleStop :: "cycle_status \<Rightarrow> cycle_stop option \<Rightarrow> cycle_attention option" where
  "cycleStop status stop =
     (if status \<noteq> Needs_attention \<and> status \<noteq> Awaiting_merge then None else heldStop stop)"

definition cycleEnd :: "cycle_stop option \<Rightarrow> cycle_end_code option" where
  "cycleEnd stop = (case stop of Some (Ended_by c t) \<Rightarrow> Some c | _ \<Rightarrow> None)"

definition stop_kind_of :: "attention_code \<Rightarrow> stop_kind" where
  "stop_kind_of c = (if c \<in> set awaiting_merge_gates then Gate_stop else Attention_stop)"

definition stopRecord :: "cycle_attention \<Rightarrow> time \<Rightarrow> cycle_stop" where
  "stopRecord a since = Held_at (stop_kind_of (at_code a)) a since"

section \<open>Lemmas\<close>

lemma make_attention_sel [simp]:
  "at_code (make_attention c r cl d n) = c"
  "at_claim (make_attention c r cl d n) = cl"
  "at_refs (make_attention c r cl d n) = r"
  by (simp_all add: make_attention_def)

lemma make_attention_owner:
  "at_owner (make_attention c r cl d n) = Controller
     \<longleftrightarrow> cl \<noteq> None \<or> c = Controller_wait \<or> c = Scheduling_held"
  by (simp add: make_attention_def cycle_attention_owner_def)

lemma heldStop_simps [simp]:
  "heldStop None = None"
  "heldStop (Some (Held_at k a t)) = Some a"
  "heldStop (Some (Ended_by e t)) = None"
  by (simp_all add: heldStop_def)

lemma heldStop_stopRecord [simp]: "heldStop (Some (stopRecord a t)) = Some a"
  by (simp add: stopRecord_def)

lemma cycleStop_simps [simp]:
  "cycleStop Needs_attention s = heldStop s"
  "cycleStop Awaiting_merge s = heldStop s"
  "cycleStop Running s = None" "cycleStop Paused s = None"
  "cycleStop Stopped s = None" "cycleStop Completed s = None"
  by (simp_all add: cycleStop_def)

lemma cycleStop_Some:
  "cycleStop st s = Some a \<Longrightarrow> (st = Needs_attention \<or> st = Awaiting_merge) \<and> heldStop s = Some a"
  by (simp add: cycleStop_def split: if_splits)

lemma gate_codes:
  "stop_kind_of c = Gate_stop \<longleftrightarrow>
     c = Merge_approval \<or> c = Merge_requirements \<or> c = Final_promotion
     \<or> c = Record_scope_evidence \<or> c = Controller_wait \<or> c = Scheduling_held"
  by (auto simp: stop_kind_of_def awaiting_merge_gates_def)

end
