(* ===== verification/Execution.thy ===== *)
theory Execution
  imports Attention
begin

text \<open>
  Agent profiles (\<open>packages/domain/src/agent-profiles.ts\<close>), worktrees, agent runs and
  the run events the controller reads (\<open>packages/domain/src/execution.ts\<close>), and the
  execution scopes (\<open>packages/domain/src/execution-scope.ts\<close>). Branded identifiers are
  strings; counters that the contracts keep non-negative are natural numbers.
\<close>

section \<open>Agents\<close>

datatype agent_backend = Claude_code | Codex
datatype reasoning_effort = Effort_low | Effort_medium | Effort_high | Effort_xhigh
datatype permission_mode = Edit_only | Auto_mode | Unrestricted

datatype cycle_step = Design | Implement | Review | Remediate

datatype specialist = Spec_security | Spec_checkpoint | Spec_acceptance | Spec_conflict | Spec_investigation

datatype profile_purpose = For_step cycle_step | For_specialist specialist

record agent_selection =
  as_backend :: agent_backend
  as_model :: "string option"
  as_reasoningEffort :: "reasoning_effort option"

record agent_profile = agent_selection +
  ap_permissionMode :: permission_mode

text \<open>\<open>CycleProfiles\<close>: a profile for each step, a selection for each specialist that has one.\<close>

record cycle_profiles =
  pf_design :: agent_profile
  pf_implement :: agent_profile
  pf_review :: agent_profile
  pf_remediate :: agent_profile
  pf_security :: "agent_selection option"
  pf_checkpoint :: "agent_selection option"
  pf_acceptance :: "agent_selection option"
  pf_conflict :: "agent_selection option"
  pf_investigation :: "agent_selection option"

text \<open>\<open>selectAgent\<close> keeps the selection of a profile; an empty model name is left out.\<close>

definition selectAgent :: "'a agent_selection_scheme \<Rightarrow> agent_selection" where
  "selectAgent p =
     \<lparr>as_backend = as_backend p,
      as_model = (if truthy (as_model p) then as_model p else None),
      as_reasoningEffort = as_reasoningEffort p\<rparr>"

fun step_profile :: "cycle_profiles \<Rightarrow> cycle_step \<Rightarrow> agent_profile" where
  "step_profile p Design = pf_design p"
| "step_profile p Implement = pf_implement p"
| "step_profile p Review = pf_review p"
| "step_profile p Remediate = pf_remediate p"

fun specialist_selection :: "cycle_profiles \<Rightarrow> specialist \<Rightarrow> agent_selection option" where
  "specialist_selection p Spec_security = pf_security p"
| "specialist_selection p Spec_checkpoint = pf_checkpoint p"
| "specialist_selection p Spec_acceptance = pf_acceptance p"
| "specialist_selection p Spec_conflict = pf_conflict p"
| "specialist_selection p Spec_investigation = pf_investigation p"

fun profile_inheritance :: "specialist \<Rightarrow> cycle_step" where
  "profile_inheritance Spec_security = Review"
| "profile_inheritance Spec_checkpoint = Review"
| "profile_inheritance Spec_acceptance = Review"
| "profile_inheritance Spec_conflict = Remediate"
| "profile_inheritance Spec_investigation = Design"

text \<open>
  \<open>profileForPurpose\<close>: the purpose's own selection, else its base step's, with the base
  step's permissions.
\<close>

fun profileForPurpose :: "cycle_profiles \<Rightarrow> profile_purpose \<Rightarrow> agent_profile" where
  "profileForPurpose p (For_step s) =
     agent_selection.extend (selectAgent (step_profile p s))
       \<lparr>ap_permissionMode = ap_permissionMode (step_profile p s)\<rparr>"
| "profileForPurpose p (For_specialist s) =
     (let base = profile_inheritance s in
      agent_selection.extend
        (case specialist_selection p s of
           None \<Rightarrow> selectAgent (step_profile p base)
         | Some x \<Rightarrow> selectAgent x)
        \<lparr>ap_permissionMode = ap_permissionMode (step_profile p base)\<rparr>)"

section \<open>Scopes and worktrees\<close>

datatype scope_kind = Slice | Slice_verification | Parent_acceptance

record execution_scope =
  sc_kind :: scope_kind
  sc_definitionId :: string
  sc_bindingRevision :: nat
  sc_sourceId :: string

fun scope_kind_text :: "scope_kind \<Rightarrow> string" where
  "scope_kind_text Slice = ''slice''"
| "scope_kind_text Slice_verification = ''slice-verification''"
| "scope_kind_text Parent_acceptance = ''parent-acceptance''"

definition executionScopeKey :: "execution_scope option \<Rightarrow> string" where
  "executionScopeKey scope =
     (case scope of
        None \<Rightarrow> ''whole-item''
      | Some s \<Rightarrow> sc_definitionId s @ '':'' @ string_of_nat (sc_bindingRevision s) @ '':''
                  @ scope_kind_text (sc_kind s) @ '':'' @ sc_sourceId s)"

definition sameExecutionScope :: "execution_scope option \<Rightarrow> execution_scope option \<Rightarrow> bool" where
  "sameExecutionScope a b = (executionScopeKey a = executionScopeKey b)"

record review_branch_context =
  rbc_repositoryPolicyVersion :: "nat option"
  rbc_headSha :: string
  rbc_targetBranch :: string
  rbc_targetSha :: string
  rbc_worktreeVersion :: nat

datatype worktree_status = Tree_active | Tree_removed

record worktree =
  wt_executionScope :: "execution_scope option"
  wt_id :: string
  wt_workspaceId :: string
  wt_repositoryId :: string
  wt_projectId :: string
  wt_workItemId :: "string option"
  wt_planVersionId :: "string option"
  wt_branchName :: string
  wt_baseSha :: string
  wt_baseBranch :: string
  wt_integrationBranch :: "string option"
  wt_path :: string
  wt_status :: worktree_status
  wt_createdAt :: time
  wt_createdByUserId :: string
  wt_removedAt :: "time option"
  wt_mergedAt :: "time option"
  wt_mergeSha :: "string option"
  wt_version :: nat

section \<open>Agent runs\<close>

datatype run_role = Role_implement | Role_review | Role_design

datatype exit_reason =
    Background_work_incomplete | Background_work_timeout | Daemon_drain
  | Exit_agent_environment_unavailable | Exit_agent_model_misnamed

datatype run_status =
    Run_starting | Run_running | Run_waiting | Run_finished | Run_failed | Run_cancelled
  | Run_interrupted

definition terminal_run_statuses :: "run_status list" where
  "terminal_run_statuses = [Run_finished, Run_failed, Run_cancelled, Run_interrupted]"

definition isTerminalAgentRunStatus :: "run_status \<Rightarrow> bool" where
  "isTerminalAgentRunStatus s = (s \<in> set terminal_run_statuses)"

datatype billing_source = Billing_subscription | Billing_api_key | Billing_unknown
datatype run_verdict = Mergeable | Changes_requested

record run_profile_selection =
  ps_purpose :: profile_purpose
  ps_assignmentId :: "string option"
  ps_delegationId :: "string option"
  ps_preparationId :: "string option"
  ps_investigationId :: "string option"

record agent_run =
  run_reasoningEffort :: "reasoning_effort option"
  run_profileSelection :: "run_profile_selection option"
  run_id :: string
  run_workspaceId :: string
  run_worktreeId :: string
  run_repositoryId :: string
  run_projectId :: string
  run_workItemId :: "string option"
  run_planVersionId :: "string option"
  run_parentRunId :: "string option"
  run_backend :: agent_backend
  run_role :: run_role
  run_status :: run_status
  run_permissionMode :: permission_mode
  run_model :: "string option"
  run_resolvedModel :: "string option"
  run_billing :: "billing_source option"
  run_verdict :: "run_verdict option"
  run_reviewBranchContext :: "review_branch_context option"
  run_brief :: string
  run_backendSessionId :: "string option"
  run_createdAt :: time
  run_createdByUserId :: string
  run_startedAt :: "time option"
  run_finishedAt :: "time option"
  run_exitCode :: "int option"
  run_outcomeSummary :: "string option"
  run_costUsdMicros :: "nat option"
  run_turnCount :: nat
  run_version :: nat

definition isInvestigationRun :: "agent_run \<Rightarrow> bool" where
  "isInvestigationRun r =
     (case run_profileSelection r of None \<Rightarrow> False | Some p \<Rightarrow> ps_investigationId p \<noteq> None)"

fun cycleStepRole :: "cycle_step \<Rightarrow> run_role" where
  "cycleStepRole Remediate = Role_implement"
| "cycleStepRole Design = Role_design"
| "cycleStepRole Implement = Role_implement"
| "cycleStepRole Review = Role_review"

fun role_step :: "run_role \<Rightarrow> cycle_step" where
  "role_step Role_design = Design"
| "role_step Role_implement = Implement"
| "role_step Role_review = Review"

section \<open>Run events\<close>

datatype failure_kind =
    Fail_capacity | Fail_unavailable | Fail_transport | Fail_authentication
  | Fail_credential_rejected | Fail_quota | Fail_unknown

text \<open>
  \<open>resetsAt\<close> is a provider's own date string: \<open>pf_resetsAt\<close> keeps the text, and
  \<open>pf_resetsAtMs\<close> what \<open>Date.parse\<close> makes of it (\<open>None\<close> for \<open>NaN\<close>).
\<close>

record provider_failure =
  fl_kind :: failure_kind
  fl_message :: string
  fl_safeToRetry :: bool
  fl_resetsAt :: "string option"
  fl_resetsAtMs :: "time option"
  fl_evidence :: "string option"

datatype turn_outcome = Turn_success | Turn_error

record message_payload =
  msg_text :: string
  msg_truncated :: bool

record run_finished =
  rf_reason :: "exit_reason option"
  rf_status :: run_status
  rf_exitCode :: "int option"
  rf_signal :: "string option"
  rf_message :: "string option"

section \<open>Lemmas\<close>

lemma terminal_iff:
  "isTerminalAgentRunStatus s \<longleftrightarrow> s \<notin> {Run_starting, Run_running, Run_waiting}"
  by (cases s) (simp_all add: isTerminalAgentRunStatus_def terminal_run_statuses_def)

lemma role_step_role [simp]: "cycleStepRole (role_step r) = r"
  by (cases r) simp_all

lemma selectAgent_idem [simp]: "selectAgent (selectAgent p) = selectAgent p"
  by (simp add: selectAgent_def truthy_def split: option.splits)

lemma sameExecutionScope_refl [simp]: "sameExecutionScope a a"
  by (simp add: sameExecutionScope_def)

text \<open>A purpose runs with the permissions of its step (a specialist, of the step it inherits).\<close>

lemma profileForPurpose_permissions:
  "ap_permissionMode (profileForPurpose p (For_step s)) = ap_permissionMode (step_profile p s)"
  "ap_permissionMode (profileForPurpose p (For_specialist x)) =
     ap_permissionMode (step_profile p (profile_inheritance x))"
  by (simp_all add: agent_selection.defs Let_def)

end
