(* ===== verification/Reports.thy ===== *)
theory Reports
  imports Execution
begin

text \<open>
  What an agent's final report says. Review reports, findings and a staged finalization's
  data (\<open>packages/domain/src/review.ts\<close>, \<open>finalization-stages.ts\<close>); the
  \<open>## Open questions\<close> checkpoint and the other sections of a report, read line by line
  with the fence rule (\<open>packages/domain/src/open-questions.ts\<close>); the fenced
  \<open>craftingtable-workflow\<close> and \<open>craftingtable-design\<close> blocks
  (\<open>packages/contracts/src/workflow.ts\<close>, \<open>design-report.ts\<close>), whose JSON and
  schema decoding (\<open>JSON.parse\<close>, Zod) is a parameter.
\<close>

section \<open>Findings and review reports\<close>

datatype severity = Blocking | Major | Minor | Nit
datatype finding_status = Open | Resolved | Withdrawn
datatype stage_kind = Correctness | Conformance | Simplification | Polish | Final_review

record finding_location =
  loc_path :: string
  loc_line :: "nat option"

record finding =
  fd_id :: string
  fd_severity :: severity
  fd_category :: "stage_kind option"
  fd_status :: finding_status
  fd_title :: string
  fd_location :: "finding_location option"
  fd_explanation :: string
  fd_recommendation :: string
  fd_disposition :: "string option"
  fd_owningSlice :: "string option option"

datatype check_status = Check_passed | Check_failed | Check_not_run
datatype obligation_status = Met | Gap | Change_requested | Unverified

record stage_check =
  chk_name :: string
  chk_status :: check_status
  chk_evidence :: string

record approved_change =
  ac_previousRequirement :: string
  ac_rationale :: string
  ac_userId :: string
  ac_createdAt :: time

record obligation =
  ob_id :: string
  ob_source :: "string option"
  ob_requirement :: "string option"
  ob_workItemSourceId :: "string option"
  ob_status :: obligation_status
  ob_evidence :: string
  ob_proposedRequirement :: "string option"
  ob_reusedFromRunId :: "string option"
  ob_runId :: "string option"
  ob_headSha :: "string option"
  ob_targetSha :: "string option"
  ob_approvedChange :: "approved_change option"

record stage_report =
  sr_stageId :: string
  sr_fullChecks :: bool
  sr_checks :: "stage_check list"
  sr_obligations :: "obligation list"

record scope_review_evidence =
  sev_scope :: execution_scope
  sev_requirements :: "(string \<times> string) list"
  sev_caseIds :: "string list"

record review_report =
  rp_scopeEvidence :: "scope_review_evidence option"
  rp_verdict :: run_verdict
  rp_gateMet :: bool
  rp_gateEvidence :: string
  rp_findings :: "finding list"
  rp_finalization :: "stage_report option"

datatype report_fault = Format_fault | Content_fault

datatype assessment =
    Unstructured "string list"
  | Invalid "string list" "report_fault option"
  | Complete "string list" review_report

fun assessment_issues :: "assessment \<Rightarrow> string list" where
  "assessment_issues (Unstructured is) = is"
| "assessment_issues (Invalid is f) = is"
| "assessment_issues (Complete is r) = is"

definition open_findings :: "finding list \<Rightarrow> finding list" where
  "open_findings fs = filter (\<lambda>f. fd_status f = Open) fs"

definition optionalFinding :: "finding \<Rightarrow> bool" where
  "optionalFinding f =
     ((fd_category f = Some Simplification \<or> fd_category f = Some Polish)
      \<and> (fd_severity f = Minor \<or> fd_severity f = Nit))"

text \<open>
  Whether a parked follow-up stays parked as a review reports it now.
\<close>

definition staysFollowUp :: "finding \<Rightarrow> finding \<Rightarrow> bool" where
  "staysFollowUp parked current =
     (fd_status current = Open
      \<and> (if optionalFinding parked then optionalFinding current else fd_severity current = Nit))"

section \<open>Completed turns\<close>

record turn_completed =
  tn_providerFailure :: "provider_failure option"
  tn_suspectedOutage :: "provider_failure option"
  tn_outcome :: turn_outcome
  tn_resultText :: string
  tn_truncated :: bool
  tn_reviewReport :: "assessment option"

section \<open>The sections of a report\<close>

text \<open>\<open>text.split(/\r?\n/)\<close>: a line feed ends a line, a carriage return before it is dropped.\<close>

fun split_lf :: "string \<Rightarrow> string list" where
  "split_lf [] = [[]]"
| "split_lf (c # cs) =
     (if c = CHR 0x0A then [] # split_lf cs
      else (case split_lf cs of [] \<Rightarrow> [[c]] | l # ls \<Rightarrow> (c # l) # ls))"

definition drop_cr :: "string \<Rightarrow> string" where
  "drop_cr l = (if l \<noteq> [] \<and> last l = CHR 0x0D then butlast l else l)"

definition split_lines :: "string \<Rightarrow> string list" where
  "split_lines text =
     (let ls = split_lf text in map drop_cr (butlast ls) @ [last ls])"

definition trim_blanks_right :: "string \<Rightarrow> string" where
  "trim_blanks_right l = rev (dropWhile (\<lambda>c. c = CHR '' '' \<or> c = CHR 0x09) (rev l))"

text \<open>
  \<open>/^\s{0,3}(`{3,}|~{3,})/\<close>: at most three characters of white space, then a run of three
  or more backticks or tildes; the marker is its character and length.
\<close>

definition fence_marker :: "string \<Rightarrow> (char \<times> nat) option" where
  "fence_marker l =
     (let ws = takeWhile is_space l; rest = dropWhile is_space l in
      if length ws > 3 then None
      else (case rest of
              [] \<Rightarrow> None
            | c # _ \<Rightarrow>
                if c = CHR 0x60 \<or> c = CHR ''~'' then
                  (let n = length (takeWhile (\<lambda>x. x = c) rest)
                   in if 3 \<le> n then Some (c, n) else None)
                else None))"

record section_state =
  ss_fence :: "(char \<times> nat) option"
  ss_count :: nat
  ss_collecting :: bool
  ss_last :: bool
  ss_hidden :: bool
  ss_lines :: "(string \<times> bool) list"

definition section_start :: section_state where
  "section_start = \<lparr>ss_fence = None, ss_count = 0, ss_collecting = False, ss_last = True,
     ss_hidden = False, ss_lines = []\<rparr>"

text \<open>
  One line of the loop of \<open>reportSection\<close>: a fence marker opens or closes a fence, a line
  with the heading inside a fence is remembered as hidden, a second-level heading outside
  one ends or opens a section, and every other line of the first section is collected.
\<close>

definition section_line :: "string \<Rightarrow> section_state \<Rightarrow> string \<Rightarrow> section_state" where
  "section_line title s line =
     (let marker = fence_marker line;
          fenced = (ss_fence s \<noteq> None \<or> marker \<noteq> None);
          collect = (\<lambda>s. if ss_collecting s then s\<lparr>ss_lines := ss_lines s @ [(line, fenced)]\<rparr> else s)
      in case marker of
           Some (c, n) \<Rightarrow>
             (case ss_fence s of
                None \<Rightarrow> collect (s\<lparr>ss_fence := Some (c, n), ss_hidden := False\<rparr>)
              | Some (fc, fn) \<Rightarrow>
                  if c = fc \<and> fn \<le> n then collect (s\<lparr>ss_fence := None\<rparr>) else collect s)
         | None \<Rightarrow>
             if fenced \<and> trim_blanks_right line = title then collect (s\<lparr>ss_hidden := True\<rparr>)
             else if \<not> fenced \<and> starts_with ''## '' line then
               (let opens = (trim_blanks_right line = title);
                    n = (if opens then Suc (ss_count s) else ss_count s)
                in s\<lparr>ss_last := (if ss_collecting s then False else ss_last s),
                     ss_count := n, ss_collecting := (opens \<and> n = 1)\<rparr>)
             else collect s)"

definition section_lines :: "string \<Rightarrow> string list \<Rightarrow> section_state" where
  "section_lines title ls = foldl (section_line title) section_start ls"

record report_section =
  rs_count :: nat
  rs_body :: string
  rs_lines :: "(string \<times> bool) list"
  rs_last :: bool
  rs_hidden :: bool

definition reportSection :: "string \<Rightarrow> string \<Rightarrow> report_section" where
  "reportSection text heading =
     (let s = section_lines (''## '' @ heading) (split_lines text) in
      \<lparr>rs_count = ss_count s,
       rs_body = js_trim (js_join [CHR 0x0A] (map fst (ss_lines s))),
       rs_lines = ss_lines s,
       rs_last = (0 < ss_count s \<and> ss_last s),
       rs_hidden = (ss_fence s \<noteq> None \<and> ss_hidden s)\<rparr>)"

datatype questions_status = Q_none | Q_questions | Q_malformed

definition word_char :: "char \<Rightarrow> bool" where
  "word_char c = (let n = (of_char c :: nat) in
     (48 \<le> n \<and> n \<le> 57) \<or> (65 \<le> n \<and> n \<le> 90) \<or> (97 \<le> n \<and> n \<le> 122) \<or> n = 95)"

text \<open>\<open>/^none\b/\<close>: the word \<open>none\<close>, not the beginning of a longer one.\<close>

definition begins_none :: "string \<Rightarrow> bool" where
  "begins_none s =
     (starts_with ''none'' s
      \<and> (case drop 4 s of [] \<Rightarrow> True | c # _ \<Rightarrow> \<not> word_char c))"

definition is_digit_char :: "char \<Rightarrow> bool" where
  "is_digit_char c = (48 \<le> (of_char c :: nat) \<and> (of_char c :: nat) \<le> 57)"

text \<open>
  \<open>/^ ?(?:[-*+]|\d+[.)])\s+(.*)$/\<close>: a list item, at most one blank before its marker; the
  result is its text, trimmed as the code trims it.
\<close>

definition item_marker_rest :: "string \<Rightarrow> string option" where
  "item_marker_rest l =
     (case l of
        [] \<Rightarrow> None
      | c # cs \<Rightarrow>
          if c \<in> {CHR ''-'', CHR ''*'', CHR ''+''} then Some cs
          else if is_digit_char c then
            (case dropWhile is_digit_char (c # cs) of
               d # ds \<Rightarrow> if d = CHR ''.'' \<or> d = CHR '')'' then Some ds else None
             | [] \<Rightarrow> None)
          else None)"

definition list_item :: "string \<Rightarrow> string option" where
  "list_item l =
     (let body = (case l of c # cs \<Rightarrow> if c = CHR '' '' then cs else l | [] \<Rightarrow> l) in
      case item_marker_rest body of
        None \<Rightarrow> None
      | Some rest \<Rightarrow>
          if rest \<noteq> [] \<and> is_space (hd rest) \<and> CHR 0x0D \<notin> set (dropWhile is_space rest)
          then Some (js_trim rest) else None)"

fun question_items :: "(string \<times> bool) list \<Rightarrow> string list \<Rightarrow> string list" where
  "question_items [] acc = acc"
| "question_items ((l, fenced) # ls) acc =
     (case (if fenced then None else list_item l) of
        Some item \<Rightarrow> question_items ls (acc @ [item])
      | None \<Rightarrow>
          if acc \<noteq> [] \<and> js_trim l \<noteq> []
          then question_items ls (butlast acc @ [last acc @ [CHR 0x0A] @ js_trim l])
          else question_items ls acc)"

record questions_section =
  qs_count :: nat
  qs_body :: string
  qs_last :: bool
  qs_hidden :: bool
  qs_status :: questions_status
  qs_items :: "string list"

definition questions_status_of :: "nat \<Rightarrow> string \<Rightarrow> questions_status" where
  "questions_status_of count body =
     (let content = js_lower body in
      if count \<noteq> 1 \<or> content = [] then Q_malformed
      else if content = ''none'' then Q_none
      else if begins_none content then Q_malformed
      else Q_questions)"

definition openQuestionsSection :: "string \<Rightarrow> questions_section" where
  "openQuestionsSection text =
     (let s = reportSection text ''Open questions'';
          status = questions_status_of (rs_count s) (rs_body s);
          listed = (if status = Q_questions then question_items (rs_lines s) [] else []);
          items = (if status = Q_questions \<and> listed = [] then [rs_body s] else listed)
      in \<lparr>qs_count = rs_count s, qs_body = rs_body s, qs_last = rs_last s,
          qs_hidden = rs_hidden s, qs_status = status,
          qs_items = filter (\<lambda>q. js_trim q \<noteq> []) items\<rparr>)"

definition noOpenQuestions :: "string \<Rightarrow> bool" where
  "noOpenQuestions text = (qs_status (openQuestionsSection text) = Q_none)"

definition raisesOpenQuestions :: "string \<Rightarrow> bool" where
  "raisesOpenQuestions text =
     (let s = openQuestionsSection text
      in if 0 < qs_count s then qs_status s \<noteq> Q_none else qs_hidden s)"

definition designHasNoOpenQuestions :: "string \<Rightarrow> bool \<Rightarrow> bool" where
  "designHasNoOpenQuestions text truncated =
     (if truncated then False
      else let s = openQuestionsSection text in qs_status s = Q_none \<and> qs_last s)"

definition resolutionReady :: "string \<Rightarrow> bool" where
  "resolutionReady text =
     (let s = reportSection text ''Resolution status''
      in rs_count s = 1 \<and> rs_last s \<and> js_lower (rs_body s) = ''ready'')"

section \<open>Fenced blocks\<close>

text \<open>
  \<open>text.matchAll(/^```<tag>\s*\n([\s\S]*?)^```\s*$/gm)\<close>, line by line: a block opens at
  a line that is the three backticks and the tag followed by white space only, and closes at
  the next line that is three backticks followed by white space only; a block that is never
  closed is none.
\<close>

definition opens_block :: "string \<Rightarrow> string \<Rightarrow> bool" where
  "opens_block tag l =
     (starts_with (replicate 3 (CHR 0x60) @ tag) l \<and> list_all is_space (drop (3 + length tag) l))"

definition closes_block :: "string \<Rightarrow> bool" where
  "closes_block l =
     (starts_with (replicate 3 (CHR 0x60)) l \<and> list_all is_space (drop 3 l))"

function blocks :: "string \<Rightarrow> string list \<Rightarrow> string list" where
  "blocks tag [] = []"
| "blocks tag (l # ls) =
     (if opens_block tag l \<and> (\<exists>x\<in>set ls. closes_block x)
      then js_join [CHR 0x0A] (takeWhile (\<lambda>x. \<not> closes_block x) ls)
           # blocks tag (tl (dropWhile (\<lambda>x. \<not> closes_block x) ls))
      else blocks tag ls)"
  by pat_completeness auto
termination
proof (relation "measure (\<lambda>(tag, ls). length ls)")
  fix tag :: string and l :: string and ls :: "string list"
  have "length (dropWhile (\<lambda>x. \<not> closes_block x) ls) \<le> length ls"
    by (rule length_dropWhile_le)
  then show "((tag, tl (dropWhile (\<lambda>x. \<not> closes_block x) ls)), tag, l # ls)
      \<in> measure (\<lambda>(tag, ls). length ls)"
    by simp
qed simp_all

section \<open>Workflow reports\<close>

datatype question_destination = To_shared_decision | To_work_item

record workflow_question =
  wq_question :: string
  wq_destination :: question_destination
  wq_checkpointId :: "string option"

record checkpoint_attestation =
  ca_id :: string
  ca_passed :: bool
  ca_requirements :: "(string \<times> string) list"
  ca_caseIds :: "string list"

record workflow_report =
  wr_questions :: "workflow_question list"
  wr_resolved :: "(string \<times> string \<times> string list) list"
  wr_securityRequired :: bool
  wr_securitySources :: "string list"
  wr_checkpoint :: "checkpoint_attestation option"

datatype workflow_parse =
    Workflow_absent
  | Workflow_invalid string
  | Workflow_complete workflow_report

text \<open>
  \<open>parseWorkflowReport\<close>. The argument \<open>decode\<close> is \<open>JSON.parse\<close> followed by
  the schema's \<open>safeParse\<close>: \<open>None\<close> when either fails.
\<close>

definition parseWorkflowReport :: "(string \<Rightarrow> workflow_report option) \<Rightarrow> string \<Rightarrow> workflow_parse" where
  "parseWorkflowReport decode text =
     (let bs = blocks ''craftingtable-workflow'' (split_lf text) in
      if bs = [] \<and> \<not> includes_str (replicate 3 (CHR 0x60) @ ''craftingtable-workflow'') text
      then Workflow_absent
      else (case bs of
              [b] \<Rightarrow>
                (case decode b of
                   Some r \<Rightarrow> Workflow_complete r
                 | None \<Rightarrow> Workflow_invalid
                     ''Workflow report has invalid questions, citations or checkpoint evidence.'')
            | _ \<Rightarrow> Workflow_invalid ''One complete workflow report is required.''))"

section \<open>Design reports\<close>

datatype requirement_state = Req_accepted | Req_merged | Req_verified

datatype design_requirement =
    Needs_work_item string
  | Needs_slice string requirement_state

datatype design_item_kind =
  Item_resolved | Item_dependency | Item_operator_decision | Item_planning_conflict

record design_item =
  di_kind :: design_item_kind
  di_question :: string
  di_answer :: string
  di_sources :: "string list"
  di_dependency :: "design_requirement option"

datatype design_parse =
    Design_absent
  | Design_invalid string
  | Design_complete "design_item list"

text \<open>
  \<open>parseDesignReport\<close>. The decoder answers with the report's items, or why the block is
  invalid (the JSON error's text, or the first schema issues).
\<close>

definition parseDesignReport :: "(string \<Rightarrow> string + design_item list) \<Rightarrow> string \<Rightarrow> design_parse" where
  "parseDesignReport decode text =
     (case blocks ''craftingtable-design'' (split_lf text) of
        [] \<Rightarrow>
          if includes_str (replicate 3 (CHR 0x60) @ ''craftingtable-design'') text
          then Design_invalid ''Incomplete design classification block.''
          else Design_absent
      | [b] \<Rightarrow> (case decode b of Inr items \<Rightarrow> Design_complete items | Inl why \<Rightarrow> Design_invalid why)
      | _ \<Rightarrow> Design_invalid ''Provide one consolidated design classification block.'')"

section \<open>Lemmas on report sections\<close>

lemma section_lines_append:
  "section_lines title (xs @ ys) = foldl (section_line title) (section_lines title xs) ys"
  by (simp add: section_lines_def)

text \<open>While a fence is open and no line closes it, no line is a heading.\<close>

definition closes_fence :: "char \<times> nat \<Rightarrow> string \<Rightarrow> bool" where
  "closes_fence f l =
     (case fence_marker l of None \<Rightarrow> False | Some (c, n) \<Rightarrow> c = fst f \<and> snd f \<le> n)"

lemma section_line_fenced:
  assumes "ss_fence s = Some f" and "\<not> closes_fence f l"
  shows "ss_fence (section_line title s l) = Some f
    \<and> ss_count (section_line title s l) = ss_count s
    \<and> ss_collecting (section_line title s l) = ss_collecting s
    \<and> ss_last (section_line title s l) = ss_last s"
  using assms
  by (cases f) (auto simp: section_line_def closes_fence_def Let_def split: option.splits if_splits)

lemma foldl_fenced:
  assumes "ss_fence s = Some f" and "\<forall>l\<in>set ls. \<not> closes_fence f l"
  shows "ss_fence (foldl (section_line title) s ls) = Some f
    \<and> ss_count (foldl (section_line title) s ls) = ss_count s"
  using assms
proof (induction ls arbitrary: s)
  case (Cons l ls)
  then show ?case using section_line_fenced [of s f l title] by simp
qed simp

text \<open>Outside a fence, a line that is no marker and no second-level heading changes no count.\<close>

definition plain_line :: "string \<Rightarrow> bool" where
  "plain_line l = (fence_marker l = None \<and> \<not> starts_with ''## '' l)"

lemma foldl_plain:
  assumes "ss_fence s = None" and "\<forall>l\<in>set ls. plain_line l"
  shows "foldl (section_line title) s ls =
    (if ss_collecting s then s\<lparr>ss_lines := ss_lines s @ map (\<lambda>l. (l, False)) ls\<rparr> else s)"
  using assms
proof (induction ls arbitrary: s)
  case (Cons l ls)
  let ?t = "if ss_collecting s then s\<lparr>ss_lines := ss_lines s @ [(l, False)]\<rparr> else s"
  have step: "section_line title s l = ?t"
    using Cons.prems by (simp add: section_line_def plain_line_def)
  have "ss_fence ?t = None" using Cons.prems by simp
  with Cons show ?case by (simp add: step)
qed simp

lemma questions_none_iff:
  "noOpenQuestions text \<longleftrightarrow>
     rs_count (reportSection text ''Open questions'') = 1
     \<and> js_lower (rs_body (reportSection text ''Open questions'')) = ''none''"
  by (auto simp: noOpenQuestions_def openQuestionsSection_def questions_status_of_def Let_def
      split: if_splits)

lemma noOpenQuestions_not_raises: "noOpenQuestions text \<Longrightarrow> \<not> raisesOpenQuestions text"
  by (auto simp: noOpenQuestions_def raisesOpenQuestions_def openQuestionsSection_def
      questions_status_of_def Let_def split: if_splits)

lemma designHasNoOpenQuestions_no: "designHasNoOpenQuestions text tr \<Longrightarrow> noOpenQuestions text"
  by (auto simp: designHasNoOpenQuestions_def noOpenQuestions_def Let_def split: if_splits)

end
