(* ===== verification/Plan_Bundle.thy ===== *)
theory Plan_Bundle
  imports Plan_Graph Plan_Digest Reports
begin

text \<open>
  The interpretation of an uploaded plan bundle (\<open>packages/planning/src/bundle.ts\<close>, with the
  roles of \<open>packages/domain/src/planning.ts\<close> and the limits of \<open>limits.ts\<close>): every part is
  taken in or refused, the set of parts is checked, the checksum manifests are verified, the YAML
  and JSON parts are parsed, the work breakdown becomes a plan with its graph, and the whole is
  summed up. What the code takes from libraries is a record of parameters.
\<close>

record import_library =
  il_nfc :: "string \<Rightarrow> string"
  il_collate :: "string \<Rightarrow> string \<Rightarrow> int"
  il_yaml :: yaml_library
  il_sha256 :: "bytes \<Rightarrow> string"
  il_text :: "bytes \<Rightarrow> string" \<comment> \<open>the UTF-8 text of the bytes\<close>
  il_jsonError :: "string \<Rightarrow> string option" \<comment> \<open>why \<open>JSON.parse\<close> throws\<close>

section \<open>The contract of a bundle\<close>

definition plan_artifact_roles :: "string list" where
  "plan_artifact_roles =
     [''implementation-plan'', ''work-breakdown'', ''assumption-ledger'', ''validation-manifest'',
      ''decision-log'', ''supporting'']"

definition required_plan_artifact_roles :: "string list" where
  "required_plan_artifact_roles = [''implementation-plan'', ''work-breakdown'']"

definition repeatable_plan_artifact_roles :: "string list" where
  "repeatable_plan_artifact_roles = [''supporting'']"

definition isPlanArtifactRole :: "string \<Rightarrow> bool" where
  "isPlanArtifactRole v = (v \<in> set plan_artifact_roles)"

definition max_artifacts :: nat where "max_artifacts = 64"
definition max_bytes_per_artifact :: nat where "max_bytes_per_artifact = 2 * 1024 * 1024"
definition max_total_bytes :: nat where "max_total_bytes = 8 * 1024 * 1024"
definition max_logical_filename :: nat where "max_logical_filename = 200"
definition max_supporting_artifacts :: nat where "max_supporting_artifacts = 60"

lemmas bundle_limits = max_artifacts_def max_bytes_per_artifact_def max_total_bytes_def
  max_logical_filename_def max_supporting_artifacts_def

datatype source_class = Class_markdown | Class_yaml | Class_json | Class_text

fun source_class_text :: "source_class \<Rightarrow> string" where
  "source_class_text Class_markdown = ''markdown''" | "source_class_text Class_yaml = ''yaml''"
| "source_class_text Class_json = ''json''" | "source_class_text Class_text = ''text''"

definition accepted_extensions :: "(string \<times> string) list" where
  "accepted_extensions =
     [(''.md'', ''text/markdown''), (''.markdown'', ''text/markdown''), (''.yaml'', ''application/yaml''),
      (''.yml'', ''application/yaml''), (''.json'', ''application/json''), (''.txt'', ''text/plain''),
      (''.sha256'', ''text/plain'')]"

definition extension_source_classes :: "(string \<times> source_class) list" where
  "extension_source_classes =
     [(''.md'', Class_markdown), (''.markdown'', Class_markdown), (''.yaml'', Class_yaml), (''.yml'', Class_yaml),
      (''.json'', Class_json), (''.txt'', Class_text), (''.sha256'', Class_text)]"

definition accepted_declared_media_types :: "string list" where
  "accepted_declared_media_types =
     [''text/markdown'', ''text/x-markdown'', ''text/plain'', ''application/json'', ''application/yaml'',
      ''text/yaml'', ''application/x-yaml'', ''text/x-yaml'', ''application/octet-stream'']"

definition required_role_source_classes :: "string \<Rightarrow> source_class list option" where
  "required_role_source_classes role =
     map_of [(''implementation-plan'', [Class_markdown]), (''work-breakdown'', [Class_yaml])] role"

section \<open>A filename as a label\<close>

definition ends_with :: "string \<Rightarrow> string \<Rightarrow> bool" where
  "ends_with suffix s = (length suffix \<le> length s \<and> drop (length s - length suffix) s = suffix)"

definition has_control_character :: "string \<Rightarrow> bool" where
  "has_control_character v = (\<exists>c\<in>set v. (of_char c :: nat) < 32 \<or> (of_char c :: nat) = 127)"

definition extensionOf :: "string \<Rightarrow> string option" where
  "extensionOf filename =
     (let lower = js_lower filename
      in find (\<lambda>e. ends_with e lower \<and> length e < length lower) (map fst accepted_extensions))"

record validated_name =
  vn_logicalFilename :: string
  vn_extension :: string
  vn_mediaType :: string
  vn_sourceClass :: source_class

definition quoted :: "string \<Rightarrow> string" where
  "quoted s = ''\"'' @ s @ ''\"''"

definition validateFilename :: "import_library \<Rightarrow> string \<Rightarrow> plan_diagnostic + validated_name" where
  "validateFilename lib raw =
     (let n = js_trim (il_nfc lib raw);
          reject = (\<lambda>reason. Inl (plan_error Invalid_logical_filename (''Filename '' @ quoted raw @ '' '' @ reason)
            (in_artifact (js_slice max_logical_filename n))))
      in if n = [] then reject ''is empty''
         else if max_logical_filename < length n
           then reject (''exceeds '' @ string_of_nat max_logical_filename @ '' characters'')
         else if CHR ''/'' \<in> set n \<or> CHR 0x5C \<in> set n then reject ''contains a path separator''
         else if has_control_character n then reject ''contains a control character''
         else if n = ''.'' \<or> n = ''..'' then reject ''is a relative path segment''
         else if \<not> well_formed_id n
           then reject ''contains characters outside [A-Za-z0-9._-] or does not start with one''
         else if ends_with ''.'' n \<or> ends_with ''-'' n then reject ''must not end with \".\" or \"-\"''
         else (case extensionOf n of
                 None \<Rightarrow> Inl (plan_error Unsupported_media_type
                   (''Filename '' @ quoted raw @ '' does not use an accepted extension (''
                     @ js_join '', '' (map fst accepted_extensions) @ '')'') (in_artifact n))
               | Some e \<Rightarrow> Inr \<lparr>vn_logicalFilename = n, vn_extension = e,
                   vn_mediaType = over (map_of accepted_extensions e) [],
                   vn_sourceClass = over (map_of extension_source_classes e) Class_text\<rparr>))"

section \<open>Taking the parts in\<close>

record plan_upload =
  up_fieldName :: string
  up_filename :: string
  up_declaredMediaType :: string
  up_bytes :: bytes
  up_truncated :: bool

datatype transport_finding = Transport_too_many nat | Transport_total nat

record accepted_artifact =
  aa_role :: string
  aa_logicalFilename :: string
  aa_mediaType :: string
  aa_sourceClass :: source_class
  aa_byteLength :: nat
  aa_sha256 :: string
  aa_bytes :: bytes

record intake =
  bi_accepted :: "accepted_artifact list"
  bi_roleCounts :: "(string \<times> nat) list"
  bi_namesSeen :: "(string \<times> string) list"
  bi_complete :: bool
  bi_total :: nat
  bi_diagnostics :: "plan_diagnostic list"

definition refuse_part :: "plan_diagnostic \<Rightarrow> intake \<Rightarrow> intake" where
  "refuse_part d s = s\<lparr>bi_diagnostics := bi_diagnostics s @ [d], bi_complete := False\<rparr>"

definition count_of :: "(string \<times> nat) list \<Rightarrow> string \<Rightarrow> nat" where
  "count_of counts role = over (map_of counts role) 0"

text \<open>The role of a part with a good label is counted and its name remembered, before its format is checked.\<close>

definition note_part :: "string \<Rightarrow> string \<Rightarrow> intake \<Rightarrow> intake" where
  "note_part role filename s =
     s\<lparr>bi_namesSeen := put_keyed fst (js_lower filename, filename) (bi_namesSeen s),
       bi_roleCounts := put_keyed fst (role, count_of (bi_roleCounts s) role + 1) (bi_roleCounts s)\<rparr>"

definition declared_type :: "string \<Rightarrow> string" where
  "declared_type t = js_lower (js_trim (takeWhile (\<lambda>c. c \<noteq> CHR '';'') t))"

definition accepted_of :: "import_library \<Rightarrow> plan_upload \<Rightarrow> validated_name \<Rightarrow> accepted_artifact" where
  "accepted_of lib a n =
     \<lparr>aa_role = up_fieldName a, aa_logicalFilename = vn_logicalFilename n, aa_mediaType = vn_mediaType n,
      aa_sourceClass = vn_sourceClass n, aa_byteLength = length (up_bytes a),
      aa_sha256 = il_sha256 lib (up_bytes a), aa_bytes = up_bytes a\<rparr>"

definition accept_part :: "import_library \<Rightarrow> plan_upload \<Rightarrow> validated_name \<Rightarrow> intake \<Rightarrow> intake" where
  "accept_part lib a n s0 =
     (let name = vn_logicalFilename n; role = up_fieldName a; s = note_part role name s0;
          s' = s\<lparr>bi_accepted := bi_accepted s @ [accepted_of lib a n]\<rparr>
      in case required_role_source_classes role of
           None \<Rightarrow> s'
         | Some classes \<Rightarrow>
             if vn_sourceClass n \<in> set classes then s'
             else refuse_part (plan_error Artifact_role_format_mismatch
               (''Role '' @ quoted role @ '' requires '' @ js_join '' or '' (map source_class_text classes)
                 @ '' source; '' @ quoted name @ '' is '' @ source_class_text (vn_sourceClass n))
               (at_path name role)) s)"

definition take_named :: "import_library \<Rightarrow> plan_upload \<Rightarrow> validated_name \<Rightarrow> intake \<Rightarrow> intake" where
  "take_named lib a n s =
     (let name = vn_logicalFilename n; declared = declared_type (up_declaredMediaType a) in
      if up_truncated a \<or> max_bytes_per_artifact < length (up_bytes a)
      then refuse_part (plan_error Artifact_too_large
        (quoted name @ '' exceeds the '' @ string_of_nat max_bytes_per_artifact @ '' byte per-file limit'')
        (in_artifact name)) s
      else if up_bytes a = []
      then refuse_part (plan_error Empty_artifact (quoted name @ '' is empty'') (in_artifact name)) s
      else if declared \<noteq> [] \<and> declared \<notin> set accepted_declared_media_types
      then refuse_part (plan_error Unsupported_media_type
        (quoted name @ '' was declared as '' @ quoted declared
          @ '', which is not an accepted planning media type'') (in_artifact name)) s
      else case map_of (bi_namesSeen s) (js_lower name) of
        Some earlier \<Rightarrow> refuse_part (plan_error Duplicate_logical_filename
          (quoted name @ '' duplicates '' @ quoted earlier @ '' within one request'') (in_artifact name)) s
      | None \<Rightarrow> accept_part lib a n s)"

definition take_part :: "import_library \<Rightarrow> plan_upload \<Rightarrow> intake \<Rightarrow> intake" where
  "take_part lib a s0 =
     (let s = s0\<lparr>bi_total := bi_total s0 + length (up_bytes a)\<rparr> in
      if \<not> isPlanArtifactRole (up_fieldName a)
      then refuse_part (plan_error Unknown_artifact_role
        (quoted (up_fieldName a) @ '' is not an accepted artifact role'')
        (in_artifact (js_slice 200 (up_filename a)))) s
      else case validateFilename lib (up_filename a) of
        Inl d \<Rightarrow> refuse_part d s
      | Inr n \<Rightarrow> take_named lib a n s)"

fun transport_diagnostic :: "transport_finding \<Rightarrow> plan_diagnostic" where
  "transport_diagnostic (Transport_too_many observed) = plan_error Too_many_artifacts
     (''Request contains '' @ string_of_nat observed @ '' files; the limit is '' @ string_of_nat max_artifacts) no_detail"
| "transport_diagnostic (Transport_total observed) = plan_error Total_size_exceeded
     (''Request exceeds the '' @ string_of_nat max_total_bytes @ '' byte total upload limit'') no_detail"

definition start_intake :: "transport_finding list \<Rightarrow> intake" where
  "start_intake findings =
     \<lparr>bi_accepted = [], bi_roleCounts = [], bi_namesSeen = [], bi_complete = (findings = []), bi_total = 0,
      bi_diagnostics = map transport_diagnostic findings\<rparr>"

section \<open>The set as a whole\<close>

definition set_limits :: "intake \<Rightarrow> intake" where
  "set_limits s0 =
     (let s = (if max_artifacts < length (bi_accepted s0)
               then refuse_part (plan_error Too_many_artifacts
                 (''Request contains '' @ string_of_nat (length (bi_accepted s0)) @ '' files; the limit is ''
                   @ string_of_nat max_artifacts) no_detail) s0
               else s0)
      in if max_total_bytes < bi_total s
         then refuse_part (plan_error Total_size_exceeded
           (''Request totals '' @ string_of_nat (bi_total s) @ '' bytes; the limit is ''
             @ string_of_nat max_total_bytes) no_detail) s
         else s)"

definition role_detail :: "string \<Rightarrow> diagnostic_detail" where
  "role_detail role = no_detail\<lparr>dd_path := Some role\<rparr>"

definition require_role :: "string \<Rightarrow> intake \<Rightarrow> intake" where
  "require_role role s =
     (if count_of (bi_roleCounts s) role = 0
      then refuse_part (plan_error Required_artifact_missing (''A '' @ quoted role @ '' artifact is required'')
        (role_detail role)) s
      else s)"

definition bound_role :: "string \<times> nat \<Rightarrow> intake \<Rightarrow> intake" where
  "bound_role rc s0 =
     (let (role, count) = rc; repeatable = role \<in> set repeatable_plan_artifact_roles;
          s = (if \<not> repeatable \<and> 1 < count
               then refuse_part (plan_error Duplicate_artifact_role
                 (''Role '' @ quoted role @ '' was supplied '' @ string_of_nat count
                   @ '' times; it accepts exactly one artifact'') (role_detail role)) s0
               else s0)
      in if repeatable \<and> max_supporting_artifacts < count
         then refuse_part (plan_error Too_many_artifacts
           (''Role '' @ quoted role @ '' accepts at most '' @ string_of_nat max_supporting_artifacts @ '' artifacts'')
           (role_detail role)) s
         else s)"

definition take_bundle :: "import_library \<Rightarrow> plan_upload list \<Rightarrow> transport_finding list \<Rightarrow> intake" where
  "take_bundle lib parts findings =
     (let s = set_limits (fold (take_part lib) parts (start_intake findings));
          s' = fold require_role required_plan_artifact_roles s
      in fold bound_role (bi_roleCounts s') s')"

section \<open>Checksum manifests\<close>

definition hex_digit :: "char \<Rightarrow> bool" where
  "hex_digit c = ((48 \<le> (of_char c :: nat) \<and> (of_char c :: nat) \<le> 57) \<or> (97 \<le> (of_char c :: nat) \<and> (of_char c :: nat) \<le> 102))"

definition trim_end :: "string \<Rightarrow> string" where
  "trim_end s = rev (dropWhile is_space (rev s))"

text \<open>A line: the hash, a space, a space or a star, and the name.\<close>

definition checksum_line :: "string \<Rightarrow> (string \<times> string) option" where
  "checksum_line raw =
     (let line = trim_end raw; name = drop 66 line in
      if 66 < length line \<and> list_all hex_digit (take 64 line) \<and> line ! 64 = CHR '' ''
        \<and> (line ! 65 = CHR '' '' \<or> line ! 65 = CHR ''*'') \<and> CHR 0x0D \<notin> set name
      then Some (take 64 line, js_trim name) else None)"

definition parseChecksumManifest :: "string \<Rightarrow> (string \<times> string) list" where
  "parseChecksumManifest t = List.map_filter checksum_line (split_lf t)"

definition verify_entry ::
    "(string \<Rightarrow> accepted_artifact option) \<Rightarrow> string \<Rightarrow> string \<times> string \<Rightarrow> plan_diagnostic list" where
  "verify_entry byName manifest entry =
     (case byName (snd entry) of
        None \<Rightarrow> [plan_warning Checksum_unmatched_entry
          (''Checksum manifest lists '' @ quoted (snd entry) @ '', which was not submitted'') (in_artifact manifest)]
      | Some target \<Rightarrow>
          if aa_sha256 target \<noteq> fst entry
          then [plan_error Checksum_mismatch
            (''Checksum manifest expects '' @ fst entry @ '' for '' @ quoted (snd entry)
              @ '' but the submitted bytes hash to '' @ aa_sha256 target) (in_artifact manifest)]
          else [])"

definition verifyChecksums :: "import_library \<Rightarrow> accepted_artifact list \<Rightarrow> plan_diagnostic list" where
  "verifyChecksums lib artifacts =
     (let byName = map_of (rev (map (\<lambda>a. (aa_logicalFilename a, a)) artifacts))
      in concat (map (\<lambda>m. if ends_with ''.sha256'' (aa_logicalFilename m)
            then concat (map (verify_entry byName (aa_logicalFilename m))
                   (parseChecksumManifest (il_text lib (aa_bytes m))))
            else []) artifacts))"

section \<open>The documents\<close>

record import_reading =
  ir_plan :: "normalized_plan option"
  ir_graph :: "plan_graph option"
  ir_diagnostics :: "plan_diagnostic list"

definition tell :: "plan_diagnostic list \<Rightarrow> import_reading \<Rightarrow> import_reading" where
  "tell ds r = r\<lparr>ir_diagnostics := ir_diagnostics r @ ds\<rparr>"

definition read_breakdown :: "import_library \<Rightarrow> string \<Rightarrow> json \<Rightarrow> import_reading \<Rightarrow> import_reading" where
  "read_breakdown lib name v r =
     (let (plan, ds) = normalizePlan (il_nfc lib) v name; r1 = tell ds r in
      case plan of
        None \<Rightarrow> r1
      | Some p \<Rightarrow>
          (let (g, gs) = analyzePlanGraph (il_collate lib) p name []
           in (tell gs r1)\<lparr>ir_plan := Some p, ir_graph := Some g\<rparr>))"

definition read_document :: "import_library \<Rightarrow> accepted_artifact \<Rightarrow> import_reading \<Rightarrow> import_reading" where
  "read_document lib a r =
     (let t = il_text lib (aa_bytes a) in
      case aa_sourceClass a of
        Class_json \<Rightarrow>
          (case il_jsonError lib t of
             None \<Rightarrow> r
           | Some why \<Rightarrow> tell [plan_error Invalid_yaml (''JSON could not be parsed: '' @ why)
               (in_artifact (aa_logicalFilename a))] r)
      | Class_yaml \<Rightarrow>
          (case parseYamlDocument (il_yaml lib) t (aa_logicalFilename a) False of
             Inl ds \<Rightarrow> tell ds r
           | Inr v \<Rightarrow> if aa_role a \<noteq> ''work-breakdown'' then r
                      else read_breakdown lib (aa_logicalFilename a) v r)
      | _ \<Rightarrow> r)"

definition explain_nothing :: "import_reading \<Rightarrow> import_reading" where
  "explain_nothing r =
     (if \<not> hasFatal (ir_diagnostics r) \<and> ir_plan r = None
      then tell [plan_error Invalid_work_breakdown
        ''The bundle produced no usable work breakdown; a work-breakdown YAML artifact is required''
        (role_detail ''work-breakdown'')] r
      else r)"

definition read_bundle :: "import_library \<Rightarrow> intake \<Rightarrow> import_reading" where
  "read_bundle lib s =
     explain_nothing (fold (read_document lib) (bi_accepted s)
       \<lparr>ir_plan = None, ir_graph = None,
        ir_diagnostics = bi_diagnostics s @ verifyChecksums lib (bi_accepted s)\<rparr>)"

section \<open>The analysis\<close>

record plan_bundle_analysis =
  ba_diagnostics :: "plan_diagnostic list"
  ba_errorCount :: nat
  ba_warningCount :: nat
  ba_fatal :: bool
  ba_artifacts :: "accepted_artifact list"
  ba_totalByteLength :: nat
  ba_digest :: "string option"
  ba_plan :: "normalized_plan option"
  ba_graph :: "plan_graph option"

definition digest_input :: "accepted_artifact \<Rightarrow> digest_artifact" where
  "digest_input a = \<lparr>da_role = aa_role a, da_logicalFilename = aa_logicalFilename a,
     da_mediaType = aa_mediaType a, da_bytes = aa_bytes a\<rparr>"

definition sum_up :: "import_library \<Rightarrow> intake \<Rightarrow> import_reading \<Rightarrow> string option \<Rightarrow> plan_bundle_analysis" where
  "sum_up lib s r digest =
     (let ordered = take max_diagnostics (sortDiagnostics (il_collate lib) (ir_diagnostics r));
          (errors, warnings) = countBySeverity ordered; fatal = hasFatal ordered
      in \<lparr>ba_diagnostics = ordered, ba_errorCount = errors, ba_warningCount = warnings, ba_fatal = fatal,
          ba_artifacts = bi_accepted s, ba_totalByteLength = bi_total s, ba_digest = digest,
          ba_plan = (if fatal then None else ir_plan r), ba_graph = (if fatal then None else ir_graph r)\<rparr>)"

text \<open>\<open>None\<close> is a throw: a length the digest cannot encode.\<close>

definition analyzePlanBundle ::
    "import_library \<Rightarrow> plan_upload list \<Rightarrow> transport_finding list \<Rightarrow> plan_bundle_analysis option" where
  "analyzePlanBundle lib parts findings =
     (let s = take_bundle lib parts findings; r = read_bundle lib s in
      if bi_complete s \<and> bi_accepted s \<noteq> []
      then map_option (\<lambda>d. sum_up lib s r (Some d))
             (computeBundleDigest (il_sha256 lib) (map digest_input (bi_accepted s)))
      else Some (sum_up lib s r None))"

end
