(* ===== verification/Plan_Example.thy ===== *)
theory Plan_Example
  imports Plan_Bundle
begin

text \<open>
  A concrete bundle, evaluated step by step: an implementation plan and a work breakdown of two
  items, with libraries that read every text as that work breakdown. The properties of the import
  are instantiated on it.
\<close>

section \<open>The bundle\<close>

definition sample_item :: "string \<Rightarrow> raw_value list \<Rightarrow> raw_value" where
  "sample_item i deps = R_object
     [(''id'', R_str i), (''title'', R_str ''t''), (''depends_on'', R_array deps), (''risk'', R_str ''low''),
      (''primary_areas'', R_array []), (''exit_gate'', R_str ''g'')]"

definition sample_library :: import_library where
  "sample_library =
     \<lparr>il_nfc = (\<lambda>s. s), il_collate = (\<lambda>l r. 0),
      il_yaml = (\<lambda>t. Inr [\<lparr>yd_problems = [], yd_unsafe = False, yd_toJS = Inr (R_object
        [(''document'', R_str ''d''),
         (''pull_requests'', R_array [sample_item ''A'' [], sample_item ''B'' [R_str ''A'']])])\<rparr>]),
      il_sha256 = (\<lambda>b. ''h''), il_text = (\<lambda>b. []), il_jsonError = (\<lambda>t. None)\<rparr>"

definition sample_part :: "string \<Rightarrow> string \<Rightarrow> plan_upload" where
  "sample_part role name = \<lparr>up_fieldName = role, up_filename = name, up_declaredMediaType = [],
     up_bytes = [1], up_truncated = False\<rparr>"

definition sample_parts :: "plan_upload list" where
  "sample_parts = [sample_part ''implementation-plan'' ''p.md'', sample_part ''work-breakdown'' ''w.yaml'']"

definition sample_intake :: intake where
  "sample_intake = take_bundle sample_library sample_parts []"

section \<open>Taking it in\<close>

lemma sample_names:
  "validateFilename sample_library ''p.md'' = Inr \<lparr>vn_logicalFilename = ''p.md'', vn_extension = ''.md'',
     vn_mediaType = ''text/markdown'', vn_sourceClass = Class_markdown\<rparr>"
  "validateFilename sample_library ''w.yaml'' = Inr \<lparr>vn_logicalFilename = ''w.yaml'', vn_extension = ''.yaml'',
     vn_mediaType = ''application/yaml'', vn_sourceClass = Class_yaml\<rparr>"
  by code_simp+

lemma sample_lower: "js_lower ''p.md'' = ''p.md''" "js_lower ''w.yaml'' = ''w.yaml''" by code_simp+

lemma sample_declared: "declared_type [] = []" by code_simp

lemma sample_sha: "il_sha256 sample_library b = ''h''" by (simp add: sample_library_def)

lemmas intake_defs = take_bundle_def sample_parts_def sample_part_def start_intake_def take_part_def
  take_named_def accept_part_def note_part_def accepted_of_def set_limits_def require_role_def bound_role_def
  sample_names sample_lower bundle_limits count_of_def isPlanArtifactRole_def plan_artifact_roles_def
  sample_declared required_role_source_classes_def required_plan_artifact_roles_def
  repeatable_plan_artifact_roles_def sample_sha Let_def

lemma sample_taken:
  "sample_intake = \<lparr>bi_accepted =
      [\<lparr>aa_role = ''implementation-plan'', aa_logicalFilename = ''p.md'', aa_mediaType = ''text/markdown'',
         aa_sourceClass = Class_markdown, aa_byteLength = 1, aa_sha256 = ''h'', aa_bytes = [1]\<rparr>,
       \<lparr>aa_role = ''work-breakdown'', aa_logicalFilename = ''w.yaml'', aa_mediaType = ''application/yaml'',
         aa_sourceClass = Class_yaml, aa_byteLength = 1, aa_sha256 = ''h'', aa_bytes = [1]\<rparr>],
     bi_roleCounts = [(''implementation-plan'', 1), (''work-breakdown'', 1)],
     bi_namesSeen = [(''p.md'', ''p.md''), (''w.yaml'', ''w.yaml'')], bi_complete = True, bi_total = 2,
     bi_diagnostics = []\<rparr>"
  by (simp add: sample_intake_def intake_defs)

text \<open>The same parts uploaded in the other order.\<close>

lemma sample_retaken:
  "bi_complete (take_bundle sample_library (rev sample_parts) [])"
  "bi_accepted (take_bundle sample_library (rev sample_parts) []) = rev (bi_accepted sample_intake)"
  by (simp_all add: sample_taken) (simp_all add: intake_defs)

section \<open>Reading it\<close>

definition sample_json :: "string \<Rightarrow> json list \<Rightarrow> json" where
  "sample_json i deps = J_object
     [(''id'', J_str i), (''title'', J_str ''t''), (''depends_on'', J_array deps), (''risk'', J_str ''low''),
      (''primary_areas'', J_array []), (''exit_gate'', J_str ''g'')]"

definition sample_doc :: json where
  "sample_doc = J_object [(''document'', J_str ''d''),
     (''pull_requests'', J_array [sample_json ''A'' [], sample_json ''B'' [J_str ''A'']])]"

lemma sample_parsed: "parseYamlDocument (il_yaml sample_library) [] ''w.yaml'' False = Inr sample_doc"
  by (simp add: parseYamlDocument_def sample_library_def normalizeJsonDocument_def sample_item_def sample_doc_def
      sample_json_def max_nodes_def max_depth_def unsafe_keys_def)

lemma sample_texts:
  "js_trim ''d'' = ''d''" "js_trim ''A'' = ''A''" "js_trim ''B'' = ''B''" "js_trim ''t'' = ''t''"
  "js_trim ''g'' = ''g''" "js_trim ''low'' = ''low''" "js_lower ''low'' = ''low''"
  "alnum CHR ''A''" "alnum CHR ''B''"
  by code_simp+

definition sample_items :: "normalized_work_item list" where
  "sample_items =
     [\<lparr>nw_sourceId = ''A'', nw_ordinal = 0, nw_title = ''t'', nw_risk = Risk_low, nw_phase = None, nw_primaryAreas = [],
        nw_exitGate = ''g'', nw_requiredDependencies = [], nw_recommendedDependencies = [],
        nw_sourceFields = sample_json ''A'' []\<rparr>,
      \<lparr>nw_sourceId = ''B'', nw_ordinal = 1, nw_title = ''t'', nw_risk = Risk_low, nw_phase = None, nw_primaryAreas = [],
        nw_exitGate = ''g'', nw_requiredDependencies = [''A''], nw_recommendedDependencies = [],
        nw_sourceFields = sample_json ''B'' [J_str ''A'']\<rparr>]"

lemma sample_normalized:
  "\<exists>p. normalizePlan (\<lambda>s. s) sample_doc ''w.yaml'' = (Some p, []) \<and> np_workItems p = sample_items"
  by (simp add: normalizePlan_def sample_doc_def sample_json_def missing_top_level_def required_top_level_fields_def
      empty_document_def optionalString_def sample_texts truncated_def plan_limits plan_of_def normalized_item_def
      requiredText_def missing_field_def normalizeRisk_def risk_of_def item_phase_def primaryAreas_def
      dependencyList_def sample_items_def Let_def)

lemma sample_graph: "np_workItems p = sample_items \<Longrightarrow> snd (analyzePlanGraph (\<lambda>l r. 0) p n []) = []"
proof -
  have c: "detectCycles (\<lambda>l r. 0) [''A'', ''B''] [(''A'', [''B'']), (''B'', [])] (map_of (rev [(''A'', 0), (''B'', 1)])) = []"
    by code_simp
  assume "np_workItems p = sample_items"
  then show ?thesis
    using c by (simp add: analyzePlanGraph_def sample_items_def item_edges_def Let_def push_at_def empty_lists_def
        cycle_diagnostics_def max_reported_cycles_def)
qed

lemma sample_read:
  "\<exists>p. read_bundle sample_library sample_intake =
      \<lparr>ir_plan = Some p, ir_graph = Some (fst (analyzePlanGraph (\<lambda>l r. 0) p ''w.yaml'' [])), ir_diagnostics = []\<rparr>
     \<and> np_workItems p = sample_items"
proof -
  obtain p where p: "normalizePlan (\<lambda>s. s) sample_doc ''w.yaml'' = (Some p, [])" "np_workItems p = sample_items"
    using sample_normalized by blast
  have e: "\<not> ends_with ''.sha256'' ''p.md''" "\<not> ends_with ''.sha256'' ''w.yaml''" by code_simp+
  have l: "il_nfc sample_library = (\<lambda>s. s)" "il_collate sample_library = (\<lambda>l r. 0)" "il_text sample_library b = []" for b
    by (simp_all add: sample_library_def)
  show ?thesis
    using p sample_graph [OF p(2), of "''w.yaml''"]
    by (simp add: read_bundle_def sample_taken verifyChecksums_def e read_document_def Let_def l sample_parsed
        read_breakdown_def split_beta explain_nothing_def tell_def)
qed

end
