(* ===== verification/Plan_Properties.thy ===== *)
theory Plan_Properties
  imports Plan_Example
begin

text \<open>
  What a plan import promises: the set behind a digest is exactly what was submitted, the digest
  identifies it, an import that yields no plan or no digest says why, and a plan that is yielded
  is well formed and its required dependencies are acyclic.
\<close>

section \<open>Taking the parts in\<close>

definition accepted_ok :: "accepted_artifact \<Rightarrow> bool" where
  "accepted_ok a = (isPlanArtifactRole (aa_role a) \<and> well_formed_id (aa_logicalFilename a)
     \<and> length (aa_logicalFilename a) \<le> max_logical_filename \<and> aa_mediaType a \<in> snd ` set accepted_extensions
     \<and> aa_bytes a \<noteq> [] \<and> length (aa_bytes a) \<le> max_bytes_per_artifact)"

text \<open>What the contract asks of one part, and of the format of its role's source.\<close>

definition part_ok :: "plan_upload \<Rightarrow> bool" where
  "part_ok p =
     (isPlanArtifactRole (up_fieldName p) \<and> \<not> up_truncated p \<and> up_bytes p \<noteq> []
      \<and> length (up_bytes p) \<le> max_bytes_per_artifact
      \<and> declared_type (up_declaredMediaType p) \<in> set ([] # accepted_declared_media_types))"

definition role_format :: "string \<Rightarrow> source_class \<Rightarrow> bool" where
  "role_format role k = (\<forall>classes. required_role_source_classes role = Some classes \<longrightarrow> k \<in> set classes)"

definition accepts :: "import_library \<Rightarrow> plan_upload \<Rightarrow> accepted_artifact \<Rightarrow> bool" where
  "accepts lib p a =
     (case validateFilename lib (up_filename p) of Inl d \<Rightarrow> False | Inr n \<Rightarrow>
        part_ok p \<and> role_format (up_fieldName p) (vn_sourceClass n) \<and> a = accepted_of lib p n)"

definition with_role :: "string \<Rightarrow> accepted_artifact list \<Rightarrow> accepted_artifact list" where
  "with_role r as = filter (\<lambda>a. aa_role a = r) as"

definition label :: "accepted_artifact \<Rightarrow> string" where
  "label a = js_lower (aa_logicalFilename a)"

text \<open>Where the intake stands after some parts.\<close>

definition taken :: "import_library \<Rightarrow> plan_upload list \<Rightarrow> intake \<Rightarrow> bool" where
  "taken lib parts s =
     (bi_complete s = (\<not> hasFatal (bi_diagnostics s)) \<and> bi_total s = sum_list (map (length \<circ> up_bytes) parts)
      \<and> (\<forall>a\<in>set (bi_accepted s). accepted_ok a)
      \<and> distinct (map label (bi_accepted s)) \<and> label ` set (bi_accepted s) \<subseteq> fst ` set (bi_namesSeen s)
      \<and> (bi_complete s \<longrightarrow> list_all2 (accepts lib) parts (bi_accepted s)
           \<and> (\<forall>r. count_of (bi_roleCounts s) r = length (with_role r (bi_accepted s)))))"

lemma refuse_part_sel [simp]:
  "bi_accepted (refuse_part d s) = bi_accepted s" "bi_roleCounts (refuse_part d s) = bi_roleCounts s"
  "bi_namesSeen (refuse_part d s) = bi_namesSeen s" "\<not> bi_complete (refuse_part d s)"
  "bi_total (refuse_part d s) = bi_total s" "bi_diagnostics (refuse_part d s) = bi_diagnostics s @ [d]"
  by (simp_all add: refuse_part_def)

lemma note_part_sel [simp]:
  "bi_accepted (note_part r n s) = bi_accepted s" "bi_complete (note_part r n s) = bi_complete s"
  "bi_total (note_part r n s) = bi_total s" "bi_diagnostics (note_part r n s) = bi_diagnostics s"
  "bi_namesSeen (note_part r n s) = put_keyed fst (js_lower n, n) (bi_namesSeen s)"
  "bi_roleCounts (note_part r n s) = put_keyed fst (r, count_of (bi_roleCounts s) r + 1) (bi_roleCounts s)"
  by (simp_all add: note_part_def)

lemma map_of_put_keyed: "map_of (put_keyed fst (k, v) xs) n = (if n = k then Some v else map_of xs n)"
  by (induction xs) auto

lemma count_of_put_keyed [simp]: "count_of (put_keyed fst (k, v) xs) n = (if n = k then v else count_of xs n)"
  by (simp add: count_of_def map_of_put_keyed)

lemma named_error: "validateFilename lib raw = Inl d \<Longrightarrow> pd_severity d = Level_error"
  by (auto simp: validateFilename_def Let_def split: if_splits option.splits)

lemma extension_known: "extensionOf n = Some e \<Longrightarrow> over (map_of accepted_extensions e) [] \<in> snd ` set accepted_extensions"
  unfolding extensionOf_def Let_def
  by (drule find_Some_in) (auto simp: accepted_extensions_def)

lemma named_ok:
  "validateFilename lib raw = Inr n \<Longrightarrow> well_formed_id (vn_logicalFilename n)
     \<and> length (vn_logicalFilename n) \<le> max_logical_filename \<and> vn_mediaType n \<in> snd ` set accepted_extensions"
  by (auto simp: validateFilename_def Let_def extension_known split: if_splits option.splits)

lemma refused_taken:
  assumes "taken lib parts s" "pd_severity d = Level_error" "bi_accepted s' = bi_accepted s"
    "bi_diagnostics s' = bi_diagnostics s" "bi_total s' = bi_total s + length (up_bytes p)"
    "fst ` set (bi_namesSeen s) \<subseteq> fst ` set (bi_namesSeen s')"
  shows "taken lib (parts @ [p]) (refuse_part d s')"
proof -
  have "label ` set (bi_accepted s') \<subseteq> fst ` set (bi_namesSeen s')"
    using assms(1,3) by (intro subset_trans [OF _ assms(6)]) (simp add: taken_def)
  with assms show ?thesis by (simp add: taken_def)
qed

lemma take_part_taken:
  assumes "taken lib parts s"
  shows "taken lib (parts @ [p]) (take_part lib p s)"
proof -
  let ?s = "s\<lparr>bi_total := bi_total s + length (up_bytes p)\<rparr>"
  have refused: "pd_severity d = Level_error \<Longrightarrow> taken lib (parts @ [p]) (refuse_part d ?s)" for d
    by (rule refused_taken [OF assms]) simp_all
  show ?thesis
  proof (cases "validateFilename lib (up_filename p)")
    case (Inl d)
    with refused named_error [OF Inl] show ?thesis by (simp add: take_part_def Let_def)
  next
    case (Inr n)
    have noted: "pd_severity d = Level_error \<Longrightarrow>
        taken lib (parts @ [p]) (refuse_part d (note_part (up_fieldName p) (vn_logicalFilename n) ?s))" for d
      by (rule refused_taken [OF assms]) (auto simp: keys_put_keyed)
    have accepted: "taken lib (parts @ [p]) (accept_part lib p n ?s)"
      if ok: "part_ok p" and new: "map_of (bi_namesSeen s) (js_lower (vn_logicalFilename n)) = None"
    proof -
      let ?t = "note_part (up_fieldName p) (vn_logicalFilename n) ?s"
      have "accepted_ok (accepted_of lib p n)"
        using ok named_ok [OF Inr] by (simp add: accepted_ok_def accepted_of_def part_ok_def)
      moreover have "js_lower (vn_logicalFilename n) \<notin> label ` set (bi_accepted s)"
        using assms new by (auto simp: taken_def map_of_eq_None_iff)
      ultimately have "taken lib (parts @ [p]) (?t\<lparr>bi_accepted := bi_accepted ?t @ [accepted_of lib p n]\<rparr>)"
        if "role_format (up_fieldName p) (vn_sourceClass n)"
        using assms Inr ok that
        by (auto simp: taken_def keys_put_keyed label_def accepts_def with_role_def accepted_of_def
            list_all2_appendI)
      with noted show ?thesis
        by (auto simp: accept_part_def Let_def role_format_def split: option.splits)
    qed
    show ?thesis
      using refused accepted Inr
      by (auto simp: take_part_def take_named_def Let_def part_ok_def split: option.splits)
  qed
qed

lemma start_taken: "taken lib [] (start_intake findings)"
proof -
  have "pd_severity (transport_diagnostic f) = Level_error" for f by (cases f) simp_all
  then show ?thesis
    by (cases findings) (auto simp: taken_def start_intake_def count_of_def with_role_def)
qed

lemma parts_taken: "taken lib parts (fold (take_part lib) parts (start_intake findings))"
  by (induction parts rule: rev_induct) (simp_all add: start_taken take_part_taken)

lemma parts_findings:
  "bi_complete (fold (take_part lib) parts (start_intake findings)) \<Longrightarrow> findings = []"
proof -
  have kept: "bi_complete (accept_part lib p n s) \<Longrightarrow> bi_complete s" for p n s
    by (auto simp: accept_part_def Let_def split: if_splits option.splits)
  have named: "bi_complete (take_named lib p n s) \<Longrightarrow> bi_complete s" for p n s
    using kept [of p n s] by (auto simp: take_named_def Let_def split: if_splits option.splits)
  have "bi_complete (take_part lib p s) \<Longrightarrow> bi_complete s" for p s
    using named [of p _ "s\<lparr>bi_total := bi_total s + length (up_bytes p)\<rparr>"]
    by (cases "validateFilename lib (up_filename p)") (simp_all add: take_part_def Let_def split: if_splits)
  then have "bi_complete (fold (take_part lib) ps s) \<Longrightarrow> bi_complete s" for ps s
    by (induction ps arbitrary: s) (simp, metis fold_simps(2))
  then show "bi_complete (fold (take_part lib) parts (start_intake findings)) \<Longrightarrow> findings = []"
    by (fastforce simp: start_intake_def)
qed

section \<open>Checking the set\<close>

text \<open>A check of the set refuses or leaves the intake; it never changes what was taken in.\<close>

definition checked :: "intake \<Rightarrow> intake \<Rightarrow> bool \<Rightarrow> bool" where
  "checked s s' ok =
     (bi_accepted s' = bi_accepted s \<and> bi_roleCounts s' = bi_roleCounts s \<and> bi_total s' = bi_total s
      \<and> bi_complete s' = (bi_complete s \<and> ok)
      \<and> (bi_complete s = (\<not> hasFatal (bi_diagnostics s)) \<longrightarrow> bi_complete s' = (\<not> hasFatal (bi_diagnostics s'))))"

lemma checked_trans: "checked s t a \<Longrightarrow> checked t u b \<Longrightarrow> checked s u (a \<and> b)"
  by (auto simp: checked_def)

lemma checked_fold:
  "(\<And>x s. x \<in> set xs \<Longrightarrow> checked s (f x s) (ok x)) \<Longrightarrow> checked s (fold f xs s) (\<forall>x\<in>set xs. ok x)"
proof (induction xs arbitrary: s)
  case (Cons x xs)
  from checked_trans [OF Cons.prems [of x s] Cons.IH [of "f x s"]] Cons.prems show ?case by simp
qed (simp add: checked_def)

lemma checked_limits:
  "checked s (set_limits s) (length (bi_accepted s) \<le> max_artifacts \<and> bi_total s \<le> max_total_bytes)"
  by (auto simp: checked_def set_limits_def Let_def)

lemma checked_require: "checked s (require_role r s) (count_of (bi_roleCounts s) r \<noteq> 0)"
  by (auto simp: checked_def require_role_def)

lemma checked_required:
  "checked s (fold require_role required_plan_artifact_roles s)
     (\<forall>r\<in>set required_plan_artifact_roles. count_of (bi_roleCounts s) r \<noteq> 0)"
  by (simp add: checked_def require_role_def required_plan_artifact_roles_def)

definition role_bound :: "string \<times> nat \<Rightarrow> bool" where
  "role_bound rc = (if fst rc \<in> set repeatable_plan_artifact_roles then snd rc \<le> max_supporting_artifacts else snd rc \<le> 1)"

lemma checked_bound: "checked s (bound_role rc s) (role_bound rc)"
  by (cases rc) (auto simp: checked_def bound_role_def role_bound_def Let_def)

text \<open>What a bundle whose set is complete consists of.\<close>

lemma bundle_taken:
  fixes lib parts findings
  defines "s \<equiv> take_bundle lib parts findings"
  shows "bi_complete s = (\<not> hasFatal (bi_diagnostics s))"
    "\<forall>a\<in>set (bi_accepted s). accepted_ok a" "distinct (map label (bi_accepted s))"
    "bi_total s = sum_list (map (length \<circ> up_bytes) parts)"
    "bi_complete s \<Longrightarrow> findings = [] \<and> list_all2 (accepts lib) parts (bi_accepted s)
       \<and> length (bi_accepted s) \<le> max_artifacts \<and> bi_total s \<le> max_total_bytes
       \<and> (\<forall>r\<in>set required_plan_artifact_roles. length (with_role r (bi_accepted s)) = 1)
       \<and> (\<forall>r. length (with_role r (bi_accepted s))
            \<le> (if r \<in> set repeatable_plan_artifact_roles then max_supporting_artifacts else 1))"
proof -
  let ?t = "fold (take_part lib) parts (start_intake findings)"
  let ?u = "fold require_role required_plan_artifact_roles (set_limits ?t)"
  let ?lim = "length (bi_accepted ?t) \<le> max_artifacts \<and> bi_total ?t \<le> max_total_bytes"
  let ?req = "\<forall>r\<in>set required_plan_artifact_roles. count_of (bi_roleCounts ?t) r \<noteq> 0"
  let ?bnd = "\<forall>rc\<in>set (bi_roleCounts ?t). role_bound rc"
  have l: "checked ?t (set_limits ?t) ?lim" by (rule checked_limits)
  from l have u: "checked (set_limits ?t) ?u ?req"
    using checked_required [of "set_limits ?t"] by (metis checked_def)
  have b: "checked ?u s (\<forall>rc\<in>set (bi_roleCounts ?u). role_bound rc)"
    unfolding s_def take_bundle_def Let_def by (rule checked_fold) (rule checked_bound)
  have "bi_roleCounts ?u = bi_roleCounts ?t" using l u by (simp add: checked_def)
  with checked_trans [OF checked_trans [OF l u] b] have c: "checked ?t s ((?lim \<and> ?req) \<and> ?bnd)" by simp
  note t = parts_taken [of lib parts findings]
  from c t show "bi_complete s = (\<not> hasFatal (bi_diagnostics s))" unfolding checked_def taken_def by blast
  from c t show "\<forall>a\<in>set (bi_accepted s). accepted_ok a"
    "distinct (map label (bi_accepted s))" "bi_total s = sum_list (map (length \<circ> up_bytes) parts)"
    by (simp_all add: checked_def taken_def)
  assume "bi_complete s"
  with c have whole: "bi_complete ?t" ?lim ?req ?bnd by (simp_all add: checked_def)
  have count: "count_of (bi_roleCounts ?t) r = length (with_role r (bi_accepted s))" for r
    using t c whole(1) by (simp add: taken_def checked_def)
  have "role_bound (r, count_of (bi_roleCounts ?t) r)" for r
  proof (cases "map_of (bi_roleCounts ?t) r")
    case None
    then show ?thesis by (simp add: count_of_def role_bound_def)
  next
    case (Some k)
    with whole(4) map_of_SomeD [OF Some] show ?thesis by (auto simp: count_of_def)
  qed
  then have bound: "length (with_role r (bi_accepted s))
      \<le> (if r \<in> set repeatable_plan_artifact_roles then max_supporting_artifacts else 1)" for r
    using count [of r] by (metis fst_conv snd_conv role_bound_def)
  have "length (with_role r (bi_accepted s)) = 1" if "r \<in> set required_plan_artifact_roles" for r
  proof -
    have "r \<notin> set repeatable_plan_artifact_roles"
      using that by (auto simp: required_plan_artifact_roles_def repeatable_plan_artifact_roles_def)
    moreover have "length (with_role r (bi_accepted s)) \<noteq> 0" using whole(3) that count [of r] by metis
    ultimately show ?thesis using bound [of r] by (simp add: le_Suc_eq)
  qed
  with bound whole parts_findings [OF whole(1)] t c
  show "findings = [] \<and> list_all2 (accepts lib) parts (bi_accepted s)
       \<and> length (bi_accepted s) \<le> max_artifacts \<and> bi_total s \<le> max_total_bytes
       \<and> (\<forall>r\<in>set required_plan_artifact_roles. length (with_role r (bi_accepted s)) = 1)
       \<and> (\<forall>r. length (with_role r (bi_accepted s))
            \<le> (if r \<in> set repeatable_plan_artifact_roles then max_supporting_artifacts else 1))"
    by (simp add: taken_def checked_def)
qed

section \<open>The digest of a complete set\<close>

lemma digest_encodable:
  assumes "\<forall>a\<in>set as. accepted_ok a" "length as \<le> max_artifacts"
  shows "digest_stream (map digest_input as) \<noteq> None"
proof -
  have short: "lengthPrefixedText t \<noteq> None" if "length t \<le> max_logical_filename" for t
    using that by (simp add: lengthPrefixedText_def prefixed_def u32be_def text_bytes_def max_logical_filename_def)
  have role: "isPlanArtifactRole r \<Longrightarrow> length r \<le> max_logical_filename" for r
    by (auto simp: isPlanArtifactRole_def plan_artifact_roles_def max_logical_filename_def)
  have media: "m \<in> snd ` set accepted_extensions \<Longrightarrow> length m \<le> max_logical_filename" for m
    by (auto simp: accepted_extensions_def max_logical_filename_def)
  have one: "artifact_bytes (digest_input a) \<noteq> None" if "accepted_ok a" for a
    using that short [of "aa_role a"] short [of "aa_logicalFilename a"] short [of "aa_mediaType a"]
      role [of "aa_role a"] media [of "aa_mediaType a"]
    by (auto simp: accepted_ok_def artifact_bytes_def digest_input_def join_bytes_def prefixed_def u64be_def
        max_bytes_per_artifact_def split: option.splits)
  have "artifacts_bytes ds \<noteq> None" if "set ds \<subseteq> digest_input ` set as" for ds
    using that
  proof (induction ds)
    case (Cons d ds)
    then have "artifact_bytes d \<noteq> None" using one assms(1) by auto
    with Cons show ?case by (auto simp: join_bytes_def split: option.splits)
  qed simp
  then have "artifacts_bytes (js_sort compare_artifacts (map digest_input as)) \<noteq> None" by simp
  with assms(2) show ?thesis
    by (auto simp: digest_stream_def Let_def join_bytes_def u32be_def max_artifacts_def split: option.splits)
qed

lemma distinct_names:
  assumes "distinct (map label as)"
  shows "distinct (map artifact_name (map digest_input as))"
proof -
  have "inj_on aa_logicalFilename (set as)" "distinct as"
    using assms by (auto simp: distinct_map label_def inj_on_def)
  then show ?thesis
    by (auto simp: distinct_map artifact_name_def digest_input_def inj_on_def)
qed

text \<open>How an analysis comes about.\<close>

lemma analysis_cases:
  fixes lib parts findings
  defines "s \<equiv> take_bundle lib parts findings"
  shows "analyzePlanBundle lib parts findings = Some (sum_up lib s (read_bundle lib s)
     (if bi_complete s then computeBundleDigest (il_sha256 lib) (map digest_input (bi_accepted s)) else None))"
    "bi_complete s \<Longrightarrow> computeBundleDigest (il_sha256 lib) (map digest_input (bi_accepted s)) \<noteq> None"
proof -
  note b = bundle_taken [of lib parts findings, folded s_def]
  show some: "bi_complete s \<Longrightarrow> computeBundleDigest (il_sha256 lib) (map digest_input (bi_accepted s)) \<noteq> None"
    using digest_encodable [OF b(2)] b(5) by (simp add: computeBundleDigest_def)
  have "bi_complete s \<Longrightarrow> bi_accepted s \<noteq> []"
    using b(5) by (auto simp: required_plan_artifact_roles_def with_role_def)
  with some show "analyzePlanBundle lib parts findings = Some (sum_up lib s (read_bundle lib s)
     (if bi_complete s then computeBundleDigest (il_sha256 lib) (map digest_input (bi_accepted s)) else None))"
    by (auto simp: analyzePlanBundle_def Let_def s_def [symmetric])
qed

section \<open>Reading the documents\<close>

text \<open>
  The plan and the graph are those of one document, whose diagnostics are all reported; when
  nothing fatal is reported there is a plan.
\<close>

definition reading_ok :: "import_library \<Rightarrow> import_reading \<Rightarrow> bool" where
  "reading_ok lib r =
     (case (ir_plan r, ir_graph r) of
        (None, None) \<Rightarrow> True
      | (Some p, Some g) \<Rightarrow> \<exists>v name.
          (\<exists>raw. normalizeJsonDocument raw name = Inr v) \<and> fst (normalizePlan (il_nfc lib) v name) = Some p
          \<and> g = fst (analyzePlanGraph (il_collate lib) p name [])
          \<and> set (snd (normalizePlan (il_nfc lib) v name)) \<subseteq> set (ir_diagnostics r)
          \<and> set (snd (analyzePlanGraph (il_collate lib) p name [])) \<subseteq> set (ir_diagnostics r)
      | _ \<Rightarrow> False)"

lemma tell_sel [simp]:
  "ir_plan (tell ds r) = ir_plan r" "ir_graph (tell ds r) = ir_graph r"
  "ir_diagnostics (tell ds r) = ir_diagnostics r @ ds"
  by (simp_all add: tell_def)

lemma reading_told: "reading_ok lib r \<Longrightarrow> reading_ok lib (tell ds r)"
  by (auto simp: reading_ok_def split: option.splits)

lemma parsed_normalized:
  "parseYamlDocument yaml t name strict = Inr v \<Longrightarrow> \<exists>raw. normalizeJsonDocument raw name = Inr v"
  by (auto simp: parseYamlDocument_def split: sum.splits list.splits if_splits)

lemma document_read:
  assumes "reading_ok lib r"
  shows "reading_ok lib (read_document lib a r)"
    and "set (ir_diagnostics r) \<subseteq> set (ir_diagnostics (read_document lib a r))"
proof -
  have breakdown: "reading_ok lib (read_breakdown lib name v r)
      \<and> set (ir_diagnostics r) \<subseteq> set (ir_diagnostics (read_breakdown lib name v r))"
    if "\<exists>raw. normalizeJsonDocument raw name = Inr v" for name v
  proof (cases "fst (normalizePlan (il_nfc lib) v name)")
    case None
    then show ?thesis using reading_told [OF assms] by (simp add: read_breakdown_def Let_def split_beta)
  next
    case (Some p)
    with that show ?thesis by (auto simp: read_breakdown_def Let_def split_beta reading_ok_def)
  qed
  show "reading_ok lib (read_document lib a r)"
    using assms breakdown parsed_normalized
    by (auto simp: read_document_def Let_def reading_told split: source_class.splits option.splits sum.splits)
  show "set (ir_diagnostics r) \<subseteq> set (ir_diagnostics (read_document lib a r))"
    using breakdown parsed_normalized
    by (auto simp: read_document_def Let_def split: source_class.splits option.splits sum.splits)
qed

lemma documents_read:
  "reading_ok lib r \<Longrightarrow> reading_ok lib (fold (read_document lib) as r)
     \<and> set (ir_diagnostics r) \<subseteq> set (ir_diagnostics (fold (read_document lib) as r))"
proof (induction as arbitrary: r)
  case (Cons a as)
  from Cons.IH [OF document_read(1) [OF Cons.prems, of a]] document_read(2) [OF Cons.prems, of a]
  show ?case by auto
qed simp

lemma bundle_read:
  fixes lib s
  defines "r \<equiv> read_bundle lib s"
  shows "reading_ok lib r" "set (bi_diagnostics s) \<subseteq> set (ir_diagnostics r)"
    "ir_plan r = None \<Longrightarrow> hasFatal (ir_diagnostics r)"
proof -
  let ?r0 = "\<lparr>ir_plan = None, ir_graph = None, ir_diagnostics = bi_diagnostics s @ verifyChecksums lib (bi_accepted s)\<rparr>"
  let ?r1 = "fold (read_document lib) (bi_accepted s) ?r0"
  have "reading_ok lib ?r0" by (simp add: reading_ok_def)
  from documents_read [OF this, of "bi_accepted s"]
  have ok: "reading_ok lib ?r1" "set (bi_diagnostics s) \<subseteq> set (ir_diagnostics ?r1)" by auto
  have r: "r = explain_nothing ?r1" by (simp add: r_def read_bundle_def)
  show "reading_ok lib r" using ok(1) by (simp add: r explain_nothing_def reading_told)
  show "set (bi_diagnostics s) \<subseteq> set (ir_diagnostics r)" using ok(2) by (auto simp: r explain_nothing_def)
  show "ir_plan r = None \<Longrightarrow> hasFatal (ir_diagnostics r)" by (auto simp: r explain_nothing_def)
qed

lemma sum_up_sel:
  "ba_fatal (sum_up lib s r d) = hasFatal (ir_diagnostics r)"
  "ba_errorCount (sum_up lib s r d) = fst (countBySeverity (ba_diagnostics (sum_up lib s r d)))"
  "ba_diagnostics (sum_up lib s r d) = take max_diagnostics (sortDiagnostics (il_collate lib) (ir_diagnostics r))"
  "ba_artifacts (sum_up lib s r d) = bi_accepted s" "ba_digest (sum_up lib s r d) = d"
  "ba_totalByteLength (sum_up lib s r d) = bi_total s"
  "ba_plan (sum_up lib s r d) = (if hasFatal (ir_diagnostics r) then None else ir_plan r)"
  "ba_graph (sum_up lib s r d) = (if hasFatal (ir_diagnostics r) then None else ir_graph r)"
  by (simp_all add: sum_up_def Let_def split_beta cut_keeps_error max_diagnostics_def)

section \<open>A plan without errors\<close>

lemma required_all:
  assumes "\<not> hasFatal (snd (required_of known name path s i seen ts))"
  shows "\<forall>t\<in>set ts. t \<noteq> s \<and> t \<in> set known
     \<and> (t \<in> set seen \<or> (\<exists>e\<in>set (fst (required_of known name path s i seen ts)). pe_predecessor e = t \<and> pe_successor e = s))"
  using assms
proof (induction ts arbitrary: i seen)
  case (Cons t ts)
  have new: "t \<noteq> s" "t \<in> set known"
    using Cons.prems by (simp_all add: Let_def split_beta split: if_splits)
  show ?case
  proof (cases "t \<in> set seen")
    case True
    have "\<not> hasFatal (snd (required_of known name path s (i + 1) seen ts))"
      using Cons.prems True new by (simp add: Let_def split_beta)
    from Cons.IH [OF this] True new show ?thesis by (simp add: Let_def split_beta)
  next
    case False
    have "\<not> hasFatal (snd (required_of known name path s (i + 1) (seen @ [t]) ts))"
      using Cons.prems False new by (simp add: Let_def split_beta)
    from Cons.IH [OF this] False new show ?thesis by (auto simp: Let_def split_beta)
  qed
qed simp

text \<open>The dependencies an item declares, as a relation.\<close>

definition declared_dependencies :: "normalized_plan \<Rightarrow> (string \<times> string) set" where
  "declared_dependencies p =
     (\<Union>x\<in>set (np_workItems p). (\<lambda>d. (d, nw_sourceId x)) ` set (nw_requiredDependencies x))"

lemma graph_edge_list:
  "pg_requiredEdges (fst (analyzePlanGraph collate p name completed)) =
     concat (map (\<lambda>x. fst (required_of (map nw_sourceId (np_workItems p)) name (item_path (nw_ordinal x)) (nw_sourceId x)
        0 [] (nw_requiredDependencies x))) (np_workItems p))"
  by (simp add: analyzePlanGraph_def Let_def item_edges_def split_beta comp_def)

lemma graph_clean:
  assumes "\<not> hasFatal (snd (analyzePlanGraph collate p name completed))"
  shows "required_relation (fst (analyzePlanGraph collate p name completed)) = declared_dependencies p"
    "acyclic (declared_dependencies p)"
    "\<forall>(d, x)\<in>declared_dependencies p. d \<noteq> x \<and> d \<in> nw_sourceId ` set (np_workItems p)"
proof -
  let ?ids = "map nw_sourceId (np_workItems p)"
  let ?req = "\<lambda>x. required_of ?ids name (item_path (nw_ordinal x)) (nw_sourceId x) 0 [] (nw_requiredDependencies x)"
  have clean: "\<not> hasFatal (snd (?req x))" if "x \<in> set (np_workItems p)" for x
    using assms that by (auto simp: analyzePlanGraph_def Let_def item_edges_def split_beta hasFatal_def)
  have rel: "required_relation (fst (analyzePlanGraph collate p name completed)) =
      (\<Union>x\<in>set (np_workItems p). (\<lambda>e. (pe_predecessor e, pe_successor e)) ` set (fst (?req x)))"
    by (auto simp: required_relation_def graph_edge_list)
  have one: "(\<lambda>e. (pe_predecessor e, pe_successor e)) ` set (fst (?req x)) = (\<lambda>d. (d, nw_sourceId x)) ` set (nw_requiredDependencies x)"
    if "x \<in> set (np_workItems p)" for x
  proof
    show "(\<lambda>e. (pe_predecessor e, pe_successor e)) ` set (fst (?req x)) \<subseteq> (\<lambda>d. (d, nw_sourceId x)) ` set (nw_requiredDependencies x)"
      by (auto dest: required_of_edges)
    show "(\<lambda>d. (d, nw_sourceId x)) ` set (nw_requiredDependencies x) \<subseteq> (\<lambda>e. (pe_predecessor e, pe_successor e)) ` set (fst (?req x))"
      using required_all [OF clean [OF that]] by fastforce
  qed
  show eq: "required_relation (fst (analyzePlanGraph collate p name completed)) = declared_dependencies p"
    unfolding rel declared_dependencies_def using one by simp
  show "acyclic (declared_dependencies p)"
  proof (rule ccontr)
    assume "\<not> acyclic (declared_dependencies p)"
    then obtain d where "d \<in> set (snd (analyzePlanGraph collate p name completed))" "pd_code d = Required_dependency_cycle"
      using graph_cycle_exact [of collate p name completed] eq by auto
    moreover have "\<forall>d\<in>set (snd (analyzePlanGraph collate p name completed)). pd_code d = Required_dependency_cycle
        \<longrightarrow> pd_severity d = Level_error"
      using item_codes by (auto simp: analyzePlanGraph_def Let_def cycle_diagnostics_def)
    ultimately show False using assms by (auto simp: hasFatal_def)
  qed
  show "\<forall>(d, x)\<in>declared_dependencies p. d \<noteq> x \<and> d \<in> nw_sourceId ` set (np_workItems p)"
    using required_all [OF clean] by (fastforce simp: declared_dependencies_def)
qed

lemma plan_of_bundle:
  assumes "analyzePlanBundle lib parts findings = Some r" "ba_plan r = Some p"
  shows "\<exists>v name g. fst (normalizePlan (il_nfc lib) v name) = Some p \<and> ba_graph r = Some g
     \<and> g = fst (analyzePlanGraph (il_collate lib) p name [])
     \<and> \<not> hasFatal (snd (normalizePlan (il_nfc lib) v name)) \<and> \<not> hasFatal (snd (analyzePlanGraph (il_collate lib) p name []))"
proof -
  let ?s = "take_bundle lib parts findings"
  let ?i = "read_bundle lib ?s"
  obtain d where r: "r = sum_up lib ?s ?i d" using assms(1) analysis_cases(1) [of lib parts findings] by (metis option.inject)
  have clean: "\<not> hasFatal (ir_diagnostics ?i)" and plan: "ir_plan ?i = Some p"
    using assms(2) by (auto simp: r sum_up_sel split: if_splits)
  have "hasFatal ds \<Longrightarrow> set ds \<subseteq> set (ir_diagnostics ?i) \<Longrightarrow> False" for ds using clean by (auto simp: hasFatal_def)
  with bundle_read(1) [of lib ?s] plan clean show ?thesis
    by (simp add: reading_ok_def r sum_up_sel split: option.splits) blast
qed

section \<open>The concrete bundle\<close>

lemma sample_analysis:
  "\<exists>r p. analyzePlanBundle sample_library sample_parts [] = Some r \<and> ba_plan r = Some p
     \<and> np_workItems p = sample_items \<and> ba_digest r \<noteq> None \<and> ba_artifacts r = bi_accepted sample_intake"
proof -
  have c: "bi_complete (take_bundle sample_library sample_parts [])" using sample_taken by (simp add: sample_intake_def)
  show ?thesis
    using sample_read analysis_cases [of sample_library sample_parts "[]"] c
    by (auto simp: sum_up_sel sample_intake_def)
qed

lemma sample_reanalysis:
  "\<exists>r. analyzePlanBundle sample_library (rev sample_parts) [] = Some r
     \<and> ba_digest r \<noteq> None \<and> ba_artifacts r = rev (bi_accepted sample_intake)"
  using analysis_cases [of sample_library "rev sample_parts" "[]"] sample_retaken by (auto simp: sum_up_sel)

text \<open>What every yielded plan is, and why an import without an error yields one.\<close>

lemma imported_plan:
  assumes "analyzePlanBundle lib parts findings = Some r" "ba_plan r = Some p"
  shows "(\<exists>g. ba_graph r = Some g \<and> required_relation g = declared_dependencies p)
    \<and> acyclic (declared_dependencies p)
    \<and> (\<forall>(d, x)\<in>declared_dependencies p. d \<noteq> x \<and> d \<in> nw_sourceId ` set (np_workItems p))
    \<and> (\<forall>x\<in>set (np_workItems p). valid_item x) \<and> distinct (map nw_sourceId (np_workItems p))
    \<and> map nw_ordinal (np_workItems p) = [0..<length (np_workItems p)]
    \<and> np_workItems p \<noteq> [] \<and> length (np_workItems p) \<le> 2000"
proof -
  from plan_of_bundle [OF assms] obtain v name where
    n: "fst (normalizePlan (il_nfc lib) v name) = Some p" "\<not> hasFatal (snd (normalizePlan (il_nfc lib) v name))"
    and g: "ba_graph r = Some (fst (analyzePlanGraph (il_collate lib) p name []))"
      "\<not> hasFatal (snd (analyzePlanGraph (il_collate lib) p name []))" by blast
  have eq: "normalizePlan (il_nfc lib) v name = (Some p, snd (normalizePlan (il_nfc lib) v name))"
    using n(1) by (metis prod.collapse)
  note ok = normalized_plan_ok [OF eq]
  have ords: "map nw_ordinal (np_workItems p) = [0..<length (plan_entries v)]" "plan_entries v \<noteq> []"
    using ok(7) [OF n(2)] by auto
  then have len: "length (np_workItems p) = length (plan_entries v)" by (metis length_map length_upt minus_nat.diff_0)
  have "length (plan_entries v) \<le> max_work_items"
  proof (rule ccontr)
    assume "\<not> length (plan_entries v) \<le> max_work_items"
    then have "max_work_items \<in> set (map nw_ordinal (np_workItems p))" by (simp add: ords(1))
    with ok(4) show False by auto
  qed
  with graph_clean [OF g(2)] g(1) ok ords len show ?thesis by (simp add: max_work_items_def) (metis length_0_conv)
qed

lemma import_outcome:
  "\<exists>r. analyzePlanBundle lib parts findings = Some r \<and> ba_fatal r = hasFatal (ba_diagnostics r)
     \<and> ba_errorCount r = fst (countBySeverity (ba_diagnostics r)) \<and> length (ba_diagnostics r) \<le> max_diagnostics
     \<and> (ba_plan r = None \<or> ba_digest r = None \<longrightarrow> ba_fatal r)"
proof -
  let ?s = "take_bundle lib parts findings"
  let ?i = "read_bundle lib ?s"
  let ?d = "if bi_complete ?s then computeBundleDigest (il_sha256 lib) (map digest_input (bi_accepted ?s)) else None"
  let ?r = "sum_up lib ?s ?i ?d"
  have "hasFatal (ir_diagnostics ?i)" if "ba_plan ?r = None \<or> ba_digest ?r = None"
  proof (cases "bi_complete ?s")
    case True
    then have "ba_plan ?r = None" using that analysis_cases(2) [OF True] by (simp add: sum_up_sel)
    then show ?thesis using bundle_read(3) [of lib ?s] by (auto simp: sum_up_sel split: if_splits)
  next
    case False
    then show ?thesis
      using bundle_taken(1) [of lib parts findings] bundle_read(2) [of ?s lib] by (auto simp: hasFatal_def)
  qed
  moreover have "hasFatal (ba_diagnostics ?r) = hasFatal (ir_diagnostics ?i)"
    by (simp add: sum_up_sel(3) cut_keeps_error max_diagnostics_def)
  ultimately have fatal: "ba_fatal ?r = hasFatal (ba_diagnostics ?r)"
      "ba_plan ?r = None \<or> ba_digest ?r = None \<longrightarrow> ba_fatal ?r"
    unfolding sum_up_sel(1) by blast+
  have "length (ba_diagnostics ?r) \<le> max_diagnostics" by (simp add: sum_up_sel(3))
  with fatal show ?thesis
    by (intro exI [of _ ?r] conjI) (assumption | rule analysis_cases(1) sum_up_sel(2))+
qed

section \<open>Properties\<close>

text \<open>
  C2. A plan that an import yields comes with its graph and is well formed: it has between one
  and 2000 items, one for each entry in order, their identifiers distinct; every item is within
  the limits; every required dependency is another item of the plan; the graph has exactly the
  declared dependencies, and they are acyclic.
\<close>

theorem import_sound:
  assumes "analyzePlanBundle lib parts findings = Some r" "ba_plan r = Some p"
  shows "(\<exists>g. ba_graph r = Some g \<and> required_relation g = declared_dependencies p)
    \<and> acyclic (declared_dependencies p)
    \<and> (\<forall>(d, x)\<in>declared_dependencies p. d \<noteq> x \<and> d \<in> nw_sourceId ` set (np_workItems p))
    \<and> (\<forall>x\<in>set (np_workItems p). valid_item x) \<and> distinct (map nw_sourceId (np_workItems p))
    \<and> map nw_ordinal (np_workItems p) = [0..<length (np_workItems p)]
    \<and> np_workItems p \<noteq> [] \<and> length (np_workItems p) \<le> 2000"
  by (rule imported_plan [OF assms])

theorem import_sound_witness:
  "\<exists>r p. analyzePlanBundle sample_library sample_parts [] = Some r \<and> ba_plan r = Some p
     \<and> np_workItems p = sample_items \<and> acyclic (declared_dependencies p) \<and> distinct (map nw_sourceId (np_workItems p))"
proof -
  obtain r p where a: "analyzePlanBundle sample_library sample_parts [] = Some r" "ba_plan r = Some p" "np_workItems p = sample_items"
    using sample_analysis by blast
  with import_sound [OF a(1,2)] show ?thesis by auto
qed

text \<open>
  C11. An import never throws, reports at most 500 diagnostics, and when it yields no plan or no
  digest an error is among those it reports (errors are kept by the cut).
\<close>

theorem import_explained:
  "\<exists>r. analyzePlanBundle lib parts findings = Some r \<and> length (ba_diagnostics r) \<le> 500
     \<and> (ba_plan r = None \<or> ba_digest r = None \<longrightarrow>
          0 < ba_errorCount r \<and> (\<exists>d\<in>set (ba_diagnostics r). pd_severity d = Level_error))"
  using import_outcome [of lib parts findings]
  by (auto simp: errors_counted [symmetric] max_diagnostics_def) (auto simp: hasFatal_def)

theorem import_explained_witness:
  "\<exists>r. analyzePlanBundle sample_library [] [] = Some r \<and> 0 < ba_errorCount r"
proof -
  have "\<not> bi_complete (take_bundle sample_library [] [])"
    using bundle_taken(5) [of sample_library "[]" "[]"]
    by (auto simp: required_plan_artifact_roles_def with_role_def)
  then show ?thesis
    using import_explained [of sample_library "[]" "[]"] analysis_cases(1) [of sample_library "[]" "[]"]
    by (auto simp: sum_up_sel)
qed

lemma role_formats:
  "role_format ''implementation-plan'' k \<longleftrightarrow> k = Class_markdown"
  "role_format ''work-breakdown'' k \<longleftrightarrow> k = Class_yaml"
  by (simp_all add: role_format_def required_role_source_classes_def)

lemma list_all2_each:
  assumes "list_all2 P xs ys"
  shows "\<forall>x\<in>set xs. \<exists>y. P x y" "\<forall>y\<in>set ys. \<exists>x. P x y"
  using assms by (induction rule: list_all2_induct) auto

text \<open>
  C29. An import has a digest only when what it accepted is exactly what was submitted, part for
  part, within every limit of the contract: no part truncated, empty or over 2 MiB, each in a role
  of the contract and declared as one of its media types or none, the implementation plan in
  Markdown and the work breakdown in YAML; at most 64 parts and 8 MiB, one implementation plan and
  one work breakdown, at most one of every other role than the supporting one, at most 60
  supporting, no two filenames equal up to case.
\<close>

theorem digest_covers_submission:
  assumes "analyzePlanBundle lib parts findings = Some r" "ba_digest r \<noteq> None"
  shows "findings = [] \<and> list_all2 (accepts lib) parts (ba_artifacts r)
    \<and> (\<forall>p\<in>set parts. \<not> up_truncated p \<and> up_bytes p \<noteq> [] \<and> length (up_bytes p) \<le> 2097152
          \<and> isPlanArtifactRole (up_fieldName p)
          \<and> declared_type (up_declaredMediaType p) \<in> set ([] # accepted_declared_media_types))
    \<and> (\<forall>a\<in>set (ba_artifacts r).
          (aa_role a = ''implementation-plan'' \<longrightarrow> aa_sourceClass a = Class_markdown)
          \<and> (aa_role a = ''work-breakdown'' \<longrightarrow> aa_sourceClass a = Class_yaml))
    \<and> length parts \<le> 64 \<and> sum_list (map (length \<circ> up_bytes) parts) \<le> 8388608
    \<and> length (with_role ''implementation-plan'' (ba_artifacts r)) = 1
    \<and> length (with_role ''work-breakdown'' (ba_artifacts r)) = 1
    \<and> (\<forall>role. length (with_role role (ba_artifacts r)) \<le> (if role = ''supporting'' then 60 else 1))
    \<and> distinct (map label (ba_artifacts r))"
proof -
  let ?s = "take_bundle lib parts findings"
  have c: "bi_complete ?s" and a: "ba_artifacts r = bi_accepted ?s"
    using assms analysis_cases(1) [of lib parts findings] by (auto simp: sum_up_sel split: if_splits)
  note t = bundle_taken(5) [OF c, unfolded bundle_limits]
  have "length parts = length (bi_accepted ?s)" using t by (blast dest: list_all2_lengthD)
  then have size: "length parts \<le> 64" "sum_list (map (length \<circ> up_bytes) parts) \<le> 8388608"
    using t bundle_taken(4) [of lib parts findings] by (linarith, simp)
  have "\<forall>r\<in>set required_plan_artifact_roles. length (with_role r (bi_accepted ?s)) = 1" using t by blast
  then have one: "length (with_role ''implementation-plan'' (bi_accepted ?s)) = 1"
    "length (with_role ''work-breakdown'' (bi_accepted ?s)) = 1" by (simp_all add: required_plan_artifact_roles_def)
  have "\<forall>r. length (with_role r (bi_accepted ?s)) \<le> (if r \<in> set repeatable_plan_artifact_roles then 60 else 1)"
    using t by blast
  then have most: "\<forall>role. length (with_role role (bi_accepted ?s)) \<le> (if role = ''supporting'' then 60 else 1)"
    by (simp add: repeatable_plan_artifact_roles_def)
  have each: "list_all2 (accepts lib) parts (bi_accepted ?s)" using t by blast
  have part: "accepts lib p x \<Longrightarrow> part_ok p \<and> role_format (aa_role x) (aa_sourceClass x)" for p x
    by (auto simp: accepts_def accepted_of_def split: sum.splits)
  have ok: "\<forall>p\<in>set parts. part_ok p"
    using list_all2_each(1) [OF each] part by blast
  have formats: "\<forall>a\<in>set (bi_accepted ?s). role_format (aa_role a) (aa_sourceClass a)"
    using list_all2_each(2) [OF each] part by blast
  have "\<forall>a\<in>set (bi_accepted ?s). (aa_role a = ''implementation-plan'' \<longrightarrow> aa_sourceClass a = Class_markdown)
      \<and> (aa_role a = ''work-breakdown'' \<longrightarrow> aa_sourceClass a = Class_yaml)"
    using formats role_formats by metis
  moreover have "\<forall>p\<in>set parts. \<not> up_truncated p \<and> up_bytes p \<noteq> [] \<and> length (up_bytes p) \<le> 2097152
      \<and> isPlanArtifactRole (up_fieldName p)
      \<and> declared_type (up_declaredMediaType p) \<in> set ([] # accepted_declared_media_types)"
    using ok by (simp add: part_ok_def max_bytes_per_artifact_def)
  ultimately show ?thesis
    using t size one most bundle_taken(3) [of lib parts findings] unfolding a by blast
qed

theorem digest_covers_submission_witness:
  "\<exists>r. analyzePlanBundle sample_library sample_parts [] = Some r \<and> ba_digest r \<noteq> None
     \<and> list_all2 (accepts sample_library) sample_parts (ba_artifacts r)"
proof -
  obtain r where a: "analyzePlanBundle sample_library sample_parts [] = Some r" "ba_digest r \<noteq> None"
    using sample_analysis by blast
  with digest_covers_submission [OF a] show ?thesis by auto
qed

text \<open>
  C12. The digest identifies the bundle: it hashes a stream of bytes that two complete bundles
  share exactly when they have the same artifacts (role, filename, media type, bytes), in
  whatever order they were uploaded.
\<close>

theorem digest_identity:
  assumes "analyzePlanBundle lib parts findings = Some r" "ba_digest r \<noteq> None"
    "analyzePlanBundle lib parts' findings' = Some r'" "ba_digest r' \<noteq> None"
  shows "ba_digest r = map_option (il_sha256 lib) (digest_stream (map digest_input (ba_artifacts r)))
    \<and> (digest_stream (map digest_input (ba_artifacts r)) = digest_stream (map digest_input (ba_artifacts r'))
         \<longleftrightarrow> mset (map digest_input (ba_artifacts r)) = mset (map digest_input (ba_artifacts r')))"
proof -
  have an: "ba_artifacts q = bi_accepted (take_bundle lib ps fs)
      \<and> ba_digest q = map_option (il_sha256 lib) (digest_stream (map digest_input (ba_artifacts q)))"
    if "analyzePlanBundle lib ps fs = Some q" "ba_digest q \<noteq> None" for ps fs q
    using that analysis_cases(1) [of lib ps fs] by (auto simp: sum_up_sel computeBundleDigest_def split: if_splits)
  let ?a = "map digest_input (ba_artifacts r)"
  let ?b = "map digest_input (ba_artifacts r')"
  from an [OF assms(1,2)] assms(2) obtain x where x: "digest_stream ?a = Some x" by auto
  have "distinct (map artifact_name ?a)"
    using distinct_names [OF bundle_taken(3) [of lib parts findings]] an [OF assms(1,2)] by simp
  then have "mset ?a = mset ?b \<Longrightarrow> digest_stream ?a = digest_stream ?b"
    using same_order [of ?a ?b] by (simp add: digest_stream_def)
  moreover have "digest_stream ?a = digest_stream ?b \<Longrightarrow> mset ?a = mset ?b"
    using stream_unique [of ?a x ?b] x by (metis mset_js_sort)
  ultimately show ?thesis using an [OF assms(1,2)] by blast
qed

theorem digest_identity_witness:
  "\<exists>r r'. analyzePlanBundle sample_library sample_parts [] = Some r
     \<and> analyzePlanBundle sample_library (rev sample_parts) [] = Some r' \<and> ba_digest r \<noteq> None
     \<and> digest_stream (map digest_input (ba_artifacts r)) = digest_stream (map digest_input (ba_artifacts r'))"
proof -
  obtain r where r: "analyzePlanBundle sample_library sample_parts [] = Some r" "ba_digest r \<noteq> None"
    "ba_artifacts r = bi_accepted sample_intake" using sample_analysis by blast
  obtain r' where r': "analyzePlanBundle sample_library (rev sample_parts) [] = Some r'" "ba_digest r' \<noteq> None"
    "ba_artifacts r' = rev (bi_accepted sample_intake)" using sample_reanalysis by blast
  have "mset (map digest_input (ba_artifacts r)) = mset (map digest_input (ba_artifacts r'))"
    by (simp add: r(3) r'(3))
  with digest_identity [OF r(1,2) r'(1,2)] r r' show ?thesis by blast
qed

text \<open>
  C30. A parsed document has at most 20000 nodes, nests at most 32 levels and uses no key that
  could reach a prototype.
\<close>

theorem parsed_document_bounded:
  assumes "parseYamlDocument yaml t name strict = Inr v"
  shows "json_nodes v \<le> 20000 \<and> within_depth 32 v \<and> safe_keys v"
proof -
  from parsed_normalized [OF assms] obtain raw where "normalizeJsonDocument raw name = Inr v" ..
  from normalized_bounds [OF this] show ?thesis by (simp add: max_nodes_def max_depth_def)
qed

theorem parsed_document_bounded_witness:
  "parseYamlDocument (il_yaml sample_library) [] ''w.yaml'' False = Inr sample_doc \<and> json_nodes sample_doc \<le> 20000"
  using parsed_document_bounded [OF sample_parsed] sample_parsed by simp

text \<open>
  C13. The iterative search reports a cycle exactly when the required dependencies have one, and
  every cycle it reports is a simple cycle of the graph.
\<close>

theorem cycles_exact:
  assumes "arrows succs \<subseteq> set sourceIds \<times> UNIV"
  shows "(detectCycles collate sourceIds succs ordinalOf = [] \<longleftrightarrow> acyclic (arrows succs))
    \<and> list_all (simple_cycle succs) (detectCycles collate sourceIds succs ordinalOf)"
proof -
  have known: "\<And>a b. (a, b) \<in> arrows succs \<Longrightarrow> a \<in> set sourceIds" using assms by blast
  show ?thesis using detected_cycles(1) [OF known] detected_cycles(2) [OF known] by (simp add: list_all_iff)
qed

theorem cycles_exact_witness:
  "acyclic (arrows [(''A'', [''B'', ''C'']), (''B'', [''C'']), (''C'', [])])"
proof -
  let ?succs = "[(''A'', [''B'', ''C'']), (''B'', [''C'']), (''C'', [])]"
  have known: "arrows ?succs \<subseteq> set [''A'', ''B'', ''C''] \<times> UNIV"
    by (auto simp: arrows_def outgoing_def split: if_splits)
  have "detectCycles (\<lambda>l r. 0) [''A'', ''B'', ''C''] ?succs (map_of [(''A'', 0), (''B'', 1), (''C'', 2)]) = []"
    by code_simp
  with cycles_exact [OF known, of "\<lambda>l r. 0" "map_of [(''A'', 0), (''B'', 1), (''C'', 2)]"] show ?thesis by blast
qed

end
