(* ===== verification/Plan_Package.thy ===== *)
theory Plan_Package
  imports Plan_Archive Plan_Properties
begin

text \<open>
  The plan package of an archive (\<open>packages/planning/src/plan-archive.ts\<close>): the documents an archive
  offers, the files of the directory an operator selects, checked against the package's manifests,
  and their import. The archive's library and the import's stand for the same functions.
\<close>

section \<open>Paths\<close>

definition basename :: "string \<Rightarrow> string" where
  "basename path = last (split_on (CHR ''/'') path)"

definition dirname :: "string \<Rightarrow> string" where
  "dirname path = rev (dropWhile (\<lambda>c. c \<noteq> CHR ''/'') (rev path))"

definition sourceType :: "string \<Rightarrow> string option" where
  "sourceType path = map_option snd (find (\<lambda>e. ends_with (fst e) (js_lower path)) accepted_extensions)"

definition active_path :: "string \<Rightarrow> bool" where
  "active_path path =
     (\<not> list_ex (\<lambda>part. part \<in> {''provenance'', ''archive'', ''source-snapshots'', ''__MACOSX''})
        (split_on (CHR ''/'') path))"

section \<open>What an archive offers\<close>

record archive_offer =
  of_archiveDigest :: string
  of_entries :: "(string \<times> nat \<times> string) list" \<comment> \<open>path, length, hash\<close>
  of_implementationPlans :: "string list"
  of_workBreakdowns :: "string list"

definition offer_of :: "archive_library \<Rightarrow> bytes \<Rightarrow> archive_entry list \<Rightarrow> archive_offer" where
  "offer_of lib d es =
     (let offered = \<lambda>names. map ae_path (filter (\<lambda>e. active_path (ae_path e)
            \<and> list_ex (\<lambda>n. ends_with n (js_lower (ae_path e))) names) es)
      in \<lparr>of_archiveDigest = al_sha256 lib d,
          of_entries = map (\<lambda>e. (ae_path e, length (ae_bytes e), ae_sha256 e)) es,
          of_implementationPlans = offered [''implementation-plan.md''],
          of_workBreakdowns = offered [''work-breakdown.yaml'', ''work-breakdown.yml'']\<rparr>)"

definition inspectPlanArchive :: "archive_library \<Rightarrow> bytes \<Rightarrow> archive_offer attempt" where
  "inspectPlanArchive lib d = and_do (readArchive lib d) (\<lambda>es. Inr (offer_of lib d es))"

section \<open>The selected package\<close>

record archive_selection =
  sl_implementationPlan :: string
  sl_workBreakdown :: string

definition selection_fail :: "string \<Rightarrow> 'a attempt" where
  "selection_fail message = Inl (Archive_error ''invalid-plan-selection'' message)"

text \<open>A manifest's line: the hash, a space, a space or a star, and the path as it stands.\<close>

definition manifest_line :: "string \<Rightarrow> (string \<times> string) option" where
  "manifest_line raw =
     (let line = trim_end raw; path = drop 66 line in
      if 66 < length line \<and> list_all hex_digit (take 64 line) \<and> line ! 64 = CHR '' ''
        \<and> (line ! 65 = CHR '' '' \<or> line ! 65 = CHR ''*'') \<and> CHR 0x0D \<notin> set path
      then Some (take 64 line, path) else None)"

definition manifest_lines :: "string \<Rightarrow> (string \<times> string) list" where
  "manifest_lines t = List.map_filter manifest_line (split_on (CHR 0x0A) t)"

definition is_manifest :: "archive_entry \<Rightarrow> bool" where
  "is_manifest e = (basename (ae_path e) = ''SHA256SUMS'' \<or> ends_with ''.sha256'' (ae_path e))"

definition manifest_target :: "archive_entry list \<Rightarrow> string \<Rightarrow> string \<Rightarrow> archive_entry option" where
  "manifest_target es root path = find (\<lambda>e. ae_path e = root @ path \<or> ae_path e = path) es"

fun check_lines :: "archive_entry list \<Rightarrow> string \<Rightarrow> (string \<times> string) list \<Rightarrow> unit attempt" where
  "check_lines es root [] = Inr ()"
| "check_lines es root ((sha256, path) # rest) =
     (if map_option ae_sha256 (manifest_target es root path) \<noteq> Some sha256
      then Inl (Archive_error ''checksum-mismatch'' (''Archive checksum mismatch: '' @ path))
      else check_lines es root rest)"

text \<open>Only a manifest that names the selected plan is of the package.\<close>

fun check_manifests ::
    "archive_library \<Rightarrow> archive_entry list \<Rightarrow> string \<Rightarrow> archive_entry \<Rightarrow> archive_entry list \<Rightarrow> unit attempt" where
  "check_manifests lib es root plan [] = Inr ()"
| "check_manifests lib es root plan (m # ms) =
     and_do (decodeUtf8 lib (ae_bytes m)) (\<lambda>t.
       let lines = manifest_lines t in
       if basename (ae_path plan) \<notin> snd ` set lines \<and> ae_path plan \<notin> snd ` set lines
       then check_manifests lib es root plan ms
       else and_do (check_lines es root lines) (\<lambda>_. check_manifests lib es root plan ms))"

fun check_texts :: "archive_library \<Rightarrow> archive_entry list \<Rightarrow> unit attempt" where
  "check_texts lib [] = Inr ()"
| "check_texts lib (e # es) = and_do (decodeUtf8 lib (ae_bytes e)) (\<lambda>_. check_texts lib es)"

definition upload_of :: "archive_entry \<Rightarrow> archive_entry \<Rightarrow> archive_entry \<Rightarrow> plan_upload" where
  "upload_of plan breakdown e =
     \<lparr>up_fieldName = (if e = plan then ''implementation-plan''
                      else if e = breakdown then ''work-breakdown'' else ''supporting''),
      up_filename = basename (ae_path e), up_declaredMediaType = over (sourceType (ae_path e)) [],
      up_bytes = ae_bytes e, up_truncated = False\<rparr>"

definition selected_files :: "archive_entry list \<Rightarrow> string \<Rightarrow> archive_entry list" where
  "selected_files es root =
     filter (\<lambda>e. dirname (ae_path e) = root \<and> truthy (sourceType (ae_path e))
       \<and> \<not> ends_with ''.sha256'' (ae_path e)) es"

record prepared_package =
  pk_bundle :: "plan_upload list"
  pk_entries :: "archive_entry list"
  pk_selectedPaths :: "string list"

definition take_package ::
    "archive_library \<Rightarrow> archive_entry list \<Rightarrow> archive_entry \<Rightarrow> archive_entry \<Rightarrow> prepared_package attempt" where
  "take_package lib es plan breakdown =
     (let root = dirname (ae_path plan); selected = selected_files es root in
      if plan \<notin> set selected \<or> breakdown \<notin> set selected
      then selection_fail ''Plan files must use supported text formats.''
      else and_do (check_manifests lib es root plan
             (filter (\<lambda>e. dirname (ae_path e) = root \<and> is_manifest e) es)) (\<lambda>_.
           and_do (check_texts lib selected) (\<lambda>_.
           Inr \<lparr>pk_bundle = map (upload_of plan breakdown) selected, pk_entries = es,
             pk_selectedPaths = map ae_path selected\<rparr>)))"

definition select_package ::
    "archive_library \<Rightarrow> archive_selection \<Rightarrow> archive_entry list \<Rightarrow> prepared_package attempt" where
  "select_package lib sel es =
     (case (find (\<lambda>e. ae_path e = sl_implementationPlan sel) es, find (\<lambda>e. ae_path e = sl_workBreakdown sel) es) of
        (Some plan, Some breakdown) \<Rightarrow>
          if \<not> active_path (ae_path plan) \<or> \<not> active_path (ae_path breakdown)
            \<or> dirname (ae_path plan) \<noteq> dirname (ae_path breakdown)
          then selection_fail ''Choose current plan and work-breakdown files in the same archive directory.''
          else take_package lib es plan breakdown
      | _ \<Rightarrow> selection_fail ''Choose current plan and work-breakdown files in the same archive directory.'')"

definition preparePlanArchive ::
    "archive_library \<Rightarrow> bytes \<Rightarrow> archive_selection \<Rightarrow> prepared_package attempt" where
  "preparePlanArchive lib d sel = and_do (readArchive lib d) (select_package lib sel)"

record package_preview =
  pv_offer :: archive_offer
  pv_selectedPaths :: "string list"
  pv_diagnostics :: "plan_diagnostic list"
  pv_itemCount :: nat
  pv_valid :: bool

text \<open>An import that throws, throws Node's \<open>RangeError\<close>: a length its digest cannot encode.\<close>

definition previewSelectedPlanArchive ::
    "archive_library \<Rightarrow> import_library \<Rightarrow> bytes \<Rightarrow> archive_selection \<Rightarrow> package_preview attempt" where
  "previewSelectedPlanArchive lib il d sel =
     and_do (preparePlanArchive lib d sel) (\<lambda>prepared.
       case analyzePlanBundle il (pk_bundle prepared) [] of
         None \<Rightarrow> Inl Out_of_range
       | Some analysis \<Rightarrow>
           and_do (inspectPlanArchive lib d) (\<lambda>offer.
           Inr \<lparr>pv_offer = offer, pv_selectedPaths = pk_selectedPaths prepared,
             pv_diagnostics = ba_diagnostics analysis,
             pv_itemCount = (case ba_plan analysis of None \<Rightarrow> 0 | Some p \<Rightarrow> length (np_workItems p)),
             pv_valid = (\<not> ba_fatal analysis)\<rparr>))"

section \<open>The manifests of a package\<close>

definition lines_match :: "archive_entry list \<Rightarrow> string \<Rightarrow> (string \<times> string) list \<Rightarrow> bool" where
  "lines_match es root lines =
     (\<forall>(sha256, path)\<in>set lines. \<exists>e\<in>set es. (ae_path e = root @ path \<or> ae_path e = path) \<and> ae_sha256 e = sha256)"

text \<open>Every manifest beside the plan that names it describes the archive's files.\<close>

definition manifests_match :: "archive_library \<Rightarrow> archive_entry list \<Rightarrow> archive_entry \<Rightarrow> archive_entry list \<Rightarrow> bool" where
  "manifests_match lib es plan ms =
     (\<forall>m\<in>set ms. \<exists>t. al_utf8 lib (ae_bytes m) = Some t
        \<and> (basename (ae_path plan) \<in> snd ` set (manifest_lines t) \<or> ae_path plan \<in> snd ` set (manifest_lines t)
             \<longrightarrow> lines_match es (dirname (ae_path plan)) (manifest_lines t)))"

lemma target_found:
  assumes "manifest_target es root path = Some e"
  shows "e \<in> set es \<and> (ae_path e = root @ path \<or> ae_path e = path)"
  using find_Some_in [OF assms [unfolded manifest_target_def]] by simp

lemma leaves_lines: "leaves (check_lines es root lines) (\<lambda>_. lines_match es root lines)"
proof (induction lines)
  case (Cons line lines)
  obtain sha256 path where line: "line = (sha256, path)" by (cases line)
  show ?case
  proof (cases "map_option ae_sha256 (manifest_target es root path) = Some sha256")
    case True
    then obtain e where "manifest_target es root path = Some e" "ae_sha256 e = sha256" by auto
    with target_found [OF this(1)] have "lines_match es root rest \<longleftrightarrow> lines_match es root (line # rest)" for rest
      by (auto simp: lines_match_def line)
    with Cons True show ?thesis by (simp add: line)
  qed (simp add: line)
qed (simp add: lines_match_def)

lemma leaves_manifests:
  "leaves (check_manifests lib es (dirname (ae_path plan)) plan ms) (\<lambda>_. manifests_match lib es plan ms)"
proof (induction ms)
  case (Cons m ms)
  let ?root = "dirname (ae_path plan)" and ?ok = "\<lambda>ms. manifests_match lib es plan ms"
  have skip: "?ok (m # ms)" if "?ok ms" "al_utf8 lib (ae_bytes m) = Some t"
      "lines_match es ?root (manifest_lines t) \<or> basename (ae_path plan) \<notin> snd ` set (manifest_lines t)
        \<and> ae_path plan \<notin> snd ` set (manifest_lines t)" for t
    using that by (auto simp: manifests_match_def)
  show ?case
    by (auto simp: Let_def intro!: leaves_weaken [OF Cons.IH] leaves_weaken [OF leaves_lines] skip)
qed (simp add: manifests_match_def)

lemma leaves_texts: "leaves (check_texts lib es) (\<lambda>_. \<forall>e\<in>set es. al_utf8 lib (ae_bytes e) \<noteq> None)"
  by (induction es) (auto elim!: leaves_weaken)

section \<open>A prepared package\<close>

text \<open>The package is the selected files of the plan's directory, checked.\<close>

definition package_of ::
    "archive_library \<Rightarrow> archive_entry list \<Rightarrow> archive_entry \<Rightarrow> archive_entry \<Rightarrow> prepared_package \<Rightarrow> bool" where
  "package_of lib es plan breakdown pk =
     (let root = dirname (ae_path plan); selected = selected_files es root in
      plan \<in> set selected \<and> breakdown \<in> set selected
      \<and> pk = \<lparr>pk_bundle = map (upload_of plan breakdown) selected, pk_entries = es,
          pk_selectedPaths = map ae_path selected\<rparr>
      \<and> manifests_match lib es plan (filter (\<lambda>e. dirname (ae_path e) = root \<and> is_manifest e) es)
      \<and> (\<forall>e\<in>set selected. al_utf8 lib (ae_bytes e) \<noteq> None))"

definition package_ok :: "archive_library \<Rightarrow> archive_selection \<Rightarrow> prepared_package \<Rightarrow> bool" where
  "package_ok lib sel pk =
     (\<exists>plan breakdown. ae_path plan = sl_implementationPlan sel \<and> ae_path breakdown = sl_workBreakdown sel
        \<and> dirname (ae_path plan) = dirname (ae_path breakdown)
        \<and> package_of lib (pk_entries pk) plan breakdown pk)"

lemma leaves_package: "leaves (take_package lib es plan breakdown) (package_of lib es plan breakdown)"
proof -
  let ?root = "dirname (ae_path plan)"
  have "leaves (check_manifests lib es ?root plan (filter (\<lambda>e. dirname (ae_path e) = ?root \<and> is_manifest e) es))
      (\<lambda>_. leaves (check_texts lib (selected_files es ?root)) (\<lambda>_. package_of lib es plan breakdown
        \<lparr>pk_bundle = map (upload_of plan breakdown) (selected_files es ?root), pk_entries = es,
          pk_selectedPaths = map ae_path (selected_files es ?root)\<rparr>))"
    if "plan \<in> set (selected_files es ?root)" "breakdown \<in> set (selected_files es ?root)"
    by (rule leaves_weaken [OF leaves_manifests], rule leaves_weaken [OF leaves_texts])
       (simp add: package_of_def Let_def that)
  then show ?thesis by (simp add: take_package_def Let_def selection_fail_def)
qed

lemma leaves_selected: "leaves (select_package lib sel es) (\<lambda>pk. pk_entries pk = es \<and> package_ok lib sel pk)"
proof -
  have "leaves (take_package lib es plan breakdown) (\<lambda>pk. pk_entries pk = es \<and> package_ok lib sel pk)"
    if "find (\<lambda>e. ae_path e = sl_implementationPlan sel) es = Some plan"
      "find (\<lambda>e. ae_path e = sl_workBreakdown sel) es = Some breakdown"
      "dirname (ae_path plan) = dirname (ae_path breakdown)" for plan breakdown
  proof (rule leaves_weaken [OF leaves_package])
    fix pk assume pk: "package_of lib es plan breakdown pk"
    then have "pk_entries pk = es" by (simp add: package_of_def Let_def)
    with pk that find_Some_in [OF that(1)] find_Some_in [OF that(2)]
    show "pk_entries pk = es \<and> package_ok lib sel pk" unfolding package_ok_def by blast
  qed
  then show ?thesis by (auto simp: select_package_def selection_fail_def split: option.split)
qed

lemma leaves_prepared:
  "leaves (preparePlanArchive lib d sel) (\<lambda>pk. archive_ok lib d (pk_entries pk) \<and> package_ok lib sel pk)"
  unfolding preparePlanArchive_def leaves_simps(4)
  by (rule leaves_weaken [OF leaves_archive], rule leaves_weaken [OF leaves_selected]) simp

section \<open>Properties\<close>

lemma leaves_inspect: "leaves (inspectPlanArchive lib d) (\<lambda>_. True)"
  unfolding inspectPlanArchive_def leaves_simps(4)
  by (rule leaves_weaken [OF leaves_archive]) simp

lemma leaves_preview:
  "leaves (previewSelectedPlanArchive lib il d sel) (\<lambda>v. \<exists>pk r. preparePlanArchive lib d sel = Inr pk
     \<and> archive_ok lib d (pk_entries pk) \<and> package_ok lib sel pk
     \<and> analyzePlanBundle il (pk_bundle pk) [] = Some r \<and> pv_selectedPaths v = pk_selectedPaths pk
     \<and> pv_diagnostics v = ba_diagnostics r \<and> pv_valid v = (\<not> ba_fatal r)
     \<and> pv_itemCount v = (case ba_plan r of None \<Rightarrow> 0 | Some p \<Rightarrow> length (np_workItems p)))"
proof (cases "preparePlanArchive lib d sel")
  case (Inl e)
  then show ?thesis using leaves_prepared [of lib d sel] by (auto simp: previewSelectedPlanArchive_def leaves_def and_do_def)
next
  case (Inr pk)
  then have pk: "archive_ok lib d (pk_entries pk)" "package_ok lib sel pk"
    using leaves_prepared [of lib d sel] by (auto simp: leaves_def)
  obtain r where r: "analyzePlanBundle il (pk_bundle pk) [] = Some r" using import_outcome by blast
  show ?thesis
    unfolding previewSelectedPlanArchive_def leaves_simps(4) Inr leaves_simps(1) r option.case
    by (rule leaves_weaken [OF leaves_inspect]) (use pk r in auto)
qed

text \<open>
  C19. A valid preview is of the selected plan and work breakdown, files of one directory of a sound
  archive whose manifests match its files, and counts the items of the plan their import yields,
  whose dependencies are acyclic.
\<close>

theorem preview_sound:
  assumes "previewSelectedPlanArchive lib il d sel = Inr v" "pv_valid v"
  shows "\<exists>pk r p. preparePlanArchive lib d sel = Inr pk \<and> archive_ok lib d (pk_entries pk) \<and> package_ok lib sel pk
    \<and> analyzePlanBundle il (pk_bundle pk) [] = Some r \<and> ba_plan r = Some p
    \<and> pv_itemCount v = length (np_workItems p) \<and> 0 < pv_itemCount v \<and> acyclic (declared_dependencies p)"
proof -
  from leaves_preview [of lib il d sel] assms obtain pk r where
    pk: "preparePlanArchive lib d sel = Inr pk" "archive_ok lib d (pk_entries pk)" "package_ok lib sel pk"
    and r: "analyzePlanBundle il (pk_bundle pk) [] = Some r" "\<not> ba_fatal r"
      "pv_itemCount v = (case ba_plan r of None \<Rightarrow> 0 | Some p \<Rightarrow> length (np_workItems p))"
    by (auto simp: leaves_def)
  from r(1, 2) import_outcome [of il "pk_bundle pk" "[]"] obtain p where p: "ba_plan r = Some p" by auto
  with imported_plan [OF r(1) p] pk r show ?thesis by auto
qed

section \<open>A concrete package\<close>

text \<open>Two stored files, \<open>p.md\<close> and \<open>w.yaml\<close>, each of the one byte 1.\<close>

definition package_locals :: bytes where
  "package_locals = [0x50, 0x4B, 3, 4, 20, 0, 0, 0, 0, 0, 0, 0, 0, 0, 0x1B, 0xDF, 5, 0xA5, 1, 0, 0, 0, 1, 0, 0, 0,
     4, 0, 0, 0, 0x70, 0x2E, 0x6D, 0x64, 1,
     0x50, 0x4B, 3, 4, 20, 0, 0, 0, 0, 0, 0, 0, 0, 0, 0x1B, 0xDF, 5, 0xA5, 1, 0, 0, 0, 1, 0, 0, 0,
     6, 0, 0, 0, 0x77, 0x2E, 0x79, 0x61, 0x6D, 0x6C, 1]"

definition package_centrals :: bytes where
  "package_centrals = [0x50, 0x4B, 1, 2, 20, 0, 20, 0, 0, 0, 0, 0, 0, 0, 0, 0, 0x1B, 0xDF, 5, 0xA5, 1, 0, 0, 0,
     1, 0, 0, 0, 4, 0, 0, 0, 0, 0, 0, 0, 0, 0, 0, 0, 0xA4, 0x81, 0, 0, 0, 0, 0x70, 0x2E, 0x6D, 0x64,
     0x50, 0x4B, 1, 2, 20, 0, 20, 0, 0, 0, 0, 0, 0, 0, 0, 0, 0x1B, 0xDF, 5, 0xA5, 1, 0, 0, 0,
     1, 0, 0, 0, 6, 0, 0, 0, 0, 0, 0, 0, 0, 0, 0, 0, 0xA4, 0x81, 35, 0, 0, 0, 0x77, 0x2E, 0x79, 0x61, 0x6D, 0x6C]"

definition package_zip :: bytes where
  "package_zip = package_locals @ package_centrals
     @ [0x50, 0x4B, 5, 6, 0, 0, 0, 0, 2, 0, 2, 0, 102, 0, 0, 0, 72, 0, 0, 0, 0, 0]"

lemmas package_zip_defs = package_zip_def package_locals_def package_centrals_def

lemma package_length [simp]: "length package_zip = 196"
  by (simp add: package_zip_defs)

definition package_record :: "nat \<Rightarrow> nat \<Rightarrow> central_record" where
  "package_record nameSize offset = \<lparr>zc_flags = 0, zc_method = 0, zc_crc = 0xA505DF1B, zc_compressed = 1, zc_size = 1,
     zc_nameSize = nameSize, zc_extraSize = 0, zc_commentSize = 0, zc_mode = 0x81A4, zc_offset = offset\<rparr>"

lemma package_end: "end_record package_zip = Inr (Some 174)"
proof -
  have "ends_at package_zip 174 = Inr True" by (simp add: ends_at_def zip_reads package_zip_defs)
  then have "find_end package_zip 0 (Suc 174) = Inr (Some 174)" by (simp only: find_end.simps) (simp add: and_do_def)
  then show ?thesis by (simp add: end_record_def)
qed

lemma package_centrals_read:
  "read_central package_zip 72 = Inr (package_record 4 0)" "read_central package_zip 122 = Inr (package_record 6 35)"
  by (simp_all add: read_central_def zip_reads package_zip_defs package_record_def has_bits_def)

lemma package_chars:
  "map (\<lambda>b. char_of (unat (b :: 8 word))) [0x70, 0x2E, 0x6D, 0x64] = ''p.md''"
  "map (\<lambda>b. char_of (unat (b :: 8 word))) [0x77, 0x2E, 0x79, 0x61, 0x6D, 0x6C] = ''w.yaml''"
  by code_simp+

lemma package_safe: "safeArchivePath ''p.md''" "safeArchivePath ''w.yaml''"
  by (simp_all add: safeArchivePath_def max_path_length_def control_character_def starts_with_def safe_part_def
      js_trim_def is_space_def)

lemma package_names_read:
  "read_name plain_library package_zip 72 (package_record 4 0) = Inr ([0x70, 0x2E, 0x6D, 0x64], ''p.md'', False)"
  "read_name plain_library package_zip 122 (package_record 6 35)
     = Inr ([0x77, 0x2E, 0x79, 0x61, 0x6D, 0x6C], ''w.yaml'', False)"
proof -
  have raw: "subarray package_zip (72 + 46) 4 = [0x70, 0x2E, 0x6D, 0x64]"
    "subarray package_zip (122 + 46) 6 = [0x77, 0x2E, 0x79, 0x61, 0x6D, 0x6C]"
    by (simp_all add: subarray_def package_zip_defs)
  have "decodeUtf8 plain_library [0x70, 0x2E, 0x6D, 0x64] = Inr ''p.md''"
    "decodeUtf8 plain_library [0x77, 0x2E, 0x79, 0x61, 0x6D, 0x6C] = Inr ''w.yaml''"
    unfolding decodeUtf8_def plain_library_def archive_library.select_convs package_chars by simp_all
  with raw show
    "read_name plain_library package_zip 72 (package_record 4 0) = Inr ([0x70, 0x2E, 0x6D, 0x64], ''p.md'', False)"
    "read_name plain_library package_zip 122 (package_record 6 35)
       = Inr ([0x77, 0x2E, 0x79, 0x61, 0x6D, 0x6C], ''w.yaml'', False)"
    by (simp_all add: read_name_def package_record_def and_do_def require_def package_safe plain_library_def Let_def)
qed

lemma package_locals_read:
  "read_local package_zip 72 (package_record 4 0) [0x70, 0x2E, 0x6D, 0x64] = Inr (34, 35)"
  "read_local package_zip 72 (package_record 6 35) [0x77, 0x2E, 0x79, 0x61, 0x6D, 0x6C] = Inr (71, 72)"
  by (simp_all add: read_local_def data_descriptor_def local_sizes_agree_def zip_reads package_zip_defs
      package_record_def has_bits_def subarray_def)

lemma crc_of_one: "crc32 [1] = 0xA505DF1B"
  by (simp add: crc32_def crc_byte_steps crc_step_numeral eight_steps)

lemma package_contents:
  "read_content plain_library package_zip (package_record 4 0) path False 34 = Inr [1]"
  "read_content plain_library package_zip (package_record 6 35) path False 71 = Inr [1]"
  by (simp_all add: read_content_def unpack_def package_record_def subarray_def package_zip_defs crc_of_one
      and_do_def require_def)

definition package_entry :: "string \<Rightarrow> archive_entry" where
  "package_entry path = \<lparr>ae_path = path, ae_bytes = [1], ae_sha256 = ''hash''\<rparr>"

lemma package_lower: "js_lower ''p.md'' = ''p.md''" "js_lower ''w.yaml'' = ''w.yaml''" by code_simp+

lemma package_read: "readArchive plain_library package_zip = Inr [package_entry ''p.md'', package_entry ''w.yaml'']"
proof -
  let ?first = "\<lparr>as_entries = [package_entry ''p.md''], as_names = [''p.md''], as_ranges = [(0, 35)],
     as_expanded = 1, as_cursor = 122\<rparr>"
  let ?both = "\<lparr>as_entries = [package_entry ''p.md'', package_entry ''w.yaml''], as_names = [''w.yaml'', ''p.md''],
     as_ranges = [(0, 35), (35, 72)], as_expanded = 2, as_cursor = 174\<rparr>"
  have sha: "al_sha256 plain_library b = ''hash''" for b by (simp add: plain_library_def)
  note entry = read_entry_def and_do_def require_def start_state_def file_type_ok_def within_limits_def
    archive_limits package_centrals_read package_names_read package_locals_read package_contents
    package_lower overlaps_def sha package_entry_def
  have "read_entry plain_library package_zip 72 (start_state 72) = Inr ?first"
    by (simp add: entry) (simp add: package_record_def)
  moreover have "read_entry plain_library package_zip 72 ?first = Inr ?both"
    by (simp add: entry) (simp add: package_record_def)
  ultimately have entries: "read_entries plain_library package_zip 72 (Suc (Suc 0)) (start_state 72) = Inr ?both"
    by (simp add: and_do_def)
  have two: "(2 :: nat) = Suc (Suc 0)" by simp
  have "u16 package_zip 178 = 0" "u16 package_zip 180 = 0" "u16 package_zip 182 = Suc (Suc 0)"
    "u16 package_zip 184 = Suc (Suc 0)" "u32 package_zip 186 = 102" "u32 package_zip 190 = 72"
    by (simp_all add: u32_def u16_def package_zip_defs)
  with entries show ?thesis
    by (simp add: readArchive_def package_end and_do_def require_def need_def readUInt16LE_def readUInt32LE_def
        archive_limits file_as_directory_def directories_of_def package_lower package_entry_def del: read_entries.simps)
qed

definition package_selection :: archive_selection where
  "package_selection = \<lparr>sl_implementationPlan = ''p.md'', sl_workBreakdown = ''w.yaml''\<rparr>"

definition package_part :: "string \<Rightarrow> string \<Rightarrow> string \<Rightarrow> plan_upload" where
  "package_part role name media = (sample_part role name)\<lparr>up_declaredMediaType := media\<rparr>"

definition package_parts :: "plan_upload list" where
  "package_parts = [package_part ''implementation-plan'' ''p.md'' ''text/markdown'',
     package_part ''work-breakdown'' ''w.yaml'' ''application/yaml'']"

lemma package_paths:
  "basename ''p.md'' = ''p.md''" "basename ''w.yaml'' = ''w.yaml''" "dirname ''p.md'' = []" "dirname ''w.yaml'' = []"
  "sourceType ''p.md'' = Some ''text/markdown''" "sourceType ''w.yaml'' = Some ''application/yaml''"
  "active_path ''p.md''" "active_path ''w.yaml''" "\<not> ends_with ''.sha256'' ''p.md''" "\<not> ends_with ''.sha256'' ''w.yaml''"
  by code_simp+

lemma plain_utf8: "al_utf8 plain_library b = Some (map (\<lambda>b. char_of (unat b)) b)"
  by (simp add: plain_library_def)

lemma package_prepared:
  "preparePlanArchive plain_library package_zip package_selection = Inr
     \<lparr>pk_bundle = package_parts, pk_entries = [package_entry ''p.md'', package_entry ''w.yaml''],
      pk_selectedPaths = [''p.md'', ''w.yaml'']\<rparr>"
  by (simp add: preparePlanArchive_def package_read select_package_def take_package_def selected_files_def
      package_selection_def package_paths package_entry_def is_manifest_def and_do_def decodeUtf8_def plain_utf8
      upload_of_def package_parts_def package_part_def sample_part_def Let_def)

lemma package_declared:
  "declared_type ''text/markdown'' = ''text/markdown''" "declared_type ''application/yaml'' = ''application/yaml''"
  by code_simp+

lemma package_taken: "take_bundle sample_library package_parts [] = sample_intake"
  by (simp add: sample_taken) (simp add: intake_defs package_parts_def package_part_def package_declared
      accepted_declared_media_types_def)

lemma package_analysis:
  "\<exists>r p. analyzePlanBundle sample_library package_parts [] = Some r \<and> \<not> ba_fatal r
     \<and> ba_plan r = Some p \<and> np_workItems p = sample_items"
proof -
  have "analyzePlanBundle sample_library package_parts [] = analyzePlanBundle sample_library sample_parts []"
    using package_taken by (simp add: analyzePlanBundle_def sample_intake_def)
  with sample_analysis analysis_cases(1) [of sample_library sample_parts "[]"] show ?thesis
    by (auto simp: sum_up_sel split: if_splits)
qed

theorem preview_sound_witness:
  "\<exists>v. previewSelectedPlanArchive plain_library sample_library package_zip package_selection = Inr v
     \<and> pv_valid v \<and> 0 < pv_itemCount v \<and> pv_selectedPaths v = [''p.md'', ''w.yaml'']"
proof -
  obtain r p where r: "analyzePlanBundle sample_library package_parts [] = Some r" "\<not> ba_fatal r"
    using package_analysis by blast
  then obtain v where v: "previewSelectedPlanArchive plain_library sample_library package_zip package_selection = Inr v"
    "pv_valid v" "pv_selectedPaths v = [''p.md'', ''w.yaml'']"
    by (simp add: previewSelectedPlanArchive_def package_prepared and_do_def inspectPlanArchive_def package_read)
  with preview_sound [OF v(1, 2)] show ?thesis by blast
qed

end
