(* ===== verification/Cycle.thy ===== *)
theory Cycle
  imports Reports
begin

text \<open>
  The work cycle's record (\<open>packages/domain/src/work-cycle.ts\<close>, \<open>workflow.ts\<close>), the
  plan finalization it may run (\<open>finalization.ts\<close>, \<open>finalization-stages.ts\<close>), and
  the pure reads of it: the remediation allowance, the completion policy's verdict on a
  review, a staged finalization's parked follow-ups, and whether an investigation holds
  the stop (\<open>apps/server/src/services/investigation.ts\<close>).
\<close>

section \<open>The parts of a cycle\<close>

record completion_policy =
  maxNits :: nat
  maxRemediationRounds :: nat
  maxRunMinutes :: nat

definition default_completion_policy :: completion_policy where
  "default_completion_policy = \<lparr>maxNits = 3, maxRemediationRounds = 3, maxRunMinutes = 120\<rparr>"

datatype resolution_status =
    Res_detected | Res_preparing | Res_resolving | Res_committing | Res_completed | Res_abandoned

record integration_resolution =
  ir_runIds :: "string list option"
  ir_id :: string
  ir_status :: resolution_status
  ir_headSha :: string
  ir_targetSha :: string
  ir_targetBranch :: string
  ir_paths :: "string list"
  ir_diagnostics :: string
  ir_createdAt :: time
  ir_attempts :: nat
  ir_profile :: "agent_profile option"
  ir_instructions :: "string option"
  ir_treeSha :: "string option"
  ir_commitSha :: "string option"

record design_recovery_source =
  drs_planVersionId :: string
  drs_artifactId :: "string option"
  drs_archiveId :: "string option"
  drs_archiveDigest :: "string option"
  drs_name :: string
  drs_digest :: string

datatype recovery_mode = Mode_investigate | Mode_continue

record design_recovery =
  dr_runId :: string
  dr_sourceRunId :: string
  dr_mode :: recovery_mode
  dr_automatic :: bool
  dr_profile :: agent_selection
  dr_instructions :: string
  dr_snapshotDigest :: string
  dr_facts :: string
  dr_sources :: "design_recovery_source list"
  dr_attachments :: "(string \<times> string) list"

datatype investigation_finding_status = Finding_proposed | Finding_open

record investigation_finding =
  if_question :: string
  if_status :: investigation_finding_status
  if_answer :: string
  if_sources :: "string list"
  if_reason :: "string option"

record investigation_worktree =
  iw_headSha :: string
  iw_branch :: string
  iw_fingerprint :: string
  iw_trackedClean :: bool
  iw_untrackedDigest :: string
  iw_ignoredDigest :: string
  iw_gitDigest :: string
  iw_metadataOnly :: "nat option"

datatype worktree_part =
    Part_head | Part_branch | Part_tracked | Part_untracked | Part_ignored | Part_git
  | Part_unreadable

record worktree_change =
  wch_parts :: "worktree_part list"
  wch_headBefore :: string
  wch_headAfter :: "string option"
  wch_paths :: "string list"

datatype investigation_outcome = Inv_finished | Inv_failed | Inv_cancelled | Inv_interrupted

record investigation_result =
  ires_endedAt :: time
  ires_outcome :: investigation_outcome
  ires_worktreeChanged :: bool \<comment> \<open>\<open>code === 'worktree-changed'\<close>, the only code\<close>
  ires_worktreeChange :: "worktree_change option"
  ires_acknowledgedAt :: "time option"
  ires_acknowledgedByUserId :: "string option"
  ires_restoredAt :: "time option"
  ires_message :: "string option"
  ires_findings :: "investigation_finding list option"

record cycle_investigation =
  inv_id :: string
  inv_runId :: string
  inv_sourceRunId :: string
  inv_code :: attention_code
  inv_questionsDigest :: string
  inv_profile :: agent_selection
  inv_instructions :: string
  inv_minutes :: nat
  inv_deadlineAt :: time
  inv_startedAt :: time
  inv_startedByUserId :: string
  inv_worktree :: "investigation_worktree option"
  inv_endRequestedAt :: "time option"
  inv_endRequestedByUserId :: "string option"
  inv_result :: "investigation_result option"

datatype baseline_status = Base_preparing | Base_prepared | Base_failed

record baseline_source =
  bs_alias :: string
  bs_repositoryId :: string
  bs_directoryName :: string
  bs_commitSha :: string
  bs_tag :: "string option"

record baseline_preparation =
  bp_id :: string
  bp_contextDigest :: string
  bp_createdAt :: time
  bp_createdByUserId :: string
  bp_status :: baseline_status
  bp_directory :: string
  bp_sources :: "baseline_source list"
  bp_consumerAlias :: string
  bp_message :: string

record cycle_owner =
  ow_roadmapId :: string
  ow_attemptId :: string
  ow_entryId :: string
  ow_definitionRevision :: nat

record scope_repair =
  srp_sourceCycleId :: string
  srp_sources :: "(string \<times> nat \<times> string) list"

datatype active_review_kind = AR_reassessment | AR_security | AR_checkpoint

record active_review =
  ar_kind :: active_review_kind
  ar_checkpointId :: "string option"
  ar_sourceRunId :: string
  ar_requirements :: "string list"
  ar_caseIds :: "string list"
  ar_roles :: "string list"
  ar_contextDigest :: string

record security_receipt =
  sr_runId :: string
  sr_headSha :: string
  sr_targetSha :: string

record cycle_workflow =
  wf_reassessments :: nat
  wf_questions :: "workflow_question list"
  wf_securityRequired :: "bool option"
  wf_activeReview :: "active_review option option"
  wf_securityReceipt :: "security_receipt option"
  wf_waiting :: "string option option"

section \<open>Finalization\<close>

record finalization_stage =
  fs_id :: string
  fs_kind :: stage_kind
  fs_name :: string
  fs_workItemSourceIds :: "string list"
  fs_instructions :: string
  fs_review :: agent_profile
  fs_implement :: agent_profile
  fs_policy :: completion_policy
  fs_requiredChecks :: "string list"
  fs_keepAsFollowUps :: bool \<comment> \<open>\<open>optionalFindings === 'follow-up'\<close>\<close>

datatype stage_status = Stage_pending | Stage_reviewing | Stage_selecting | Stage_verifying | Stage_completed

record stage_state =
  st_id :: string
  st_status :: stage_status
  st_remediationRounds :: nat
  st_additionalRemediationRounds :: nat
  st_selectedFindingIds :: "string list"
  st_completedRunId :: "string option"
  st_headSha :: "string option"
  st_targetSha :: "string option"

record stage_decision =
  sd_stageId :: string
  sd_runId :: string
  sd_selectedIds :: "string list"
  sd_rationale :: string
  sd_userId :: string
  sd_createdAt :: time

record finalization_progress =
  fp_stageIndex :: nat
  fp_stages :: "stage_state list"
  fp_obligations :: "obligation list"
  fp_followUps :: "finding list"
  fp_decisions :: "stage_decision list"

datatype finalization_status = Fin_preparing | Fin_active | Fin_stopped | Fin_completed

record finalization =
  fin_id :: string
  fin_planVersionId :: string
  fin_integrationBranch :: string
  fin_integrationSha :: string
  fin_targetBranch :: string
  fin_targetSha :: string
  fin_worktreeId :: string
  fin_cycleId :: string
  fin_stages :: "finalization_stage list option"
  fin_finalReview :: agent_profile
  fin_policy :: completion_policy
  fin_instructions :: string
  fin_status :: finalization_status
  fin_version :: nat

section \<open>The step attempt, the waits and the cycle\<close>

record output_repair =
  or_attempts :: nat
  or_sourceRunId :: string
  or_code :: attention_code
  or_issues :: "string list"

record provider_recovery =
  pr_attempts :: nat
  pr_sourceRunId :: string
  pr_failure :: provider_failure
  pr_profile :: agent_profile
  pr_nextRetryAt :: "time option"

text \<open>\<open>StepAttempt\<close>; the fields older releases stored as \<open>null\<close> are nested options.\<close>

record step_attempt =
  sa_stepGuidance :: "string option"
  sa_housekeepingInstructions :: "string option"
  sa_resultContinuations :: "nat option"
  sa_outputRepair :: "output_repair option option"
  sa_providerRecovery :: "provider_recovery option option"

definition empty_attempt :: step_attempt where
  "empty_attempt = \<lparr>sa_stepGuidance = None, sa_housekeepingInstructions = None,
     sa_resultContinuations = None, sa_outputRepair = None, sa_providerRecovery = None\<rparr>"

record cycle_waits =
  cw_phase :: "(time \<times> phase_blocker list) option"
  cw_design :: "(time \<times> design_requirement list) option"

definition no_waits :: cycle_waits where
  "no_waits = \<lparr>cw_phase = None, cw_design = None\<rparr>"

datatype polish_phase = Phase_assess | Phase_polish | Phase_verify | Phase_final_review

record checkpoint_commit =
  cc_sourceRunId :: string
  cc_previousHeadSha :: string
  cc_fingerprint :: string
  cc_paths :: "string list"
  cc_createdAt :: time
  cc_commitSha :: "string option"

record work_cycle =
  cy_owner :: "cycle_owner option option"
  cy_workflow :: "cycle_workflow option"
  cy_designDependencyContinuations :: "nat option"
  cy_scopeRepair :: "scope_repair option"
  cy_baselinePreparation :: "baseline_preparation option"
  cy_designRecovery :: "design_recovery option"
  cy_investigation :: "cycle_investigation option"
  cy_executionScope :: "execution_scope option"
  cy_id :: string
  cy_workspaceId :: string
  cy_workItemId :: "string option"
  cy_finalizationId :: "string option"
  cy_finalizationProgress :: "finalization_progress option"
  cy_planVersionId :: "string option"
  cy_polishPhase :: "polish_phase option"
  cy_workItemSourceId :: string
  cy_workItemTitle :: string
  cy_projectId :: string
  cy_worktreeId :: string
  cy_createdByUserId :: string
  cy_createdAt :: time
  cy_updatedAt :: time
  cy_version :: nat
  cy_status :: cycle_status
  cy_step :: cycle_step
  cy_policy :: completion_policy
  cy_profiles :: cycle_profiles
  cy_instructions :: string
  cy_currentRunId :: string
  cy_parentRunId :: "string option"
  cy_runDeadlineAt :: time
  cy_attempt :: "step_attempt option"
  cy_waits :: "cycle_waits option"
  cy_remediationRounds :: nat
  cy_additionalRemediationRounds :: "nat option"
  cy_finalizationAgentOverride :: "agent_selection option option"
  cy_findingFocus :: "string list option"
  cy_stalledReviews :: nat
  cy_previousFindingFingerprint :: "string option"
  cy_reviewHeadSha :: "string option"
  cy_checkpoint :: "checkpoint_commit option"
  cy_integrationResolution :: "integration_resolution option"
  cy_integrationRefreshes :: "nat option"
  cy_reason :: string
  cy_stop :: "cycle_stop option"

section \<open>Reads of the record\<close>

text \<open>\<open>cycle.attempt?.field\<close> and \<open>cycle.waits?.field\<close>.\<close>

definition attempt_of :: "work_cycle \<Rightarrow> step_attempt" where
  "attempt_of c = over (cy_attempt c) empty_attempt"

definition waits_of :: "work_cycle \<Rightarrow> cycle_waits" where
  "waits_of c = over (cy_waits c) no_waits"

definition provider_recovery_of :: "work_cycle \<Rightarrow> provider_recovery option" where
  "provider_recovery_of c = present (sa_providerRecovery (attempt_of c))"

definition output_repair_of :: "work_cycle \<Rightarrow> output_repair option" where
  "output_repair_of c = present (sa_outputRepair (attempt_of c))"

definition active_review_of :: "work_cycle \<Rightarrow> active_review option" where
  "active_review_of c =
     (case cy_workflow c of None \<Rightarrow> None | Some w \<Rightarrow> present (wf_activeReview w))"

definition scope_kind_of :: "work_cycle \<Rightarrow> scope_kind option" where
  "scope_kind_of c = map_option sc_kind (cy_executionScope c)"

definition cycle_stop_of :: "work_cycle \<Rightarrow> cycle_attention option" where
  "cycle_stop_of c = cycleStop (cy_status c) (cy_stop c)"

definition held_stop_of :: "work_cycle \<Rightarrow> cycle_attention option" where
  "held_stop_of c = heldStop (cy_stop c)"

definition resolution_status_of :: "work_cycle \<Rightarrow> resolution_status option" where
  "resolution_status_of c = map_option ir_status (cy_integrationResolution c)"

definition ownsIntegrationResolution :: "work_cycle \<Rightarrow> bool" where
  "ownsIntegrationResolution c =
     (case cy_integrationResolution c of
        None \<Rightarrow> False
      | Some r \<Rightarrow> ir_status r \<in> {Res_preparing, Res_resolving, Res_committing})"

definition investigationLive :: "work_cycle \<Rightarrow> bool" where
  "investigationLive c =
     (case cy_investigation c of None \<Rightarrow> False | Some i \<Rightarrow> inv_result i = None)"

definition worktreeChangeOpen :: "work_cycle \<Rightarrow> bool" where
  "worktreeChangeOpen c =
     (case cy_investigation c of
        None \<Rightarrow> False
      | Some i \<Rightarrow>
          (case inv_result i of
             None \<Rightarrow> False
           | Some r \<Rightarrow> ires_worktreeChanged r \<and> ires_acknowledgedAt r = None
               \<and> ires_restoredAt r = None))"

definition investigationHolds :: "work_cycle \<Rightarrow> bool" where
  "investigationHolds c = (investigationLive c \<or> worktreeChangeOpen c)"

section \<open>Remediation\<close>

definition currentFinalizationStage :: "work_cycle \<Rightarrow> stage_state option" where
  "currentFinalizationStage c =
     (case cy_finalizationProgress c of
        None \<Rightarrow> None
      | Some p \<Rightarrow> nth_opt (fp_stages p) (fp_stageIndex p))"

definition remediationAllowance :: "work_cycle \<Rightarrow> nat" where
  "remediationAllowance c =
     maxRemediationRounds (cy_policy c)
     + (case currentFinalizationStage c of
          Some s \<Rightarrow> st_additionalRemediationRounds s
        | None \<Rightarrow> over (cy_additionalRemediationRounds c) 0)"

definition remediationUsed :: "work_cycle \<Rightarrow> nat" where
  "remediationUsed c =
     (case currentFinalizationStage c of
        Some s \<Rightarrow> st_remediationRounds s
      | None \<Rightarrow> cy_remediationRounds c)"

section \<open>The completion policy\<close>

datatype completion_action = Act_awaiting_merge | Act_remediate | Act_needs_attention

record open_counts =
  n_blocking :: nat
  n_major :: nat
  n_minor :: nat
  n_nit :: nat

record completion_decision =
  cd_action :: completion_action
  cd_reason :: string
  cd_openCounts :: open_counts

definition count_open :: "severity \<Rightarrow> finding list \<Rightarrow> nat" where
  "count_open sev fs = length (filter (\<lambda>f. fd_severity f = sev) (open_findings fs))"

definition openCounts :: "finding list \<Rightarrow> open_counts" where
  "openCounts fs =
     \<lparr>n_blocking = count_open Blocking fs, n_major = count_open Major fs,
      n_minor = count_open Minor fs, n_nit = count_open Nit fs\<rparr>"

fun verdict_text :: "run_verdict \<Rightarrow> string" where
  "verdict_text Mergeable = ''mergeable''"
| "verdict_text Changes_requested = ''changes-requested''"

definition review_incomplete_reason :: "assessment option \<Rightarrow> string" where
  "review_incomplete_reason a =
     (let issues = (case a of None \<Rightarrow> [] | Some x \<Rightarrow> js_join '' '' (assessment_issues x)) in
      js_slice 3000
        (''A complete, valid structured review report is required.''
         @ (if issues \<noteq> [] then '' '' @ issues else [])))"

definition evaluateCompletion :: "completion_policy \<Rightarrow> assessment option \<Rightarrow> completion_decision" where
  "evaluateCompletion policy a =
     (case a of
        Some (Complete issues report) \<Rightarrow>
          (let n = openCounts (rp_findings report) in
           if \<not> rp_gateMet report \<or> rp_verdict report \<noteq> Mergeable
              \<or> 0 < n_blocking n \<or> 0 < n_major n \<or> 0 < n_minor n \<or> maxNits policy < n_nit n
           then \<lparr>cd_action = Act_remediate,
                 cd_reason = ''Review requires remediation: '' @ string_of_nat (n_blocking n)
                   @ '' blocking, '' @ string_of_nat (n_major n) @ '' major, ''
                   @ string_of_nat (n_minor n) @ '' minor, '' @ string_of_nat (n_nit n)
                   @ '' nits (allowance '' @ string_of_nat (maxNits policy) @ ''); exit gate ''
                   @ (if rp_gateMet report then ''met'' else ''not met'') @ '', verdict ''
                   @ verdict_text (rp_verdict report) @ ''.'',
                 cd_openCounts = n\<rparr>
           else \<lparr>cd_action = Act_awaiting_merge,
                 cd_reason = ''Review meets the completion policy ('' @ string_of_nat (n_nit n)
                   @ '' open nits, allowance '' @ string_of_nat (maxNits policy)
                   @ ''). Operator merge approval required.'',
                 cd_openCounts = n\<rparr>)
      | _ \<Rightarrow> \<lparr>cd_action = Act_needs_attention,
              cd_reason = review_incomplete_reason a,
              cd_openCounts = openCounts []\<rparr>)"

text \<open>A passing slice verification's open minor and nit findings; nothing when it does not pass.\<close>

definition verificationFollowUps :: "assessment option \<Rightarrow> finding list option" where
  "verificationFollowUps a =
     (case a of
        Some (Complete issues report) \<Rightarrow>
          (let opn = open_findings (rp_findings report) in
           if \<not> rp_gateMet report \<or> rp_verdict report \<noteq> Mergeable
              \<or> (\<exists>f\<in>set opn. fd_severity f = Blocking \<or> fd_severity f = Major)
           then None else Some opn)
      | _ \<Rightarrow> None)"

definition output_repair_limit :: nat where
  "output_repair_limit = 2"

section \<open>Parked follow-ups\<close>

text \<open>
  \<open>stagedFollowUps\<close>: optional suggestions and parked nits that no selection names, keyed by
  identity (a later one of the same identity replaces an earlier one).
\<close>

definition selected_finding_ids :: "work_cycle \<Rightarrow> string list" where
  "selected_finding_ids c =
     over (cy_findingFocus c) []
     @ (case cy_finalizationProgress c of
          None \<Rightarrow> []
        | Some p \<Rightarrow> concat (map st_selectedFindingIds (fp_stages p)))"

definition stagedFollowUps :: "work_cycle \<Rightarrow> string \<Rightarrow> finding option" where
  "stagedFollowUps c =
     (case cy_finalizationProgress c of
        None \<Rightarrow> Map.empty
      | Some p \<Rightarrow>
          map_of (rev (map (\<lambda>f. (fd_id f, f))
            (filter (\<lambda>f. (optionalFinding f \<or> fd_severity f = Nit)
                       \<and> fd_id f \<notin> set (selected_finding_ids c)) (fp_followUps p)))))"

definition parkedFollowUp :: "(string \<Rightarrow> finding option) \<Rightarrow> finding \<Rightarrow> bool" where
  "parkedFollowUp parked f =
     (case parked (fd_id f) of None \<Rightarrow> False | Some p \<Rightarrow> staysFollowUp p f)"

definition heldOnlyByParkedNits :: "work_cycle \<Rightarrow> assessment \<Rightarrow> bool" where
  "heldOnlyByParkedNits c a =
     (case a of
        Complete issues report \<Rightarrow>
          cy_finalizationProgress c \<noteq> None
          \<and> (let opn = open_findings (rp_findings report); parked = stagedFollowUps c in
             opn \<noteq> []
             \<and> (\<forall>f\<in>set opn. \<not> optionalFinding f \<and> parkedFollowUp parked f)
             \<and> (case rp_finalization report of
                  None \<Rightarrow> False
                | Some r \<Rightarrow> (\<forall>k\<in>set (sr_checks r). chk_status k = Check_passed)
                    \<and> (\<forall>ob\<in>set (sr_obligations r). ob_status ob = Met)))
      | _ \<Rightarrow> False)"

definition evaluateCycleCompletion :: "work_cycle \<Rightarrow> assessment option \<Rightarrow> completion_decision" where
  "evaluateCycleCompletion c a =
     (case a of
        Some (Complete issues report) \<Rightarrow>
          (let parked = stagedFollowUps c;
               followUps = dedup (map fd_id (filter (parkedFollowUp parked) (rp_findings report)))
           in if cy_finalizationProgress c \<noteq> None
                 \<and> (\<exists>f\<in>set (rp_findings report). fd_status f = Open \<and> fd_id f \<notin> set followUps)
              then (evaluateCompletion ((cy_policy c)\<lparr>maxNits := 0\<rparr>) a)
                     \<lparr>cd_action := Act_remediate,
                      cd_reason := ''Required findings or selected batch findings remain open.''\<rparr>
              else (let d = evaluateCompletion (cy_policy c)
                          (Some (Complete issues (report\<lparr>rp_findings :=
                             filter (\<lambda>f. fd_id f \<notin> set followUps) (rp_findings report)\<rparr>)))
                    in if followUps \<noteq> []
                       then d\<lparr>cd_reason := cd_reason d @ '' '' @ string_of_nat (length followUps)
                              @ '' optional suggestion(s) remain open as follow-up work.''\<rparr>
                       else d))
      | _ \<Rightarrow> evaluateCompletion (cy_policy c) a)"

section \<open>A sample record\<close>

text \<open>A running cycle just started, the input of the concrete instances below.\<close>

definition sample_profile :: agent_profile where
  "sample_profile = \<lparr>as_backend = Claude_code, as_model = None, as_reasoningEffort = None,
     ap_permissionMode = Auto_mode\<rparr>"

definition sample_profiles :: cycle_profiles where
  "sample_profiles = \<lparr>pf_design = sample_profile, pf_implement = sample_profile,
     pf_review = sample_profile, pf_remediate = sample_profile, pf_security = None,
     pf_checkpoint = None, pf_acceptance = None, pf_conflict = None, pf_investigation = None\<rparr>"

definition sample_cycle :: work_cycle where
  "sample_cycle = \<lparr>cy_owner = None, cy_workflow = None, cy_designDependencyContinuations = None,
     cy_scopeRepair = None, cy_baselinePreparation = None, cy_designRecovery = None,
     cy_investigation = None, cy_executionScope = None, cy_id = ''c1'', cy_workspaceId = ''w1'',
     cy_workItemId = Some ''i1'', cy_finalizationId = None, cy_finalizationProgress = None,
     cy_planVersionId = None, cy_polishPhase = None, cy_workItemSourceId = ''A-1'',
     cy_workItemTitle = ''Item'', cy_projectId = ''p1'', cy_worktreeId = ''t1'',
     cy_createdByUserId = ''u1'', cy_createdAt = 0, cy_updatedAt = 0, cy_version = 1,
     cy_status = Running, cy_step = Design, cy_policy = default_completion_policy,
     cy_profiles = sample_profiles, cy_instructions = [], cy_currentRunId = ''r1'',
     cy_parentRunId = None, cy_runDeadlineAt = 7200000, cy_attempt = None, cy_waits = None,
     cy_remediationRounds = 0, cy_additionalRemediationRounds = None,
     cy_finalizationAgentOverride = None, cy_findingFocus = None, cy_stalledReviews = 0,
     cy_previousFindingFingerprint = None, cy_reviewHeadSha = None, cy_checkpoint = None,
     cy_integrationResolution = None, cy_integrationRefreshes = None,
     cy_reason = ''Starting design.'', cy_stop = None\<rparr>"

lemma sample_cycle_sel [simp]:
  "cy_owner sample_cycle = None"
  "cy_workflow sample_cycle = None"
  "cy_designDependencyContinuations sample_cycle = None"
  "cy_scopeRepair sample_cycle = None"
  "cy_baselinePreparation sample_cycle = None"
  "cy_designRecovery sample_cycle = None"
  "cy_investigation sample_cycle = None"
  "cy_executionScope sample_cycle = None"
  "cy_id sample_cycle = ''c1''"
  "cy_workspaceId sample_cycle = ''w1''"
  "cy_workItemId sample_cycle = Some ''i1''"
  "cy_finalizationId sample_cycle = None"
  "cy_finalizationProgress sample_cycle = None"
  "cy_planVersionId sample_cycle = None"
  "cy_polishPhase sample_cycle = None"
  "cy_workItemSourceId sample_cycle = ''A-1''"
  "cy_workItemTitle sample_cycle = ''Item''"
  "cy_projectId sample_cycle = ''p1''"
  "cy_worktreeId sample_cycle = ''t1''"
  "cy_createdByUserId sample_cycle = ''u1''"
  "cy_createdAt sample_cycle = 0"
  "cy_updatedAt sample_cycle = 0"
  "cy_version sample_cycle = 1"
  "cy_status sample_cycle = Running"
  "cy_step sample_cycle = Design"
  "cy_policy sample_cycle = default_completion_policy"
  "cy_profiles sample_cycle = sample_profiles"
  "cy_instructions sample_cycle = []"
  "cy_currentRunId sample_cycle = ''r1''"
  "cy_parentRunId sample_cycle = None"
  "cy_runDeadlineAt sample_cycle = 7200000"
  "cy_attempt sample_cycle = None"
  "cy_waits sample_cycle = None"
  "cy_remediationRounds sample_cycle = 0"
  "cy_additionalRemediationRounds sample_cycle = None"
  "cy_finalizationAgentOverride sample_cycle = None"
  "cy_findingFocus sample_cycle = None"
  "cy_stalledReviews sample_cycle = 0"
  "cy_previousFindingFingerprint sample_cycle = None"
  "cy_reviewHeadSha sample_cycle = None"
  "cy_checkpoint sample_cycle = None"
  "cy_integrationResolution sample_cycle = None"
  "cy_integrationRefreshes sample_cycle = None"
  "cy_reason sample_cycle = ''Starting design.''"
  "cy_stop sample_cycle = None"
  by (simp_all add: sample_cycle_def)

end
