(* ===== verification/Actions.thy ===== *)
theory Actions
  imports Cycle
begin

text \<open>
  The operator actions a stopped, paused or waiting cycle offers
  (\<open>packages/domain/src/cycle-actions.ts\<close>), the decisions a staged finalization offers
  (\<open>finalization-actions.ts\<close>), and how a worktree differs from an investigation's
  record of it (\<open>apps/server/src/services/investigation.ts\<close>).
\<close>

section \<open>Offered actions\<close>

datatype cycle_action =
    A_pause | A_resume | A_stop | A_continue_with_guidance | A_authorize_remediation
  | A_resolve_design | A_resolve_integration | A_merge | A_record_scope_evidence
  | A_approve_promotion | A_open_shared_decisions | A_investigate | A_end_investigation
  | A_acknowledge_worktree_change | A_change_settings

text \<open>The stops a plain resume can only reproduce, with the control that resolves each.\<close>

definition resolution_table :: "(attention_code \<times> cycle_action \<times> string) list" where
  "resolution_table =
    [(Design_investigation_finished, A_resolve_design, ''Use Resolve design questions to continue.''),
     (Design_report_invalid, A_resolve_design,
      ''Resuming would reclassify the same design. Use Resolve design questions to correct it.''),
     (Design_open_questions, A_resolve_design, ''Use Resolve design questions to answer them.''),
     (Design_decision_required, A_resolve_design,
      ''Approve the decision in Shared architecture decisions, then use Resolve design questions.''),
     (Design_planning_conflict, A_resolve_design,
      ''Review the planning conflict with Resolve design questions.''),
     (Implementation_open_questions, A_continue_with_guidance,
      ''This step has open questions. Use Continue with guidance to supply answers.''),
     (Review_open_questions, A_continue_with_guidance,
      ''This step has open questions. Use Continue with guidance to supply answers.''),
     (Workflow_report_invalid, A_continue_with_guidance,
      ''Resuming would reclassify the same report. Use Continue with guidance.''),
     (Review_open_questions_at_limit, A_authorize_remediation,
      ''The remediation limit is reached. Answer the questions when authorizing more remediation.''),
     (Remediation_no_change, A_continue_with_guidance,
      ''Two remediations in a row changed nothing, and Resume would review the same commit again. Use Continue with guidance: it starts a fresh review with your guidance.''),
     (Remediation_exhausted, A_authorize_remediation,
      ''The remediation limit is reached. Use Authorize more remediation.''),
     (Integration_conflict, A_resolve_integration,
      ''Use Resolve integration conflicts to delegate the detected conflict.''),
     (Checkpoint_attestation_failed, A_continue_with_guidance,
      ''The checkpoint review could not attest with this evidence, and Resume would repeat it. Use Continue with guidance, or add the missing evidence in the roadmap.'')]"

definition RESOLUTION :: "attention_code \<Rightarrow> (cycle_action \<times> string) option" where
  "RESOLUTION c = map_of resolution_table c"

text \<open>
  The code \<open>resumeRedirect\<close> looks up: a paused cycle's held stop, a stopped cycle's stop, and
  nothing for any other status; nothing either when a newer run of the worktree is new input.
\<close>

definition resumeRedirect ::
    "cycle_status \<Rightarrow> cycle_stop option \<Rightarrow> string \<Rightarrow> string option
     \<Rightarrow> (cycle_action \<times> string) option" where
  "resumeRedirect status stop currentRunId latestRunId =
     (case (if status = Paused then map_option at_code (heldStop stop)
            else if status = Needs_attention then map_option at_code (cycleStop status stop)
            else None) of
        None \<Rightarrow> None
      | Some code \<Rightarrow>
          if latestRunId \<noteq> None \<and> latestRunId \<noteq> Some currentRunId then None
          else RESOLUTION code)"

definition QUESTION_STOPS :: "attention_code list" where
  "QUESTION_STOPS =
     [Work_item_questions, Shared_decision_required, Review_open_questions,
      Review_open_questions_at_limit, Remediation_exhausted]"

definition INVESTIGATION_STOPS :: "attention_code list" where
  "INVESTIGATION_STOPS =
     [Work_item_questions, Implementation_open_questions, Review_open_questions,
      Review_open_questions_at_limit, Scope_review_open_questions, Remediation_exhausted,
      Shared_decision_required]"

definition guidanceAccepted :: "work_cycle \<Rightarrow> string option \<Rightarrow> bool \<Rightarrow> bool \<Rightarrow> bool" where
  "guidanceAccepted c newestRunId live remediationRefused =
     (\<not> remediationRefused
      \<and> (cy_status c = Needs_attention \<or> cy_status c = Paused)
      \<and> \<not> truthy (cy_finalizationId c)
      \<and> (cy_executionScope c = None \<or> scope_kind_of c = Some Slice)
      \<and> \<not> ownsIntegrationResolution c
      \<and> resolution_status_of c \<noteq> Some Res_detected
      \<and> (cy_step c = Implement \<or> cy_step c = Remediate \<or> cy_step c = Review)
      \<and> newestRunId = Some (cy_currentRunId c)
      \<and> \<not> live)"

definition stopCode :: "cycle_status \<Rightarrow> cycle_stop option \<Rightarrow> attention_code option" where
  "stopCode status stop =
     (if status = Paused then map_option at_code (heldStop stop)
      else map_option at_code (cycleStop status stop))"

record settings_facts =
  sf_investigationLive :: bool
  sf_worktreeChangeOpen :: bool
  sf_amendmentRetired :: bool
  sf_transitioning :: bool

definition settingsChangeable :: "work_cycle \<Rightarrow> settings_facts \<Rightarrow> bool" where
  "settingsChangeable c f =
     ((cy_status c = Needs_attention \<or> cy_status c = Paused)
      \<and> \<not> truthy (cy_finalizationId c)
      \<and> stopCode (cy_status c) (cy_stop c) \<noteq> Some Item_completed_unmerged
      \<and> \<not> sf_investigationLive f \<and> \<not> sf_worktreeChangeOpen f
      \<and> \<not> sf_transitioning f \<and> \<not> sf_amendmentRetired f)"

text \<open>
  What the projection reads of a cycle for its offer, and the facts it passes with it.
\<close>

record action_view =
  av_status :: cycle_status
  av_stop :: "cycle_stop option"
  av_currentRunId :: string
  av_unsettledDecisions :: "string list option"

record investigation_view =
  ivw_questions :: bool
  ivw_live :: bool
  ivw_changed :: bool

record action_facts =
  af_latestRunId :: "string option"
  af_reviewNeedsRounds :: bool
  af_investigation :: investigation_view
  af_latestOutsideLineage :: bool
  af_resumeAtRoundLimit :: bool
  af_acceptsGuidance :: bool
  af_changesSettings :: bool

definition action_redirect :: "action_view \<Rightarrow> string option \<Rightarrow> (cycle_action \<times> string) option" where
  "action_redirect v latest = resumeRedirect (av_status v) (av_stop v) (av_currentRunId v) latest"

definition cycleActionsAt ::
    "action_view \<Rightarrow> string option \<Rightarrow> bool \<Rightarrow> investigation_view \<Rightarrow> cycle_action list" where
  "cycleActionsAt v latest reviewNeedsRounds iv =
     (let atStop = (av_status v = Paused \<or> av_status v = Needs_attention) in
      if atStop \<and> ivw_live iv then [A_end_investigation]
      else if atStop \<and> ivw_changed iv then [A_acknowledge_worktree_change, A_stop]
      else
        let code = stopCode (av_status v) (av_stop v);
            investigate =
              (if atStop \<and> ivw_questions iv \<and> code \<noteq> None
                  \<and> the code \<in> set INVESTIGATION_STOPS then [A_investigate] else [])
        in
        if atStop \<and> over (av_unsettledDecisions v) [] \<noteq> []
        then [A_open_shared_decisions] @ investigate @ [A_stop]
        else
          let grantOnly =
                (reviewNeedsRounds \<and> code \<noteq> None \<and> the code \<in> set QUESTION_STOPS
                 \<and> (latest = None \<or> latest = Some (av_currentRunId v)))
          in (case av_status v of
                Running \<Rightarrow> [A_pause, A_stop]
              | Paused \<Rightarrow>
                  if grantOnly then [A_authorize_remediation] @ investigate @ [A_resume, A_stop]
                  else [A_resume] @ investigate @ [A_stop]
              | Awaiting_merge \<Rightarrow>
                  if code = Some Merge_approval then [A_merge, A_pause, A_stop]
                  else if code = Some Record_scope_evidence
                    then [A_record_scope_evidence, A_pause, A_stop]
                  else if code = Some Final_promotion then [A_approve_promotion, A_pause, A_stop]
                  else [A_pause, A_stop]
              | Needs_attention \<Rightarrow>
                  if grantOnly then [A_authorize_remediation] @ investigate @ [A_stop]
                  else (case action_redirect v latest of
                          Some r \<Rightarrow> [fst r] @ investigate @ [A_stop]
                        | None \<Rightarrow> [A_resume] @ investigate @ [A_stop])
              | _ \<Rightarrow> []))"

definition cycleActionsWithoutSettings :: "action_view \<Rightarrow> action_facts \<Rightarrow> cycle_action list" where
  "cycleActionsWithoutSettings v f =
     (let latest = af_latestRunId f;
          offered = cycleActionsAt v latest (af_reviewNeedsRounds f) (af_investigation f);
          code = stopCode (av_status v) (av_stop v);
          noResume = (af_latestOutsideLineage f \<or> code = Some Item_completed_unmerged);
          grant = (af_resumeAtRoundLimit f \<and> action_redirect v latest = None
                   \<and> A_authorize_remediation \<notin> set offered)
      in concat (map (\<lambda>a.
           if a \<noteq> A_resume then [a]
           else if noResume then []
           else if af_resumeAtRoundLimit f \<and> action_redirect v latest = None
             then (if grant then [A_authorize_remediation] else [])
           else if af_acceptsGuidance f \<and> code \<noteq> None
                   \<and> A_authorize_remediation \<notin> set offered
             then [a, A_continue_with_guidance]
           else [a]) offered))"

definition cycleActions :: "action_view \<Rightarrow> action_facts \<Rightarrow> cycle_action list" where
  "cycleActions v f =
     (let actions = cycleActionsWithoutSettings v f in
      if \<not> af_changesSettings f then actions
      else (case find_index (\<lambda>a. a = A_stop) actions of
              None \<Rightarrow> actions @ [A_change_settings]
            | Some i \<Rightarrow> take i actions @ [A_change_settings] @ drop i actions))"

section \<open>A finalization's decisions\<close>

definition currentPlanChanges :: "work_cycle \<Rightarrow> obligation list" where
  "currentPlanChanges c =
     (case cy_finalizationProgress c of
        None \<Rightarrow> []
      | Some p \<Rightarrow> filter (\<lambda>ob. ob_status ob = Change_requested \<and> truthy (ob_proposedRequirement ob)
                             \<and> ob_runId ob = Some (cy_currentRunId c)) (fp_obligations p))"

datatype finalization_decision =
    D_resume | D_select_stage_findings | D_approve_plan_change | D_remediate_findings
  | D_authorize_remediation | D_merge

record finalization_view =
  fv_status :: finalization_status
  fv_hasStages :: bool
  fv_cycle :: "work_cycle option"
  fv_mergeRecoveryPending :: bool
  fv_checkpointFindings :: nat
  fv_canAuthorizeRemediation :: bool

definition finalizationActions :: "finalization_view \<Rightarrow> finalization_decision list" where
  "finalizationActions v =
     (if fv_status v \<noteq> Fin_active \<and> fv_status v \<noteq> Fin_preparing then []
      else if fv_mergeRecoveryPending v then [D_merge]
      else
        let status = map_option cy_status (fv_cycle v) in
        if \<not> fv_hasStages v then (if status = Some Awaiting_merge then [D_merge] else [])
        else
          let merge = (if status = Some Awaiting_merge
                          \<and> (case fv_cycle v of None \<Rightarrow> False
                             | Some c \<Rightarrow> cy_polishPhase c = Some Phase_final_review)
                       then [D_merge] else []);
              idle = (status = None \<or> status = Some Paused \<or> status = Some Needs_attention);
              resolving = (case fv_cycle v of None \<Rightarrow> False
                | Some c \<Rightarrow> (case resolution_status_of c of None \<Rightarrow> False
                    | Some s \<Rightarrow> s \<noteq> Res_completed \<and> s \<noteq> Res_abandoned));
              planChange = (case fv_cycle v of None \<Rightarrow> False
                | Some c \<Rightarrow> currentPlanChanges c \<noteq> []);
              selecting = (case fv_cycle v of None \<Rightarrow> False
                | Some c \<Rightarrow> (case currentFinalizationStage c of None \<Rightarrow> False
                    | Some s \<Rightarrow> st_status s = Stage_selecting))
          in
          if \<not> idle then merge
          else merge
            @ (if resolving then []
               else if planChange then [D_approve_plan_change]
               else if selecting then [D_select_stage_findings]
               else (if 0 < fv_checkpointFindings v then [D_remediate_findings] else [])
                    @ (if fv_canAuthorizeRemediation v then [D_authorize_remediation] else []))
            @ [D_resume])"

section \<open>An investigation's worktree\<close>

record worktree_snapshot =
  ws_headSha :: string
  ws_branch :: string
  ws_fingerprint :: string
  ws_trackedClean :: bool
  ws_untrackedDigest :: string
  ws_ignoredDigest :: string
  ws_gitDigest :: string
  ws_metadataOnly :: nat
  ws_changedPaths :: "string list"

definition investigationWorktree :: "worktree_snapshot \<Rightarrow> investigation_worktree" where
  "investigationWorktree s =
     \<lparr>iw_headSha = ws_headSha s, iw_branch = ws_branch s, iw_fingerprint = ws_fingerprint s,
      iw_trackedClean = ws_trackedClean s, iw_untrackedDigest = ws_untrackedDigest s,
      iw_ignoredDigest = ws_ignoredDigest s, iw_gitDigest = ws_gitDigest s,
      iw_metadataOnly = (if 0 < ws_metadataOnly s then Some (ws_metadataOnly s) else None)\<rparr>"

definition changed_parts ::
    "investigation_worktree \<Rightarrow> worktree_snapshot \<Rightarrow> worktree_part list" where
  "changed_parts r now =
     map fst (filter snd
       [(Part_head, iw_headSha r \<noteq> ws_headSha now),
        (Part_branch, iw_branch r \<noteq> ws_branch now),
        (Part_tracked, iw_fingerprint r \<noteq> ws_fingerprint now
                       \<or> iw_trackedClean r \<noteq> ws_trackedClean now),
        (Part_untracked, iw_untrackedDigest r \<noteq> ws_untrackedDigest now),
        (Part_ignored, iw_ignoredDigest r \<noteq> ws_ignoredDigest now),
        (Part_git, iw_gitDigest r \<noteq> ws_gitDigest now)])"

definition worktreeChange ::
    "investigation_worktree \<Rightarrow> worktree_snapshot option \<Rightarrow> worktree_change option" where
  "worktreeChange r now =
     (case now of
        None \<Rightarrow> Some \<lparr>wch_parts = [Part_unreadable], wch_headBefore = iw_headSha r,
                     wch_headAfter = None, wch_paths = []\<rparr>
      | Some n \<Rightarrow>
          (let parts = changed_parts r n in
           if parts \<noteq> []
           then Some \<lparr>wch_parts = parts, wch_headBefore = iw_headSha r,
                      wch_headAfter = Some (ws_headSha n), wch_paths = ws_changedPaths n\<rparr>
           else None))"

section \<open>Lemmas\<close>

lemma stopCode_simps [simp]:
  "stopCode Paused s = map_option at_code (heldStop s)"
  "stopCode Needs_attention s = map_option at_code (heldStop s)"
  "stopCode Awaiting_merge s = map_option at_code (heldStop s)"
  "stopCode Running s = None" "stopCode Stopped s = None" "stopCode Completed s = None"
  by (simp_all add: stopCode_def)

lemma RESOLUTION_action:
  "RESOLUTION c = Some (a, m) \<Longrightarrow>
     a \<in> {A_resolve_design, A_continue_with_guidance, A_authorize_remediation, A_resolve_integration}"
  unfolding RESOLUTION_def
  by (drule map_of_SomeD) (auto simp: resolution_table_def)

lemma RESOLUTION_not_resume [simp]: "RESOLUTION c \<noteq> Some (A_resume, m)"
  using RESOLUTION_action by blast

lemma resumeRedirect_not_resume [simp]: "resumeRedirect st s r l \<noteq> Some (A_resume, m)"
  by (simp add: resumeRedirect_def split: option.splits)

lemma action_redirect_not_resume: "action_redirect v l = Some r \<Longrightarrow> fst r \<noteq> A_resume"
  using resumeRedirect_not_resume by (cases r) (auto simp: action_redirect_def)

lemma set_insert_settings:
  "set (cycleActions v f) =
     set (cycleActionsWithoutSettings v f) \<union> (if af_changesSettings f then {A_change_settings} else {})"
proof -
  have "\<And>i. set (take i xs) \<union> set (drop i xs) = set xs" for xs :: "cycle_action list"
    by (metis append_take_drop_id set_append)
  then show ?thesis
    by (auto simp: cycleActions_def Let_def split: option.splits)
qed

end
