(* ===== verification/Transitions.thy ===== *)
theory Transitions
  imports Actions
begin

text \<open>
  The cycle's explicit state machine
  (\<open>apps/server/src/services/cycle/core/transitions.ts\<close>): the status changes a write may
  make, what each status may carry, the fields a write may name, and the check every write
  passes.
\<close>

section \<open>The table\<close>

datatype stop_rule = Carries_none | Carries_operator | Carries_gate | Carries_kept | Carries_ended

fun end_status :: "cycle_end_code \<Rightarrow> cycle_status" where
  "end_status Operator_stopped = Stopped"
| "end_status Roadmap_wound_down = Stopped"
| "end_status Amendment_retired = Stopped"
| "end_status Integrated = Completed"
| "end_status Scope_evidence_recorded = Completed"

fun transitions_to :: "cycle_status \<Rightarrow> cycle_status list" where
  "transitions_to Running = [Awaiting_merge, Needs_attention, Paused, Stopped, Completed]"
| "transitions_to Awaiting_merge = [Running, Needs_attention, Paused, Stopped, Completed]"
| "transitions_to Needs_attention = [Running, Paused, Stopped, Completed]"
| "transitions_to Paused = [Running, Needs_attention, Stopped, Completed]"
| "transitions_to Completed = [Running]"
| "transitions_to Stopped = []"

fun transitions_stop :: "cycle_status \<Rightarrow> stop_rule" where
  "transitions_stop Running = Carries_none"
| "transitions_stop Awaiting_merge = Carries_gate"
| "transitions_stop Needs_attention = Carries_operator"
| "transitions_stop Paused = Carries_kept"
| "transitions_stop Completed = Carries_ended"
| "transitions_stop Stopped = Carries_ended"

text \<open>The status changes only one action may make.\<close>

definition only_by :: "cycle_status \<Rightarrow> cycle_status \<Rightarrow> string option" where
  "only_by from to =
     (if from = Completed \<and> to = Running then Some ''review-again'' else None)"

section \<open>The check\<close>

datatype transition_error =
    Cannot_go cycle_status cycle_status string
  | Cannot_carry cycle_status "cycle_stop option" string

fun stop_fits :: "stop_rule \<Rightarrow> cycle_stop option \<Rightarrow> bool" where
  "stop_fits Carries_none s = (s = None)"
| "stop_fits Carries_gate s = (case s of Some (Held_at k a t) \<Rightarrow> k = Gate_stop | _ \<Rightarrow> False)"
| "stop_fits Carries_operator s =
     (case s of Some (Held_at k a t) \<Rightarrow> k = Attention_stop | _ \<Rightarrow> False)"
| "stop_fits Carries_ended s = (case s of Some (Ended_by c t) \<Rightarrow> True | _ \<Rightarrow> False)"
| "stop_fits Carries_kept s =
     (case s of None \<Rightarrow> True | Some (Held_at k a t) \<Rightarrow> k = Attention_stop | _ \<Rightarrow> False)"

text \<open>What a record of this status may carry: the rule, and an end that ends in this status.\<close>

definition carries :: "cycle_status \<Rightarrow> cycle_stop option \<Rightarrow> bool" where
  "carries status stop =
     (stop_fits (transitions_stop status) stop
      \<and> (case cycleEnd stop of None \<Rightarrow> True | Some c \<Rightarrow> end_status c = status))"

definition may_go :: "cycle_status \<Rightarrow> cycle_status \<Rightarrow> string \<Rightarrow> bool" where
  "may_go from to action =
     (from = to
      \<or> (to \<in> set (transitions_to from)
         \<and> (case only_by from to of None \<Rightarrow> True | Some only \<Rightarrow> only = action)))"

definition checkTransition ::
    "cycle_status \<Rightarrow> cycle_status \<Rightarrow> cycle_stop option \<Rightarrow> string \<Rightarrow> transition_error + unit" where
  "checkTransition from to stop action =
     (if \<not> may_go from to action then Inl (Cannot_go from to action)
      else if \<not> carries to stop then Inl (Cannot_carry to stop action)
      else Inr ())"

section \<open>What a write may name\<close>

text \<open>
  The attempt and wait fields of a write: \<open>Keep\<close> is an absent key, \<open>Drop\<close> an explicit
  \<open>undefined\<close> (of an attempt field) or \<open>null\<close> (of a wait).
\<close>

record attempt_changes =
  ac_stepGuidance :: "string edit"
  ac_housekeepingInstructions :: "string edit"
  ac_resultContinuations :: "nat edit"
  ac_outputRepair :: "output_repair option edit"
  ac_providerRecovery :: "provider_recovery option edit"

definition no_attempt_changes :: attempt_changes where
  "no_attempt_changes = \<lparr>ac_stepGuidance = Keep, ac_housekeepingInstructions = Keep,
     ac_resultContinuations = Keep, ac_outputRepair = Keep, ac_providerRecovery = Keep\<rparr>"

record wait_changes =
  wc_phase :: "(time \<times> phase_blocker list) edit"
  wc_design :: "(time \<times> design_requirement list) edit"

definition no_wait_changes :: wait_changes where
  "no_wait_changes = \<lparr>wc_phase = Keep, wc_design = Keep\<rparr>"

text \<open>
  \<open>CycleChanges | CycleRestore\<close>: the record fields a write names (an \<open>option\<close> for a
  required field, an \<open>edit\<close> for an optional one), and the declarations beside them.
  \<open>ch_restore\<close> is \<open>Some r\<close> exactly for a \<open>CycleRestore\<close>.
\<close>

record cycle_changes =
  ch_status :: "cycle_status option"
  ch_attention :: "cycle_attention option"
  ch_end :: "cycle_end_code option"
  ch_restore :: "cycle_stop option option"
  ch_attempt :: "attempt_changes"
  ch_waits :: "wait_changes"
  ch_keepAttempt :: bool
  ch_workflow :: "cycle_workflow edit"
  ch_designDependencyContinuations :: "nat edit"
  ch_baselinePreparation :: "baseline_preparation edit"
  ch_designRecovery :: "design_recovery edit"
  ch_investigation :: "cycle_investigation edit"
  ch_finalizationProgress :: "finalization_progress edit"
  ch_polishPhase :: "polish_phase edit"
  ch_step :: "cycle_step option"
  ch_policy :: "completion_policy option"
  ch_profiles :: "cycle_profiles option"
  ch_instructions :: "string option"
  ch_currentRunId :: "string option"
  ch_parentRunId :: "string edit"
  ch_runDeadlineAt :: "time option"
  ch_remediationRounds :: "nat option"
  ch_additionalRemediationRounds :: "nat edit"
  ch_finalizationAgentOverride :: "agent_selection option edit"
  ch_findingFocus :: "string list edit"
  ch_stalledReviews :: "nat option"
  ch_previousFindingFingerprint :: "string edit"
  ch_reviewHeadSha :: "string edit"
  ch_checkpoint :: "checkpoint_commit edit"
  ch_integrationResolution :: "integration_resolution edit"
  ch_integrationRefreshes :: "nat edit"
  ch_reason :: "string option"

definition no_changes :: cycle_changes where
  "no_changes = \<lparr>ch_status = None, ch_attention = None, ch_end = None, ch_restore = None,
     ch_attempt = no_attempt_changes, ch_waits = no_wait_changes, ch_keepAttempt = False,
     ch_workflow = Keep, ch_designDependencyContinuations = Keep, ch_baselinePreparation = Keep,
     ch_designRecovery = Keep, ch_investigation = Keep, ch_finalizationProgress = Keep,
     ch_polishPhase = Keep, ch_step = None, ch_policy = None, ch_profiles = None,
     ch_instructions = None, ch_currentRunId = None, ch_parentRunId = Keep,
     ch_runDeadlineAt = None, ch_remediationRounds = None,
     ch_additionalRemediationRounds = Keep, ch_finalizationAgentOverride = Keep,
     ch_findingFocus = Keep, ch_stalledReviews = None, ch_previousFindingFingerprint = Keep,
     ch_reviewHeadSha = Keep, ch_checkpoint = Keep, ch_integrationResolution = Keep,
     ch_integrationRefreshes = Keep, ch_reason = None\<rparr>"

text \<open>
  The alternatives of the union \<open>CycleChanges | CycleRestore\<close>, which the compiler holds
  every caller to: entering a stop declares its attention, ending declares an end code of
  that status, and a restore names its status and declares nothing else.
\<close>

definition well_typed_changes :: "cycle_changes \<Rightarrow> bool" where
  "well_typed_changes ch =
     (case ch_restore ch of
        Some r \<Rightarrow> ch_status ch \<noteq> None \<and> ch_attention ch = None \<and> ch_end ch = None
      | None \<Rightarrow>
          (case ch_status ch of
             None \<Rightarrow> ch_end ch = None
           | Some Needs_attention \<Rightarrow> ch_attention ch \<noteq> None \<and> ch_end ch = None
           | Some Awaiting_merge \<Rightarrow> ch_attention ch \<noteq> None \<and> ch_end ch = None
           | Some Paused \<Rightarrow> ch_end ch = None
           | Some Running \<Rightarrow> ch_attention ch = None \<and> ch_end ch = None
           | Some s \<Rightarrow> ch_attention ch = None
               \<and> (case ch_end ch of None \<Rightarrow> False | Some e \<Rightarrow> end_status e = s)))"

section \<open>Lemmas\<close>

lemma checkTransition_ok:
  "checkTransition from to stop action = Inr () \<longleftrightarrow> may_go from to action \<and> carries to stop"
  by (simp add: checkTransition_def)

lemma may_go_refl [simp]: "may_go s s a"
  by (simp add: may_go_def)

lemma may_go_from_stopped: "may_go Stopped s a \<longleftrightarrow> s = Stopped"
  by (auto simp: may_go_def)

lemma may_go_from_completed:
  "may_go Completed s a \<longleftrightarrow> s = Completed \<or> (s = Running \<and> a = ''review-again'')"
  by (cases s) (auto simp: may_go_def only_by_def)

text \<open>Between the live statuses, only a paused or stopped cycle cannot enter the merge boundary.\<close>

lemma may_go_live:
  assumes "from \<notin> {Stopped, Completed}" "from = to \<or> to \<noteq> Awaiting_merge \<or> from = Running"
  shows "may_go from to a"
  using assms by (cases "from"; cases "to") (auto simp: may_go_def only_by_def)

lemma only_running_enters_gate:
  "may_go from Awaiting_merge a \<longleftrightarrow> from = Awaiting_merge \<or> from = Running"
  by (cases "from") (auto simp: may_go_def only_by_def)

lemma carries_iff:
  "carries Running s \<longleftrightarrow> s = None"
  "carries Needs_attention s \<longleftrightarrow> (\<exists>a t. s = Some (Held_at Attention_stop a t))"
  "carries Awaiting_merge s \<longleftrightarrow> (\<exists>a t. s = Some (Held_at Gate_stop a t))"
  "carries Paused s \<longleftrightarrow> s = None \<or> (\<exists>a t. s = Some (Held_at Attention_stop a t))"
  "carries Stopped s \<longleftrightarrow> (\<exists>e t. s = Some (Ended_by e t) \<and> end_status e = Stopped)"
  "carries Completed s \<longleftrightarrow> (\<exists>e t. s = Some (Ended_by e t) \<and> end_status e = Completed)"
  by (auto simp: carries_def cycleEnd_def split: option.splits cycle_stop.splits)

lemma carries_stopRecord:
  "carries Needs_attention (Some (stopRecord a t)) \<longleftrightarrow> stop_kind_of (at_code a) = Attention_stop"
  "carries Paused (Some (stopRecord a t)) \<longleftrightarrow> stop_kind_of (at_code a) = Attention_stop"
  "carries Awaiting_merge (Some (stopRecord a t)) \<longleftrightarrow> stop_kind_of (at_code a) = Gate_stop"
  by (simp_all add: carries_iff stopRecord_def)

lemma no_changes_sel [simp]:
  "ch_status no_changes = None" "ch_attention no_changes = None" "ch_end no_changes = None"
  "ch_restore no_changes = None" "ch_attempt no_changes = no_attempt_changes"
  "ch_waits no_changes = no_wait_changes" "\<not> ch_keepAttempt no_changes"
  "ch_workflow no_changes = Keep" "ch_investigation no_changes = Keep"
  "ch_finalizationProgress no_changes = Keep" "ch_currentRunId no_changes = None"
  "ch_step no_changes = None" "ch_reason no_changes = None"
  "ch_remediationRounds no_changes = None" "ch_additionalRemediationRounds no_changes = Keep"
  by (simp_all add: no_changes_def)

end
