(* ===== verification/Store.thy ===== *)
theory Store
  imports Transitions
begin

text \<open>
  The table the cycle records live in
  (\<open>packages/storage/src/repositories/execution/work-cycles.ts\<close>): rows in insertion order
  with the primary key \<open>id\<close> and the two unique indexes over the cycles that have not ended
  (a worktree, and a work item's scope, has at most one), and the optimistic replace every
  write goes through, \<open>UPDATE ... WHERE workspace_id = ? AND id = ? AND version = ?\<close>. The
  interface a writer relies on is the locale \<open>versioned_store\<close>; the table is its
  interpretation.
\<close>

section \<open>The interface: a store of versioned records\<close>

locale versioned_store =
  fixes ok :: "'s \<Rightarrow> bool"
    and look :: "'s \<Rightarrow> 'k \<Rightarrow> 'v option"
    and put :: "'s \<Rightarrow> 'v \<Rightarrow> nat \<Rightarrow> 's option"
    and key :: "'v \<Rightarrow> 'k"
    and ver :: "'v \<Rightarrow> nat"
  assumes look_key: "ok s \<Longrightarrow> look s k = Some v \<Longrightarrow> key v = k"
    and put_ok: "ok s \<Longrightarrow> put s v n = Some s' \<Longrightarrow> ok s'"
    and put_same: "ok s \<Longrightarrow> put s v n = Some s' \<Longrightarrow> look s' (key v) = Some v"
    and put_other: "ok s \<Longrightarrow> put s v n = Some s' \<Longrightarrow> k \<noteq> key v \<Longrightarrow> look s' k = look s k"
    and put_expected: "ok s \<Longrightarrow> put s v n = Some s' \<Longrightarrow>
          \<exists>old. look s (key v) = Some old \<and> ver old = n"
begin

text \<open>
  A writer that replaced version \<open>n\<close> by another version leaves no other writer that read
  version \<open>n\<close> a way to write: it must read again.
\<close>

lemma no_lost_update:
  assumes "ok s" "put s v n = Some s'" "ver v \<noteq> n" "key w = key v"
  shows "put s' w n = None"
proof (rule ccontr)
  assume "put s' w n \<noteq> None"
  then obtain s'' where "put s' w n = Some s''" by auto
  from put_expected [OF put_ok [OF assms(1,2)] this] obtain old
    where "look s' (key w) = Some old" "ver old = n" by blast
  with put_same [OF assms(1,2)] assms(3,4) show False by simp
qed

lemma put_twice:
  assumes "ok s" "put s v n = Some s1" "put s1 w m = Some s2" "key w = key v"
  shows "m = ver v"
  using put_expected [OF put_ok [OF assms(1,2)] assms(3)] put_same [OF assms(1,2)] assms(4)
  by auto

end

section \<open>The table\<close>

type_synonym cycle_rows = "work_cycle list"

definition cycle_key :: "work_cycle \<Rightarrow> string \<times> string" where
  "cycle_key c = (cy_workspaceId c, cy_id c)"

definition cycle_active :: "work_cycle \<Rightarrow> bool" where
  "cycle_active c = (cy_status c \<noteq> Stopped \<and> cy_status c \<noteq> Completed)"

text \<open>The rows the unique indexes keep apart.\<close>

definition index_clash :: "work_cycle \<Rightarrow> work_cycle \<Rightarrow> bool" where
  "index_clash a b =
     (cycle_active a \<and> cycle_active b \<and> cy_workspaceId a = cy_workspaceId b
      \<and> (cy_worktreeId a = cy_worktreeId b
         \<or> (cy_workItemId a \<noteq> None \<and> cy_workItemId a = cy_workItemId b
            \<and> cy_executionScope a = cy_executionScope b)))"

fun indexed :: "cycle_rows \<Rightarrow> bool" where
  "indexed [] = True"
| "indexed (r # rs) = ((\<forall>x\<in>set rs. cy_id x \<noteq> cy_id r \<and> \<not> index_clash r x) \<and> indexed rs)"

definition cycles_find :: "cycle_rows \<Rightarrow> string \<times> string \<Rightarrow> work_cycle option" where
  "cycles_find rows k = find (\<lambda>r. cycle_key r = k) rows"

definition cycles_listActive :: "cycle_rows \<Rightarrow> work_cycle list" where
  "cycles_listActive rows = filter cycle_active rows"

definition activeForWorktree :: "cycle_rows \<Rightarrow> string \<Rightarrow> string \<Rightarrow> work_cycle option" where
  "activeForWorktree rows ws tree =
     find (\<lambda>r. cy_workspaceId r = ws \<and> cy_worktreeId r = tree \<and> cycle_active r) rows"

definition latestForWorktree :: "cycle_rows \<Rightarrow> string \<Rightarrow> string \<Rightarrow> work_cycle option" where
  "latestForWorktree rows ws tree =
     find (\<lambda>r. cy_workspaceId r = ws \<and> cy_worktreeId r = tree) (rev rows)"

text \<open>An insert fails on a key or an index; the error is the database's.\<close>

definition cycles_insert :: "cycle_rows \<Rightarrow> work_cycle \<Rightarrow> cycle_rows option" where
  "cycles_insert rows c = (if indexed (rows @ [c]) then Some (rows @ [c]) else None)"

datatype replace_result = Replaced cycle_rows | Stale | Constraint_failed

definition update_row :: "work_cycle \<Rightarrow> nat \<Rightarrow> work_cycle \<Rightarrow> work_cycle" where
  "update_row c n r = (if cycle_key r = cycle_key c \<and> cy_version r = n then c else r)"

definition cycles_replace :: "cycle_rows \<Rightarrow> work_cycle \<Rightarrow> nat \<Rightarrow> replace_result" where
  "cycles_replace rows c n =
     (if \<not> (\<exists>r\<in>set rows. cycle_key r = cycle_key c \<and> cy_version r = n) then Stale
      else let rows' = map (update_row c n) rows in
           if indexed rows' then Replaced rows' else Constraint_failed)"

definition cycles_put :: "cycle_rows \<Rightarrow> work_cycle \<Rightarrow> nat \<Rightarrow> cycle_rows option" where
  "cycles_put rows c n = (case cycles_replace rows c n of Replaced rs \<Rightarrow> Some rs | _ \<Rightarrow> None)"

section \<open>Lemmas\<close>

lemma indexed_find:
  "indexed rows \<Longrightarrow> r \<in> set rows \<Longrightarrow> cycles_find rows (cycle_key r) = Some r"
proof (induction rows)
  case (Cons x xs)
  then show ?case
    by (cases "r = x") (auto simp: cycles_find_def cycle_key_def)
qed simp

lemma cycles_find_in: "cycles_find rows k = Some r \<Longrightarrow> r \<in> set rows \<and> cycle_key r = k"
  unfolding cycles_find_def by (rule find_Some_in)

lemma cycles_put_Some:
  "cycles_put rows c n = Some rs \<longleftrightarrow>
     (\<exists>r\<in>set rows. cycle_key r = cycle_key c \<and> cy_version r = n)
     \<and> rs = map (update_row c n) rows \<and> indexed rs"
  by (auto simp: cycles_put_def cycles_replace_def Let_def)

lemma find_update_other:
  "k \<noteq> cycle_key c \<Longrightarrow> cycles_find (map (update_row c n) rows) k = cycles_find rows k"
  by (induction rows) (auto simp: cycles_find_def update_row_def)

interpretation cycles: versioned_store indexed cycles_find cycles_put cycle_key cy_version
proof
  fix s k v assume "indexed s" "cycles_find s k = Some v"
  then show "cycle_key v = k" using cycles_find_in by blast
next
  fix s v n s' assume "cycles_put s v n = Some s'"
  then show "indexed s'" using cycles_put_Some by blast
next
  fix s v n s' assume put: "cycles_put s v n = Some s'"
  then have "v \<in> set s'" by (auto simp: cycles_put_Some update_row_def image_iff)
  then show "cycles_find s' (cycle_key v) = Some v"
    using put by (auto simp: cycles_put_Some intro: indexed_find)
next
  fix s v n s' k assume "cycles_put s v n = Some s'" "k \<noteq> cycle_key v"
  then show "cycles_find s' k = cycles_find s k"
    by (auto simp: cycles_put_Some find_update_other)
next
  fix s v n s' assume ok: "indexed s" and put: "cycles_put s v n = Some s'"
  then obtain r where "r \<in> set s" "cycle_key r = cycle_key v" "cy_version r = n"
    by (auto simp: cycles_put_Some)
  with indexed_find [OF ok] show "\<exists>old. cycles_find s (cycle_key v) = Some old \<and> cy_version old = n"
    by metis
qed

text \<open>A worktree has at most one cycle that has not ended.\<close>

lemma indexed_one_active:
  assumes "indexed rows" "a \<in> set rows" "b \<in> set rows" "cycle_active a" "cycle_active b"
    "cy_workspaceId a = cy_workspaceId b" "cy_worktreeId a = cy_worktreeId b"
  shows "a = b"
  using assms
proof (induction rows)
  case (Cons x xs)
  then show ?case by (auto simp: index_clash_def)
qed simp

end
