(* ===== verification/Writer.thy ===== *)
theory Writer
  imports Store
begin

text \<open>
  The cycle's one write path (\<open>apps/server/src/services/cycle/writer.ts\<close>) and the attention
  a stopped cycle declares right now (\<open>core/attention-policy.ts\<close>). A write is a function of
  the database state, the snapshot it starts from, the changes it names, its action, the
  command's context and the clock. It returns the error it throws, or whether it wrote,
  the new state and the record.
\<close>

section \<open>The declared attention\<close>

text \<open>
  What \<open>currentCycleAttention\<close> reads beside the cycle: the scope's unmet merge requirements
  and prerequisite work, scope recovery, and the owning roadmap's answer (\<open>OwnerPolicy\<close>).
  A fact that throws makes the whole read throw (\<open>pr_throws\<close>).
\<close>

record owner_view =
  ov_running :: bool
  ov_entryHold :: bool
  ov_isRound :: bool
  ov_roundCarried :: bool
  ov_roundSourceHold :: bool
  ov_delegation :: "(bool \<times> bool \<times> bool) option"
    \<comment> \<open>automatic parent acceptance, integration merge, integration conflicts\<close>

record policy_reads =
  pr_throws :: "work_cycle \<Rightarrow> bool"
  pr_mergeWait :: "work_cycle \<Rightarrow> string option"
  pr_reviewWait :: "work_cycle \<Rightarrow> string option"
  pr_scopeRecovery :: "work_cycle \<Rightarrow> bool"
  pr_owner :: "work_cycle \<Rightarrow> owner_view option"
  pr_treeScope :: "work_cycle \<Rightarrow> scope_kind option"

definition roadmapClaim :: "policy_reads \<Rightarrow> work_cycle \<Rightarrow> attention_claim option" where
  "roadmapClaim rd c =
     (case pr_owner rd c of
        None \<Rightarrow> None
      | Some ow \<Rightarrow>
          if \<not> ov_running ow then None
          else if ov_entryHold ow then None
          else if ov_isRound ow \<and> (\<not> ov_roundCarried ow \<or> ov_roundSourceHold ow) then None
          else
            let accept = (case ov_delegation ow of Some (a, m, k) \<Rightarrow> a | None \<Rightarrow> False);
                merge = (case ov_delegation ow of Some (a, m, k) \<Rightarrow> m | None \<Rightarrow> False);
                conflicts = (case ov_delegation ow of Some (a, m, k) \<Rightarrow> k | None \<Rightarrow> False);
                rest = (if resolution_status_of c = Some Res_detected \<and> conflicts
                        then Some Claim_conflict_automation else None)
            in if cy_status c = Awaiting_merge then
                 (if pr_treeScope rd c = Some Slice_verification then Some Claim_roadmap_verification
                  else if pr_treeScope rd c = Some Parent_acceptance
                    then (if accept then Some Claim_roadmap_acceptance else None)
                  else if merge \<and> \<not> merge_adopts_checks (cycle_stop_of c)
                    then Some Claim_roadmap_merge
                  else rest)
               else rest)"

definition currentCycleAttention :: "policy_reads \<Rightarrow> work_cycle \<Rightarrow> cycle_attention option" where
  "currentCycleAttention rd c =
     (case cycle_stop_of c of
        None \<Rightarrow> None
      | Some declared \<Rightarrow>
          let code0 = (if at_code declared = Merge_requirements then Merge_approval
                       else at_code declared);
              detail0 = (if code0 = at_code declared then at_detail declared else None);
              unmet = (code0 = Merge_approval \<and> truthy (pr_mergeWait rd c));
              code = (if unmet then Merge_requirements else code0);
              detail = (if unmet then pr_mergeWait rd c else detail0);
              prerequisites = pr_reviewWait rd c;
              claim = (if pr_scopeRecovery rd c then Some Claim_scope_recovery
                       else if truthy prerequisites then Some Claim_prerequisite_work
                       else roadmapClaim rd c);
              shown = (if claim = Some Claim_prerequisite_work then prerequisites else detail)
          in Some (make_attention code (at_refs declared) claim shown (at_repairAttempts declared)))"

section \<open>The database a write touches\<close>

text \<open>
  An audit row and a workspace event carry what \<open>record\<close> and \<open>appendCycleEvent\<close> put in
  them; their random identifiers are left out. \<open>db_cancelled\<close> lists the investigation runs
  a write cancelled, with the message.
\<close>

record command_context =
  ctx_userId :: string
  ctx_session :: "string option"

record decision_scope =
  ds_kind :: string
  ds_guard :: "string option"
  ds_code :: "string option"
  ds_invariant :: "string option"

record audit_row =
  au_occurredAt :: time
  au_actorIsUser :: bool
  au_actorUserId :: string
  au_sessionId :: "string option"
  au_workspaceId :: string
  au_targetId :: string
  au_resultingVersion :: nat
  au_extra :: "(string \<times> string) list"
  au_action :: string
  au_baselinePreparation :: "baseline_preparation option"
  au_status :: cycle_status
  au_previousStatus :: "cycle_status option"
  au_decision :: "decision_scope option"
  au_step :: cycle_step
  au_reason :: string
  au_runId :: string
  au_attention :: "(attention_code \<times> attention_owner \<times> attention_claim option) option"
  au_approvedObligations :: "obligation list option"
  au_stageIndex :: "nat option"
  au_stageState :: "stage_state option"
  au_stageDecisions :: "stage_decision list option"
  au_finalizationAgentOverride :: "agent_selection option option"
  au_instructions :: "string option"
  au_remediation :: "(nat \<times> nat \<times> nat \<times> nat) option"
  au_findingFocus :: "string list option"
  au_integrationResolution :: "integration_resolution option"
  au_checkpoint :: "checkpoint_commit option"

record cycle_event =
  ev_occurredAt :: time
  ev_workspaceId :: string
  ev_actorUserId :: string
  ev_projectId :: string
  ev_workItemId :: "string option"
  ev_planVersionId :: "string option"
  ev_cycleId :: string
  ev_status :: cycle_status
  ev_step :: cycle_step
  ev_reason :: string

record cycle_db =
  db_rows :: cycle_rows
  db_audit :: "audit_row list"
  db_events :: "cycle_event list"
  db_cancelled :: "(string \<times> string) list"

definition cycle_event_of :: "work_cycle \<Rightarrow> time \<Rightarrow> command_context option \<Rightarrow> cycle_event" where
  "cycle_event_of c occurredAt ctx =
     \<lparr>ev_occurredAt = occurredAt, ev_workspaceId = cy_workspaceId c,
      ev_actorUserId = (case ctx of Some x \<Rightarrow> ctx_userId x | None \<Rightarrow> cy_createdByUserId c),
      ev_projectId = cy_projectId c, ev_workItemId = cy_workItemId c,
      ev_planVersionId = (if truthy (cy_planVersionId c) then cy_planVersionId c else None),
      ev_cycleId = cy_id c, ev_status = cy_status c, ev_step = cy_step c,
      ev_reason = cy_reason c\<rparr>"

definition step_guidance_of :: "work_cycle \<Rightarrow> string" where
  "step_guidance_of c = over (sa_stepGuidance (attempt_of c)) []"

definition audit_row_of ::
    "work_cycle \<Rightarrow> string \<Rightarrow> command_context option \<Rightarrow> cycle_status option
     \<Rightarrow> decision_scope option \<Rightarrow> (string \<times> string) list \<Rightarrow> audit_row" where
  "audit_row_of c action ctx previous decision extra =
     (let session = (case ctx of Some x \<Rightarrow> ctx_session x | None \<Rightarrow> None);
          progress = cy_finalizationProgress c;
          remediating = (action = ''authorize-remediation'' \<or> action = ''remediate-findings'')
      in \<lparr>au_occurredAt = cy_updatedAt c,
          au_actorIsUser = (session \<noteq> None),
          au_actorUserId = (case ctx of Some x \<Rightarrow> ctx_userId x | None \<Rightarrow> cy_createdByUserId c),
          au_sessionId = session,
          au_workspaceId = cy_workspaceId c,
          au_targetId = cy_id c,
          au_resultingVersion = cy_version c,
          au_extra = extra,
          au_action = action,
          au_baselinePreparation =
            (if starts_with ''baseline-preparation'' action then cy_baselinePreparation c else None),
          au_status = cy_status c,
          au_previousStatus = previous,
          au_decision = decision,
          au_step = cy_step c,
          au_reason = cy_reason c,
          au_runId = cy_currentRunId c,
          au_attention = map_option (\<lambda>a. (at_code a, at_owner a, at_claim a)) (held_stop_of c),
          au_approvedObligations =
            (if action = ''approve-plan-change''
             then map_option (\<lambda>p. filter (\<lambda>ob. ob_approvedChange ob \<noteq> None) (fp_obligations p)) progress
             else None),
          au_stageIndex = map_option fp_stageIndex progress,
          au_stageState = currentFinalizationStage c,
          au_stageDecisions = map_option fp_decisions progress,
          au_finalizationAgentOverride =
            (if truthy (cy_finalizationId c)
             then Some (present (cy_finalizationAgentOverride c)) else None),
          au_instructions = (if remediating then Some (step_guidance_of c) else None),
          au_remediation =
            (if remediating
             then Some (maxRemediationRounds (cy_policy c),
                        over (cy_additionalRemediationRounds c) 0,
                        remediationAllowance c, cy_remediationRounds c)
             else None),
          au_findingFocus =
            (if action = ''remediate-findings'' then Some (over (cy_findingFocus c) []) else None),
          au_integrationResolution = cy_integrationResolution c,
          au_checkpoint = cy_checkpoint c\<rparr>)"

text \<open>\<open>record\<close>: the audit row, then the event.\<close>

definition db_record ::
    "cycle_db \<Rightarrow> work_cycle \<Rightarrow> string \<Rightarrow> command_context option \<Rightarrow> cycle_status option
     \<Rightarrow> decision_scope option \<Rightarrow> (string \<times> string) list \<Rightarrow> cycle_db" where
  "db_record db c action ctx previous decision extra =
     db\<lparr>db_audit := db_audit db @ [audit_row_of c action ctx previous decision extra],
        db_events := db_events db @ [cycle_event_of c (cy_updatedAt c) ctx]\<rparr>"

section \<open>One write, field by field\<close>

definition stopFor :: "work_cycle \<Rightarrow> cycle_attention \<Rightarrow> cycle_status \<Rightarrow> time \<Rightarrow> cycle_stop" where
  "stopFor c a nextStatus at =
     stopRecord a
       (case cy_stop c of
          Some (Held_at k b since) \<Rightarrow>
            if nextStatus = cy_status c \<or> nextStatus = Paused then since else at
        | _ \<Rightarrow> at)"

definition next_status :: "work_cycle \<Rightarrow> cycle_changes \<Rightarrow> cycle_status" where
  "next_status c ch = over (ch_status ch) (cy_status c)"

definition attention_status :: "cycle_status \<Rightarrow> bool" where
  "attention_status s = (s = Needs_attention \<or> s = Awaiting_merge)"

text \<open>\<open>{ ...cycle, ...fields }\<close>: every named field but the stop, the attempt and the waits.\<close>

definition apply_fields :: "cycle_changes \<Rightarrow> work_cycle \<Rightarrow> work_cycle" where
  "apply_fields ch c = c
     \<lparr>cy_status := next_status c ch,
      cy_workflow := edit_opt (ch_workflow ch) (cy_workflow c),
      cy_designDependencyContinuations :=
        edit_opt (ch_designDependencyContinuations ch) (cy_designDependencyContinuations c),
      cy_baselinePreparation := edit_opt (ch_baselinePreparation ch) (cy_baselinePreparation c),
      cy_designRecovery := edit_opt (ch_designRecovery ch) (cy_designRecovery c),
      cy_investigation := edit_opt (ch_investigation ch) (cy_investigation c),
      cy_finalizationProgress := edit_opt (ch_finalizationProgress ch) (cy_finalizationProgress c),
      cy_polishPhase := edit_opt (ch_polishPhase ch) (cy_polishPhase c),
      cy_step := over (ch_step ch) (cy_step c),
      cy_policy := over (ch_policy ch) (cy_policy c),
      cy_profiles := over (ch_profiles ch) (cy_profiles c),
      cy_instructions := over (ch_instructions ch) (cy_instructions c),
      cy_currentRunId := over (ch_currentRunId ch) (cy_currentRunId c),
      cy_parentRunId := edit_opt (ch_parentRunId ch) (cy_parentRunId c),
      cy_runDeadlineAt := over (ch_runDeadlineAt ch) (cy_runDeadlineAt c),
      cy_remediationRounds := over (ch_remediationRounds ch) (cy_remediationRounds c),
      cy_additionalRemediationRounds :=
        edit_opt (ch_additionalRemediationRounds ch) (cy_additionalRemediationRounds c),
      cy_finalizationAgentOverride :=
        edit_opt (ch_finalizationAgentOverride ch) (cy_finalizationAgentOverride c),
      cy_findingFocus := edit_opt (ch_findingFocus ch) (cy_findingFocus c),
      cy_stalledReviews := over (ch_stalledReviews ch) (cy_stalledReviews c),
      cy_previousFindingFingerprint :=
        edit_opt (ch_previousFindingFingerprint ch) (cy_previousFindingFingerprint c),
      cy_reviewHeadSha := edit_opt (ch_reviewHeadSha ch) (cy_reviewHeadSha c),
      cy_checkpoint := edit_opt (ch_checkpoint ch) (cy_checkpoint c),
      cy_integrationResolution := edit_opt (ch_integrationResolution ch) (cy_integrationResolution c),
      cy_integrationRefreshes := edit_opt (ch_integrationRefreshes ch) (cy_integrationRefreshes c),
      cy_reason := over (ch_reason ch) (cy_reason c)\<rparr>"

text \<open>The attention a write leaves, before it is completed with the claims.\<close>

definition declared_attention :: "work_cycle \<Rightarrow> cycle_changes \<Rightarrow> cycle_attention option" where
  "declared_attention c ch =
     (case ch_restore ch of
        Some r \<Rightarrow> heldStop r
      | None \<Rightarrow>
          let next = next_status c ch in
          if attention_status next \<or> (next = Paused \<and> cy_status c = Paused)
          then (case ch_attention ch of Some a \<Rightarrow> Some a | None \<Rightarrow> held_stop_of c)
          else if next = Paused then ch_attention ch
          else None)"

definition completed_attention ::
    "policy_reads \<Rightarrow> work_cycle \<Rightarrow> cycle_changes \<Rightarrow> time \<Rightarrow> cycle_attention option" where
  "completed_attention rd c ch at =
     (case (ch_attention ch, ch_status ch) of
        (Some a, Some next) \<Rightarrow>
          let entering = (apply_fields ch c)\<lparr>cy_stop := Some (stopFor c a next at)\<rparr> in
          if pr_throws rd entering then Some a
          else (case currentCycleAttention rd entering of Some x \<Rightarrow> Some x | None \<Rightarrow> Some a)
      | _ \<Rightarrow> declared_attention c ch)"

definition written_stop ::
    "work_cycle \<Rightarrow> cycle_changes \<Rightarrow> cycle_attention option \<Rightarrow> time \<Rightarrow> cycle_stop option" where
  "written_stop c ch attention at =
     (case ch_restore ch of
        Some r \<Rightarrow> r
      | None \<Rightarrow>
          let next = next_status c ch in
          (case attention of
             Some a \<Rightarrow> Some (stopFor c a next at)
           | None \<Rightarrow>
               if next = Stopped \<or> next = Completed
               then (case ch_end ch of
                       Some e \<Rightarrow> Some (Ended_by e at)
                     | None \<Rightarrow> if next = cy_status c then cy_stop c else None)
               else None))"

definition reserves_other :: "work_cycle \<Rightarrow> cycle_changes \<Rightarrow> bool" where
  "reserves_other c ch =
     (case ch_currentRunId ch of None \<Rightarrow> False | Some r \<Rightarrow> r \<noteq> cy_currentRunId c)"

definition edit_attempt :: "attempt_changes \<Rightarrow> step_attempt \<Rightarrow> step_attempt" where
  "edit_attempt e a =
     \<lparr>sa_stepGuidance = edit_opt (ac_stepGuidance e) (sa_stepGuidance a),
      sa_housekeepingInstructions =
        edit_opt (ac_housekeepingInstructions e) (sa_housekeepingInstructions a),
      sa_resultContinuations = edit_opt (ac_resultContinuations e) (sa_resultContinuations a),
      sa_outputRepair = edit_opt (ac_outputRepair e) (sa_outputRepair a),
      sa_providerRecovery = edit_opt (ac_providerRecovery e) (sa_providerRecovery a)\<rparr>"

definition written_attempt :: "work_cycle \<Rightarrow> cycle_changes \<Rightarrow> bool \<Rightarrow> step_attempt option" where
  "written_attempt c ch commanded =
     (let fresh = (reserves_other c ch \<and> \<not> ch_keepAttempt ch);
          edited = edit_attempt (ch_attempt ch) (if fresh then empty_attempt else attempt_of c);
          ends = (output_repair_of c \<noteq> None \<and> \<not> fresh
                  \<and> ac_outputRepair (ch_attempt ch) = Keep
                  \<and> (next_status c ch \<noteq> Running \<or> commanded));
          result = (if ends then edited\<lparr>sa_outputRepair := Some None\<rparr> else edited)
      in if result = empty_attempt then None else Some result)"

definition written_waits :: "work_cycle \<Rightarrow> cycle_changes \<Rightarrow> cycle_waits option" where
  "written_waits c ch =
     (let result = \<lparr>cw_phase = edit_opt (wc_phase (ch_waits ch)) (cw_phase (waits_of c)),
                    cw_design = edit_opt (wc_design (ch_waits ch)) (cw_design (waits_of c))\<rparr>
      in if result = no_waits then None else Some result)"

definition investigation_ends ::
    "work_cycle \<Rightarrow> cycle_changes \<Rightarrow> cycle_attention option \<Rightarrow> bool" where
  "investigation_ends c ch attention =
     (case cy_investigation c of
        None \<Rightarrow> False
      | Some i \<Rightarrow>
          ch_investigation ch = Keep
          \<and> ((next_status c ch \<noteq> Needs_attention \<and> next_status c ch \<noteq> Paused)
             \<or> reserves_other c ch
             \<or> (case attention of None \<Rightarrow> False | Some a \<Rightarrow> at_code a \<noteq> inv_code i)))"

text \<open>
  A write of the lifetime totals moves the current stage's by the same amount (the totals
  never shrink, so the natural difference is the code's).
\<close>

definition scaled_stages :: "work_cycle \<Rightarrow> cycle_changes \<Rightarrow> finalization_progress option" where
  "scaled_stages c ch =
     (let named = edit_opt (ch_finalizationProgress ch) (cy_finalizationProgress c);
          extra = (case ch_additionalRemediationRounds ch of Put n \<Rightarrow> Some n | _ \<Rightarrow> None)
      in case cy_finalizationProgress c of
           None \<Rightarrow> named
         | Some old \<Rightarrow>
             if ch_remediationRounds ch = None \<and> extra = None then named
             else
               let p = over named old;
                   used = over (ch_remediationRounds ch) (cy_remediationRounds c);
                   granted0 = over (cy_additionalRemediationRounds c) 0;
                   granted = over extra granted0;
                   i = fp_stageIndex old;
                   move = (\<lambda>s. s\<lparr>
                     st_remediationRounds := st_remediationRounds s + used - cy_remediationRounds c,
                     st_additionalRemediationRounds :=
                       st_additionalRemediationRounds s + granted - granted0\<rparr>)
               in Some (p\<lparr>fp_stages := (if i < length (fp_stages p)
                            then (fp_stages p)[i := move (fp_stages p ! i)] else fp_stages p)\<rparr>))"

definition updated_cycle ::
    "policy_reads \<Rightarrow> time \<Rightarrow> bool \<Rightarrow> work_cycle \<Rightarrow> cycle_changes \<Rightarrow> work_cycle" where
  "updated_cycle rd at commanded c ch =
     (let attention = completed_attention rd c ch at;
          named = apply_fields ch c
      in named\<lparr>cy_stop := written_stop c ch attention at,
               cy_attempt := written_attempt c ch commanded,
               cy_waits := written_waits c ch,
               cy_finalizationProgress := scaled_stages c ch,
               cy_reason := js_slice 4000 (cy_reason named),
               cy_version := cy_version c + 1,
               cy_updatedAt := at,
               cy_investigation :=
                 (if investigation_ends c ch attention then None else cy_investigation named)\<rparr>)"

section \<open>The write\<close>

datatype write_error =
    Transition transition_error
  | Concurrent_modification
  | Constraint

datatype write_result = Unchanged work_cycle | Wrote cycle_db work_cycle

definition left_investigation_message :: string where
  "left_investigation_message = ''The cycle left the stop this investigation was for.''"

text \<open>
  \<open>change\<close>: the check, the refusal to write a controller write that changes nothing, the
  transaction (replace, audit row, event), and the cancellation of the investigation the
  write ended.
\<close>

definition change ::
    "policy_reads \<Rightarrow> time \<Rightarrow> decision_scope option \<Rightarrow> cycle_db \<Rightarrow> work_cycle \<Rightarrow> cycle_changes
     \<Rightarrow> string \<Rightarrow> command_context option \<Rightarrow> (string \<times> string) list
     \<Rightarrow> write_error + write_result" where
  "change rd at decision db c ch action ctx extra =
     (let updated = updated_cycle rd at (ctx \<noteq> None) c ch in
      case checkTransition (cy_status c) (cy_status updated) (cy_stop updated) action of
        Inl e \<Rightarrow> Inl (Transition e)
      | Inr _ \<Rightarrow>
          if ctx = None
             \<and> updated\<lparr>cy_version := cy_version c, cy_updatedAt := cy_updatedAt c\<rparr> = c
             \<and> map_option cy_version (cycles_find (db_rows db) (cycle_key c)) = Some (cy_version c)
          then Inr (Unchanged c)
          else (case cycles_replace (db_rows db) updated (cy_version c) of
                  Stale \<Rightarrow> Inl Concurrent_modification
                | Constraint_failed \<Rightarrow> Inl Constraint
                | Replaced rows \<Rightarrow>
                    let db' = db_record (db\<lparr>db_rows := rows\<rparr>) updated action ctx
                                (Some (cy_status c)) decision extra;
                        ended = investigation_ends c ch (completed_attention rd c ch at);
                        named = cy_investigation (apply_fields ch c)
                    in Inr (Wrote
                         (case named of
                            Some i \<Rightarrow> if ended \<and> inv_result i = None
                                      then db'\<lparr>db_cancelled := db_cancelled db'
                                             @ [(inv_runId i, left_investigation_message)]\<rparr>
                                      else db'
                          | None \<Rightarrow> db')
                         updated)))"

text \<open>\<open>insert\<close>: a new record, with the audit row of the record it names.\<close>

definition insert_cycle ::
    "decision_scope option \<Rightarrow> cycle_db \<Rightarrow> work_cycle \<Rightarrow> string \<Rightarrow> command_context \<Rightarrow> work_cycle
     \<Rightarrow> write_error + cycle_db" where
  "insert_cycle decision db c action ctx recorded =
     (case cycles_insert (db_rows db) c of
        None \<Rightarrow> Inl Constraint
      | Some rows \<Rightarrow>
          Inr (db_record (db\<lparr>db_rows := rows\<rparr>) recorded action (Some ctx) None decision []))"

text \<open>\<open>attention\<close>: the changes of a stop for someone to act.\<close>

definition attention_changes ::
    "attention_code \<Rightarrow> string \<Rightarrow> attention_refs option \<Rightarrow> nat option \<Rightarrow> cycle_changes" where
  "attention_changes code reason refs repairs =
     no_changes\<lparr>ch_status := Some Needs_attention, ch_reason := Some reason,
       ch_attention := Some (make_attention code refs None None repairs)\<rparr>"

text \<open>
  \<open>refreshAttention\<close>: written in place, without a version; a change of owner or code is
  audited. \<open>None\<close>: nothing was written.
\<close>

definition refreshAttention ::
    "policy_reads \<Rightarrow> time \<Rightarrow> decision_scope option \<Rightarrow> cycle_db \<Rightarrow> work_cycle
     \<Rightarrow> (cycle_db \<times> work_cycle) option" where
  "refreshAttention rd at decision db c =
     (if pr_throws rd c then None
      else case (currentCycleAttention rd c, cycle_stop_of c, cy_stop c) of
        (Some current, Some stopped, Some (Held_at k b since)) \<Rightarrow>
          if current = stopped then None
          else
            let updated = c\<lparr>cy_stop := Some (Held_at k current since)\<rparr> in
            (case cycles_replace (db_rows db) updated (cy_version c) of
               Replaced rows \<Rightarrow>
                 let db1 = db\<lparr>db_rows := rows,
                              db_events := db_events db @ [cycle_event_of updated at None]\<rparr>;
                     db2 = (if at_code current \<noteq> at_code stopped \<or> at_owner current \<noteq> at_owner stopped
                            then db_record db1 (updated\<lparr>cy_updatedAt := at\<rparr>) ''attention-refreshed''
                                   None (Some (cy_status c)) decision []
                            else db1)
                 in Some (db2, updated)
             | _ \<Rightarrow> None)
      | _ \<Rightarrow> None)"

text \<open>\<open>waitForPhase\<close>: \<open>None\<close> when the blockers are unchanged.\<close>

definition waitForPhase_changes ::
    "work_cycle \<Rightarrow> time \<Rightarrow> phase_blocker list \<Rightarrow> string \<Rightarrow> cycle_changes option" where
  "waitForPhase_changes c now blockers reason =
     (case cw_phase (waits_of c) of
        Some (since, old) \<Rightarrow>
          if old = blockers then None
          else Some (no_changes\<lparr>ch_waits := no_wait_changes\<lparr>wc_phase := Put (since, blockers)\<rparr>,
                                ch_reason := Some reason\<rparr>)
      | None \<Rightarrow> Some (no_changes\<lparr>ch_waits := no_wait_changes\<lparr>wc_phase := Put (now, blockers)\<rparr>,
                                ch_reason := Some reason\<rparr>))"

definition deadline :: "time \<Rightarrow> nat \<Rightarrow> time" where
  "deadline now minutes = now + int minutes * 60000"

end
