(* ===== verification/Effects.thy ===== *)
theory Effects
  imports Writer
begin

text \<open>
  The effects' sub-decisions (\<open>apps/server/src/services/cycle/core/effect-decisions.ts\<close>)
  over the services' errors (\<open>errors.ts\<close>, \<open>phase-resources.ts\<close>): what an error that
  escaped a pass means, what a refusal means for its cycle, a review's approval, the
  workflow's merge checkpoints, remediation and its grant, a refresh from integration, and
  a staged finalization's steps.
\<close>

section \<open>Errors\<close>

record conflict_details =
  cf_headSha :: string
  cf_targetSha :: string
  cf_targetBranch :: string
  cf_paths :: "string list"
  cf_diagnostics :: string

text \<open>
  The error classes the controller tells apart; \<open>Request_error\<close> is an
  \<open>ExecutionRequestError\<close> of no class below it, \<open>Other_error\<close> any other exception.
\<close>

datatype service_error =
    Phase_gate_error "phase_blocker list"
  | Typed_refusal attention_code string "attention_refs option"
  | Upstream_undeclared string
  | Upstream_moved string "moved_pin list" string
  | Attestation_error string string
  | Checks_undeclared string string
  | Check_changed string string string
  | Concurrent_error string
  | Draining_error
  | Repository_busy
  | Tree_busy string
  | Update_conflict conflict_details
  | Request_error string
  | Other_error string

definition draining_message :: string where
  "draining_message = ''CraftingTable is draining for a restart and is not starting new agent runs. Try again after it restarts.''"

fun error_message :: "service_error \<Rightarrow> string" where
  "error_message (Phase_gate_error bs) = js_join [CHR 0x0A] (map pb_message bs)"
| "error_message (Typed_refusal c m r) = m"
| "error_message (Upstream_undeclared m) = m"
| "error_message (Upstream_moved d ps m) = m"
| "error_message (Attestation_error c m) = m"
| "error_message (Checks_undeclared r name) =
     name @ '' has no adopted checks. Adopt its .craftingtable/checks.json on the Repositories page, then resume.''"
| "error_message (Check_changed r c m) = m"
| "error_message (Concurrent_error m) = m"
| "error_message Draining_error = draining_message"
| "error_message Repository_busy =
     ''Another merge or repository mutation is in progress; retry after it finishes''"
| "error_message (Tree_busy m) = m"
| "error_message (Update_conflict d) =
     ''Updating from '' @ cf_targetBranch d @ '' conflicts in '' @ string_of_nat (length (cf_paths d))
     @ '' files. Resolve integration conflicts from the automated cycle.''"
| "error_message (Request_error m) = m"
| "error_message (Other_error m) = m"

definition request_error :: "service_error \<Rightarrow> bool" where
  "request_error e = (case e of Other_error m \<Rightarrow> False | _ \<Rightarrow> True)"

definition phase_gate_waiting :: "phase_blocker list \<Rightarrow> bool" where
  "phase_gate_waiting bs = (\<forall>b\<in>set bs. phase_blocker_waits (pb_code b))"

definition refusal_stops :: "attention_code list" where
  "refusal_stops =
     [Phase_gate, Item_unavailable, Item_not_admitted, Item_completed_unmerged,
      Predecessors_incomplete, Predecessor_merge_missing, Worktree_state, Resolution_not_ready,
      Launch_refused, Roadmap_binding_changed, Delegation_authority_lost, Review_capture_failed,
      Finalization_inactive, Service_unavailable, Authority_lost, Legacy_finalization_retired,
      Worktree_inactive]"

section \<open>Stops and gates\<close>

datatype effect_stop = Stop (es_code: attention_code) (es_message: string) (es_refs: "attention_refs option")
datatype effect_gate = Gate (eg_code: attention_code) (eg_refs: "attention_refs option") (eg_reason: string)

definition stops_outside_the_core :: "attention_code list" where
  "stops_outside_the_core = [Resolution_abandoned, Restart_resume, Merge_requirements]"

definition retired_stops :: "attention_code list" where
  "retired_stops = [Legacy_attention, Polish_assessment_needs_attention]"

section \<open>A pass's error\<close>

definition retryableControllerError :: "service_error \<Rightarrow> bool" where
  "retryableControllerError e =
     (case e of
        Draining_error \<Rightarrow> True
      | Concurrent_error m \<Rightarrow> True
      | Repository_busy \<Rightarrow> True
      | Tree_busy m \<Rightarrow> True
      | _ \<Rightarrow> False)"

datatype failure_decision = Retry | Failure_stop effect_stop

definition decideFailure :: "service_error \<Rightarrow> failure_decision" where
  "decideFailure e =
     (if retryableControllerError e then Retry
      else Failure_stop (Stop Controller_error
        (if request_error e then error_message e
         else ''Controller could not advance this step. Inspect the run before resuming.'') None))"

datatype readiness =
    Ready
  | Wait_for "phase_blocker list" string
  | Refused attention_code string "attention_refs option"

definition readinessOf :: "service_error \<Rightarrow> readiness option" where
  "readinessOf e =
     (case e of
        Phase_gate_error bs \<Rightarrow>
          Some (if phase_gate_waiting bs then Wait_for bs (error_message e)
                else Refused Phase_gate (error_message e)
                  (Some (no_refs\<lparr>ref_blockers := Some (dedup (map pb_code bs))\<rparr>)))
      | Typed_refusal code m refs \<Rightarrow> Some (Refused code m refs)
      | _ \<Rightarrow> None)"

datatype refusal_decision = Phase_wait "phase_blocker list" string | Refusal_stop effect_stop

definition decideRefusal :: "service_error \<Rightarrow> refusal_decision option" where
  "decideRefusal e =
     (if retryableControllerError e then None
      else case readinessOf e of
        Some (Wait_for bs reason) \<Rightarrow> Some (Phase_wait bs reason)
      | Some (Refused code m refs) \<Rightarrow> Some (Refusal_stop (Stop code m refs))
      | _ \<Rightarrow>
        (case e of
           Upstream_undeclared m \<Rightarrow>
             Some (Refusal_stop (Stop Upstream_transition_undeclared m None))
         | Upstream_moved d ps m \<Rightarrow>
             Some (Refusal_stop (Stop Upstream_pin_moved m
               (Some (no_refs\<lparr>ref_definitionId := Some d, ref_pins := Some ps\<rparr>))))
         | Attestation_error c m \<Rightarrow>
             Some (Refusal_stop (Stop Checkpoint_attestation_failed m
               (Some (no_refs\<lparr>ref_checkpointId := Some c\<rparr>))))
         | Checks_undeclared r name \<Rightarrow>
             Some (Refusal_stop (Stop Repository_checks_undeclared (error_message e)
               (Some (no_refs\<lparr>ref_repositoryId := Some r\<rparr>))))
         | Check_changed r c m \<Rightarrow>
             Some (Refusal_stop (Stop Check_definition_changed m
               (Some (no_refs\<lparr>ref_repositoryId := Some r, ref_checkId := Some c\<rparr>))))
         | _ \<Rightarrow> None))"

definition decideLaunch :: "service_error \<Rightarrow> refusal_decision option" where
  "decideLaunch e =
     (let decided = decideRefusal e in
      if decided \<noteq> None \<or> retryableControllerError e \<or> \<not> request_error e then decided
      else Some (Refusal_stop (Stop Launch_refused (error_message e) None)))"

section \<open>A review's approval\<close>

definition files_remain_after_finalization :: string where
  "files_remain_after_finalization = ''Files remain after implementation finalization. Classify and reconcile them before a fresh review.''"

definition approval_changed_worktree :: string where
  "approval_changed_worktree = ''Verification changed the worktree. Inspect these changes and generated files, restore a reviewable state, and commit intended source changes. The prior approval is invalid.''"

definition stage_review_changed_worktree :: string where
  "stage_review_changed_worktree = ''Review changed the worktree. Reconcile artifacts, commit intended edits and obtain a fresh stage review.''"

record git_changes =
  gc_branch :: "string option"
  gc_conflicted :: bool
  gc_clean :: bool
  gc_headSha :: string

datatype approval_decision =
    Approval_refuse string
  | Approval_stop effect_stop
  | Approval_housekeeping string
  | Approval_continue

definition decideApproval ::
    "bool \<Rightarrow> string option \<Rightarrow> string \<Rightarrow> git_changes option \<Rightarrow> approval_decision" where
  "decideApproval reviewOnly reviewHeadSha managedBranch changes =
     (case changes of
        None \<Rightarrow> Approval_refuse
          ''Review approval requires the managed branch without unresolved Git operations.''
      | Some g \<Rightarrow>
          if gc_branch g \<noteq> Some managedBranch \<or> gc_conflicted g
          then Approval_refuse
            ''Review approval requires the managed branch without unresolved Git operations.''
          else if \<not> gc_clean g \<or> Some (gc_headSha g) \<noteq> reviewHeadSha
          then (if reviewOnly
                then Approval_stop (Stop Scope_review_snapshot_changed
                  ''Scope review changed its snapshot. Restore the reviewed integration state before resuming.'' None)
                else Approval_housekeeping approval_changed_worktree)
          else Approval_continue)"

definition decideApprovedHead :: "string \<Rightarrow> string option \<Rightarrow> effect_stop option" where
  "decideApprovedHead head reviewHeadSha =
     (if Some head \<noteq> reviewHeadSha
      then Some (Stop Review_baseline_changed
        ''The worktree changed during review. A fresh review is required.'' None)
      else None)"

definition approvalGate :: "bool \<Rightarrow> bool \<Rightarrow> string option \<Rightarrow> string \<Rightarrow> effect_gate" where
  "approvalGate reviewOnly adopts repositoryId reason =
     (if reviewOnly then Gate Record_scope_evidence None
        ''Independent review meets the completion policy. Ready to record scope verification or parent acceptance.''
      else if adopts then Gate Merge_approval
        (Some (no_refs\<lparr>ref_repositoryId := repositoryId\<rparr>))
        (reason @ '' The slice changes adopted check definitions: approving its merge adopts them, so review them with the merge.'')
      else Gate Merge_approval None reason)"

section \<open>The workflow's controller reviews\<close>

datatype review_authority = No_delegation | Delegation_unreadable

fun workflowAuthorityStop :: "review_authority \<Rightarrow> effect_stop" where
  "workflowAuthorityStop No_delegation = Stop Security_reviewer_unassigned
     ''The source requires a separate security review, but this roadmap assigns no reviewers. Run the slice outside the roadmap or from a cross-project roadmap that assigns the security reviewer.'' None"
| "workflowAuthorityStop Delegation_unreadable = Stop Authority_lost
     ''The roadmap delegation this cycle was started with can no longer be read, so no controller review can be authorized. Reconcile the roadmap before resuming.'' None"

definition securityReviewerStop :: effect_stop where
  "securityReviewerStop = Stop Security_reviewer_unassigned
     ''The plan requires a separate security review. Assign its reviewer responsibility in the roadmap before continuing.'' None"

definition workflowHeldGate :: "cycle_status \<Rightarrow> effect_gate option" where
  "workflowHeldGate status =
     (if status = Awaiting_merge then None
      else Some (Gate Scheduling_held None
        ''Technical review finished. Further controller reviews are held until scheduling resumes.''))"

definition securityReviewNotCurrent :: effect_stop where
  "securityReviewNotCurrent = Stop Workflow_obligation
     ''The separate security review finished, but its receipt is not current for this candidate and its runtime inputs. Inspect the review and the map runtime configuration before resuming.'' None"

record workflow_checkpoint =
  wk_id :: string
  wk_accepted :: bool
  wk_supported :: bool
  wk_assigned :: bool
  wk_sharedDecision :: bool
  wk_pending :: "string list"

datatype obligation_decision =
    Start_checkpoint_review string
  | Obligation_attention attention_code string attention_refs cycle_workflow
  | Obligation_gate string bool \<comment> \<open>\<open>controller-wait\<close>: the waiting text, and whether it is unchanged\<close>
  | Clear_waiting
  | Obligations_done

definition decision_question :: "workflow_checkpoint \<Rightarrow> workflow_question" where
  "decision_question c =
     \<lparr>wq_question = ''Approve the required architecture decision '' @ wk_id c
        @ '' in Shared architecture decisions.''
        @ (if wk_pending c \<noteq> [] then '' Its prerequisites are still pending: '' @ js_join '' '' (wk_pending c)
           else []),
      wq_destination = To_shared_decision, wq_checkpointId = Some (wk_id c)\<rparr>"

definition waiting_line :: "workflow_checkpoint \<Rightarrow> string" where
  "waiting_line c = wk_id c @ '': ''
     @ (if wk_pending c \<noteq> [] then js_join '' '' (wk_pending c)
        else if \<not> wk_supported c then ''Independent evidence or operator architecture approval is required in the roadmap.''
        else if \<not> wk_assigned c then ''Assign checkpoint reviewer responsibilities in the roadmap.''
        else ''Waiting for checkpoint evidence.'')"

definition decideObligations ::
    "cycle_status \<Rightarrow> cycle_workflow \<Rightarrow> workflow_checkpoint list \<Rightarrow> obligation_decision" where
  "decideObligations status workflow checkpoints =
     (let missing = filter (\<lambda>c. \<not> wk_accepted c) checkpoints in
      case find (\<lambda>c. wk_supported c \<and> wk_assigned c \<and> wk_pending c = []) missing of
        Some r \<Rightarrow> Start_checkpoint_review (wk_id r)
      | None \<Rightarrow>
        (case find (\<lambda>c. wk_pending c = [] \<and> (\<not> wk_supported c \<or> \<not> wk_assigned c)) missing of
           Some x \<Rightarrow>
             (let decisions = (if wk_sharedDecision x then filter wk_sharedDecision missing else []);
                  waiting = wk_id x @ '': ''
                    @ (if \<not> wk_assigned x
                       then ''Saved reviewer responsibilities do not authorize this checkpoint review.''
                       else ''This checkpoint requires evidence outside the supported controller review adapter.'')
                    @ '' Open roadmap requirements to resolve this obligation.''
              in Obligation_attention
                   (if wk_sharedDecision x then Shared_decision_required else Workflow_obligation)
                   (if wk_sharedDecision x
                    then ''Operator approval required for '' @ js_join '', '' (map wk_id decisions)
                         @ ''. Open Shared architecture decisions in the roadmap.''
                    else waiting)
                   (no_refs\<lparr>ref_checkpointId := Some (wk_id x)\<rparr>)
                   (workflow\<lparr>wf_questions := map decision_question decisions,
                             wf_waiting := Some (Some waiting)\<rparr>))
         | None \<Rightarrow>
             if missing \<noteq> [] then
               (let waiting = js_slice 4000 (js_join '' '' (map waiting_line missing))
                in Obligation_gate waiting
                     (present (wf_waiting workflow) = Some waiting \<and> status = Awaiting_merge))
             else if truthy (present (wf_waiting workflow)) then Clear_waiting else Obligations_done))"

definition reassessmentFailure :: "service_error \<Rightarrow> effect_stop option" where
  "reassessmentFailure e =
     (if retryableControllerError e
         \<or> (case e of Phase_gate_error bs \<Rightarrow> phase_gate_waiting bs | _ \<Rightarrow> False)
      then None
      else Some (Stop Reassessment_failed
        (''Controller reassessment could not be prepared: ''
         @ (if request_error e then error_message e
            else ''unexpected controller error. Inspect the worktree before resuming.'')) None))"

definition questionsHoldGrant :: "string \<Rightarrow> bool \<Rightarrow> bool" where
  "questionsHoldGrant report requiresCheckpoint =
     (if requiresCheckpoint then \<not> noOpenQuestions report else raisesOpenQuestions report)"

definition turnTakesGrant :: "turn_completed option \<Rightarrow> bool" where
  "turnTakesGrant turn =
     (case turn of None \<Rightarrow> False | Some t \<Rightarrow> tn_outcome t = Turn_success \<and> \<not> tn_truncated t)"

section \<open>Remediation\<close>

datatype remediation_decision =
    Remediation_refuse string
  | Remediation_stop effect_stop
  | Remediation_none
  | Remediate_with nat \<comment> \<open>the count of stalled reviews\<close>

text \<open>
  \<open>grant\<close> is an operator's grant with its number of additional rounds; a refusal that names
  how many are needed computes \<open>used - allowance + 1\<close>, which is positive there.
\<close>

definition needed_rounds_message :: "nat \<Rightarrow> nat \<Rightarrow> string" where
  "needed_rounds_message used allowance =
     string_of_nat used @ '' remediation rounds are used of '' @ string_of_nat allowance
     @ '' allowed. Authorize at least '' @ string_of_nat (used - allowance + 1)
     @ '' more to start another.''"

definition decideRemediation ::
    "work_cycle \<Rightarrow> nat option \<Rightarrow> string \<Rightarrow> bool \<Rightarrow> string option \<Rightarrow> remediation_decision" where
  "decideRemediation c grant completionReason assessmentComplete fingerprint =
     (let used = remediationUsed c; allowance = remediationAllowance c in
      if allowance + over grant 0 \<le> used then
        (case grant of
           Some n \<Rightarrow> Remediation_refuse
             (if n = 0
              then ''The remediation rounds are used up, so guidance alone cannot start another. Use Authorize more remediation; its instructions carry your answer.''
              else needed_rounds_message used allowance)
         | None \<Rightarrow> Remediation_stop (Stop Remediation_exhausted
             (''Remediation limit reached. '' @ completionReason) None))
      else if \<not> assessmentComplete then Remediation_none
      else
        let stalled = (if grant \<noteq> None then 0
                       else if fingerprint = cy_previousFindingFingerprint c
                         then cy_stalledReviews c + 1 else 0)
        in if 2 \<le> stalled
           then Remediation_stop (Stop Remediation_stalled
             ''Two remediation rounds left the same open findings and gate result. Operator attention is required.'' None)
           else Remediate_with stalled)"

datatype grant_decision = Grant_review | Grant_housekeeping string

definition decideGrant :: "work_cycle \<Rightarrow> bool \<Rightarrow> grant_decision" where
  "decideGrant c reviewAsksRemediation =
     (if cy_step c \<noteq> Review then Grant_housekeeping files_remain_after_finalization
      else if reviewAsksRemediation then Grant_review
      else Grant_housekeeping
        (if cy_finalizationProgress c \<noteq> None then stage_review_changed_worktree
         else approval_changed_worktree))"

datatype housekeeping_decision =
    Housekeeping_stop effect_stop | Housekeeping_refuse string | Housekeeping_remediate

definition decideHousekeeping :: "work_cycle \<Rightarrow> string \<Rightarrow> nat option \<Rightarrow> housekeeping_decision" where
  "decideHousekeeping c reason grant =
     (let used = remediationUsed c; allowance = remediationAllowance c in
      if used < allowance + over grant 0 then Housekeeping_remediate
      else if grant \<noteq> None then Housekeeping_refuse (needed_rounds_message used allowance)
      else Housekeeping_stop (Stop Remediation_exhausted (''Remediation limit reached. '' @ reason) None))"

definition decideFinalized :: "cycle_step \<Rightarrow> bool \<Rightarrow> effect_stop option" where
  "decideFinalized step unchangedTwice =
     (if step = Remediate \<and> unchangedTwice
      then Some (Stop Remediation_no_change
        ''Two remediations in a row changed nothing, so the next review would judge the same commit again. Read the implementer's report. Continue with guidance starts a fresh review of this commit with your guidance: if a finding belongs to another slice, tell the review to judge only the findings this slice may fix, so the repair can merge; the parent review then raises that finding again, and Delegate source fixes sends it to its owner.'' None)
      else None)"

definition commitFailure :: "service_error \<Rightarrow> effect_stop option" where
  "commitFailure e =
     (if e = Repository_busy then None
      else Some (Stop Implementation_commit_failed
        (if request_error e then error_message e
         else ''Worktree finalization failed. Inspect the checkpoint before resuming.'') None))"

definition continueDesignFailure :: "service_error \<Rightarrow> effect_stop" where
  "continueDesignFailure e = Stop Design_investigation_finished
     (''Design investigation answered every question, but the design could not continue automatically: ''
      @ (if request_error e then error_message e else ''unexpected controller error.'')
      @ '' Review the evidence, then use Resolve design questions to continue.'') None"

section \<open>A refresh from integration\<close>

definition decideRefresh :: "nat \<Rightarrow> nat \<Rightarrow> effect_stop option" where
  "decideRefresh refreshes limit =
     (if limit \<le> refreshes
      then Some (Stop Integration_refresh_limit
        ''Integration refresh limit reached. Update from integration manually, then resume for fresh review.'' None)
      else None)"

datatype refresh_failure = Refresh_restore | Refresh_stop effect_stop "conflict_details option"

definition refreshFailure :: "service_error \<Rightarrow> refresh_failure" where
  "refreshFailure e =
     (if e = Repository_busy then Refresh_restore
      else
        let message = (if request_error e then error_message e
              else ''Integration update failed. Inspect the worktree before resuming.'')
        in case e of
             Update_conflict d \<Rightarrow> Refresh_stop (Stop Integration_conflict message None) (Some d)
           | _ \<Rightarrow> Refresh_stop (Stop Integration_update_failed message None) None)"

section \<open>Staged finalization\<close>

definition ledgerFull :: effect_stop where
  "ledgerFull = Stop Finalization_ledger_full
     ''The finalization ledger reached its bounded size. Consolidate individually actionable obligations or follow-ups before continuing.'' None"

definition stageReportInvalid :: "string list option \<Rightarrow> effect_stop" where
  "stageReportInvalid issues = Stop Stage_report_invalid
     (case issues of
        Some xs \<Rightarrow> ''Staged report rejected: '' @ js_slice 3500 (js_join '' '' xs)
      | None \<Rightarrow> ''A complete staged review and recorded branch baseline are required.'') None"

definition decideStageInput :: "bool \<Rightarrow> obligation list \<Rightarrow> effect_stop option" where
  "decideStageInput noQuestions obligations =
     (if \<not> noQuestions then Some (Stop Finalization_needs_input
        ''Finalization has open questions. Provide answers before continuing; plan-change proposals require an explicit obligation decision.'' None)
      else if \<exists>ob\<in>set obligations. ob_status ob = Change_requested
      then Some (Stop Plan_change_decision
        ''A plan change needs your decision. Approve the exact proposed obligation change, or resume with guidance to preserve the adopted plan.'' None)
      else None)"

record stage_findings =
  sg_required :: "finding list"
  sg_checksFail :: bool
  sg_gaps :: bool

definition stageFindings ::
    "work_cycle \<Rightarrow> finding list \<Rightarrow> stage_check list \<Rightarrow> obligation list
     \<Rightarrow> stage_findings \<times> stage_kind option" where
  "stageFindings c findings checks obligations =
     (let parked = stagedFollowUps c;
          required = filter (\<lambda>f. fd_status f = Open \<and> \<not> optionalFinding f \<and> \<not> parkedFollowUp parked f) findings;
          checksFail = (\<exists>k\<in>set checks. chk_status k \<noteq> Check_passed);
          gaps = (\<exists>ob\<in>set obligations. ob_status ob \<noteq> Met);
          reopen = (if \<exists>f\<in>set required. fd_category f \<noteq> Some Conformance then Some Correctness
                    else if gaps \<or> required \<noteq> [] then Some Conformance else None)
      in (\<lparr>sg_required = required, sg_checksFail = checksFail, sg_gaps = gaps\<rparr>, reopen))"

definition nitsParked :: "work_cycle \<Rightarrow> stage_findings \<Rightarrow> bool \<Rightarrow> bool \<Rightarrow> bool \<Rightarrow> bool" where
  "nitsParked c g selectedOpen finalReview ownPass =
     (sg_required g \<noteq> [] \<and> (\<forall>f\<in>set (sg_required g). fd_severity f = Nit)
      \<and> \<not> sg_checksFail g \<and> \<not> sg_gaps g \<and> \<not> selectedOpen \<and> \<not> finalReview \<and> ownPass
      \<and> remediationAllowance c \<le> remediationUsed c)"

datatype stage_outcome = Stage_discovery | Stage_remediate | Stage_stop effect_stop | Stage_complete

definition decideStageOutcome ::
    "work_cycle \<Rightarrow> string list \<Rightarrow> review_report \<Rightarrow> stage_findings \<Rightarrow> bool \<Rightarrow> bool \<Rightarrow> bool \<Rightarrow> stage_outcome" where
  "decideStageOutcome c issues report g discovery selectedOpen finalReview =
     (let waived = (\<not> finalReview \<and> heldOnlyByParkedNits c (Complete issues report));
          gateMet = (rp_gateMet report \<or> waived)
      in if \<not> sg_checksFail g \<and> \<not> sg_gaps g \<and> sg_required g = [] \<and> gateMet \<and> discovery
         then Stage_discovery
         else if sg_required g \<noteq> [] \<or> sg_checksFail g \<or> sg_gaps g \<or> selectedOpen \<or> \<not> gateMet
         then Stage_remediate
         else if rp_verdict report \<noteq> Mergeable \<and> \<not> waived
         then Stage_stop (Stop Stage_review_changes_requested
           ''The reviewer still requests changes. Resolve its technical concern or obtain a corrected report; optional follow-ups alone do not require another implementation pass.'' None)
         else Stage_complete)"

datatype discovery_decision =
    Discovery_follow_ups "finding list"
  | Discovery_stop effect_stop
  | Discovery_select string
  | Discovery_complete

text \<open>The ledger as a keyed list: a choice of a known identity replaces it where it stands.\<close>

definition decideDiscovery ::
    "string \<Rightarrow> bool \<Rightarrow> finding list \<Rightarrow> finding list \<Rightarrow> discovery_decision" where
  "decideDiscovery stageName keepAsFollowUps choices followUps =
     (if choices = [] then Discovery_complete
      else if \<not> keepAsFollowUps
      then Discovery_select (stageName @ '': select the improvements worth addressing, or keep them as follow-up work and continue.'')
      else
        let ledger = fold (put_keyed fd_id) (followUps @ choices) []
        in if 500 < length ledger then Discovery_stop ledgerFull else Discovery_follow_ups ledger)"

datatype stage_completion = Next_stage nat | Promotion_gate effect_gate

definition decideStageCompletion :: "stage_state list \<Rightarrow> stage_completion" where
  "decideStageCompletion stages =
     (case find_index (\<lambda>s. st_status s \<noteq> Stage_completed) stages of
        None \<Rightarrow> Promotion_gate (Gate Final_promotion None
          ''All stages and the final independent review are complete on the current candidate. Review the evidence and follow-up work, then explicitly approve promotion.'')
      | Some i \<Rightarrow> Next_stage i)"

section \<open>Properties\<close>

text \<open>
  Contention never stops a cycle, and every other refusal the services state is decided by
  name: an error that another pass resolves by itself leaves no stop at any of the four places
  that classify errors, and a launch's error is left undecided only when it is contention or no
  refusal at all.
\<close>

theorem contention_never_stops:
  "(retryableControllerError e \<longrightarrow>
      decideFailure e = Retry \<and> decideRefusal e = None \<and> decideLaunch e = None
      \<and> reassessmentFailure e = None)
   \<and> (decideLaunch e = None \<longleftrightarrow> retryableControllerError e \<or> \<not> request_error e)
   \<and> (decideFailure e \<noteq> Retry \<longrightarrow> (\<exists>m. decideFailure e = Failure_stop (Stop Controller_error m None)))"
  by (cases e)
     (auto simp: retryableControllerError_def decideFailure_def decideRefusal_def decideLaunch_def
        reassessmentFailure_def readinessOf_def request_error_def)

theorem contention_never_stops_witness:
  "decideLaunch (Concurrent_error ''stale'') = None
   \<and> decideLaunch (Request_error ''no backend'') \<noteq> None"
  using contention_never_stops [of "Concurrent_error ''stale''"]
    contention_never_stops [of "Request_error ''no backend''"]
  by (auto simp: retryableControllerError_def request_error_def)

text \<open>
  Remediation is bounded: a round starts only while the rounds used are below the allowance
  and the rounds a grant adds, on a complete assessment, and after fewer than two reviews in a
  row that left the same open findings; a spent allowance without a grant is the limit stop.
\<close>

theorem remediation_bounded:
  "(decideRemediation c grant reason complete fp = Remediate_with n \<longrightarrow>
      remediationUsed c < remediationAllowance c + over grant 0 \<and> complete \<and> n < 2
      \<and> (n \<noteq> 0 \<longrightarrow> grant = None \<and> fp = cy_previousFindingFingerprint c
            \<and> n = cy_stalledReviews c + 1))
   \<and> (remediationAllowance c \<le> remediationUsed c \<and> grant = None \<longrightarrow>
      decideRemediation c grant reason complete fp
        = Remediation_stop (Stop Remediation_exhausted (''Remediation limit reached. '' @ reason) None))"
  by (auto simp: decideRemediation_def Let_def split: if_splits option.splits)

theorem remediation_bounded_witness:
  "decideRemediation (sample_cycle\<lparr>cy_remediationRounds := 3\<rparr>) None ''x'' True None
     = Remediation_stop (Stop Remediation_exhausted (''Remediation limit reached. '' @ ''x'') None)"
  using remediation_bounded [of "sample_cycle\<lparr>cy_remediationRounds := 3\<rparr>" None "''x''" True None 0]
  by (simp add: remediationUsed_def remediationAllowance_def currentFinalizationStage_def
      default_completion_policy_def)

text \<open>
  A refused grant names the least number of rounds that is accepted: at a spent allowance,
  for a review's remediation and for housekeeping alike, a grant is accepted exactly when it adds
  at least the \<open>used - allowance + 1\<close> rounds the refusal asks for.
\<close>

theorem refused_grant_names_enough:
  assumes "remediationAllowance c \<le> remediationUsed c"
  shows "(decideHousekeeping c r (Some n) = Housekeeping_remediate
            \<longleftrightarrow> remediationUsed c - remediationAllowance c + 1 \<le> n)
    \<and> ((\<exists>k. decideRemediation c (Some n) r True fp = Remediate_with k)
            \<longleftrightarrow> remediationUsed c - remediationAllowance c + 1 \<le> n)
    \<and> (n < remediationUsed c - remediationAllowance c + 1 \<longrightarrow>
          decideHousekeeping c r (Some n)
            = Housekeeping_refuse (needed_rounds_message (remediationUsed c) (remediationAllowance c)))"
  using assms by (auto simp: decideHousekeeping_def decideRemediation_def Let_def)

theorem refused_grant_names_enough_witness:
  "decideHousekeeping (sample_cycle\<lparr>cy_remediationRounds := 4\<rparr>) ''x'' (Some 2) = Housekeeping_remediate"
  using refused_grant_names_enough [of "sample_cycle\<lparr>cy_remediationRounds := 4\<rparr>" "''x''" 2 None]
  by (simp add: remediationUsed_def remediationAllowance_def currentFinalizationStage_def
      default_completion_policy_def)

lemma decision_question_id [simp]: "wq_checkpointId (decision_question c) = Some (wk_id c)"
  by (simp add: decision_question_def)

text \<open>
  The workflow's merge checkpoints: a controller review starts only for a checkpoint that is
  not accepted, is supported and assigned and waits on nothing; the controller is done with them
  exactly when every checkpoint is accepted; and a shared-decision stop asks for every unaccepted
  decision at once, the one it names among them.
\<close>

theorem obligations_decided:
  "(decideObligations st w cs = Start_checkpoint_review i \<longrightarrow>
      (\<exists>c\<in>set cs. wk_id c = i \<and> \<not> wk_accepted c \<and> wk_supported c \<and> wk_assigned c \<and> wk_pending c = []))
   \<and> (decideObligations st w cs \<in> {Clear_waiting, Obligations_done} \<longleftrightarrow> (\<forall>c\<in>set cs. wk_accepted c))
   \<and> (\<forall>m r w'. decideObligations st w cs = Obligation_attention Shared_decision_required m r w' \<longrightarrow>
        map wq_checkpointId (wf_questions w')
          = map (\<lambda>c. Some (wk_id c)) (filter (\<lambda>c. \<not> wk_accepted c \<and> wk_sharedDecision c) cs)
        \<and> ref_checkpointId r \<in> set (map wq_checkpointId (wf_questions w')))"
proof -
  let ?m = "filter (\<lambda>c. \<not> wk_accepted c) cs"
  have none: "find P ?m = None \<Longrightarrow> find Q ?m = None \<Longrightarrow> ?m = [] \<longleftrightarrow> (\<forall>c\<in>set cs. wk_accepted c)" for P Q
    by (auto simp: filter_empty_conv)
  have start: "decideObligations st w cs = Start_checkpoint_review i \<Longrightarrow>
      \<exists>c\<in>set cs. wk_id c = i \<and> \<not> wk_accepted c \<and> wk_supported c \<and> wk_assigned c \<and> wk_pending c = []"
    by (auto simp: decideObligations_def Let_def split: option.splits if_splits dest!: find_Some_in)
  have finish: "decideObligations st w cs \<in> {Clear_waiting, Obligations_done} \<longleftrightarrow> (\<forall>c\<in>set cs. wk_accepted c)"
    by (auto simp: decideObligations_def Let_def filter_empty_conv split: option.splits if_splits
        dest!: find_Some_in)
  have shared: "decideObligations st w cs = Obligation_attention Shared_decision_required m r w' \<Longrightarrow>
        map wq_checkpointId (wf_questions w')
          = map (\<lambda>c. Some (wk_id c)) (filter (\<lambda>c. \<not> wk_accepted c \<and> wk_sharedDecision c) cs)
        \<and> ref_checkpointId r \<in> set (map wq_checkpointId (wf_questions w'))" for m r w'
  proof -
    assume dec: "decideObligations st w cs = Obligation_attention Shared_decision_required m r w'"
    let ?d = "filter wk_sharedDecision ?m"
    from dec obtain x where x: "x \<in> set ?d" "wf_questions w' = map decision_question ?d"
      "ref_checkpointId r = Some (wk_id x)"
      by (auto simp: decideObligations_def Let_def split: option.splits if_splits dest!: find_Some_in)
    moreover have "?d = filter (\<lambda>c. \<not> wk_accepted c \<and> wk_sharedDecision c) cs"
      by (simp add: filter_filter conj_commute)
    ultimately show ?thesis by (auto simp: comp_def)
  qed
  from start finish shared show ?thesis by blast
qed

definition sample_workflow :: cycle_workflow where
  "sample_workflow = \<lparr>wf_reassessments = 0, wf_questions = [], wf_securityRequired = None,
     wf_activeReview = None, wf_securityReceipt = None, wf_waiting = None\<rparr>"

definition sample_checkpoint :: workflow_checkpoint where
  "sample_checkpoint = \<lparr>wk_id = ''ADR-1'', wk_accepted = False, wk_supported = True,
     wk_assigned = True, wk_sharedDecision = False, wk_pending = []\<rparr>"

theorem obligations_decided_witness:
  "decideObligations Awaiting_merge sample_workflow [sample_checkpoint] = Start_checkpoint_review ''ADR-1''
   \<and> (\<exists>c\<in>set [sample_checkpoint]. wk_id c = ''ADR-1'' \<and> \<not> wk_accepted c \<and> wk_supported c
        \<and> wk_assigned c \<and> wk_pending c = [])"
proof -
  have d: "decideObligations Awaiting_merge sample_workflow [sample_checkpoint]
      = Start_checkpoint_review ''ADR-1''"
    by (simp add: decideObligations_def sample_checkpoint_def)
  with obligations_decided [of Awaiting_merge sample_workflow "[sample_checkpoint]" "''ADR-1''"]
  show ?thesis by blast
qed

text \<open>
  Parking optional work never lets a stage skip required work: nits are parked only in the
  stage's own pass, outside the final review, when its checks pass, its obligations are met and
  its allowance is spent; and a stage completes only with nothing required left, every check
  passed and every obligation met, the final review only with its own gate met and its own
  verdict mergeable.
\<close>

theorem stage_completion_sound:
  assumes "decideStageOutcome c is report g discovery selectedOpen finalReview = Stage_complete"
  shows "sg_required g = [] \<and> \<not> sg_checksFail g \<and> \<not> sg_gaps g \<and> \<not> selectedOpen
    \<and> (finalReview \<longrightarrow> rp_gateMet report \<and> rp_verdict report = Mergeable)
    \<and> (rp_gateMet report \<and> rp_verdict report = Mergeable \<or> heldOnlyByParkedNits c (Complete is report))
    \<and> (\<forall>h. nitsParked c h selectedOpen finalReview own \<longrightarrow>
          \<not> finalReview \<and> own \<and> \<not> sg_checksFail h \<and> \<not> sg_gaps h
          \<and> remediationAllowance c \<le> remediationUsed c)"
  using assms by (auto simp: decideStageOutcome_def Let_def nitsParked_def split: if_splits)

definition clean_findings :: stage_findings where
  "clean_findings = \<lparr>sg_required = [], sg_checksFail = False, sg_gaps = False\<rparr>"

definition clean_report :: review_report where
  "clean_report = \<lparr>rp_scopeEvidence = None, rp_verdict = Mergeable, rp_gateMet = True,
     rp_gateEvidence = [], rp_findings = [], rp_finalization = None\<rparr>"

theorem stage_completion_sound_witness:
  "rp_gateMet clean_report \<and> rp_verdict clean_report = Mergeable"
proof -
  have "decideStageOutcome sample_cycle [] clean_report clean_findings False False True = Stage_complete"
    by (simp add: decideStageOutcome_def clean_report_def clean_findings_def)
  from stage_completion_sound [OF this] show ?thesis by blast
qed

text \<open>
  Promotion waits for every stage: after a completed stage the controller moves to the first
  stage that is not completed, and opens the promotion gate exactly when none is left.
\<close>

theorem promotion_waits_for_stages:
  "(\<exists>g. decideStageCompletion stages = Promotion_gate g) = (\<forall>s\<in>set stages. st_status s = Stage_completed)
   \<and> (\<forall>i. decideStageCompletion stages = Next_stage i \<longrightarrow>
        i < length stages \<and> st_status (stages ! i) \<noteq> Stage_completed
        \<and> (\<forall>j<i. st_status (stages ! j) = Stage_completed))"
  using find_index_Some [of "\<lambda>s. st_status s \<noteq> Stage_completed" stages]
  by (auto simp: decideStageCompletion_def find_index_None split: option.splits)

definition sample_stage :: "stage_status \<Rightarrow> stage_state" where
  "sample_stage st = \<lparr>st_id = ''s1'', st_status = st, st_remediationRounds = 0,
     st_additionalRemediationRounds = 0, st_selectedFindingIds = [], st_completedRunId = None,
     st_headSha = None, st_targetSha = None\<rparr>"

theorem promotion_waits_for_stages_witness:
  "st_status ([sample_stage Stage_completed, sample_stage Stage_pending] ! 1) \<noteq> Stage_completed
   \<and> (\<exists>g. decideStageCompletion [sample_stage Stage_completed] = Promotion_gate g)"
proof -
  have "decideStageCompletion [sample_stage Stage_completed, sample_stage Stage_pending] = Next_stage 1"
    by (simp add: decideStageCompletion_def sample_stage_def)
  moreover have "st_status (sample_stage Stage_completed) = Stage_completed" by (simp add: sample_stage_def)
  ultimately show ?thesis
    using promotion_waits_for_stages [of "[sample_stage Stage_completed, sample_stage Stage_pending]"]
      promotion_waits_for_stages [of "[sample_stage Stage_completed]"] by simp
qed

text \<open>
  The follow-up ledger: a discovery that keeps its optional findings loses no earlier
  follow-up, records every choice as the current review reports it, holds one entry per
  identity, and never exceeds 500 entries.
\<close>

theorem discovery_ledger:
  assumes "decideDiscovery name keep choices followUps = Discovery_follow_ups ledger"
  shows "fd_id ` set ledger = fd_id ` set followUps \<union> fd_id ` set choices
    \<and> distinct (map fd_id ledger) \<and> length ledger \<le> 500
    \<and> (distinct (map fd_id choices) \<longrightarrow>
        (\<forall>f\<in>set choices. find (\<lambda>x. fd_id x = fd_id f) ledger = Some f))"
proof -
  let ?l = "fold (put_keyed fd_id) (followUps @ choices) []"
  have ledger: "ledger = ?l" and len: "length ?l \<le> 500"
    using assms by (auto simp: decideDiscovery_def Let_def split: if_splits)
  have "find (\<lambda>x. fd_id x = fd_id f) ledger = Some f"
    if d: "distinct (map fd_id choices)" and f: "f \<in> set choices" for f
  proof -
    have "find (\<lambda>x. fd_id x = fd_id f) (rev choices) = Some f"
      using find_key_distinct [of fd_id "rev choices" f] d f by (simp flip: rev_map)
    then show ?thesis
      unfolding ledger find_fold_put_keyed rev_append by (simp add: find_append)
  qed
  then show ?thesis
    using fold_put_keyed [of fd_id "followUps @ choices" "[]"] ledger len by (auto simp: image_Un)
qed

definition sample_finding :: "severity \<Rightarrow> finding" where
  "sample_finding sev = \<lparr>fd_id = ''F-1'', fd_severity = sev, fd_category = Some Polish,
     fd_status = Open, fd_title = ''t'', fd_location = None, fd_explanation = ''e'',
     fd_recommendation = ''r'', fd_disposition = None, fd_owningSlice = None\<rparr>"

theorem discovery_ledger_witness:
  "fd_id ` set [sample_finding Minor] = {''F-1''} \<and> length [sample_finding Minor] \<le> 500"
proof -
  have "decideDiscovery ''Polish'' True [sample_finding Minor] [sample_finding Nit]
      = Discovery_follow_ups [sample_finding Minor]"
    by (simp add: decideDiscovery_def sample_finding_def)
  from discovery_ledger [OF this] show ?thesis by (simp add: sample_finding_def)
qed

end
