(* ===== verification/Step_Outcome.thy ===== *)
theory Step_Outcome
  imports Effects
begin

text \<open>
  What the controller does once a step has a run
  (\<open>apps/server/src/services/cycle/core/step-outcome.ts\<close>): service recovery, the
  automatic repair of a report's structure, the background-work continuation, the workflow,
  design, implementation and review classifications, and the outage rule on top. The facts
  are the record \<open>step_facts\<close>; the decoders of the fenced blocks (JSON and schema) are
  two of its fields.
\<close>

section \<open>Facts and decisions\<close>

record step_facts =
  so_run :: agent_run
  so_now :: time
  so_reviewOnly :: bool
  so_drainInterrupted :: bool
  so_turn :: "turn_completed option"
  so_ended :: "run_finished option"
  so_assistantMessages :: "message_payload list"
  so_finalization :: "work_cycle \<Rightarrow> finalization option"
  so_workflowQuestions :: "work_cycle \<Rightarrow> string \<Rightarrow> workflow_question list"
  so_designDependencyState :: "work_cycle \<Rightarrow> design_requirement list \<Rightarrow> bool \<times> string list"
  so_reviewAssessment :: "assessment option"
  so_scopeIssue :: "assessment option \<Rightarrow> string option"
  so_designRecoverySource :: "work_cycle \<Rightarrow> string option"
  so_decodeWorkflow :: "string \<Rightarrow> workflow_report option"
  so_decodeDesign :: "string \<Rightarrow> string + design_item list"

definition step_attention_codes :: "attention_code list" where
  "step_attention_codes =
     [Service_failure_not_retryable, Service_retries_exhausted, Provider_credentials_rejected,
      Exit_with_open_questions, Completion_continuations_exhausted, Background_work_unsafe,
      Step_incomplete, Resolution_needs_guidance, Workflow_report_invalid,
      Workflow_questions_disagree, Shared_decision_required, Work_item_questions,
      Finalization_needs_input, Design_investigation_finished, Design_report_invalid,
      Design_dependency_continuations_exhausted, Design_dependency_unsupported,
      Design_planning_conflict, Design_decision_required, Design_open_questions,
      Implementation_open_questions, Review_open_questions_at_limit, Review_open_questions,
      Finalization_report_rejected, Legacy_finalization_retired, Scope_review_open_questions,
      Scope_review_recovery, Review_needs_attention, Restart_session_lost,
      Agent_environment_unavailable, Agent_model_misnamed]"

datatype outcome =
    Wait_for_run
  | End_turn
  | Resume_after_restart
  | Attention (oc_code: attention_code) (oc_message: string) (oc_repairs: "nat option")
  | Repair_output attention_code "string list" nat
  | Schedule_service_retry provider_recovery "time option" string
  | Next_step cycle_step cycle_changes string
  | Advance_resolution
  | Continue_design string
  | Design_wait time "design_requirement list" string
  | Finalize_implementation
  | Advance_finalization_stage bool
  | Remediate_review bool
  | Approve_review bool string

text \<open>A decision is an outcome with the workflow classification to record before it, if any.\<close>

record step_decision =
  dec_outcome :: outcome
  dec_workflow :: "cycle_workflow option"

definition plainly :: "outcome \<Rightarrow> step_decision" where
  "plainly d = \<lparr>dec_outcome = d, dec_workflow = None\<rparr>"

definition attention_outcome :: "attention_code \<Rightarrow> string \<Rightarrow> outcome" where
  "attention_outcome code m = Attention code m None"

lemma plainly_sel [simp]: "dec_outcome (plainly d) = d" "dec_workflow (plainly d) = None"
  by (simp_all add: plainly_def)

definition questions_at_limit :: string where
  "questions_at_limit = ''Remediation limit reached. Review needs your input. Answer the Open questions when authorizing more remediation.''"

definition checkpoint_issue :: string where
  "checkpoint_issue = ''The final report must contain exactly one \"## Open questions\" section containing only \"none\" when nothing needs the operator, or listing each question for the operator.''"

definition review_report_issue :: string where
  "review_report_issue = ''A complete, valid structured review report is required.''"

definition service_retry_delays :: "int list" where
  "service_retry_delays = [60000, 300000, 900000]"

definition quota_reset_margin :: int where "quota_reset_margin = 120000"

definition credential_retry_delays :: "int list" where
  "credential_retry_delays = [300000, 900000, 1800000]"

definition quota_wait_limit :: int where "quota_wait_limit = 6 * 60 * 60000"

definition reviewAtRemediationLimit :: "work_cycle \<Rightarrow> step_facts \<Rightarrow> bool" where
  "reviewAtRemediationLimit c f =
     (if cy_step c \<noteq> Review \<or> remediationUsed c < remediationAllowance c then False
      else (case so_reviewAssessment f of
              Some (Complete is r) \<Rightarrow>
                \<not> truthy (so_scopeIssue f (Some (Complete is r)))
                \<and> cd_action (evaluateCycleCompletion c (Some (Complete is r))) = Act_remediate
            | _ \<Rightarrow> False))"

section \<open>Service recovery\<close>

definition recovery_attempts :: "work_cycle \<Rightarrow> nat" where
  "recovery_attempts c = (case provider_recovery_of c of None \<Rightarrow> 0 | Some r \<Rightarrow> pr_attempts r)"

definition recovery_model :: "work_cycle \<Rightarrow> agent_run \<Rightarrow> string option" where
  "recovery_model c run =
     (case (case provider_recovery_of c of None \<Rightarrow> None | Some r \<Rightarrow> as_model (pr_profile r)) of
        Some m \<Rightarrow> Some m
      | None \<Rightarrow> (case run_model run of Some m \<Rightarrow> Some m | None \<Rightarrow> run_resolvedModel run))"

text \<open>When a used-up allowance resets, if the failure says so with a date that parses.\<close>

definition reset_at :: "provider_failure \<Rightarrow> time option" where
  "reset_at failure =
     (if fl_kind failure = Fail_quota \<and> truthy (fl_resetsAt failure)
      then fl_resetsAtMs failure else None)"

definition quota_wait :: "step_facts \<Rightarrow> provider_failure \<Rightarrow> bool" where
  "quota_wait f failure =
     (case reset_at failure of None \<Rightarrow> False | Some t \<Rightarrow> t - so_now f \<le> quota_wait_limit)"

definition recovery_retryable :: "work_cycle \<Rightarrow> step_facts \<Rightarrow> provider_failure \<Rightarrow> bool \<Rightarrow> bool" where
  "recovery_retryable c f failure eligible =
     (let model = recovery_model c (so_run f) in
      fl_safeToRetry failure
      \<and> (fl_kind failure \<in> {Fail_capacity, Fail_unavailable, Fail_transport}
         \<or> quota_wait f failure \<or> fl_kind failure = Fail_credential_rejected)
      \<and> eligible
      \<and> \<not> ownsIntegrationResolution c
      \<and> truthy model \<and> model \<noteq> Some ''default'')"

definition evidence_text :: "provider_failure \<Rightarrow> string" where
  "evidence_text failure = over (fl_evidence failure) ''none recorded''"

definition recovery_delay :: "work_cycle \<Rightarrow> step_facts \<Rightarrow> provider_failure \<Rightarrow> int" where
  "recovery_delay c f failure =
     (let delays = (if fl_kind failure = Fail_credential_rejected then credential_retry_delays
                    else service_retry_delays);
          backoff = over (nth_opt delays (recovery_attempts c)) (delays ! 2)
      in case (if quota_wait f failure then reset_at failure else None) of
           Some t \<Rightarrow> max backoff (t + quota_reset_margin - so_now f)
         | None \<Rightarrow> backoff)"

text \<open>The stop of a failure that cannot, or can no longer, be retried (without a stop of the step).\<close>

definition recovery_stop :: "work_cycle \<Rightarrow> step_facts \<Rightarrow> provider_failure \<Rightarrow> bool \<Rightarrow> outcome" where
  "recovery_stop c f failure eligible =
     (let spent = (3 \<le> recovery_attempts c) in
      if fl_kind failure = Fail_credential_rejected
      then attention_outcome Provider_credentials_rejected
        (fl_message failure @ '' Evidence: '' @ evidence_text failure @ ''. ''
         @ (if spent
            then ''The three service retries for this step are spent, and the provider still rejects the credentials. Check the provider's status, then resume; resuming grants a new step window.''
            else ''Automatic retry is not safe here. Inspect the outcome, then resume once the provider accepts requests.''))
      else attention_outcome (if spent then Service_retries_exhausted else Service_failure_not_retryable)
        (fl_message failure @ '' ''
         @ (if spent
            then ''The three service retries are exhausted. Inspect the outcome; an explicit resume grants a new step window.''
            else if fl_kind failure = Fail_quota \<and> truthy (fl_resetsAt failure)
                    \<and> fl_safeToRetry failure \<and> eligible \<and> \<not> quota_wait f failure
            then ''The allowance resets at '' @ over (fl_resetsAt failure) []
                 @ '', too far away to wait for automatically. Resume after the reset.''
            else ''Automatic retry is not safe or applicable. Inspect the outcome and provide any required guidance before resuming.'')))"

definition recovery_profile :: "work_cycle \<Rightarrow> agent_run \<Rightarrow> agent_profile" where
  "recovery_profile c run =
     (case provider_recovery_of c of
        Some r \<Rightarrow> pr_profile r
      | None \<Rightarrow> \<lparr>as_backend = run_backend run, as_model = recovery_model c run,
                as_reasoningEffort = run_reasoningEffort run,
                ap_permissionMode = run_permissionMode run\<rparr>)"

definition serviceRecovery ::
    "work_cycle \<Rightarrow> step_facts \<Rightarrow> provider_failure \<Rightarrow> bool \<Rightarrow> step_decision option \<Rightarrow> step_decision" where
  "serviceRecovery c f failure eligible stop =
     (let attempts = recovery_attempts c in
      if \<not> recovery_retryable c f failure eligible \<or> 3 \<le> attempts then
        (case stop of
           Some d \<Rightarrow>
             (case dec_outcome d of
                Attention code m reps \<Rightarrow>
                  d\<lparr>dec_outcome := Attention code
                     (m @ '' '' @ fl_message failure @ '' Evidence: '' @ evidence_text failure @ ''.'') reps\<rparr>
              | _ \<Rightarrow> d)
         | None \<Rightarrow> plainly (recovery_stop c f failure eligible))
      else
        let quotaWait = quota_wait f failure;
            credentials = (fl_kind failure = Fail_credential_rejected);
            delay = recovery_delay c f failure;
            nextRetryAt = so_now f + delay;
            nth = string_of_nat (attempts + 1)
        in plainly (Schedule_service_retry
             \<lparr>pr_attempts = attempts, pr_sourceRunId = run_id (so_run f), pr_failure = failure,
              pr_profile = recovery_profile c (so_run f), pr_nextRetryAt = Some nextRetryAt\<rparr>
             (if quotaWait \<or> credentials then Some (cy_runDeadlineAt c + delay) else None)
             (if quotaWait
              then fl_message failure @ '' The allowance resets at '' @ over (fl_resetsAt failure) []
                @ ''; retry '' @ nth @ '' of 3 on the same agent is scheduled for '' @ iso_of nextRetryAt
                @ '', and the step time limit moves with the wait. Roadmap pauses hold retries.''
              else if credentials
              then fl_message failure @ '' Evidence: '' @ evidence_text failure @ ''. Retry '' @ nth
                @ '' of 3 is scheduled for '' @ iso_of nextRetryAt
                @ '', and the step time limit moves with the wait. Roadmap pauses hold retries.''
              else fl_message failure @ '' Service retry '' @ nth @ '' of 3 is scheduled for ''
                @ iso_of nextRetryAt @ ''. Roadmap pauses hold retries.'')))"

definition outage_question_stops :: "attention_code list" where
  "outage_question_stops =
     [Exit_with_open_questions, Work_item_questions, Design_open_questions,
      Implementation_open_questions, Review_open_questions, Review_open_questions_at_limit,
      Scope_review_open_questions]"

section \<open>A structural fault in the final report\<close>

definition repairs_made :: "work_cycle \<Rightarrow> nat" where
  "repairs_made c = (case output_repair_of c of None \<Rightarrow> 0 | Some r \<Rightarrow> or_attempts r)"

definition formatFault ::
    "work_cycle \<Rightarrow> step_facts \<Rightarrow> attention_code \<Rightarrow> string \<Rightarrow> string list \<Rightarrow> report_fault \<Rightarrow> outcome" where
  "formatFault c f code message issues fault =
     (let attempts = repairs_made c;
          stop = (\<lambda>m. Attention code m (if attempts = 0 then None else Some attempts))
      in if fault = Content_fault then stop message
         else if attempts < output_repair_limit \<and> run_backendSessionId (so_run f) \<noteq> None
         then Repair_output code (map (js_slice 1000) (take 20 issues)) (attempts + 1)
         else if attempts = 0 then stop message
         else stop (message @ '' '' @ string_of_nat attempts @ '' automatic format ''
                    @ (if attempts = 1 then ''repair'' else ''repairs'')
                    @ '' did not produce a valid report.''))"

section \<open>A run that ended with a typed reason\<close>

text \<open>\<open>text.replace(/\s+/g, ' ')\<close>.\<close>

fun collapse_spaces :: "string \<Rightarrow> string" where
  "collapse_spaces [] = []"
| "collapse_spaces (c # cs) =
     (if is_space c
      then (case cs of
              d # ds \<Rightarrow> if is_space d then collapse_spaces cs else CHR '' '' # collapse_spaces cs
            | [] \<Rightarrow> [CHR '' ''])
      else c # collapse_spaces cs)"

definition explicit_questions :: "step_facts \<Rightarrow> bool" where
  "explicit_questions f =
     (case so_turn f of None \<Rightarrow> False | Some t \<Rightarrow> raisesOpenQuestions (tn_resultText t))"

definition continuation_attempts :: "work_cycle \<Rightarrow> nat" where
  "continuation_attempts c = over (sa_resultContinuations (attempt_of c)) 0"

definition continuable :: "work_cycle \<Rightarrow> step_facts \<Rightarrow> run_finished \<Rightarrow> bool" where
  "continuable c f ended =
     (run_status (so_run f) = Run_failed
      \<and> rf_reason ended = Some Background_work_incomplete
      \<and> rf_exitCode ended = Some 0
      \<and> \<not> truthy (rf_signal ended)
      \<and> (case so_turn f of None \<Rightarrow> False | Some t \<Rightarrow> tn_outcome t = Turn_success \<and> \<not> tn_truncated t)
      \<and> \<not> explicit_questions f
      \<and> \<not> ownsIntegrationResolution c
      \<and> continuation_attempts c < 2)"

definition continuation_changes :: "work_cycle \<Rightarrow> cycle_changes" where
  "continuation_changes c = no_changes
     \<lparr>ch_attempt := no_attempt_changes
        \<lparr>ac_resultContinuations := Put (continuation_attempts c + 1),
         ac_providerRecovery := Put (provider_recovery_of c),
         ac_housekeepingInstructions :=
           (case sa_housekeepingInstructions (attempt_of c) of Some h \<Rightarrow> Put h | None \<Rightarrow> Drop)\<rparr>,
      ch_runDeadlineAt := Some (cy_runDeadlineAt c),
      ch_instructions := Some (cy_instructions c),
      ch_reason := Some (''Background work finished after the agent exited. Starting completion continuation ''
        @ string_of_nat (continuation_attempts c + 1) @ '' of 2 within the original step time limit.'')\<rparr>"

definition background_outcome :: "work_cycle \<Rightarrow> step_facts \<Rightarrow> run_finished \<Rightarrow> outcome" where
  "background_outcome c f ended =
     (if continuable c f ended
      then Next_step (cy_step c) (continuation_changes c) ''continue-incomplete-result''
      else if explicit_questions f then attention_outcome Exit_with_open_questions
        ''The agent exited before completion and reported open questions. Provide guidance before resuming.''
      else if 2 \<le> continuation_attempts c then attention_outcome Completion_continuations_exhausted
        ''Background-work completion recovery exhausted its two continuation attempts. Inspect the latest outcome and resume with guidance.''
      else attention_outcome Background_work_unsafe
        (over (rf_message ended) ''Background work did not complete safely. Inspect the outcome before resuming.''))"

section \<open>The workflow report of a slice's step\<close>

definition workflow_attention :: "work_cycle \<Rightarrow> step_facts \<Rightarrow> workflow_question list \<Rightarrow> outcome" where
  "workflow_attention c f questions =
     (if \<exists>q\<in>set questions. wq_destination q = To_shared_decision
      then attention_outcome Shared_decision_required
        ''Operator decision required. Open Shared architecture decisions for the named ADR; answer any work-item questions in Continue with guidance.''
      else if reviewAtRemediationLimit c f
      then attention_outcome Review_open_questions_at_limit questions_at_limit
      else attention_outcome Work_item_questions
        ''Operator input required. Answer the work-item questions in Continue with guidance.'')"

definition classified_workflow :: "work_cycle \<Rightarrow> workflow_question list \<Rightarrow> workflow_report \<Rightarrow> cycle_workflow" where
  "classified_workflow c questions r =
     (let base = over (cy_workflow c) \<lparr>wf_reassessments = 0, wf_questions = [], wf_securityRequired = None,
                    wf_activeReview = None, wf_securityReceipt = None, wf_waiting = None\<rparr>
      in base\<lparr>wf_questions := questions,
              wf_securityRequired := Some (wf_securityRequired base = Some True \<or> wr_securityRequired r)\<rparr>)"

text \<open>
  A stop, or the cycle with the report's classification and the record of it when it changed.
\<close>

definition classify_workflow ::
    "work_cycle \<Rightarrow> step_facts \<Rightarrow> string \<Rightarrow> step_decision + (work_cycle \<times> cycle_workflow option)" where
  "classify_workflow c f text =
     (if scope_kind_of c \<noteq> Some Slice \<or> cy_step c = Design then Inr (c, None)
      else
        let parsed = parseWorkflowReport (so_decodeWorkflow f) text;
            fault = (\<lambda>issue. Inl (plainly (formatFault c f Workflow_report_invalid
              ''Workflow report needs correction. The controller cannot safely classify these questions or accept specialist evidence.''
              [issue] Format_fault)))
        in case parsed of
             Workflow_invalid reason \<Rightarrow> fault reason
           | Workflow_absent \<Rightarrow>
               if active_review_of c \<noteq> None
               then fault ''This specialist review requires one complete workflow report.''
               else Inr (c, None)
           | Workflow_complete r \<Rightarrow>
               (let questions = so_workflowQuestions f c text in
                if (questions = []) \<noteq> noOpenQuestions text
                then Inl (plainly (attention_outcome Workflow_questions_disagree
                  ''Workflow report and Open questions disagree. Inspect the unanswered questions before continuing.''))
                else
                  let w = classified_workflow c questions r;
                      update = (if Some w = cy_workflow c then None else Some w);
                      c' = c\<lparr>cy_workflow := Some w\<rparr>
                  in if questions \<noteq> []
                     then Inl \<lparr>dec_outcome = workflow_attention c' f questions, dec_workflow = update\<rparr>
                     else Inr (c', update)))"

section \<open>Design\<close>

definition resolved_items :: "design_item list \<Rightarrow> bool" where
  "resolved_items items = (items \<noteq> [] \<and> (\<forall>i\<in>set items. di_kind i = Item_resolved))"

text \<open>What an investigation run's report means (its recovery's mode is \<open>investigate\<close>).\<close>

definition investigation_outcome :: "work_cycle \<Rightarrow> step_facts \<Rightarrow> string \<Rightarrow> outcome" where
  "investigation_outcome c f text =
     (let operators =
            (case parseDesignReport (so_decodeDesign f) (over (so_designRecoverySource f c) []) of
               Design_complete items \<Rightarrow>
                 (\<exists>i\<in>set items. di_kind i = Item_operator_decision \<or> di_kind i = Item_planning_conflict)
             | _ \<Rightarrow> False);
          answered =
            (case parseDesignReport (so_decodeDesign f) text of
               Design_complete items \<Rightarrow> resolved_items items
             | _ \<Rightarrow> False)
      in if \<not> operators \<and> answered \<and> designHasNoOpenQuestions text False
         then Continue_design
           ''Design investigation answered every question with cited sources. Continuing the design with that evidence.''
         else attention_outcome Design_investigation_finished
           ''Design investigation finished. Review the evidence and answers, then use Resolve design questions to continue.'')"

text \<open>What the items a design left unresolved lead to; \<open>None\<close> when there are none.\<close>

definition unresolved_outcome :: "work_cycle \<Rightarrow> step_facts \<Rightarrow> design_item list \<Rightarrow> outcome option" where
  "unresolved_outcome c f items =
     (let unresolved = filter (\<lambda>i. di_kind i \<noteq> Item_resolved) items in
      if unresolved = [] then None
      else if \<forall>i\<in>set unresolved. di_kind i = Item_dependency then
        (let requirements = List.map_filter di_dependency unresolved;
             state = so_designDependencyState f c requirements
         in Some
           (if fst state \<and> over (cy_designDependencyContinuations c) 0 < 2
            then Design_wait (so_now f) requirements
              (if snd state \<noteq> []
               then ''Design waiting for mapped predecessors: '' @ js_join '', '' (snd state)
                    @ ''. It will recheck automatically when ready.''
               else ''Mapped predecessors are ready; scheduling a bounded design recheck.'')
            else if fst state
            then attention_outcome Design_dependency_continuations_exhausted
              ''Two automatic dependency continuations have been used. Review the latest design and authorize recovery.''
            else attention_outcome Design_dependency_unsupported (js_join '' '' (snd state))))
      else Some
        (if \<exists>i\<in>set unresolved. di_kind i = Item_planning_conflict
         then attention_outcome Design_planning_conflict
           ''Design identified a planning conflict. Review its classification and proposed scope change before continuing.''
         else attention_outcome Design_decision_required
           ''Design needs an operator decision. Use Shared architecture decisions for reusable ADR approvals, then continue design recovery.''))"

definition design_questions_outcome :: "work_cycle \<Rightarrow> step_facts \<Rightarrow> string \<Rightarrow> outcome" where
  "design_questions_outcome c f text =
     (if \<not> designHasNoOpenQuestions text False then
        (let message = ''Design has open questions or lacks an explicit \"## Open questions\" section containing only \"none\". Use Resolve design questions to collect evidence and provide guidance.''
         in if qs_status (openQuestionsSection text) = Q_questions
            then attention_outcome Design_open_questions message
            else formatFault c f Design_open_questions message
              [checkpoint_issue @ '' In a design report it must be the last section.''] Format_fault)
      else Next_step Implement no_changes ''advance'')"

definition design_outcome :: "work_cycle \<Rightarrow> step_facts \<Rightarrow> string \<Rightarrow> outcome" where
  "design_outcome c f text =
     (if (case cy_designRecovery c of None \<Rightarrow> False
          | Some r \<Rightarrow> dr_runId r = run_id (so_run f) \<and> dr_mode r = Mode_investigate)
      then investigation_outcome c f text
      else case parseDesignReport (so_decodeDesign f) text of
        Design_invalid reason \<Rightarrow> formatFault c f Design_report_invalid reason [reason] Format_fault
      | Design_complete items \<Rightarrow>
          (case unresolved_outcome c f items of
             Some d \<Rightarrow> d
           | None \<Rightarrow> design_questions_outcome c f text)
      | Design_absent \<Rightarrow> design_questions_outcome c f text)"

section \<open>Review\<close>

definition review_scope_issue :: "step_facts \<Rightarrow> string option" where
  "review_scope_issue f =
     (case so_reviewAssessment f of
        Some (Complete is r) \<Rightarrow> so_scopeIssue f (Some (Complete is r))
      | _ \<Rightarrow> None)"

definition review_decision :: "work_cycle \<Rightarrow> step_facts \<Rightarrow> completion_decision" where
  "review_decision c f =
     evaluateCycleCompletion c
       (if truthy (review_scope_issue f)
        then Some (Invalid [over (review_scope_issue f) []] None)
        else so_reviewAssessment f)"

definition review_report_issues :: "step_facts \<Rightarrow> string list option" where
  "review_report_issues f =
     (case review_scope_issue f of
        Some i \<Rightarrow> Some [i]
      | None \<Rightarrow>
          (case so_reviewAssessment f of
             Some (Complete is r) \<Rightarrow> None
           | Some (Invalid is fault) \<Rightarrow> Some (if is \<noteq> [] then is else [review_report_issue])
           | _ \<Rightarrow> Some [review_report_issue]))"

definition review_report_fault :: "step_facts \<Rightarrow> report_fault" where
  "review_report_fault f =
     (if review_scope_issue f \<noteq> None then Content_fault
      else case so_reviewAssessment f of
             Some (Invalid is (Some Content_fault)) \<Rightarrow> Content_fault
           | _ \<Rightarrow> Format_fault)"

text \<open>A staged finalization's review: its stage, or a report to repair or reject.\<close>

definition stage_review_outcome :: "work_cycle \<Rightarrow> step_facts \<Rightarrow> string \<Rightarrow> outcome" where
  "stage_review_outcome c f text =
     (case so_reviewAssessment f of
        Some (Complete is r) \<Rightarrow> Advance_finalization_stage (noOpenQuestions text)
      | _ \<Rightarrow>
          (let issues = over (review_report_issues f) [review_report_issue] in
           formatFault c f Finalization_report_rejected
             (''Review report rejected: '' @ js_slice 3500 (js_join '' '' issues))
             issues (review_report_fault f)))"

definition verification_passes :: "work_cycle \<Rightarrow> step_facts \<Rightarrow> bool" where
  "verification_passes c f =
     (so_reviewOnly f \<and> scope_kind_of c = Some Slice_verification
      \<and> \<not> truthy (review_scope_issue f)
      \<and> cd_action (review_decision c f) = Act_remediate
      \<and> verificationFollowUps (so_reviewAssessment f) \<noteq> None)"

definition scope_review_outcome :: "work_cycle \<Rightarrow> step_facts \<Rightarrow> string \<Rightarrow> outcome" where
  "scope_review_outcome c f text =
     (let d = review_decision c f in
      if \<not> noOpenQuestions text then
        (let message = ''Scope review has open questions or lacks its Open questions checkpoint. Pause and provide guidance before resuming.''
         in if qs_status (openQuestionsSection text) = Q_questions
            then attention_outcome Scope_review_open_questions message
            else formatFault c f Scope_review_open_questions message [checkpoint_issue] Format_fault)
      else
        let message = ''Scope review requires recovery: '' @ cd_reason d
              @ '' Address findings through the owning slice; this review snapshot cannot implement changes.''
        in case (cd_action d, review_report_issues f) of
             (Act_needs_attention, Some issues) \<Rightarrow>
               formatFault c f Scope_review_recovery message issues (review_report_fault f)
           | _ \<Rightarrow> attention_outcome Scope_review_recovery message)"

definition review_outcome :: "work_cycle \<Rightarrow> step_facts \<Rightarrow> finalization option \<Rightarrow> string \<Rightarrow> outcome" where
  "review_outcome c f fin text =
     (let d = review_decision c f;
          invalid = (case so_reviewAssessment f of Some (Invalid is x) \<Rightarrow> Some is | _ \<Rightarrow> None)
      in
      if fin = None \<and> \<not> so_reviewOnly f \<and> raisesOpenQuestions text then
        (if cd_action d = Act_remediate \<and> remediationAllowance c \<le> remediationUsed c
         then attention_outcome Review_open_questions_at_limit questions_at_limit
         else attention_outcome Review_open_questions
           ''Review needs your input. Answer the Open questions using Continue with guidance before another remediation.'')
      else if fin \<noteq> None \<and> invalid \<noteq> None then
        formatFault c f Finalization_report_rejected
          (''Review report rejected: '' @ js_slice 3500 (js_join '' '' (over invalid [])))
          (over (review_report_issues f) (over invalid [])) (review_report_fault f)
      else if (case fin of None \<Rightarrow> False | Some x \<Rightarrow> fin_stages x \<noteq> None)
      then stage_review_outcome c f text
      else if so_reviewOnly f
              \<and> (\<not> noOpenQuestions text
                 \<or> (cd_action d \<noteq> Act_awaiting_merge \<and> \<not> verification_passes c f))
      then scope_review_outcome c f text
      else if verification_passes c f
      then Approve_review (so_reviewOnly f)
        (''Slice verification met its gate with a mergeable verdict. Its ''
         @ string_of_nat (length (over (verificationFollowUps (so_reviewAssessment f)) []))
         @ '' open minor or nit finding(s) are kept as follow-ups on its scope evidence.'')
      else (case cd_action d of
              Act_remediate \<Rightarrow> Remediate_review (active_review_of c \<noteq> None)
            | Act_needs_attention \<Rightarrow>
                (case review_report_issues f of
                   Some issues \<Rightarrow> formatFault c f Review_needs_attention (cd_reason d) issues
                                    (review_report_fault f)
                 | None \<Rightarrow> attention_outcome Review_needs_attention (cd_reason d))
            | Act_awaiting_merge \<Rightarrow> Approve_review (so_reviewOnly f) (cd_reason d)))"

section \<open>The classification\<close>

text \<open>A complete, successful result, after the workflow's classification.\<close>

definition result_outcome :: "work_cycle \<Rightarrow> step_facts \<Rightarrow> string \<Rightarrow> outcome" where
  "result_outcome c f text =
     (let fin = so_finalization f c;
          staged = (case fin of None \<Rightarrow> False | Some x \<Rightarrow> fin_stages x \<noteq> None)
      in
      if fin \<noteq> None \<and> \<not> staged
      then attention_outcome Legacy_finalization_retired
        ''This finalization uses retired improvement rounds. Stop it and start a staged finalization.''
      else if fin \<noteq> None \<and> \<not> (staged \<and> cy_step c = Review) \<and> \<not> noOpenQuestions text then
        (let message = ''Finalization needs your input or a complete Open questions checkpoint. Inspect the outcome and provide guidance before resuming.''
         in if qs_status (openQuestionsSection text) = Q_questions
            then attention_outcome Finalization_needs_input message
            else formatFault c f Finalization_needs_input message [checkpoint_issue] Format_fault)
      else (case cy_step c of
              Design \<Rightarrow> design_outcome c f text
            | Review \<Rightarrow> review_outcome c f fin text
            | _ \<Rightarrow>
                if raisesOpenQuestions text
                then attention_outcome Implementation_open_questions
                  ''Implementation needs your input. Answer the Open questions using Continue with guidance before another review or remediation.''
                else Finalize_implementation))"

definition finished_outcome :: "work_cycle \<Rightarrow> step_facts \<Rightarrow> string \<Rightarrow> step_decision" where
  "finished_outcome c f text =
     (if ownsIntegrationResolution c
      then plainly (if \<not> resolutionReady text
             then attention_outcome Resolution_needs_guidance
               ''Resolution needs guidance or verification. Inspect the final outcome, then resume with instructions.''
             else Advance_resolution)
      else (case classify_workflow c f text of
              Inl d \<Rightarrow> d
            | Inr (c', update) \<Rightarrow>
                \<lparr>dec_outcome = result_outcome c' f text, dec_workflow = update\<rparr>))"

definition ended_reason :: "step_facts \<Rightarrow> exit_reason option" where
  "ended_reason f = (case so_ended f of None \<Rightarrow> None | Some e \<Rightarrow> rf_reason e)"

definition ended_message :: "step_facts \<Rightarrow> string" where
  "ended_message f = (case so_ended f of None \<Rightarrow> [] | Some e \<Rightarrow> over (rf_message e) [])"

text \<open>
  The provider failure of a run that failed without a typed reason, and whether the turn it
  followed leaves nothing for a person (no question, nothing clipped).
\<close>

definition turn_failure :: "step_facts \<Rightarrow> provider_failure option" where
  "turn_failure f =
     (if run_status (so_run f) = Run_failed \<and> so_ended f \<noteq> None \<and> ended_reason f = None
      then (case so_turn f of None \<Rightarrow> None | Some t \<Rightarrow> tn_providerFailure t) else None)"

definition clean_error_turn :: "step_facts \<Rightarrow> bool" where
  "clean_error_turn f =
     ((case so_turn f of None \<Rightarrow> False | Some t \<Rightarrow> tn_outcome t = Turn_error \<and> \<not> tn_truncated t)
      \<and> \<not> (\<exists>m\<in>set (so_assistantMessages f). msg_truncated m \<or> raisesOpenQuestions (msg_text m)))"

definition complete_turn :: "step_facts \<Rightarrow> string option" where
  "complete_turn f =
     (case so_turn f of
        None \<Rightarrow> None
      | Some t \<Rightarrow>
          if run_status (so_run f) = Run_finished \<and> tn_outcome t = Turn_success \<and> \<not> tn_truncated t
             \<and> js_trim (tn_resultText t) \<noteq> []
          then Some (tn_resultText t) else None)"

definition decideOwnOutcome :: "work_cycle \<Rightarrow> step_facts \<Rightarrow> step_decision" where
  "decideOwnOutcome c f =
     (let run = so_run f in
      if run_status run = Run_starting \<or> run_status run = Run_running then plainly Wait_for_run
      else if so_drainInterrupted f then
        plainly (if run_role run \<noteq> cycleStepRole (cy_step c)
                    \<or> (run_backendSessionId run = None \<and> run_startedAt run \<noteq> None)
                 then attention_outcome Restart_session_lost
                   ''CraftingTable restarted during this step before its agent session could be resumed. Inspect the worktree and resume explicitly.''
                 else Resume_after_restart)
      else if run_status run = Run_waiting then plainly End_turn
      else case turn_failure f of
        Some failure \<Rightarrow> serviceRecovery c f failure (clean_error_turn f) None
      | None \<Rightarrow>
        if ended_reason f = Some Exit_agent_environment_unavailable then
          plainly (attention_outcome Agent_environment_unavailable
            (collapse_spaces (''The agent could not start with the tools it needs, so nothing ran. ''
              @ ended_message f @ '' Fix the host, then resume.'')))
        else if ended_reason f = Some Exit_agent_model_misnamed then
          plainly (attention_outcome Agent_model_misnamed
            (collapse_spaces (''The agent was not started because its model is not named by its id. ''
              @ ended_message f @ '' Choose the id in the roadmap's agent profiles, then resume; a cycle started on its own keeps the agents it started with, so stop it and start it again with the id.'')))
        else if ended_reason f \<noteq> None then
          plainly (background_outcome c f (the (so_ended f)))
        else (case complete_turn f of
                None \<Rightarrow> plainly (attention_outcome Step_incomplete
                  ''The step did not finish with a complete successful result. Inspect it before resuming.'')
              | Some text \<Rightarrow> finished_outcome c f text))"

definition turn_outage :: "step_facts \<Rightarrow> provider_failure option" where
  "turn_outage f =
     (case so_turn f of
        None \<Rightarrow> None
      | Some t \<Rightarrow>
          (case tn_suspectedOutage t of
             None \<Rightarrow> None
           | Some o' \<Rightarrow>
               if fl_kind o' = Fail_credential_rejected \<and> run_status (so_run f) = Run_finished
                  \<and> tn_outcome t = Turn_success
               then Some o' else None))"

definition clipped_output :: "step_facts \<Rightarrow> bool" where
  "clipped_output f =
     ((case so_turn f of None \<Rightarrow> False | Some t \<Rightarrow> tn_truncated t)
      \<or> (\<exists>m\<in>set (so_assistantMessages f). msg_truncated m))"

definition decideStepOutcome :: "work_cycle \<Rightarrow> step_facts \<Rightarrow> step_decision" where
  "decideStepOutcome c f =
     (let d = decideOwnOutcome c f in
      case (dec_outcome d, turn_outage f) of
        (Attention code m reps, Some outage) \<Rightarrow>
          if code \<notin> set outage_question_stops
          then d\<lparr>dec_outcome := Attention code
                 (m @ '' '' @ fl_message outage @ '' Evidence: '' @ evidence_text outage @ ''.'') reps\<rparr>
          else
            let r = serviceRecovery c f outage (\<not> clipped_output f) (Some d) in
            (case dec_outcome r of
               Schedule_service_retry a dl reason \<Rightarrow>
                 r\<lparr>dec_outcome := Schedule_service_retry a dl
                   (js_slice 4000 (reason @ '' The step stopped ('' @ code_text code @ '') after the provider refused a command's approval review; the retry discards that stop: '' @ m))\<rparr>
             | _ \<Rightarrow> r)
      | _ \<Rightarrow> d)"

section \<open>The codes a decision may carry\<close>

lemma attention_outcome_sel [simp]:
  "attention_outcome code m = Attention code m None"
  by (simp add: attention_outcome_def)

text \<open>The stops a function of the classification may name, and repairs it may ask for.\<close>

fun outcome_codes :: "outcome \<Rightarrow> attention_code list" where
  "outcome_codes (Attention code m r) = [code]"
| "outcome_codes (Repair_output code is n) = [code]"
| "outcome_codes _ = []"

lemma outcome_codes_sub:
  "set (outcome_codes d) \<subseteq> S \<longleftrightarrow>
     (\<forall>code m r. d = Attention code m r \<longrightarrow> code \<in> S) \<and> (\<forall>code is n. d = Repair_output code is n \<longrightarrow> code \<in> S)"
  by (cases d) auto

lemma formatFault_codes: "outcome_codes (formatFault c f code m is fault) = [code]"
  by (simp add: formatFault_def Let_def)

lemma recovery_stop_codes:
  "set (outcome_codes (recovery_stop c f failure e))
     \<subseteq> {Provider_credentials_rejected, Service_retries_exhausted, Service_failure_not_retryable}"
  by (simp add: recovery_stop_def Let_def)

lemma serviceRecovery_codes:
  "set (outcome_codes (dec_outcome (serviceRecovery c f failure e stop)))
     \<subseteq> {Provider_credentials_rejected, Service_retries_exhausted, Service_failure_not_retryable}
       \<union> (case stop of None \<Rightarrow> {} | Some d \<Rightarrow> set (outcome_codes (dec_outcome d)))"
  using recovery_stop_codes [of c f failure e]
  by (auto simp: serviceRecovery_def Let_def split: option.splits outcome.splits)

lemma background_outcome_codes:
  "set (outcome_codes (background_outcome c f ended))
     \<subseteq> {Exit_with_open_questions, Completion_continuations_exhausted, Background_work_unsafe}"
  by (simp add: background_outcome_def)

lemma classify_workflow_codes:
  "classify_workflow c f text = Inl d \<Longrightarrow> set (outcome_codes (dec_outcome d))
     \<subseteq> {Workflow_report_invalid, Workflow_questions_disagree, Shared_decision_required,
        Review_open_questions_at_limit, Work_item_questions}"
  by (auto simp: classify_workflow_def workflow_attention_def formatFault_codes Let_def
      split: if_splits workflow_parse.splits)

lemma design_outcome_codes:
  "set (outcome_codes (design_outcome c f text))
     \<subseteq> {Design_investigation_finished, Design_report_invalid, Design_dependency_continuations_exhausted,
        Design_dependency_unsupported, Design_planning_conflict, Design_decision_required,
        Design_open_questions}"
  by (auto simp: design_outcome_def investigation_outcome_def unresolved_outcome_def
      design_questions_outcome_def formatFault_codes Let_def
      split: if_splits design_parse.splits option.splits)

lemma review_outcome_codes:
  "set (outcome_codes (review_outcome c f fin text))
     \<subseteq> {Review_open_questions_at_limit, Review_open_questions, Finalization_report_rejected,
        Scope_review_open_questions, Scope_review_recovery, Review_needs_attention}"
  by (auto simp: review_outcome_def stage_review_outcome_def scope_review_outcome_def
      formatFault_codes Let_def
      split: if_splits option.splits assessment.splits completion_action.splits)

lemma result_outcome_codes:
  "set (outcome_codes (result_outcome c f text))
     \<subseteq> {Legacy_finalization_retired, Finalization_needs_input, Implementation_open_questions,
        Design_investigation_finished, Design_report_invalid, Design_dependency_continuations_exhausted,
        Design_dependency_unsupported, Design_planning_conflict, Design_decision_required,
        Design_open_questions, Review_open_questions_at_limit, Review_open_questions,
        Finalization_report_rejected, Scope_review_open_questions, Scope_review_recovery,
        Review_needs_attention}"
  using design_outcome_codes [of c f "text"]
    review_outcome_codes [of c f "so_finalization f c" "text"]
  by (auto simp: result_outcome_def formatFault_codes Let_def split: cycle_step.splits)

lemma own_outcome_codes:
  "set (outcome_codes (dec_outcome (decideOwnOutcome c f))) \<subseteq> set step_attention_codes"
proof -
  have done_codes: "set (outcome_codes (dec_outcome (finished_outcome c f text))) \<subseteq> set step_attention_codes"
    for "text"
    using classify_workflow_codes [of c f "text"] result_outcome_codes [of _ f "text"]
    unfolding finished_outcome_def step_attention_codes_def
    by (fastforce split: sum.splits if_splits)
  have serv: "set (outcome_codes (dec_outcome (serviceRecovery c f failure e None)))
      \<subseteq> set step_attention_codes" for failure e
    using serviceRecovery_codes [of c f failure e None] by (auto simp: step_attention_codes_def)
  have bg: "set (outcome_codes (background_outcome c f ended)) \<subseteq> set step_attention_codes" for ended
    using background_outcome_codes [of c f ended] by (auto simp: step_attention_codes_def)
  have own: "Restart_session_lost \<in> set step_attention_codes"
    "Agent_environment_unavailable \<in> set step_attention_codes"
    "Agent_model_misnamed \<in> set step_attention_codes" "Step_incomplete \<in> set step_attention_codes"
    by (simp_all add: step_attention_codes_def)
  show ?thesis
    unfolding decideOwnOutcome_def Let_def
    using serv bg done_codes own by (simp split: option.splits)
qed

lemma step_outcome_codes:
  "set (outcome_codes (dec_outcome (decideStepOutcome c f))) \<subseteq> set step_attention_codes"
proof -
  have serv: "set (outcome_codes (dec_outcome (serviceRecovery c f failure e (Some d))))
      \<subseteq> set step_attention_codes"
    if "set (outcome_codes (dec_outcome d)) \<subseteq> set step_attention_codes" for failure e d
    using serviceRecovery_codes [of c f failure e "Some d"] that by (auto simp: step_attention_codes_def)
  show ?thesis
    using own_outcome_codes [of c f] serv [OF own_outcome_codes [of c f]]
    unfolding outcome_codes_sub
    by (auto simp: decideStepOutcome_def Let_def split: outcome.splits option.splits if_splits)
qed


section \<open>Repairs\<close>

definition repair_ok :: "work_cycle \<Rightarrow> step_facts \<Rightarrow> outcome \<Rightarrow> bool" where
  "repair_ok c f d =
     (\<forall>code is n. d = Repair_output code is n \<longrightarrow>
        n = repairs_made c + 1 \<and> n \<le> output_repair_limit \<and> run_backendSessionId (so_run f) \<noteq> None
        \<and> length is \<le> 20 \<and> (\<forall>i\<in>set is. length i \<le> 1000))"

lemma repair_ok_simps [simp]:
  "repair_ok c f Wait_for_run" "repair_ok c f End_turn" "repair_ok c f Resume_after_restart"
  "repair_ok c f (Attention code m r)" "repair_ok c f (Schedule_service_retry a dl reason)"
  "repair_ok c f (Next_step st ch act)" "repair_ok c f Advance_resolution"
  "repair_ok c f (Continue_design reason)" "repair_ok c f (Design_wait t rs reason)"
  "repair_ok c f Finalize_implementation" "repair_ok c f (Advance_finalization_stage b)"
  "repair_ok c f (Remediate_review b)" "repair_ok c f (Approve_review b reason)"
  by (simp_all add: repair_ok_def)

lemma formatFault_repair [simp]: "repair_ok c f (formatFault c f code m is fault)"
  by (auto simp: repair_ok_def formatFault_def Let_def dest!: in_set_takeD)

lemma recovery_stop_repair [simp]: "repair_ok c f (recovery_stop c f failure e)"
  by (simp add: recovery_stop_def Let_def)

lemma serviceRecovery_repair:
  "(case stop of None \<Rightarrow> True | Some d \<Rightarrow> repair_ok c f (dec_outcome d))
     \<Longrightarrow> repair_ok c f (dec_outcome (serviceRecovery c f failure e stop))"
  by (auto simp: serviceRecovery_def Let_def split: option.splits outcome.splits)

lemma background_outcome_repair [simp]: "repair_ok c f (background_outcome c f ended)"
  by (simp add: background_outcome_def)

lemma classify_workflow_repair:
  "classify_workflow c f t = Inl d \<Longrightarrow> repair_ok c f (dec_outcome d)"
  by (auto simp: classify_workflow_def workflow_attention_def Let_def split: if_splits workflow_parse.splits)

lemma classify_workflow_cycle:
  "classify_workflow c f t = Inr (c', u) \<Longrightarrow> c' = c \<or> (\<exists>w. c' = c\<lparr>cy_workflow := w\<rparr>)"
  by (auto simp: classify_workflow_def Let_def split: if_splits workflow_parse.splits)

lemma repairs_made_workflow [simp]: "repairs_made (c\<lparr>cy_workflow := w\<rparr>) = repairs_made c"
  by (simp add: repairs_made_def output_repair_of_def attempt_of_def)

lemma design_outcome_repair [simp]: "repair_ok c f (design_outcome c f t)"
  by (auto simp: design_outcome_def investigation_outcome_def unresolved_outcome_def
      design_questions_outcome_def Let_def split: design_parse.splits option.splits)

lemma review_outcome_repair [simp]: "repair_ok c f (review_outcome c f x t)"
  by (auto simp: review_outcome_def stage_review_outcome_def scope_review_outcome_def Let_def
      split: option.splits assessment.splits completion_action.splits)

lemma result_outcome_repair [simp]: "repair_ok c f (result_outcome c f t)"
  by (simp add: result_outcome_def Let_def split: cycle_step.splits)

lemma finished_outcome_repair: "repair_ok c f (dec_outcome (finished_outcome c f t))"
proof (cases "classify_workflow c f t")
  case (Inl d)
  then show ?thesis by (simp add: finished_outcome_def classify_workflow_repair)
next
  case (Inr p)
  obtain c' u where p: "p = (c', u)" by force
  from classify_workflow_cycle [OF Inr [unfolded p]] have "repairs_made c' = repairs_made c" by auto
  with result_outcome_repair [of c' f t] Inr p show ?thesis
    by (simp add: finished_outcome_def repair_ok_def)
qed

lemma own_outcome_repair: "repair_ok c f (dec_outcome (decideOwnOutcome c f))"
  unfolding decideOwnOutcome_def Let_def
  using serviceRecovery_repair [where stop = None and c = c and f = f] finished_outcome_repair [of c f]
  by (simp split: option.splits)

lemma step_outcome_repair: "repair_ok c f (dec_outcome (decideStepOutcome c f))"
proof -
  have rec: "repair_ok c f x"
    if "dec_outcome (serviceRecovery c f failure e (Some (decideOwnOutcome c f))) = x" for failure e x
    using serviceRecovery_repair [where stop = "Some (decideOwnOutcome c f)" and c = c and f = f]
      own_outcome_repair [of c f] that by auto
  show ?thesis
    using own_outcome_repair [of c f]
    by (auto simp: decideStepOutcome_def Let_def dest: rec split: outcome.splits option.splits)
qed

section \<open>Retries\<close>

definition retry_ok :: "work_cycle \<Rightarrow> step_facts \<Rightarrow> outcome \<Rightarrow> bool" where
  "retry_ok c f d =
     (\<forall>a dl reason. d = Schedule_service_retry a dl reason \<longrightarrow>
        (\<exists>t. pr_nextRetryAt a = Some t \<and> so_now f + 60000 \<le> t
           \<and> t \<le> so_now f + quota_wait_limit + quota_reset_margin
           \<and> (dl = None \<or> dl = Some (cy_runDeadlineAt c + (t - so_now f))))
        \<and> pr_attempts a = recovery_attempts c \<and> recovery_attempts c < 3
        \<and> pr_sourceRunId a = run_id (so_run f)
        \<and> fl_safeToRetry (pr_failure a) \<and> \<not> ownsIntegrationResolution c)"

lemma retry_ok_simps [simp]:
  "retry_ok c f Wait_for_run" "retry_ok c f End_turn" "retry_ok c f Resume_after_restart"
  "retry_ok c f (Attention code m r)" "retry_ok c f (Repair_output code is n)"
  "retry_ok c f (Next_step st ch act)" "retry_ok c f Advance_resolution"
  "retry_ok c f (Continue_design reason)" "retry_ok c f (Design_wait t rs reason)"
  "retry_ok c f Finalize_implementation" "retry_ok c f (Advance_finalization_stage b)"
  "retry_ok c f (Remediate_review b)" "retry_ok c f (Approve_review b reason)"
  by (simp_all add: retry_ok_def)

lemma retry_ok_reason:
  "retry_ok c f (Schedule_service_retry a dl r) \<Longrightarrow> retry_ok c f (Schedule_service_retry a dl r')"
  by (simp add: retry_ok_def)

lemma recovery_delay_bounds:
  assumes "recovery_attempts c < 3"
  shows "60000 \<le> recovery_delay c f failure
    \<and> recovery_delay c f failure \<le> quota_wait_limit + quota_reset_margin"
proof -
  consider "recovery_attempts c = 0" | "recovery_attempts c = 1" | "recovery_attempts c = 2"
    using assms by linarith
  then show ?thesis
    by cases (auto simp: recovery_delay_def quota_wait_def credential_retry_delays_def
        service_retry_delays_def nth_opt_def quota_wait_limit_def quota_reset_margin_def Let_def
        split: option.splits)
qed

lemma formatFault_retry [simp]: "retry_ok c' f' (formatFault c f code m is fault)"
  by (simp add: formatFault_def Let_def)

lemma recovery_stop_retry [simp]: "retry_ok c' f' (recovery_stop c f failure e)"
  by (simp add: recovery_stop_def Let_def)

lemma serviceRecovery_retry:
  assumes "case stop of None \<Rightarrow> True | Some d \<Rightarrow> retry_ok c f (dec_outcome d)"
  shows "retry_ok c f (dec_outcome (serviceRecovery c f failure e stop))"
proof (cases "recovery_retryable c f failure e \<and> recovery_attempts c < 3")
  case True
  then have "fl_safeToRetry failure" "\<not> ownsIntegrationResolution c"
    by (auto simp: recovery_retryable_def Let_def)
  with True recovery_delay_bounds [of c f failure] show ?thesis
    by (auto simp: serviceRecovery_def Let_def retry_ok_def)
next
  case False
  then show ?thesis using assms
    by (auto simp: serviceRecovery_def Let_def split: option.splits outcome.splits)
qed

lemma background_outcome_retry [simp]: "retry_ok c' f' (background_outcome c f ended)"
  by (simp add: background_outcome_def)

lemma classify_workflow_retry:
  "classify_workflow c f t = Inl d \<Longrightarrow> retry_ok c' f' (dec_outcome d)"
  by (auto simp: classify_workflow_def workflow_attention_def Let_def split: if_splits workflow_parse.splits)

lemma design_outcome_retry [simp]: "retry_ok c' f' (design_outcome c f t)"
  by (auto simp: design_outcome_def investigation_outcome_def unresolved_outcome_def
      design_questions_outcome_def Let_def split: design_parse.splits option.splits)

lemma review_outcome_retry [simp]: "retry_ok c' f' (review_outcome c f x t)"
  by (auto simp: review_outcome_def stage_review_outcome_def scope_review_outcome_def Let_def
      split: option.splits assessment.splits completion_action.splits)

lemma result_outcome_retry [simp]: "retry_ok c' f' (result_outcome c f t)"
  by (simp add: result_outcome_def Let_def split: cycle_step.splits)

lemma finished_outcome_retry: "retry_ok c f (dec_outcome (finished_outcome c f t))"
  by (auto simp: finished_outcome_def classify_workflow_retry split: sum.splits)

lemma own_outcome_retry: "retry_ok c f (dec_outcome (decideOwnOutcome c f))"
  unfolding decideOwnOutcome_def Let_def
  using serviceRecovery_retry [where stop = None and c = c and f = f] finished_outcome_retry [of c f]
  by (simp split: option.splits)

lemma step_outcome_retry: "retry_ok c f (dec_outcome (decideStepOutcome c f))"
proof -
  have rec: "retry_ok c f x"
    if "dec_outcome (serviceRecovery c f failure e (Some (decideOwnOutcome c f))) = x" for failure e x
    using serviceRecovery_retry [where stop = "Some (decideOwnOutcome c f)" and c = c and f = f]
      own_outcome_retry [of c f] that by auto
  show ?thesis
    using own_outcome_retry [of c f]
    by (auto simp: decideStepOutcome_def Let_def intro: retry_ok_reason dest: rec split: outcome.splits option.splits)
qed

section \<open>Approvals\<close>

lemma count_open_0: "count_open sev fs = 0 \<longleftrightarrow> (\<forall>f\<in>set fs. fd_status f = Open \<longrightarrow> fd_severity f \<noteq> sev)"
  by (auto simp: count_open_def open_findings_def filter_empty_conv)

lemma evaluateCompletion_awaiting:
  "cd_action (evaluateCompletion p a) = Act_awaiting_merge \<longleftrightarrow>
     (\<exists>is r. a = Some (Complete is r) \<and> rp_gateMet r \<and> rp_verdict r = Mergeable
        \<and> (\<forall>f\<in>set (rp_findings r). fd_status f = Open \<longrightarrow> fd_severity f = Nit)
        \<and> count_open Nit (rp_findings r) \<le> maxNits p)"
proof -
  have nit: "(\<forall>f\<in>set fs. fd_status f = Open \<longrightarrow> fd_severity f = Nit) \<longleftrightarrow>
      count_open Blocking fs = 0 \<and> count_open Major fs = 0 \<and> count_open Minor fs = 0" for fs
  proof -
    have "sev = Nit \<longleftrightarrow> sev \<noteq> Blocking \<and> sev \<noteq> Major \<and> sev \<noteq> Minor" for sev by (cases sev) auto
    then show ?thesis unfolding count_open_0 by blast
  qed
  show ?thesis
    by (auto simp: evaluateCompletion_def openCounts_def nit Let_def not_less
        split: option.splits assessment.splits if_splits)
qed

text \<open>A finding that stays parked is open and minor or nit.\<close>

lemma parkedFollowUp_severity:
  "parkedFollowUp (stagedFollowUps c) f \<Longrightarrow>
     fd_status f = Open \<and> (fd_severity f = Minor \<or> fd_severity f = Nit)
     \<and> cy_finalizationProgress c \<noteq> None"
  by (auto simp: parkedFollowUp_def staysFollowUp_def optionalFinding_def stagedFollowUps_def
      split: option.splits if_splits)

lemma evaluateCycleCompletion_awaiting:
  assumes "cd_action (evaluateCycleCompletion c a) = Act_awaiting_merge"
  obtains "is" r where "a = Some (Complete is r)" "rp_gateMet r" "rp_verdict r = Mergeable"
    "distinct (map fd_id (rp_findings r)) \<longrightarrow>
       (\<forall>f\<in>set (rp_findings r). fd_status f = Open \<longrightarrow> fd_severity f \<in> {Minor, Nit})"
proof (cases a)
  case None
  then show thesis using assms
    by (simp add: evaluateCycleCompletion_def evaluateCompletion_def)
next
  case (Some x)
  then obtain "is" r where x: "a = Some (Complete is r)"
    using assms by (cases x) (simp_all add: evaluateCycleCompletion_def evaluateCompletion_def)
  let ?parked = "parkedFollowUp (stagedFollowUps c)"
  let ?ids = "fd_id ` set (filter ?parked (rp_findings r))"
  let ?r = "r\<lparr>rp_findings := filter (\<lambda>f. fd_id f \<notin> ?ids) (rp_findings r)\<rparr>"
  have act: "cd_action (evaluateCompletion (cy_policy c) (Some (Complete is ?r))) = Act_awaiting_merge"
    using assms unfolding x by (auto simp: evaluateCycleCompletion_def Let_def split: if_splits)
  then have r: "rp_gateMet r" "rp_verdict r = Mergeable"
    and nits: "\<forall>f\<in>set (rp_findings r). fd_id f \<notin> ?ids \<longrightarrow> fd_status f = Open \<longrightarrow> fd_severity f = Nit"
    by (auto simp: evaluateCompletion_awaiting)
  have "fd_severity f \<in> {Minor, Nit}"
    if d: "distinct (map fd_id (rp_findings r))" and f: "f \<in> set (rp_findings r)" "fd_status f = Open" for f
  proof (cases "fd_id f \<in> ?ids")
    case True
    then obtain g where "g \<in> set (rp_findings r)" "?parked g" "fd_id g = fd_id f" by auto
    with d f(1) have "?parked f" by (metis distinct_map inj_onD)
    then show ?thesis using parkedFollowUp_severity by blast
  next
    case False
    with nits f show ?thesis by simp
  qed
  with x r show thesis by (intro that) auto
qed

lemma verificationFollowUps_Some:
  "verificationFollowUps a = Some fs \<Longrightarrow>
     \<exists>is r. a = Some (Complete is r) \<and> rp_gateMet r \<and> rp_verdict r = Mergeable
       \<and> fs = open_findings (rp_findings r) \<and> (\<forall>f\<in>set fs. fd_severity f \<in> {Minor, Nit})"
proof -
  have "sev \<noteq> Blocking \<Longrightarrow> sev \<noteq> Major \<Longrightarrow> sev = Minor \<or> sev = Nit" for sev by (cases sev) auto
  then show "verificationFollowUps a = Some fs \<Longrightarrow> ?thesis"
    by (fastforce simp: verificationFollowUps_def Let_def split: option.splits assessment.splits if_splits)
qed

lemma awaiting_decision:
  assumes "cd_action (review_decision c f) = Act_awaiting_merge"
  shows "\<not> truthy (review_scope_issue f)
     \<and> cd_action (evaluateCycleCompletion c (so_reviewAssessment f)) = Act_awaiting_merge"
  using assms
  by (auto simp: review_decision_def evaluateCycleCompletion_def evaluateCompletion_def split: if_splits)

text \<open>
  When the completion policy is met: outside a finalization only nits are open and no more than
  the policy allows; within one, every open finding stays a parked follow-up.
\<close>

definition completion_met :: "work_cycle \<Rightarrow> review_report \<Rightarrow> bool" where
  "completion_met c r =
     (if cy_finalizationProgress c = None
      then (\<forall>x\<in>set (rp_findings r). fd_status x = Open \<longrightarrow> fd_severity x = Nit)
         \<and> count_open Nit (rp_findings r) \<le> maxNits (cy_policy c)
      else (\<forall>x\<in>set (rp_findings r). fd_status x = Open \<longrightarrow>
         (\<exists>y\<in>set (rp_findings r). fd_id y = fd_id x \<and> parkedFollowUp (stagedFollowUps c) y)))"

lemma completion_met_workflow [simp]: "completion_met (c\<lparr>cy_workflow := w\<rparr>) r = completion_met c r"
  by (cases "cy_finalizationProgress c")
     (simp_all add: completion_met_def stagedFollowUps_def selected_finding_ids_def)

lemma policy_awaiting:
  "cd_action (evaluateCycleCompletion c (Some (Complete is r))) = Act_awaiting_merge \<longleftrightarrow>
     rp_gateMet r \<and> rp_verdict r = Mergeable \<and> completion_met c r"
proof (cases "cy_finalizationProgress c")
  case None
  then have "parkedFollowUp (stagedFollowUps c) = (\<lambda>_. False)"
    by (auto simp: parkedFollowUp_def stagedFollowUps_def)
  with None show ?thesis
    by (simp add: evaluateCycleCompletion_def completion_met_def evaluateCompletion_awaiting)
next
  case (Some p)
  let ?ids = "fd_id ` set (filter (parkedFollowUp (stagedFollowUps c)) (rp_findings r))"
  have met: "completion_met c r \<longleftrightarrow> (\<forall>x\<in>set (rp_findings r). fd_status x = Open \<longrightarrow> fd_id x \<in> ?ids)"
  proof -
    have "fd_id x \<in> ?ids \<longleftrightarrow>
        (\<exists>y\<in>set (rp_findings r). fd_id y = fd_id x \<and> parkedFollowUp (stagedFollowUps c) y)"
      for x :: finding by (auto simp: image_iff intro: sym)
    with Some show ?thesis by (simp add: completion_met_def)
  qed
  show ?thesis
  proof (cases "completion_met c r")
    case True
    with met have "count_open Nit (filter (\<lambda>x. fd_id x \<notin> ?ids) (rp_findings r)) = 0"
      unfolding count_open_0 by auto
    with True met Some show ?thesis
      by (auto simp: evaluateCycleCompletion_def Let_def evaluateCompletion_awaiting)
  next
    case False
    with met Some show ?thesis by (auto simp: evaluateCycleCompletion_def Let_def)
  qed
qed

lemma review_approves:
  assumes "review_outcome c f x t = Approve_review ro reason"
  shows "ro = so_reviewOnly f \<and> \<not> truthy (review_scope_issue f)
    \<and> (if ro then noOpenQuestions t else x = None \<longrightarrow> \<not> raisesOpenQuestions t)
    \<and> (x = None \<or> (\<exists>y. x = Some y \<and> fin_stages y = None))
    \<and> (cd_action (review_decision c f) = Act_awaiting_merge
       \<or> verificationFollowUps (so_reviewAssessment f) \<noteq> None \<and> ro \<and> scope_kind_of c = Some Slice_verification)"
proof -
  have ff: "formatFault c f code m is fault \<noteq> Approve_review ro reason" for code m "is" fault
    by (simp add: formatFault_def Let_def)
  have "scope_review_outcome c f t \<noteq> Approve_review ro reason"
    "stage_review_outcome c f t \<noteq> Approve_review ro reason"
    by (auto simp: scope_review_outcome_def stage_review_outcome_def ff Let_def
        split: option.splits assessment.splits completion_action.splits)
  then show ?thesis
    using assms ff awaiting_decision [of c f]
    by (auto simp: review_outcome_def Let_def verification_passes_def
        split: if_splits option.splits assessment.splits completion_action.splits)
qed

end
