(* ===== verification/Step_Properties.thy ===== *)
theory Step_Properties
  imports Step_Outcome
begin

text \<open>
  What the step classification guarantees: how a decision traces back to the text of the
  turn, and the properties of its stops, repairs, retries, continuations, approvals and
  design steps.
\<close>


section \<open>From the decision back to the report\<close>

lemma step_to_own:
  assumes "dec_outcome (decideStepOutcome c f) = d" "\<And>code m r. d \<noteq> Attention code m r"
    "\<And>a dl reason. d \<noteq> Schedule_service_retry a dl reason"
  shows "dec_outcome (decideOwnOutcome c f) = d"
proof (rule ccontr)
  assume ne: "dec_outcome (decideOwnOutcome c f) \<noteq> d"
  then obtain code m r o' where a: "dec_outcome (decideOwnOutcome c f) = Attention code m r"
    "turn_outage f = Some o'"
    using assms by (auto simp: decideStepOutcome_def Let_def split: outcome.splits option.splits)
  let ?r = "dec_outcome (serviceRecovery c f o' (\<not> clipped_output f) (Some (decideOwnOutcome c f)))"
  have "(\<exists>code m r. ?r = Attention code m r) \<or> (\<exists>a dl reason. ?r = Schedule_service_retry a dl reason)"
    using a(1) by (auto simp: serviceRecovery_def Let_def)
  then consider (stop) code' m' r' where "?r = Attention code' m' r'"
    | (retry) a' dl' why where "?r = Schedule_service_retry a' dl' why" by blast
  then show False
  proof cases
    case stop
    with a have "\<exists>code m r. dec_outcome (decideStepOutcome c f) = Attention code m r"
      by (simp add: decideStepOutcome_def Let_def)
    with assms(1,2) show False by metis
  next
    case retry
    with a have "(\<exists>code m r. dec_outcome (decideStepOutcome c f) = Attention code m r)
        \<or> (\<exists>a dl reason. dec_outcome (decideStepOutcome c f) = Schedule_service_retry a dl reason)"
      by (simp add: decideStepOutcome_def Let_def)
    with assms show False by metis
  qed
qed

lemma serviceRecovery_none:
  "(\<exists>code m r. dec_outcome (serviceRecovery c f failure e None) = Attention code m r)
   \<or> (\<exists>a dl reason. dec_outcome (serviceRecovery c f failure e None) = Schedule_service_retry a dl reason)"
  by (simp add: serviceRecovery_def recovery_stop_def Let_def)

text \<open>
  An outcome other than waiting, stopping, retrying, resuming and continuing comes from the
  text of a complete, successful turn.
\<close>

lemma own_to_finished:
  assumes "dec_outcome (decideOwnOutcome c f) = d"
    "d \<notin> {Wait_for_run, End_turn, Resume_after_restart}" "\<And>code m r. d \<noteq> Attention code m r"
    "\<And>a dl reason. d \<noteq> Schedule_service_retry a dl reason"
    "\<And>st ch. d \<noteq> Next_step st ch ''continue-incomplete-result''"
  obtains t where "so_turn f = Some t" "run_status (so_run f) = Run_finished" "tn_outcome t = Turn_success"
    "\<not> tn_truncated t" "dec_outcome (finished_outcome c f (tn_resultText t)) = d"
proof -
  have bg: "background_outcome c f ended \<noteq> d" for ended
    using assms(3,5) unfolding background_outcome_def attention_outcome_sel by metis
  have rec: "dec_outcome (serviceRecovery c f failure e None) \<noteq> d" for failure e
    using serviceRecovery_none [of c f failure e] assms(3,4) by metis
  have stop: "attention_outcome code m \<noteq> d" for code m
    using assms(3) by (metis attention_outcome_sel)
  have kinds: "d \<noteq> Wait_for_run" "d \<noteq> End_turn" "d \<noteq> Resume_after_restart" using assms(2) by auto
  have "\<exists>x. complete_turn f = Some x \<and> dec_outcome (finished_outcome c f x) = d"
  proof (rule ccontr)
    assume "\<not> ?thesis"
    then have "dec_outcome (decideOwnOutcome c f) \<noteq> d"
      using kinds [symmetric] bg rec stop
      by (simp add: decideOwnOutcome_def Let_def del: attention_outcome_sel split: option.split)
    with assms(1) show False by simp
  qed
  then obtain x where "complete_turn f = Some x" "dec_outcome (finished_outcome c f x) = d" by blast
  then show thesis
    using that by (auto simp: complete_turn_def split: option.splits if_splits)
qed

lemma finished_to_result:
  assumes "dec_outcome (finished_outcome c f t) = d" "d \<noteq> Advance_resolution"
    "\<And>code m r. d \<noteq> Attention code m r" "\<And>code is n. d \<noteq> Repair_output code is n"
  obtains c' u where "classify_workflow c f t = Inr (c', u)" "result_outcome c' f t = d"
    "\<not> ownsIntegrationResolution c"
proof -
  have "dec_outcome x \<noteq> d" if "classify_workflow c f t = Inl x" for x
  proof -
    have "(\<exists>code m r. dec_outcome x = Attention code m r) \<or> (\<exists>code is n. dec_outcome x = Repair_output code is n)"
      using that by (auto simp: classify_workflow_def workflow_attention_def formatFault_def Let_def
          split: if_splits workflow_parse.splits)
    with assms(3,4) show ?thesis by metis
  qed
  with assms that show thesis
    by (auto simp: finished_outcome_def split: if_splits sum.splits)
qed

lemma result_approves:
  assumes "result_outcome c f t = Approve_review ro reason"
  shows "cy_step c = Review \<and> review_outcome c f (so_finalization f c) t = Approve_review ro reason"
proof -
  have ff: "formatFault c f code m is fault \<noteq> Approve_review ro reason" for code m "is" fault
    by (simp add: formatFault_def Let_def)
  have "design_outcome c f t \<noteq> Approve_review ro reason"
    by (auto simp: design_outcome_def investigation_outcome_def unresolved_outcome_def
        design_questions_outcome_def ff Let_def split: design_parse.splits option.splits)
  with assms ff show ?thesis
    by (auto simp: result_outcome_def Let_def split: if_splits cycle_step.splits)
qed

lemma classify_workflow_step: "classify_workflow c f t = Inr (c', u) \<Longrightarrow> cy_step c' = cy_step c"
  using classify_workflow_cycle by fastforce

definition sample_run :: agent_run where
  "sample_run = \<lparr>run_reasoningEffort = None, run_profileSelection = None, run_id = ''r1'',
     run_workspaceId = ''w1'', run_worktreeId = ''t1'', run_repositoryId = ''repo'',
     run_projectId = ''p1'', run_workItemId = Some ''i1'', run_planVersionId = None,
     run_parentRunId = None, run_backend = Claude_code, run_role = Role_review,
     run_status = Run_finished, run_permissionMode = Auto_mode, run_model = Some ''opus'',
     run_resolvedModel = None, run_billing = None, run_verdict = None,
     run_reviewBranchContext = None, run_brief = [], run_backendSessionId = Some ''sess'',
     run_createdAt = 0, run_createdByUserId = ''u1'', run_startedAt = Some 0,
     run_finishedAt = Some 60000, run_exitCode = Some 0, run_outcomeSummary = None,
     run_costUsdMicros = None, run_turnCount = 1, run_version = 1\<rparr>"

definition none_text :: string where
  "none_text = ''## Open questions'' @ [CHR 0x0A] @ ''none''"

definition sample_turn :: turn_completed where
  "sample_turn = \<lparr>tn_providerFailure = None, tn_suspectedOutage = None, tn_outcome = Turn_success,
     tn_resultText = none_text, tn_truncated = False, tn_reviewReport = None\<rparr>"

definition sample_facts :: step_facts where
  "sample_facts = \<lparr>so_run = sample_run, so_now = 60000, so_reviewOnly = False,
     so_drainInterrupted = False, so_turn = Some sample_turn, so_ended = None,
     so_assistantMessages = [], so_finalization = (\<lambda>_. None), so_workflowQuestions = (\<lambda>_ _. []),
     so_designDependencyState = (\<lambda>_ _. (True, [])), so_reviewAssessment = Some (Complete [] clean_report),
     so_scopeIssue = (\<lambda>_. None), so_designRecoverySource = (\<lambda>_. None),
     so_decodeWorkflow = (\<lambda>_. None), so_decodeDesign = (\<lambda>_. Inl ''bad'')\<rparr>"

lemma sample_run_sel [simp]:
  "run_reasoningEffort sample_run = None"
  "run_profileSelection sample_run = None"
  "run_id sample_run = ''r1''"
  "run_workspaceId sample_run = ''w1''"
  "run_worktreeId sample_run = ''t1''"
  "run_repositoryId sample_run = ''repo''"
  "run_projectId sample_run = ''p1''"
  "run_workItemId sample_run = Some ''i1''"
  "run_planVersionId sample_run = None"
  "run_parentRunId sample_run = None"
  "run_backend sample_run = Claude_code"
  "run_role sample_run = Role_review"
  "run_status sample_run = Run_finished"
  "run_permissionMode sample_run = Auto_mode"
  "run_model sample_run = Some ''opus''"
  "run_resolvedModel sample_run = None"
  "run_billing sample_run = None"
  "run_verdict sample_run = None"
  "run_reviewBranchContext sample_run = None"
  "run_brief sample_run = []"
  "run_backendSessionId sample_run = Some ''sess''"
  "run_createdAt sample_run = 0"
  "run_createdByUserId sample_run = ''u1''"
  "run_startedAt sample_run = Some 0"
  "run_finishedAt sample_run = Some 60000"
  "run_exitCode sample_run = Some 0"
  "run_outcomeSummary sample_run = None"
  "run_costUsdMicros sample_run = None"
  "run_turnCount sample_run = 1"
  "run_version sample_run = 1"
  by (simp_all add: sample_run_def)

lemma sample_turn_sel [simp]:
  "tn_providerFailure sample_turn = None"
  "tn_suspectedOutage sample_turn = None"
  "tn_outcome sample_turn = Turn_success"
  "tn_resultText sample_turn = none_text"
  "tn_truncated sample_turn = False"
  "tn_reviewReport sample_turn = None"
  by (simp_all add: sample_turn_def)

lemma sample_facts_sel [simp]:
  "so_run sample_facts = sample_run"
  "so_now sample_facts = 60000"
  "so_reviewOnly sample_facts = False"
  "so_drainInterrupted sample_facts = False"
  "so_turn sample_facts = Some sample_turn"
  "so_ended sample_facts = None"
  "so_assistantMessages sample_facts = []"
  "so_finalization sample_facts = (\<lambda>_. None)"
  "so_workflowQuestions sample_facts = (\<lambda>_ _. [])"
  "so_designDependencyState sample_facts = (\<lambda>_ _. (True, []))"
  "so_reviewAssessment sample_facts = Some (Complete [] clean_report)"
  "so_scopeIssue sample_facts = (\<lambda>_. None)"
  "so_designRecoverySource sample_facts = (\<lambda>_. None)"
  "so_decodeWorkflow sample_facts = (\<lambda>_. None)"
  "so_decodeDesign sample_facts = (\<lambda>_. Inl ''bad'')"
  by (simp_all add: sample_facts_def)

definition review_cycle :: work_cycle where
  "review_cycle = sample_cycle\<lparr>cy_step := Review\<rparr>"

lemma none_text_read: "raisesOpenQuestions none_text = False" "noOpenQuestions none_text = True"
  "designHasNoOpenQuestions none_text False = True" "js_trim none_text \<noteq> []"
  "parseDesignReport d none_text = Design_absent"
  by code_simp+

section \<open>Properties\<close>

text \<open>
  Every stop the step classification writes, and every stop an automatic repair stands in
  for, is one of its declared codes; none is left to the generic controller error.
\<close>

theorem step_stops_declared:
  "(dec_outcome (decideStepOutcome c f) = Attention code m r \<longrightarrow> code \<in> set step_attention_codes)
   \<and> (dec_outcome (decideStepOutcome c f) = Repair_output code is n \<longrightarrow> code \<in> set step_attention_codes)"
  using step_outcome_codes [of c f] by auto

theorem step_stops_declared_witness:
  "dec_outcome (decideStepOutcome sample_cycle (sample_facts\<lparr>so_turn := None\<rparr>))
     = Attention Step_incomplete ''The step did not finish with a complete successful result. Inspect it before resuming.'' None
   \<and> Step_incomplete \<in> set step_attention_codes"
proof -
  have "dec_outcome (decideStepOutcome sample_cycle (sample_facts\<lparr>so_turn := None\<rparr>))
     = Attention Step_incomplete ''The step did not finish with a complete successful result. Inspect it before resuming.'' None"
    by (simp add: decideStepOutcome_def decideOwnOutcome_def turn_failure_def ended_reason_def complete_turn_def turn_outage_def Let_def)
  with step_stops_declared [of sample_cycle "sample_facts\<lparr>so_turn := None\<rparr>" Step_incomplete]
  show ?thesis by blast
qed

text \<open>
  Automatic repairs of a report are bounded: a repair is the next of at most two, resumes a
  session that exists, and hands the agent at most twenty issues of at most a thousand
  characters.
\<close>

theorem output_repair_bounded:
  assumes "dec_outcome (decideStepOutcome c f) = Repair_output code is n"
  shows "n = repairs_made c + 1 \<and> n \<le> 2 \<and> run_backendSessionId (so_run f) \<noteq> None
    \<and> length is \<le> 20 \<and> (\<forall>i\<in>set is. length i \<le> 1000)"
  using step_outcome_repair [of c f] assms by (auto simp: repair_ok_def output_repair_limit_def)

definition unread_facts :: step_facts where
  "unread_facts = sample_facts\<lparr>so_reviewAssessment := None\<rparr>"

lemma unread_repair:
  "dec_outcome (decideStepOutcome review_cycle unread_facts)
     = Repair_output Review_needs_attention [review_report_issue] 1"
proof -
  have own: "\<not> ownsIntegrationResolution review_cycle" "scope_kind_of review_cycle = None"
    "cy_step review_cycle = Review" "repairs_made review_cycle = 0"
    by (simp_all add: ownsIntegrationResolution_def review_cycle_def scope_kind_of_def
        repairs_made_def output_repair_of_def attempt_of_def empty_attempt_def)
  have dec: "cd_action (review_decision review_cycle unread_facts) = Act_needs_attention"
    by (simp add: review_decision_def review_scope_issue_def unread_facts_def evaluateCycleCompletion_def
        evaluateCompletion_def)
  have f: "so_run unread_facts = sample_run" "so_turn unread_facts = Some sample_turn"
    "\<not> so_reviewOnly unread_facts" "so_finalization unread_facts = (\<lambda>_. None)"
    "so_reviewAssessment unread_facts = None" "\<not> so_drainInterrupted unread_facts"
    "so_ended unread_facts = None" "review_scope_issue unread_facts = None"
    by (simp_all add: unread_facts_def review_scope_issue_def)
  have "length review_report_issue \<le> 1000" by (simp add: review_report_issue_def)
  then have "js_slice 1000 review_report_issue = review_report_issue" by (simp add: js_slice_def)
  then have "result_outcome review_cycle unread_facts none_text
      = Repair_output Review_needs_attention [review_report_issue] 1"
    using own none_text_read
    by (simp add: result_outcome_def review_outcome_def dec f verification_passes_def Let_def
        review_report_issues_def review_report_fault_def formatFault_def output_repair_limit_def)
  then show ?thesis
    using own none_text_read
    by (simp add: decideStepOutcome_def decideOwnOutcome_def finished_outcome_def classify_workflow_def
        turn_failure_def ended_reason_def complete_turn_def turn_outage_def f)
qed

theorem output_repair_bounded_witness: "(1::nat) = repairs_made review_cycle + 1"
  using output_repair_bounded [OF unread_repair] by blast

text \<open>
  C28. Service retries are bounded and never early: a retry is scheduled only after fewer than
  three earlier ones, for a failure that is safe to retry and never during an integration
  resolution; it waits at least a minute and at most the quota limit and its margin; and the
  step's deadline, when it moves, moves by exactly the wait.
\<close>

theorem service_retry_bounded:
  assumes "dec_outcome (decideStepOutcome c f) = Schedule_service_retry a dl reason"
  shows "recovery_attempts c < 3 \<and> pr_attempts a = recovery_attempts c
    \<and> fl_safeToRetry (pr_failure a) \<and> \<not> ownsIntegrationResolution c
    \<and> (\<exists>t. pr_nextRetryAt a = Some t \<and> so_now f + 60000 \<le> t \<and> t \<le> so_now f + 21720000
          \<and> (dl = None \<or> dl = Some (cy_runDeadlineAt c + (t - so_now f))))"
  using step_outcome_retry [of c f] assms
  by (auto simp: retry_ok_def quota_wait_limit_def quota_reset_margin_def)

definition provider_busy :: provider_failure where
  "provider_busy = \<lparr>fl_kind = Fail_capacity, fl_message = ''Overloaded.'', fl_safeToRetry = True,
     fl_resetsAt = None, fl_resetsAtMs = None, fl_evidence = None\<rparr>"

definition failed_turn :: turn_completed where
  "failed_turn = sample_turn\<lparr>tn_providerFailure := Some provider_busy, tn_outcome := Turn_error\<rparr>"

definition failed_facts :: step_facts where
  "failed_facts = sample_facts\<lparr>so_run := sample_run\<lparr>run_status := Run_failed\<rparr>,
     so_turn := Some failed_turn,
     so_ended := Some \<lparr>rf_reason = None, rf_status = Run_failed, rf_exitCode = Some 1,
       rf_signal = None, rf_message = None\<rparr>\<rparr>"

lemma failed_retry:
  "\<exists>a reason. dec_outcome (decideStepOutcome review_cycle failed_facts)
     = Schedule_service_retry a None reason"
proof -
  have "recovery_retryable review_cycle failed_facts provider_busy True" "recovery_attempts review_cycle = 0"
    "\<not> quota_wait failed_facts provider_busy"
    by (simp_all add: recovery_retryable_def recovery_attempts_def recovery_model_def quota_wait_def
        reset_at_def provider_busy_def failed_facts_def review_cycle_def provider_recovery_of_def
        attempt_of_def empty_attempt_def ownsIntegrationResolution_def)
  moreover have "clean_error_turn failed_facts" "turn_failure failed_facts = Some provider_busy"
    by (simp_all add: clean_error_turn_def turn_failure_def failed_facts_def failed_turn_def ended_reason_def)
  moreover have "run_status (so_run failed_facts) = Run_failed" "\<not> so_drainInterrupted failed_facts"
    "fl_kind provider_busy = Fail_capacity"
    by (simp_all add: failed_facts_def provider_busy_def)
  ultimately show ?thesis
    by (simp add: decideStepOutcome_def decideOwnOutcome_def serviceRecovery_def Let_def)
qed

theorem service_retry_bounded_witness: "recovery_attempts review_cycle < 3"
proof -
  from failed_retry obtain a reason where
    "dec_outcome (decideStepOutcome review_cycle failed_facts) = Schedule_service_retry a None reason" by blast
  from service_retry_bounded [OF this] show ?thesis by blast
qed

lemma result_approves_unstaged:
  assumes "result_outcome c f t = Approve_review ro reason"
  shows "so_finalization f c = None"
proof (rule ccontr)
  assume "so_finalization f c \<noteq> None"
  then obtain x where x: "so_finalization f c = Some x" by blast
  have "fin_stages x \<noteq> None"
    using assms x by (auto simp: result_outcome_def Let_def split: if_splits)
  with review_approves [OF conjunct2 [OF result_approves [OF assms]]] x show False by simp
qed

text \<open>
  C20. A review is approved only on evidence: its run finished with a complete, unclipped,
  successful turn; its structured report is complete, with its gate met and a mergeable verdict,
  and it meets the cycle's completion policy - only nits open and no more than it allows, or
  within a finalization only parked follow-ups - or it verifies a slice and leaves no blocking or
  major finding open; no scope issue was found; the cycle, with the workflow
  the report leaves it, is given no finalization; a scope review's checkpoint says there are no open questions, and any other review raises none.
\<close>

theorem approval_sound:
  assumes "dec_outcome (decideStepOutcome c f) = Approve_review ro reason"
  shows "\<exists>is r t. so_reviewAssessment f = Some (Complete is r) \<and> rp_gateMet r \<and> rp_verdict r = Mergeable
    \<and> (completion_met c r
       \<or> ro \<and> scope_kind_of c = Some Slice_verification
         \<and> (\<forall>x\<in>set (rp_findings r). fd_status x = Open \<longrightarrow> fd_severity x \<in> {Minor, Nit}))
    \<and> so_turn f = Some t \<and> tn_outcome t = Turn_success \<and> \<not> tn_truncated t
    \<and> run_status (so_run f) = Run_finished
    \<and> cy_step c = Review \<and> \<not> ownsIntegrationResolution c
    \<and> \<not> truthy (review_scope_issue f) \<and> ro = so_reviewOnly f
    \<and> (\<exists>w. so_finalization f (c\<lparr>cy_workflow := w\<rparr>) = None)
    \<and> (if ro then noOpenQuestions (tn_resultText t) else \<not> raisesOpenQuestions (tn_resultText t))"
proof -
  from step_to_own [OF assms] have "dec_outcome (decideOwnOutcome c f) = Approve_review ro reason" by simp
  from own_to_finished [OF this] obtain t where t: "so_turn f = Some t"
    "run_status (so_run f) = Run_finished" "tn_outcome t = Turn_success" "\<not> tn_truncated t"
    and done_: "dec_outcome (finished_outcome c f (tn_resultText t)) = Approve_review ro reason"
    by auto
  obtain c' u
    where c': "classify_workflow c f (tn_resultText t) = Inr (c', u)" "\<not> ownsIntegrationResolution c"
      and res: "result_outcome c' f (tn_resultText t) = Approve_review ro reason"
    by (rule finished_to_result [OF done_]) simp_all
  from classify_workflow_cycle [OF c'(1)] have same: "completion_met c' r = completion_met c r"
      "scope_kind_of c' = scope_kind_of c" for r
    by (auto simp: scope_kind_of_def)
  from result_approves [OF res] classify_workflow_step [OF c'(1)] have step: "cy_step c = Review"
    and rev: "review_outcome c' f (so_finalization f c') (tn_resultText t) = Approve_review ro reason"
    by auto
  note ok = review_approves [OF rev]
  have "\<exists>is r. so_reviewAssessment f = Some (Complete is r) \<and> rp_gateMet r \<and> rp_verdict r = Mergeable
    \<and> (completion_met c r
       \<or> ro \<and> scope_kind_of c = Some Slice_verification
         \<and> (\<forall>x\<in>set (rp_findings r). fd_status x = Open \<longrightarrow> fd_severity x \<in> {Minor, Nit}))"
  proof (cases "cd_action (review_decision c' f) = Act_awaiting_merge")
    case True
    note awaiting = conjunct2 [OF awaiting_decision [OF True]]
    from evaluateCycleCompletion_awaiting [OF awaiting] obtain "is" r
      where r: "so_reviewAssessment f = Some (Complete is r)" by metis
    with awaiting same(1) [of r] show ?thesis by (auto simp: policy_awaiting)
  next
    case False
    with ok obtain fs where "verificationFollowUps (so_reviewAssessment f) = Some fs"
        "ro" "scope_kind_of c = Some Slice_verification" using same(2) by auto
    with verificationFollowUps_Some [OF this(1)] show ?thesis by (auto simp: open_findings_def)
  qed
  moreover have "\<exists>w. so_finalization f (c\<lparr>cy_workflow := w\<rparr>) = None"
    using result_approves_unstaged [OF res] classify_workflow_cycle [OF c'(1)]
    by (cases "c' = c") (auto intro: exI [of _ "cy_workflow c"])
  ultimately show ?thesis using t ok step c'(2) result_approves_unstaged [OF res] by (auto split: if_splits)
qed

theorem approval_sound_witness:
  "dec_outcome (decideStepOutcome review_cycle sample_facts) = Approve_review False
      ''Review meets the completion policy (0 open nits, allowance 3). Operator merge approval required.''
   \<and> (\<exists>is r. so_reviewAssessment sample_facts = Some (Complete is r) \<and> rp_verdict r = Mergeable)"
proof -
  have own: "\<not> ownsIntegrationResolution review_cycle" "scope_kind_of review_cycle = None"
    "cy_step review_cycle = Review" "active_review_of review_cycle = None"
    by (simp_all add: ownsIntegrationResolution_def review_cycle_def scope_kind_of_def active_review_of_def)
  have ev: "evaluateCycleCompletion review_cycle (Some (Complete [] clean_report)) = \<lparr>cd_action = Act_awaiting_merge,
      cd_reason = ''Review meets the completion policy (0 open nits, allowance 3). Operator merge approval required.'',
      cd_openCounts = openCounts []\<rparr>"
    by (simp add: evaluateCycleCompletion_def evaluateCompletion_def clean_report_def openCounts_def
        count_open_def open_findings_def review_cycle_def default_completion_policy_def)
  have dec: "review_decision review_cycle sample_facts = evaluateCycleCompletion review_cycle (Some (Complete [] clean_report))"
    by (simp add: review_decision_def review_scope_issue_def)
  have "result_outcome review_cycle sample_facts none_text = Approve_review False
      ''Review meets the completion policy (0 open nits, allowance 3). Operator merge approval required.''"
    using own none_text_read
    by (simp add: result_outcome_def review_outcome_def dec ev verification_passes_def)
  then have "dec_outcome (decideStepOutcome review_cycle sample_facts) = Approve_review False
      ''Review meets the completion policy (0 open nits, allowance 3). Operator merge approval required.''"
    using own none_text_read
    by (simp add: decideStepOutcome_def decideOwnOutcome_def finished_outcome_def classify_workflow_def
        turn_failure_def ended_reason_def complete_turn_def turn_outage_def)
  with approval_sound [OF this] show ?thesis by blast
qed

definition design_settled :: "step_facts \<Rightarrow> string \<Rightarrow> bool" where
  "design_settled f report =
     (case parseDesignReport (so_decodeDesign f) report of
        Design_complete items \<Rightarrow> (\<forall>i\<in>set items. di_kind i = Item_resolved)
      | Design_invalid why \<Rightarrow> False
      | Design_absent \<Rightarrow> True)"

lemma unresolved_not_advance:
  "unresolved_outcome c f items = Some d \<Longrightarrow> \<exists>code m r. d = Attention code m r
     \<or> (\<exists>t rs reason. d = Design_wait t rs reason)"
  by (auto simp: unresolved_outcome_def Let_def split: if_splits)

lemma design_advances:
  assumes "design_outcome c f t = Next_step st ch act"
  shows "st = Implement \<and> designHasNoOpenQuestions t False \<and> design_settled f t"
proof -
  have inv: "investigation_outcome c f t \<noteq> Next_step st ch act"
    by (simp add: investigation_outcome_def Let_def)
  have ff: "formatFault c f code m is fault \<noteq> Next_step st ch act" for code m "is" fault
    by (simp add: formatFault_def Let_def)
  have un: "unresolved_outcome c f items \<noteq> Some (Next_step st ch act)" for items
    using unresolved_not_advance [of c f items "Next_step st ch act"] by auto
  have q: "design_questions_outcome c f t = Next_step st ch act \<Longrightarrow>
      st = Implement \<and> designHasNoOpenQuestions t False"
    by (auto simp: design_questions_outcome_def ff Let_def split: if_splits)
  have all: "unresolved_outcome c f items = None \<Longrightarrow> \<forall>i\<in>set items. di_kind i = Item_resolved" for items
    by (auto simp: unresolved_outcome_def Let_def filter_empty_conv split: if_splits)
  show ?thesis
    using assms inv un q all ff
    by (auto simp: design_outcome_def design_settled_def split: if_splits design_parse.splits option.splits)
qed

lemma implement_from_design:
  assumes "result_outcome c f t = Next_step st ch act"
  shows "cy_step c = Design \<and> design_outcome c f t = Next_step st ch act"
proof -
  have ff: "formatFault c f code m is fault \<noteq> Next_step st ch act" for code m "is" fault
    by (simp add: formatFault_def Let_def)
  have "review_outcome c f x t \<noteq> Next_step st ch act" for x
    by (auto simp: review_outcome_def stage_review_outcome_def scope_review_outcome_def ff Let_def
        split: option.splits assessment.splits completion_action.splits)
  with assms ff show ?thesis
    by (auto simp: result_outcome_def Let_def split: if_splits cycle_step.splits)
qed

lemma investigation_continues:
  assumes "result_outcome c f t = Continue_design reason"
  shows "cy_step c = Design \<and> designHasNoOpenQuestions t False
    \<and> (\<exists>items. parseDesignReport (so_decodeDesign f) t = Design_complete items \<and> resolved_items items)
    \<and> (\<forall>items. parseDesignReport (so_decodeDesign f) (over (so_designRecoverySource f c) []) = Design_complete items
          \<longrightarrow> (\<forall>i\<in>set items. di_kind i \<noteq> Item_operator_decision \<and> di_kind i \<noteq> Item_planning_conflict))"
proof -
  have ff: "formatFault c f code m is fault \<noteq> Continue_design reason" for code m "is" fault
    by (simp add: formatFault_def Let_def)
  have un: "unresolved_outcome c f items \<noteq> Some (Continue_design reason)" for items
    using unresolved_not_advance [of c f items "Continue_design reason"] by auto
  have rev: "review_outcome c f x t \<noteq> Continue_design reason" for x
    by (auto simp: review_outcome_def stage_review_outcome_def scope_review_outcome_def ff Let_def
        split: option.splits assessment.splits completion_action.splits)
  have q: "design_questions_outcome c f t \<noteq> Continue_design reason"
    by (simp add: design_questions_outcome_def ff Let_def)
  from assms ff rev have des: "cy_step c = Design" "design_outcome c f t = Continue_design reason"
    by (auto simp: result_outcome_def Let_def split: if_splits cycle_step.splits)
  then have "investigation_outcome c f t = Continue_design reason"
    using un q ff
    by (auto simp: design_outcome_def split: if_splits design_parse.splits option.splits)
  with des(1) show ?thesis
    by (auto simp: investigation_outcome_def Let_def split: if_splits design_parse.splits)
qed

text \<open>
  A design goes on only when it needs nothing from the operator: a design step advances to
  its implementation, and an investigation continues its design, only from a complete
  successful turn whose last section says there are no open questions; an advancing design's
  report, if it has one, resolved every item, and an investigation's report resolved at least
  one and every item, while the design it came from named no operator decision and no planning
  conflict.
\<close>

theorem design_goes_on_answered:
  assumes "dec_outcome (decideStepOutcome c f) = d"
    "d = Next_step Implement no_changes ''advance'' \<or> d = Continue_design reason"
  shows "\<exists>t. so_turn f = Some t \<and> run_status (so_run f) = Run_finished \<and> \<not> tn_truncated t
    \<and> tn_outcome t = Turn_success \<and> cy_step c = Design
    \<and> designHasNoOpenQuestions (tn_resultText t) False
    \<and> (d = Next_step Implement no_changes ''advance'' \<longrightarrow> design_settled f (tn_resultText t))
    \<and> (d = Continue_design reason \<longrightarrow>
         (\<exists>items. parseDesignReport (so_decodeDesign f) (tn_resultText t) = Design_complete items
            \<and> resolved_items items))"
proof -
  have no: "\<And>code m r. d \<noteq> Attention code m r" "\<And>a dl why. d \<noteq> Schedule_service_retry a dl why"
    "d \<notin> {Wait_for_run, End_turn, Resume_after_restart}" "\<And>code is n. d \<noteq> Repair_output code is n"
    "\<And>st ch. d \<noteq> Next_step st ch ''continue-incomplete-result''" "d \<noteq> Advance_resolution"
    using assms(2) by auto
  from own_to_finished [OF step_to_own [OF assms(1) no(1,2)] no(3,1,2,5)] obtain t
    where t: "so_turn f = Some t" "run_status (so_run f) = Run_finished" "tn_outcome t = Turn_success"
      "\<not> tn_truncated t" "dec_outcome (finished_outcome c f (tn_resultText t)) = d" by metis
  obtain c' u where c': "classify_workflow c f (tn_resultText t) = Inr (c', u)"
      "result_outcome c' f (tn_resultText t) = d"
    by (rule finished_to_result [OF t(5) no(6,1,4)])
  have "cy_step c = cy_step c'" using classify_workflow_step [OF c'(1)] by simp
  then have "cy_step c = Design \<and> designHasNoOpenQuestions (tn_resultText t) False
    \<and> (d = Next_step Implement no_changes ''advance'' \<longrightarrow> design_settled f (tn_resultText t))
    \<and> (d = Continue_design reason \<longrightarrow>
         (\<exists>items. parseDesignReport (so_decodeDesign f) (tn_resultText t) = Design_complete items
            \<and> resolved_items items))"
    using assms(2) c'(2) implement_from_design [of c' f "tn_resultText t" Implement no_changes "''advance''"]
      design_advances [of c' f "tn_resultText t" Implement no_changes "''advance''"]
      investigation_continues [of c' f "tn_resultText t" reason] by auto
  with t show ?thesis by blast
qed

lemma design_sample:
  "dec_outcome (decideStepOutcome sample_cycle sample_facts) = Next_step Implement no_changes ''advance''"
  using none_text_read
  by (simp add: decideStepOutcome_def decideOwnOutcome_def finished_outcome_def classify_workflow_def
      turn_failure_def ended_reason_def complete_turn_def turn_outage_def ownsIntegrationResolution_def
      scope_kind_of_def result_outcome_def design_outcome_def design_questions_outcome_def)

theorem design_goes_on_answered_witness: "designHasNoOpenQuestions none_text False"
  using design_goes_on_answered [OF design_sample] by auto

text \<open>
  Background-work continuations are bounded: the controller continues an incomplete result
  at most twice per step attempt, on the same step and within the step's original deadline, and
  only after a turn that succeeded, was not clipped and asked nothing.
\<close>

theorem continuation_bounded:
  assumes "dec_outcome (decideStepOutcome c f) = Next_step st ch ''continue-incomplete-result''"
  shows "st = cy_step c \<and> continuation_attempts c < 2
    \<and> ac_resultContinuations (ch_attempt ch) = Put (continuation_attempts c + 1)
    \<and> ch_runDeadlineAt ch = Some (cy_runDeadlineAt c) \<and> \<not> ownsIntegrationResolution c
    \<and> (\<exists>t. so_turn f = Some t \<and> tn_outcome t = Turn_success \<and> \<not> tn_truncated t
          \<and> \<not> raisesOpenQuestions (tn_resultText t))"
proof -
  let ?d = "Next_step st ch ''continue-incomplete-result''"
  have own: "dec_outcome (decideOwnOutcome c f) = ?d" by (rule step_to_own [OF assms]) simp_all
  have done_: "dec_outcome (finished_outcome c f t) \<noteq> ?d" for t
  proof
    assume fd: "dec_outcome (finished_outcome c f t) = ?d"
    obtain c' u where "result_outcome c' f t = ?d"
      by (rule finished_to_result [OF fd]) simp_all
    from conjunct2 [OF implement_from_design [OF this]] show False
      by (auto simp: design_outcome_def investigation_outcome_def design_questions_outcome_def
          formatFault_def Let_def split: if_splits design_parse.splits option.splits
          dest: unresolved_not_advance)
  qed
  have rec: "dec_outcome (serviceRecovery c f failure e None) \<noteq> ?d" for failure e
    using serviceRecovery_none [of c f failure e] by auto
  have "\<exists>ended. so_ended f = Some ended \<and> background_outcome c f ended = ?d"
  proof (cases "so_ended f")
    case None
    with own done_ rec show ?thesis
      by (auto simp: decideOwnOutcome_def ended_reason_def Let_def split: if_splits option.splits)
  next
    case (Some ended)
    with own done_ rec show ?thesis
      by (auto simp: decideOwnOutcome_def Let_def split: if_splits option.splits)
  qed
  then obtain ended where "background_outcome c f ended = ?d" by blast
  then show ?thesis
    by (auto simp: background_outcome_def continuable_def continuation_changes_def explicit_questions_def
        split: if_splits option.splits)
qed

definition background_facts :: step_facts where
  "background_facts = sample_facts\<lparr>so_run := sample_run\<lparr>run_status := Run_failed\<rparr>,
     so_ended := Some \<lparr>rf_reason = Some Background_work_incomplete, rf_status = Run_failed,
       rf_exitCode = Some 0, rf_signal = None, rf_message = None\<rparr>\<rparr>"

lemma background_sample:
  "dec_outcome (decideStepOutcome sample_cycle background_facts)
     = Next_step Design (continuation_changes sample_cycle) ''continue-incomplete-result''"
proof -
  have f: "so_turn background_facts = Some sample_turn" "\<not> so_drainInterrupted background_facts"
    "run_status (so_run background_facts) = Run_failed" "turn_failure background_facts = None"
    "ended_reason background_facts = Some Background_work_incomplete"
    "\<not> explicit_questions background_facts" "turn_outage background_facts = None"
    by (simp_all add: background_facts_def turn_failure_def ended_reason_def explicit_questions_def
        none_text_read turn_outage_def)
  moreover have "continuable sample_cycle background_facts (the (so_ended background_facts))"
    using f by (simp add: continuable_def ownsIntegrationResolution_def continuation_attempts_def
        attempt_of_def empty_attempt_def) (simp add: background_facts_def)
  ultimately show ?thesis
    by (simp add: decideStepOutcome_def decideOwnOutcome_def background_outcome_def)
qed

theorem continuation_bounded_witness: "continuation_attempts sample_cycle < 2"
  using continuation_bounded [OF background_sample] by blast

end
