(* ===== verification/Machine.thy ===== *)
theory Machine
  imports Step_Properties
begin

text \<open>
  The controller's decision core (\<open>apps/server/src/services/cycle/core/machine.ts\<close>): the
  ordered, named guards, the first of which with something to say decides; the lane a
  decision is applied in (\<open>lanes.ts\<close>); and when a cycle next needs a look by itself
  (\<open>next-look.ts\<close>). The stored facts of \<open>facts.ts\<close> and the process-local facts of
  the kernel are the records \<open>cycle_facts\<close> and \<open>kernel_facts\<close>.
\<close>

section \<open>Facts\<close>

record cycle_facts =
  fa_settling :: bool
  fa_worktree :: "worktree option"
  fa_scopeEvidenceRecorded :: bool
  fa_currentRun :: "agent_run option"
  fa_parentRun :: "agent_run option"
  fa_newestRun :: "agent_run option"
  fa_lastTurn :: "agent_run \<Rightarrow> turn_completed option"
  fa_delegationRunnable :: "bool option"
  fa_sharedDecisionsAccepted :: bool
  fa_creatorAuthorized :: bool
  fa_onlyOperatorCanAdvance :: bool
  fa_readiness :: readiness
  fa_itemRefusal :: "attention_code option"
  fa_mergeReserved :: bool
  fa_controllerReviewRunnable :: bool
  fa_phaseBlockers :: "phase_blocker list"
  fa_designDependencies :: "design_requirement list \<Rightarrow> bool \<times> string list"
  fa_roadmapPaused :: bool
  fa_stepOutcome :: "agent_run \<Rightarrow> step_facts"
  fa_decodeWorkflow :: "string \<Rightarrow> workflow_report option"

record kernel_facts =
  kf_refreshing :: bool
  kf_cleaningRun :: bool
  kf_draining :: bool

section \<open>Guards and decisions\<close>

datatype cycle_guard =
    G_roadmap_settling | G_investigation_live | G_worktree_change_open | G_kernel_busy
  | G_integrated | G_shared_decision_reassessment | G_reassessable_stop | G_not_active
  | G_worktree_inactive | G_authority_lost | G_operator_merge_only | G_item_ready
  | G_merge_reserved | G_merge_boundary | G_controller_review_held | G_scope_phase_gates
  | G_design_dependencies | G_phase_wait_cleared | G_step_deadline | G_provider_retry_due
  | G_provider_retry_held | G_integration_resolution | G_no_run | G_step_outcome

definition cycle_guards :: "cycle_guard list" where
  "cycle_guards =
     [G_roadmap_settling, G_investigation_live, G_worktree_change_open, G_kernel_busy,
      G_integrated, G_shared_decision_reassessment, G_reassessable_stop, G_not_active,
      G_worktree_inactive, G_authority_lost, G_operator_merge_only, G_item_ready,
      G_merge_reserved, G_merge_boundary, G_controller_review_held, G_scope_phase_gates,
      G_design_dependencies, G_phase_wait_cleared, G_step_deadline, G_provider_retry_due,
      G_provider_retry_held, G_integration_resolution, G_no_run, G_step_outcome]"

datatype idle_reason =
    I_settling | I_busy | I_reassessment_not_ready | I_not_reassessable | I_not_active
  | I_operator_merge_only | I_merge_reserved | I_dependencies_pending | I_roadmap_paused
  | I_retry_not_due | I_retry_held | I_draining

datatype cycle_effect =
    Settle_investigation
  | Check_worktree_restored
  | Reassess agent_run
  | Merge_boundary "agent_run option"
  | Advance_resolution_effect

datatype cycle_wait =
    Record_phase "phase_blocker list" string
  | Clear_phase time string

datatype decision_body =
    Idle idle_reason "time option"
  | Complete_cycle cycle_end_code string
  | Wait cycle_wait
  | Stop_at attention_code string "attention_refs option" bool \<comment> \<open>the flag: the live turn is cancelled first\<close>
  | Launch cycle_step "agent_run option" cycle_changes "string option"
  | Start_run bool "agent_run option"
  | Effect cycle_effect
  | Outcome agent_run "worktree option" step_decision

definition guard_codes :: "attention_code list" where
  "guard_codes =
     [Worktree_inactive, Authority_lost, Phase_gate, Item_unavailable, Item_not_admitted,
      Item_completed_unmerged, Predecessors_incomplete, Finalization_inactive,
      Design_dependency_unsupported, Design_recheck_unavailable,
      Design_dependency_continuations_exhausted, Step_time_limit, Service_retry_mismatch]"

definition reassessable_stops :: "attention_code list" where
  "reassessable_stops =
     [Implementation_open_questions, Review_open_questions, Review_open_questions_at_limit,
      Workflow_report_invalid, Workflow_questions_disagree, Finalization_needs_input]"

definition scheduling_held_blocker :: phase_blocker where
  "scheduling_held_blocker =
     \<lparr>pb_kind = Blk_authorization, pb_message = ''Roadmap scheduling or this entry is paused.'',
      pb_code = PB_scheduling_held, pb_refs = None\<rparr>"

fun readinessDecision :: "readiness \<Rightarrow> decision_body option" where
  "readinessDecision Ready = None"
| "readinessDecision (Wait_for bs reason) = Some (Wait (Record_phase bs reason))"
| "readinessDecision (Refused code m refs) = Some (Stop_at code m refs False)"

definition questions_of :: "work_cycle \<Rightarrow> workflow_question list" where
  "questions_of c = (case cy_workflow c of None \<Rightarrow> [] | Some w \<Rightarrow> wf_questions w)"

definition reassessments_of :: "work_cycle \<Rightarrow> nat" where
  "reassessments_of c = (case cy_workflow c of None \<Rightarrow> 0 | Some w \<Rightarrow> wf_reassessments w)"

text \<open>The guards of a stop a delegated reviewer can classify again.\<close>

definition shared_reassessment :: "work_cycle \<Rightarrow> cycle_facts \<Rightarrow> decision_body option" where
  "shared_reassessment c f =
     (if cy_status c \<noteq> Needs_attention
         \<or> questions_of c = []
         \<or> (\<exists>q\<in>set (questions_of c). wq_destination q \<noteq> To_shared_decision)
         \<or> fa_delegationRunnable f \<noteq> Some True
         \<or> 2 \<le> reassessments_of c
         \<or> \<not> fa_sharedDecisionsAccepted f
      then None
      else (case fa_currentRun f of
              Some r \<Rightarrow> if run_status r = Run_finished then Some (Effect (Reassess r))
                        else Some (Idle I_reassessment_not_ready None)
            | None \<Rightarrow> Some (Idle I_reassessment_not_ready None)))"

definition reassessable_stop :: "work_cycle \<Rightarrow> cycle_facts \<Rightarrow> decision_body option" where
  "reassessable_stop c f =
     (if cy_status c \<noteq> Needs_attention
         \<or> scope_kind_of c \<noteq> Some Slice
         \<or> cy_step c = Design
         \<or> (case cycle_stop_of c of None \<Rightarrow> True | Some a \<Rightarrow> at_code a \<notin> set reassessable_stops)
         \<or> ownsIntegrationResolution c
      then None
      else (case fa_currentRun f of
              None \<Rightarrow> Some (Idle I_not_reassessable None)
            | Some prior \<Rightarrow>
                if run_status prior = Run_finished
                   \<and> (case fa_lastTurn f prior of
                        None \<Rightarrow> False
                      | Some t \<Rightarrow> \<not> tn_truncated t
                          \<and> (case parseWorkflowReport (fa_decodeWorkflow f) (tn_resultText t) of
                               Workflow_complete r \<Rightarrow> False | _ \<Rightarrow> True))
                   \<and> fa_delegationRunnable f = Some True
                   \<and> reassessments_of c < 2
                then Some (Effect (Reassess prior))
                else Some (Idle I_not_reassessable None)))"

definition design_dependencies :: "work_cycle \<Rightarrow> cycle_facts \<Rightarrow> decision_body option" where
  "design_dependencies c f =
     (case cw_design (waits_of c) of
        None \<Rightarrow> None
      | Some (since, requirements) \<Rightarrow>
          let state = fa_designDependencies f requirements;
              used = over (cy_designDependencyContinuations c) 0
          in Some
           (if \<not> fst state
            then Stop_at Design_dependency_unsupported (js_join '' '' (snd state)) None False
            else if snd state \<noteq> [] then Idle I_dependencies_pending None
            else if fa_roadmapPaused f then Idle I_roadmap_paused None
            else (case fa_currentRun f of
                    None \<Rightarrow> Stop_at Design_recheck_unavailable
                      ''Inspect the completed design before continuing.'' None False
                  | Some parent \<Rightarrow>
                      if run_status parent \<noteq> Run_finished
                      then Stop_at Design_recheck_unavailable
                        ''Inspect the completed design before continuing.'' None False
                      else if 2 \<le> used
                      then Stop_at Design_dependency_continuations_exhausted
                        ''Two automatic dependency continuations have been used. Review the latest design and authorize recovery.'' None False
                      else Launch Design (Some parent)
                        (no_changes
                          \<lparr>ch_waits := \<lparr>wc_phase = Drop, wc_design = Drop\<rparr>,
                           ch_designDependencyContinuations := Put (used + 1),
                           ch_reason := Some ''Mapped predecessors are ready. Rechecking the design with current evidence.''\<rparr>)
                        None)))"

fun step_text :: "cycle_step \<Rightarrow> string" where
  "step_text Design = ''design''"
| "step_text Implement = ''implement''"
| "step_text Review = ''review''"
| "step_text Remediate = ''remediate''"

definition phase_wait_cleared :: "work_cycle \<Rightarrow> cycle_facts \<Rightarrow> time \<Rightarrow> decision_body option" where
  "phase_wait_cleared c f now =
     (case cw_phase (waits_of c) of
        None \<Rightarrow> None
      | Some (since, bs) \<Rightarrow>
          let delay = (if fa_currentRun f = None \<and> provider_recovery_of c = None then now - since else 0)
          in Some (Wait (Clear_phase (cy_runDeadlineAt c + max 0 delay)
               (''Starting '' @ step_text (cy_step c) @ '' after phase requirements cleared.''))))"

text \<open>The retry's run, if the recovery still matches the worktree's latest failed run.\<close>

definition retry_parent :: "cycle_facts \<Rightarrow> provider_recovery \<Rightarrow> agent_run option" where
  "retry_parent f r =
     (case fa_currentRun f of
        None \<Rightarrow> None
      | Some p \<Rightarrow>
          let outage = (run_status p = Run_finished
                \<and> (case fa_lastTurn f p of None \<Rightarrow> False | Some t \<Rightarrow> tn_suspectedOutage t \<noteq> None))
          in if run_id p \<noteq> pr_sourceRunId r
                \<or> (run_status p \<noteq> Run_failed \<and> \<not> outage)
                \<or> map_option run_id (fa_newestRun f) \<noteq> Some (run_id p)
             then None else Some p)"

definition retry_changes :: "work_cycle \<Rightarrow> provider_recovery \<Rightarrow> cycle_changes" where
  "retry_changes c r = no_changes
     \<lparr>ch_attempt := no_attempt_changes
        \<lparr>ac_providerRecovery := Put (Some (r\<lparr>pr_attempts := pr_attempts r + 1, pr_nextRetryAt := None\<rparr>)),
         ac_resultContinuations := Put (continuation_attempts c),
         ac_housekeepingInstructions :=
           (case sa_housekeepingInstructions (attempt_of c) of Some h \<Rightarrow> Put h | None \<Rightarrow> Drop)\<rparr>,
      ch_runDeadlineAt := Some (cy_runDeadlineAt c),
      ch_instructions := Some (cy_instructions c),
      ch_reason := Some (''Starting service retry '' @ string_of_nat (pr_attempts r + 1)
        @ '' of 3 on the same backend/model; no remediation round consumed.'')\<rparr>"

definition provider_retry_due :: "work_cycle \<Rightarrow> cycle_facts \<Rightarrow> time \<Rightarrow> decision_body option" where
  "provider_retry_due c f now =
     (case provider_recovery_of c of
        None \<Rightarrow> None
      | Some r \<Rightarrow>
          (case pr_nextRetryAt r of
             None \<Rightarrow> None
           | Some due \<Rightarrow>
               Some (if fa_roadmapPaused f then Idle I_retry_held None
                else if now < due then Idle I_retry_not_due (Some due)
                else (case retry_parent f r of
                        None \<Rightarrow> Stop_at Service_retry_mismatch
                          ''Provider recovery no longer matches the latest failed run. Inspect the worktree before resuming.'' None False
                      | Some p \<Rightarrow>
                          (case (if truthy (cy_workItemId c) then readinessDecision (fa_readiness f) else None) of
                             Some blocked \<Rightarrow> blocked
                           | None \<Rightarrow> Launch (cy_step c) (Some p) (retry_changes c r)
                                       (Some ''retry-provider''))))))"

definition scope_phase_gates :: "cycle_facts \<Rightarrow> decision_body option" where
  "scope_phase_gates f =
     (if fa_currentRun f \<noteq> None \<or> fa_phaseBlockers f = [] then None
      else
        let bs = fa_phaseBlockers f; message = js_join [CHR 0x0A] (map pb_message bs) in
        Some (if phase_gate_waiting bs then Wait (Record_phase bs message)
              else Stop_at Phase_gate message
                (Some (no_refs\<lparr>ref_blockers := Some (dedup (map pb_code bs))\<rparr>)) False))"

section \<open>The guards\<close>

fun guard :: "work_cycle \<Rightarrow> cycle_facts \<Rightarrow> kernel_facts \<Rightarrow> time \<Rightarrow> cycle_guard \<Rightarrow> decision_body option" where
  "guard c f k now G_roadmap_settling = (if fa_settling f then Some (Idle I_settling None) else None)"
| "guard c f k now G_investigation_live =
     (if investigationLive c then Some (Effect Settle_investigation) else None)"
| "guard c f k now G_worktree_change_open =
     (if worktreeChangeOpen c then Some (Effect Check_worktree_restored) else None)"
| "guard c f k now G_kernel_busy =
     (if kf_refreshing k \<or> kf_cleaningRun k then Some (Idle I_busy None) else None)"
| "guard c f k now G_integrated =
     (let merged = (case fa_worktree f of None \<Rightarrow> False | Some w \<Rightarrow> wt_mergedAt w \<noteq> None) in
      if \<not> merged \<and> \<not> fa_scopeEvidenceRecorded f then None
      else if fa_scopeEvidenceRecorded f
      then Some (Complete_cycle Scope_evidence_recorded
        ''Independent scope evidence recorded; review cycle complete.'')
      else Some (Complete_cycle Integrated ''Worktree integrated; cycle complete.''))"
| "guard c f k now G_shared_decision_reassessment = shared_reassessment c f"
| "guard c f k now G_reassessable_stop = reassessable_stop c f"
| "guard c f k now G_not_active =
     (if cy_status c = Running \<or> cy_status c = Awaiting_merge then None
      else Some (Idle I_not_active None))"
| "guard c f k now G_worktree_inactive =
     (if map_option wt_status (fa_worktree f) \<noteq> Some Tree_active
      then Some (Stop_at Worktree_inactive ''Worktree is no longer active.'' None False) else None)"
| "guard c f k now G_authority_lost =
     (if fa_creatorAuthorized f then None
      else Some (Stop_at Authority_lost
        ''The initiating user no longer has permission to run this cycle.'' None True))"
| "guard c f k now G_operator_merge_only =
     (if cy_status c \<noteq> Awaiting_merge then None
      else if (fa_itemRefusal f = None \<or> fa_itemRefusal f = Some Item_completed_unmerged)
              \<and> fa_onlyOperatorCanAdvance f
      then Some (Idle I_operator_merge_only None) else None)"
| "guard c f k now G_item_ready =
     (if truthy (cy_workItemId c) \<and> cy_executionScope c \<noteq> None \<and> cy_status c \<noteq> Awaiting_merge
         \<and> fa_currentRun f \<noteq> None
      then None else readinessDecision (fa_readiness f))"
| "guard c f k now G_merge_reserved =
     (if fa_mergeReserved f then Some (Idle I_merge_reserved None) else None)"
| "guard c f k now G_merge_boundary =
     (if cy_status c = Awaiting_merge then Some (Effect (Merge_boundary (fa_currentRun f))) else None)"
| "guard c f k now G_controller_review_held =
     (if fa_currentRun f = None \<and> active_review_of c \<noteq> None \<and> \<not> fa_controllerReviewRunnable f
      then Some (Wait (Record_phase [scheduling_held_blocker]
        ''Controller review reserved; waiting for scheduling to resume.''))
      else None)"
| "guard c f k now G_scope_phase_gates = scope_phase_gates f"
| "guard c f k now G_design_dependencies = design_dependencies c f"
| "guard c f k now G_phase_wait_cleared = phase_wait_cleared c f now"
| "guard c f k now G_step_deadline =
     (if cy_runDeadlineAt c \<le> now
      then Some (Stop_at Step_time_limit
        ''Step time limit reached. The current process was cancelled; inspect it before resuming.'' None True)
      else None)"
| "guard c f k now G_provider_retry_due = provider_retry_due c f now"
| "guard c f k now G_provider_retry_held =
     (if provider_recovery_of c \<noteq> None \<and> fa_currentRun f = None \<and> fa_roadmapPaused f
      then Some (Idle I_retry_held None) else None)"
| "guard c f k now G_integration_resolution =
     (if ownsIntegrationResolution c \<and> resolution_status_of c \<noteq> Some Res_resolving
      then Some (Effect Advance_resolution_effect) else None)"
| "guard c f k now G_no_run =
     (if fa_currentRun f \<noteq> None then None
      else if cy_step c = Review then Some (Start_run True (fa_parentRun f))
      else if kf_draining k then Some (Idle I_draining None)
      else Some (Start_run False None))"
| "guard c f k now G_step_outcome =
     (case fa_currentRun f of
        None \<Rightarrow> None
      | Some run \<Rightarrow> Some (Outcome run (fa_worktree f) (decideStepOutcome c (fa_stepOutcome f run))))"

definition guardApplies ::
    "work_cycle \<Rightarrow> cycle_facts \<Rightarrow> kernel_facts \<Rightarrow> time \<Rightarrow> cycle_guard \<Rightarrow> bool" where
  "guardApplies c f k now g = (guard c f k now g \<noteq> None)"

text \<open>The first guard with something to say; \<open>None\<close> is the thrown error.\<close>

fun first_guard ::
    "(cycle_guard \<Rightarrow> decision_body option) \<Rightarrow> cycle_guard list \<Rightarrow> (cycle_guard \<times> decision_body) option" where
  "first_guard d [] = None"
| "first_guard d (g # gs) = (case d g of Some b \<Rightarrow> Some (g, b) | None \<Rightarrow> first_guard d gs)"

definition decide ::
    "work_cycle \<Rightarrow> cycle_facts \<Rightarrow> kernel_facts \<Rightarrow> time \<Rightarrow> (cycle_guard \<times> decision_body) option" where
  "decide c f k now = first_guard (guard c f k now) cycle_guards"

section \<open>Lanes\<close>

datatype lane = Fast | Slow

fun outcome_lane :: "outcome \<Rightarrow> lane" where
  "outcome_lane Wait_for_run = Fast"
| "outcome_lane End_turn = Fast"
| "outcome_lane (Attention code m r) = Fast"
| "outcome_lane (Schedule_service_retry a dl reason) = Fast"
| "outcome_lane (Continue_design reason) = Fast"
| "outcome_lane (Design_wait t rs reason) = Fast"
| "outcome_lane _ = Slow"

fun decisionLane :: "decision_body \<Rightarrow> lane" where
  "decisionLane (Outcome r w d) = outcome_lane (dec_outcome d)"
| "decisionLane (Launch st p ch a) = Slow"
| "decisionLane (Start_run b p) = Slow"
| "decisionLane (Effect e) = Slow"
| "decisionLane _ = Fast"

section \<open>Summaries\<close>

fun idle_text :: "idle_reason \<Rightarrow> string" where
  "idle_text I_settling = ''settling''"
| "idle_text I_busy = ''busy''"
| "idle_text I_reassessment_not_ready = ''reassessment-not-ready''"
| "idle_text I_not_reassessable = ''not-reassessable''"
| "idle_text I_not_active = ''not-active''"
| "idle_text I_operator_merge_only = ''operator-merge-only''"
| "idle_text I_merge_reserved = ''merge-reserved''"
| "idle_text I_dependencies_pending = ''dependencies-pending''"
| "idle_text I_roadmap_paused = ''roadmap-paused''"
| "idle_text I_retry_not_due = ''retry-not-due''"
| "idle_text I_retry_held = ''retry-held''"
| "idle_text I_draining = ''draining''"

fun effect_text :: "cycle_effect \<Rightarrow> string" where
  "effect_text Settle_investigation = ''settle-investigation''"
| "effect_text Check_worktree_restored = ''check-worktree-restored''"
| "effect_text (Reassess r) = ''reassess''"
| "effect_text (Merge_boundary r) = ''merge-boundary''"
| "effect_text Advance_resolution_effect = ''advance-resolution''"

fun outcomeSummary :: "outcome \<Rightarrow> string \<times> string" where
  "outcomeSummary Wait_for_run = (''idle'', ''run-live'')"
| "outcomeSummary (Attention code m r) = (''attention'', code_text code)"
| "outcomeSummary (Schedule_service_retry a dl reason) = (''wait'', ''service-retry'')"
| "outcomeSummary (Design_wait t rs reason) = (''wait'', ''design'')"
| "outcomeSummary (Next_step st ch a) = (''launch'', step_text st)"
| "outcomeSummary End_turn = (''effect'', ''end-turn'')"
| "outcomeSummary Resume_after_restart = (''effect'', ''resume-after-restart'')"
| "outcomeSummary (Repair_output code is n) = (''effect'', ''repair-output'')"
| "outcomeSummary Advance_resolution = (''effect'', ''advance-resolution'')"
| "outcomeSummary (Continue_design reason) = (''effect'', ''continue-design'')"
| "outcomeSummary Finalize_implementation = (''effect'', ''finalize-implementation'')"
| "outcomeSummary (Advance_finalization_stage b) = (''effect'', ''advance-finalization-stage'')"
| "outcomeSummary (Remediate_review b) = (''effect'', ''remediate-review'')"
| "outcomeSummary (Approve_review b reason) = (''effect'', ''approve-review'')"

fun end_text :: "cycle_end_code \<Rightarrow> string" where
  "end_text Operator_stopped = ''operator-stopped''"
| "end_text Roadmap_wound_down = ''roadmap-wound-down''"
| "end_text Amendment_retired = ''amendment-retired''"
| "end_text Integrated = ''integrated''"
| "end_text Scope_evidence_recorded = ''scope-evidence-recorded''"

fun decisionSummary :: "decision_body \<Rightarrow> string \<times> string option" where
  "decisionSummary (Idle reason due) = (''idle'', Some (idle_text reason))"
| "decisionSummary (Complete_cycle code reason) = (''complete'', Some (end_text code))"
| "decisionSummary (Stop_at code m refs e) = (''attention'', Some (code_text code))"
| "decisionSummary (Wait (Record_phase bs reason)) = (''wait'', Some ''record-phase'')"
| "decisionSummary (Wait (Clear_phase t reason)) = (''wait'', Some ''clear-phase'')"
| "decisionSummary (Launch st p ch a) = (''launch'', Some (step_text st))"
| "decisionSummary (Start_run refreshFirst p) =
     (''start-run'', if refreshFirst then Some ''refresh-first'' else None)"
| "decisionSummary (Effect e) = (''effect'', Some (effect_text e))"
| "decisionSummary (Outcome r w d) =
     (fst (outcomeSummary (dec_outcome d)), Some (snd (outcomeSummary (dec_outcome d))))"

section \<open>The next look\<close>

definition restored_check :: int where "restored_check = 60000"
definition stuck_investigation :: int where "stuck_investigation = 2 * 60000"

definition ahead :: "time \<Rightarrow> time option \<Rightarrow> time option" where
  "ahead at t = (case t of None \<Rightarrow> None | Some x \<Rightarrow> if at < x then Some x else None)"

definition earliest :: "time option \<Rightarrow> time option \<Rightarrow> time option" where
  "earliest a b =
     (case (a, b) of
        (Some x, Some y) \<Rightarrow> Some (min x y)
      | (Some x, None) \<Rightarrow> Some x
      | (None, y) \<Rightarrow> y)"

definition guard_index :: "cycle_guard \<Rightarrow> nat" where
  "guard_index g = over (find_index (\<lambda>x. x = g) cycle_guards) 0"

definition nextLook ::
    "work_cycle \<Rightarrow> cycle_guard \<times> decision_body \<Rightarrow> (string \<Rightarrow> time option) \<Rightarrow> time \<Rightarrow> time option" where
  "nextLook c d restoredCheckedAt now =
     (if fst d = G_investigation_live then
        (case cy_investigation c of
           None \<Rightarrow> None
         | Some i \<Rightarrow> ahead now (Some (inv_deadlineAt i + stuck_investigation)))
      else if fst d = G_worktree_change_open then
        (case cy_investigation c of
           None \<Rightarrow> None
         | Some i \<Rightarrow> ahead now (map_option (\<lambda>t. t + restored_check) (restoredCheckedAt (inv_id i))))
      else
        earliest
          (case snd d of Idle reason due \<Rightarrow> ahead now due | _ \<Rightarrow> None)
          (if cy_status c = Running \<and> guard_index G_step_deadline < guard_index (fst d)
           then ahead now (Some (cy_runDeadlineAt c)) else None))"

section \<open>The first guard decides\<close>

lemma first_guard_Some:
  "first_guard d gs = Some (g, b) \<Longrightarrow>
     d g = Some b \<and> g \<in> set gs \<and> (\<forall>x\<in>set (takeWhile (\<lambda>x. x \<noteq> g) gs). d x = None)"
  by (induction gs) (auto split: option.splits)

lemma first_guard_None: "first_guard d gs = None \<longleftrightarrow> (\<forall>g\<in>set gs. d g = None)"
  by (induction gs) (auto split: option.splits)

lemma decide_first:
  assumes "decide c f k now = Some (g, b)"
  shows "guard c f k now g = Some b"
    and "\<And>x. x \<in> set (takeWhile (\<lambda>x. x \<noteq> g) cycle_guards) \<Longrightarrow> guard c f k now x = None"
  using first_guard_Some [of "guard c f k now" cycle_guards g b] assms by (auto simp: decide_def)


section \<open>Samples\<close>

definition sample_worktree :: worktree where
  "sample_worktree = \<lparr>wt_executionScope = None, wt_id = ''t1'', wt_workspaceId = ''w1'',
     wt_repositoryId = ''repo'', wt_projectId = ''p1'', wt_workItemId = Some ''i1'',
     wt_planVersionId = None, wt_branchName = ''b'', wt_baseSha = ''s0'', wt_baseBranch = ''main'',
     wt_integrationBranch = None, wt_path = ''/t1'', wt_status = Tree_active, wt_createdAt = 0,
     wt_createdByUserId = ''u1'', wt_removedAt = None, wt_mergedAt = None, wt_mergeSha = None,
     wt_version = 1\<rparr>"

text \<open>A cycle in its worktree with no run of its step yet: nothing holds it.\<close>

definition sample_stored :: cycle_facts where
  "sample_stored = \<lparr>fa_settling = False, fa_worktree = Some sample_worktree,
     fa_scopeEvidenceRecorded = False, fa_currentRun = None, fa_parentRun = None,
     fa_newestRun = None, fa_lastTurn = (\<lambda>_. None), fa_delegationRunnable = None,
     fa_sharedDecisionsAccepted = False, fa_creatorAuthorized = True,
     fa_onlyOperatorCanAdvance = False, fa_readiness = Ready, fa_itemRefusal = None,
     fa_mergeReserved = False, fa_controllerReviewRunnable = True, fa_phaseBlockers = [],
     fa_designDependencies = (\<lambda>_. (True, [])), fa_roadmapPaused = False,
     fa_stepOutcome = (\<lambda>_. sample_facts), fa_decodeWorkflow = (\<lambda>_. None)\<rparr>"

lemma sample_stored_sel [simp]:
  "fa_settling sample_stored = False"
  "fa_worktree sample_stored = Some sample_worktree"
  "fa_scopeEvidenceRecorded sample_stored = False"
  "fa_currentRun sample_stored = None"
  "fa_parentRun sample_stored = None"
  "fa_newestRun sample_stored = None"
  "fa_delegationRunnable sample_stored = None"
  "fa_creatorAuthorized sample_stored = True"
  "fa_readiness sample_stored = Ready"
  "fa_mergeReserved sample_stored = False"
  "fa_controllerReviewRunnable sample_stored = True"
  "fa_phaseBlockers sample_stored = []"
  "fa_roadmapPaused sample_stored = False"
  "fa_stepOutcome sample_stored = (\<lambda>_. sample_facts)"
  "wt_mergedAt sample_worktree = None"
  "wt_status sample_worktree = Tree_active"
  by (simp_all add: sample_stored_def sample_worktree_def)

definition idle_kernel :: kernel_facts where
  "idle_kernel = \<lparr>kf_refreshing = False, kf_cleaningRun = False, kf_draining = False\<rparr>"

lemma idle_kernel_sel [simp]:
  "kf_refreshing idle_kernel = False" "kf_cleaningRun idle_kernel = False" "kf_draining idle_kernel = False"
  by (simp_all add: idle_kernel_def)

lemma sample_quiet [simp]:
  "\<not> investigationLive sample_cycle" "\<not> worktreeChangeOpen sample_cycle"
  "waits_of sample_cycle = no_waits" "provider_recovery_of sample_cycle = None"
  "active_review_of sample_cycle = None" "\<not> ownsIntegrationResolution sample_cycle"
  by (simp_all add: investigationLive_def worktreeChangeOpen_def waits_of_def no_waits_def
      provider_recovery_of_def active_review_of_def attempt_of_def empty_attempt_def
      ownsIntegrationResolution_def)

lemmas decide_simps = decide_def cycle_guards_def Let_def shared_reassessment_def
  reassessable_stop_def scope_phase_gates_def design_dependencies_def phase_wait_cleared_def
  provider_retry_due_def no_waits_def

lemma sample_start: "decide sample_cycle sample_stored idle_kernel 1000 = Some (G_no_run, Start_run False None)"
  by (simp add: decide_simps)

lemma sample_late:
  "decide sample_cycle sample_stored idle_kernel 7200000
     = Some (G_step_deadline, Stop_at Step_time_limit
        ''Step time limit reached. The current process was cancelled; inspect it before resuming.'' None True)"
  by (simp add: decide_simps)

text \<open>
  C6. Every pass decides: for any cycle and any facts exactly one named guard decides, the first
  in the declared order that has something to say, so the controller never reaches its
  \<open>No cycle guard decided\<close> error.
\<close>

theorem decide_total:
  "\<exists>g b. decide c f k now = Some (g, b) \<and> guard c f k now g = Some b
     \<and> (\<forall>x\<in>set (takeWhile (\<lambda>x. x \<noteq> g) cycle_guards). \<not> guardApplies c f k now x)"
proof -
  have "guard c f k now G_no_run \<noteq> None \<or> guard c f k now G_step_outcome \<noteq> None"
    by (cases "fa_currentRun f") simp_all
  then have "\<not> (\<forall>g\<in>set cycle_guards. guard c f k now g = None)"
    by (auto simp: cycle_guards_def)
  then obtain g b where "decide c f k now = Some (g, b)"
    unfolding decide_def first_guard_None [symmetric] by auto
  with decide_first [OF this] show ?thesis by (auto simp: guardApplies_def)
qed

theorem decide_total_witness:
  "\<not> guardApplies sample_cycle sample_stored idle_kernel 1000 G_step_deadline"
  using decide_total [of sample_cycle sample_stored idle_kernel 1000] sample_start
  by (auto simp: cycle_guards_def)

text \<open>The guards before a guard, by name, as facts about the cycle.\<close>

lemma passed_status:
  assumes "decide c f k now = Some (g, b)"
    "g \<notin> {G_roadmap_settling, G_investigation_live, G_worktree_change_open, G_kernel_busy,
          G_integrated, G_shared_decision_reassessment, G_reassessable_stop, G_not_active}"
  shows "(cy_status c = Running \<or> cy_status c = Awaiting_merge) \<and> \<not> fa_settling f
    \<and> \<not> investigationHolds c \<and> \<not> kf_refreshing k \<and> \<not> kf_cleaningRun k"
proof -
  have "G_not_active \<in> set (takeWhile (\<lambda>x. x \<noteq> g) cycle_guards)"
    "G_roadmap_settling \<in> set (takeWhile (\<lambda>x. x \<noteq> g) cycle_guards)"
    "G_investigation_live \<in> set (takeWhile (\<lambda>x. x \<noteq> g) cycle_guards)"
    "G_worktree_change_open \<in> set (takeWhile (\<lambda>x. x \<noteq> g) cycle_guards)"
    "G_kernel_busy \<in> set (takeWhile (\<lambda>x. x \<noteq> g) cycle_guards)"
    using assms(2) by (cases g; simp add: cycle_guards_def)+
  from this [THEN decide_first(2) [OF assms(1)]] show ?thesis
    by (auto simp: investigationHolds_def split: if_splits)
qed

lemma passed_authority:
  assumes "decide c f k now = Some (g, b)"
    "g \<notin> {G_roadmap_settling, G_investigation_live, G_worktree_change_open, G_kernel_busy,
          G_integrated, G_shared_decision_reassessment, G_reassessable_stop, G_not_active,
          G_worktree_inactive, G_authority_lost}"
  shows "(\<exists>w. fa_worktree f = Some w \<and> wt_status w = Tree_active \<and> wt_mergedAt w = None)
    \<and> fa_creatorAuthorized f \<and> \<not> fa_scopeEvidenceRecorded f"
proof -
  have "G_integrated \<in> set (takeWhile (\<lambda>x. x \<noteq> g) cycle_guards)"
    "G_worktree_inactive \<in> set (takeWhile (\<lambda>x. x \<noteq> g) cycle_guards)"
    "G_authority_lost \<in> set (takeWhile (\<lambda>x. x \<noteq> g) cycle_guards)"
    using assms(2) by (cases g; simp add: cycle_guards_def)+
  from this [THEN decide_first(2) [OF assms(1)]] show ?thesis
    by (auto simp: Let_def split: if_splits option.splits)
qed

definition after_boundary :: "cycle_guard list" where
  "after_boundary =
     [G_controller_review_held, G_scope_phase_gates, G_design_dependencies, G_phase_wait_cleared,
      G_step_deadline, G_provider_retry_due, G_provider_retry_held, G_integration_resolution,
      G_no_run, G_step_outcome]"

lemma passed_boundary:
  assumes "decide c f k now = Some (g, b)" "g \<in> set after_boundary"
  shows "cy_status c = Running \<and> \<not> fa_mergeReserved f
    \<and> (fa_currentRun f = None \<longrightarrow> fa_readiness f = Ready)"
proof -
  have "G_item_ready \<in> set (takeWhile (\<lambda>x. x \<noteq> g) cycle_guards)"
    "G_merge_reserved \<in> set (takeWhile (\<lambda>x. x \<noteq> g) cycle_guards)"
    "G_merge_boundary \<in> set (takeWhile (\<lambda>x. x \<noteq> g) cycle_guards)"
    using assms(2) by (auto simp: cycle_guards_def after_boundary_def)
  from this [THEN decide_first(2) [OF assms(1)]] passed_status [OF assms(1)] assms(2) show ?thesis
    by (cases "fa_readiness f") (auto simp: after_boundary_def split: if_splits)
qed

definition after_deadline :: "cycle_guard list" where
  "after_deadline =
     [G_provider_retry_due, G_provider_retry_held, G_integration_resolution, G_no_run, G_step_outcome]"

lemma passed_deadline:
  assumes "decide c f k now = Some (g, b)" "g \<in> set after_deadline"
  shows "now < cy_runDeadlineAt c \<and> waits_of c = no_waits
    \<and> (fa_currentRun f = None \<longrightarrow> fa_phaseBlockers f = [])"
proof -
  have "G_step_deadline \<in> set (takeWhile (\<lambda>x. x \<noteq> g) cycle_guards)"
    "G_design_dependencies \<in> set (takeWhile (\<lambda>x. x \<noteq> g) cycle_guards)"
    "G_phase_wait_cleared \<in> set (takeWhile (\<lambda>x. x \<noteq> g) cycle_guards)"
    "G_scope_phase_gates \<in> set (takeWhile (\<lambda>x. x \<noteq> g) cycle_guards)"
    using assms(2) by (auto simp: cycle_guards_def after_deadline_def)
  from this [THEN decide_first(2) [OF assms(1)]] show ?thesis
    by (cases "waits_of c")
       (auto simp: design_dependencies_def phase_wait_cleared_def scope_phase_gates_def no_waits_def Let_def
        split: if_splits option.splits)
qed

text \<open>The guard a decision of each kind comes from.\<close>

lemma readinessDecision_kinds:
  "readinessDecision r = Some b \<Longrightarrow>
     (\<exists>bs m. b = Wait (Record_phase bs m)) \<or> (\<exists>code m refs. r = Refused code m refs \<and> b = Stop_at code m refs False)"
  by (cases r) auto

lemma guard_driving:
  assumes "guard c f k now g = Some b"
  shows "(\<exists>r w d. b = Outcome r w d) \<longrightarrow> g = G_step_outcome"
    "(\<exists>p ch x p'. b = Launch p p' ch x) \<longrightarrow> g = G_design_dependencies \<or> g = G_provider_retry_due"
    "(\<exists>x p. b = Start_run x p) \<longrightarrow> g = G_no_run"
  using assms
  by (cases g; auto simp: shared_reassessment_def reassessable_stop_def design_dependencies_def
      phase_wait_cleared_def provider_retry_due_def scope_phase_gates_def Let_def
      split: if_splits option.splits dest!: readinessDecision_kinds)+

text \<open>
  C26. A held stop is left alone: while an investigation runs at a cycle's stop, or a worktree
  change it found is open, the controller only settles the investigation or compares the
  worktree; it launches nothing, writes no stop, records no wait and ends no cycle.
\<close>

theorem held_stop_untouched:
  assumes "investigationHolds c" "decide c f k now = Some (g, b)"
  shows "b \<in> {Idle I_settling None, Effect Settle_investigation, Effect Check_worktree_restored}"
proof -
  have "G_investigation_live \<notin> set (takeWhile (\<lambda>x. x \<noteq> g) cycle_guards)
      \<or> G_worktree_change_open \<notin> set (takeWhile (\<lambda>x. x \<noteq> g) cycle_guards)"
    using decide_first(2) [OF assms(2), of G_investigation_live]
      decide_first(2) [OF assms(2), of G_worktree_change_open] assms(1)
    by (auto simp: investigationHolds_def split: if_splits)
  then have "g \<in> {G_roadmap_settling, G_investigation_live, G_worktree_change_open}"
    by (cases g) (simp_all add: cycle_guards_def)
  with decide_first(1) [OF assms(2)] show ?thesis by (auto split: if_splits)
qed

definition sample_investigation :: cycle_investigation where
  "sample_investigation = \<lparr>inv_id = ''n1'', inv_runId = ''r2'', inv_sourceRunId = ''r1'',
     inv_code = Design_open_questions, inv_questionsDigest = ''d'',
     inv_profile = \<lparr>as_backend = Claude_code, as_model = None, as_reasoningEffort = None\<rparr>,
     inv_instructions = [], inv_minutes = 30, inv_deadlineAt = 1800000, inv_startedAt = 0,
     inv_startedByUserId = ''u1'', inv_worktree = None, inv_endRequestedAt = None,
     inv_endRequestedByUserId = None, inv_result = None\<rparr>"

definition investigated_cycle :: work_cycle where
  "investigated_cycle = sample_cycle\<lparr>cy_status := Needs_attention, cy_investigation := Some sample_investigation\<rparr>"

lemma held_live: "investigationLive investigated_cycle"
  by (simp add: investigated_cycle_def investigationLive_def sample_investigation_def)

theorem held_stop_untouched_witness:
  "investigationHolds investigated_cycle
   \<and> decide investigated_cycle sample_stored idle_kernel 1000 = Some (G_investigation_live, Effect Settle_investigation)
   \<and> Effect Settle_investigation
       \<in> {Idle I_settling None, Effect Settle_investigation, Effect Check_worktree_restored}"
proof -
  have h: "investigationHolds investigated_cycle" using held_live by (simp add: investigationHolds_def)
  moreover have d: "decide investigated_cycle sample_stored idle_kernel 1000
      = Some (G_investigation_live, Effect Settle_investigation)"
    using held_live by (simp add: decide_simps)
  ultimately show ?thesis using held_stop_untouched [OF h d] by blast
qed

text \<open>
  Only running and merge-waiting cycles are driven: for a paused, stopped, completed or
  operator-held cycle no decision launches a run, classifies one, writes a stop or a wait; a
  reassessment is decided only at an operator's stop.
\<close>

theorem undriven_status:
  assumes "cy_status c \<noteq> Running" "cy_status c \<noteq> Awaiting_merge" "decide c f k now = Some (g, b)"
  shows "(\<exists>reason due. b = Idle reason due) \<or> (\<exists>code m. b = Complete_cycle code m)
    \<or> b \<in> {Effect Settle_investigation, Effect Check_worktree_restored}
    \<or> (cy_status c = Needs_attention \<and> (\<exists>r. b = Effect (Reassess r)))"
proof -
  have "g \<in> {G_roadmap_settling, G_investigation_live, G_worktree_change_open, G_kernel_busy,
          G_integrated, G_shared_decision_reassessment, G_reassessable_stop, G_not_active}"
    using passed_status [OF assms(3)] assms(1,2) by blast
  with decide_first(1) [OF assms(3)] assms(1,2) show ?thesis
    by (auto simp: shared_reassessment_def reassessable_stop_def Let_def split: if_splits option.splits)
qed

theorem undriven_status_witness:
  "\<exists>b. decide (sample_cycle\<lparr>cy_status := Paused\<rparr>) sample_stored idle_kernel 1000 = Some (G_not_active, b)
     \<and> (\<exists>reason due. b = Idle reason due)"
proof -
  let ?c = "sample_cycle\<lparr>cy_status := Paused\<rparr>"
  have "\<not> investigationLive ?c" "\<not> worktreeChangeOpen ?c"
    by (simp_all add: investigationLive_def worktreeChangeOpen_def)
  then have d: "decide ?c sample_stored idle_kernel 1000 = Some (G_not_active, Idle I_not_active None)"
    by (simp add: decide_simps)
  with undriven_status [OF _ _ d] show ?thesis by auto
qed

text \<open>
  C8. A step starts only where it may: a run is started only for a running cycle in an active,
  unmerged worktree whose creator is authorized, with no merge reserved, nothing held, no
  wait recorded, no phase blocker, its item ready, no run of the step yet and its time limit
  ahead, and outside a drain unless it is a review.
\<close>

theorem start_admissible:
  assumes "decide c f k now = Some (g, Start_run refreshFirst p)"
  shows "cy_status c = Running \<and> now < cy_runDeadlineAt c \<and> waits_of c = no_waits
    \<and> (\<exists>w. fa_worktree f = Some w \<and> wt_status w = Tree_active \<and> wt_mergedAt w = None)
    \<and> fa_creatorAuthorized f \<and> \<not> fa_mergeReserved f \<and> \<not> fa_settling f \<and> \<not> investigationHolds c
    \<and> \<not> kf_refreshing k \<and> \<not> kf_cleaningRun k
    \<and> fa_currentRun f = None \<and> fa_readiness f = Ready \<and> fa_phaseBlockers f = []
    \<and> (refreshFirst \<longleftrightarrow> cy_step c = Review) \<and> (cy_step c \<noteq> Review \<longrightarrow> \<not> kf_draining k)"
proof -
  note gd = decide_first(1) [OF assms]
  with guard_driving(3) have g: "g = G_no_run" by blast
  with gd have run: "fa_currentRun f = None" "refreshFirst \<longleftrightarrow> cy_step c = Review"
    "cy_step c \<noteq> Review \<longrightarrow> \<not> kf_draining k" by (auto split: if_splits)
  show ?thesis
    using run passed_status [OF assms] passed_authority [OF assms] passed_boundary [OF assms]
      passed_deadline [OF assms] g
    by (simp add: after_boundary_def after_deadline_def)
qed

theorem start_admissible_witness:
  "decide sample_cycle sample_stored idle_kernel 1000 = Some (G_no_run, Start_run False None)
   \<and> 1000 < cy_runDeadlineAt sample_cycle"
  using start_admissible [OF sample_start] sample_start by blast

text \<open>
  Deadlines hold: a run's outcome is classified only while the cycle runs and its step's
  time limit is ahead; at or past the limit, unless an earlier guard decides, the decision is
  the time-limit stop that cancels the live turn.
\<close>

theorem deadline_enforced:
  assumes "decide c f k now = Some (g, b)"
  shows "((\<exists>r w d. b = Outcome r w d) \<longrightarrow> cy_status c = Running \<and> now < cy_runDeadlineAt c
            \<and> fa_creatorAuthorized f)
    \<and> (cy_runDeadlineAt c \<le> now \<and> (\<forall>x\<in>set (takeWhile (\<lambda>x. x \<noteq> G_step_deadline) cycle_guards). guard c f k now x = None)
        \<longrightarrow> g = G_step_deadline \<and> (\<exists>m. b = Stop_at Step_time_limit m None True))"
proof -
  note gd = decide_first [OF assms]
  have "cy_status c = Running \<and> now < cy_runDeadlineAt c \<and> fa_creatorAuthorized f"
    if "\<exists>r w d. b = Outcome r w d"
  proof -
    from guard_driving(1) [OF gd(1)] that have g: "g = G_step_outcome" by blast
    then show ?thesis
      using passed_boundary [OF assms] passed_deadline [OF assms] passed_authority [OF assms]
      by (simp add: after_boundary_def after_deadline_def)
  qed
  moreover have "g = G_step_deadline \<and> (\<exists>m. b = Stop_at Step_time_limit m None True)"
    if late: "cy_runDeadlineAt c \<le> now"
      and none: "\<forall>x\<in>set (takeWhile (\<lambda>x. x \<noteq> G_step_deadline) cycle_guards). guard c f k now x = None"
  proof -
    have "G_step_deadline \<notin> set (takeWhile (\<lambda>x. x \<noteq> g) cycle_guards)"
      using gd(2) [of G_step_deadline] late by auto
    moreover have "g \<notin> set (takeWhile (\<lambda>x. x \<noteq> G_step_deadline) cycle_guards)"
      using none gd(1) by auto
    ultimately have "g = G_step_deadline" by (cases g) (simp_all add: cycle_guards_def)
    with gd(1) late show ?thesis by auto
  qed
  ultimately show ?thesis by blast
qed

theorem deadline_enforced_witness:
  "decide sample_cycle sample_stored idle_kernel 7200000
     = Some (G_step_deadline, Stop_at Step_time_limit
        ''Step time limit reached. The current process was cancelled; inspect it before resuming.'' None True)
   \<and> (\<exists>m. Stop_at Step_time_limit
        ''Step time limit reached. The current process was cancelled; inspect it before resuming.'' None True
        = Stop_at Step_time_limit m None True)"
proof -
  have "\<forall>x\<in>set (takeWhile (\<lambda>x. x \<noteq> G_step_deadline) cycle_guards).
      guard sample_cycle sample_stored idle_kernel 7200000 x = None"
    using decide_first(2) [OF sample_late] by blast
  with deadline_enforced [OF sample_late] sample_late show ?thesis by auto
qed

text \<open>
  No guard invents a stop: every stop a guard writes carries one of the guards' declared
  codes, or the code and message with which the readiness gate refused.
\<close>

theorem guard_stops_declared:
  assumes "decide c f k now = Some (g, Stop_at code m refs endTurn)"
  shows "code \<in> set guard_codes \<or> fa_readiness f = Refused code m refs"
  using decide_first(1) [OF assms]
  by (cases g)
     (auto simp: shared_reassessment_def reassessable_stop_def design_dependencies_def guard_codes_def
        phase_wait_cleared_def provider_retry_due_def scope_phase_gates_def Let_def
        split: if_splits option.splits dest!: readinessDecision_kinds)

theorem guard_stops_declared_witness: "Step_time_limit \<in> set guard_codes"
  using guard_stops_declared [OF sample_late] by simp

lemma due_only_retry:
  assumes "decide c f k now = Some (g, Idle r (Some due))"
  shows "g = G_provider_retry_due \<and> r = I_retry_not_due \<and> now < due"
  using decide_first(1) [OF assms]
  by (cases g) (auto simp: shared_reassessment_def reassessable_stop_def design_dependencies_def
      phase_wait_cleared_def provider_retry_due_def scope_phase_gates_def Let_def
      split: if_splits option.splits dest!: readinessDecision_kinds)

text \<open>
  C40. When a cycle is next looked at by the timer, whatever was decided. A look is strictly after
  now, so the timer never spins. When the guard that decided lies past the step deadline there is
  a look: at the step's deadline, or at a retry's due time when that is earlier. Every other guard
  but two leaves the cycle to its own release: a live investigation is looked at two minutes past
  its deadline, and an open worktree change a minute after it was last compared.
\<close>

theorem next_look_ahead:
  assumes "decide c f k now = Some (g, b)"
  shows "(\<forall>t. nextLook c (g, b) seen now = Some t \<longrightarrow> now < t)
    \<and> (g \<in> set after_deadline \<longrightarrow>
        nextLook c (g, b) seen now =
          Some (case b of Idle r (Some due) \<Rightarrow> min due (cy_runDeadlineAt c) | _ \<Rightarrow> cy_runDeadlineAt c))
    \<and> (\<forall>t. g \<notin> set after_deadline \<and> nextLook c (g, b) seen now = Some t \<longrightarrow>
        (\<exists>i. cy_investigation c = Some i
          \<and> (g = G_investigation_live \<and> t = inv_deadlineAt i + stuck_investigation
             \<or> g = G_worktree_change_open \<and> map_option (\<lambda>l. l + restored_check) (seen (inv_id i)) = Some t)))"
proof -
  have ah: "ahead now x = Some t \<Longrightarrow> now < t \<and> x = Some t" for x t
    by (auto simp: ahead_def split: option.splits if_splits)
  have early: "earliest x y = Some t \<Longrightarrow> x = Some t \<or> y = Some t" for x y t
    by (auto simp: earliest_def min_def split: option.splits if_splits)
  have "nextLook c (g, b) seen now = Some t \<Longrightarrow> now < t" for t
    by (auto simp: nextLook_def dest!: early ah split: if_splits option.splits decision_body.splits)
  moreover have "nextLook c (g, b) seen now =
      Some (case b of Idle r (Some due) \<Rightarrow> min due (cy_runDeadlineAt c) | _ \<Rightarrow> cy_runDeadlineAt c)"
    if g: "g \<in> set after_deadline"
  proof -
    have "now < cy_runDeadlineAt c" "cy_status c = Running"
      using passed_deadline [OF assms g] passed_boundary [OF assms] g
      by (auto simp: after_deadline_def after_boundary_def)
    moreover have "guard_index G_step_deadline < guard_index g"
      "g \<noteq> G_investigation_live" "g \<noteq> G_worktree_change_open"
      using g by (auto simp: after_deadline_def guard_index_def cycle_guards_def)
    moreover have "b = Idle r (Some due) \<Longrightarrow> now < due" for r due
      using due_only_retry [of c f k now g r due] assms by blast
    ultimately show ?thesis
      by (auto simp: nextLook_def ahead_def earliest_def split: decision_body.splits option.splits)
  qed
  moreover have "\<exists>i. cy_investigation c = Some i
      \<and> (g = G_investigation_live \<and> t = inv_deadlineAt i + stuck_investigation
         \<or> g = G_worktree_change_open \<and> map_option (\<lambda>l. l + restored_check) (seen (inv_id i)) = Some t)"
    if g: "g \<notin> set after_deadline" and t: "nextLook c (g, b) seen now = Some t" for t
  proof -
    have "\<not> guard_index G_step_deadline < guard_index g"
      using g by (cases g) (auto simp: after_deadline_def guard_index_def cycle_guards_def)
    moreover have "b \<noteq> Idle r (Some due)" for r due
      using due_only_retry [of c f k now g r due] assms g by (auto simp: after_deadline_def)
    ultimately show ?thesis
      using t by (auto simp: nextLook_def dest!: early ah split: if_splits option.splits decision_body.splits)
  qed
  ultimately show ?thesis by blast
qed

theorem next_look_ahead_witness:
  "nextLook sample_cycle (G_no_run, Start_run False None) (\<lambda>_. None) 1000 = Some 7200000"
proof -
  have "G_no_run \<in> set after_deadline" by (simp add: after_deadline_def)
  with next_look_ahead [OF sample_start, of "\<lambda>_. None"] show ?thesis by simp
qed

end
