(* ===== verification/Write_Safety.thy ===== *)
theory Write_Safety
  imports Writer
begin

text \<open>
  What the write path guarantees. First single writes: the frame of \<open>change\<close>, the stop a
  write leaves, the step attempt's lifetime, and that no write the compiler accepts on an
  allowed edge is refused as a programming error. Then the database: an inductive system
  of readers and writers that interleave freely (a writer may hold any snapshot ever
  read), with the invariant of the reachable states.
\<close>

section \<open>The frame of a write\<close>

lemma apply_fields_frame [simp, frame_simps]:
  "cy_id (apply_fields ch c) = cy_id c"
  "cy_workspaceId (apply_fields ch c) = cy_workspaceId c"
  "cy_worktreeId (apply_fields ch c) = cy_worktreeId c"
  "cy_workItemId (apply_fields ch c) = cy_workItemId c"
  "cy_executionScope (apply_fields ch c) = cy_executionScope c"
  "cy_finalizationId (apply_fields ch c) = cy_finalizationId c"
  "cy_status (apply_fields ch c) = next_status c ch"
  "cy_stop (apply_fields ch c) = cy_stop c"
  by (simp_all add: apply_fields_def)

lemma updated_cycle_frame [simp, frame_simps]:
  "cy_id (updated_cycle rd at k c ch) = cy_id c"
  "cy_workspaceId (updated_cycle rd at k c ch) = cy_workspaceId c"
  "cy_worktreeId (updated_cycle rd at k c ch) = cy_worktreeId c"
  "cy_workItemId (updated_cycle rd at k c ch) = cy_workItemId c"
  "cy_executionScope (updated_cycle rd at k c ch) = cy_executionScope c"
  "cy_version (updated_cycle rd at k c ch) = Suc (cy_version c)"
  "cy_updatedAt (updated_cycle rd at k c ch) = at"
  "cy_status (updated_cycle rd at k c ch) = next_status c ch"
  "cy_stop (updated_cycle rd at k c ch) = written_stop c ch (completed_attention rd c ch at) at"
  "cy_attempt (updated_cycle rd at k c ch) = written_attempt c ch k"
  "cy_waits (updated_cycle rd at k c ch) = written_waits c ch"
  "cy_finalizationProgress (updated_cycle rd at k c ch) = scaled_stages c ch"
  by (simp_all add: updated_cycle_def Let_def)

lemma updated_cycle_key [simp]: "cycle_key (updated_cycle rd at k c ch) = cycle_key c"
  by (simp add: cycle_key_def)

lemma updated_cycle_run [simp]:
  "cy_currentRunId (updated_cycle rd at k c ch) = over (ch_currentRunId ch) (cy_currentRunId c)"
  "cy_remediationRounds (updated_cycle rd at k c ch) = over (ch_remediationRounds ch) (cy_remediationRounds c)"
  by (simp_all add: updated_cycle_def Let_def apply_fields_def)

lemma updated_cycle_reason: "length (cy_reason (updated_cycle rd at k c ch)) \<le> 4000"
  by (simp add: updated_cycle_def Let_def)

section \<open>What a successful change did\<close>

lemma change_Wrote:
  assumes "change rd at dec db c ch action ctx extra = Inr (Wrote db' c')"
  shows "c' = updated_cycle rd at (ctx \<noteq> None) c ch"
    and "cycles_put (db_rows db) c' (cy_version c) = Some (db_rows db')"
    and "may_go (cy_status c) (cy_status c') action"
    and "carries (cy_status c') (cy_stop c')"
    and "db_audit db' = db_audit db @ [audit_row_of c' action ctx (Some (cy_status c)) dec extra]"
    and "db_events db' = db_events db @ [cycle_event_of c' at ctx]"
  using assms
  by (auto simp: change_def Let_def checkTransition_def cycles_put_def db_record_def
        split: if_splits replace_result.splits option.splits sum.splits)

lemma change_Unchanged:
  assumes "change rd at dec db c ch action ctx extra = Inr (Unchanged c')"
  shows "c' = c \<and> ctx = None
     \<and> map_option cy_version (cycles_find (db_rows db) (cycle_key c)) = Some (cy_version c)"
  using assms
  by (auto simp: change_def Let_def split: if_splits replace_result.splits option.splits sum.splits)

lemma change_transition_error:
  "(\<exists>e. change rd at dec db c ch action ctx extra = Inl (Transition e)) \<longleftrightarrow>
     \<not> (may_go (cy_status c) (next_status c ch) action
        \<and> carries (next_status c ch) (written_stop c ch (completed_attention rd c ch at) at))"
  by (auto simp: change_def Let_def checkTransition_def
      split: if_splits replace_result.splits option.splits sum.splits)

section \<open>The claims never move a stop across the merge boundary\<close>

lemma currentCycleAttention_code:
  assumes "currentCycleAttention rd c = Some a" "cycle_stop_of c = Some d"
  shows "at_code a = at_code d
     \<or> (at_code a \<in> {Merge_approval, Merge_requirements}
        \<and> at_code d \<in> {Merge_approval, Merge_requirements})"
  using assms by (auto simp: currentCycleAttention_def Let_def split: if_splits)

lemma currentCycleAttention_kind:
  assumes "currentCycleAttention rd c = Some a" "cycle_stop_of c = Some d"
  shows "stop_kind_of (at_code a) = stop_kind_of (at_code d)"
  using currentCycleAttention_code [OF assms] by (auto simp: stop_kind_of_def awaiting_merge_gates_def)

lemma completed_attention_kind:
  assumes "ch_attention ch = Some d" "ch_status ch = Some next"
  shows "\<exists>a. completed_attention rd c ch at = Some a
             \<and> stop_kind_of (at_code a) = stop_kind_of (at_code d)"
proof -
  let ?e = "(apply_fields ch c)\<lparr>cy_stop := Some (stopFor c d next at)\<rparr>"
  have "currentCycleAttention rd ?e = Some a \<Longrightarrow>
          stop_kind_of (at_code a) = stop_kind_of (at_code d)" for a
  proof -
    assume cur: "currentCycleAttention rd ?e = Some a"
    then obtain s where s: "cycle_stop_of ?e = Some s"
      by (auto simp: currentCycleAttention_def split: option.splits)
    then have "s = d"
      by (auto simp: cycle_stop_of_def stopFor_def dest!: cycleStop_Some)
    with currentCycleAttention_kind [OF cur s] show ?thesis by simp
  qed
  with assms show ?thesis
    by (auto simp: completed_attention_def Let_def split: option.splits)
qed

section \<open>A write the compiler accepts\<close>

definition stop_kind_at :: "cycle_status \<Rightarrow> stop_kind" where
  "stop_kind_at s = (if s = Awaiting_merge then Gate_stop else Attention_stop)"

lemma carries_stopFor:
  assumes "next \<in> {Needs_attention, Awaiting_merge, Paused}"
    "stop_kind_of (at_code a) = stop_kind_at next"
  shows "carries next (Some (stopFor c a next at))"
  using assms by (auto simp: stopFor_def carries_stopRecord stop_kind_at_def)

text \<open>What a well-typed plain of a record that fits its status leaves always fits.\<close>

lemma well_typed_carries:
  assumes wf: "carries (cy_status c) (cy_stop c)" and typed: "well_typed_changes ch"
    and plain: "ch_restore ch = None"
    and fits: "\<And>a. ch_attention ch = Some a \<Longrightarrow> stop_kind_of (at_code a) = stop_kind_at (next_status c ch)"
    and held: "\<And>k h t. cy_stop c = Some (Held_at k h t) \<Longrightarrow> k = stop_kind_of (at_code h)"
  shows "carries (next_status c ch) (written_stop c ch (completed_attention rd c ch at) at)"
proof (cases "ch_status ch")
  case None
  then have nx: "next_status c ch = cy_status c" and noend: "ch_end ch = None"
    using typed plain by (auto simp: next_status_def well_typed_changes_def)
  have att: "completed_attention rd c ch at = declared_attention c ch"
    using None by (simp add: completed_attention_def split: option.splits)
  show ?thesis
    using wf fits held None nx noend plain
    by (cases "cy_status c"; cases "ch_attention ch")
       (auto simp: att declared_attention_def written_stop_def Let_def attention_status_def
          carries_iff held_stop_of_def stopFor_def stopRecord_def stop_kind_at_def
        split: option.splits cycle_stop.splits)
next
  case (Some st)
  then have nx: "next_status c ch = st" by (simp add: next_status_def)
  show ?thesis
  proof (cases "ch_attention ch")
    case None
    then have att: "completed_attention rd c ch at = declared_attention c ch"
      by (simp add: completed_attention_def)
    show ?thesis
      using wf held Some None typed plain nx
      by (cases st)
         (auto simp: att declared_attention_def written_stop_def Let_def attention_status_def
            carries_iff well_typed_changes_def held_stop_of_def stopFor_def stopRecord_def
          split: option.splits cycle_stop.splits)
  next
    case att: (Some d)
    then have kind: "stop_kind_of (at_code d) = stop_kind_at st" using fits nx by simp
    from completed_attention_kind [OF att Some] obtain a
      where a: "completed_attention rd c ch at = Some a"
        "stop_kind_of (at_code a) = stop_kind_of (at_code d)" by blast
    have "st \<in> {Needs_attention, Awaiting_merge, Paused}"
      using typed plain att Some
      by (cases st) (auto simp: well_typed_changes_def split: option.splits)
    with a kind plain nx show ?thesis
      by (simp add: written_stop_def Let_def carries_stopFor)
  qed
qed

section \<open>The stop a record holds\<close>

text \<open>A record's stop fits its status, and a held stop's kind follows its code.\<close>

definition stop_wf :: "work_cycle \<Rightarrow> bool" where
  "stop_wf c =
     (carries (cy_status c) (cy_stop c)
      \<and> (case cy_stop c of Some (Held_at k a t) \<Rightarrow> k = stop_kind_of (at_code a) | _ \<Rightarrow> True))"

lemma stop_wf_held: "stop_wf c \<Longrightarrow> cy_stop c = Some (Held_at k a t) \<Longrightarrow> k = stop_kind_of (at_code a)"
  by (simp add: stop_wf_def)

lemma written_stop_kind:
  assumes "written_stop c ch att at = Some (Held_at k a t)"
    "\<And>k a t. cy_stop c = Some (Held_at k a t) \<Longrightarrow> k = stop_kind_of (at_code a)"
    "\<And>k a t. ch_restore ch = Some (Some (Held_at k a t)) \<Longrightarrow> k = stop_kind_of (at_code a)"
  shows "k = stop_kind_of (at_code a)"
  using assms
  by (auto simp: written_stop_def Let_def stopFor_def stopRecord_def split: option.splits if_splits)

lemma change_stop_wf:
  assumes "change rd at dec db c ch action ctx extra = Inr (Wrote db' c')" "stop_wf c"
    "\<And>k a t. ch_restore ch = Some (Some (Held_at k a t)) \<Longrightarrow> k = stop_kind_of (at_code a)"
  shows "stop_wf c'"
proof -
  note w = change_Wrote [OF assms(1)]
  have "cy_stop c' = Some (Held_at k a t) \<Longrightarrow> k = stop_kind_of (at_code a)" for k a t
    using written_stop_kind stop_wf_held [OF assms(2)] assms(3) unfolding w(1)
    by (metis updated_cycle_frame(9))
  with w(4) show ?thesis
    by (auto simp: stop_wf_def split: option.splits cycle_stop.splits)
qed

section \<open>The attempt a write leaves\<close>

text \<open>A write that reserves another run leaves nothing of the last attempt.\<close>

lemma fresh_attempt:
  assumes "reserves_other c ch" "\<not> ch_keepAttempt ch"
  shows "written_attempt c ch k =
     (let a = edit_attempt (ch_attempt ch) empty_attempt in if a = empty_attempt then None else Some a)"
  using assms by (simp add: written_attempt_def Let_def)

lemma repair_ends:
  assumes "\<not> (reserves_other c ch \<and> \<not> ch_keepAttempt ch)" "ac_outputRepair (ch_attempt ch) = Keep"
    "next_status c ch \<noteq> Running \<or> k" "written_attempt c ch k = Some a"
  shows "present (sa_outputRepair a) = None"
proof (cases "output_repair_of c")
  case None
  then show ?thesis
    using assms(2,4)
    by (auto simp: written_attempt_def Let_def edit_attempt_def output_repair_of_def empty_attempt_def
        split: if_splits)
next
  case (Some r)
  then show ?thesis
    using assms by (auto simp: written_attempt_def Let_def split: if_splits)
qed

section \<open>Readers and writers\<close>

text \<open>
  The state is the database and every snapshot a caller may still hold. A step inserts a new
  cycle (as a start does: running, without a stop, at version 1), reads a row, writes a
  change from any snapshot held, or refreshes a stop's attention from one. A caller keeps
  the record a write returned. \<open>reads\<close> and the clock are arbitrary at each step.
\<close>

record system =
  sy_db :: cycle_db
  sy_held :: "work_cycle set"

definition new_cycle :: "work_cycle \<Rightarrow> bool" where
  "new_cycle c = (cy_status c = Running \<and> cy_stop c = None \<and> cy_version c = 1)"

definition restore_wf :: "cycle_changes \<Rightarrow> bool" where
  "restore_wf ch =
     (case ch_restore ch of
        Some (Some (Held_at k a t)) \<Rightarrow> k = stop_kind_of (at_code a)
      | _ \<Rightarrow> True)"

inductive sys_step :: "system \<Rightarrow> system \<Rightarrow> bool" where
  Insert: "insert_cycle dec (sy_db s) c action ctx c' = Inr db' \<Longrightarrow> new_cycle c
    \<Longrightarrow> sys_step s \<lparr>sy_db = db', sy_held = insert c (sy_held s)\<rparr>"
| Read: "cycles_find (db_rows (sy_db s)) k = Some c
    \<Longrightarrow> sys_step s (s\<lparr>sy_held := insert c (sy_held s)\<rparr>)"
| Change: "c \<in> sy_held s \<Longrightarrow> restore_wf ch
    \<Longrightarrow> change rd at dec (sy_db s) c ch action ctx extra = Inr (Wrote db' c')
    \<Longrightarrow> sys_step s \<lparr>sy_db = db', sy_held = insert c' (sy_held s)\<rparr>"
| Refresh: "c \<in> sy_held s
    \<Longrightarrow> refreshAttention rd at dec (sy_db s) c = Some (db', c')
    \<Longrightarrow> sys_step s \<lparr>sy_db = db', sy_held = insert c' (sy_held s)\<rparr>"

definition empty_db :: cycle_db where
  "empty_db = \<lparr>db_rows = [], db_audit = [], db_events = [], db_cancelled = []\<rparr>"

inductive sys_reachable :: "system \<Rightarrow> bool" where
  Start: "sys_reachable \<lparr>sy_db = empty_db, sy_held = {}\<rparr>"
| Step: "sys_reachable s \<Longrightarrow> sys_step s t \<Longrightarrow> sys_reachable t"

inductive_cases sys_stepE: "sys_step s t"

text \<open>
  The invariant: the table's keys and indexes hold; every row and every snapshot is
  well-formed; and a snapshot is never newer than its row, and agrees with it on the
  status when it has the row's version.
\<close>

definition sys_inv :: "system \<Rightarrow> bool" where
  "sys_inv s =
     (indexed (db_rows (sy_db s))
      \<and> (\<forall>r\<in>set (db_rows (sy_db s)). stop_wf r)
      \<and> (\<forall>c\<in>sy_held s. stop_wf c)
      \<and> (\<forall>c\<in>sy_held s. \<forall>r. cycles_find (db_rows (sy_db s)) (cycle_key c) = Some r \<longrightarrow>
            cy_version c \<le> cy_version r
            \<and> (cy_version c = cy_version r \<longrightarrow> cy_status c = cy_status r))
      \<and> (\<forall>c\<in>sy_held s. cycles_find (db_rows (sy_db s)) (cycle_key c) \<noteq> None))"

lemma sys_inv_put:
  assumes inv: "sys_inv s" and put: "cycles_put (db_rows (sy_db s)) v n = Some (db_rows db')"
    and wf: "stop_wf v" and old: "cycles_find (db_rows (sy_db s)) (cycle_key v) = Some r"
    and ver: "cy_version v = Suc n \<or> (cy_version v = n \<and> cy_status v = cy_status r)"
  shows "sys_inv \<lparr>sy_db = db', sy_held = insert v (sy_held s)\<rparr>"
proof -
  have idx: "indexed (db_rows (sy_db s))" using inv by (simp add: sys_inv_def)
  have rn: "cy_version r = n" using cycles.put_expected [OF idx put] old by simp
  have same: "cycles_find (db_rows db') (cycle_key v) = Some v" by (rule cycles.put_same [OF idx put])
  have other: "cycles_find (db_rows db') k = cycles_find (db_rows (sy_db s)) k"
    if "k \<noteq> cycle_key v" for k by (rule cycles.put_other [OF idx put that])
  have rows: "stop_wf x" if "x \<in> set (db_rows db')" for x
    using that put inv wf by (auto simp: cycles_put_Some update_row_def sys_inv_def)
  have held: "cy_version c \<le> cy_version x \<and> (cy_version c = cy_version x \<longrightarrow> cy_status c = cy_status x)"
    if c: "c \<in> sy_held s" and x: "cycles_find (db_rows db') (cycle_key c) = Some x" for c x
  proof (cases "cycle_key c = cycle_key v")
    case True
    then have "cy_version c \<le> n" "cy_version c = n \<longrightarrow> cy_status c = cy_status r"
      using inv c old rn by (auto simp: sys_inv_def)
    moreover have "x = v" using x same True by simp
    ultimately show ?thesis using ver by auto
  next
    case False
    then show ?thesis using inv c x other [OF False] by (auto simp: sys_inv_def)
  qed
  have present: "cycles_find (db_rows db') (cycle_key c) \<noteq> None" if "c \<in> sy_held s" for c
    using inv that same other [of "cycle_key c"] by (cases "cycle_key c = cycle_key v") (auto simp: sys_inv_def)
  show ?thesis
    unfolding sys_inv_def
    using cycles.put_ok [OF idx put] rows inv wf held present same
    by (auto simp: sys_inv_def)
qed

lemma held_row:
  assumes "sys_inv s" "c \<in> sy_held s"
  obtains r where "cycles_find (db_rows (sy_db s)) (cycle_key c) = Some r"
    "cy_version c \<le> cy_version r" "cy_version c = cy_version r \<Longrightarrow> cy_status c = cy_status r"
  using assms unfolding sys_inv_def by blast

text \<open>A write from a snapshot the invariant covers starts from the status the row has.\<close>

lemma change_row:
  assumes inv: "sys_inv s" and held: "c \<in> sy_held s"
    and w: "change rd at dec (sy_db s) c ch action ctx extra = Inr (Wrote db' c')"
  obtains r where "cycles_find (db_rows (sy_db s)) (cycle_key c') = Some r"
    "cy_version r = cy_version c" "cy_status r = cy_status c"
proof -
  from change_Wrote [OF w] have c': "cycle_key c' = cycle_key c"
    and put: "cycles_put (db_rows (sy_db s)) c' (cy_version c) = Some (db_rows db')" by simp_all
  have idx: "indexed (db_rows (sy_db s))" using inv by (simp add: sys_inv_def)
  from held_row [OF inv held] obtain r
    where r: "cycles_find (db_rows (sy_db s)) (cycle_key c) = Some r"
      "cy_version c = cy_version r \<Longrightarrow> cy_status c = cy_status r" by blast
  with cycles.put_expected [OF idx put] c' have "cy_version r = cy_version c" by simp
  with r c' show thesis by (intro that) simp_all
qed

lemma refresh_put:
  assumes "refreshAttention rd at dec db c = Some (db', c')"
  shows "cycles_put (db_rows db) c' (cy_version c) = Some (db_rows db')"
    and "\<exists>k b since a. cy_stop c = Some (Held_at k b since) \<and> currentCycleAttention rd c = Some a
            \<and> cycle_stop_of c = Some b \<and> c' = c\<lparr>cy_stop := Some (Held_at k a since)\<rparr>"
  using assms
  by (auto simp: refreshAttention_def Let_def cycles_put_def db_record_def cycle_stop_of_def
        split: if_splits option.splits cycle_stop.splits replace_result.splits
        dest!: cycleStop_Some)

lemma refresh_stop_wf:
  assumes "refreshAttention rd at dec db c = Some (db', c')" "stop_wf c"
  shows "stop_wf c'"
proof -
  from refresh_put(2) [OF assms(1)] obtain k b since a
    where b: "cy_stop c = Some (Held_at k b since)" "currentCycleAttention rd c = Some a"
      "cycle_stop_of c = Some b" and c': "c' = c\<lparr>cy_stop := Some (Held_at k a since)\<rparr>" by blast
  have "stop_kind_of (at_code a) = stop_kind_of (at_code b)"
    by (rule currentCycleAttention_kind [OF b(2,3)])
  moreover have "carries (cy_status c) (Some (Held_at k a since))"
    using assms(2) b(1) by (cases "cy_status c") (auto simp: stop_wf_def carries_iff)
  ultimately show ?thesis
    using assms(2) b(1) c' by (simp add: stop_wf_def)
qed

lemma insert_rows:
  assumes "insert_cycle dec db c action ctx c' = Inr db'"
  shows "db_rows db' = db_rows db @ [c] \<and> indexed (db_rows db @ [c])"
  using assms by (auto simp: insert_cycle_def cycles_insert_def db_record_def split: if_splits option.splits)

lemma find_append_other:
  "k \<noteq> cycle_key c \<Longrightarrow> cycles_find (rows @ [c]) k = cycles_find rows k"
  by (induction rows) (auto simp: cycles_find_def)

lemma indexed_append: "indexed (rows @ [c]) \<Longrightarrow> indexed rows \<and> (\<forall>r\<in>set rows. cy_id r \<noteq> cy_id c)"
  by (induction rows) auto

lemma sys_inv_insert:
  assumes inv: "sys_inv s" and ins: "insert_cycle dec (sy_db s) c action ctx c' = Inr db'"
    and new: "new_cycle c"
  shows "sys_inv \<lparr>sy_db = db', sy_held = insert c (sy_held s)\<rparr>"
proof -
  note rows = insert_rows [OF ins]
  have fresh: "cycle_key x \<noteq> cycle_key c" if x: "x \<in> sy_held s" for x
  proof -
    from held_row [OF inv x] obtain r where "cycles_find (db_rows (sy_db s)) (cycle_key x) = Some r" .
    then have "r \<in> set (db_rows (sy_db s))" "cycle_key r = cycle_key x"
      using cycles_find_in by blast+
    then show ?thesis using indexed_append [OF conjunct2 [OF rows]] by (auto simp: cycle_key_def)
  qed
  have self: "cycles_find (db_rows db') (cycle_key c) = Some c"
    using rows indexed_find [of "db_rows (sy_db s) @ [c]" c] by simp
  have wf: "stop_wf c" using new by (simp add: new_cycle_def stop_wf_def carries_iff)
  show ?thesis
    unfolding sys_inv_def
    using inv rows self wf fresh find_append_other [of _ c]
    by (auto simp: sys_inv_def)
qed

lemma sys_inv_step: "sys_step s t \<Longrightarrow> sys_inv s \<Longrightarrow> sys_inv t"
proof (induction rule: sys_step.induct)
  case (Insert dec s c action ctx c' db')
  then show ?case by (blast intro: sys_inv_insert)
next
  case (Read s k c)
  then have "c \<in> set (db_rows (sy_db s))" "cycle_key c = k" using cycles_find_in by blast+
  with Read show ?case by (auto simp: sys_inv_def)
next
  case (Change c s ch rd at dec action ctx extra db' c')
  note w = change_Wrote [OF Change.hyps(3)]
  from change_row [OF Change.prems Change.hyps(1,3)] obtain r
    where r: "cycles_find (db_rows (sy_db s)) (cycle_key c') = Some r" .
  have "stop_wf c" using Change.prems Change.hyps(1) by (simp add: sys_inv_def)
  moreover have "k = stop_kind_of (at_code a)"
    if "ch_restore ch = Some (Some (Held_at k a t))" for k a t
    using Change.hyps(2) that by (simp add: restore_wf_def)
  ultimately have "stop_wf c'" by (rule change_stop_wf [OF Change.hyps(3)])
  with sys_inv_put [OF Change.prems w(2) _ r] show ?case by (simp add: w(1))
next
  case (Refresh c s rd at dec db' c')
  note put = refresh_put(1) [OF Refresh.hyps(2)]
  have c': "cy_version c' = cy_version c" "cy_status c' = cy_status c" "cycle_key c' = cycle_key c"
    using refresh_put(2) [OF Refresh.hyps(2)] by (auto simp: cycle_key_def)
  have idx: "indexed (db_rows (sy_db s))" using Refresh.prems by (simp add: sys_inv_def)
  from held_row [OF Refresh.prems Refresh.hyps(1)] obtain r
    where r: "cycles_find (db_rows (sy_db s)) (cycle_key c) = Some r"
      "cy_version c = cy_version r \<Longrightarrow> cy_status c = cy_status r" by blast
  have "cy_version r = cy_version c" using cycles.put_expected [OF idx put] r c' by simp
  moreover have "stop_wf c'"
    using refresh_stop_wf [OF Refresh.hyps(2)] Refresh by (auto simp: sys_inv_def)
  ultimately show ?case
    using sys_inv_put [OF Refresh.prems put] r c' by simp
qed

lemma sys_reachable_inv: "sys_reachable s \<Longrightarrow> sys_inv s"
proof (induction rule: sys_reachable.induct)
  case Start
  then show ?case by (simp add: sys_inv_def empty_db_def)
next
  case (Step s t)
  then show ?case by (blast intro: sys_inv_step)
qed

section \<open>What no interleaving can do\<close>

definition row_status :: "system \<Rightarrow> string \<times> string \<Rightarrow> cycle_status option" where
  "row_status s k = map_option cy_status (cycles_find (db_rows (sy_db s)) k)"

lemma row_status_put:
  assumes "sys_inv s" "cycles_put (db_rows (sy_db s)) v n = Some (db_rows db')"
  shows "row_status \<lparr>sy_db = db', sy_held = h\<rparr> k =
     (if k = cycle_key v then Some (cy_status v) else row_status s k)"
proof -
  have idx: "indexed (db_rows (sy_db s))" using assms(1) by (simp add: sys_inv_def)
  show ?thesis
    using cycles.put_same [OF idx assms(2)] cycles.put_other [OF idx assms(2)]
    by (auto simp: row_status_def)
qed

text \<open>
  Every step changes the status of a stored cycle only along the table, whatever snapshot
  its writer held.
\<close>

lemma step_status:
  assumes inv: "sys_inv s" and step: "sys_step s t" and old: "row_status s k = Some st"
  shows "\<exists>st' action. row_status t k = Some st' \<and> may_go st st' action"
  using step
proof cases
  case (Insert dec c action ctx c' db')
  have "row_status t k = row_status s k"
  proof (cases "k = cycle_key c")
    case True
    from old obtain r where "cycles_find (db_rows (sy_db s)) k = Some r" by (auto simp: row_status_def)
    then have "r \<in> set (db_rows (sy_db s))" "cycle_key r = cycle_key c" using cycles_find_in True by blast+
    with indexed_append [OF conjunct2 [OF insert_rows [OF Insert(2)]]] show ?thesis
      by (auto simp: cycle_key_def)
  next
    case False
    with Insert insert_rows [OF Insert(2)] show ?thesis
      by (simp add: row_status_def find_append_other)
  qed
  with old show ?thesis by (metis may_go_refl)
next
  case (Read k' c)
  then have "row_status t k = row_status s k" by (simp add: row_status_def)
  with old show ?thesis by (metis may_go_refl)
next
  case (Change c ch rd at dec action ctx extra db' c')
  note w = change_Wrote [OF Change(4)]
  from change_row [OF inv Change(2,4)] obtain r
    where r: "cycles_find (db_rows (sy_db s)) (cycle_key c') = Some r" "cy_status r = cy_status c" .
  show ?thesis
  proof (cases "k = cycle_key c'")
    case True
    with old r have "st = cy_status c" by (simp add: row_status_def)
    with w(3) True show ?thesis
      unfolding Change(1) row_status_put [OF inv w(2)] by auto
  next
    case False
    with old show ?thesis
      unfolding Change(1) row_status_put [OF inv w(2)] by (auto intro!: exI [of _ "[]"])
  qed
next
  case (Refresh c rd at dec db' c')
  note put = refresh_put(1) [OF Refresh(3)]
  have c': "cy_version c' = cy_version c" "cy_status c' = cy_status c" "cycle_key c' = cycle_key c"
    using refresh_put(2) [OF Refresh(3)] by (auto simp: cycle_key_def)
  have idx: "indexed (db_rows (sy_db s))" using inv by (simp add: sys_inv_def)
  from held_row [OF inv Refresh(2)] obtain r
    where r: "cycles_find (db_rows (sy_db s)) (cycle_key c) = Some r"
      "cy_version c = cy_version r \<Longrightarrow> cy_status c = cy_status r" by blast
  have "cy_version r = cy_version c" using cycles.put_expected [OF idx put] r c' by simp
  then have "row_status t k = row_status s k"
    unfolding Refresh(1) row_status_put [OF inv put] using r c' by (auto simp: row_status_def)
  with old show ?thesis by (metis may_go_refl)
qed

section \<open>A concrete run of the system\<close>

definition quiet_reads :: policy_reads where
  "quiet_reads = \<lparr>pr_throws = (\<lambda>_. False), pr_mergeWait = (\<lambda>_. None), pr_reviewWait = (\<lambda>_. None),
     pr_scopeRecovery = (\<lambda>_. False), pr_owner = (\<lambda>_. None), pr_treeScope = (\<lambda>_. None)\<rparr>"

definition sample_context :: command_context where
  "sample_context = \<lparr>ctx_userId = ''u1'', ctx_session = Some ''s1''\<rparr>"

definition sample_db :: cycle_db where
  "sample_db = (case insert_cycle None empty_db sample_cycle ''start'' sample_context sample_cycle of
     Inr db \<Rightarrow> db | Inl e \<Rightarrow> empty_db)"

definition sample_system :: system where
  "sample_system = \<lparr>sy_db = sample_db, sy_held = {sample_cycle}\<rparr>"

definition stop_changes :: cycle_changes where
  "stop_changes = no_changes\<lparr>ch_status := Some Stopped, ch_end := Some Operator_stopped\<rparr>"

definition stopped_cycle :: work_cycle where
  "stopped_cycle = updated_cycle quiet_reads 60000 True sample_cycle stop_changes"

definition stopped_db :: cycle_db where
  "stopped_db = (case change quiet_reads 60000 None sample_db sample_cycle stop_changes ''stop''
       (Some sample_context) [] of Inr (Wrote db c) \<Rightarrow> db | _ \<Rightarrow> sample_db)"

lemma sample_insert:
  "insert_cycle None empty_db sample_cycle ''start'' sample_context sample_cycle = Inr sample_db"
  by (simp add: sample_db_def insert_cycle_def cycles_insert_def empty_db_def)

lemma sample_rows: "db_rows sample_db = [sample_cycle]"
  using insert_rows [OF sample_insert] by (simp add: empty_db_def)

lemma sample_reachable: "sys_reachable sample_system"
proof -
  have "sys_step \<lparr>sy_db = empty_db, sy_held = {}\<rparr> sample_system"
    using sys_step.Insert [of None "\<lparr>sy_db = empty_db, sy_held = {}\<rparr>" sample_cycle "''start''"
        sample_context sample_cycle sample_db]
    by (simp add: sample_insert sample_system_def new_cycle_def)
  with sys_reachable.Start show ?thesis by (rule sys_reachable.Step)
qed

lemma sample_stop:
  "change quiet_reads 60000 None sample_db sample_cycle stop_changes ''stop'' (Some sample_context) []
     = Inr (Wrote stopped_db stopped_cycle)"
proof -
  have "written_stop sample_cycle stop_changes
       (completed_attention quiet_reads sample_cycle stop_changes 60000) 60000
      = Some (Ended_by Operator_stopped 60000)"
    by (simp add: written_stop_def completed_attention_def declared_attention_def stop_changes_def
        next_status_def attention_status_def Let_def)
  moreover have "next_status sample_cycle stop_changes = Stopped"
    by (simp add: next_status_def stop_changes_def)
  moreover have "cycles_replace [sample_cycle] stopped_cycle 1 = Replaced [stopped_cycle]"
    by (simp add: cycles_replace_def update_row_def stopped_cycle_def)
  moreover have "cy_investigation (apply_fields stop_changes sample_cycle) = None"
    by (simp add: apply_fields_def stop_changes_def)
  moreover have "cy_status sample_cycle = Running" "cy_version sample_cycle = 1"
    by simp_all
  moreover have "\<exists>db. change quiet_reads 60000 None sample_db sample_cycle stop_changes ''stop''
      (Some sample_context) [] = Inr (Wrote db stopped_cycle)"
    using calculation
    by (simp add: change_def Let_def checkTransition_def sample_rows may_go_def only_by_def
        carries_iff stopped_cycle_def)
  ultimately show ?thesis by (auto simp: stopped_db_def)
qed

lemma stopped_reachable: "sys_reachable \<lparr>sy_db = stopped_db, sy_held = {stopped_cycle, sample_cycle}\<rparr>"
proof -
  have "sys_step sample_system \<lparr>sy_db = stopped_db, sy_held = insert stopped_cycle (sy_held sample_system)\<rparr>"
    by (rule sys_step.Change [where s = sample_system and c = sample_cycle and ch = stop_changes])
      (use sample_stop in \<open>auto simp: sample_system_def restore_wf_def stop_changes_def\<close>)
  then have "sys_step sample_system \<lparr>sy_db = stopped_db, sy_held = {stopped_cycle, sample_cycle}\<rparr>"
    by (simp add: sample_system_def)
  with sample_reachable show ?thesis by (rule sys_reachable.Step)
qed

section \<open>Properties\<close>

text \<open>
  C1. In every reachable state of the cycle store, whatever the interleaving of readers, writers,
  inserts and attention refreshes, each stored cycle carries exactly the stop its status may
  carry (none while running, a gate at the merge boundary, an operator stop or none while
  paused, an end record of that status once ended), and a held stop's kind follows its code.
\<close>

theorem reachable_stops_fit:
  assumes "sys_reachable s" "r \<in> set (db_rows (sy_db s))"
  shows "carries (cy_status r) (cy_stop r)
    \<and> (\<forall>k a t. cy_stop r = Some (Held_at k a t) \<longrightarrow> k = stop_kind_of (at_code a))"
  using sys_reachable_inv [OF assms(1)] assms(2)
  by (auto simp: sys_inv_def stop_wf_def split: option.splits)

theorem reachable_stops_fit_witness:
  "carries (cy_status sample_cycle) (cy_stop sample_cycle)"
  using reachable_stops_fit [OF sample_reachable, of sample_cycle]
  by (simp add: sample_system_def sample_rows)

text \<open>
  C7. Every step of the system changes the status of a stored cycle only as the transition
  table allows, even when the writer held an old snapshot; in particular a stopped cycle is
  stopped for good, and a completed one can only be reopened to running.
\<close>

theorem status_follows_table:
  assumes "sys_reachable s" "sys_step s t" "row_status s k = Some st"
  shows "\<exists>st'. row_status t k = Some st' \<and> (st' = st \<or> st' \<in> set (transitions_to st))
    \<and> (st = Stopped \<longrightarrow> st' = Stopped)
    \<and> (st = Completed \<longrightarrow> st' \<in> {Completed, Running})"
proof -
  from step_status [OF sys_reachable_inv [OF assms(1)] assms(2,3)] obtain st' action
    where "row_status t k = Some st'" "may_go st st' action" by blast
  then show ?thesis by (auto simp: may_go_def)
qed

lemma sample_step: "sys_step sample_system \<lparr>sy_db = stopped_db, sy_held = {stopped_cycle, sample_cycle}\<rparr>"
proof -
  have "sys_step sample_system \<lparr>sy_db = stopped_db, sy_held = insert stopped_cycle (sy_held sample_system)\<rparr>"
    by (rule sys_step.Change [where s = sample_system and c = sample_cycle and ch = stop_changes])
      (use sample_stop in \<open>auto simp: sample_system_def restore_wf_def stop_changes_def\<close>)
  then show ?thesis by (simp add: sample_system_def)
qed

theorem status_follows_table_witness:
  "\<exists>st'. row_status \<lparr>sy_db = stopped_db, sy_held = {stopped_cycle, sample_cycle}\<rparr> (''w1'', ''c1'') = Some st'
     \<and> (st' = Running \<or> st' \<in> set (transitions_to Running))"
proof -
  have "row_status sample_system (''w1'', ''c1'') = Some Running"
    by (simp add: row_status_def sample_system_def sample_rows cycles_find_def cycle_key_def)
  from status_follows_table [OF sample_reachable sample_step this] show ?thesis by blast
qed

text \<open>A stored row stays, and its version never falls.\<close>

lemma step_version:
  assumes inv: "sys_inv s" and step: "sys_step s t" and old: "cycles_find (db_rows (sy_db s)) k = Some r"
  shows "\<exists>r'. cycles_find (db_rows (sy_db t)) k = Some r' \<and> cy_version r \<le> cy_version r'"
  using step
proof cases
  case (Insert dec c action ctx c' db')
  with old insert_rows [OF Insert(2)] show ?thesis by (simp add: cycles_find_def find_append)
next
  case (Read k' c)
  with old show ?thesis by simp
next
  case (Change c ch rd at dec action ctx extra db' c')
  note w = change_Wrote [OF Change(4)]
  have idx: "indexed (db_rows (sy_db s))" using inv by (simp add: sys_inv_def)
  from change_row [OF inv Change(2,4)] obtain x
    where "cycles_find (db_rows (sy_db s)) (cycle_key c') = Some x" "cy_version x = cy_version c" .
  with old cycles.put_same [OF idx w(2)] cycles.put_other [OF idx w(2)] show ?thesis
    unfolding Change(1) by (cases "k = cycle_key c'") (auto simp: w(1))
next
  case (Refresh c rd at dec db' c')
  note put = refresh_put(1) [OF Refresh(3)]
  have c': "cy_version c' = cy_version c" using refresh_put(2) [OF Refresh(3)] by auto
  have idx: "indexed (db_rows (sy_db s))" using inv by (simp add: sys_inv_def)
  with cycles.put_expected [OF idx put] c' old cycles.put_same [OF idx put] cycles.put_other [OF idx put]
  show ?thesis unfolding Refresh(1) by (cases "k = cycle_key c'") auto
qed

lemma steps_version:
  assumes "sys_step\<^sup>*\<^sup>* s t" "sys_inv s" "cycles_find (db_rows (sy_db s)) k = Some r"
  shows "\<exists>r'. cycles_find (db_rows (sy_db t)) k = Some r' \<and> cy_version r \<le> cy_version r'"
proof -
  from assms(1) have "sys_inv t \<and> (\<exists>r'. cycles_find (db_rows (sy_db t)) k = Some r' \<and> cy_version r \<le> cy_version r')"
  proof (induction rule: rtranclp_induct)
    case base
    with assms(2,3) show ?case by auto
  next
    case (step t u)
    then obtain r' where "sys_inv t" "cycles_find (db_rows (sy_db t)) k = Some r'" "cy_version r \<le> cy_version r'"
      by blast
    with step_version [OF _ step(2)] sys_inv_step [OF step(2)] show ?case by (meson order_trans)
  qed
  then show ?thesis ..
qed

lemma stale_refused:
  assumes "cycles_find (db_rows db) (cycle_key d) = Some r" "cy_version d < cy_version r" "indexed (db_rows db)"
  shows "change rd at dec db d ch action ctx extra \<in> insert (Inl Concurrent_modification) (range (Inl \<circ> Transition))"
    "refreshAttention rd at dec db d = None"
proof -
  have other: "\<not> (\<exists>x\<in>set (db_rows db). cycle_key x = cycle_key v \<and> cy_version x = cy_version d)"
    if "cycle_key v = cycle_key d" for v
    using assms indexed_find [OF assms(3)] that by fastforce
  then have "cycles_replace (db_rows db) v (cy_version d) = Stale" if "cycle_key v = cycle_key d" for v
    using that by (simp add: cycles_replace_def)
  with assms show "change rd at dec db d ch action ctx extra
      \<in> insert (Inl Concurrent_modification) (range (Inl \<circ> Transition))"
    by (auto simp: change_def Let_def split: sum.split)
  show "refreshAttention rd at dec db d = None"
  proof (rule ccontr)
    assume "refreshAttention rd at dec db d \<noteq> None"
    then obtain db' c' where ref: "refreshAttention rd at dec db d = Some (db', c')" by auto
    have "cycle_key c' = cycle_key d" using refresh_put(2) [OF ref] by (auto simp: cycle_key_def)
    with refresh_put(1) [OF ref] other show False by (auto simp: cycles_put_Some)
  qed
qed

text \<open>
  C9. No lost update: once a write from a version of a cycle has committed, then in every state the
  system reaches from there every write from that version or an older one, whoever makes it and
  whatever it changes, is answered with an error - a concurrent modification, or the state
  machine's own - and neither commits nor counts as made; and no such snapshot's attention is
  refreshed.
\<close>

theorem one_writer_per_version:
  assumes "sys_reachable s" "c \<in> sy_held s" "restore_wf ch"
    and "change rd at dec (sy_db s) c ch action ctx extra = Inr (Wrote db' c')"
    and "sys_step\<^sup>*\<^sup>* \<lparr>sy_db = db', sy_held = insert c' (sy_held s)\<rparr> t"
    and "cycle_key d = cycle_key c" "cy_version d \<le> cy_version c"
  shows "change rd2 at2 dec2 (sy_db t) d ch2 action2 ctx2 extra2
      \<in> insert (Inl Concurrent_modification) (range (Inl \<circ> Transition))
    \<and> refreshAttention rd2 at2 dec2 (sy_db t) d = None"
proof -
  let ?u = "\<lparr>sy_db = db', sy_held = insert c' (sy_held s)\<rparr>"
  have first: "sys_step s ?u" by (rule sys_step.Change) (fact assms)+
  then have inv: "sys_inv ?u" by (blast intro: sys_inv_step sys_reachable_inv assms(1))
  have idx: "indexed (db_rows (sy_db s))" using sys_reachable_inv [OF assms(1)] by (simp add: sys_inv_def)
  note w = change_Wrote [OF assms(4)]
  have "cycles_find (db_rows (sy_db ?u)) (cycle_key d) = Some c'"
    using cycles.put_same [OF idx w(2)] assms(6) w(1) by simp
  from steps_version [OF assms(5) inv this] obtain r
    where r: "cycles_find (db_rows (sy_db t)) (cycle_key d) = Some r" "cy_version c' \<le> cy_version r" by blast
  have "sys_reachable t"
    using assms(5)
    by (induction rule: rtranclp_induct) (blast intro: sys_reachable.Step assms(1) first)+
  then have "indexed (db_rows (sy_db t))" using sys_reachable_inv by (simp add: sys_inv_def)
  moreover have "cy_version d < cy_version r" using r(2) assms(7) w(1) by simp
  ultimately show ?thesis using stale_refused [OF r(1)] by blast
qed

theorem one_writer_per_version_witness:
  "change quiet_reads 5 None stopped_db sample_cycle no_changes ''resume'' None []
     \<in> insert (Inl Concurrent_modification) (range (Inl \<circ> Transition))"
proof -
  have "change quiet_reads 60000 None (sy_db sample_system) sample_cycle stop_changes ''stop'' (Some sample_context) []
      = Inr (Wrote stopped_db stopped_cycle)" using sample_stop by (simp add: sample_system_def)
  from one_writer_per_version [OF sample_reachable _ _ this rtranclp.rtrancl_refl, of sample_cycle quiet_reads 5 None
      no_changes "''resume''" None "[]"]
  show ?thesis by (simp add: sample_system_def restore_wf_def stop_changes_def)
qed

text \<open>
  C10. A worktree is never driven by two cycles: in every reachable state at most one stored
  cycle of a worktree has not ended.
\<close>

theorem one_active_cycle:
  assumes "sys_reachable s" "a \<in> set (db_rows (sy_db s))" "b \<in> set (db_rows (sy_db s))"
    and "cycle_active a" "cycle_active b" "cy_workspaceId a = cy_workspaceId b"
    and "cy_worktreeId a = cy_worktreeId b"
  shows "a = b"
proof (rule indexed_one_active)
  show "indexed (db_rows (sy_db s))" using sys_reachable_inv [OF assms(1)] by (simp add: sys_inv_def)
qed (fact assms)+

theorem one_active_cycle_witness: "sample_cycle = sample_cycle \<and> cycle_active sample_cycle"
  using one_active_cycle [OF sample_reachable, of sample_cycle sample_cycle]
  by (simp add: sample_system_def sample_rows cycle_active_def)



text \<open>
  Wait measurement: a write that keeps the status, or pauses at a stop, keeps the moment the
  stop was entered, however its code is refreshed; entering a stop from another status begins it
  at the write's own time.
\<close>

theorem stop_since:
  assumes "change rd at dec db c ch action ctx extra = Inr (Wrote db' c')"
    and "ch_restore ch = None" "cy_stop c' = Some (Held_at k a since)"
    and "cy_stop c = Some (Held_at k0 a0 since0)"
  shows "since = (if cy_status c' = cy_status c \<or> cy_status c' = Paused then since0 else at)"
proof -
  from assms(3) change_Wrote(1) [OF assms(1)]
  have "written_stop c ch (completed_attention rd c ch at) at = Some (Held_at k a since)" by simp
  then show ?thesis
    using assms(2,4) change_Wrote(1) [OF assms(1)]
    by (auto simp: written_stop_def Let_def stopFor_def stopRecord_def split: option.splits if_splits)
qed

definition held_cycle :: work_cycle where
  "held_cycle = sample_cycle\<lparr>cy_status := Needs_attention,
     cy_stop := Some (stopRecord (make_attention Step_time_limit None None None None) 1000)\<rparr>"

definition held_reason :: cycle_changes where
  "held_reason = no_changes\<lparr>ch_reason := Some ''Still waiting.''\<rparr>"

definition held_next :: work_cycle where
  "held_next = updated_cycle quiet_reads 9000 False held_cycle held_reason"

definition held_db :: cycle_db where
  "held_db = empty_db\<lparr>db_rows := [held_cycle]\<rparr>"

lemma held_write:
  "\<exists>db. change quiet_reads 9000 None held_db held_cycle held_reason ''advance'' None []
     = Inr (Wrote db held_next)"
proof -
  have st: "next_status held_cycle held_reason = Needs_attention"
    by (simp add: next_status_def held_cycle_def held_reason_def)
  have f: "ch_status held_reason = None" "ch_attention held_reason = None" "ch_restore held_reason = None"
    by (simp_all add: held_reason_def)
  have h: "cy_status held_cycle = Needs_attention" "cy_stop held_cycle
     = Some (Held_at (stop_kind_of Step_time_limit) (make_attention Step_time_limit None None None None) 1000)"
    by (simp_all add: held_cycle_def stopRecord_def)
  have "written_stop held_cycle held_reason
       (completed_attention quiet_reads held_cycle held_reason 9000) 9000 = cy_stop held_cycle"
    by (simp add: written_stop_def completed_attention_def declared_attention_def st f h
        attention_status_def held_stop_of_def stopFor_def stopRecord_def)
  moreover have "cycles_replace [held_cycle] held_next 1 = Replaced [held_next]"
    by (simp add: cycles_replace_def update_row_def held_next_def held_cycle_def)
  moreover have "held_next\<lparr>cy_version := 1, cy_updatedAt := 0\<rparr> \<noteq> held_cycle"
  proof
    assume "held_next\<lparr>cy_version := 1, cy_updatedAt := 0\<rparr> = held_cycle"
    then have "cy_reason (held_next\<lparr>cy_version := 1, cy_updatedAt := 0\<rparr>) = cy_reason held_cycle" by simp
    then show False
      by (simp add: held_next_def updated_cycle_def Let_def apply_fields_def held_reason_def held_cycle_def
          js_slice_def)
  qed
  moreover have "cy_investigation (apply_fields held_reason held_cycle) = None"
    by (simp add: apply_fields_def held_reason_def held_cycle_def)
  moreover have "cy_status held_cycle = Needs_attention" "cy_version held_cycle = 1"
    "cy_updatedAt held_cycle = 0" "carries Needs_attention (cy_stop held_cycle)"
    by (simp_all add: held_cycle_def carries_stopRecord stop_kind_of_def awaiting_merge_gates_def)
  ultimately show ?thesis
    by (simp add: change_def Let_def checkTransition_def st held_db_def held_next_def)
qed

theorem stop_since_witness:
  "\<exists>a. cy_stop held_next = Some (Held_at Attention_stop a 1000)"
proof -
  from held_write obtain db
    where w: "change quiet_reads 9000 None held_db held_cycle held_reason ''advance'' None []
      = Inr (Wrote db held_next)" by blast
  have st: "cy_status held_next = Needs_attention"
    by (simp add: held_next_def next_status_def held_cycle_def held_reason_def)
  have old: "cy_stop held_cycle
     = Some (Held_at Attention_stop (make_attention Step_time_limit None None None None) 1000)"
    by (simp add: held_cycle_def stopRecord_def stop_kind_of_def awaiting_merge_gates_def)
  from change_Wrote(4) [OF w] st obtain a t where a: "cy_stop held_next = Some (Held_at Attention_stop a t)"
    by (auto simp: carries_iff)
  have "t = 1000"
    using stop_since [OF w _ a old] st by (simp add: held_reason_def held_cycle_def)
  with a show ?thesis by blast
qed

text \<open>
  A step attempt belongs to its run: a write that reserves another run, unless it carries the
  attempt on, keeps nothing of the last attempt, and leaving automation or an operator's command
  ends an output-format repair even when the run stays.
\<close>

theorem attempt_belongs_to_run:
  assumes "change rd at dec db c ch action ctx extra = Inr (Wrote db' c')"
  shows "(cy_currentRunId c' \<noteq> cy_currentRunId c \<and> \<not> ch_keepAttempt ch \<longrightarrow>
           attempt_of c' = edit_attempt (ch_attempt ch) empty_attempt)
    \<and> (cy_currentRunId c' = cy_currentRunId c \<and> ac_outputRepair (ch_attempt ch) = Keep
        \<and> (cy_status c' \<noteq> Running \<or> ctx \<noteq> None) \<longrightarrow> output_repair_of c' = None)"
proof -
  note c' = change_Wrote(1) [OF assms]
  have run: "reserves_other c ch = (cy_currentRunId c' \<noteq> cy_currentRunId c)"
    by (cases "ch_currentRunId ch") (auto simp: c' reserves_other_def)
  have "attempt_of c' = edit_attempt (ch_attempt ch) empty_attempt"
    if "reserves_other c ch" "\<not> ch_keepAttempt ch"
    using fresh_attempt [OF that] by (simp add: attempt_of_def c' Let_def split: if_splits)
  moreover have "output_repair_of c' = None"
    if "\<not> reserves_other c ch" "ac_outputRepair (ch_attempt ch) = Keep"
      "cy_status c' \<noteq> Running \<or> ctx \<noteq> None"
    using repair_ends [of c ch "ctx \<noteq> None"] that
    by (cases "cy_attempt c'") (auto simp: c' output_repair_of_def attempt_of_def empty_attempt_def)
  ultimately show ?thesis using run by blast
qed

theorem attempt_belongs_to_run_witness: "output_repair_of stopped_cycle = None"
  using attempt_belongs_to_run [OF sample_stop]
  by (simp add: stopped_cycle_def stop_changes_def no_changes_def no_attempt_changes_def)

end
