(* ===== verification/Commands.thy ===== *)
theory Commands
  imports Write_Safety Actions
begin

text \<open>
  The operator's cycle commands
  (\<open>apps/server/src/services/cycle/core/commands.ts\<close>): the refusals and writes of pause,
  stop, resume, guided resume and the provider retry, decided in the three stages between which
  the service runs its asynchronous gates; the settings of a stopped cycle; and the writes of
  the roadmap scheduler and of start-up recovery. A text is measured in characters; the texts
  themselves are kept, with quotes in ASCII.
\<close>

section \<open>Refusals, writes and facts\<close>

datatype refusal_code =
    Ref_cycle_changed | Ref_cycle_ended | Ref_finalization_retired | Ref_merge_reserved
  | Ref_no_provider_retry | Ref_provider_retry_held | Ref_newer_run | Ref_amendment_retired
  | Ref_guidance_too_long | Ref_not_stopped | Ref_redirect | Ref_resolution_detected
  | Ref_needs_guidance | Ref_guidance_invalid | Ref_review_guidance_invalid | Ref_sessions_open
  | Ref_outside_lineage | Ref_manual_review_live | Ref_round_limit | Ref_resolution_owned
  | Ref_not_reviewable | Ref_settings_not_changeable | Ref_settings_unchanged

datatype refusal_status = Status_conflict | Status_invalid_request | Status_unavailable

record command_refusal =
  rfu_code :: refusal_code
  rfu_message :: string
  rfu_status :: refusal_status
  rfu_control :: "cycle_action option"

definition refuse :: "refusal_code \<Rightarrow> string \<Rightarrow> command_refusal" where
  "refuse code message =
     \<lparr>rfu_code = code, rfu_message = message, rfu_status = Status_conflict, rfu_control = None\<rparr>"

definition refuse_toward :: "refusal_code \<Rightarrow> string \<Rightarrow> cycle_action \<Rightarrow> command_refusal" where
  "refuse_toward code message control = (refuse code message)\<lparr>rfu_control := Some control\<rparr>"

definition refuse_request :: "refusal_code \<Rightarrow> string \<Rightarrow> command_refusal" where
  "refuse_request code message = (refuse code message)\<lparr>rfu_status := Status_invalid_request\<rparr>"

record command_write =
  cwr_changes :: cycle_changes
  cwr_endTurn :: bool
  cwr_cancelChecks :: bool

definition just_write :: "cycle_changes \<Rightarrow> command_write" where
  "just_write ch = \<lparr>cwr_changes = ch, cwr_endTurn = False, cwr_cancelChecks = False\<rparr>"

datatype operator_action = Op_pause | Op_stop | Op_resume | Op_retry_provider

record operator_command =
  oc_action :: operator_action
  oc_expectedVersion :: nat
  oc_guidance :: "string option"

record command_facts =
  cf_now :: time
  cf_retiredFinalization :: bool
  cf_mergeReserved :: bool
  cf_providerRoadmapPaused :: bool
  cf_newestRun :: "agent_run option"
  cf_runCount :: nat
  cf_amendmentRetired :: bool
  cf_attestationInputsChanged :: bool
  cf_needsGuidance :: bool
  cf_liveRuns :: "agent_run list"
  cf_continuesLineage :: "agent_run \<Rightarrow> bool"
  cf_reviewAsksRemediation :: "agent_run \<Rightarrow> bool"
  cf_reviewScopeIssue :: "agent_run \<Rightarrow> bool"
  cf_reviewTurnSucceeded :: "agent_run \<Rightarrow> bool"
  cf_deadline :: time

definition instruction_limit :: nat where "instruction_limit = 16000"

definition withinInstructionLimit :: "string \<Rightarrow> bool" where
  "withinInstructionLimit t = (length t \<le> instruction_limit)"

definition ended :: "cycle_status \<Rightarrow> bool" where
  "ended s = (s = Stopped \<or> s = Completed)"

text \<open>Guidance joined with a blank line, the empty parts left out.\<close>

definition joined_guidance :: "string option list \<Rightarrow> string" where
  "joined_guidance ps =
     js_join [CHR 0x0A, CHR 0x0A] (filter (\<lambda>t. t \<noteq> []) (map the (filter (\<lambda>p. p \<noteq> None) ps)))"

section \<open>A stopped cycle's settings\<close>

record settings_change =
  sg_expectedVersion :: nat
  sg_maxRunMinutes :: "nat option"
  sg_agents :: "(profile_purpose \<times> agent_selection) list"

record settings_result =
  sr_changes :: cycle_changes
  sr_agents :: "(profile_purpose \<times> agent_selection) list"
  sr_maxRunMinutes :: "nat option"

text \<open>A step keeps the permissions it started with; a specialist is a selection.\<close>

fun set_profile :: "cycle_profiles \<Rightarrow> profile_purpose \<times> agent_selection \<Rightarrow> cycle_profiles" where
  "set_profile p (For_step s, a) =
     (let new = agent_selection.extend a \<lparr>ap_permissionMode = ap_permissionMode (step_profile p s)\<rparr> in
      case s of
        Design \<Rightarrow> p\<lparr>pf_design := new\<rparr>
      | Implement \<Rightarrow> p\<lparr>pf_implement := new\<rparr>
      | Review \<Rightarrow> p\<lparr>pf_review := new\<rparr>
      | Remediate \<Rightarrow> p\<lparr>pf_remediate := new\<rparr>)"
| "set_profile p (For_specialist x, a) =
     (case x of
        Spec_security \<Rightarrow> p\<lparr>pf_security := Some a\<rparr>
      | Spec_checkpoint \<Rightarrow> p\<lparr>pf_checkpoint := Some a\<rparr>
      | Spec_acceptance \<Rightarrow> p\<lparr>pf_acceptance := Some a\<rparr>
      | Spec_conflict \<Rightarrow> p\<lparr>pf_conflict := Some a\<rparr>
      | Spec_investigation \<Rightarrow> p\<lparr>pf_investigation := Some a\<rparr>)"

text \<open>Only what changes counts: an agent already in effect changes nothing.\<close>

definition changed_agents ::
    "(profile_purpose \<Rightarrow> agent_selection option) \<Rightarrow> (profile_purpose \<times> agent_selection) list
     \<Rightarrow> (profile_purpose \<times> agent_selection) list" where
  "changed_agents current named =
     concat (map (\<lambda>(purpose, selection).
       let chosen = selectAgent selection in
       case current purpose of
         Some now \<Rightarrow> if selectAgent now = chosen then [] else [(purpose, chosen)]
       | None \<Rightarrow> [(purpose, chosen)]) named)"

definition decideSettingsChange ::
    "work_cycle \<Rightarrow> bool \<Rightarrow> settings_change \<Rightarrow> bool \<Rightarrow> bool \<Rightarrow> bool \<Rightarrow> bool
     \<Rightarrow> (profile_purpose \<Rightarrow> agent_selection option) \<Rightarrow> command_refusal + settings_result" where
  "decideSettingsChange c retired chg live changeOpen transitioning roadmapOwned current =
     (if cy_version c \<noteq> sg_expectedVersion chg
      then Inl (refuse Ref_cycle_changed ''Cycle changed; refresh before issuing this command'')
      else if ended (cy_status c) then Inl (refuse Ref_cycle_ended ''This cycle has ended'')
      else if retired
      then Inl (refuse Ref_amendment_retired
        ''An approved planning amendment retired this attempt; its settings no longer change.'')
      else if \<not> settingsChangeable c
          \<lparr>sf_investigationLive = live, sf_worktreeChangeOpen = changeOpen,
           sf_amendmentRetired = retired, sf_transitioning = transitioning\<rparr>
      then Inl (refuse Ref_settings_not_changeable
        ''Only a paused or stopped work item cycle's time limit and agents change, with no investigation open and no other command under way; a finalization's are its stages'.'')
      else
        let agents = changed_agents current (sg_agents chg);
            minutes = (case sg_maxRunMinutes chg of
                         None \<Rightarrow> None
                       | Some m \<Rightarrow> if m \<noteq> maxRunMinutes (cy_policy c) then Some m else None)
        in if agents = [] \<and> minutes = None
           then Inl (refuse_request Ref_settings_unchanged
             ''Nothing changes: the time limit and the agents named are the cycle's already.'')
           else Inr
             \<lparr>sr_changes = no_changes
                \<lparr>ch_policy := map_option (\<lambda>m. (cy_policy c)\<lparr>maxRunMinutes := m\<rparr>) minutes,
                 ch_profiles := (if agents \<noteq> [] \<and> \<not> roadmapOwned
                                 then Some (foldl set_profile (cy_profiles c) agents) else None),
                 ch_attempt := (if agents \<noteq> [] \<and> provider_recovery_of c \<noteq> None
                                then no_attempt_changes\<lparr>ac_providerRecovery := Drop\<rparr>
                                else no_attempt_changes)\<rparr>,
              sr_agents = agents, sr_maxRunMinutes = minutes\<rparr>)"

section \<open>The first stage: the command itself\<close>

datatype command_decision = Refuse command_refusal | Write_now command_write | Resume_on

definition retry_guidance :: "work_cycle \<Rightarrow> string option \<Rightarrow> string" where
  "retry_guidance c offered =
     joined_guidance [sa_stepGuidance (attempt_of c), map_option js_trim offered]"

definition decide_retry ::
    "work_cycle \<Rightarrow> command_facts \<Rightarrow> operator_command \<Rightarrow> command_decision" where
  "decide_retry c f cmd =
     (case provider_recovery_of c of
        None \<Rightarrow> Refuse (refuse Ref_no_provider_retry
          ''No bounded provider retry is available. Inspect the outcome and explicitly resume for a new step window.'')
      | Some r \<Rightarrow>
          if pr_nextRetryAt r = None
             \<or> cy_status c \<notin> {Running, Paused, Needs_attention}
             \<or> 3 \<le> pr_attempts r
             \<or> cy_runDeadlineAt c \<le> cf_now f
          then Refuse (refuse Ref_no_provider_retry
            ''No bounded provider retry is available. Inspect the outcome and explicitly resume for a new step window.'')
          else if oc_action cmd = Op_retry_provider \<and> cf_providerRoadmapPaused f
          then Refuse (refuse Ref_provider_retry_held
            ''Resume roadmap scheduling before retrying this provider failure.'')
          else if map_option run_id (cf_newestRun f) \<noteq> Some (cy_currentRunId c)
          then Refuse (refuse Ref_newer_run
            ''The worktree has a newer run. Inspect it before resuming.'')
          else if cf_amendmentRetired f
          then Refuse (refuse Ref_amendment_retired
            ''This attempt was retired by a planning amendment.'')
          else
            let guidance = retry_guidance c (oc_guidance cmd) in
            if \<not> withinInstructionLimit guidance
            then Refuse (refuse_request Ref_guidance_too_long
              ''Combined guidance for this step exceeds 16000 characters.'')
            else Write_now (just_write (no_changes
              \<lparr>ch_status := Some Running,
               ch_attempt := no_attempt_changes
                 \<lparr>ac_stepGuidance := (if guidance \<noteq> [] then Put guidance else Keep),
                  ac_providerRecovery := Put (Some (r\<lparr>pr_nextRetryAt :=
                    (if oc_action cmd = Op_retry_provider then Some (cf_now f)
                     else pr_nextRetryAt r)\<rparr>))\<rparr>,
               ch_reason := Some ''Provider retry authorized; current phase gates, process cleanup and the original deadline still apply.''\<rparr>)))"

definition pending_retry :: "work_cycle \<Rightarrow> command_facts \<Rightarrow> bool" where
  "pending_retry c f =
     (case provider_recovery_of c of
        None \<Rightarrow> False
      | Some r \<Rightarrow> pr_nextRetryAt r \<noteq> None \<and> cf_now f < cy_runDeadlineAt c)"

definition stop_write :: "work_cycle \<Rightarrow> command_write" where
  "stop_write c =
     (if ownsIntegrationResolution c
      then (just_write (no_changes
        \<lparr>ch_status := Some Paused,
         ch_reason := Some ''Resolution stopped with edits preserved. Resume or explicitly abandon the integration resolution.''\<rparr>))\<lparr>cwr_endTurn := True\<rparr>
      else (just_write (no_changes
        \<lparr>ch_status := Some Stopped, ch_end := Some Operator_stopped,
         ch_reason := Some ''Automation stopped by operator. Manual flow is available.''\<rparr>))\<lparr>cwr_endTurn := True\<rparr>)"

definition pause_write :: "work_cycle \<Rightarrow> command_write" where
  "pause_write c =
     (just_write (no_changes
        \<lparr>ch_status := Some Paused,
         ch_attention := (if cy_status c = Needs_attention then cycle_stop_of c else None),
         ch_reason := Some ''Automation paused by operator. The current session remains available for manual work.''\<rparr>))\<lparr>cwr_cancelChecks := True\<rparr>"

definition decideCommand ::
    "work_cycle \<Rightarrow> command_facts \<Rightarrow> operator_command \<Rightarrow> command_decision" where
  "decideCommand c f cmd =
     (let action = oc_action cmd in
      if cy_version c \<noteq> oc_expectedVersion cmd
      then Refuse (refuse Ref_cycle_changed ''Cycle changed; refresh before issuing this command'')
      else if ended (cy_status c) then Refuse (refuse Ref_cycle_ended ''This cycle has ended'')
      else if (action = Op_resume \<or> action = Op_retry_provider) \<and> cf_retiredFinalization f
      then Refuse (refuse Ref_finalization_retired
        ''This finalization uses retired improvement rounds. Stop it and start a staged finalization.'')
      else if action \<noteq> Op_pause \<and> cf_mergeReserved f
      then Refuse (refuse Ref_merge_reserved
        ''Recover the pending merge before resuming or stopping this cycle.'')
      else if action = Op_stop then Write_now (stop_write c)
      else if action = Op_pause then Write_now (pause_write c)
      else if action = Op_retry_provider \<or> pending_retry c f then decide_retry c f cmd
      else if cf_amendmentRetired f
      then Refuse (refuse Ref_amendment_retired
        ''This attempt was retired by a planning amendment.'')
      else if cy_status c \<noteq> Paused \<and> cy_status c \<noteq> Needs_attention
      then Refuse (refuse Ref_not_stopped ''Only a paused cycle can resume'')
      else Resume_on)"

section \<open>The second stage: redirects and the resolution\<close>

datatype resume_gate =
    Gate_refuse command_refusal | Gate_write command_write | Gate_resolution | Gates_open

definition resume_redirect :: "work_cycle \<Rightarrow> agent_run option \<Rightarrow> (cycle_action \<times> string) option" where
  "resume_redirect c newest =
     resumeRedirect (cy_status c) (cy_stop c) (cy_currentRunId c) (map_option run_id newest)"

definition decideResume ::
    "work_cycle \<Rightarrow> command_facts \<Rightarrow> string option \<Rightarrow> resume_gate" where
  "decideResume c f guidance =
     (case (if guidance = None \<and> \<not> cf_attestationInputsChanged f
            then resume_redirect c (cf_newestRun f) else None) of
        Some (control, message) \<Rightarrow>
          (case (if cy_status c = Paused then held_stop_of c else None) of
             Some held \<Rightarrow> Gate_write (just_write (no_changes
               \<lparr>ch_status := Some Needs_attention, ch_attention := Some held,
                ch_reason := Some (''Pause lifted. '' @ message)\<rparr>))
           | None \<Rightarrow> Gate_refuse (refuse_toward Ref_redirect message control))
      | None \<Rightarrow>
          if resolution_status_of c = Some Res_detected
          then Gate_refuse (refuse_toward Ref_resolution_detected
            ''Use Resolve integration conflicts to delegate the detected conflict.'' A_resolve_integration)
          else if ownsIntegrationResolution c
          then (if guidance = None then Gate_resolution
                else Gate_refuse (refuse Ref_guidance_invalid
                  ''An integration resolution is resumed without guidance; give its instructions through Resolve integration conflicts.''))
          else Gates_open)"

definition resumeAdopts :: "work_cycle \<Rightarrow> agent_run option \<Rightarrow> bool" where
  "resumeAdopts c newest =
     (case newest of
        None \<Rightarrow> False
      | Some r \<Rightarrow> run_id r \<noteq> cy_currentRunId c \<and> cy_parentRunId c \<noteq> Some (run_id r))"

section \<open>The third stage: what the resume does\<close>

datatype resume_step =
    Step_refuse command_refusal
  | Step_write command_write
  | Step_launch cycle_step "agent_run option" "cycle_changes option" "string option"
  | Step_remediate "string option" \<comment> \<open>the instructions of a grant of no additional rounds\<close>
  | Step_review_scope string bool

definition slice_scope :: "work_cycle \<Rightarrow> bool" where
  "slice_scope c = (cy_executionScope c = None \<or> scope_kind_of c = Some Slice)"

definition resumeAtRoundLimit :: "work_cycle \<Rightarrow> agent_run option \<Rightarrow> command_facts \<Rightarrow> bool" where
  "resumeAtRoundLimit c newest f =
     (case newest of
        None \<Rightarrow> False
      | Some r \<Rightarrow>
          run_id r = cy_currentRunId c
          \<and> cy_step c = Review
          \<and> run_status r = Run_finished
          \<and> cy_finalizationProgress c = None
          \<and> slice_scope c
          \<and> remediationAllowance c \<le> remediationUsed c
          \<and> cf_reviewTurnSucceeded f r
          \<and> cf_reviewAsksRemediation f r
          \<and> \<not> cf_reviewScopeIssue f r)"

definition guidedRemediationRefused :: "work_cycle \<Rightarrow> agent_run option \<Rightarrow> command_facts \<Rightarrow> bool" where
  "guidedRemediationRefused c newest f =
     (case newest of
        None \<Rightarrow> False
      | Some r \<Rightarrow>
          cy_step c = Review \<and> run_status r = Run_finished \<and> cf_reviewAsksRemediation f r
          \<and> (\<not> cf_reviewTurnSucceeded f r \<or> cf_reviewScopeIssue f r))"

text \<open>The resume of an idle step: adopt a newer manual run, relaunch, review or remediate.\<close>

definition decideRelaunch :: "work_cycle \<Rightarrow> command_facts \<Rightarrow> agent_run option \<Rightarrow> resume_step" where
  "decideRelaunch c f newest =
     (case newest of
        None \<Rightarrow> Step_launch (cy_step c) None None None
      | Some run \<Rightarrow>
          if resumeAdopts c newest then
            (if \<not> cf_continuesLineage f run
             then Step_refuse (refuse Ref_outside_lineage
               ''The latest manual run does not continue this cycle's handoff lineage. Continue from the cycle run, or stop this cycle before starting a new one.'')
             else if run_role run = Role_review \<and> isTerminalAgentRunStatus (run_status run)
             then Step_launch Review newest None None
             else if run_role run = Role_review
             then Step_refuse (refuse Ref_manual_review_live
               ''End the manual review before resuming automation'')
             else Step_write (just_write (no_changes
               \<lparr>ch_status := Some Running, ch_step := Some (role_step (run_role run)),
                ch_currentRunId := Some (run_id run), ch_runDeadlineAt := Some (cf_deadline f),
                ch_reason := Some ''Resumed with the latest manual run.'',
                ch_keepAttempt := True,
                ch_waits := no_wait_changes\<lparr>wc_design := Drop\<rparr>\<rparr>)))
          else if run_status run \<in> {Run_failed, Run_cancelled, Run_interrupted}
          then Step_launch (cy_step c) newest None None
          else if cy_step c = Review \<and> run_status run = Run_finished then
            (if resumeAtRoundLimit c newest f
             then Step_refuse (refuse_toward Ref_round_limit
               ''The remediation limit is reached, so a resume cannot start another round. Use Authorize more remediation.''
               A_authorize_remediation)
             else if cy_finalizationProgress c = None \<and> slice_scope c \<and> cf_reviewAsksRemediation f run
             then Step_remediate None
             else Step_launch Review newest None None)
          else Step_write (just_write (no_changes
            \<lparr>ch_status := Some Running, ch_runDeadlineAt := Some (cf_deadline f),
             ch_reason := Some ''Automation resumed by operator.'',
             ch_waits := no_wait_changes\<lparr>wc_phase := Drop\<rparr>\<rparr>)))"

text \<open>A guided continuation of the step, from the ended current run.\<close>

definition decideGuided :: "work_cycle \<Rightarrow> command_facts \<Rightarrow> string \<Rightarrow> resume_step" where
  "decideGuided c f guidance =
     (case cf_newestRun f of
        Some run \<Rightarrow>
          if js_trim guidance = []
             \<or> \<not> guidanceAccepted c (Some (run_id run)) (cf_liveRuns f \<noteq> [])
                  (guidedRemediationRefused c (Some run) f)
          then Step_refuse (refuse Ref_guidance_invalid
            ''Guided continuation requires answers or guidance and the ended current implementation or review.'')
          else
            let stepGuidance = joined_guidance
                  [map_option js_trim (if run_status run = Run_finished then None
                                       else sa_stepGuidance (attempt_of c)),
                   Some (js_trim guidance)];
                noChange = (stopCode (cy_status c) (cy_stop c) = Some Remediation_no_change)
            in
            if \<not> withinInstructionLimit stepGuidance
            then Step_refuse (refuse_request Ref_guidance_too_long
              ''Combined guidance for this step exceeds 16000 characters.'')
            else if cy_step c = Review \<and> run_status run = Run_finished \<and> cf_reviewAsksRemediation f run
            then Step_remediate (Some stepGuidance)
            else Step_launch (if noChange then Review else cy_step c) (Some run)
              (Some (no_changes
                \<lparr>ch_attempt := no_attempt_changes\<lparr>ac_stepGuidance := Put stepGuidance\<rparr>,
                 ch_stalledReviews := Some 0,
                 ch_reason := Some (if noChange
                   then ''A fresh review of the unchanged commit, with operator guidance; existing allowance retained.''
                   else ''Continuing the current step with operator guidance; existing allowance retained.'')\<rparr>))
              (Some ''resume-with-guidance'')
      | None \<Rightarrow> Step_refuse (refuse Ref_guidance_invalid
            ''Guided continuation requires answers or guidance and the ended current implementation or review.''))"

definition decideScopeReview :: "work_cycle \<Rightarrow> command_facts \<Rightarrow> string option \<Rightarrow> resume_step" where
  "decideScopeReview c f guidance =
     (if cy_step c \<noteq> Review \<or> slice_scope c
         \<or> (case cf_newestRun f of Some run \<Rightarrow> run_id run \<noteq> cy_currentRunId c
            | None \<Rightarrow> cf_runCount f \<noteq> 0)
         \<or> cf_liveRuns f \<noteq> []
      then Step_refuse (refuse Ref_review_guidance_invalid
        ''Review guidance requires an idle verification or parent-acceptance cycle with its current review run.'')
      else
        let stop = map_option at_code (cycle_stop_of c) in
        Step_review_scope (case guidance of None \<Rightarrow> [] | Some g \<Rightarrow> js_trim g)
          (guidance = None
           \<and> (stop = Some Scope_review_recovery \<or> stop = Some Scope_review_open_questions)))"

text \<open>The flag: the shell has passed the open-sessions check and forgets a turn it was ending.\<close>

definition decideResumeStep ::
    "work_cycle \<Rightarrow> command_facts \<Rightarrow> string option \<Rightarrow> resume_step \<times> bool" where
  "decideResumeStep c f guidance =
     (if guidance = None \<and> cf_needsGuidance f
      then (Step_refuse (refuse_toward Ref_needs_guidance
        ''This step has open questions. Use Continue with guidance to supply answers before resuming.''
        A_continue_with_guidance), False)
      else if guidance \<noteq> None \<and> \<not> truthy (cy_finalizationId c) \<and> slice_scope c
      then (decideGuided c f (the guidance), False)
      else if guidance \<noteq> None \<or> (cy_step c = Review \<and> \<not> slice_scope c)
      then (decideScopeReview c f guidance, False)
      else if \<exists>r\<in>set (cf_liveRuns f). Some (run_id r) \<noteq> map_option run_id (cf_newestRun f)
      then (Step_refuse (refuse Ref_sessions_open
        ''End other open sessions before resuming automation''), False)
      else (decideRelaunch c f (cf_newestRun f), True))"

section \<open>The scheduler's and start-up recovery's writes\<close>

datatype scheduled_write = No_write | Scheduled_refuse command_refusal | Scheduled command_write

definition restoredStatus :: "work_cycle \<Rightarrow> cycle_changes" where
  "restoredStatus c = no_changes\<lparr>ch_status := Some (cy_status c), ch_restore := Some (cy_stop c)\<rparr>"

definition decideWindDownStop :: "work_cycle \<Rightarrow> bool \<Rightarrow> scheduled_write" where
  "decideWindDownStop c mergeReserved =
     (if ended (cy_status c) then No_write
      else if mergeReserved
      then Scheduled_refuse (refuse Ref_merge_reserved
        ''Recover the pending merge before stopping this cycle.'')
      else if ownsIntegrationResolution c
      then Scheduled_refuse (refuse Ref_resolution_owned
        ''Abandon the integration resolution before stopping this cycle.'')
      else Scheduled ((just_write (no_changes
        \<lparr>ch_status := Some Stopped, ch_end := Some Roadmap_wound_down,
         ch_reason := Some ''Roadmap stopped. Manual flow is available.''\<rparr>))\<lparr>cwr_endTurn := True\<rparr>))"

definition decideLeaveMerge :: "work_cycle \<Rightarrow> string \<Rightarrow> bool \<Rightarrow> scheduled_write" where
  "decideLeaveMerge c repositoryId adoptsChecks =
     (if cy_status c \<noteq> Awaiting_merge \<or> adoptsChecks then No_write
      else Scheduled (just_write (no_changes
        \<lparr>ch_status := Some Awaiting_merge,
         ch_attention := Some (make_attention Merge_approval
           (Some (no_refs\<lparr>ref_repositoryId := Some repositoryId\<rparr>)) None None None),
         ch_reason := Some ''The slice changes adopted check definitions: approving its merge adopts them, so review them with the merge.''\<rparr>)))"

definition decideDeclaredChecksReview ::
    "work_cycle \<Rightarrow> agent_run option \<Rightarrow> bool \<Rightarrow> bool \<Rightarrow> bool \<Rightarrow> scheduled_write" where
  "decideDeclaredChecksReview c review alreadyAsked stopping live =
     (if cy_status c \<noteq> Awaiting_merge \<or> cy_step c \<noteq> Review
         \<or> (case review of
              None \<Rightarrow> True
            | Some r \<Rightarrow> (case run_reviewBranchContext r of
                          None \<Rightarrow> True | Some x \<Rightarrow> rbc_headSha x = []))
         \<or> alreadyAsked \<or> stopping \<or> live
      then No_write
      else Scheduled (just_write (no_changes
        \<lparr>ch_status := Some Running,
         ch_reason := Some ''The last review did not run every adopted check; a fresh review runs them.''\<rparr>)))"

definition decideRefreshReservation :: "work_cycle \<Rightarrow> command_write" where
  "decideRefreshReservation c =
     just_write (no_changes
       \<lparr>ch_status := Some Running,
        ch_integrationRefreshes := Put (over (cy_integrationRefreshes c) 0 + 1),
        ch_reason := Some ''Updating from integration before a fresh review of the combined changes.''\<rparr>)"

definition decideReviewAgain :: "work_cycle \<Rightarrow> bool \<Rightarrow> bool \<Rightarrow> command_refusal option" where
  "decideReviewAgain c unstarted treeMatches =
     (if (cy_status c \<noteq> Completed \<and> cy_status c \<noteq> Awaiting_merge \<and> \<not> unstarted)
         \<or> cy_step c \<noteq> Review \<or> \<not> truthy (cy_workItemId c) \<or> slice_scope c \<or> \<not> treeMatches
      then Some (refuse Ref_not_reviewable
        ''Only a completed or unstarted independent scope review can be reviewed again.'')
      else None)"

text \<open>Start-up recovery: the interrupted baseline preparation, and the stop after a crash.\<close>

definition restart_baseline :: "work_cycle \<Rightarrow> command_write option" where
  "restart_baseline c =
     (case cy_baselinePreparation c of
        None \<Rightarrow> None
      | Some b \<Rightarrow>
          if bp_status b = Base_preparing
          then Some (just_write (no_changes
            \<lparr>ch_baselinePreparation := Put (b\<lparr>bp_status := Base_failed,
               bp_message := ''Preparation interrupted by restart. Inspect local tags and retry explicitly; existing tags will never be moved.''\<rparr>)\<rparr>))
          else None)"

definition decideRestart :: "work_cycle \<Rightarrow> bool \<Rightarrow> command_write option \<times> command_write option" where
  "decideRestart c cleanStop =
     (restart_baseline c,
      if cy_status c = Running \<and> cw_design (waits_of c) = None \<and> \<not> cleanStop
      then Some (just_write (no_changes
        \<lparr>ch_status := Some Needs_attention,
         ch_attention := Some (make_attention Restart_resume None None None None),
         ch_reason := Some ''Daemon restarted. Inspect the interrupted step and resume explicitly; no process was relaunched.''\<rparr>))
      else None)"

section \<open>The offers beside the commands\<close>

text \<open>
  The facts the projection passes to \<open>cycleActions\<close>, read as the commands read them
  (\<open>cycle/projection.ts\<close>): \<open>reviewNeedsRounds\<close>, the stop's questions and the locks'
  \<open>transitioning\<close> are the projection's own reads.
\<close>

definition latestOutsideLineage :: "work_cycle \<Rightarrow> command_facts \<Rightarrow> bool" where
  "latestOutsideLineage c f =
     (case cf_newestRun f of
        None \<Rightarrow> False
      | Some r \<Rightarrow> run_id r \<noteq> cy_currentRunId c \<and> cy_parentRunId c \<noteq> Some (run_id r)
                  \<and> \<not> cf_continuesLineage f r)"

definition action_view_of :: "work_cycle \<Rightarrow> string list option \<Rightarrow> action_view" where
  "action_view_of c unsettled =
     \<lparr>av_status = cy_status c, av_stop = cy_stop c, av_currentRunId = cy_currentRunId c,
      av_unsettledDecisions = unsettled\<rparr>"

definition projected_facts ::
    "work_cycle \<Rightarrow> command_facts \<Rightarrow> bool \<Rightarrow> bool \<Rightarrow> bool \<Rightarrow> action_facts" where
  "projected_facts c f reviewNeedsRounds questions transitioning =
     (let latest = map_option run_id (cf_newestRun f) in
      \<lparr>af_latestRunId = latest,
       af_reviewNeedsRounds = reviewNeedsRounds,
       af_investigation = \<lparr>ivw_questions = questions, ivw_live = investigationLive c,
                          ivw_changed = worktreeChangeOpen c\<rparr>,
       af_latestOutsideLineage = latestOutsideLineage c f,
       af_resumeAtRoundLimit = resumeAtRoundLimit c (cf_newestRun f) f,
       af_acceptsGuidance = guidanceAccepted c latest (cf_liveRuns f \<noteq> [])
                              (guidedRemediationRefused c (cf_newestRun f) f),
       af_changesSettings = settingsChangeable c
         \<lparr>sf_investigationLive = investigationLive c, sf_worktreeChangeOpen = worktreeChangeOpen c,
          sf_amendmentRetired = cf_amendmentRetired f, sf_transitioning = transitioning\<rparr>\<rparr>)"

definition projected_actions ::
    "work_cycle \<Rightarrow> command_facts \<Rightarrow> string list \<Rightarrow> bool \<Rightarrow> bool \<Rightarrow> bool \<Rightarrow> cycle_action list" where
  "projected_actions c f unsettled reviewNeedsRounds questions transitioning =
     (if ended (cy_status c) then []
      else cycleActions (action_view_of c (if unsettled = [] then None else Some unsettled))
             (projected_facts c f reviewNeedsRounds questions transitioning))"

end
