(* ===== verification/Accepted_Writes.thy ===== *)
theory Accepted_Writes
  imports Write_Safety
begin

text \<open>
  The writes the state machine accepts whatever claims the attention projection reads: what
  the operator's commands, the controller's pass and the effects show of their own writes, and
  the database of a single cycle that the witnesses write to.
\<close>

section \<open>Accepted writes\<close>

text \<open>A write the state machine accepts on any action's behalf, from a record that fits.\<close>

definition acceptable :: "work_cycle \<Rightarrow> cycle_changes \<Rightarrow> string \<Rightarrow> bool" where
  "acceptable c ch action =
     (well_typed_changes ch \<and> ch_restore ch = None
      \<and> may_go (cy_status c) (next_status c ch) action
      \<and> (\<forall>a. ch_attention ch = Some a \<longrightarrow> stop_kind_of (at_code a) = stop_kind_at (next_status c ch)))"

lemma acceptable_change:
  assumes "stop_wf c" "acceptable c ch action"
  shows "change rd at dec db c ch action ctx extra \<noteq> Inl (Transition e)"
proof -
  have "carries (next_status c ch) (written_stop c ch (completed_attention rd c ch at) at)"
    by (rule well_typed_carries)
       (use assms in \<open>auto simp: acceptable_def stop_wf_def\<close>)
  with assms(2) change_transition_error [of rd at dec db c ch action ctx extra]
  show ?thesis by (auto simp: acceptable_def)
qed

text \<open>A stop held by a paused or stopped cycle that fits is an attention stop.\<close>

lemma held_attention_kind:
  assumes "stop_wf c" "held_stop_of c = Some a" "cy_status c = Paused \<or> cy_status c = Needs_attention"
  shows "stop_kind_of (at_code a) = Attention_stop"
  using assms stop_wf_held [OF assms(1)]
  by (auto simp: held_stop_of_def heldStop_def stop_wf_def carries_iff split: option.splits cycle_stop.splits)

lemma stop_kind_at_simps [simp]:
  "stop_kind_at Awaiting_merge = Gate_stop" "s \<noteq> Awaiting_merge \<Longrightarrow> stop_kind_at s = Attention_stop"
  by (simp_all add: stop_kind_at_def)

lemma cycle_stop_held: "cy_status c = Needs_attention \<Longrightarrow> cycle_stop_of c = held_stop_of c"
  by (simp add: cycle_stop_of_def held_stop_of_def cycleStop_def)

lemmas acceptable_simps = acceptable_def well_typed_changes_def next_status_def may_go_live

section \<open>A single cycle\<close>

text \<open>A lone row: a write that moves its status is made.\<close>

definition lone :: "work_cycle \<Rightarrow> cycle_db" where
  "lone c = empty_db\<lparr>db_rows := [c]\<rparr>"

lemma single_row_write:
  assumes "db_rows db = [c]" "u = updated_cycle rd at k c ch" "k = (ctx \<noteq> None)"
    "checkTransition (cy_status c) (cy_status u) (cy_stop u) action = Inr ()"
    "u\<lparr>cy_version := cy_version c, cy_updatedAt := cy_updatedAt c\<rparr> \<noteq> c"
  obtains db' where "change rd at dec db c ch action ctx extra = Inr (Wrote db' u)" "db_rows db' = [u]"
proof -
  have "cycles_replace [c] u (cy_version c) = Replaced [u]"
    by (simp add: assms(2) cycles_replace_def update_row_def)
  with assms that show thesis
    by (auto simp: change_def Let_def db_record_def split: option.splits)
qed

lemma lone_write:
  assumes "stop_wf c" "acceptable c ch action" "next_status c ch \<noteq> cy_status c"
  shows "\<exists>db'. change rd at dec (lone c) c ch action ctx extra
    = Inr (Wrote db' (updated_cycle rd at (ctx \<noteq> None) c ch))"
proof -
  let ?u = "updated_cycle rd at (ctx \<noteq> None) c ch"
  have "carries (next_status c ch) (written_stop c ch (completed_attention rd c ch at) at)"
    by (rule well_typed_carries) (use assms in \<open>auto simp: acceptable_def stop_wf_def\<close>)
  with assms(2) have t: "checkTransition (cy_status c) (cy_status ?u) (cy_stop ?u) action = Inr ()"
    by (simp add: checkTransition_def acceptable_def)
  have ne: "?u\<lparr>cy_version := cy_version c, cy_updatedAt := cy_updatedAt c\<rparr> \<noteq> c"
  proof
    assume "?u\<lparr>cy_version := cy_version c, cy_updatedAt := cy_updatedAt c\<rparr> = c"
    from arg_cong [OF this, of cy_status] assms(3) show False by simp
  qed
  have "db_rows (lone c) = [c]" by (simp add: lone_def)
  from single_row_write [OF this refl refl t ne] show ?thesis by metis
qed

end
