(* ===== verification/Command_Properties.thy ===== *)
theory Command_Properties
  imports Commands Accepted_Writes
begin

text \<open>
  What the operator's commands guarantee: their writes fit the state machine, a pause and
  resume return to the stop, the offers and the commands agree, no second session starts, a
  retry grants nothing, a settings change keeps what it does not name, and a crash leaves
  no cycle driven.
\<close>

section \<open>Writes that fit\<close>

lemma just_write_sel [simp]:
  "cwr_changes (just_write ch) = ch" "\<not> cwr_endTurn (just_write ch)" "\<not> cwr_cancelChecks (just_write ch)"
  by (simp_all add: just_write_def)

text \<open>A guard that refuses, read backwards: the decision beyond it was reached.\<close>

lemma refuse_else [simp]:
  "(if b then Refuse r else d) = Write_now w \<longleftrightarrow> \<not> b \<and> d = Write_now w"
  "(if b then Refuse r else d) = Resume_on \<longleftrightarrow> \<not> b \<and> d = Resume_on"
  "(if b then Write_now v else d) = Write_now w \<longleftrightarrow> (if b then v = w else d = Write_now w)"
  "(if b then Write_now v else d) = Resume_on \<longleftrightarrow> \<not> b \<and> d = Resume_on"
  by simp_all

lemma decideCommand_writes:
  "decideCommand c f cmd = Write_now w \<Longrightarrow>
     \<not> ended (cy_status c) \<and> cy_version c = oc_expectedVersion cmd
     \<and> (oc_action cmd = Op_stop \<and> w = stop_write c
        \<or> oc_action cmd = Op_pause \<and> w = pause_write c
        \<or> oc_action cmd \<in> {Op_resume, Op_retry_provider} \<and> decide_retry c f cmd = Write_now w)"
  unfolding decideCommand_def Let_def refuse_else by (cases "oc_action cmd") (simp_all split: if_splits)

lemma decide_retry_writes:
  assumes "decide_retry c f cmd = Write_now w"
  obtains r where "provider_recovery_of c = Some r" "pr_nextRetryAt r \<noteq> None"
    "cy_status c \<in> {Running, Paused, Needs_attention}" "pr_attempts r < 3"
    "cf_now f < cy_runDeadlineAt c" "map_option run_id (cf_newestRun f) = Some (cy_currentRunId c)"
    "\<not> cf_amendmentRetired f"
    "\<not> (oc_action cmd = Op_retry_provider \<and> cf_providerRoadmapPaused f)"
    "withinInstructionLimit (retry_guidance c (oc_guidance cmd))"
    "cwr_changes w = no_changes
       \<lparr>ch_status := Some Running,
        ch_attempt := no_attempt_changes
          \<lparr>ac_stepGuidance := (if retry_guidance c (oc_guidance cmd) \<noteq> []
             then Put (retry_guidance c (oc_guidance cmd)) else Keep),
           ac_providerRecovery := Put (Some (r\<lparr>pr_nextRetryAt :=
             (if oc_action cmd = Op_retry_provider then Some (cf_now f) else pr_nextRetryAt r)\<rparr>))\<rparr>,
        ch_reason := Some ''Provider retry authorized; current phase gates, process cleanup and the original deadline still apply.''\<rparr>"
proof (cases "provider_recovery_of c")
  case None
  with assms show thesis by (simp add: decide_retry_def)
next
  case (Some r)
  with assms have "\<not> (pr_nextRetryAt r = None \<or> cy_status c \<notin> {Running, Paused, Needs_attention}
      \<or> 3 \<le> pr_attempts r \<or> cy_runDeadlineAt c \<le> cf_now f)"
    "\<not> (oc_action cmd = Op_retry_provider \<and> cf_providerRoadmapPaused f)"
    "map_option run_id (cf_newestRun f) = Some (cy_currentRunId c)" "\<not> cf_amendmentRetired f"
    "withinInstructionLimit (retry_guidance c (oc_guidance cmd))"
    and w: "Write_now w = Write_now (just_write (no_changes
       \<lparr>ch_status := Some Running,
        ch_attempt := no_attempt_changes
          \<lparr>ac_stepGuidance := (if retry_guidance c (oc_guidance cmd) \<noteq> []
             then Put (retry_guidance c (oc_guidance cmd)) else Keep),
           ac_providerRecovery := Put (Some (r\<lparr>pr_nextRetryAt :=
             (if oc_action cmd = Op_retry_provider then Some (cf_now f) else pr_nextRetryAt r)\<rparr>))\<rparr>,
        ch_reason := Some ''Provider retry authorized; current phase gates, process cleanup and the original deadline still apply.''\<rparr>))"
    unfolding decide_retry_def Some option.case Let_def refuse_else by (metis, metis, metis, metis, metis, metis)
  then show thesis by (intro that [OF Some]) auto
qed

lemma decideCommand_acceptable:
  assumes "stop_wf c" "decideCommand c f cmd = Write_now w"
  shows "acceptable c (cwr_changes w) action"
  using decideCommand_writes [OF assms(2)]
proof (elim conjE disjE)
  assume "\<not> ended (cy_status c)" "w = stop_write c"
  then show ?thesis by (auto simp: stop_write_def ended_def acceptable_simps)
next
  assume "\<not> ended (cy_status c)" "w = pause_write c"
  then show ?thesis
    using held_attention_kind [OF assms(1)] cycle_stop_held [of c]
    by (auto simp: pause_write_def ended_def acceptable_simps)
next
  assume "\<not> ended (cy_status c)" "decide_retry c f cmd = Write_now w"
  then show ?thesis by (elim decide_retry_writes) (auto simp: ended_def acceptable_simps)
qed

lemma decideResume_acceptable:
  assumes "stop_wf c" "decideResume c f g = Gate_write w"
  shows "acceptable c (cwr_changes w) action"
  using assms held_attention_kind [OF assms(1)]
  by (auto simp: decideResume_def acceptable_simps split: option.splits if_splits)

lemma decideRelaunch_write:
  assumes "decideRelaunch c f newest = Step_write w"
  shows "ch_status (cwr_changes w) = Some Running \<and> ch_attention (cwr_changes w) = None
    \<and> ch_end (cwr_changes w) = None \<and> ch_restore (cwr_changes w) = None"
  using assms by (auto simp: decideRelaunch_def split: option.splits if_splits)

lemma decideResumeStep_write:
  assumes "fst (decideResumeStep c f g) = Step_write w"
  shows "decideRelaunch c f (cf_newestRun f) = Step_write w"
  using assms
  by (auto simp: decideResumeStep_def decideGuided_def decideScopeReview_def Let_def
      split: if_splits option.splits)

lemma decideResumeStep_acceptable:
  assumes "cy_status c \<notin> {Stopped, Completed}" "fst (decideResumeStep c f g) = Step_write w"
  shows "acceptable c (cwr_changes w) action"
  using assms(1) decideRelaunch_write [OF decideResumeStep_write [OF assms(2)]]
  by (auto simp: acceptable_simps)

lemma resume_on_status:
  "decideCommand c f cmd = Resume_on \<Longrightarrow> cy_status c = Paused \<or> cy_status c = Needs_attention"
  unfolding decideCommand_def Let_def refuse_else
  by (auto simp: decide_retry_def Let_def split: if_splits option.splits)

lemma windDown_acceptable:
  "Scheduled w = decideWindDownStop c reserved \<Longrightarrow> acceptable c (cwr_changes w) action"
  by (auto simp: decideWindDownStop_def ended_def acceptable_simps split: if_splits)

lemma leaveMerge_acceptable:
  "Scheduled w = decideLeaveMerge c repo adopts \<Longrightarrow> acceptable c (cwr_changes w) action"
  by (auto simp: decideLeaveMerge_def acceptable_simps stop_kind_of_def awaiting_merge_gates_def
      split: if_splits)

lemma declaredChecks_acceptable:
  "Scheduled w = decideDeclaredChecksReview c review asked stopping live \<Longrightarrow>
     acceptable c (cwr_changes w) action"
  unfolding decideDeclaredChecksReview_def by (simp add: acceptable_simps split: if_splits)

lemma restart_acceptable:
  "Some w = fst (decideRestart c clean) \<Longrightarrow> acceptable c (cwr_changes w) action"
  "Some w = snd (decideRestart c clean) \<Longrightarrow> acceptable c (cwr_changes w) action"
  by (auto simp: decideRestart_def restart_baseline_def acceptable_simps stop_kind_of_def
      awaiting_merge_gates_def split: if_splits option.splits)

section \<open>Samples\<close>

text \<open>A review stopped with questions for the operator, after its run ended.\<close>

definition asked_attention :: cycle_attention where
  "asked_attention = make_attention Review_open_questions None None None None"

definition asked_cycle :: work_cycle where
  "asked_cycle = sample_cycle\<lparr>cy_status := Needs_attention, cy_step := Review,
     cy_stop := Some (stopRecord asked_attention 1000)\<rparr>"

definition sample_command_facts :: command_facts where
  "sample_command_facts = \<lparr>cf_now = 2000, cf_retiredFinalization = False, cf_mergeReserved = False,
     cf_providerRoadmapPaused = False, cf_newestRun = None, cf_runCount = 0,
     cf_amendmentRetired = False, cf_attestationInputsChanged = False, cf_needsGuidance = False,
     cf_liveRuns = [], cf_continuesLineage = (\<lambda>_. True), cf_reviewAsksRemediation = (\<lambda>_. False),
     cf_reviewScopeIssue = (\<lambda>_. False), cf_reviewTurnSucceeded = (\<lambda>_. True),
     cf_deadline = 7202000\<rparr>"

definition pause_command :: operator_command where
  "pause_command = \<lparr>oc_action = Op_pause, oc_expectedVersion = 1, oc_guidance = None\<rparr>"

lemma asked_sel [simp]:
  "cy_status asked_cycle = Needs_attention" "cy_step asked_cycle = Review" "cy_version asked_cycle = 1"
  "cy_stop asked_cycle = Some (Held_at Attention_stop asked_attention 1000)"
  "held_stop_of asked_cycle = Some asked_attention" "cy_finalizationId asked_cycle = None"
  "cy_executionScope asked_cycle = None" "cy_currentRunId asked_cycle = ''r1''"
  "at_code asked_attention = Review_open_questions" "cy_parentRunId asked_cycle = None"
  by (simp_all add: asked_cycle_def asked_attention_def held_stop_of_def stopRecord_def stop_kind_of_def
      awaiting_merge_gates_def)

lemma sample_command_sel [simp]:
  "cf_now sample_command_facts = 2000" "\<not> cf_retiredFinalization sample_command_facts"
  "\<not> cf_mergeReserved sample_command_facts" "cf_newestRun sample_command_facts = None"
  "\<not> cf_amendmentRetired sample_command_facts" "\<not> cf_attestationInputsChanged sample_command_facts"
  "\<not> cf_needsGuidance sample_command_facts" "cf_liveRuns sample_command_facts = []"
  "\<not> cf_providerRoadmapPaused sample_command_facts"
  by (simp_all add: sample_command_facts_def)

lemma asked_wf: "stop_wf asked_cycle"
  by (simp add: stop_wf_def carries_iff stop_kind_of_def awaiting_merge_gates_def)

lemma asked_pause: "decideCommand asked_cycle sample_command_facts pause_command = Write_now (pause_write asked_cycle)"
  by (simp add: decideCommand_def pause_command_def ended_def)

lemma asked_paused:
  "\<exists>db. change quiet_reads 5000 None (lone asked_cycle) asked_cycle (cwr_changes (pause_write asked_cycle))
      ''pause'' None [] = Inr (Wrote db (updated_cycle quiet_reads 5000 False asked_cycle
        (cwr_changes (pause_write asked_cycle))))"
  using lone_write [OF asked_wf decideCommand_acceptable [OF asked_wf asked_pause], where ctx = None
      and rd = quiet_reads and at = 5000 and dec = None and extra = "[]"]
  by (simp add: next_status_def pause_write_def)

lemma resume_redirect_code:
  assumes "cy_status c = Paused \<or> cy_status c = Needs_attention"
    "map_option at_code (held_stop_of c) = Some code"
  shows "resume_redirect c newest =
    (if newest \<noteq> None \<and> map_option run_id newest \<noteq> Some (cy_currentRunId c) then None
     else RESOLUTION code)"
  using assms
  by (auto simp: resume_redirect_def resumeRedirect_def held_stop_of_def split: option.splits)

lemma asked_redirect:
  "resume_redirect asked_cycle None
     = Some (A_continue_with_guidance, ''This step has open questions. Use Continue with guidance to supply answers.'')"
  by (simp add: resume_redirect_code [of _ Review_open_questions] RESOLUTION_def resolution_table_def)

text \<open>
  C22. The operator's commands fit the state machine: whatever a pause, a stop, a provider retry,
  a resume or a guided resume decides to write of a record that fits its status, the write path
  never answers with its programming error, under any reads, clock and action; and neither does
  the wind-down, the merge left to a person, the fresh review or the crash recovery.
\<close>

theorem command_writes_accepted:
  assumes "stop_wf c"
  shows "(decideCommand c f cmd = Write_now w \<longrightarrow>
            change rd at dec db c (cwr_changes w) action ctx extra \<noteq> Inl (Transition e))
    \<and> (decideResume c f g = Gate_write w \<longrightarrow>
            change rd at dec db c (cwr_changes w) action ctx extra \<noteq> Inl (Transition e))
    \<and> (decideCommand c f cmd = Resume_on \<and> fst (decideResumeStep c f g) = Step_write w \<longrightarrow>
            change rd at dec db c (cwr_changes w) action ctx extra \<noteq> Inl (Transition e))
    \<and> (Scheduled w \<in> {decideWindDownStop c reserved, decideLeaveMerge c repo adopts,
            decideDeclaredChecksReview c review asked stopping live} \<longrightarrow>
            change rd at dec db c (cwr_changes w) action ctx extra \<noteq> Inl (Transition e))
    \<and> (Some w \<in> {fst (decideRestart c clean), snd (decideRestart c clean)} \<longrightarrow>
            change rd at dec db c (cwr_changes w) action ctx extra \<noteq> Inl (Transition e))"
proof -
  have sched: "acceptable c (cwr_changes w) action"
    if "Scheduled w \<in> {decideWindDownStop c reserved, decideLeaveMerge c repo adopts,
          decideDeclaredChecksReview c review asked stopping live}"
    using that windDown_acceptable leaveMerge_acceptable declaredChecks_acceptable by blast
  have restart: "acceptable c (cwr_changes w) action"
    if "Some w \<in> {fst (decideRestart c clean), snd (decideRestart c clean)}"
    using that restart_acceptable by blast
  have step: "acceptable c (cwr_changes w) action"
    if "decideCommand c f cmd = Resume_on \<and> fst (decideResumeStep c f g) = Step_write w"
    using decideResumeStep_acceptable [of c f g w] resume_on_status [of c f cmd] that by auto
  show ?thesis
    by (intro conjI impI acceptable_change [OF assms])
       (erule decideCommand_acceptable [OF assms] decideResume_acceptable [OF assms] step sched restart)+
qed

theorem command_writes_accepted_witness:
  "change quiet_reads 5000 None (lone asked_cycle) asked_cycle (cwr_changes (pause_write asked_cycle))
     ''pause'' None [] \<noteq> Inl (Transition (Cannot_go Needs_attention Paused ''pause''))"
  using command_writes_accepted [OF asked_wf] asked_pause by blast

section \<open>The offers and the commands agree\<close>

lemma offered_resume:
  assumes "A_resume \<in> set (cycleActions v af)"
  shows "av_status v = Paused \<or> av_status v = Needs_attention \<and> action_redirect v (af_latestRunId af) = None"
    and "\<not> af_latestOutsideLineage af"
    and "\<not> (af_resumeAtRoundLimit af \<and> action_redirect v (af_latestRunId af) = None)"
proof -
  from assms have r: "A_resume \<in> set (cycleActionsWithoutSettings v af)"
    by (auto simp: set_insert_settings split: if_splits)
  then have at: "A_resume \<in> set (cycleActionsAt v (af_latestRunId af) (af_reviewNeedsRounds af) (af_investigation af))"
    by (auto simp: cycleActionsWithoutSettings_def Let_def split: if_splits)
  show "\<not> af_latestOutsideLineage af" "\<not> (af_resumeAtRoundLimit af \<and> action_redirect v (af_latestRunId af) = None)"
    using r by (auto simp: cycleActionsWithoutSettings_def Let_def split: if_splits)
  show "av_status v = Paused \<or> av_status v = Needs_attention \<and> action_redirect v (af_latestRunId af) = None"
    using at
    by (cases "av_status v"; cases "action_redirect v (af_latestRunId af)")
       (auto simp: cycleActionsAt_def Let_def dest: action_redirect_not_resume split: if_splits)
qed

lemma offered_guidance:
  assumes "A_resume \<in> set (cycleActions v af)" "A_continue_with_guidance \<in> set (cycleActions v af)"
  shows "af_acceptsGuidance af"
proof -
  let ?at = "cycleActionsAt v (af_latestRunId af) (af_reviewNeedsRounds af) (af_investigation af)"
  from assms have r: "A_resume \<in> set ?at"
    by (auto simp: set_insert_settings cycleActionsWithoutSettings_def Let_def split: if_splits)
  then have "A_continue_with_guidance \<notin> set ?at"
    by (cases "av_status v"; cases "action_redirect v (af_latestRunId af)")
       (auto simp: cycleActionsAt_def Let_def dest: action_redirect_not_resume split: if_splits)
  with assms(2) show ?thesis
    by (auto simp: set_insert_settings cycleActionsWithoutSettings_def Let_def split: if_splits)
qed

lemma resume_redirect_view:
  "action_redirect (action_view_of c u) (map_option run_id newest) = resume_redirect c newest"
  by (simp add: action_redirect_def action_view_of_def resume_redirect_def)

lemma relaunch_refusals:
  assumes "decideRelaunch c f newest = Step_refuse r"
  shows "rfu_code r = Ref_outside_lineage \<and> resumeAdopts c newest
      \<and> (\<exists>x. newest = Some x \<and> \<not> cf_continuesLineage f x)
    \<or> rfu_code r = Ref_manual_review_live
    \<or> rfu_code r = Ref_round_limit \<and> resumeAtRoundLimit c newest f"
  using assms
  by (auto simp: decideRelaunch_def refuse_def refuse_toward_def split: option.splits if_splits)

lemma step_refusals:
  assumes "fst (decideResumeStep c f None) = Step_refuse r"
  shows "rfu_code r \<in> {Ref_needs_guidance, Ref_review_guidance_invalid, Ref_sessions_open}
    \<or> decideRelaunch c f (cf_newestRun f) = Step_refuse r"
  using assms
  by (auto simp: decideResumeStep_def decideScopeReview_def Let_def refuse_def refuse_toward_def
      split: if_splits)

lemma resume_refusals:
  assumes "decideResume c f None = Gate_refuse r" "rfu_code r = Ref_redirect"
  shows "cy_status c \<noteq> Paused \<or> held_stop_of c = None" "resume_redirect c (cf_newestRun f) \<noteq> None"
  using assms
  by (auto simp: decideResume_def refuse_def refuse_toward_def split: option.splits if_splits)

lemma guided_not_invalid:
  assumes "guidanceAccepted c (map_option run_id (cf_newestRun f)) (cf_liveRuns f \<noteq> [])
      (guidedRemediationRefused c (cf_newestRun f) f)" "js_trim g \<noteq> []"
  shows "decideResume c f (Some g) = Gates_open"
    and "fst (decideResumeStep c f (Some g)) = Step_refuse r \<Longrightarrow> rfu_code r = Ref_guidance_too_long"
proof -
  from assms(1) have a: "resolution_status_of c \<noteq> Some Res_detected" "\<not> ownsIntegrationResolution c"
    "\<not> truthy (cy_finalizationId c)" "slice_scope c"
    "map_option run_id (cf_newestRun f) = Some (cy_currentRunId c)"
    by (auto simp: guidanceAccepted_def slice_scope_def)
  then obtain x where x: "cf_newestRun f = Some x" "run_id x = cy_currentRunId c" by auto
  from a show "decideResume c f (Some g) = Gates_open" by (simp add: decideResume_def)
  have "decideGuided c f g = Step_refuse r \<Longrightarrow> rfu_code r = Ref_guidance_too_long"
    using assms x by (auto simp: decideGuided_def Let_def refuse_def refuse_request_def split: if_splits)
  with a show "fst (decideResumeStep c f (Some g)) = Step_refuse r \<Longrightarrow> rfu_code r = Ref_guidance_too_long"
    by (simp add: decideResumeStep_def)
qed

lemma settings_offer_only: "A_change_settings \<notin> set (cycleActionsWithoutSettings v af)"
proof -
  have "action_redirect v l \<noteq> Some (A_change_settings, m)" for l m
    using RESOLUTION_action
    by (fastforce simp: action_redirect_def resumeRedirect_def split: option.splits if_splits)
  then have "A_change_settings \<notin> set (cycleActionsAt v l n iv)" for l n iv
    by (cases "av_status v"; cases "action_redirect v l") (auto simp: cycleActionsAt_def Let_def split: if_splits)
  then show ?thesis by (auto simp: cycleActionsWithoutSettings_def Let_def split: if_splits)
qed

lemma resume_redirect_held: "cy_status c = Paused \<Longrightarrow> resume_redirect c l \<noteq> None \<Longrightarrow> held_stop_of c \<noteq> None"
  by (auto simp: resume_redirect_def resumeRedirect_def held_stop_of_def split: option.splits)

lemma open_no_redirect:
  "decideResume c f None = Gates_open \<Longrightarrow> \<not> cf_attestationInputsChanged f \<Longrightarrow>
     resume_redirect c (cf_newestRun f) = None"
  by (auto simp: decideResume_def split: option.splits if_splits)

lemma resume_gate_codes:
  "decideResume c f None = Gate_refuse r \<Longrightarrow> rfu_code r \<in> {Ref_redirect, Ref_resolution_detected}"
  by (auto simp: decideResume_def refuse_def refuse_toward_def split: option.splits if_splits)

lemma resume_offer_accepted:
  assumes "\<not> cf_attestationInputsChanged f" and "A_resume \<in> set (projected_actions c f u n q tr)"
  shows "cy_status c = Paused \<or> cy_status c = Needs_attention"
    "decideResume c f None = Gate_refuse r \<Longrightarrow> rfu_code r = Ref_resolution_detected"
    "decideResume c f None = Gates_open \<Longrightarrow> fst (decideResumeStep c f None) = Step_refuse r
      \<Longrightarrow> rfu_code r \<in> {Ref_needs_guidance, Ref_review_guidance_invalid, Ref_sessions_open, Ref_manual_review_live}"
proof -
  from assms(2) have offer: "A_resume \<in> set (cycleActions (action_view_of c (if u = [] then None else Some u))
      (projected_facts c f n q tr))" by (simp add: projected_actions_def split: if_splits)
  have status: "cy_status c = Paused
      \<or> cy_status c = Needs_attention \<and> resume_redirect c (cf_newestRun f) = None"
    using offered_resume(1) [OF offer] resume_redirect_view [of c _ "cf_newestRun f"]
    by (auto simp: action_view_of_def projected_facts_def Let_def)
  then show "cy_status c = Paused \<or> cy_status c = Needs_attention" by blast
  show "rfu_code r = Ref_resolution_detected" if "decideResume c f None = Gate_refuse r"
    using status resume_refusals [OF that] resume_gate_codes [OF that] resume_redirect_held by blast
  show "rfu_code r \<in> {Ref_needs_guidance, Ref_review_guidance_invalid, Ref_sessions_open, Ref_manual_review_live}"
    if r: "decideResume c f None = Gates_open" "fst (decideResumeStep c f None) = Step_refuse r"
  proof -
    have none: "resume_redirect c (cf_newestRun f) = None"
      using open_no_redirect r assms by blast
    then have limit: "\<not> resumeAtRoundLimit c (cf_newestRun f) f"
      using offered_resume(3) [OF offer] resume_redirect_view [of c _ "cf_newestRun f"]
      by (simp add: projected_facts_def Let_def)
    have lineage: "\<not> latestOutsideLineage c f"
      using offered_resume(2) [OF offer] by (simp add: projected_facts_def Let_def)
    show ?thesis
      using step_refusals [of c f r] relaunch_refusals [of c f "cf_newestRun f" r] r limit lineage
      by (auto simp: latestOutsideLineage_def resumeAdopts_def split: option.splits)
  qed
qed

text \<open>A settings change is offered exactly when it is changeable, as the command asks.\<close>

lemma settings_offer:
  "A_change_settings \<in> set (projected_actions c f u n q tr) \<longleftrightarrow>
     \<not> ended (cy_status c) \<and> settingsChangeable c
       \<lparr>sf_investigationLive = investigationLive c, sf_worktreeChangeOpen = worktreeChangeOpen c,
        sf_amendmentRetired = cf_amendmentRetired f, sf_transitioning = tr\<rparr>"
  using settings_offer_only by (auto simp: projected_actions_def set_insert_settings projected_facts_def Let_def)


definition timed_cycle :: work_cycle where
  "timed_cycle = sample_cycle\<lparr>cy_status := Needs_attention, cy_step := Review,
     cy_stop := Some (stopRecord (make_attention Step_time_limit None None None None) 1000)\<rparr>"

lemma timed_sel [simp]:
  "cy_status timed_cycle = Needs_attention" "cy_currentRunId timed_cycle = ''r1''"
  "map_option at_code (heldStop (cy_stop timed_cycle)) = Some Step_time_limit"
  "investigationLive timed_cycle = False" "worktreeChangeOpen timed_cycle = False"
  "resolution_status_of timed_cycle = None" "ownsIntegrationResolution timed_cycle = False"
  by (simp_all add: timed_cycle_def stopRecord_def investigationLive_def worktreeChangeOpen_def
      resolution_status_of_def ownsIntegrationResolution_def)


section \<open>A pause and a resume return to the stop\<close>

text \<open>The stop a declared attention at an operator's status leaves keeps its code.\<close>

lemma written_stop_code:
  assumes "ch_restore ch = None" "ch_attention ch = Some d" "ch_status ch = Some st"
    "stop_kind_of (at_code d) = Attention_stop"
  shows "\<exists>k a t. written_stop c ch (completed_attention rd c ch at) at = Some (Held_at k a t)
    \<and> at_code a = at_code d"
proof -
  let ?e = "(apply_fields ch c)\<lparr>cy_stop := Some (stopFor c d st at)\<rparr>"
  have "currentCycleAttention rd ?e = Some a \<Longrightarrow> at_code a = at_code d" for a
  proof -
    assume cur: "currentCycleAttention rd ?e = Some a"
    then obtain x where x: "cycle_stop_of ?e = Some x"
      by (auto simp: currentCycleAttention_def split: option.splits)
    then have "x = d" by (auto simp: cycle_stop_of_def stopFor_def dest!: cycleStop_Some)
    with currentCycleAttention_code [OF cur x] assms(4) show ?thesis
      by (auto simp: stop_kind_of_def awaiting_merge_gates_def)
  qed
  then have "\<exists>a. completed_attention rd c ch at = Some a \<and> at_code a = at_code d"
    unfolding completed_attention_def assms(2,3) option.case prod.case Let_def
    by (cases "currentCycleAttention rd ?e") simp_all
  with assms(1) show ?thesis by (auto simp: written_stop_def Let_def stopFor_def stopRecord_def)
qed

lemma held_written:
  assumes "change rd at dec db c ch action ctx extra = Inr (Wrote db' c')"
    "ch_restore ch = None" "ch_attention ch = Some d" "ch_status ch = Some st"
    "stop_kind_of (at_code d) = Attention_stop"
  shows "cy_status c' = st" "map_option at_code (held_stop_of c') = Some (at_code d)"
    "cy_currentRunId c' = over (ch_currentRunId ch) (cy_currentRunId c)"
  using written_stop_code [OF assms(2-5), of c rd at] change_Wrote(1) [OF assms(1)] assms(4)
  by (auto simp: next_status_def held_stop_of_def)

text \<open>
  The stop a write at an operator's status leaves: as declared on a paused record, and otherwise
  as declared or with its claim, and the detail a claim shows, asked again.
\<close>

definition shown_again :: "cycle_attention \<Rightarrow> cycle_attention \<Rightarrow> bool" where
  "shown_again a b =
     (b = a \<or> (\<exists>claim wait. b = make_attention (at_code a) (at_refs a) claim
        (if claim = Some Claim_prerequisite_work then wait else at_detail a) (at_repairAttempts a)))"

lemma current_shown_again:
  assumes "currentCycleAttention rd e = Some b" "cycle_stop_of e = Some a" "stop_kind_of (at_code a) = Attention_stop"
  shows "shown_again a b"
proof -
  have "at_code a \<noteq> Merge_requirements" "at_code a \<noteq> Merge_approval"
    using assms(3) by (auto simp: stop_kind_of_def awaiting_merge_gates_def)
  with assms(1,2) have "b = (let claim = (if pr_scopeRecovery rd e then Some Claim_scope_recovery
        else if truthy (pr_reviewWait rd e) then Some Claim_prerequisite_work else roadmapClaim rd e)
      in make_attention (at_code a) (at_refs a) claim
           (if claim = Some Claim_prerequisite_work then pr_reviewWait rd e else at_detail a) (at_repairAttempts a))"
    by (auto simp: currentCycleAttention_def Let_def)
  then show ?thesis unfolding shown_again_def Let_def by blast
qed

lemma written_stop_shown:
  assumes "ch_restore ch = None" "ch_attention ch = Some d" "ch_status ch = Some st"
    "stop_kind_of (at_code d) = Attention_stop"
  shows "\<exists>b. written_stop c ch (completed_attention rd c ch at) at = Some (stopFor c b st at)
    \<and> shown_again d b \<and> (st = Paused \<longrightarrow> b = d)"
proof -
  let ?e = "(apply_fields ch c)\<lparr>cy_stop := Some (stopFor c d st at)\<rparr>"
  have stop: "cycle_stop_of ?e = (if attention_status st then Some d else None)"
    using assms(3) by (auto simp: cycle_stop_of_def cycleStop_def attention_status_def stopFor_def
        stopRecord_def heldStop_def next_status_def)
  have "\<exists>b. completed_attention rd c ch at = Some b \<and> shown_again d b \<and> (st = Paused \<longrightarrow> b = d)"
  proof (cases "currentCycleAttention rd ?e")
    case None
    then show ?thesis unfolding completed_attention_def assms(2,3) option.case prod.case Let_def
      by (simp add: shown_again_def)
  next
    case (Some b)
    then have "cycle_stop_of ?e \<noteq> None" unfolding currentCycleAttention_def by (cases "cycle_stop_of ?e") simp_all
    with stop have d: "cycle_stop_of ?e = Some d" "attention_status st" by (auto split: if_splits)
    from current_shown_again [OF Some d(1) assms(4)] Some d(2) show ?thesis
      unfolding completed_attention_def assms(2,3) option.case prod.case Let_def
      by (auto simp: shown_again_def attention_status_def)
  qed
  with assms(1,3) show ?thesis by (auto simp: written_stop_def Let_def next_status_def)
qed

lemma held_shown:
  assumes "change rd at dec db c ch action ctx extra = Inr (Wrote db' c')"
    "ch_restore ch = None" "ch_attention ch = Some d" "ch_status ch = Some st"
    "stop_kind_of (at_code d) = Attention_stop"
  obtains b where "cy_stop c' = Some (stopFor c b st at)" "shown_again d b" "st = Paused \<Longrightarrow> b = d"
  using written_stop_shown [OF assms(2-5), of c rd at] change_Wrote(1) [OF assms(1)] by auto

lemma pause_stopped:
  assumes "decideCommand c f cmd = Write_now w" "oc_action cmd = Op_pause"
    "cy_status c = Needs_attention" "held_stop_of c = Some a"
  shows "ch_restore (cwr_changes w) = None" "ch_attention (cwr_changes w) = Some a"
    "ch_status (cwr_changes w) = Some Paused" "ch_currentRunId (cwr_changes w) = None"
  using decideCommand_writes [OF assms(1)] assms cycle_stop_held [of c]
  by (auto simp: pause_write_def)

lemma resume_gate_write:
  assumes "decideResume c f g = Gate_write w"
  obtains a where "cy_status c = Paused" "held_stop_of c = Some a"
    "ch_restore (cwr_changes w) = None" "ch_attention (cwr_changes w) = Some a"
    "ch_status (cwr_changes w) = Some Needs_attention" "ch_currentRunId (cwr_changes w) = None"
  using assms by (auto simp: decideResume_def split: option.splits if_splits)



section \<open>Sessions, retries, settings and crashes\<close>

text \<open>
  A resume starts no second session: whatever a resume, guided or plain, launches, reviews,
  remediates or adopts, every live run of the worktree is the newest run it continues; and a
  guided one, or a scope's review, starts with no live run at all.
\<close>

theorem resume_single_session:
  assumes "fst (decideResumeStep c f g) = act" "\<And>r. act \<noteq> Step_refuse r"
  shows "(\<forall>r\<in>set (cf_liveRuns f). Some (run_id r) = map_option run_id (cf_newestRun f))
    \<and> (g \<noteq> None \<or> (\<exists>t b. act = Step_review_scope t b) \<longrightarrow> cf_liveRuns f = [])"
proof -
  have guided: "cf_liveRuns f = []" if "decideGuided c f t = act" for t
    using that assms(2)
    by (auto simp: decideGuided_def guidanceAccepted_def Let_def split: option.splits if_splits)
  have scope: "cf_liveRuns f = []" if "decideScopeReview c f g = act"
    using that assms(2) by (auto simp: decideScopeReview_def Let_def split: if_splits)
  have relaunch: "decideRelaunch c f n \<noteq> Step_review_scope t b" for n t b
    by (auto simp: decideRelaunch_def split: option.splits)
  from assms guided scope relaunch show ?thesis
    by (auto simp: decideResumeStep_def split: if_splits)
qed

theorem resume_single_session_witness:
  "fst (decideResumeStep asked_cycle sample_command_facts None) = Step_launch Review None None None
   \<and> cf_liveRuns sample_command_facts = []"
proof -
  have act: "fst (decideResumeStep asked_cycle sample_command_facts None) = Step_launch Review None None None"
    by (simp add: decideResumeStep_def slice_scope_def decideRelaunch_def)
  with resume_single_session [OF act] show ?thesis by simp
qed

lemma written_recovery:
  assumes "ac_providerRecovery (ch_attempt ch) = Put (Some r)" "cy_attempt c' = written_attempt c ch k"
  shows "provider_recovery_of c' = Some r"
  using assms
  by (auto simp: provider_recovery_of_def attempt_of_def written_attempt_def Let_def edit_attempt_def
      empty_attempt_def)

text \<open>
  A provider retry grants nothing: authorizing or resuming a pending retry is accepted only
  before the step's deadline, after fewer than three retries and on the worktree's newest run;
  the record it leaves is running, with the same deadline, the same count of retries, the same
  source run and agent; and only the explicit command moves the retry's time, to now.
\<close>

theorem retry_grants_nothing:
  assumes "decideCommand c f cmd = Write_now w" "oc_action cmd \<in> {Op_resume, Op_retry_provider}"
    "change rd at dec db c (cwr_changes w) action ctx extra = Inr (Wrote db' c')"
  shows "\<exists>r r'. provider_recovery_of c = Some r \<and> provider_recovery_of c' = Some r'
    \<and> cf_now f < cy_runDeadlineAt c \<and> pr_attempts r < 3
    \<and> map_option run_id (cf_newestRun f) = Some (cy_currentRunId c)
    \<and> cy_status c' = Running \<and> cy_runDeadlineAt c' = cy_runDeadlineAt c
    \<and> r' = r\<lparr>pr_nextRetryAt := (if oc_action cmd = Op_retry_provider then Some (cf_now f)
                               else pr_nextRetryAt r)\<rparr>"
proof -
  from decideCommand_writes [OF assms(1)] assms(2)
  have retry: "decide_retry c f cmd = Write_now w" by auto
  show ?thesis
  proof (rule decide_retry_writes [OF retry])
    fix r
    assume r: "provider_recovery_of c = Some r" "pr_attempts r < 3" "cf_now f < cy_runDeadlineAt c"
        "map_option run_id (cf_newestRun f) = Some (cy_currentRunId c)"
      and w: "cwr_changes w = no_changes
       \<lparr>ch_status := Some Running,
        ch_attempt := no_attempt_changes
          \<lparr>ac_stepGuidance := (if retry_guidance c (oc_guidance cmd) \<noteq> []
             then Put (retry_guidance c (oc_guidance cmd)) else Keep),
           ac_providerRecovery := Put (Some (r\<lparr>pr_nextRetryAt :=
             (if oc_action cmd = Op_retry_provider then Some (cf_now f) else pr_nextRetryAt r)\<rparr>))\<rparr>,
        ch_reason := Some ''Provider retry authorized; current phase gates, process cleanup and the original deadline still apply.''\<rparr>"
    have att: "provider_recovery_of c' = Some (r\<lparr>pr_nextRetryAt :=
        (if oc_action cmd = Op_retry_provider then Some (cf_now f) else pr_nextRetryAt r)\<rparr>)"
      by (rule written_recovery [of "cwr_changes w" _ _ c "ctx \<noteq> None"])
         (use w change_Wrote(1) [OF assms(3)] in simp_all)
    have "cy_status c' = Running" "cy_runDeadlineAt c' = cy_runDeadlineAt c"
      using change_Wrote(1) [OF assms(3)] w
      by (simp_all add: next_status_def updated_cycle_def Let_def apply_fields_def no_changes_def)
    with r att show ?thesis by blast
  qed
qed

definition waiting_recovery :: provider_recovery where
  "waiting_recovery = \<lparr>pr_attempts = 1, pr_sourceRunId = ''r1'',
     pr_failure = \<lparr>fl_kind = Fail_capacity, fl_message = ''Overloaded.'', fl_safeToRetry = True,
       fl_resetsAt = None, fl_resetsAtMs = None, fl_evidence = None\<rparr>,
     pr_profile = sample_profile, pr_nextRetryAt = Some 300000\<rparr>"

definition waiting_cycle :: work_cycle where
  "waiting_cycle = sample_cycle\<lparr>cy_status := Paused,
     cy_attempt := Some (empty_attempt\<lparr>sa_providerRecovery := Some (Some waiting_recovery)\<rparr>)\<rparr>"

definition retry_facts :: command_facts where
  "retry_facts = sample_command_facts\<lparr>cf_newestRun := Some
     \<lparr>run_reasoningEffort = None, run_profileSelection = None, run_id = ''r1'',
      run_workspaceId = ''w1'', run_worktreeId = ''t1'', run_repositoryId = ''repo'',
      run_projectId = ''p1'', run_workItemId = Some ''i1'', run_planVersionId = None,
      run_parentRunId = None, run_backend = Claude_code, run_role = Role_design,
      run_status = Run_failed, run_permissionMode = Auto_mode, run_model = Some ''opus'',
      run_resolvedModel = None, run_billing = None, run_verdict = None,
      run_reviewBranchContext = None, run_brief = [], run_backendSessionId = Some ''sess'',
      run_createdAt = 0, run_createdByUserId = ''u1'', run_startedAt = Some 0,
      run_finishedAt = Some 60000, run_exitCode = Some 1, run_outcomeSummary = None,
      run_costUsdMicros = None, run_turnCount = 1, run_version = 1\<rparr>\<rparr>"

definition retry_command :: operator_command where
  "retry_command = \<lparr>oc_action = Op_retry_provider, oc_expectedVersion = 1, oc_guidance = None\<rparr>"

lemma waiting_retry:
  "\<exists>w. decideCommand waiting_cycle retry_facts retry_command = Write_now w"
proof -
  have "provider_recovery_of waiting_cycle = Some waiting_recovery" "sa_stepGuidance (attempt_of waiting_cycle) = None"
    "cy_status waiting_cycle = Paused" "cy_version waiting_cycle = 1" "cy_runDeadlineAt waiting_cycle = 7200000"
    "cy_currentRunId waiting_cycle = ''r1''"
    by (simp_all add: waiting_cycle_def provider_recovery_of_def attempt_of_def empty_attempt_def)
  then show ?thesis
    by (simp add: decideCommand_def decide_retry_def retry_command_def retry_facts_def ended_def
        waiting_recovery_def retry_guidance_def joined_guidance_def withinInstructionLimit_def
        instruction_limit_def)
qed

theorem retry_grants_nothing_witness:
  "\<exists>c'. cy_status c' = Running \<and> cy_runDeadlineAt c' = 7200000
     \<and> map_option pr_attempts (provider_recovery_of c') = Some 1"
proof -
  obtain w where w: "decideCommand waiting_cycle retry_facts retry_command = Write_now w"
    using waiting_retry by blast
  have wf: "stop_wf waiting_cycle" by (simp add: stop_wf_def carries_iff waiting_cycle_def)
  have act: "oc_action retry_command = Op_retry_provider" by (simp add: retry_command_def)
  with decideCommand_writes [OF w] have dr: "decide_retry waiting_cycle retry_facts retry_command = Write_now w"
    by simp
  have "ch_status (cwr_changes w) = Some Running" by (rule decide_retry_writes [OF dr]) simp
  then have "next_status waiting_cycle (cwr_changes w) \<noteq> cy_status waiting_cycle"
    by (simp add: next_status_def waiting_cycle_def)
  then obtain db' where
    "change quiet_reads 5000 None (lone waiting_cycle) waiting_cycle (cwr_changes w) ''retry-provider'' None []
       = Inr (Wrote db' (updated_cycle quiet_reads 5000 False waiting_cycle (cwr_changes w)))"
    using lone_write [OF wf decideCommand_acceptable [OF wf w], where ctx = None and rd = quiet_reads
        and at = 5000 and dec = None and extra = "[]"] by auto
  from retry_grants_nothing [OF w _ this] act obtain r c' where
    "provider_recovery_of waiting_cycle = Some r" "cy_status c' = Running"
    "cy_runDeadlineAt c' = cy_runDeadlineAt waiting_cycle"
    "map_option pr_attempts (provider_recovery_of c') = Some (pr_attempts r)" by fastforce
  then show ?thesis
    by (auto simp: waiting_cycle_def provider_recovery_of_def attempt_of_def waiting_recovery_def)
qed

lemma step_profile_set:
  "step_profile (set_profile p (q, a)) s =
     (if q = For_step s
      then agent_selection.extend a \<lparr>ap_permissionMode = ap_permissionMode (step_profile p s)\<rparr>
      else step_profile p s)"
  "specialist_selection (set_profile p (q, a)) x =
     (if q = For_specialist x then Some a else specialist_selection p x)"
  by (cases q; cases s; simp add: Let_def split: cycle_step.split specialist.split)
     (cases q; cases x; simp add: Let_def split: cycle_step.split specialist.split)

declare set_profile.simps [simp del]

lemma extend_agent [simp]:
  "selectAgent (agent_selection.extend a p) = selectAgent a"
  "ap_permissionMode (agent_selection.extend a \<lparr>ap_permissionMode = m\<rparr>) = m"
  by (simp_all add: selectAgent_def agent_selection.defs)

lemma set_profiles_permissions:
  "ap_permissionMode (step_profile (foldl set_profile p as) s) = ap_permissionMode (step_profile p s)"
  by (induction as arbitrary: p) (auto simp: step_profile_set split: if_splits)

lemma set_profiles_other:
  "For_step s \<notin> fst ` set as \<Longrightarrow> step_profile (foldl set_profile p as) s = step_profile p s"
  "For_specialist x \<notin> fst ` set as \<Longrightarrow>
     specialist_selection (foldl set_profile p as) x = specialist_selection p x"
  by (induction as arbitrary: p) (auto simp: step_profile_set)

lemma set_profiles_step:
  "distinct (map fst as) \<Longrightarrow> (For_step s, a) \<in> set as \<Longrightarrow>
     selectAgent (step_profile (foldl set_profile p as) s) = selectAgent a"
proof (induction as arbitrary: p)
  case (Cons b as)
  show ?case
  proof (cases "b = (For_step s, a)")
    case True
    with Cons.prems have "For_step s \<notin> fst ` set as" by auto
    with True set_profiles_other(1) [of s as "set_profile p b"] show ?thesis by (simp add: step_profile_set)
  qed (use Cons in auto)
qed simp

lemma set_profiles_specialist:
  "distinct (map fst as) \<Longrightarrow> (For_specialist x, a) \<in> set as \<Longrightarrow>
     specialist_selection (foldl set_profile p as) x = Some a"
proof (induction as arbitrary: p)
  case (Cons b as)
  show ?case
  proof (cases "b = (For_specialist x, a)")
    case True
    with Cons.prems have "For_specialist x \<notin> fst ` set as" by auto
    with True set_profiles_other(2) [of x as "set_profile p b"] show ?thesis by (simp add: step_profile_set)
  qed (use Cons in auto)
qed simp

text \<open>The agents that change: chosen, named, not in effect, and named once if named once.\<close>

lemma changed_agents_in:
  "(q, a) \<in> set (changed_agents current named) \<Longrightarrow>
     (\<exists>x. (q, x) \<in> set named \<and> a = selectAgent x) \<and> map_option selectAgent (current q) \<noteq> Some a"
  by (auto simp: changed_agents_def Let_def split: option.splits if_splits)

lemma changed_agents_distinct:
  "distinct (map fst named) \<Longrightarrow> distinct (map fst (changed_agents current named))"
proof (induction named)
  case (Cons b as)
  have "fst ` set (changed_agents current as) \<subseteq> fst ` set as"
    using changed_agents_in [of _ _ current as] by force
  moreover have "changed_agents current (b # as)
      = changed_agents current [b] @ changed_agents current as"
    "length (changed_agents current [b]) \<le> 1" "fst ` set (changed_agents current [b]) \<subseteq> {fst b}"
    by (auto simp: changed_agents_def Let_def split: option.splits prod.splits if_splits)
  ultimately show ?case
    using Cons by (cases "changed_agents current [b]") auto
qed (simp add: changed_agents_def)

text \<open>
  A settings change changes what it names and nothing else: it is accepted only of a paused or
  stopped cycle that is not a finalization's and changes something; it writes no status; the
  other purposes keep their agents and every step its permissions; each named purpose runs the
  agent chosen for it; and changing an agent ends a pending provider retry.
\<close>

theorem settings_change_frame:
  assumes "decideSettingsChange c retired chg live changeOpen transitioning owned current = Inr r"
    "distinct (map fst (sg_agents chg))"
  defines "p' \<equiv> over (ch_profiles (sr_changes r)) (cy_profiles c)"
  shows "(cy_status c = Paused \<or> cy_status c = Needs_attention) \<and> \<not> truthy (cy_finalizationId c)
    \<and> (sr_agents r \<noteq> [] \<or> sr_maxRunMinutes r \<noteq> None) \<and> ch_status (sr_changes r) = None
    \<and> (\<forall>s. ap_permissionMode (step_profile p' s) = ap_permissionMode (step_profile (cy_profiles c) s))
    \<and> (\<forall>s. For_step s \<notin> fst ` set (sr_agents r) \<longrightarrow> step_profile p' s = step_profile (cy_profiles c) s)
    \<and> (\<forall>x. For_specialist x \<notin> fst ` set (sr_agents r) \<longrightarrow>
          specialist_selection p' x = specialist_selection (cy_profiles c) x)
    \<and> (\<not> owned \<longrightarrow> (\<forall>q a. (q, a) \<in> set (sr_agents r) \<longrightarrow>
          selectAgent (profileForPurpose p' q) = selectAgent a))
    \<and> (sr_agents r \<noteq> [] \<and> provider_recovery_of c \<noteq> None \<longrightarrow>
          ac_providerRecovery (ch_attempt (sr_changes r)) = Drop)"
proof -
  have ok: "settingsChangeable c
      \<lparr>sf_investigationLive = live, sf_worktreeChangeOpen = changeOpen,
       sf_amendmentRetired = retired, sf_transitioning = transitioning\<rparr>"
    and ag: "sr_agents r = changed_agents current (sg_agents chg)"
    and some: "sr_agents r \<noteq> [] \<or> sr_maxRunMinutes r \<noteq> None"
    and ch: "ch_status (sr_changes r) = None"
      "ch_profiles (sr_changes r) = (if sr_agents r \<noteq> [] \<and> \<not> owned
         then Some (foldl set_profile (cy_profiles c) (sr_agents r)) else None)"
      "sr_agents r \<noteq> [] \<and> provider_recovery_of c \<noteq> None \<longrightarrow>
         ac_providerRecovery (ch_attempt (sr_changes r)) = Drop"
    using assms(1) by (auto simp: decideSettingsChange_def Let_def no_changes_def split: if_splits)
  have d: "distinct (map fst (sr_agents r))" using ag changed_agents_distinct [OF assms(2)] by simp
  have p': "p' = (if sr_agents r \<noteq> [] \<and> \<not> owned
      then foldl set_profile (cy_profiles c) (sr_agents r) else cy_profiles c)"
    by (simp add: p'_def ch(2))
  have "selectAgent (profileForPurpose p' q) = selectAgent a"
    if "\<not> owned" "(q, a) \<in> set (sr_agents r)" for q a
  proof -
    have "p' = foldl set_profile (cy_profiles c) (sr_agents r)" using that p' by auto
    then show ?thesis
      using set_profiles_step [OF d] set_profiles_specialist [OF d] that
      by (cases q) (auto simp: Let_def)
  qed
  then show ?thesis
    using ok some ch p' set_profiles_permissions set_profiles_other
    by (auto simp: settingsChangeable_def)
qed

theorem settings_change_frame_witness:
  "ap_permissionMode (step_profile (over (ch_profiles (no_changes
     \<lparr>ch_policy := Some ((cy_policy asked_cycle)\<lparr>maxRunMinutes := 60\<rparr>)\<rparr>)) (cy_profiles asked_cycle)) Review)
     = Auto_mode"
proof -
  let ?chg = "\<lparr>sg_expectedVersion = 1, sg_maxRunMinutes = Some 60, sg_agents = []\<rparr>"
  have m: "maxRunMinutes (cy_policy asked_cycle) = 120"
    by (simp add: asked_cycle_def default_completion_policy_def)
  have ok: "settingsChangeable asked_cycle
      \<lparr>sf_investigationLive = False, sf_worktreeChangeOpen = False,
       sf_amendmentRetired = False, sf_transitioning = False\<rparr>"
    by (simp add: settingsChangeable_def)
  have "decideSettingsChange asked_cycle False ?chg False False False False (\<lambda>_. None)
      = Inr \<lparr>sr_changes = no_changes\<lparr>ch_policy := Some ((cy_policy asked_cycle)\<lparr>maxRunMinutes := 60\<rparr>)\<rparr>,
             sr_agents = [], sr_maxRunMinutes = Some 60\<rparr>"
    using ok m by (simp add: decideSettingsChange_def ended_def changed_agents_def no_changes_def)
  from settings_change_frame [OF this] show ?thesis
    by (simp add: asked_cycle_def sample_profiles_def sample_profile_def no_changes_def)
qed

text \<open>
  A crash leaves nothing driven: after a daemon restart that was not a clean stop, a running
  cycle that was not waiting on its design's dependencies is stopped for the operator with the
  restart's code and on the same run, under any reads; after a clean stop nothing is stopped.
\<close>

theorem crash_stops_running:
  assumes "cy_status c = Running" "cw_design (waits_of c) = None"
  shows "snd (decideRestart c True) = None
    \<and> (\<exists>w. snd (decideRestart c False) = Some w
      \<and> (\<forall>rd at dec db action ctx extra db' c'.
            change rd at dec db c (cwr_changes w) action ctx extra = Inr (Wrote db' c') \<longrightarrow>
            cy_status c' = Needs_attention \<and> map_option at_code (held_stop_of c') = Some Restart_resume
            \<and> cy_currentRunId c' = cy_currentRunId c)
      \<and> (\<forall>rd at dec db action ctx extra x.
            change rd at dec db c (cwr_changes w) action ctx extra \<noteq> Inr (Unchanged x)))"
proof -
  let ?ch = "no_changes
        \<lparr>ch_status := Some Needs_attention,
         ch_attention := Some (make_attention Restart_resume None None None None),
         ch_reason := Some ''Daemon restarted. Inspect the interrupted step and resume explicitly; no process was relaunched.''\<rparr>"
  have w: "snd (decideRestart c False) = Some (just_write ?ch)" using assms by (simp add: decideRestart_def)
  have wrote: "cy_status c' = Needs_attention \<and> map_option at_code (held_stop_of c') = Some Restart_resume
      \<and> cy_currentRunId c' = cy_currentRunId c"
    if "change rd at dec db c ?ch action ctx extra = Inr (Wrote db' c')"
    for rd at dec db action ctx extra db' c'
    using held_written [OF that, of "make_attention Restart_resume None None None None" Needs_attention]
    by (simp add: stop_kind_of_def awaiting_merge_gates_def)
  have "change rd at dec db c ?ch action ctx extra \<noteq> Inr (Unchanged x)"
    for rd at dec db action ctx extra x
  proof
    assume u: "change rd at dec db c ?ch action ctx extra = Inr (Unchanged x)"
    then have "(updated_cycle rd at (ctx \<noteq> None) c ?ch)\<lparr>cy_version := cy_version c, cy_updatedAt := cy_updatedAt c\<rparr> = c"
      by (auto simp: change_def Let_def split: if_splits replace_result.splits option.splits sum.splits)
    from arg_cong [OF this, of cy_status] assms show False by (simp add: next_status_def)
  qed
  with w wrote show ?thesis by (auto simp: decideRestart_def)
qed

theorem crash_stops_running_witness: "\<exists>w. snd (decideRestart sample_cycle False) = Some w"
proof -
  have "cw_design (waits_of sample_cycle) = None" by (simp add: waits_of_def no_waits_def)
  with crash_stops_running [of sample_cycle] show ?thesis by auto
qed

end
