(* ===== verification/Agents.thy ===== *)
theory Agents
  imports Cycle
begin

text \<open>
  Which agent a launch uses (\<open>apps/server/src/services/agent-resolution.ts\<close>, with the
  finalization layer of \<open>agent-profile-policy.ts\<close> and the purpose of a cycle's next launch
  of \<open>packages/domain/src/agent-profiles.ts\<close>): every layer a place has is a field of
  \<open>agent_context\<close>, the candidates are listed in precedence order, and the first one wins.
\<close>

section \<open>Layers, sources and the context\<close>

datatype selection_layer =
    L_daemon_default | L_continued_run | L_workspace_default | L_saved_definition | L_cycle_start
  | L_roadmap_automation | L_roadmap_delegation | L_service_retry | L_roadmap_assignment
  | L_integration_resolution | L_finalization_stage | L_finalization_recovery | L_design_recovery
  | L_investigation | L_decision_preparation | L_resumed_session

record selection_source =
  src_layer :: selection_layer
  src_slot :: "profile_purpose option"
  src_assignmentId :: "string option"
  src_delegationId :: "string option"
  src_stageIndex :: "nat option"
  src_runId :: "string option"

definition from_layer :: "selection_layer \<Rightarrow> selection_source" where
  "from_layer l = \<lparr>src_layer = l, src_slot = None, src_assignmentId = None,
     src_delegationId = None, src_stageIndex = None, src_runId = None\<rparr>"

record agent_resolution =
  res_selection :: agent_selection
  res_source :: selection_source

record agent_candidate = agent_resolution +
  res_permissionMode :: "permission_mode option"

record effective_agent = agent_candidate +
  res_inherited :: "agent_resolution option"

text \<open>\<open>AgentSelections\<close>: the steps' selections and those of the specialists that have one.\<close>

type_synonym agent_selections = "profile_purpose \<Rightarrow> agent_selection option"

record agent_action =
  aa_layer :: selection_layer
  aa_selection :: agent_selection
  aa_permissionMode :: "permission_mode option"

record finalization_layer =
  fz_stage :: agent_profile
  fz_slot :: cycle_step
  fz_stageIndex :: "nat option"
  fz_recovery :: "agent_selection option"

record agent_context =
  ax_purpose :: profile_purpose
  ax_permissionMode :: "permission_mode option"
  ax_resumed :: "agent_profile option"
  ax_action :: "agent_action option"
  ax_finalization :: "finalization_layer option"
  ax_integrationResolution :: "agent_profile option"
  ax_assignment :: "(string \<times> agent_selections) option"
  ax_serviceRetry :: "agent_profile option"
  ax_profiles :: "(selection_layer \<times> cycle_profiles) option"
  ax_delegation :: "(string option \<times> agent_profile) option"
  ax_continued :: "(string \<times> agent_profile) option"
  ax_workspace :: "((profile_purpose \<times> agent_profile) list \<times> agent_profile) option"

definition no_layers :: "profile_purpose \<Rightarrow> agent_context" where
  "no_layers p = \<lparr>ax_purpose = p, ax_permissionMode = None, ax_resumed = None, ax_action = None,
     ax_finalization = None, ax_integrationResolution = None, ax_assignment = None,
     ax_serviceRetry = None, ax_profiles = None, ax_delegation = None, ax_continued = None,
     ax_workspace = None\<rparr>"

section \<open>Inheritance\<close>

fun chain_parent :: "profile_purpose \<Rightarrow> profile_purpose option" where
  "chain_parent (For_step s) = (if s = Remediate then Some (For_step Implement) else None)"
| "chain_parent (For_specialist x) = Some (For_step (profile_inheritance x))"

definition chain_height :: "profile_purpose \<Rightarrow> nat" where
  "chain_height p =
     (case p of For_specialist x \<Rightarrow> 2 | For_step s \<Rightarrow> if s = Remediate then 1 else 0)"

function inheritanceChain :: "profile_purpose \<Rightarrow> profile_purpose list" where
  "inheritanceChain p =
     p # (case chain_parent p of None \<Rightarrow> [] | Some q \<Rightarrow> inheritanceChain q)"
  by pat_completeness auto

lemma chain_parent_height: "chain_parent p = Some q \<Longrightarrow> chain_height q < chain_height p"
  by (cases p) (auto simp: chain_height_def split: if_splits)

termination inheritanceChain
  by (relation "measure chain_height") (simp_all add: chain_parent_height)

declare inheritanceChain.simps [simp del]

fun baseStep :: "profile_purpose \<Rightarrow> cycle_step" where
  "baseStep (For_step s) = s"
| "baseStep (For_specialist x) = profile_inheritance x"

text \<open>\<open>profiles.value[slot]\<close>: a step's profile as its selection, a specialist's if it has one.\<close>

fun slot_selection :: "cycle_profiles \<Rightarrow> profile_purpose \<Rightarrow> agent_selection option" where
  "slot_selection p (For_step s) = Some (selectAgent (step_profile p s))"
| "slot_selection p (For_specialist x) = specialist_selection p x"

definition agentSelections :: "cycle_profiles \<Rightarrow> agent_selections" where
  "agentSelections p purpose = map_option selectAgent (slot_selection p purpose)"

section \<open>The candidates, in precedence order\<close>

definition agent_candidate_of ::
    "agent_selection \<Rightarrow> selection_source \<Rightarrow> permission_mode option \<Rightarrow> agent_candidate" where
  "agent_candidate_of s source mode =
     \<lparr>res_selection = selectAgent s, res_source = source, res_permissionMode = mode\<rparr>"

definition profile_candidate :: "agent_profile \<Rightarrow> selection_source \<Rightarrow> agent_candidate" where
  "profile_candidate p source =
     agent_candidate_of (selectAgent p) source (Some (ap_permissionMode p))"

definition action_candidates :: "agent_context \<Rightarrow> agent_candidate list" where
  "action_candidates ax =
     (case ax_action ax of
        None \<Rightarrow> []
      | Some a \<Rightarrow> [agent_candidate_of (aa_selection a) (from_layer (aa_layer a))
                    (case aa_permissionMode a of Some m \<Rightarrow> Some m | None \<Rightarrow> ax_permissionMode ax)])"

definition finalization_candidates :: "finalization_layer \<Rightarrow> agent_candidate list" where
  "finalization_candidates fl =
     (let at = (\<lambda>l. (from_layer l)\<lparr>src_slot := Some (For_step (fz_slot fl)),
                                     src_stageIndex := fz_stageIndex fl\<rparr>)
      in (case fz_recovery fl of
            None \<Rightarrow> []
          | Some r \<Rightarrow> [agent_candidate_of r (at L_finalization_recovery)
                         (Some (ap_permissionMode (fz_stage fl)))])
         @ [profile_candidate (fz_stage fl) (at L_finalization_stage)])"

definition assignment_candidates :: "agent_context \<Rightarrow> profile_purpose list \<Rightarrow> agent_candidate list" where
  "assignment_candidates ax slots =
     (case ax_assignment ax of
        None \<Rightarrow> []
      | Some (i, selections) \<Rightarrow>
          concat (map (\<lambda>slot. case selections slot of
            None \<Rightarrow> []
          | Some s \<Rightarrow> [agent_candidate_of s ((from_layer L_roadmap_assignment)
                        \<lparr>src_slot := Some slot, src_assignmentId := Some i\<rparr>) (ax_permissionMode ax)]) slots))"

definition profile_permission :: "agent_context \<Rightarrow> cycle_profiles \<Rightarrow> permission_mode option" where
  "profile_permission ax value =
     (case ax_permissionMode ax of
        Some m \<Rightarrow> Some m
      | None \<Rightarrow> Some (ap_permissionMode (step_profile value (baseStep (ax_purpose ax)))))"

definition profiles_candidates :: "agent_context \<Rightarrow> profile_purpose list \<Rightarrow> agent_candidate list" where
  "profiles_candidates ax slots =
     (case ax_profiles ax of
        None \<Rightarrow> []
      | Some (layer, value) \<Rightarrow>
          concat (map (\<lambda>slot. case slot_selection value slot of
            None \<Rightarrow> []
          | Some s \<Rightarrow> [agent_candidate_of s ((from_layer layer)\<lparr>src_slot := Some slot\<rparr>)
                        (profile_permission ax value)]) slots))"

definition delegation_candidates :: "agent_context \<Rightarrow> agent_candidate list" where
  "delegation_candidates ax =
     (case ax_delegation ax of
        None \<Rightarrow> []
      | Some (i, profile) \<Rightarrow>
          if ax_purpose ax = For_specialist Spec_conflict
          then [profile_candidate profile
                 (case i of
                    None \<Rightarrow> from_layer L_roadmap_automation
                  | Some d \<Rightarrow> (from_layer L_roadmap_delegation)\<lparr>src_delegationId := Some d\<rparr>)]
          else [])"

definition workspace_candidates :: "agent_context \<Rightarrow> agent_candidate list" where
  "workspace_candidates ax =
     (case ax_workspace ax of
        None \<Rightarrow> []
      | Some (saved, fallback) \<Rightarrow>
          concat (map (\<lambda>slot. case find (\<lambda>(role, p). role = slot) saved of
            None \<Rightarrow> []
          | Some (role, p) \<Rightarrow> [profile_candidate p
                                ((from_layer L_workspace_default)\<lparr>src_slot := Some slot\<rparr>)])
            (inheritanceChain (ax_purpose ax))))"

definition resolverFirst :: "agent_context \<Rightarrow> bool" where
  "resolverFirst ax =
     (ax_purpose ax = For_specialist Spec_conflict \<and> ax_delegation ax \<noteq> None)"

definition candidates :: "agent_context \<Rightarrow> agent_candidate list" where
  "candidates ax =
     (let chain = inheritanceChain (ax_purpose ax) in
      (case ax_resumed ax of
         None \<Rightarrow> [] | Some p \<Rightarrow> [profile_candidate p (from_layer L_resumed_session)])
      @ action_candidates ax
      @ (case ax_finalization ax of None \<Rightarrow> [] | Some fl \<Rightarrow> finalization_candidates fl)
      @ (case ax_integrationResolution ax of
           None \<Rightarrow> [] | Some p \<Rightarrow> [profile_candidate p (from_layer L_integration_resolution)])
      @ assignment_candidates ax (if resolverFirst ax then take 1 chain else chain)
      @ (case ax_serviceRetry ax of
           None \<Rightarrow> [] | Some p \<Rightarrow> [profile_candidate p (from_layer L_service_retry)])
      @ profiles_candidates ax [ax_purpose ax]
      @ delegation_candidates ax
      @ (if resolverFirst ax then assignment_candidates ax (drop 1 chain) else [])
      @ profiles_candidates ax (drop 1 chain)
      @ workspace_candidates ax
      @ (case ax_continued ax of
           None \<Rightarrow> []
         | Some (r, p) \<Rightarrow> [profile_candidate p ((from_layer L_continued_run)\<lparr>src_runId := Some r\<rparr>)])
      @ (case ax_workspace ax of
           None \<Rightarrow> []
         | Some (saved, fallback) \<Rightarrow> [profile_candidate fallback (from_layer L_daemon_default)]))"

section \<open>The resolution\<close>

definition as_resolution :: "'a agent_resolution_scheme \<Rightarrow> agent_resolution" where
  "as_resolution r = \<lparr>res_selection = res_selection r, res_source = res_source r\<rparr>"

text \<open>\<open>None\<close> is the thrown error of a context without a layer for the purpose.\<close>

definition resolveAgent :: "agent_context \<Rightarrow> effective_agent option" where
  "resolveAgent ax =
     (case candidates ax of
        [] \<Rightarrow> None
      | first # rest \<Rightarrow>
          Some \<lparr>res_selection = res_selection first, res_source = res_source first,
                res_permissionMode = res_permissionMode first,
                res_inherited = (case rest of [] \<Rightarrow> None | next # _ \<Rightarrow> Some (as_resolution next))\<rparr>)"

definition resolveAgents ::
    "agent_context \<Rightarrow> cycle_profiles option \<Rightarrow> profile_purpose \<Rightarrow> effective_agent option" where
  "resolveAgents ax steps purpose =
     resolveAgent (ax\<lparr>ax_purpose := purpose,
       ax_permissionMode := (case steps of
          Some p \<Rightarrow> Some (ap_permissionMode (step_profile p (baseStep purpose)))
        | None \<Rightarrow> ax_permissionMode ax)\<rparr>)"

fun step_purpose :: "profile_purpose \<Rightarrow> bool" where
  "step_purpose (For_step s) = True"
| "step_purpose (For_specialist x) = False"

definition selectionSet :: "(profile_purpose \<Rightarrow> effective_agent option) \<Rightarrow> agent_selections" where
  "selectionSet resolved purpose =
     (case resolved purpose of
        None \<Rightarrow> None
      | Some e \<Rightarrow> if step_purpose purpose \<or> src_slot (res_source e) = Some purpose
                  then Some (res_selection e) else None)"

text \<open>\<open>None\<close> is the thrown error of a resolution without step permissions.\<close>

definition launchProfile :: "effective_agent \<Rightarrow> agent_profile option" where
  "launchProfile e =
     (case res_permissionMode e of
        None \<Rightarrow> None
      | Some m \<Rightarrow> Some (agent_selection.extend (res_selection e) \<lparr>ap_permissionMode = m\<rparr>))"

section \<open>A cycle's purpose, and a finalization's agent\<close>

definition cycleProfilePurpose :: "work_cycle \<Rightarrow> profile_purpose" where
  "cycleProfilePurpose c =
     (if ownsIntegrationResolution c then For_specialist Spec_conflict
      else if (case cy_designRecovery c of
                 None \<Rightarrow> False
               | Some d \<Rightarrow> dr_mode d = Mode_investigate \<and> dr_runId d = cy_currentRunId c)
      then For_specialist Spec_investigation
      else case map_option ar_kind (active_review_of c) of
        Some AR_security \<Rightarrow> For_specialist Spec_security
      | Some AR_checkpoint \<Rightarrow> For_specialist Spec_checkpoint
      | Some AR_reassessment \<Rightarrow> For_specialist Spec_investigation
      | None \<Rightarrow>
          if cy_step c = Review \<and> scope_kind_of c = Some Parent_acceptance
          then For_specialist Spec_acceptance
          else For_step (cy_step c))"

definition finalizationLayer :: "finalization \<Rightarrow> work_cycle \<Rightarrow> finalization_layer" where
  "finalizationLayer v c =
     (let stageIndex = (case cy_finalizationProgress c of None \<Rightarrow> 0 | Some p \<Rightarrow> fp_stageIndex p);
          stage = nth_opt (over (fin_stages v) []) stageIndex;
          slot = (if cy_step c = Review then Review else Implement)
      in \<lparr>fz_stage = (case stage of
              None \<Rightarrow> fin_finalReview v
            | Some s \<Rightarrow> if slot = Review then fs_review s else fs_implement s),
          fz_slot = (case stage of None \<Rightarrow> Review | Some s \<Rightarrow> slot),
          fz_stageIndex = (case stage of None \<Rightarrow> None | Some s \<Rightarrow> Some stageIndex),
          fz_recovery = present (cy_finalizationAgentOverride c)\<rparr>)"

definition finalizationAgent :: "finalization \<Rightarrow> work_cycle \<Rightarrow> effective_agent option" where
  "finalizationAgent v c =
     (let fl = finalizationLayer v c in
      resolveAgent ((no_layers (For_step (fz_slot fl)))\<lparr>ax_finalization := Some fl\<rparr>))"

section \<open>Lemmas\<close>

lemma inheritanceChain_step:
  "inheritanceChain (For_step s) =
     (if s = Remediate then [For_step Remediate, For_step Implement] else [For_step s])"
  by (simp add: inheritanceChain.simps [of "For_step s"] inheritanceChain.simps [of "For_step Implement"])

lemma inheritanceChain_specialist:
  "inheritanceChain (For_specialist x) =
     For_specialist x # inheritanceChain (For_step (profile_inheritance x))"
  by (simp add: inheritanceChain.simps [of "For_specialist x"])

lemma inheritanceChain_Cons: "\<exists>rest. inheritanceChain p = p # rest"
  by (simp add: inheritanceChain.simps [of p])

lemma take_chain [simp]: "take (Suc 0) (inheritanceChain p) = [p]"
  using inheritanceChain_Cons [of p] by auto

lemma distinct_chain: "distinct (inheritanceChain p)"
  by (cases p) (auto simp: inheritanceChain_step inheritanceChain_specialist)

lemma chain_tail: "inheritanceChain p = p # drop (Suc 0) (inheritanceChain p)"
  using inheritanceChain_Cons [of p] by auto

lemma agent_candidate_of_sel [simp]:
  "res_selection (agent_candidate_of s src m) = selectAgent s"
  "res_source (agent_candidate_of s src m) = src"
  "res_permissionMode (agent_candidate_of s src m) = m"
  by (simp_all add: agent_candidate_of_def)

lemma profile_candidate_sel [simp]:
  "res_selection (profile_candidate p src) = selectAgent p"
  "res_source (profile_candidate p src) = src"
  "res_permissionMode (profile_candidate p src) = Some (ap_permissionMode p)"
  by (simp_all add: profile_candidate_def)

lemma from_layer_sel [simp]: "src_layer (from_layer l) = l" "src_slot (from_layer l) = None"
  by (simp_all add: from_layer_def)

text \<open>The first candidate wins, and the value it overrides is the next one.\<close>

lemma resolveAgent_None: "resolveAgent ax = None \<longleftrightarrow> candidates ax = []"
  by (simp add: resolveAgent_def split: list.splits)

lemma resolveAgent_Some:
  "resolveAgent ax = Some e \<Longrightarrow>
     candidates ax \<noteq> [] \<and> as_resolution e = as_resolution (hd (candidates ax))
     \<and> res_permissionMode e = res_permissionMode (hd (candidates ax))
     \<and> res_inherited e = (case tl (candidates ax) of [] \<Rightarrow> None | x # xs \<Rightarrow> Some (as_resolution x))"
  by (auto simp: resolveAgent_def as_resolution_def split: list.splits)

lemma as_resolution_resolveAgent:
  "map_option as_resolution (resolveAgent ax) =
     (case candidates ax of [] \<Rightarrow> None | x # xs \<Rightarrow> Some (as_resolution x))"
  by (auto simp: resolveAgent_def as_resolution_def split: list.splits)

text \<open>Removing the winner of a context leaves what it reports as overridden.\<close>

lemma without_first:
  assumes "resolveAgent ax = Some e" "candidates ax = x # candidates ax'"
  shows "res_inherited e = map_option as_resolution (resolveAgent ax')"
  using resolveAgent_Some [OF assms(1)] assms(2) by (simp add: as_resolution_resolveAgent)

section \<open>Properties\<close>

lemma profiles_only_candidates:
  "candidates ((no_layers p)\<lparr>ax_profiles := Some (l, v), ax_permissionMode := m\<rparr>) =
     concat (map (\<lambda>slot. case slot_selection v slot of None \<Rightarrow> []
       | Some s \<Rightarrow> [agent_candidate_of s ((from_layer l)\<lparr>src_slot := Some slot\<rparr>)
           (Some (over m (ap_permissionMode (step_profile v (baseStep p)))))]) (inheritanceChain p))"
proof -
  obtain rest where rest: "inheritanceChain p = p # rest" using inheritanceChain_Cons by blast
  show ?thesis
    by (simp add: candidates_def rest no_layers_def action_candidates_def assignment_candidates_def profiles_candidates_def
        delegation_candidates_def workspace_candidates_def resolverFirst_def profile_permission_def
        over_def split: option.splits cong del: option.case_cong_weak)
qed

text \<open>
  A cycle's own profiles resolve to themselves: with no other layer, the launch profile the
  resolver finds for any purpose is the one \<open>profileForPurpose\<close> computes, and the selection set
  read back from the resolutions of every purpose is the profiles' own.
\<close>

theorem own_profiles_resolve:
  "(\<exists>e. resolveAgent ((no_layers purpose)\<lparr>ax_profiles := Some (layer, v)\<rparr>) = Some e
      \<and> launchProfile e = Some (profileForPurpose v purpose))
   \<and> selectionSet (resolveAgents ((no_layers purpose)\<lparr>ax_profiles := Some (layer, v)\<rparr>) (Some v))
     = agentSelections v"
proof -
  have "\<exists>e. resolveAgent ((no_layers purpose)\<lparr>ax_profiles := Some (layer, v)\<rparr>) = Some e
      \<and> launchProfile e = Some (profileForPurpose v purpose)"
    using profiles_only_candidates [where p = purpose and l = layer and v = v and m = None]
    by (cases purpose)
       (auto simp: resolveAgent_def launchProfile_def no_layers_def inheritanceChain_step
         inheritanceChain_specialist Let_def split: option.splits)
  moreover have "selectionSet (resolveAgents ((no_layers purpose)\<lparr>ax_profiles := Some (layer, v)\<rparr>) (Some v)) q
      = agentSelections v q" for q
    using profiles_only_candidates [where p = q and l = layer and v = v
        and m = "Some (ap_permissionMode (step_profile v (baseStep q)))"]
    by (cases q)
       (auto simp: selectionSet_def resolveAgents_def agentSelections_def resolveAgent_def no_layers_def
         inheritanceChain_step inheritanceChain_specialist Let_def split: option.splits)
  ultimately show ?thesis by blast
qed

text \<open>The layers the type of a context's action and profiles allows.\<close>

definition well_layered :: "agent_context \<Rightarrow> bool" where
  "well_layered ax =
     ((case ax_action ax of
         None \<Rightarrow> True
       | Some a \<Rightarrow> aa_layer a \<in> {L_design_recovery, L_investigation, L_decision_preparation,
                                L_integration_resolution})
      \<and> (case ax_profiles ax of
           None \<Rightarrow> True | Some (l, v) \<Rightarrow> l \<in> {L_saved_definition, L_cycle_start}))"

text \<open>What comes before the delegated resolver, and after it.\<close>

definition before_resolver :: "agent_context \<Rightarrow> agent_candidate list" where
  "before_resolver ax =
     (case ax_resumed ax of
        None \<Rightarrow> [] | Some p \<Rightarrow> [profile_candidate p (from_layer L_resumed_session)])
     @ action_candidates ax
     @ (case ax_finalization ax of None \<Rightarrow> [] | Some fl \<Rightarrow> finalization_candidates fl)
     @ (case ax_integrationResolution ax of
          None \<Rightarrow> [] | Some p \<Rightarrow> [profile_candidate p (from_layer L_integration_resolution)])
     @ assignment_candidates ax [ax_purpose ax]
     @ (case ax_serviceRetry ax of
          None \<Rightarrow> [] | Some p \<Rightarrow> [profile_candidate p (from_layer L_service_retry)])
     @ profiles_candidates ax [ax_purpose ax]"

definition after_resolver :: "agent_context \<Rightarrow> agent_candidate list" where
  "after_resolver ax =
     profiles_candidates ax (drop 1 (inheritanceChain (ax_purpose ax)))
     @ workspace_candidates ax
     @ (case ax_continued ax of
          None \<Rightarrow> []
        | Some (r, p) \<Rightarrow> [profile_candidate p ((from_layer L_continued_run)\<lparr>src_runId := Some r\<rparr>)])
     @ (case ax_workspace ax of
          None \<Rightarrow> []
        | Some (saved, fallback) \<Rightarrow> [profile_candidate fallback (from_layer L_daemon_default)])"

lemma candidates_resolver:
  "resolverFirst ax \<Longrightarrow> candidates ax = before_resolver ax @ delegation_candidates ax
     @ assignment_candidates ax (drop 1 (inheritanceChain (ax_purpose ax))) @ after_resolver ax"
  by (simp add: candidates_def Let_def before_resolver_def after_resolver_def)

lemma assignment_append:
  "assignment_candidates ax (xs @ ys) = assignment_candidates ax xs @ assignment_candidates ax ys"
  by (simp add: assignment_candidates_def split: option.splits prod.splits)

lemma assignment_layers:
  "\<forall>x\<in>set (assignment_candidates ax slots). src_layer (res_source x) = L_roadmap_assignment"
  by (auto simp: assignment_candidates_def split: option.splits)

lemma profiles_layers:
  "well_layered ax \<Longrightarrow> \<forall>x\<in>set (profiles_candidates ax slots).
     src_layer (res_source x) \<in> {L_saved_definition, L_cycle_start}"
  by (auto simp: profiles_candidates_def well_layered_def split: option.splits)

lemma after_resolver_layers:
  "well_layered ax \<Longrightarrow> x \<in> set (after_resolver ax) \<Longrightarrow>
     src_layer (res_source x) \<notin> {L_roadmap_automation, L_roadmap_delegation}"
  using profiles_layers [of ax "drop 1 (inheritanceChain (ax_purpose ax))"]
  by (fastforce simp: after_resolver_def workspace_candidates_def split: option.splits prod.splits)

lemma before_resolver_layers:
  assumes "well_layered ax" "x \<in> set (before_resolver ax)"
  shows "src_layer (res_source x) \<notin> {L_roadmap_automation, L_roadmap_delegation}"
proof -
  from profiles_layers [OF assms(1), of "[ax_purpose ax]"] assms assignment_layers [of ax "[ax_purpose ax]"]
  show ?thesis
    by (fastforce simp: before_resolver_def action_candidates_def finalization_candidates_def
        well_layered_def Let_def split: option.splits)
qed

text \<open>Without a resolver the table is one list, the assignment's slots before the rest.\<close>

lemma candidates_plain:
  assumes "\<not> resolverFirst ax" "well_layered ax" "x \<in> set (candidates ax)"
  shows "src_layer (res_source x) \<notin> {L_roadmap_automation, L_roadmap_delegation}"
proof -
  have none: "delegation_candidates ax = []"
    using assms(1) by (auto simp: delegation_candidates_def resolverFirst_def split: option.splits)
  have "x \<in> set (before_resolver ax) \<or> x \<in> set (after_resolver ax)
      \<or> x \<in> set (assignment_candidates ax (drop 1 (inheritanceChain (ax_purpose ax))))"
    using assms(1,3) none assignment_append [of ax "[ax_purpose ax]" "drop 1 (inheritanceChain (ax_purpose ax))"]
      chain_tail [of "ax_purpose ax"]
    by (auto simp: candidates_def Let_def before_resolver_def after_resolver_def)
  with before_resolver_layers [OF assms(2)] after_resolver_layers [OF assms(2)]
    assignment_layers [of ax "drop 1 (inheritanceChain (ax_purpose ax))"]
  show ?thesis by fastforce
qed

text \<open>A delegated resolver wins only when nothing before it answers.\<close>

lemma resolver_wins:
  assumes "well_layered ax" "candidates ax = x # xs"
    "src_layer (res_source x) \<in> {L_roadmap_automation, L_roadmap_delegation}"
  shows "resolverFirst ax \<and> before_resolver ax = []"
proof -
  have "resolverFirst ax" using candidates_plain [OF _ assms(1)] assms(2,3) by force
  with candidates_resolver [OF this] before_resolver_layers [OF assms(1)] assms(2,3) show ?thesis
    by (cases "before_resolver ax") auto
qed

lemma candidates_frame [simp]:
  "action_candidates (ax\<lparr>ax_resumed := r\<rparr>) = action_candidates ax"
  "action_candidates (ax\<lparr>ax_action := None\<rparr>) = []"
  "action_candidates (ax\<lparr>ax_finalization := fl\<rparr>) = action_candidates ax"
  "action_candidates (ax\<lparr>ax_delegation := d\<rparr>) = action_candidates ax"
  "assignment_candidates (ax\<lparr>ax_resumed := r\<rparr>) sl = assignment_candidates ax sl"
  "assignment_candidates (ax\<lparr>ax_action := a\<rparr>) sl = assignment_candidates ax sl"
  "assignment_candidates (ax\<lparr>ax_finalization := fl\<rparr>) sl = assignment_candidates ax sl"
  "assignment_candidates (ax\<lparr>ax_delegation := d\<rparr>) sl = assignment_candidates ax sl"
  "profiles_candidates (ax\<lparr>ax_resumed := r\<rparr>) sl = profiles_candidates ax sl"
  "profiles_candidates (ax\<lparr>ax_action := a\<rparr>) sl = profiles_candidates ax sl"
  "profiles_candidates (ax\<lparr>ax_finalization := fl\<rparr>) sl = profiles_candidates ax sl"
  "profiles_candidates (ax\<lparr>ax_delegation := d\<rparr>) sl = profiles_candidates ax sl"
  "delegation_candidates (ax\<lparr>ax_resumed := r\<rparr>) = delegation_candidates ax"
  "delegation_candidates (ax\<lparr>ax_action := a\<rparr>) = delegation_candidates ax"
  "delegation_candidates (ax\<lparr>ax_finalization := fl\<rparr>) = delegation_candidates ax"
  "delegation_candidates (ax\<lparr>ax_delegation := None\<rparr>) = []"
  "workspace_candidates (ax\<lparr>ax_resumed := r\<rparr>) = workspace_candidates ax"
  "workspace_candidates (ax\<lparr>ax_action := a\<rparr>) = workspace_candidates ax"
  "workspace_candidates (ax\<lparr>ax_finalization := fl\<rparr>) = workspace_candidates ax"
  "workspace_candidates (ax\<lparr>ax_delegation := d\<rparr>) = workspace_candidates ax"
  "resolverFirst (ax\<lparr>ax_resumed := r\<rparr>) = resolverFirst ax"
  "resolverFirst (ax\<lparr>ax_action := a\<rparr>) = resolverFirst ax"
  "resolverFirst (ax\<lparr>ax_finalization := fl\<rparr>) = resolverFirst ax"
  "\<not> resolverFirst (ax\<lparr>ax_delegation := None\<rparr>)"
  by (simp_all add: action_candidates_def assignment_candidates_def profiles_candidates_def
      profile_permission_def delegation_candidates_def workspace_candidates_def resolverFirst_def
      cong del: option.case_cong_weak)

lemma resumed_first:
  assumes "ax_resumed ax = Some p"
  shows "candidates ax = profile_candidate p (from_layer L_resumed_session) # candidates (ax\<lparr>ax_resumed := None\<rparr>)"
  by (simp add: candidates_def assms Let_def)

lemma action_first:
  assumes "ax_resumed ax = None" "ax_action ax = Some a"
  shows "\<exists>x. candidates ax = x # candidates (ax\<lparr>ax_action := None\<rparr>)"
  by (simp add: candidates_def action_candidates_def [of ax] assms Let_def)

lemma recovery_first:
  assumes "ax_resumed ax = None" "ax_action ax = None" "ax_finalization ax = Some fl" "fz_recovery fl = Some r"
  shows "\<exists>x. candidates ax = x # candidates (ax\<lparr>ax_finalization := Some (fl\<lparr>fz_recovery := None\<rparr>)\<rparr>)"
  by (simp add: candidates_def action_candidates_def [of ax] assms finalization_candidates_def Let_def)

lemma resolver_first:
  assumes "resolverFirst ax" "before_resolver ax = []"
  shows "\<exists>x. candidates ax = x # candidates (ax\<lparr>ax_delegation := None\<rparr>)"
proof -
  obtain x where x: "delegation_candidates ax = [x]"
    using assms(1) by (auto simp: delegation_candidates_def resolverFirst_def)
  have "candidates (ax\<lparr>ax_delegation := None\<rparr>)
      = assignment_candidates ax (drop 1 (inheritanceChain (ax_purpose ax))) @ after_resolver ax"
    using assms(2) assignment_append [of ax "[ax_purpose ax]" "drop 1 (inheritanceChain (ax_purpose ax))"]
      chain_tail [of "ax_purpose ax"]
    by (simp add: candidates_def Let_def before_resolver_def after_resolver_def)
  with candidates_resolver [OF assms(1)] assms(2) x show ?thesis by simp
qed

text \<open>
  What a resolution reports as overridden is what the place would resolve to without the
  winner: a resumed session, a command's own choice, a finalization recovery's agent and a
  delegated conflict resolver each name the agent found when that layer is taken away. And the
  resolver wins a conflict only when no session, command, finalization, recorded resolution or
  service retry answers and neither an assignment nor the profiles name the conflict agent.
\<close>

theorem override_is_remainder:
  assumes "resolveAgent ax = Some e" "well_layered ax"
  shows "(ax_resumed ax \<noteq> None \<longrightarrow>
      res_inherited e = map_option as_resolution (resolveAgent (ax\<lparr>ax_resumed := None\<rparr>)))
    \<and> (ax_resumed ax = None \<and> ax_action ax \<noteq> None \<longrightarrow>
      res_inherited e = map_option as_resolution (resolveAgent (ax\<lparr>ax_action := None\<rparr>)))
    \<and> (\<forall>fl. ax_resumed ax = None \<and> ax_action ax = None \<and> ax_finalization ax = Some fl
        \<and> fz_recovery fl \<noteq> None \<longrightarrow>
      res_inherited e = map_option as_resolution
        (resolveAgent (ax\<lparr>ax_finalization := Some (fl\<lparr>fz_recovery := None\<rparr>)\<rparr>)))
    \<and> (src_layer (res_source e) \<in> {L_roadmap_automation, L_roadmap_delegation} \<longrightarrow>
      ax_purpose ax = For_specialist Spec_conflict
      \<and> res_inherited e = map_option as_resolution (resolveAgent (ax\<lparr>ax_delegation := None\<rparr>))
      \<and> ax_resumed ax = None \<and> ax_action ax = None \<and> ax_finalization ax = None
      \<and> ax_integrationResolution ax = None \<and> ax_serviceRetry ax = None
      \<and> (\<forall>i sel. ax_assignment ax = Some (i, sel) \<longrightarrow> sel (For_specialist Spec_conflict) = None)
      \<and> (\<forall>l v. ax_profiles ax = Some (l, v) \<longrightarrow> pf_conflict v = None))"
proof -
  have wins: "resolverFirst ax \<and> before_resolver ax = []"
    if "src_layer (res_source e) \<in> {L_roadmap_automation, L_roadmap_delegation}"
  proof (cases "candidates ax")
    case Nil with assms(1) show ?thesis by (simp add: resolveAgent_def)
  next
    case (Cons x xs)
    from Cons assms(1) have "res_source e = res_source x" by (auto simp: resolveAgent_def)
    with resolver_wins [OF assms(2) Cons] that show ?thesis by simp
  qed
  have silent: "ax_resumed ax = None \<and> ax_action ax = None \<and> ax_finalization ax = None
      \<and> ax_integrationResolution ax = None \<and> ax_serviceRetry ax = None
      \<and> assignment_candidates ax [ax_purpose ax] = [] \<and> profiles_candidates ax [ax_purpose ax] = []"
    if "before_resolver ax = []"
    using that by (auto simp: before_resolver_def action_candidates_def finalization_candidates_def Let_def
        split: option.splits)
  have resolver: "ax_purpose ax = For_specialist Spec_conflict
      \<and> res_inherited e = map_option as_resolution (resolveAgent (ax\<lparr>ax_delegation := None\<rparr>))
      \<and> ax_resumed ax = None \<and> ax_action ax = None \<and> ax_finalization ax = None
      \<and> ax_integrationResolution ax = None \<and> ax_serviceRetry ax = None
      \<and> (\<forall>i sel. ax_assignment ax = Some (i, sel) \<longrightarrow> sel (For_specialist Spec_conflict) = None)
      \<and> (\<forall>l v. ax_profiles ax = Some (l, v) \<longrightarrow> pf_conflict v = None)"
    if "src_layer (res_source e) \<in> {L_roadmap_automation, L_roadmap_delegation}"
  proof -
    from wins [OF that] have r: "resolverFirst ax" and b: "before_resolver ax = []" by auto
    from r have p: "ax_purpose ax = For_specialist Spec_conflict" by (simp add: resolverFirst_def)
    from resolver_first [OF r b] without_first [OF assms(1)] have "res_inherited e =
        map_option as_resolution (resolveAgent (ax\<lparr>ax_delegation := None\<rparr>))" by blast
    with p silent [OF b] show ?thesis
      by (auto simp: assignment_candidates_def profiles_candidates_def split: option.splits)
  qed
  have first: "res_inherited e = map_option as_resolution (resolveAgent ax')"
    if "\<exists>x. candidates ax = x # candidates ax'" for ax'
    using that without_first [OF assms(1)] by blast
  have resumed: "res_inherited e = map_option as_resolution (resolveAgent (ax\<lparr>ax_resumed := None\<rparr>))"
    if "ax_resumed ax \<noteq> None"
    using that resumed_first [of ax] by (intro first) blast
  have action: "res_inherited e = map_option as_resolution (resolveAgent (ax\<lparr>ax_action := None\<rparr>))"
    if "ax_resumed ax = None" "ax_action ax \<noteq> None"
    using that(2) action_first [OF that(1)] by (intro first) blast
  have recovery: "res_inherited e = map_option as_resolution
        (resolveAgent (ax\<lparr>ax_finalization := Some (fl\<lparr>fz_recovery := None\<rparr>)\<rparr>))"
    if "ax_resumed ax = None" "ax_action ax = None" "ax_finalization ax = Some fl" "fz_recovery fl \<noteq> None" for fl
    using that(4) recovery_first [OF that(1,2,3)] by (intro first) blast
  show ?thesis by (intro conjI impI allI; (elim conjE)?) (simp_all add: resumed action recovery resolver)
qed

text \<open>A conflict with a delegated resolver, under an assignment that names only the remediation step.\<close>

definition sample_conflict :: agent_context where
  "sample_conflict = (no_layers (For_specialist Spec_conflict))
     \<lparr>ax_delegation := Some (Some ''grant'', sample_profile),
      ax_assignment := Some (''assignment'',
        \<lambda>p. if p = For_step Remediate then Some (selectAgent sample_profile) else None)\<rparr>"

lemma sample_conflict_candidates:
  "map (src_layer \<circ> res_source) (candidates sample_conflict) = [L_roadmap_delegation, L_roadmap_assignment]"
  "map (src_layer \<circ> res_source) (candidates (sample_conflict\<lparr>ax_delegation := None\<rparr>)) = [L_roadmap_assignment]"
  by (simp_all add: sample_conflict_def no_layers_def candidates_def action_candidates_def
      assignment_candidates_def profiles_candidates_def delegation_candidates_def
      workspace_candidates_def resolverFirst_def inheritanceChain_specialist inheritanceChain_step)

theorem override_is_remainder_witness:
  "\<exists>e. resolveAgent sample_conflict = Some e \<and> src_layer (res_source e) = L_roadmap_delegation
     \<and> map_option (src_layer \<circ> res_source) (res_inherited e) = Some L_roadmap_assignment"
proof -
  obtain x y where xs: "candidates sample_conflict = [x, y]" "src_layer (res_source x) = L_roadmap_delegation"
    using sample_conflict_candidates(1) by (auto simp: map_eq_Cons_conv)
  obtain z where z: "candidates (sample_conflict\<lparr>ax_delegation := None\<rparr>) = [z]"
      "src_layer (res_source z) = L_roadmap_assignment"
    using sample_conflict_candidates(2) by (auto simp: map_eq_Cons_conv)
  obtain e where e: "resolveAgent sample_conflict = Some e"
    using xs(1) by (auto simp: resolveAgent_def)
  have layer: "src_layer (res_source e) = L_roadmap_delegation"
    using e xs by (auto simp: resolveAgent_def)
  have wl: "well_layered sample_conflict"
    by (simp add: well_layered_def sample_conflict_def no_layers_def)
  have "res_inherited e = map_option as_resolution (resolveAgent (sample_conflict\<lparr>ax_delegation := None\<rparr>))"
    using override_is_remainder [OF e wl] layer by blast
  then have "map_option (src_layer \<circ> res_source) (res_inherited e) = Some L_roadmap_assignment"
    using z by (simp add: as_resolution_resolveAgent as_resolution_def)
  with e layer show ?thesis by blast
qed

end
