(* ===== verification/Launch.thy ===== *)
theory Launch
  imports Machine Accepted_Writes Agents
begin

text \<open>
  The reservation of a step's next run (\<open>CycleWriter.next\<close> and \<open>cleanHead\<close> of
  \<open>cycle/writer.ts\<close>), with what it asks of a review's continuation
  (\<open>review-capture.ts\<close>, \<open>drainInterrupted\<close> of \<open>restart-resume.ts\<close>) and of the
  finalization (\<open>finalization-policy.ts\<close>). The reads a launch makes of storage, Git and
  this process are the record \<open>launch_reads\<close>; the write itself is \<open>change\<close>.
\<close>

section \<open>What a launch reads\<close>

record repository_state =
  rs_clean :: bool
  rs_branch :: string
  rs_headSha :: string

record launch_reads =
  lr_policy :: policy_reads
  lr_now :: time
  lr_ended :: "agent_run \<Rightarrow> run_finished option"
  lr_runExists :: "string \<Rightarrow> bool"
  lr_contextDigest :: "string option"
  lr_worktree :: "worktree option"
  lr_git :: bool
  lr_inspect :: "string \<Rightarrow> repository_state option"
  lr_captureContinuation :: "worktree \<Rightarrow> review_branch_context \<Rightarrow> service_error + string"
  lr_stopping :: bool
  lr_requireRole :: "command_context \<Rightarrow> service_error option"
  lr_finalization :: "string \<Rightarrow> finalization option"
  lr_assertMap :: "finalization \<Rightarrow> service_error option"
  lr_hasBackend :: "agent_backend \<Rightarrow> bool"
  lr_freshRunId :: string
  lr_others :: "string \<Rightarrow> cycle_db \<Rightarrow> cycle_db" \<comment> \<open>the other writers, while the named call is awaited\<close>

record launch_actor =
  la_check :: "service_error option" \<comment> \<open>\<open>check\<close> throws\<close>

datatype launch_error = Launch_service service_error | Launch_write write_error

section \<open>The review a launch continues\<close>

definition drainInterrupted :: "launch_reads \<Rightarrow> agent_run \<Rightarrow> bool" where
  "drainInterrupted lr r =
     (run_status r = Run_interrupted
      \<and> (case lr_ended lr r of None \<Rightarrow> False | Some e \<Rightarrow> rf_reason e = Some Daemon_drain))"

definition declared_repair :: "cycle_changes \<Rightarrow> output_repair option" where
  "declared_repair ch = (case ac_outputRepair (ch_attempt ch) of Put (Some r) \<Rightarrow> Some r | _ \<Rightarrow> None)"

definition declared_recovery :: "cycle_changes \<Rightarrow> provider_recovery option" where
  "declared_recovery ch =
     (case ac_providerRecovery (ch_attempt ch) of Put (Some r) \<Rightarrow> Some r | _ \<Rightarrow> None)"

definition declared_continuations :: "cycle_changes \<Rightarrow> nat" where
  "declared_continuations ch =
     (case ac_resultContinuations (ch_attempt ch) of Put n \<Rightarrow> n | _ \<Rightarrow> 0)"

definition resuming_review ::
    "launch_reads \<Rightarrow> work_cycle \<Rightarrow> cycle_step \<Rightarrow> agent_run option \<Rightarrow> cycle_changes \<Rightarrow> bool" where
  "resuming_review lr c step parent ch =
     (step = Review \<and> cy_step c = Review
      \<and> (case parent of
           None \<Rightarrow> False
         | Some p \<Rightarrow> run_role p = Role_review \<and> run_id p = cy_currentRunId c
             \<and> (drainInterrupted lr p
                \<or> map_option or_sourceRunId (declared_repair ch) = Some (run_id p))))"

text \<open>The reasons a failed review's result is collected by a continuation or a service retry.\<close>

definition collectable ::
    "run_finished option \<Rightarrow> agent_run \<Rightarrow> bool \<Rightarrow> cycle_changes \<Rightarrow> bool" where
  "collectable ended p commanded ch =
     (case ended of
        None \<Rightarrow> False
      | Some e \<Rightarrow>
          rf_reason e = Some Background_work_incomplete
            \<and> (commanded \<or> 0 < declared_continuations ch)
          \<or> (case declared_recovery ch of
               None \<Rightarrow> False
             | Some r \<Rightarrow> pr_sourceRunId r = run_id p \<and> fl_safeToRetry (pr_failure r) \<and> 0 < pr_attempts r))"

definition collecting_review ::
    "launch_reads \<Rightarrow> work_cycle \<Rightarrow> cycle_step \<Rightarrow> agent_run option \<Rightarrow> bool \<Rightarrow> cycle_changes \<Rightarrow> bool" where
  "collecting_review lr c step parent commanded ch =
     (resuming_review lr c step parent ch
      \<or> step = Review \<and> cy_step c = Review
        \<and> (case parent of
             None \<Rightarrow> False
           | Some p \<Rightarrow>
               (run_id p = cy_currentRunId c
                \<or> (0 < over (sa_resultContinuations (attempt_of c)) 0
                   \<and> cy_parentRunId c = Some (run_id p) \<and> \<not> lr_runExists lr (cy_currentRunId c)))
               \<and> run_role p = Role_review \<and> run_status p = Run_failed
               \<and> \<not> ownsIntegrationResolution c
               \<and> collectable (lr_ended lr p) p commanded ch))"

text \<open>A checkpoint review that runs again attests the checkpoint's current inputs.\<close>

definition attested_changes ::
    "launch_reads \<Rightarrow> work_cycle \<Rightarrow> cycle_step \<Rightarrow> bool \<Rightarrow> cycle_changes \<Rightarrow> cycle_changes" where
  "attested_changes lr c step collecting ch =
     (case (cy_workflow c, active_review_of c) of
        (Some w, Some active) \<Rightarrow>
          if step = Review \<and> \<not> collecting \<and> ar_kind active = AR_checkpoint
             \<and> edit_opt (ch_workflow ch) None = None
          then (case lr_contextDigest lr of
                  Some d \<Rightarrow>
                    if d \<noteq> [] \<and> d \<noteq> ar_contextDigest active
                    then ch\<lparr>ch_workflow := Put (w\<lparr>wf_activeReview :=
                           Some (Some (active\<lparr>ar_contextDigest := d\<rparr>))\<rparr>)\<rparr>
                    else ch
                | None \<Rightarrow> ch)
          else ch
      | _ \<Rightarrow> ch)"

definition reviewCapture :: "service_error + 'a \<Rightarrow> service_error + 'a" where
  "reviewCapture captured =
     (case captured of
        Inl e \<Rightarrow>
          (if request_error e \<and> (case e of Typed_refusal c m r \<Rightarrow> False | _ \<Rightarrow> True)
              \<and> \<not> retryableControllerError e
           then Inl (Typed_refusal Review_capture_failed (error_message e) None) else Inl e)
      | Inr x \<Rightarrow> Inr x)"

definition cleanHead :: "launch_reads \<Rightarrow> service_error + string" where
  "cleanHead lr =
     (case lr_worktree lr of
        Some w \<Rightarrow>
          if wt_status w \<noteq> Tree_active
          then Inl (Typed_refusal Worktree_inactive ''The active worktree or Git is unavailable'' None)
          else if \<not> lr_git lr
          then Inl (Typed_refusal Service_unavailable ''The active worktree or Git is unavailable'' None)
          else (case lr_inspect lr (wt_path w) of
                  Some s \<Rightarrow>
                    if rs_clean s \<and> rs_branch s = wt_branchName w then Inr (rs_headSha s)
                    else Inl (Typed_refusal Worktree_state ''Review requires a clean worktree on its managed branch. Commit or resolve the changes manually, then resume.'' None)
                | None \<Rightarrow> Inl (Typed_refusal Worktree_state ''Review requires a clean worktree on its managed branch. Commit or resolve the changes manually, then resume.'' None))
      | None \<Rightarrow> Inl (Typed_refusal Worktree_inactive ''The active worktree or Git is unavailable'' None))"

definition review_head ::
    "launch_reads \<Rightarrow> cycle_step \<Rightarrow> agent_run option \<Rightarrow> bool \<Rightarrow> service_error + string option" where
  "review_head lr step parent collecting =
     (if collecting then
        (case (lr_worktree lr, case parent of None \<Rightarrow> None | Some p \<Rightarrow> run_reviewBranchContext p) of
           (Some tree, Some ctx) \<Rightarrow>
             (case reviewCapture (lr_captureContinuation lr tree ctx) of
                Inl e \<Rightarrow> Inl e | Inr head \<Rightarrow> Inr (Some head))
         | _ \<Rightarrow> Inl (Typed_refusal Review_capture_failed
                  ''Review continuation requires its original branch checkpoint.'' None))
      else if step = Review then
        (case cleanHead lr of Inl e \<Rightarrow> Inl e | Inr head \<Rightarrow> Inr (Some head))
      else Inr None)"

section \<open>The finalization a launch belongs to\<close>

definition finalizationForCycle :: "launch_reads \<Rightarrow> work_cycle \<Rightarrow> service_error + finalization option" where
  "finalizationForCycle lr c =
     (if \<not> truthy (cy_finalizationId c) then Inr None
      else case lr_finalization lr (the (cy_finalizationId c)) of
        Some v \<Rightarrow>
          if fin_status v \<noteq> Fin_active \<or> fin_cycleId v \<noteq> cy_id c \<or> fin_worktreeId v \<noteq> cy_worktreeId c
          then Inl (Typed_refusal Finalization_inactive ''Finalization delegation is no longer active'' None)
          else (case lr_assertMap lr v of Some e \<Rightarrow> Inl e | None \<Rightarrow> Inr (Some v))
      | None \<Rightarrow> Inl (Typed_refusal Finalization_inactive ''Finalization delegation is no longer active'' None))"

definition overridden_agent_check ::
    "launch_reads \<Rightarrow> work_cycle \<Rightarrow> cycle_step \<Rightarrow> bool \<Rightarrow> cycle_changes \<Rightarrow> service_error option" where
  "overridden_agent_check lr c step commanded ch =
     (case ch_finalizationAgentOverride ch of
        Put x \<Rightarrow>
          if \<not> commanded \<or> \<not> truthy (cy_finalizationId c)
          then Some (Request_error ''Agent changes require an operator finalization recovery command.'')
          else (case finalizationForCycle lr c of
                  Inl e \<Rightarrow> Some e
                | Inr v \<Rightarrow>
                    (case (case v of None \<Rightarrow> None
                           | Some x \<Rightarrow> finalizationAgent x ((apply_fields ch c)\<lparr>cy_step := step\<rparr>)) of
                       Some e \<Rightarrow> if lr_hasBackend lr (as_backend (res_selection e)) then None
                                 else Some (Request_error ''The selected finalization backend is unavailable.'')
                     | None \<Rightarrow> Some (Request_error ''The selected finalization backend is unavailable.'')))
      | _ \<Rightarrow> None)"

text \<open>The refusals between the capture and the reservation, in the code's order.\<close>

definition launch_refusal ::
    "launch_reads \<Rightarrow> work_cycle \<Rightarrow> cycle_step \<Rightarrow> command_context option \<Rightarrow> cycle_changes
     \<Rightarrow> launch_actor option \<Rightarrow> service_error option" where
  "launch_refusal lr c step ctx ch actor =
     (case (case ctx of None \<Rightarrow> None | Some x \<Rightarrow> lr_requireRole lr x) of
        Some e \<Rightarrow> Some e
      | None \<Rightarrow>
          (case finalizationForCycle lr c of
             Inl e \<Rightarrow> Some e
           | Inr v \<Rightarrow>
               (case overridden_agent_check lr c step (ctx \<noteq> None) ch of
                  Some e \<Rightarrow> Some e
                | None \<Rightarrow> (case actor of None \<Rightarrow> None | Some a \<Rightarrow> la_check a))))"

section \<open>The reservation\<close>

text \<open>\<open>{ ...base, ...declared }\<close> of a field: a key the declaration has wins.\<close>

definition spread :: "'a edit \<Rightarrow> 'a edit \<Rightarrow> 'a edit" where
  "spread base declared = (case declared of Keep \<Rightarrow> base | _ \<Rightarrow> declared)"

definition same_step_attempt ::
    "launch_reads \<Rightarrow> work_cycle \<Rightarrow> cycle_step \<Rightarrow> cycle_changes \<Rightarrow> bool" where
  "same_step_attempt lr c step ch =
     (step = cy_step c
      \<and> (\<not> lr_runExists lr (cy_currentRunId c)
         \<or> (case declared_recovery ch of None \<Rightarrow> False | Some r \<Rightarrow> 0 < pr_attempts r)
         \<or> 0 < declared_continuations ch
         \<or> declared_repair ch \<noteq> None))"

definition reserved_attempt ::
    "launch_reads \<Rightarrow> work_cycle \<Rightarrow> cycle_step \<Rightarrow> bool \<Rightarrow> bool \<Rightarrow> cycle_changes \<Rightarrow> attempt_changes" where
  "reserved_attempt lr c step collecting commanded ch =
     (let d = ch_attempt ch in
      \<lparr>ac_stepGuidance = spread
         (case sa_stepGuidance (attempt_of c) of
            Some g \<Rightarrow> if same_step_attempt lr c step ch then Put g else Keep
          | None \<Rightarrow> Keep) (ac_stepGuidance d),
       ac_housekeepingInstructions = spread (Put []) (ac_housekeepingInstructions d),
       ac_resultContinuations =
         spread (Put (if collecting \<and> commanded then 1 else 0)) (ac_resultContinuations d),
       ac_outputRepair = spread (Put None) (ac_outputRepair d),
       ac_providerRecovery = spread (Put None) (ac_providerRecovery d)\<rparr>)"

definition reservation ::
    "launch_reads \<Rightarrow> work_cycle \<Rightarrow> cycle_step \<Rightarrow> agent_run option \<Rightarrow> bool \<Rightarrow> bool \<Rightarrow> string option
     \<Rightarrow> cycle_changes \<Rightarrow> cycle_changes" where
  "reservation lr c step parent collecting commanded head ch =
     ch\<lparr>ch_designDependencyContinuations :=
          spread (if commanded then Put 0 else Keep) (ch_designDependencyContinuations ch),
        ch_designRecovery := spread
          (case cy_designRecovery c of
             Some d \<Rightarrow> if step = Design \<and> dr_runId d = cy_currentRunId c
                        then Put (d\<lparr>dr_runId := lr_freshRunId lr\<rparr>) else Keep
           | None \<Rightarrow> Keep) (ch_designRecovery ch),
        ch_instructions := (case ch_instructions ch of
            Some t \<Rightarrow> Some t
          | None \<Rightarrow> if truthy (cy_finalizationId c)
                       \<and> map_option run_id parent = Some (cy_currentRunId c)
                    then Some [] else None),
        ch_attempt := reserved_attempt lr c step collecting commanded ch,
        ch_waits := (ch_waits ch)\<lparr>wc_design := spread Drop (wc_design (ch_waits ch))\<rparr>,
        ch_status := Some Running,
        ch_step := Some step,
        ch_currentRunId := Some (lr_freshRunId lr),
        ch_parentRunId := (case parent of None \<Rightarrow> ch_parentRunId ch | Some p \<Rightarrow> Put (run_id p)),
        ch_reviewHeadSha := (case head of None \<Rightarrow> ch_reviewHeadSha ch | Some h \<Rightarrow> Put h),
        ch_runDeadlineAt := Some (case ch_runDeadlineAt ch of
            Some t \<Rightarrow> t
          | None \<Rightarrow> deadline (lr_now lr) (maxRunMinutes (over (ch_policy ch) (cy_policy c)))),
        ch_reason := Some (case ch_reason ch of
            Some t \<Rightarrow> t | None \<Rightarrow> ''Starting '' @ step_text step @ ''.'')\<rparr>"

text \<open>
  \<open>next\<close>. The cycle is returned unchanged (\<open>Unchanged\<close>) while the daemon stops or when a
  newer write has replaced the version the launch read; the actor's \<open>attach\<close> is the
  roadmap's own write in the same transaction.
\<close>

definition next_run ::
    "launch_reads \<Rightarrow> decision_scope option \<Rightarrow> cycle_db \<Rightarrow> work_cycle \<Rightarrow> cycle_step
     \<Rightarrow> agent_run option \<Rightarrow> command_context option \<Rightarrow> cycle_changes \<Rightarrow> string option
     \<Rightarrow> launch_actor option \<Rightarrow> launch_error + write_result" where
  "next_run lr decision db c step parent ctx declared action actor =
     (let commanded = (ctx \<noteq> None);
          collecting = collecting_review lr c step parent commanded declared;
          ch = attested_changes lr c step collecting declared
      in case review_head lr step parent collecting of
           Inl e \<Rightarrow> Inl (Launch_service e)
         | Inr head \<Rightarrow>
             if lr_stopping lr
                \<or> map_option cy_version (cycles_find (db_rows db) (cycle_key c)) \<noteq> Some (cy_version c)
             then Inr (Unchanged c)
             else (case launch_refusal lr c step ctx ch actor of
                     Some e \<Rightarrow> Inl (Launch_service e)
                   | None \<Rightarrow>
                       (case change (lr_policy lr) (lr_now lr) decision db c
                               (reservation lr c step parent collecting commanded head ch)
                               (over action (if commanded then ''resume'' else ''advance'')) ctx [] of
                          Inl e \<Rightarrow> Inl (Launch_write e)
                        | Inr r \<Rightarrow> Inr r)))"

section \<open>Lemmas\<close>

lemma spread_simps [simp]:
  "spread b Keep = b" "spread b Drop = Drop" "spread b (Put x) = Put x" "spread b b = b"
  by (simp_all add: spread_def split: edit.splits)

lemma edit_opt_spread:
  "edit_opt (spread b d) None = (case d of Keep \<Rightarrow> edit_opt b None | _ \<Rightarrow> edit_opt d None)"
  by (simp add: spread_def split: edit.splits)

lemma attested_changes_frame [simp]:
  "ch_attempt (attested_changes lr c st k ch) = ch_attempt ch"
  "ch_waits (attested_changes lr c st k ch) = ch_waits ch"
  "ch_keepAttempt (attested_changes lr c st k ch) = ch_keepAttempt ch"
  "ch_runDeadlineAt (attested_changes lr c st k ch) = ch_runDeadlineAt ch"
  "ch_policy (attested_changes lr c st k ch) = ch_policy ch"
  "ch_instructions (attested_changes lr c st k ch) = ch_instructions ch"
  "ch_reason (attested_changes lr c st k ch) = ch_reason ch"
  "ch_parentRunId (attested_changes lr c st k ch) = ch_parentRunId ch"
  "ch_reviewHeadSha (attested_changes lr c st k ch) = ch_reviewHeadSha ch"
  "ch_remediationRounds (attested_changes lr c st k ch) = ch_remediationRounds ch"
  by (simp_all add: attested_changes_def split: option.splits)

lemma reserved_attempt_attested [simp]:
  "reserved_attempt lr c st k m (attested_changes lr c st k ch) = reserved_attempt lr c st k m ch"
  by (simp add: reserved_attempt_def same_step_attempt_def declared_recovery_def
      declared_continuations_def declared_repair_def cong del: option.case_cong_weak)

lemma reservation_sel [simp]:
  "ch_status (reservation lr c st p k m h ch) = Some Running"
  "ch_step (reservation lr c st p k m h ch) = Some st"
  "ch_currentRunId (reservation lr c st p k m h ch) = Some (lr_freshRunId lr)"
  "ch_attempt (reservation lr c st p k m h ch) = reserved_attempt lr c st k m ch"
  "ch_keepAttempt (reservation lr c st p k m h ch) = ch_keepAttempt ch"
  "ch_policy (reservation lr c st p k m h ch) = ch_policy ch"
  "ch_remediationRounds (reservation lr c st p k m h ch) = ch_remediationRounds ch"
  "ch_waits (reservation lr c st p k m h ch) =
     (ch_waits ch)\<lparr>wc_design := spread Drop (wc_design (ch_waits ch))\<rparr>"
  "ch_parentRunId (reservation lr c st p k m h ch) =
     (case p of None \<Rightarrow> ch_parentRunId ch | Some x \<Rightarrow> Put (run_id x))"
  "ch_reviewHeadSha (reservation lr c st p k m h ch) =
     (case h of None \<Rightarrow> ch_reviewHeadSha ch | Some x \<Rightarrow> Put x)"
  "ch_runDeadlineAt (reservation lr c st p k m h ch) = Some (case ch_runDeadlineAt ch of Some t \<Rightarrow> t
     | None \<Rightarrow> deadline (lr_now lr) (maxRunMinutes (over (ch_policy ch) (cy_policy c))))"
  by (simp_all add: reservation_def)

text \<open>A launch that wrote anything passed every check between its reads and its write.\<close>

lemma next_run_Wrote:
  assumes "next_run lr dec db c st parent ctx declared action actor = Inr (Wrote db' c')"
  defines "k \<equiv> collecting_review lr c st parent (ctx \<noteq> None) declared"
  obtains head where "review_head lr st parent k = Inr head"
    and "\<not> lr_stopping lr"
    and "map_option cy_version (cycles_find (db_rows db) (cycle_key c)) = Some (cy_version c)"
    and "launch_refusal lr c st ctx (attested_changes lr c st k declared) actor = None"
    and "change (lr_policy lr) (lr_now lr) dec db c
           (reservation lr c st parent k (ctx \<noteq> None) head (attested_changes lr c st k declared))
           (over action (if ctx \<noteq> None then ''resume'' else ''advance'')) ctx [] = Inr (Wrote db' c')"
  using assms
  by (auto simp: next_run_def Let_def split: sum.splits option.splits if_splits)

lemma next_run_Unchanged:
  "next_run lr dec db c st p ctx declared action actor = Inr (Unchanged x) \<Longrightarrow> x = c"
  by (auto simp: next_run_def Let_def dest: change_Unchanged split: sum.splits option.splits if_splits)

lemma updated_cycle_fields [simp]:
  "cy_step (updated_cycle rd at k c ch) = over (ch_step ch) (cy_step c)"
  "cy_policy (updated_cycle rd at k c ch) = over (ch_policy ch) (cy_policy c)"
  "cy_parentRunId (updated_cycle rd at k c ch) = edit_opt (ch_parentRunId ch) (cy_parentRunId c)"
  "cy_reviewHeadSha (updated_cycle rd at k c ch) = edit_opt (ch_reviewHeadSha ch) (cy_reviewHeadSha c)"
  "cy_runDeadlineAt (updated_cycle rd at k c ch) = over (ch_runDeadlineAt ch) (cy_runDeadlineAt c)"
  by (simp_all add: updated_cycle_def Let_def apply_fields_def)

lemma carries_running: "carries Running s \<Longrightarrow> s = None"
  by (simp add: carries_def)

lemma attempt_of_fresh:
  assumes "reserves_other c ch" "\<not> ch_keepAttempt ch"
  shows "attempt_of (updated_cycle rd at k c ch) = edit_attempt (ch_attempt ch) empty_attempt"
  using fresh_attempt [OF assms] by (simp add: attempt_of_def Let_def over_def)

text \<open>The changes a caller of \<open>next\<close> names: record fields, never a status or a stop.\<close>

definition field_changes :: "cycle_changes \<Rightarrow> bool" where
  "field_changes ch =
     (ch_status ch = None \<and> ch_attention ch = None \<and> ch_end ch = None \<and> ch_restore ch = None)"

lemma attested_field_changes [simp]:
  "field_changes (attested_changes lr c st k ch) = field_changes ch"
  by (simp add: attested_changes_def field_changes_def split: option.splits)

lemma field_changes_none [simp]: "field_changes no_changes"
  by (simp add: field_changes_def)

lemma reservation_acceptable:
  assumes "field_changes ch" "cy_status c \<notin> {Stopped, Completed}"
  shows "acceptable c (reservation lr c st p k m h ch) action"
  using assms by (simp add: acceptable_simps field_changes_def reservation_def)

text \<open>A paused review of the sample cycle, and the reads of its launch on a clean worktree.\<close>

definition held_review :: work_cycle where
  "held_review = sample_cycle\<lparr>cy_status := Paused, cy_step := Review\<rparr>"

definition quiet_launch :: launch_reads where
  "quiet_launch = \<lparr>lr_policy = quiet_reads, lr_now = 5000, lr_ended = (\<lambda>_. None),
     lr_runExists = (\<lambda>_. True), lr_contextDigest = None, lr_worktree = Some sample_worktree,
     lr_git = True, lr_inspect = (\<lambda>_. Some \<lparr>rs_clean = True, rs_branch = ''b'', rs_headSha = ''abc''\<rparr>),
     lr_captureContinuation = (\<lambda>_ _. Inr ''abc''), lr_stopping = False,
     lr_requireRole = (\<lambda>_. None), lr_finalization = (\<lambda>_. None), lr_assertMap = (\<lambda>_. None),
     lr_hasBackend = (\<lambda>_. True), lr_freshRunId = ''r2'',
     lr_others = (\<lambda>_ db. db)\<rparr>"

lemma launched_review:
  "\<exists>db' c'. next_run quiet_launch None (lone held_review) held_review Review None None no_changes None None
     = Inr (Wrote db' c')"
proof -
  let ?c = held_review
  have k: "\<not> collecting_review quiet_launch ?c Review None False no_changes"
    by (simp add: collecting_review_def resuming_review_def)
  have head: "review_head quiet_launch Review None False = Inr (Some ''abc'')"
    by (simp add: review_head_def cleanHead_def quiet_launch_def sample_worktree_def)
  have ref: "launch_refusal quiet_launch ?c Review None ch None = None"
    if "ch_finalizationAgentOverride ch = Keep" for ch
    using that by (simp add: launch_refusal_def finalizationForCycle_def overridden_agent_check_def held_review_def)
  have att: "attested_changes quiet_launch ?c Review False no_changes = no_changes"
    by (simp add: attested_changes_def held_review_def)
  have wf: "stop_wf ?c" by (simp add: stop_wf_def carries_iff held_review_def)
  let ?ch = "reservation quiet_launch ?c Review None False False (Some ''abc'') no_changes"
  obtain db' where "change quiet_reads 5000 None (lone ?c) ?c ?ch ''advance'' None []
      = Inr (Wrote db' (updated_cycle quiet_reads 5000 False ?c ?ch))"
    using lone_write [OF wf reservation_acceptable, where action = "''advance''" and ctx = None and rd = quiet_reads
        and at = 5000 and dec = None and extra = "[]"]
    by (fastforce simp: held_review_def next_status_def)
  moreover have "lr_policy quiet_launch = quiet_reads" "lr_now quiet_launch = 5000" "\<not> lr_stopping quiet_launch"
    by (simp_all add: quiet_launch_def)
  moreover have "map_option cy_version (cycles_find (db_rows (lone ?c)) (cycle_key ?c)) = Some (cy_version ?c)"
    by (simp add: lone_def cycles_find_def)
  moreover have "ch_finalizationAgentOverride no_changes = Keep" by (simp add: no_changes_def)
  ultimately show ?thesis
    by (simp add: next_run_def k head ref att)
qed

section \<open>Properties\<close>

text \<open>
  C31. A launch reserves exactly one new attempt at its step: the cycle it writes is running at
  that step with the new run and no stop, one version on, from the version the launch read. The
  deadline is the one declared, else a full window of the policy. Nothing of the last attempt
  reaches the new one: guidance stays only while the same step goes on, and a service retry or an
  output repair only when the launch declares it.
\<close>

theorem launch_reserves:
  assumes "next_run lr dec db c st parent ctx declared action actor = Inr (Wrote db' c')"
    "lr_freshRunId lr \<noteq> cy_currentRunId c" "\<not> ch_keepAttempt declared"
  shows "cy_status c' = Running \<and> cy_step c' = st \<and> cy_currentRunId c' = lr_freshRunId lr
    \<and> cy_stop c' = None \<and> cy_version c' = Suc (cy_version c)
    \<and> map_option cy_version (cycles_find (db_rows db) (cycle_key c)) = Some (cy_version c)
    \<and> cy_runDeadlineAt c' = over (ch_runDeadlineAt declared)
        (deadline (lr_now lr) (maxRunMinutes (cy_policy c')))
    \<and> cy_remediationRounds c' = over (ch_remediationRounds declared) (cy_remediationRounds c)
    \<and> (parent \<noteq> None \<longrightarrow> cy_parentRunId c' = map_option run_id parent)
    \<and> (ac_stepGuidance (ch_attempt declared) = Keep \<longrightarrow> sa_stepGuidance (attempt_of c') =
        (if same_step_attempt lr c st declared then sa_stepGuidance (attempt_of c) else None))
    \<and> (ac_providerRecovery (ch_attempt declared) = Keep \<longrightarrow> provider_recovery_of c' = None)
    \<and> (ac_outputRepair (ch_attempt declared) = Keep \<longrightarrow> output_repair_of c' = None)"
proof -
  from next_run_Wrote [OF assms(1)] obtain head k where
      v: "map_option cy_version (cycles_find (db_rows db) (cycle_key c)) = Some (cy_version c)"
    and w: "change (lr_policy lr) (lr_now lr) dec db c
           (reservation lr c st parent k (ctx \<noteq> None) head (attested_changes lr c st k declared))
           (over action (if ctx \<noteq> None then ''resume'' else ''advance'')) ctx [] = Inr (Wrote db' c')"
    by metis
  define ch where "ch = reservation lr c st parent k (ctx \<noteq> None) head (attested_changes lr c st k declared)"
  have c': "c' = updated_cycle (lr_policy lr) (lr_now lr) (ctx \<noteq> None) c ch"
    using change_Wrote(1) [OF w] by (simp add: ch_def)
  have run: "cy_status c' = Running" by (simp add: c' ch_def next_status_def)
  have "cy_stop c' = None" using carries_running change_Wrote(4) [OF w] run by simp
  moreover have "attempt_of c' = edit_attempt (ch_attempt ch) empty_attempt"
    unfolding c' by (rule attempt_of_fresh) (use assms(2,3) in \<open>simp_all add: ch_def reserves_other_def\<close>)
  moreover have "ch_attempt ch = reserved_attempt lr c st k (ctx \<noteq> None) declared" by (simp add: ch_def)
  ultimately show ?thesis
    using run v
    by (auto simp: c' ch_def next_status_def reserved_attempt_def Let_def edit_attempt_def
        empty_attempt_def provider_recovery_of_def output_repair_of_def edit_opt_spread
        split: option.splits)
qed

theorem launch_reserves_witness:
  "\<exists>db' c'. next_run quiet_launch None (lone held_review) held_review Review None None no_changes None None
     = Inr (Wrote db' c') \<and> cy_status c' = Running \<and> cy_currentRunId c' = ''r2'' \<and> cy_runDeadlineAt c' = 7205000"
proof -
  obtain db' c' where n: "next_run quiet_launch None (lone held_review) held_review Review None None
      no_changes None None = Inr (Wrote db' c')" using launched_review by blast
  have "lr_freshRunId quiet_launch \<noteq> cy_currentRunId held_review" "\<not> ch_keepAttempt no_changes"
    by (simp_all add: quiet_launch_def held_review_def no_changes_def)
  from launch_reserves [OF n this] have "cy_status c' = Running" "cy_currentRunId c' = ''r2''"
      "cy_runDeadlineAt c' = deadline 5000 (maxRunMinutes (cy_policy c'))"
    by (simp_all add: quiet_launch_def no_changes_def)
  moreover have "cy_policy c' = default_completion_policy"
  proof (rule next_run_Wrote [OF n])
    fix head
    assume "change (lr_policy quiet_launch) (lr_now quiet_launch) None (lone held_review) held_review
        (reservation quiet_launch held_review Review None
           (collecting_review quiet_launch held_review Review None (None \<noteq> (None::command_context option)) no_changes)
           (None \<noteq> (None::command_context option)) head
           (attested_changes quiet_launch held_review Review
             (collecting_review quiet_launch held_review Review None (None \<noteq> (None::command_context option)) no_changes)
             no_changes))
        (over None (if None \<noteq> (None::command_context option) then ''resume'' else ''advance'')) None [] = Inr (Wrote db' c')"
    from change_Wrote(1) [OF this] show ?thesis by (simp add: held_review_def no_changes_def)
  qed
  ultimately show ?thesis using n by (auto simp: deadline_def default_completion_policy_def)
qed

text \<open>
  C32. A review is reserved on a known commit: the head a launched review records is the head of the
  active worktree, clean on its managed branch, or, for a continued review, the head its original
  branch checkpoint captured. Otherwise nothing is written.
\<close>

theorem review_reserved_on_known_head:
  assumes "next_run lr dec db c Review parent ctx declared action actor = Inr (Wrote db' c')"
  shows "\<exists>w head. lr_worktree lr = Some w \<and> cy_reviewHeadSha c' = Some head
    \<and> (if collecting_review lr c Review parent (ctx \<noteq> None) declared
       then \<exists>p x. parent = Some p \<and> run_reviewBranchContext p = Some x
              \<and> lr_captureContinuation lr w x = Inr head
       else \<exists>s. wt_status w = Tree_active \<and> lr_inspect lr (wt_path w) = Some s \<and> rs_clean s
              \<and> rs_branch s = wt_branchName w \<and> head = rs_headSha s)"
proof -
  let ?k = "collecting_review lr c Review parent (ctx \<noteq> None) declared"
  from next_run_Wrote [OF assms] obtain head where
      h: "review_head lr Review parent ?k = Inr head"
    and w: "change (lr_policy lr) (lr_now lr) dec db c
           (reservation lr c Review parent ?k (ctx \<noteq> None) head (attested_changes lr c Review ?k declared))
           (over action (if ctx \<noteq> None then ''resume'' else ''advance'')) ctx [] = Inr (Wrote db' c')"
    by metis
  have c': "c' = updated_cycle (lr_policy lr) (lr_now lr) (ctx \<noteq> None) c
      (reservation lr c Review parent ?k (ctx \<noteq> None) head (attested_changes lr c Review ?k declared))"
    by (rule change_Wrote(1) [OF w])
  show ?thesis
  proof (cases ?k)
    case True
    with h obtain tree p x sha where "lr_worktree lr = Some tree" "parent = Some p"
        "run_reviewBranchContext p = Some x" "lr_captureContinuation lr tree x = Inr sha" "head = Some sha"
      by (auto simp: review_head_def reviewCapture_def split: option.splits sum.splits if_splits)
    with True show ?thesis by (simp add: c')
  next
    case False
    with h obtain tree s where "lr_worktree lr = Some tree" "wt_status tree = Tree_active"
        "lr_inspect lr (wt_path tree) = Some s" "rs_clean s" "rs_branch s = wt_branchName tree"
        "head = Some (rs_headSha s)"
      by (auto simp: review_head_def cleanHead_def split: option.splits sum.splits if_splits)
    with False show ?thesis by (simp add: c')
  qed
qed

theorem review_reserved_on_known_head_witness:
  "\<exists>db' c'. next_run quiet_launch None (lone held_review) held_review Review None None no_changes None None
     = Inr (Wrote db' c') \<and> cy_reviewHeadSha c' = Some ''abc''"
proof -
  obtain db' c' where n: "next_run quiet_launch None (lone held_review) held_review Review None None
      no_changes None None = Inr (Wrote db' c')" using launched_review by blast
  from review_reserved_on_known_head [OF n] have "cy_reviewHeadSha c' = Some ''abc''"
    by (auto simp: collecting_review_def resuming_review_def quiet_launch_def)
  with n show ?thesis by blast
qed

end
