(* ===== verification/Jobs.thy ===== *)
theory Jobs
  imports Launch
begin

text \<open>
  The shape of an effect (\<open>apps/server/src/services/cycle/effects\<close>): an asynchronous
  function that reads, writes through the cycle writer and may throw. A job takes the database
  and gives a result or the error thrown, with the database as the writes before it left it.
  The calculus shows that a job is a path of the reader and writer system of
  \<open>Write_Safety\<close>: each write it makes is one step from a snapshot it holds. One effect reads
  the clock once and reserves at most one run.
\<close>

section \<open>Jobs\<close>

type_synonym ('d, 'a) job = "'d \<Rightarrow> (service_error + 'a) \<times> 'd"

definition give :: "'a \<Rightarrow> ('d, 'a) job" where
  "give x db = (Inr x, db)"

definition throw :: "service_error \<Rightarrow> ('d, 'a) job" where
  "throw e db = (Inl e, db)"

definition and_then :: "('d, 'a) job \<Rightarrow> ('a \<Rightarrow> ('d, 'b) job) \<Rightarrow> ('d, 'b) job" where
  "and_then m f db =
     (case m db of (Inl e, db') \<Rightarrow> (Inl e, db') | (Inr x, db') \<Rightarrow> f x db')"

definition catch_with :: "('d, 'a) job \<Rightarrow> (service_error \<Rightarrow> ('d, 'a) job) \<Rightarrow> ('d, 'a) job" where
  "catch_with m h db =
     (case m db of (Inl e, db') \<Rightarrow> h e db' | (Inr x, db') \<Rightarrow> (Inr x, db'))"

definition looking :: "('d \<Rightarrow> 'a) \<Rightarrow> ('d, 'a) job" where
  "looking f db = (Inr (f db), db)"

definition requiring :: "service_error + 'a \<Rightarrow> ('d, 'a) job" where
  "requiring r db = (r, db)"

definition unless_error :: "service_error option \<Rightarrow> ('d, unit) job" where
  "unless_error e = (case e of None \<Rightarrow> give () | Some x \<Rightarrow> throw x)"

text \<open>
  A body that keeps the record it last wrote for its handler: a step's error is a result beside
  the record at hand.
\<close>

definition captured :: "('d, 'a) job \<Rightarrow> ('d, service_error + 'a) job" where
  "captured m = catch_with (and_then m (\<lambda>x. give (Inr x))) (\<lambda>e. give (Inl e))"

definition holding ::
    "'c \<Rightarrow> ('d, 'a) job \<Rightarrow> ('a \<Rightarrow> ('d, (service_error \<times> 'c) + 'b) job)
     \<Rightarrow> ('d, (service_error \<times> 'c) + 'b) job" where
  "holding cur m k =
     and_then (captured m) (\<lambda>r. case r of Inl e \<Rightarrow> give (Inl (e, cur)) | Inr x \<Rightarrow> k x)"

section \<open>The writer's operations as jobs\<close>

fun status_text :: "cycle_status \<Rightarrow> string" where
  "status_text Running = ''running''"
| "status_text Paused = ''paused''"
| "status_text Needs_attention = ''needs-attention''"
| "status_text Awaiting_merge = ''awaiting-merge''"
| "status_text Stopped = ''stopped''"
| "status_text Completed = ''completed''"

fun carried_text :: "cycle_stop option \<Rightarrow> string" where
  "carried_text None = ''no stop''"
| "carried_text (Some (Held_at k a t)) =
     ''the '' @ (case k of Attention_stop \<Rightarrow> ''attention'' | Gate_stop \<Rightarrow> ''gate'') @ '' '' @ code_text (at_code a)"
| "carried_text (Some (Ended_by e t)) = ''the ended '' @ end_text e"

fun transition_message :: "transition_error \<Rightarrow> string" where
  "transition_message (Cannot_go s t action) =
     ''A cycle cannot go from '' @ status_text s @ '' to '' @ status_text t @ '' by '' @ action @ ''.''"
| "transition_message (Cannot_carry t stop action) =
     ''A '' @ status_text t @ '' cycle cannot carry '' @ carried_text stop @ '' ('' @ action @ '').''"

text \<open>What a failed write throws; the database's own message stands for a constraint.\<close>

fun write_failure :: "write_error \<Rightarrow> service_error" where
  "write_failure (Transition e) = Other_error (transition_message e)"
| "write_failure Concurrent_modification =
     Concurrent_error ''Cycle changed while this operation was in progress''"
| "write_failure Constraint = Other_error ''UNIQUE constraint failed''"

definition find_cycle :: "work_cycle \<Rightarrow> (cycle_db, work_cycle option) job" where
  "find_cycle c = looking (\<lambda>db. cycles_find (db_rows db) (cycle_key c))"

definition run_change ::
    "launch_reads \<Rightarrow> decision_scope option \<Rightarrow> work_cycle \<Rightarrow> cycle_changes \<Rightarrow> string
     \<Rightarrow> command_context option \<Rightarrow> (cycle_db, work_cycle) job" where
  "run_change lr dec c ch action ctx db =
     (case change (lr_policy lr) (lr_now lr) dec db c ch action ctx [] of
        Inl e \<Rightarrow> (Inl (write_failure e), db)
      | Inr (Unchanged c') \<Rightarrow> (Inr c', db)
      | Inr (Wrote db' c') \<Rightarrow> (Inr c', db'))"

text \<open>While a call is awaited the other writers run: \<open>lr_others\<close>, by the call's name.\<close>

definition awaiting :: "launch_reads \<Rightarrow> string \<Rightarrow> (cycle_db, unit) job" where
  "awaiting lr call db = (Inr (), lr_others lr call db)"

definition run_next ::
    "launch_reads \<Rightarrow> decision_scope option \<Rightarrow> work_cycle \<Rightarrow> cycle_step \<Rightarrow> agent_run option
     \<Rightarrow> command_context option \<Rightarrow> cycle_changes \<Rightarrow> string option \<Rightarrow> launch_actor option
     \<Rightarrow> (cycle_db, work_cycle) job" where
  "run_next lr dec c step parent ctx ch action actor =
     and_then (if step = Review then awaiting lr ''review-head'' else give ()) (\<lambda>_ db.
      case next_run lr dec db c step parent ctx ch action actor of
        Inl (Launch_service e) \<Rightarrow> (Inl e, db)
      | Inl (Launch_write e) \<Rightarrow> (Inl (write_failure e), db)
      | Inr (Unchanged c') \<Rightarrow> (Inr c', db)
      | Inr (Wrote db' c') \<Rightarrow> (Inr c', db'))"

text \<open>\<open>writer.attention\<close>, and the stop an effect decided.\<close>

definition run_attention ::
    "launch_reads \<Rightarrow> decision_scope option \<Rightarrow> work_cycle \<Rightarrow> attention_code \<Rightarrow> string
     \<Rightarrow> attention_refs option \<Rightarrow> nat option \<Rightarrow> (cycle_db, work_cycle) job" where
  "run_attention lr dec c code reason refs repairs =
     run_change lr dec c (attention_changes code reason refs
       (case repairs of Some n \<Rightarrow> if n = 0 then None else Some n | None \<Rightarrow> None)) ''advance'' None"

definition run_stop ::
    "launch_reads \<Rightarrow> decision_scope option \<Rightarrow> work_cycle \<Rightarrow> effect_stop \<Rightarrow> (cycle_db, work_cycle) job" where
  "run_stop lr dec c stop = run_attention lr dec c (es_code stop) (es_message stop) (es_refs stop) None"

section \<open>Jobs as paths of a system\<close>

text \<open>
  A job refines a system when, from any state of the invariant that holds the snapshots \<open>H\<close>, its
  effect on the database is a path of the system, which loses no snapshot and holds those of the
  result.
\<close>

definition refines ::
    "('s \<Rightarrow> 's \<Rightarrow> bool) \<Rightarrow> ('s \<Rightarrow> bool) \<Rightarrow> ('s \<Rightarrow> 'd) \<Rightarrow> ('s \<Rightarrow> 'c set) \<Rightarrow> 'c set \<Rightarrow> ('d, 'a) job
     \<Rightarrow> ('a \<Rightarrow> 'c set) \<Rightarrow> bool" where
  "refines step ok db held H m R =
     (\<forall>s. ok s \<longrightarrow> H \<subseteq> held s \<longrightarrow>
        (\<exists>t. step\<^sup>*\<^sup>* s t \<and> db t = snd (m (db s)) \<and> held s \<subseteq> held t
           \<and> (\<forall>x. fst (m (db s)) = Inr x \<longrightarrow> R x \<subseteq> held t)))"

locale step_system =
  fixes step :: "'s \<Rightarrow> 's \<Rightarrow> bool"
    and ok :: "'s \<Rightarrow> bool"
    and good :: "'c \<Rightarrow> bool"
    and db :: "'s \<Rightarrow> 'd"
    and held :: "'s \<Rightarrow> 'c set"
    and look :: "'d \<Rightarrow> 'k \<Rightarrow> 'c option"
  assumes step_keeps: "step s t \<Longrightarrow> held s \<subseteq> held t"
    and step_inv: "step s t \<Longrightarrow> ok s \<Longrightarrow> ok t"
    and inv_good: "ok s \<Longrightarrow> c \<in> held s \<Longrightarrow> good c"
    and look_step: "look (db s) k = Some c \<Longrightarrow> \<exists>t. step s t \<and> db t = db s \<and> c \<in> held t"
begin

lemma steps_keep: "step\<^sup>*\<^sup>* s t \<Longrightarrow> held s \<subseteq> held t"
  by (induction rule: rtranclp_induct) (use step_keeps in blast)+

lemma steps_inv: "step\<^sup>*\<^sup>* s t \<Longrightarrow> ok s \<Longrightarrow> ok t"
  by (induction rule: rtranclp_induct) (use step_inv in blast)+

lemma refines_give [simp]: "R x \<subseteq> H \<Longrightarrow> refines step ok db held H (give x) R"
  unfolding refines_def give_def by auto

lemma refines_throw [simp]: "refines step ok db held H (throw e) R"
  unfolding refines_def throw_def by auto

lemma refines_requiring [simp]:
  "(\<And>x. r = Inr x \<Longrightarrow> R x \<subseteq> H) \<Longrightarrow> refines step ok db held H (requiring r) R"
  unfolding refines_def requiring_def by (metis (no_types, lifting) fst_conv snd_conv order_trans
      rtranclp.rtrancl_refl subset_refl)

lemma refines_looking:
  "(\<And>d. R (f d) \<subseteq> H) \<Longrightarrow> refines step ok db held H (looking f) R"
  unfolding refines_def looking_def by fastforce

lemma refines_unless_error [simp]: "refines step ok db held H (unless_error e) (\<lambda>_. H)"
  by (cases e) (simp_all add: unless_error_def)

lemma refines_then:
  assumes m: "refines step ok db held H m R"
    and f: "\<And>x. refines step ok db held (H \<union> R x) (f x) S"
  shows "refines step ok db held H (and_then m f) S"
  unfolding refines_def
proof (intro allI impI)
  fix s assume i: "ok s" and s: "H \<subseteq> held s"
  with m obtain t where t: "step\<^sup>*\<^sup>* s t" "db t = snd (m (db s))" "held s \<subseteq> held t"
      "\<And>x. fst (m (db s)) = Inr x \<Longrightarrow> R x \<subseteq> held t"
    unfolding refines_def by blast
  show "\<exists>t. step\<^sup>*\<^sup>* s t \<and> db t = snd (and_then m f (db s)) \<and> held s \<subseteq> held t
      \<and> (\<forall>x. fst (and_then m f (db s)) = Inr x \<longrightarrow> S x \<subseteq> held t)"
  proof (cases "m (db s)")
    case (Pair r d)
    show ?thesis
    proof (cases r)
      case (Inl e)
      with t Pair show ?thesis by (intro exI [of _ t]) (simp add: and_then_def)
    next
      case (Inr x)
      with t s Pair have "H \<union> R x \<subseteq> held t" by auto
      with f [of x] steps_inv [OF t(1) i] obtain u where "step\<^sup>*\<^sup>* t u" "db u = snd (f x (db t))" "held t \<subseteq> held u"
          "\<And>y. fst (f x (db t)) = Inr y \<Longrightarrow> S y \<subseteq> held u"
        unfolding refines_def by blast
      with t Pair Inr show ?thesis
        by (intro exI [of _ u]) (auto simp: and_then_def)
    qed
  qed
qed

lemma refines_catch:
  assumes m: "refines step ok db held H m R"
    and h: "\<And>e. refines step ok db held H (h e) R"
  shows "refines step ok db held H (catch_with m h) R"
  unfolding refines_def
proof (intro allI impI)
  fix s assume i: "ok s" and s: "H \<subseteq> held s"
  with m obtain t where t: "step\<^sup>*\<^sup>* s t" "db t = snd (m (db s))" "held s \<subseteq> held t"
      "\<And>x. fst (m (db s)) = Inr x \<Longrightarrow> R x \<subseteq> held t"
    unfolding refines_def by blast
  show "\<exists>t. step\<^sup>*\<^sup>* s t \<and> db t = snd (catch_with m h (db s)) \<and> held s \<subseteq> held t
      \<and> (\<forall>x. fst (catch_with m h (db s)) = Inr x \<longrightarrow> R x \<subseteq> held t)"
  proof (cases "m (db s)")
    case (Pair r d)
    show ?thesis
    proof (cases r)
      case (Inr x)
      with t Pair show ?thesis by (intro exI [of _ t]) (simp add: catch_with_def)
    next
      case (Inl e)
      from t s have "H \<subseteq> held t" by auto
      with h [of e] steps_inv [OF t(1) i] obtain u where "step\<^sup>*\<^sup>* t u" "db u = snd (h e (db t))" "held t \<subseteq> held u"
          "\<And>y. fst (h e (db t)) = Inr y \<Longrightarrow> R y \<subseteq> held u"
        unfolding refines_def by blast
      with t Pair Inl show ?thesis
        by (intro exI [of _ u]) (auto simp: catch_with_def)
    qed
  qed
qed

lemma refines_weaken:
  "refines step ok db held H m R \<Longrightarrow> H \<subseteq> H' \<Longrightarrow> (\<And>x. S x \<subseteq> R x) \<Longrightarrow> refines step ok db held H' m S"
  unfolding refines_def by (meson order_trans)

text \<open>A job may use what the invariant says of the snapshots held.\<close>

lemma refines_good:
  assumes "c \<in> H" "good c \<Longrightarrow> refines step ok db held H m R"
  shows "refines step ok db held H m R"
proof (cases "good c")
  case True
  with assms show ?thesis by simp
next
  case False
  with assms(1) inv_good show ?thesis unfolding refines_def by blast
qed

lemma refines_captured:
  assumes "refines step ok db held H m R"
  shows "refines step ok db held H (captured m) (\<lambda>r. case r of Inl e \<Rightarrow> {} | Inr x \<Rightarrow> R x)"
  unfolding captured_def
  by (rule refines_catch, rule refines_then [OF assms]) simp_all

lemma refines_holding:
  assumes m: "refines step ok db held H m R"
    and k: "\<And>x. refines step ok db held (H \<union> R x) (k x) S"
    and e: "\<And>e. S (Inl (e, cur)) \<subseteq> H"
  shows "refines step ok db held H (holding cur m k) S"
  unfolding holding_def
proof (rule refines_then [OF refines_captured [OF m]])
  fix r
  show "refines step ok db held (H \<union> (case r of Inl e \<Rightarrow> {} | Inr x \<Rightarrow> R x))
          (case r of Inl e \<Rightarrow> give (Inl (e, cur)) | Inr x \<Rightarrow> k x) S"
    by (cases r) (simp_all add: e k)
qed

lemma refines_look:
  "refines step ok db held H (looking (\<lambda>d. look d k)) (\<lambda>r. set_option r)"
  unfolding refines_def
proof (intro allI impI)
  fix s assume "ok s" "H \<subseteq> held s"
  show "\<exists>t. step\<^sup>*\<^sup>* s t \<and> db t = snd (looking (\<lambda>d. look d k) (db s)) \<and> held s \<subseteq> held t
      \<and> (\<forall>x. fst (looking (\<lambda>d. look d k) (db s)) = Inr x \<longrightarrow> set_option x \<subseteq> held t)"
  proof (cases "look (db s) k")
    case None
    then show ?thesis by (intro exI [of _ s]) (simp add: looking_def)
  next
    case (Some c)
    from look_step [OF this] obtain t where "step s t" "db t = db s" "c \<in> held t" by blast
    with Some step_keeps show ?thesis by (intro exI [of _ t]) (auto simp: looking_def)
  qed
qed

lemma refines_path:
  assumes "refines step ok db held H m R" "ok s" "H \<subseteq> held s"
  obtains t where "step\<^sup>*\<^sup>* s t" "db t = snd (m (db s))" "held s \<subseteq> held t"
  using assms unfolding refines_def by blast

end

section \<open>The cycle store as the system\<close>

interpretation cy: step_system sys_step sys_inv stop_wf "sy_db :: system \<Rightarrow> cycle_db" "sy_held :: system \<Rightarrow> work_cycle set" "\<lambda>d k. cycles_find (db_rows d) k"
proof
  fix s t :: system assume "sys_step s t"
  then show "sy_held s \<subseteq> sy_held t" by (rule sys_stepE) auto
next
  fix s t :: system assume "sys_step s t" "sys_inv s"
  then show "sys_inv t" by (rule sys_inv_step)
next
  fix s :: system and c assume "sys_inv s" "c \<in> sy_held s"
  then show "stop_wf c" by (simp add: sys_inv_def)
next
  fix s :: system and k c assume "cycles_find (db_rows (sy_db s)) k = Some c"
  from sys_step.Read [OF this] show "\<exists>t. sys_step s t \<and> sy_db t = sy_db s \<and> c \<in> sy_held t"
    by (intro exI [of _ "s\<lparr>sy_held := insert c (sy_held s)\<rparr>"]) simp
qed

text \<open>A job that follows the cycle store's steps from the snapshots \<open>H\<close>.\<close>

abbreviation follows ::
    "work_cycle set \<Rightarrow> (cycle_db, 'a) job \<Rightarrow> ('a \<Rightarrow> work_cycle set) \<Rightarrow> bool" where
  "follows H m R \<equiv> refines sys_step sys_inv (sy_db :: system \<Rightarrow> cycle_db) sy_held H m R"

lemma sys_step_change:
  assumes "c \<in> sy_held s" "restore_wf ch"
    "change rd at dec (sy_db s) c ch action ctx extra = Inr (Wrote db' c')"
  shows "sys_step\<^sup>*\<^sup>* s \<lparr>sy_db = db', sy_held = insert c' (sy_held s)\<rparr>"
  using sys_step.Change [OF assms] by blast

lemma follows_change:
  assumes "c \<in> H" "restore_wf ch"
  shows "follows H (run_change lr dec c ch action ctx) (\<lambda>x. {x})"
  unfolding refines_def
proof (intro allI impI)
  fix s :: system assume "sys_inv s" "H \<subseteq> sy_held s"
  with assms(1) have c: "c \<in> sy_held s" by auto
  let ?m = "change (lr_policy lr) (lr_now lr) dec (sy_db s) c ch action ctx []"
  show "\<exists>t. sys_step\<^sup>*\<^sup>* s t \<and> sy_db t = snd (run_change lr dec c ch action ctx (sy_db s))
      \<and> sy_held s \<subseteq> sy_held t
      \<and> (\<forall>x. fst (run_change lr dec c ch action ctx (sy_db s)) = Inr x \<longrightarrow> {x} \<subseteq> sy_held t)"
  proof (cases ?m)
    case (Inl e)
    then show ?thesis by (intro exI [of _ s]) (simp add: run_change_def)
  next
    case (Inr w)
    show ?thesis
    proof (cases w)
      case (Unchanged x)
      with Inr have eq: "?m = Inr (Unchanged x)" by simp
      have "x = c" using change_Unchanged [OF eq] by blast
      with eq c show ?thesis by (intro exI [of _ s]) (simp add: run_change_def)
    next
      case (Wrote db' c')
      with Inr sys_step_change [OF c assms(2)] show ?thesis
        by (intro exI [of _ "\<lparr>sy_db = db', sy_held = insert c' (sy_held s)\<rparr>"])
           (auto simp: run_change_def)
    qed
  qed
qed

lemma restore_wf_plain: "ch_restore ch = None \<Longrightarrow> restore_wf ch"
  by (simp add: restore_wf_def)

text \<open>The other writers follow the system's steps too.\<close>

definition orderly :: "launch_reads \<Rightarrow> bool" where
  "orderly lr = (\<forall>call. follows {} (awaiting lr call) (\<lambda>_. {}))"

lemma follows_awaiting: "orderly lr \<Longrightarrow> follows H (awaiting lr call) (\<lambda>_. {})"
  unfolding orderly_def by (rule cy.refines_weaken [of "{}"]) auto

lemma orderly_alone: "lr_others lr = (\<lambda>_ db. db) \<Longrightarrow> orderly lr"
  by (auto simp: orderly_def refines_def awaiting_def)

lemma follows_reservation:
  assumes "c \<in> H" "field_changes ch"
  shows "follows H (\<lambda>db. case next_run lr dec db c st p ctx ch action actor of
        Inl (Launch_service e) \<Rightarrow> (Inl e, db)
      | Inl (Launch_write e) \<Rightarrow> (Inl (write_failure e), db)
      | Inr (Unchanged c') \<Rightarrow> (Inr c', db)
      | Inr (Wrote db' c') \<Rightarrow> (Inr c', db')) (\<lambda>x. {x})"
    (is "follows H ?job _")
  unfolding refines_def
proof (intro allI impI)
  fix s :: system assume "sys_inv s" "H \<subseteq> sy_held s"
  with assms(1) have c: "c \<in> sy_held s" by auto
  let ?m = "next_run lr dec (sy_db s) c st p ctx ch action actor"
  show "\<exists>t. sys_step\<^sup>*\<^sup>* s t \<and> sy_db t = snd (?job (sy_db s))
      \<and> sy_held s \<subseteq> sy_held t
      \<and> (\<forall>x. fst (?job (sy_db s)) = Inr x \<longrightarrow> {x} \<subseteq> sy_held t)"
  proof (cases ?m)
    case (Inl e)
    then show ?thesis by (cases e) (intro exI [of _ s], simp)+
  next
    case (Inr w)
    show ?thesis
    proof (cases w)
      case (Unchanged x)
      with Inr next_run_Unchanged have "x = c" by blast
      with Inr Unchanged c show ?thesis by (intro exI [of _ s]) (simp)
    next
      case (Wrote db' c')
      with Inr have n: "?m = Inr (Wrote db' c')" by simp
      show ?thesis
      proof (rule next_run_Wrote [OF n])
        fix head
        assume "change (lr_policy lr) (lr_now lr) dec (sy_db s) c
            (reservation lr c st p (collecting_review lr c st p (ctx \<noteq> None) ch) (ctx \<noteq> None) head
              (attested_changes lr c st (collecting_review lr c st p (ctx \<noteq> None) ch) ch))
            (over action (if ctx \<noteq> None then ''resume'' else ''advance'')) ctx [] = Inr (Wrote db' c')"
        from sys_step_change [OF c _ this] assms(2)
        have "sys_step\<^sup>*\<^sup>* s \<lparr>sy_db = db', sy_held = insert c' (sy_held s)\<rparr>"
          by (simp add: restore_wf_def reservation_def attested_changes_def field_changes_def
              split: option.splits)
        with n show ?thesis
          by (intro exI [of _ "\<lparr>sy_db = db', sy_held = insert c' (sy_held s)\<rparr>"])
             auto
      qed
    qed
  qed
qed

lemma follows_next:
  assumes "orderly lr" "c \<in> H" "field_changes ch"
  shows "follows H (run_next lr dec c st p ctx ch action actor) (\<lambda>x. {x})"
  unfolding run_next_def
  by (rule cy.refines_then [where R = "\<lambda>_. {}"])
     (use assms in \<open>auto intro!: follows_awaiting follows_reservation cy.refines_give\<close>)

lemma follows_attention:
  "c \<in> H \<Longrightarrow> follows H (run_attention lr dec c code reason refs repairs) (\<lambda>x. {x})"
  unfolding run_attention_def
  by (intro follows_change) (auto simp: attention_changes_def restore_wf_def)

lemma follows_stop: "c \<in> H \<Longrightarrow> follows H (run_stop lr dec c stop) (\<lambda>x. {x})"
  by (simp add: run_stop_def follows_attention)

lemma follows_find: "follows H (find_cycle c) (\<lambda>r. set_option r)"
  unfolding find_cycle_def by (rule cy.refines_look)

section \<open>Introduction rules for jobs\<close>

lemma follows_then_unit:
  fixes m :: "(cycle_db, unit) job"
  shows "follows H m (\<lambda>_. {}) \<Longrightarrow> (follows H (f ()) S) \<Longrightarrow> follows H (and_then m f) S"
  by (rule cy.refines_then [where R = "\<lambda>_. {}"]) auto

lemma follows_find_then:
  "(\<And>row. follows (H \<union> set_option row) (f row) S) \<Longrightarrow> follows H (and_then (find_cycle c) f) S"
  by (rule cy.refines_then [OF follows_find])

lemma follows_if:
  "(b \<Longrightarrow> follows H m R) \<Longrightarrow> (\<not> b \<Longrightarrow> follows H n R) \<Longrightarrow> follows H (if b then m else n) R"
  by simp

lemma follows_case_option:
  "(x = None \<Longrightarrow> follows H m R) \<Longrightarrow> (\<And>y. x = Some y \<Longrightarrow> follows H (n y) R)
   \<Longrightarrow> follows H (case x of None \<Rightarrow> m | Some y \<Rightarrow> n y) R"
  by (cases x) simp_all

lemma follows_unless_error: "follows H (unless_error e) (\<lambda>_. {})"
  by (cases e) (simp_all add: unless_error_def)

lemmas job_intros = follows_if follows_case_option cy.refines_give cy.refines_throw follows_unless_error
  follows_awaiting follows_then_unit follows_find_then

lemma follows_case_sum:
  "(\<And>e. x = Inl e \<Longrightarrow> follows H (m e) R) \<Longrightarrow> (\<And>y. x = Inr y \<Longrightarrow> follows H (n y) R)
   \<Longrightarrow> follows H (case x of Inl e \<Rightarrow> m e | Inr y \<Rightarrow> n y) R"
  by (cases x) simp_all

lemma follows_requiring: "follows H (requiring r) (\<lambda>_. {})"
  by (rule cy.refines_requiring) simp

lemma follows_then_plain:
  "follows H m (\<lambda>_. {}) \<Longrightarrow> (\<And>x. follows H (f x) S) \<Longrightarrow> follows H (and_then m f) S"
  by (rule cy.refines_then [where R = "\<lambda>_. {}"]) auto

lemma follows_then_row:
  "follows H m (\<lambda>x. {x}) \<Longrightarrow> (\<And>x. follows (insert x H) (f x) S) \<Longrightarrow> follows H (and_then m f) S"
  by (rule cy.refines_then [where R = "\<lambda>x. {x}"]) auto

lemma follows_then_maybe:
  "follows H m set_option \<Longrightarrow> (\<And>x. follows (set_option x \<union> H) (f x) S) \<Longrightarrow> follows H (and_then m f) S"
  by (rule cy.refines_then [where R = set_option]) (auto simp: Un_commute)

text \<open>A stop an effect decided, and the row read again.\<close>

lemma follows_stop_reread:
  "c \<in> H \<Longrightarrow> follows H (and_then (run_stop lr dec c s) (\<lambda>_. and_then (find_cycle c) (\<lambda>row. give (over row c)))) (\<lambda>x. {x})"
  by (rule follows_then_row [OF follows_stop]; (intro job_intros)?) (auto simp: over_def split: option.splits)

lemma follows_then_asked:
  "(\<And>x. follows H (f x) S) \<Longrightarrow> follows H (and_then (requiring r) f) S"
  by (rule follows_then_plain [OF follows_requiring])

lemmas asked_intros = job_intros follows_then_asked

section \<open>Results\<close>

lemma throw_Inr [simp]: "throw e db \<noteq> (Inr x, db')"
  by (simp add: throw_def)

lemma and_then_Inr:
  "and_then m f db = (Inr x, db') \<longleftrightarrow> (\<exists>y db1. m db = (Inr y, db1) \<and> f y db1 = (Inr x, db'))"
  by (auto simp: and_then_def split: sum.splits prod.splits)

lemma job_values:
  "unless_error None = give ()" "and_then (give x) f = f x" "and_then (requiring (Inr x)) f = f x"
  "and_then (looking g) f db = f (g db) db"
  by (simp_all add: unless_error_def and_then_def give_def requiring_def looking_def fun_eq_iff)

lemma run_change_commanded:
  assumes "run_change lr dec c ch action (Some ctx) db = (Inr c', db')"
  shows "c' = updated_cycle (lr_policy lr) (lr_now lr) True c ch"
  using assms
  by (auto simp: run_change_def dest: change_Wrote(1) change_Unchanged split: sum.splits write_result.splits)

end
