(* ===== verification/Remediation.thy ===== *)
theory Remediation
  imports Jobs "HOL-Library.Char_ord" "HOL-Library.List_Lexorder"
begin

text \<open>
  The remediation effects (\<open>apps/server/src/services/cycle/effects/remediation.ts\<close> and
  \<open>reviewFacts\<close> of \<open>cycle/shared.ts\<close>): what holds an operator's grant back, a review's
  remediation, housekeeping, a grant's rounds, a remediation that changed nothing twice, and the
  implementation checkpoint. Storage and Git reads are the record \<open>remediation_reads\<close>; the
  fingerprint's hash is the parameter \<open>rr_digest\<close>.
\<close>

section \<open>What the effects read\<close>

record tree_changes = git_changes +
  tc_paths :: "string list"
  tc_fingerprint :: string

record remediation_reads =
  rr_launch :: launch_reads
  rr_mergeReserved :: bool
  rr_newestRun :: "agent_run option"
  rr_live :: bool
  rr_findRun :: "string \<Rightarrow> agent_run option"
  rr_lastTurn :: "agent_run \<Rightarrow> turn_completed option"
  rr_assessment :: "agent_run \<Rightarrow> assessment option"
  rr_scopedReviewIssue :: "worktree \<Rightarrow> assessment option \<Rightarrow> string option"
  rr_digest :: "bool \<Rightarrow> run_verdict \<Rightarrow> string list \<Rightarrow> string"
  rr_changes :: "string \<Rightarrow> string + tree_changes"
  rr_ready :: "service_error option"
  rr_available :: "service_error option"
  rr_repository :: bool
  rr_repositoryBusy :: bool
  rr_activeEditor :: bool
  rr_enter :: "service_error option" \<comment> \<open>taking the merge and the worktree mutation\<close>
  rr_commit :: "worktree \<Rightarrow> checkpoint_commit \<Rightarrow> string \<Rightarrow> string + string"
  rr_changesAfter :: "string \<Rightarrow> string + tree_changes"

record remediation_grant =
  gr_additionalRounds :: nat
  gr_instructions :: string
  gr_agentOverride :: "agent_selection option option"

definition not_found :: service_error where
  "not_found = Other_error ''Resource not found''"

section \<open>What holds a grant back\<close>

definition limit_housekeeping :: "work_cycle \<Rightarrow> bool" where
  "limit_housekeeping c =
     ((cy_step c = Implement \<or> cy_step c = Remediate)
      \<and> stopCode (cy_status c) (cy_stop c) = Some Remediation_exhausted)"

text \<open>The blockers read from the review's own turn, report and worktree.\<close>

definition review_blocker ::
    "remediation_reads \<Rightarrow> work_cycle \<Rightarrow> agent_run \<Rightarrow> bool \<Rightarrow> string option" where
  "review_blocker rr c run guided =
     (let turn = rr_lastTurn rr run;
          assessment = rr_assessment rr run;
          tree = lr_worktree (rr_launch rr);
          complete = (case assessment of Some (Complete is r) \<Rightarrow> True | _ \<Rightarrow> False);
          scopeIssue = (case tree of
              Some t \<Rightarrow> if complete then rr_scopedReviewIssue rr t assessment else None
            | None \<Rightarrow> None)
      in if (case turn of
               None \<Rightarrow> True
             | Some t \<Rightarrow> \<not> turnTakesGrant turn
                 \<or> (\<not> guided \<and> questionsHoldGrant (tn_resultText t) (truthy (cy_finalizationId c))))
         then Some ''Resolve the questions or incomplete outcome before authorizing remediation.''
         else if map_option wt_status tree \<noteq> Some Tree_active \<or> truthy scopeIssue
         then Some (over scopeIssue ''The managed worktree must be active before authorizing remediation.'')
         else if \<not> complete
         then Some ''A valid review requiring remediation is needed before extending the allowance.''
         else if cd_action (evaluateCycleCompletion c assessment) \<noteq> Act_remediate
                 \<and> stopCode (cy_status c) (cy_stop c) \<noteq> Some Remediation_exhausted
         then Some ''A valid review requiring remediation is needed before extending the allowance.''
         else None)"

definition remediationBlocker :: "remediation_reads \<Rightarrow> work_cycle \<Rightarrow> bool \<Rightarrow> string option" where
  "remediationBlocker rr c guided =
     (let housekeeping = limit_housekeeping c in
      if (cy_status c \<noteq> Paused \<and> cy_status c \<noteq> Needs_attention) \<or> (cy_step c \<noteq> Review \<and> \<not> housekeeping)
      then Some ''Additional remediation requires a paused review.''
      else if cy_executionScope c \<noteq> None \<and> scope_kind_of c \<noteq> Some Slice
      then Some ''Address findings through the owning slice, not this review-only snapshot.''
      else if resolution_status_of c \<noteq> None
              \<and> resolution_status_of c \<notin> {Some Res_completed, Some Res_abandoned}
      then Some ''Resolve the pending integration conflict before authorizing remediation.''
      else if rr_mergeReserved rr
      then Some ''Recover the pending promotion before authorizing remediation.''
      else if map_option st_status (currentFinalizationStage c) = Some Stage_selecting
      then Some ''Select this stage's improvement batch before authorizing remediation.''
      else if (case cy_finalizationProgress c of
                 None \<Rightarrow> False
               | Some p \<Rightarrow> \<exists>ob\<in>set (fp_obligations p). ob_status ob = Change_requested)
      then Some ''Decide the proposed plan change or resume with guidance before authorizing remediation.''
      else if \<not> guided \<and> remediationUsed c < remediationAllowance c
      then Some ''The remediation allowance is not exhausted; use Resume.''
      else case rr_newestRun rr of
        None \<Rightarrow> Some (if housekeeping
                     then ''The current implementation must finish before authorizing remediation.''
                     else ''The current review must finish before authorizing remediation.'')
      | Some run \<Rightarrow>
          if rr_live rr \<or> run_id run \<noteq> cy_currentRunId c
             \<or> run_role run \<noteq> (if housekeeping then Role_implement else Role_review)
             \<or> run_status run \<noteq> Run_finished
          then Some (if housekeeping
                     then ''The current implementation must finish before authorizing remediation.''
                     else ''The current review must finish before authorizing remediation.'')
          else if housekeeping
          then (if map_option wt_status (lr_worktree (rr_launch rr)) = Some Tree_active then None
                else Some ''The managed worktree must be active before authorizing remediation.'')
          else review_blocker rr c run guided)"

definition finalizationRemediationBlocker :: "remediation_reads \<Rightarrow> work_cycle \<Rightarrow> string option" where
  "finalizationRemediationBlocker rr c =
     (if \<not> truthy (cy_finalizationId c)
      then Some ''Additional remediation requires a finalization review.''
      else remediationBlocker rr c False)"

definition housekeepingGuidance :: string where
  "housekeepingGuidance = ''Before addressing the review findings, inspect git status including untracked files and reconcile any verification artifacts using the source run journal. Never blindly commit untracked files. Remove only confirmed generated test artifacts; preserve intended new source by staging it. Use the provided TMPDIR for tests. Complete the substantive findings in this same run, run checks, commit intended changes, and finish with a clean worktree.''"

section \<open>The checks an operator's grant repeats\<close>

definition managed_branch_refusal :: service_error where
  "managed_branch_refusal = Typed_refusal Worktree_state
     ''Remediation requires the managed branch without unresolved Git operations.'' None"

definition branch_unresolved :: "worktree \<Rightarrow> string + tree_changes \<Rightarrow> bool" where
  "branch_unresolved tree state =
     (case state of
        Inl m \<Rightarrow> True
      | Inr s \<Rightarrow> gc_branch s \<noteq> Some (wt_branchName tree) \<or> gc_conflicted s)"

definition guided_grant :: "work_cycle \<Rightarrow> remediation_grant \<Rightarrow> bool" where
  "guided_grant c g =
     (gr_additionalRounds g = 0
      \<or> (\<not> truthy (cy_finalizationId c) \<and> js_trim (gr_instructions g) \<noteq> []))"

text \<open>After an awaited inspection: the worktree is free, the cycle as read, nothing holds the grant.\<close>

definition recheck_grant ::
    "remediation_reads \<Rightarrow> work_cycle \<Rightarrow> remediation_grant \<Rightarrow> (cycle_db, unit) job" where
  "recheck_grant rr c g =
     and_then (unless_error (rr_available rr)) (\<lambda>_.
     and_then (find_cycle c) (\<lambda>row.
       if map_option cy_version row \<noteq> Some (cy_version c)
       then throw (Request_error ''Cycle changed; refresh before authorizing more remediation.'')
       else (case remediationBlocker rr c (guided_grant c g) of
               Some m \<Rightarrow> throw (Request_error m) | None \<Rightarrow> give ())))"

definition authorize_grant ::
    "remediation_reads \<Rightarrow> work_cycle \<Rightarrow> command_context option \<Rightarrow> remediation_grant \<Rightarrow> (cycle_db, unit) job" where
  "authorize_grant rr c ctx g =
     (case ctx of
        None \<Rightarrow> throw (Request_error ''Operator authorization is required.'')
      | Some x \<Rightarrow>
          and_then (unless_error (lr_requireRole (rr_launch rr) x)) (\<lambda>_.
          and_then (if truthy (cy_workItemId c) then unless_error (rr_ready rr)
                    else (case finalizationForCycle (rr_launch rr) c of
                            Inl e \<Rightarrow> throw e | Inr v \<Rightarrow> give ())) (\<lambda>_.
            recheck_grant rr c g)))"

section \<open>A review's remediation\<close>

fun severity_text :: "severity \<Rightarrow> string" where
  "severity_text Blocking = ''blocking''"
| "severity_text Major = ''major''"
| "severity_text Minor = ''minor''"
| "severity_text Nit = ''nit''"

definition fingerprint_line :: "finding \<Rightarrow> string" where
  "fingerprint_line f = fd_id f @ '':'' @ severity_text (fd_severity f)"

definition finding_fingerprint :: "remediation_reads \<Rightarrow> assessment option \<Rightarrow> string option" where
  "finding_fingerprint rr assessment =
     (case assessment of
        Some (Complete is r) \<Rightarrow>
          Some (rr_digest rr (rp_gateMet r) (rp_verdict r)
            (sort (map fingerprint_line (open_findings (rp_findings r)))))
      | _ \<Rightarrow> None)"

text \<open>The finished review's role ends with it.\<close>

definition ended_review :: "work_cycle \<Rightarrow> cycle_workflow edit" where
  "ended_review c =
     (case (cy_workflow c, active_review_of c) of
        (Some w, Some a) \<Rightarrow> Put (w\<lparr>wf_activeReview := Some None, wf_waiting := Some None\<rparr>)
      | _ \<Rightarrow> Keep)"

definition granted_rounds :: "work_cycle \<Rightarrow> remediation_grant option \<Rightarrow> nat edit" where
  "granted_rounds c grant =
     (case grant of
        None \<Rightarrow> Keep
      | Some g \<Rightarrow> Put (over (cy_additionalRemediationRounds c) 0 + gr_additionalRounds g))"

definition granted_agent :: "remediation_grant option \<Rightarrow> agent_selection option edit" where
  "granted_agent grant =
     (case grant of
        None \<Rightarrow> Keep
      | Some g \<Rightarrow> (case gr_agentOverride g of None \<Rightarrow> Keep | Some a \<Rightarrow> Put a))"

definition granted_guidance :: "remediation_grant option \<Rightarrow> string edit" where
  "granted_guidance grant = (case grant of None \<Rightarrow> Keep | Some g \<Rightarrow> Put (gr_instructions g))"

definition authorized_reason :: "nat \<Rightarrow> string" where
  "authorized_reason n =
     ''Authorized '' @ string_of_nat n @ '' additional remediation attempt(s); starting remediation.''"

definition remediation_changes ::
    "work_cycle \<Rightarrow> string option \<Rightarrow> nat \<Rightarrow> remediation_grant option \<Rightarrow> cycle_changes" where
  "remediation_changes c fingerprint stalled grant = no_changes
     \<lparr>ch_workflow := ended_review c,
      ch_attempt := no_attempt_changes
        \<lparr>ac_housekeepingInstructions := Put housekeepingGuidance,
         ac_stepGuidance := granted_guidance grant\<rparr>,
      ch_remediationRounds := Some (cy_remediationRounds c + 1),
      ch_previousFindingFingerprint := (case fingerprint of None \<Rightarrow> Drop | Some d \<Rightarrow> Put d),
      ch_stalledReviews := Some stalled,
      ch_additionalRemediationRounds := granted_rounds c grant,
      ch_finalizationAgentOverride := granted_agent grant,
      ch_reason := map_option (\<lambda>g. if gr_additionalRounds g = 0
        then ''Starting remediation with operator guidance using the existing allowance.''
        else authorized_reason (gr_additionalRounds g)) grant\<rparr>"

definition remediation_choice ::
    "remediation_reads \<Rightarrow> worktree \<Rightarrow> work_cycle \<Rightarrow> agent_run \<Rightarrow> remediation_grant option
     \<Rightarrow> remediation_decision" where
  "remediation_choice rr tree c run grant =
     (let assessment = rr_assessment rr run;
          scopeIssue = rr_scopedReviewIssue rr tree assessment;
          decision = evaluateCycleCompletion c
            (if truthy scopeIssue then Some (Invalid [the scopeIssue] None) else assessment)
      in decideRemediation c (map_option gr_additionalRounds grant) (cd_reason decision)
           (case assessment of Some (Complete is r) \<Rightarrow> True | _ \<Rightarrow> False)
           (finding_fingerprint rr assessment))"

definition reviewRemediation ::
    "remediation_reads \<Rightarrow> decision_scope option \<Rightarrow> work_cycle \<Rightarrow> agent_run \<Rightarrow> command_context option
     \<Rightarrow> remediation_grant option \<Rightarrow> (cycle_db, work_cycle) job" where
  "reviewRemediation rr dec c run ctx grant =
     (let lr = rr_launch rr in
      case lr_worktree lr of
        None \<Rightarrow> throw not_found
      | Some tree \<Rightarrow>
          if \<not> lr_git lr then throw not_found
          else and_then (awaiting lr ''remediation-inspect'') (\<lambda>_.
          if branch_unresolved tree (rr_changes rr (wt_path tree)) then throw managed_branch_refusal
          else and_then (case grant of None \<Rightarrow> give () | Some g \<Rightarrow> authorize_grant rr c ctx g) (\<lambda>_.
            case remediation_choice rr tree c run grant of
                 Remediation_refuse m \<Rightarrow> throw (Request_error m)
               | Remediation_stop s \<Rightarrow>
                   and_then (run_stop lr dec c s) (\<lambda>_.
                   and_then (find_cycle c) (\<lambda>row. give (over row c)))
               | Remediation_none \<Rightarrow> give c
               | Remediate_with stalled \<Rightarrow>
                   run_next lr dec c Remediate (Some run) ctx
                     (remediation_changes c (finding_fingerprint rr (rr_assessment rr run)) stalled grant)
                     (map_option (\<lambda>_. ''authorize-remediation'') grant) None)))"

section \<open>Housekeeping and grants\<close>

definition housekeeping_changes ::
    "work_cycle \<Rightarrow> string \<Rightarrow> remediation_grant option \<Rightarrow> cycle_changes" where
  "housekeeping_changes c reason grant = no_changes
     \<lparr>ch_workflow := ended_review c,
      ch_remediationRounds := Some (cy_remediationRounds c + 1),
      ch_attempt := no_attempt_changes
        \<lparr>ac_housekeepingInstructions := Put (reason @ [CHR 0x0A, CHR 0x0A] @ housekeepingGuidance),
         ac_stepGuidance := granted_guidance grant\<rparr>,
      ch_stalledReviews := map_option (\<lambda>_. 0) grant,
      ch_additionalRemediationRounds := granted_rounds c grant,
      ch_finalizationAgentOverride := granted_agent grant,
      ch_reason := map_option (\<lambda>g. authorized_reason (gr_additionalRounds g)) grant\<rparr>"

definition inspect_for_grant :: "remediation_reads \<Rightarrow> (cycle_db, unit) job" where
  "inspect_for_grant rr =
     (case lr_worktree (rr_launch rr) of
        None \<Rightarrow> throw managed_branch_refusal
      | Some tree \<Rightarrow>
          if \<not> lr_git (rr_launch rr) then throw managed_branch_refusal
          else and_then (awaiting (rr_launch rr) ''housekeeping-inspect'') (\<lambda>_.
            if branch_unresolved tree (rr_changes rr (wt_path tree))
            then throw managed_branch_refusal else give ()))"

definition housekeeping ::
    "remediation_reads \<Rightarrow> decision_scope option \<Rightarrow> work_cycle \<Rightarrow> agent_run \<Rightarrow> string
     \<Rightarrow> command_context option \<Rightarrow> remediation_grant option \<Rightarrow> (cycle_db, work_cycle) job" where
  "housekeeping rr dec c run reason ctx grant =
     (case decideHousekeeping c reason (map_option gr_additionalRounds grant) of
        Housekeeping_refuse m \<Rightarrow> throw (Request_error m)
      | Housekeeping_stop s \<Rightarrow>
          and_then (run_stop (rr_launch rr) dec c s) (\<lambda>_.
          and_then (find_cycle c) (\<lambda>row. give (over row c)))
      | Housekeeping_remediate \<Rightarrow>
          and_then (case grant of
              None \<Rightarrow> give ()
            | Some g \<Rightarrow> and_then (inspect_for_grant rr) (\<lambda>_. recheck_grant rr c g)) (\<lambda>_.
          run_next (rr_launch rr) dec c Remediate (Some run) ctx (housekeeping_changes c reason grant)
            (map_option (\<lambda>_. ''authorize-remediation'') grant) None))"

definition reviewAsksRemediation :: "remediation_reads \<Rightarrow> work_cycle \<Rightarrow> agent_run \<Rightarrow> bool" where
  "reviewAsksRemediation rr c run =
     (case rr_assessment rr run of
        Some (Complete is r) \<Rightarrow>
          cd_action (evaluateCycleCompletion c (Some (Complete is r))) = Act_remediate
      | _ \<Rightarrow> False)"

definition grantRemediation ::
    "remediation_reads \<Rightarrow> decision_scope option \<Rightarrow> work_cycle \<Rightarrow> agent_run \<Rightarrow> command_context
     \<Rightarrow> remediation_grant \<Rightarrow> (cycle_db, work_cycle) job" where
  "grantRemediation rr dec c run ctx g =
     (case decideGrant c (cy_step c = Review \<and> reviewAsksRemediation rr c run) of
        Grant_review \<Rightarrow> reviewRemediation rr dec c run (Some ctx) (Some g)
      | Grant_housekeeping reason \<Rightarrow> housekeeping rr dec c run reason (Some ctx) (Some g))"

section \<open>A remediation that changed nothing twice\<close>

definition reviewed_here :: "remediation_reads \<Rightarrow> work_cycle \<Rightarrow> string \<Rightarrow> agent_run option \<Rightarrow> bool" where
  "reviewed_here rr c head run =
     (case run of
        None \<Rightarrow> False
      | Some r \<Rightarrow>
          run_role r = Role_review
          \<and> map_option rbc_headSha (run_reviewBranchContext r) = Some head
          \<and> reviewAsksRemediation rr c r)"

definition find_run :: "remediation_reads \<Rightarrow> string option \<Rightarrow> agent_run option" where
  "find_run rr i = (if truthy i then rr_findRun rr (the i) else None)"

definition remediatedNothingTwice ::
    "remediation_reads \<Rightarrow> work_cycle \<Rightarrow> agent_run \<Rightarrow> string \<Rightarrow> bool" where
  "remediatedNothingTwice rr c remediation head =
     (let latest = find_run rr (run_parentRunId remediation) in
      reviewed_here rr c head latest
      \<and> (case find_run rr (run_parentRunId (the latest)) of
           None \<Rightarrow> False
         | Some earlier \<Rightarrow>
             run_role earlier = Role_implement
             \<and> reviewed_here rr c head (find_run rr (run_parentRunId earlier))))"

section \<open>The implementation checkpoint\<close>

definition finalizing_check :: "remediation_reads \<Rightarrow> work_cycle \<Rightarrow> (cycle_db, unit) job" where
  "finalizing_check rr current =
     and_then (find_cycle current) (\<lambda>saved.
       if lr_stopping (rr_launch rr)
          \<or> map_option cy_version saved \<noteq> Some (cy_version current)
          \<or> map_option cy_status saved \<noteq> Some Running
          \<or> \<not> rr_activeEditor rr
       then throw (Request_error ''Finalization was superseded or its authority was revoked.'')
       else if rr_live rr
       then throw (Request_error ''End agent sessions before finalizing the worktree.'')
       else give ())"

definition inspected :: "string + tree_changes \<Rightarrow> (cycle_db, tree_changes) job" where
  "inspected r = requiring (case r of Inl m \<Rightarrow> Inl (Request_error m) | Inr s \<Rightarrow> Inr s)"

definition pending_checkpoint :: "work_cycle \<Rightarrow> agent_run \<Rightarrow> checkpoint_commit option" where
  "pending_checkpoint c run =
     (case cy_checkpoint c of
        Some k \<Rightarrow> if cc_sourceRunId k = run_id run \<and> \<not> truthy (cc_commitSha k) then Some k else None
      | None \<Rightarrow> None)"

definition reserve_checkpoint ::
    "remediation_reads \<Rightarrow> decision_scope option \<Rightarrow> agent_run \<Rightarrow> tree_changes \<Rightarrow> work_cycle
     \<Rightarrow> (cycle_db, work_cycle) job" where
  "reserve_checkpoint rr dec run state current =
     (if pending_checkpoint current run \<noteq> None then give current
      else run_change (rr_launch rr) dec current
        (no_changes\<lparr>ch_checkpoint := Put
           \<lparr>cc_sourceRunId = run_id run, cc_previousHeadSha = gc_headSha state,
            cc_fingerprint = tc_fingerprint state, cc_paths = tc_paths state,
            cc_createdAt = lr_now (rr_launch rr), cc_commitSha = None\<rparr>,
           ch_reason := Some ''Checkpointing implementation changes before review.''\<rparr>)
        ''checkpoint-reserved'' None)"

definition commit_checkpoint ::
    "remediation_reads \<Rightarrow> decision_scope option \<Rightarrow> worktree \<Rightarrow> agent_run \<Rightarrow> work_cycle
     \<Rightarrow> (cycle_db, work_cycle) job" where
  "commit_checkpoint rr dec tree run current =
     (case cy_checkpoint current of
        None \<Rightarrow> throw (Other_error ''Missing checkpoint reservation'')
      | Some k \<Rightarrow>
          and_then (finalizing_check rr current) (\<lambda>_.
          and_then (awaiting (rr_launch rr) ''checkpoint-commit'') (\<lambda>_.
          and_then (requiring (case rr_commit rr tree k (run_id run) of
              Inl m \<Rightarrow> Inl (Request_error m) | Inr sha \<Rightarrow> Inr sha)) (\<lambda>sha.
          and_then (finalizing_check rr current) (\<lambda>_.
            run_change (rr_launch rr) dec current
              (no_changes\<lparr>ch_checkpoint := Put (k\<lparr>cc_commitSha := Some sha\<rparr>),
                 ch_reason := Some ''Implementation checkpoint committed; preparing review.''\<rparr>)
              ''checkpoint-completed'' None)))))"

text \<open>The inspection after the commit: an untidy worktree goes to housekeeping instead of review.\<close>

definition finish_checkpoint ::
    "remediation_reads \<Rightarrow> decision_scope option \<Rightarrow> worktree \<Rightarrow> agent_run \<Rightarrow> work_cycle
     \<Rightarrow> (cycle_db, work_cycle option) job" where
  "finish_checkpoint rr dec tree run current =
     and_then (finalizing_check rr current) (\<lambda>_.
     and_then (awaiting (rr_launch rr) ''checkpoint-inspect-again'') (\<lambda>_.
     and_then (inspected (rr_changesAfter rr (wt_path tree))) (\<lambda>after.
     and_then (finalizing_check rr current) (\<lambda>_.
       if gc_clean after then give (Some current)
       else and_then (housekeeping rr dec current run files_remain_after_finalization None None) (\<lambda>_.
              give None)))))"

definition inspect_checkpoint ::
    "remediation_reads \<Rightarrow> worktree \<Rightarrow> work_cycle \<Rightarrow> (cycle_db, tree_changes) job" where
  "inspect_checkpoint rr tree current =
     and_then (unless_error (rr_enter rr)) (\<lambda>_.
     and_then (finalizing_check rr current) (\<lambda>_.
     and_then (awaiting (rr_launch rr) ''checkpoint-inspect'') (\<lambda>_.
     and_then (inspected (rr_changes rr (wt_path tree))) (\<lambda>state.
       if 1000 < length (tc_paths state)
       then throw (Request_error ''Checkpoint exceeds the 1000-file finalization limit.'')
       else if gc_branch state \<noteq> Some (wt_branchName tree) \<or> gc_conflicted state
       then throw (Request_error ''Finalization requires the managed branch without unresolved Git operations.'')
       else and_then (finalizing_check rr current) (\<lambda>_. give state)))))"

definition checkpoint_body ::
    "remediation_reads \<Rightarrow> decision_scope option \<Rightarrow> worktree \<Rightarrow> agent_run \<Rightarrow> work_cycle
     \<Rightarrow> (cycle_db, (service_error \<times> work_cycle) + work_cycle option) job" where
  "checkpoint_body rr dec tree run c =
     holding c (inspect_checkpoint rr tree c) (\<lambda>state.
       if pending_checkpoint c run = None \<and> tc_paths state = []
       then holding c (finish_checkpoint rr dec tree run c) (\<lambda>r. give (Inr r))
       else holding c (reserve_checkpoint rr dec run state c) (\<lambda>c1.
            holding c1 (commit_checkpoint rr dec tree run c1) (\<lambda>c2.
            holding c2 (finish_checkpoint rr dec tree run c2) (\<lambda>r. give (Inr r)))))"

text \<open>A failed checkpoint stops the cycle, while it is the version at hand and still runs.\<close>

definition checkpoint_failed ::
    "remediation_reads \<Rightarrow> decision_scope option \<Rightarrow> work_cycle \<Rightarrow> service_error \<Rightarrow> work_cycle
     \<Rightarrow> (cycle_db, work_cycle option) job" where
  "checkpoint_failed rr dec c e current =
     and_then (find_cycle c) (\<lambda>latest.
       case latest of
         None \<Rightarrow> give None
       | Some l \<Rightarrow>
           (case commitFailure e of
              None \<Rightarrow> give None
            | Some failed \<Rightarrow>
                if cy_version l = cy_version current \<and> cy_status l = Running
                   \<and> \<not> lr_stopping (rr_launch rr)
                then and_then (run_stop (rr_launch rr) dec l failed) (\<lambda>_. give None)
                else give None))"

text \<open>\<open>None\<close>: the effect is over; the cycle as checkpointed otherwise.\<close>

definition finalizeImplementation ::
    "remediation_reads \<Rightarrow> decision_scope option \<Rightarrow> work_cycle \<Rightarrow> agent_run
     \<Rightarrow> (cycle_db, work_cycle option) job" where
  "finalizeImplementation rr dec c run =
     (if \<not> lr_git (rr_launch rr) \<or> run_role run \<noteq> Role_implement then give (Some c)
      else case lr_worktree (rr_launch rr) of
        None \<Rightarrow> throw not_found
      | Some tree \<Rightarrow>
          if \<not> rr_repository rr then throw not_found
          else if rr_repositoryBusy rr then give None
          else and_then (checkpoint_body rr dec tree run c) (\<lambda>r.
            case r of
              Inl f \<Rightarrow> checkpoint_failed rr dec c (fst f) (snd f)
            | Inr finished \<Rightarrow> give finished))"

section \<open>The effects as paths of the cycle store\<close>

lemma follows_recheck_grant: "follows H (recheck_grant rr c g) (\<lambda>_. {})"
  unfolding recheck_grant_def by (intro job_intros) simp_all

lemma follows_authorize_grant: "follows H (authorize_grant rr c ctx g) (\<lambda>_. {})"
  unfolding authorize_grant_def
  by (intro job_intros follows_recheck_grant) (simp_all split: sum.splits)

lemma field_changes_remediation [simp]:
  "field_changes (remediation_changes c fp n grant)" "field_changes (housekeeping_changes c r grant)"
  by (simp_all add: remediation_changes_def housekeeping_changes_def field_changes_def)

lemma follows_reviewRemediation:
  assumes "orderly (rr_launch rr)" "c \<in> H"
  shows "follows H (reviewRemediation rr dec c run ctx grant) (\<lambda>x. {x})"
proof -
  have "follows H (case remediation_choice rr tree c run grant of
           Remediation_refuse m \<Rightarrow> throw (Request_error m)
         | Remediation_stop s \<Rightarrow>
             and_then (run_stop (rr_launch rr) dec c s) (\<lambda>_.
             and_then (find_cycle c) (\<lambda>row. give (over row c)))
         | Remediation_none \<Rightarrow> give c
         | Remediate_with stalled \<Rightarrow>
             run_next (rr_launch rr) dec c Remediate (Some run) ctx
               (remediation_changes c fp stalled grant) a None) (\<lambda>x. {x})" for tree fp a
    by (cases "remediation_choice rr tree c run grant")
       (use assms in \<open>simp_all add: follows_stop_reread follows_next\<close>)
  then show ?thesis
    unfolding reviewRemediation_def Let_def
    by (intro job_intros follows_authorize_grant assms) simp_all
qed

lemma follows_inspect_for_grant: "orderly (rr_launch rr) \<Longrightarrow> follows H (inspect_for_grant rr) (\<lambda>_. {})"
  unfolding inspect_for_grant_def by (intro job_intros) simp_all

lemma follows_housekeeping:
  assumes "orderly (rr_launch rr)" "c \<in> H"
  shows "follows H (housekeeping rr dec c run reason ctx grant) (\<lambda>x. {x})"
proof (cases "decideHousekeeping c reason (map_option gr_additionalRounds grant)")
  case Housekeeping_remediate
  then show ?thesis
    unfolding housekeeping_def
    by (simp, intro job_intros follows_inspect_for_grant follows_recheck_grant follows_next assms)
       (use assms in simp_all)
qed (use assms in \<open>simp_all add: housekeeping_def follows_stop_reread\<close>)

lemma follows_grantRemediation:
  assumes "orderly (rr_launch rr)" "c \<in> H"
  shows "follows H (grantRemediation rr dec c run ctx g) (\<lambda>x. {x})"
  using assms
  by (auto simp: grantRemediation_def intro: follows_reviewRemediation follows_housekeeping
      split: grant_decision.split)

lemma follows_finalizing_check: "follows H (finalizing_check rr c) (\<lambda>_. {})"
  unfolding finalizing_check_def by (intro job_intros) simp_all

lemma follows_inspected: "follows H (inspected r) (\<lambda>_. {})"
  unfolding inspected_def by (rule follows_requiring)

lemma follows_inspect_checkpoint:
  "orderly (rr_launch rr) \<Longrightarrow> follows H (inspect_checkpoint rr tree c) (\<lambda>_. {})"
  unfolding inspect_checkpoint_def
  by (intro job_intros follows_finalizing_check follows_then_plain [OF follows_inspected]) simp_all

lemma follows_reserve_checkpoint:
  assumes "c \<in> H"
  shows "follows H (reserve_checkpoint rr dec run state c) (\<lambda>x. {x})"
  unfolding reserve_checkpoint_def
  by (intro job_intros follows_change assms restore_wf_plain) (use assms in simp_all)

lemma follows_commit_checkpoint:
  assumes "orderly (rr_launch rr)" "c \<in> H"
  shows "follows H (commit_checkpoint rr dec tree run c) (\<lambda>x. {x})"
  unfolding commit_checkpoint_def
  by (intro job_intros follows_finalizing_check follows_then_plain [OF follows_requiring] follows_change
      restore_wf_plain assms) simp_all

lemma follows_finish_checkpoint:
  assumes "orderly (rr_launch rr)" "c \<in> H"
  shows "follows H (finish_checkpoint rr dec tree run c) set_option"
  unfolding finish_checkpoint_def
  by (intro job_intros follows_finalizing_check follows_then_plain [OF follows_inspected]
      follows_then_row [OF follows_housekeeping] assms) (use assms in simp_all)

text \<open>The record at hand when the checkpoint ends, or the one its error met.\<close>

fun checkpoint_rows :: "(service_error \<times> work_cycle) + work_cycle option \<Rightarrow> work_cycle set" where
  "checkpoint_rows (Inl (e, c)) = {c}"
| "checkpoint_rows (Inr r) = set_option r"

lemma follows_checkpoint_body:
  assumes "orderly (rr_launch rr)" "c \<in> H"
  shows "follows H (checkpoint_body rr dec tree run c) checkpoint_rows"
proof -
  have finish: "follows H' (holding d (finish_checkpoint rr dec tree run d) (\<lambda>r. give (Inr r))) checkpoint_rows"
    if "d \<in> H'" for d H'
    by (rule cy.refines_holding [OF follows_finish_checkpoint])
       (use that assms(1) in \<open>auto intro!: cy.refines_give\<close>)
  have commit: "follows H' (holding d (commit_checkpoint rr dec tree run d)
      (\<lambda>c2. holding c2 (finish_checkpoint rr dec tree run c2) (\<lambda>r. give (Inr r)))) checkpoint_rows"
    if "d \<in> H'" for d H'
    by (rule cy.refines_holding [OF follows_commit_checkpoint])
       (use that assms(1) in \<open>auto intro!: finish\<close>)
  show ?thesis
    unfolding checkpoint_body_def
    by (rule cy.refines_holding [OF follows_inspect_checkpoint [OF assms(1)]];
        (rule follows_if)?;
        (rule finish cy.refines_holding [OF follows_reserve_checkpoint])?)
       (use assms in \<open>auto intro!: commit\<close>)
qed

lemma follows_checkpoint_failed: "follows H (checkpoint_failed rr dec c e d) set_option"
  unfolding checkpoint_failed_def
  by (intro job_intros follows_then_row [OF follows_stop]) simp_all

lemma follows_finalizeImplementation:
  assumes "orderly (rr_launch rr)" "c \<in> H"
  shows "follows H (finalizeImplementation rr dec c run) set_option"
  unfolding finalizeImplementation_def
  by (intro job_intros cy.refines_then [OF follows_checkpoint_body] follows_case_sum follows_checkpoint_failed)
     (use assms in simp_all)

end
