(* ===== verification/Remediation_Properties.thy ===== *)
theory Remediation_Properties
  imports Remediation
begin

text \<open>
  The bound on remediation: a launch of a review's remediation or of housekeeping spends one round
  of the allowance (\<open>remediationUsed\<close>, \<open>remediationAllowance\<close>), which an
  operator's grant extends.
\<close>


section \<open>The rounds a remediation spends\<close>

lemma spent_round:
  assumes "ch_finalizationProgress ch = Keep" "ch_policy ch = None"
    "ch_remediationRounds ch = Some (cy_remediationRounds c + 1)"
    "ch_additionalRemediationRounds ch = granted_rounds c grant"
  shows "remediationUsed (updated_cycle rd at k c ch) = remediationUsed c + 1"
    and "remediationAllowance (updated_cycle rd at k c ch)
      = remediationAllowance c + over (map_option gr_additionalRounds grant) 0"
proof -
  let ?u = "updated_cycle rd at k c ch"
  have "cy_finalizationProgress ?u = scaled_stages c ch" "cy_policy ?u = cy_policy c"
    "cy_remediationRounds ?u = cy_remediationRounds c + 1"
    "cy_additionalRemediationRounds ?u = edit_opt (granted_rounds c grant) (cy_additionalRemediationRounds c)"
    using assms by (simp_all add: updated_cycle_def Let_def apply_fields_def)
  then have "remediationUsed ?u = remediationUsed c + 1 \<and> remediationAllowance ?u
      = remediationAllowance c + over (map_option gr_additionalRounds grant) 0"
    using assms
    by (auto simp: remediationUsed_def remediationAllowance_def currentFinalizationStage_def scaled_stages_def
        Let_def nth_opt_def granted_rounds_def over_def split: option.splits if_splits)
  then show "remediationUsed ?u = remediationUsed c + 1"
    and "remediationAllowance ?u
      = remediationAllowance c + over (map_option gr_additionalRounds grant) 0"
    by blast+
qed

lemma run_next_wrote:
  assumes "run_next lr dec c st p ctx ch action actor db = (Inr c', db')" "c' \<noteq> c"
  obtains db1 where "next_run lr dec db1 c st p ctx ch action actor = Inr (Wrote db' c')"
proof -
  from assms(1) obtain db1 where "(case next_run lr dec db1 c st p ctx ch action actor of
        Inl (Launch_service e) \<Rightarrow> (Inl e, db1)
      | Inl (Launch_write e) \<Rightarrow> (Inl (write_failure e), db1)
      | Inr (Unchanged c') \<Rightarrow> (Inr c', db1)
      | Inr (Wrote db' c') \<Rightarrow> (Inr c', db')) = (Inr c', db')"
    by (auto simp: run_next_def and_then_def give_def awaiting_def split: if_splits)
  with assms(2) that show thesis
    by (auto split: sum.splits launch_error.splits write_result.splits dest: next_run_Unchanged)
qed

text \<open>A remediation's launch: one round more, and the allowance the grant extends.\<close>

lemma remediation_launched:
  assumes "run_next lr dec c Remediate (Some run) ctx ch action None db = (Inr c', db')" "c' \<noteq> c"
    and ch: "ch_finalizationProgress ch = Keep" "ch_policy ch = None"
      "ch_remediationRounds ch = Some (cy_remediationRounds c + 1)"
      "ch_additionalRemediationRounds ch = granted_rounds c grant" "ch_workflow ch = ended_review c"
  shows "cy_status c' = Running \<and> cy_step c' = Remediate \<and> cy_version c' = Suc (cy_version c)
    \<and> cy_currentRunId c' = lr_freshRunId lr \<and> cy_parentRunId c' = Some (run_id run)
    \<and> active_review_of c' = None
    \<and> remediationUsed c' = remediationUsed c + 1
    \<and> remediationAllowance c' = remediationAllowance c + over (map_option gr_additionalRounds grant) 0"
proof -
  from run_next_wrote [OF assms(1,2)] obtain db1 where
    n: "next_run lr dec db1 c Remediate (Some run) ctx ch action None = Inr (Wrote db' c')" .
  from next_run_Wrote [OF n] obtain head k where
    "change (lr_policy lr) (lr_now lr) dec db1 c
       (reservation lr c Remediate (Some run) k (ctx \<noteq> None) head (attested_changes lr c Remediate k ch))
       (over action (if ctx \<noteq> None then ''resume'' else ''advance'')) ctx [] = Inr (Wrote db' c')"
    by metis
  moreover have "attested_changes lr c Remediate k ch = ch"
    by (simp add: attested_changes_def split: option.splits)
  ultimately have c': "c' = updated_cycle (lr_policy lr) (lr_now lr) (ctx \<noteq> None) c
      (reservation lr c Remediate (Some run) k (ctx \<noteq> None) head ch)"
    using change_Wrote(1) by metis
  have r: "ch_finalizationProgress (reservation lr c Remediate (Some run) k m head ch) = ch_finalizationProgress ch"
    "ch_additionalRemediationRounds (reservation lr c Remediate (Some run) k m head ch)
      = ch_additionalRemediationRounds ch"
    "ch_workflow (reservation lr c Remediate (Some run) k m head ch) = ch_workflow ch" for m
    by (simp_all add: reservation_def)
  have "cy_workflow c' = edit_opt (ended_review c) (cy_workflow c)"
    unfolding c' using ch(5) by (simp add: updated_cycle_def Let_def apply_fields_def r)
  then have "active_review_of c' = None"
    by (auto simp: active_review_of_def ended_review_def present_def split: option.splits)
  moreover have "remediationUsed c' = remediationUsed c + 1"
    "remediationAllowance c' = remediationAllowance c + over (map_option gr_additionalRounds grant) 0"
    unfolding c' by (rule spent_round; simp add: r ch)+
  ultimately show ?thesis by (simp add: c' next_status_def)
qed


lemma granted_rounds_simps [simp]:
  "ch_additionalRemediationRounds (remediation_changes c fp n grant) = granted_rounds c grant"
  "ch_additionalRemediationRounds (housekeeping_changes c r grant) = granted_rounds c grant"
  "ch_remediationRounds (remediation_changes c fp n grant) = Some (cy_remediationRounds c + 1)"
  "ch_remediationRounds (housekeeping_changes c r grant) = Some (cy_remediationRounds c + 1)"
  "ch_finalizationProgress (remediation_changes c fp n grant) = Keep"
  "ch_finalizationProgress (housekeeping_changes c r grant) = Keep"
  "ch_policy (remediation_changes c fp n grant) = None" "ch_policy (housekeeping_changes c r grant) = None"
  "ch_workflow (remediation_changes c fp n grant) = ended_review c"
  "ch_workflow (housekeeping_changes c r grant) = ended_review c"
  by (simp_all add: remediation_changes_def housekeeping_changes_def no_changes_def)

text \<open>
  C33. A remediation spends exactly one round of its allowance: a review's remediation and
  housekeeping alike, with or without an operator's grant, launch the cycle's next run at the
  remediate step with the rounds used up by one, the allowance extended by what the grant adds and
  never exceeded, and the finished review's role ended with it. Nothing else is launched: the record
  is returned as it was when the launch was superseded.
\<close>

theorem remediation_spends_one_round:
  assumes "reviewRemediation rr dec c run ctx grant db = (Inr c', db')
      \<and> lr_worktree (rr_launch rr) = Some tree \<and> remediation_choice rr tree c run grant = Remediate_with n
    \<or> housekeeping rr dec c run reason ctx grant db = (Inr c', db')
      \<and> decideHousekeeping c reason (map_option gr_additionalRounds grant) = Housekeeping_remediate"
    and "c' \<noteq> c"
  shows "cy_status c' = Running \<and> cy_step c' = Remediate \<and> cy_version c' = Suc (cy_version c)
    \<and> cy_currentRunId c' = lr_freshRunId (rr_launch rr) \<and> cy_parentRunId c' = Some (run_id run)
    \<and> active_review_of c' = None
    \<and> remediationUsed c' = remediationUsed c + 1
    \<and> remediationAllowance c' = remediationAllowance c + over (map_option gr_additionalRounds grant) 0
    \<and> remediationUsed c' \<le> remediationAllowance c'"
proof -
  have below: "remediationUsed c < remediationAllowance c + over (map_option gr_additionalRounds grant) 0"
    using assms(1)
    by (auto simp: remediation_choice_def decideRemediation_def decideHousekeeping_def Let_def
        split: if_splits option.splits)
  from assms(1) obtain ch db1 a where
    "run_next (rr_launch rr) dec c Remediate (Some run) ctx ch a None db1 = (Inr c', db')"
    "ch_finalizationProgress ch = Keep" "ch_policy ch = None"
    "ch_remediationRounds ch = Some (cy_remediationRounds c + 1)"
    "ch_additionalRemediationRounds ch = granted_rounds c grant" "ch_workflow ch = ended_review c"
    by (auto simp: reviewRemediation_def housekeeping_def Let_def and_then_Inr
        split: if_splits)
  from remediation_launched [OF this(1) assms(2) this(2-)] below
  show ?thesis by simp
qed


lemma lone_launch:
  assumes "stop_wf c" "cy_status c = Paused" "cy_finalizationId c = None" "field_changes ch"
    "ch_finalizationAgentOverride ch = Keep" "st \<noteq> Review"
  shows "\<exists>db' c'. next_run quiet_launch None (lone c) c st p None ch a None = Inr (Wrote db' c')
    \<and> cy_status c' = Running"
proof -
  have k: "\<not> collecting_review quiet_launch c st p False ch"
    using assms(6) by (simp add: collecting_review_def resuming_review_def)
  have att: "attested_changes quiet_launch c st False ch = ch"
    using assms(6) by (simp add: attested_changes_def split: option.splits)
  have ref: "launch_refusal quiet_launch c st None ch None = None"
    using assms by (simp add: launch_refusal_def finalizationForCycle_def overridden_agent_check_def)
  have head: "review_head quiet_launch st p False = Inr None"
    using assms(6) by (simp add: review_head_def)
  let ?ch = "reservation quiet_launch c st p False False None ch"
  obtain db' where "change quiet_reads 5000 None (lone c) c ?ch (over a ''advance'') None []
      = Inr (Wrote db' (updated_cycle quiet_reads 5000 False c ?ch))"
    using lone_write [OF assms(1) reservation_acceptable [OF assms(4)], where action = "over a ''advance''"
        and ctx = None and rd = quiet_reads and at = 5000 and dec = None and extra = "[]"] assms(2)
    by (fastforce simp: next_status_def)
  moreover have "lr_policy quiet_launch = quiet_reads" "lr_now quiet_launch = 5000" "\<not> lr_stopping quiet_launch"
    by (simp_all add: quiet_launch_def)
  moreover have "map_option cy_version (cycles_find (db_rows (lone c)) (cycle_key c)) = Some (cy_version c)"
    by (simp add: lone_def cycles_find_def)
  ultimately show ?thesis
    by (simp add: next_run_def k head ref att next_status_def)
qed

definition quiet_remediation :: remediation_reads where
  "quiet_remediation = \<lparr>rr_launch = quiet_launch, rr_mergeReserved = False, rr_newestRun = None,
     rr_live = False, rr_findRun = (\<lambda>_. None), rr_lastTurn = (\<lambda>_. None), rr_assessment = (\<lambda>_. None),
     rr_scopedReviewIssue = (\<lambda>_ _. None), rr_digest = (\<lambda>_ _ _. []), rr_changes = (\<lambda>_. Inl []),
     rr_ready = None, rr_available = None, rr_repository = True, rr_repositoryBusy = False,
     rr_activeEditor = True, rr_enter = None, rr_commit = (\<lambda>_ _ _. Inl []), rr_changesAfter = (\<lambda>_. Inl [])\<rparr>"

theorem remediation_spends_one_round_witness:
  "\<exists>c' db'. housekeeping quiet_remediation None held_review sample_run ''tidy'' None None (lone held_review)
       = (Inr c', db') \<and> remediationUsed c' = 1 \<and> remediationUsed c' \<le> remediationAllowance c'"
proof -
  let ?ch = "housekeeping_changes held_review ''tidy'' None"
  have "stop_wf held_review" by (simp add: stop_wf_def carries_iff held_review_def)
  moreover have "ch_finalizationAgentOverride ?ch = Keep"
    by (simp add: housekeeping_changes_def granted_agent_def)
  ultimately obtain db' c' where n: "next_run quiet_launch None (lone held_review) held_review Remediate
      (Some sample_run) None ?ch None None = Inr (Wrote db' c')" and r: "cy_status c' = Running"
    using lone_launch [of held_review ?ch Remediate "Some sample_run" None] by (auto simp: held_review_def)
  have d: "decideHousekeeping held_review ''tidy'' None = Housekeeping_remediate"
    and u: "remediationUsed held_review = 0"
    by (simp_all add: decideHousekeeping_def Let_def held_review_def remediationUsed_def
        remediationAllowance_def currentFinalizationStage_def default_completion_policy_def)
  have h: "housekeeping quiet_remediation None held_review sample_run ''tidy'' None None (lone held_review)
      = (Inr c', db')"
    using d n by (simp add: housekeeping_def run_next_def and_then_def give_def quiet_remediation_def)
  have "c' \<noteq> held_review" using r by (auto simp: held_review_def)
  with remediation_spends_one_round [of quiet_remediation None held_review sample_run None None
      "lone held_review" c' db' sample_worktree 0 "''tidy''"] h d u
  show ?thesis by simp
qed

end
