(* ===== verification/Owner.thy ===== *)
theory Owner
  imports Remediation
begin

text \<open>
  The owning roadmap's answers a cycle's effects ask for (\<open>OwnerPolicy\<close> of
  \<open>services/roadmap/owner-policy.ts\<close>), and the rules over them: who authorizes an integration
  refresh (\<open>refreshOwner\<close>, \<open>onlyOperatorCanAdvance\<close> of \<open>core/facts.ts\<close>) and a
  controller review (\<open>controllerReviewRunnable\<close>, \<open>reviewAuthorityMissing\<close>,
  \<open>securityReviewCurrent\<close> of \<open>workflow-policy.ts\<close>). The roadmap record is read only
  through these answers.
\<close>

section \<open>The owner's answers\<close>

datatype roadmap_status =
    Rm_draft | Rm_running | Rm_paused | Rm_needs_attention | Rm_stopped | Rm_completed

datatype roadmap_attempt_status = Ra_preparing | Ra_active | Ra_completed

datatype entry_hold = Hold_paused | Hold_needs_attention

record roadmap_scheduling =
  sch_parallel :: bool \<comment> \<open>\<open>mode === 'parallel'\<close>\<close>
  sch_maxInFlight :: nat
  sch_maxPerRepository :: nat
  sch_maxIntegrationRefreshes :: nat

definition default_roadmap_scheduling :: roadmap_scheduling where
  "default_roadmap_scheduling = \<lparr>sch_parallel = False, sch_maxInFlight = 2,
     sch_maxPerRepository = 2, sch_maxIntegrationRefreshes = 3\<rparr>"

record roadmap_automation =
  ra_mergeAutomatic :: bool
  ra_conflictsAutomatic :: bool

definition default_roadmap_automation :: roadmap_automation where
  "default_roadmap_automation = \<lparr>ra_mergeAutomatic = False, ra_conflictsAutomatic = False\<rparr>"

record workflow_delegation =
  wd_roadmapId :: string
  wd_definitionRevision :: nat
  wd_roles :: "string list"
  wd_runnable :: bool

record owner_policy =
  op_roadmapId :: string
  op_parallel :: bool
  op_entryIndex :: int \<comment> \<open>the entry's place in the current order, -1 when it is not in it\<close>
  op_attemptStatus :: roadmap_attempt_status
  op_status :: roadmap_status
  op_crossProject :: bool
  op_entryHold :: "entry_hold option"
  op_isRound :: bool
  op_roundSourceHold :: "entry_hold option"
  op_roundCarried :: bool
  op_binding :: "(string \<times> string) option" \<comment> \<open>the integration branch and the repository\<close>
  op_delegation :: "(roadmap_scheduling option \<times> roadmap_automation) option"
  op_reviewers :: "workflow_delegation option"
  op_delegator :: "command_context option"

text \<open>What the rules read of storage for one cycle.\<close>

record owner_reads =
  or_launch :: launch_reads
  or_owner :: "owner_policy option"
  or_creatorEditor :: "command_context option" \<comment> \<open>\<open>activeEditor\<close> of the cycle's creator\<close>
  or_findRun :: "string \<Rightarrow> agent_run option"
  or_runtimeChanges :: "agent_run \<Rightarrow> bool" \<comment> \<open>some runtime input changed since that run\<close>

definition default_owner_automation :: "owner_policy \<Rightarrow> roadmap_automation" where
  "default_owner_automation ow =
     (case op_delegation ow of None \<Rightarrow> default_roadmap_automation | Some (s, a) \<Rightarrow> a)"

definition owner_scheduling :: "owner_policy \<Rightarrow> roadmap_scheduling" where
  "owner_scheduling ow =
     (case op_delegation ow of
        Some (Some s, a) \<Rightarrow> s
      | _ \<Rightarrow> default_roadmap_scheduling)"

section \<open>Who authorizes a refresh from integration\<close>

definition hold_applies :: "bool \<Rightarrow> entry_hold option \<Rightarrow> bool" where
  "hold_applies launching hold =
     (case hold of None \<Rightarrow> False | Some h \<Rightarrow> \<not> launching \<or> h \<noteq> Hold_paused)"

definition refresh_scheduled :: "work_cycle \<Rightarrow> owner_policy \<Rightarrow> bool \<Rightarrow> bool" where
  "refresh_scheduled c ow launching =
     ((if launching
       then cy_status c = Running \<and> op_status ow \<in> {Rm_running, Rm_paused, Rm_needs_attention}
       else op_status ow = Rm_running)
      \<and> \<not> hold_applies launching (op_entryHold ow)
      \<and> \<not> hold_applies launching (op_roundSourceHold ow))"

definition refreshOwner ::
    "owner_reads \<Rightarrow> work_cycle \<Rightarrow> bool
     \<Rightarrow> service_error + (roadmap_scheduling \<times> command_context) option" where
  "refreshOwner rd c launching =
     (case finalizationForCycle (or_launch rd) c of
        Inl e \<Rightarrow> Inl e
      | Inr (Some v) \<Rightarrow>
          (case or_creatorEditor rd of
             None \<Rightarrow> Inl (Typed_refusal Authority_lost ''Finalization authority was revoked'' None)
           | Some user \<Rightarrow>
               Inr (Some (default_roadmap_scheduling\<lparr>sch_maxIntegrationRefreshes := 3\<rparr>, user)))
      | Inr None \<Rightarrow>
          (case or_owner rd of
             None \<Rightarrow> Inr None
           | Some ow \<Rightarrow>
               if op_attemptStatus ow \<noteq> Ra_active \<or> \<not> refresh_scheduled c ow launching
                  \<or> (op_isRound ow \<and> \<not> op_roundCarried ow)
               then Inr None
               else if (case (op_binding ow, lr_worktree (or_launch rd)) of
                          (Some (branch, repository), Some tree) \<Rightarrow>
                            wt_integrationBranch tree \<noteq> Some branch \<or> wt_repositoryId tree \<noteq> repository
                        | _ \<Rightarrow> True)
               then Inl (Typed_refusal Roadmap_binding_changed
                 ''The roadmap worktree branch binding changed. Reconcile it before resuming.'' None)
               else
                 let settings = owner_scheduling ow; automation = default_owner_automation ow in
                 if \<not> sch_parallel settings \<and> \<not> ra_mergeAutomatic automation
                    \<and> \<not> ra_conflictsAutomatic automation
                 then Inr None
                 else (case op_delegator ow of
                         None \<Rightarrow> Inl (Typed_refusal Delegation_authority_lost
                           ''The roadmap initiating user no longer has permission.'' None)
                       | Some user \<Rightarrow> Inr (Some (settings, user)))))"

section \<open>Who authorizes a controller review\<close>

definition workflowDelegation :: "owner_reads \<Rightarrow> workflow_delegation option" where
  "workflowDelegation rd = (case or_owner rd of None \<Rightarrow> None | Some ow \<Rightarrow> op_reviewers ow)"

definition controllerReviewRunnable :: "owner_reads \<Rightarrow> bool" where
  "controllerReviewRunnable rd =
     (case workflowDelegation rd of Some d \<Rightarrow> wd_runnable d | None \<Rightarrow> or_owner rd = None)"

definition reviewAuthorityMissing :: "owner_reads \<Rightarrow> review_authority option" where
  "reviewAuthorityMissing rd =
     (case or_owner rd of
        None \<Rightarrow> None
      | Some ow \<Rightarrow>
          if workflowDelegation rd \<noteq> None then None
          else Some (if op_crossProject ow then Delegation_unreadable else No_delegation))"

text \<open>A specialist receipt follows the candidate, the policy and the runtime inputs it consumed.\<close>

definition same_candidate :: "security_receipt \<Rightarrow> review_branch_context \<Rightarrow> review_branch_context \<Rightarrow> bool" where
  "same_candidate receipt old current =
     (sr_headSha receipt = rbc_headSha current \<and> sr_targetSha receipt = rbc_targetSha current
      \<and> rbc_headSha old = rbc_headSha current \<and> rbc_targetSha old = rbc_targetSha current
      \<and> rbc_targetBranch old = rbc_targetBranch current
      \<and> rbc_worktreeVersion old = rbc_worktreeVersion current
      \<and> rbc_repositoryPolicyVersion old = rbc_repositoryPolicyVersion current)"

definition securityReviewCurrent :: "owner_reads \<Rightarrow> work_cycle \<Rightarrow> agent_run \<Rightarrow> bool" where
  "securityReviewCurrent rd c review =
     (case (case cy_workflow c of None \<Rightarrow> None | Some w \<Rightarrow> wf_securityReceipt w) of
        None \<Rightarrow> False
      | Some receipt \<Rightarrow>
          (case or_findRun rd (sr_runId receipt) of
             None \<Rightarrow> False
           | Some security \<Rightarrow>
               (case (run_reviewBranchContext security, run_reviewBranchContext review) of
                  (Some old, Some current) \<Rightarrow>
                    run_status security = Run_finished \<and> run_role security = Role_review
                    \<and> run_verdict security = Some Mergeable
                    \<and> run_worktreeId security = cy_worktreeId c
                    \<and> same_candidate receipt old current
                    \<and> (cy_executionScope c = None \<or> \<not> or_runtimeChanges rd security)
                | _ \<Rightarrow> False)))"

definition onlyOperatorCanAdvance :: "owner_reads \<Rightarrow> work_cycle \<Rightarrow> bool" where
  "onlyOperatorCanAdvance rd c =
     (case refreshOwner rd c False of
        Inl e \<Rightarrow> False
      | Inr (Some ow) \<Rightarrow> False
      | Inr None \<Rightarrow>
          (case (scope_kind_of c, cy_workflow c) of
             (Some Slice, Some w) \<Rightarrow>
               (case workflowDelegation rd of
                  Some d \<Rightarrow> \<not> wd_runnable d
                | None \<Rightarrow>
                    wf_securityRequired w \<noteq> Some True
                    \<or> (case or_findRun rd (cy_currentRunId c) of
                         None \<Rightarrow> True
                       | Some review \<Rightarrow>
                           securityReviewCurrent rd c review \<or> \<not> controllerReviewRunnable rd))
           | _ \<Rightarrow> True))"

end
