(* ===== verification/Integration.thy ===== *)
theory Integration
  imports Owner Commands
begin

text \<open>
  The integration effects (\<open>apps/server/src/services/cycle/effects/integration.ts\<close>): a refresh
  from the integration branch, with its bounded reservation and the restore of a refresh that met
  contention, and a conflict resolution's command and steps. The Git operations and the worktree
  mutation of \<open>branch-service.ts\<close> are the record \<open>integration_reads\<close>; what is asked again
  after an await is indexed by the ask.
\<close>

section \<open>What the effects read\<close>

record merge_input =
  mi_worktreePath :: string
  mi_branchName :: string
  mi_headSha :: string
  mi_targetSha :: string

record resolution_state =
  rst_headSha :: string
  rst_mergeHeadSha :: "string option"
  rst_conflicts :: "string list"
  rst_untracked :: "string list"
  rst_unstaged :: bool
  rst_treeSha :: "string option"

record integration_reads =
  ig_launch :: launch_reads
  ig_refreshing :: bool \<comment> \<open>a refresh of this cycle is under way\<close>
  ig_owner :: "nat \<Rightarrow> owner_reads"
  ig_editor :: "nat \<Rightarrow> string \<Rightarrow> bool" \<comment> \<open>\<open>activeEditor\<close> in the cycle's workspace\<close>
  ig_live :: "nat \<Rightarrow> bool" \<comment> \<open>a live run in the worktree\<close>
  ig_busy :: "nat \<Rightarrow> bool" \<comment> \<open>the repository's merge lock is taken\<close>
  ig_treeActive :: bool \<comment> \<open>the worktree is still active after the probe\<close>
  ig_resolveBranch :: "string \<Rightarrow> string \<Rightarrow> string + string"
  ig_inspect :: "string \<Rightarrow> string + repository_state"
  ig_isAncestor :: "string \<Rightarrow> string \<Rightarrow> string + bool"
  ig_updateRefusal :: "nat \<Rightarrow> service_error option"
  ig_repository :: bool
  ig_treeBusy :: "service_error option" \<comment> \<open>the worktree's mutation guard\<close>
  ig_ready :: "service_error option"
  ig_validateResolution :: "service_error option"
  ig_assignment :: "(string \<times> agent_selections) option"
  ig_owned :: bool
  ig_findRun :: "string \<Rightarrow> agent_run option"
  ig_preview :: "merge_input \<Rightarrow> string + (string list \<times> string)"
  ig_abort :: "merge_input \<Rightarrow> string option"
  ig_prepare :: "merge_input \<Rightarrow> string + string list"
  ig_resolution :: "merge_input \<Rightarrow> string + resolution_state"
  ig_finish :: "merge_input \<Rightarrow> string \<Rightarrow> string \<Rightarrow> string + string"
  ig_freshResolutionId :: string

text \<open>A failed Git result as \<open>branch-service.ts\<close> throws it.\<close>

fun git_value :: "string + 'a \<Rightarrow> service_error + 'a" where
  "git_value (Inl m) = Inl (Typed_refusal Worktree_state m None)"
| "git_value (Inr x) = Inr x"

fun git_conflict :: "string + 'a \<Rightarrow> service_error + 'a" where
  "git_conflict (Inl m) = Inl (Request_error m)"
| "git_conflict (Inr x) = Inr x"

section \<open>The refresh\<close>

text \<open>
  \<open>integrationAdvanced\<close>: whether the integration branch moved past the worktree or the review.
  \<open>None\<close>: the repository's mutation lane is taken.
\<close>

definition integrationAdvanced ::
    "integration_reads \<Rightarrow> worktree \<Rightarrow> agent_run option \<Rightarrow> (cycle_db, bool option) job" where
  "integrationAdvanced ig tree reviewed =
     (case wt_integrationBranch tree of
        None \<Rightarrow> throw (Request_error ''Worktree has no integration branch.'')
      | Some branch \<Rightarrow>
          if \<not> ig_repository ig then throw not_found
          else if ig_busy ig 0 then give None
          else and_then (awaiting (ig_launch ig) ''integration-probe'') (\<lambda>_.
            if ig_busy ig 1 \<or> \<not> ig_treeActive ig then give None
            else and_then (requiring (git_value (ig_resolveBranch ig (wt_path tree) branch))) (\<lambda>target.
              and_then (requiring (git_value (ig_inspect ig (wt_path tree)))) (\<lambda>state.
              and_then (awaiting (ig_launch ig) ''integration-ancestor'') (\<lambda>_.
              and_then (requiring (git_value (ig_isAncestor ig target (rs_headSha state)))) (\<lambda>merged.
                give (Some (\<not> merged
                  \<or> (case (case reviewed of None \<Rightarrow> None | Some r \<Rightarrow> run_reviewBranchContext r) of
                       None \<Rightarrow> False | Some b \<Rightarrow> rbc_targetSha b \<noteq> target)))))))))"

definition refresh_superseded :: service_error where
  "refresh_superseded = Request_error ''Integration refresh was superseded by an operator command.''"

definition no_permission :: service_error where
  "no_permission = Request_error ''The initiating user no longer has permission to run this cycle.''"

text \<open>The check around the Git update, at its n-th ask.\<close>

definition refresh_check ::
    "integration_reads \<Rightarrow> work_cycle \<Rightarrow> bool \<Rightarrow> nat \<Rightarrow> (cycle_db, unit) job" where
  "refresh_check ig reserved launching n =
     and_then (find_cycle reserved) (\<lambda>latest.
       if lr_stopping (ig_launch ig)
          \<or> map_option cy_version latest \<noteq> Some (cy_version reserved)
          \<or> map_option cy_status latest \<noteq> Some Running
       then throw refresh_superseded
       else case refreshOwner (ig_owner ig n) reserved launching of
              Inl e \<Rightarrow> throw e
            | Inr None \<Rightarrow> throw refresh_superseded
            | Inr (Some v) \<Rightarrow>
                if ig_editor ig n (cy_createdByUserId reserved) then give () else throw no_permission)"

text \<open>
  \<open>changeWorktree\<close>, as far as a refresh goes through it: its refusals, its two calls of the
  check, and the merge's own failure. It writes no cycle.
\<close>

definition update_worktree ::
    "integration_reads \<Rightarrow> work_cycle \<Rightarrow> bool \<Rightarrow> (cycle_db, unit) job" where
  "update_worktree ig reserved launching =
     and_then (unless_error (ig_updateRefusal ig 0)) (\<lambda>_.
     and_then (if ig_busy ig 2 then throw Repository_busy else give ()) (\<lambda>_.
     and_then (unless_error (ig_treeBusy ig)) (\<lambda>_.
     and_then (refresh_check ig reserved launching 3) (\<lambda>_.
     and_then (unless_error (ig_updateRefusal ig 1)) (\<lambda>_.
     and_then (awaiting (ig_launch ig) ''update-inspect'') (\<lambda>_.
     and_then (unless_error (ig_updateRefusal ig 2)) (\<lambda>_.
     and_then (refresh_check ig reserved launching 4) (\<lambda>_.
     and_then (unless_error (ig_updateRefusal ig 3)) (\<lambda>_.
     and_then (awaiting (ig_launch ig) ''update'') (\<lambda>_.
     unless_error (ig_updateRefusal ig 4)))))))))))"

text \<open>Contention undoes the reservation: the status, its stop, the count and the reason as they were.\<close>

definition refresh_undone :: "work_cycle \<Rightarrow> cycle_changes" where
  "refresh_undone c = (restoredStatus c)
     \<lparr>ch_integrationRefreshes := (case cy_integrationRefreshes c of None \<Rightarrow> Drop | Some n \<Rightarrow> Put n),
      ch_reason := Some (cy_reason c)\<rparr>"

definition detected_resolution :: "integration_reads \<Rightarrow> conflict_details \<Rightarrow> integration_resolution" where
  "detected_resolution ig d =
     \<lparr>ir_runIds = None, ir_id = ig_freshResolutionId ig, ir_status = Res_detected,
      ir_headSha = cf_headSha d, ir_targetSha = cf_targetSha d, ir_targetBranch = cf_targetBranch d,
      ir_paths = cf_paths d, ir_diagnostics = cf_diagnostics d,
      ir_createdAt = lr_now (ig_launch ig), ir_attempts = 0, ir_profile = None,
      ir_instructions = None, ir_treeSha = None, ir_commitSha = None\<rparr>"

definition refresh_stopped ::
    "integration_reads \<Rightarrow> effect_stop \<Rightarrow> conflict_details option \<Rightarrow> cycle_changes" where
  "refresh_stopped ig s found = no_changes
     \<lparr>ch_status := Some Needs_attention, ch_attention := Some (make_attention (es_code s) None None None None),
      ch_reason := Some (es_message s),
      ch_integrationResolution :=
        (case found of None \<Rightarrow> Keep | Some d \<Rightarrow> Put (detected_resolution ig d))\<rparr>"

definition refresh_failed ::
    "integration_reads \<Rightarrow> decision_scope option \<Rightarrow> work_cycle \<Rightarrow> work_cycle \<Rightarrow> service_error
     \<Rightarrow> (cycle_db, bool) job" where
  "refresh_failed ig dec c reserved e =
     and_then (find_cycle c) (\<lambda>latest.
       case latest of
         None \<Rightarrow> give True
       | Some l \<Rightarrow>
           if cy_version l \<noteq> cy_version reserved \<or> cy_status l \<noteq> Running then give True
           else (case refreshFailure e of
                   Refresh_restore \<Rightarrow>
                     and_then (run_change (ig_launch ig) dec l (refresh_undone c) ''advance'' None) (\<lambda>_. give True)
                 | Refresh_stop s found \<Rightarrow>
                     if lr_stopping (ig_launch ig) then give True
                     else and_then (run_change (ig_launch ig) dec l (refresh_stopped ig s found) ''advance'' None)
                            (\<lambda>_. give True)))"

definition refresh_reserved ::
    "integration_reads \<Rightarrow> decision_scope option \<Rightarrow> work_cycle \<Rightarrow> work_cycle \<Rightarrow> agent_run option \<Rightarrow> bool
     \<Rightarrow> (cycle_db, bool) job" where
  "refresh_reserved ig dec c reserved parent launching =
     catch_with
       (and_then (refresh_check ig reserved launching 2) (\<lambda>_.
        and_then (update_worktree ig reserved launching) (\<lambda>_.
        and_then (refresh_check ig reserved launching 5) (\<lambda>_.
        and_then (run_next (ig_launch ig) dec reserved Review parent None no_changes None None) (\<lambda>_.
          give True)))))
       (refresh_failed ig dec c reserved)"

definition refresh_due ::
    "integration_reads \<Rightarrow> decision_scope option \<Rightarrow> work_cycle \<Rightarrow> agent_run option \<Rightarrow> bool
     \<Rightarrow> roadmap_scheduling \<Rightarrow> (cycle_db, bool) job" where
  "refresh_due ig dec c parent launching settings =
     and_then (find_cycle c) (\<lambda>current.
       if lr_stopping (ig_launch ig) \<or> map_option cy_version current \<noteq> Some (cy_version c)
       then give True
       else case refreshOwner (ig_owner ig 1) c launching of
              Inl e \<Rightarrow> throw e
            | Inr None \<Rightarrow> give True
            | Inr (Some v) \<Rightarrow>
                (case decideRefresh (over (cy_integrationRefreshes c) 0) (sch_maxIntegrationRefreshes settings) of
                   Some s \<Rightarrow> and_then (run_stop (ig_launch ig) dec c s) (\<lambda>_. give True)
                 | None \<Rightarrow>
                     and_then (run_change (ig_launch ig) dec c (cwr_changes (decideRefreshReservation c)) ''advance'' None)
                       (\<lambda>reserved. refresh_reserved ig dec c reserved parent launching)))"

text \<open>Whether the effect is over: the refresh started, waits or stopped the cycle.\<close>

definition performIntegrationRefresh ::
    "integration_reads \<Rightarrow> decision_scope option \<Rightarrow> work_cycle \<Rightarrow> agent_run option \<Rightarrow> bool
     \<Rightarrow> (cycle_db, bool) job" where
  "performIntegrationRefresh ig dec c parent launching =
     and_then (requiring (refreshOwner (ig_owner ig 0) c launching)) (\<lambda>owner.
       case (owner, lr_worktree (ig_launch ig)) of
         (Some (settings, user), Some tree) \<Rightarrow>
           if ig_live ig 0 then give False
           else and_then (integrationAdvanced ig tree
                   (if cy_step c = Review \<and> map_option run_id parent = Some (cy_currentRunId c)
                    then parent else None)) (\<lambda>advanced.
             case advanced of
               None \<Rightarrow> give True
             | Some moved \<Rightarrow>
                 if moved then refresh_due ig dec c parent launching settings else give False)
       | _ \<Rightarrow> give False)"

definition refreshIntegration ::
    "integration_reads \<Rightarrow> decision_scope option \<Rightarrow> work_cycle \<Rightarrow> agent_run option \<Rightarrow> bool
     \<Rightarrow> (cycle_db, bool) job" where
  "refreshIntegration ig dec c parent launching =
     (if ig_refreshing ig then give True
      else performIntegrationRefresh ig dec c parent launching)"

section \<open>A conflict resolution\<close>

text \<open>\<open>forAbort\<close>: aborting the owned merge needs no binding, only the worktree.\<close>

definition resolutionContext :: "integration_reads \<Rightarrow> work_cycle \<Rightarrow> bool \<Rightarrow> service_error + merge_input" where
  "resolutionContext ig c forAbort =
     (case (lr_worktree (ig_launch ig), cy_integrationResolution c) of
        (Some tree, Some r) \<Rightarrow>
          if wt_status tree \<noteq> Tree_active
             \<or> (\<not> forAbort \<and> wt_integrationBranch tree \<noteq> Some (ir_targetBranch r))
          then Inl (Typed_refusal Worktree_state ''Resolution worktree or integration binding changed'' None)
          else Inr \<lparr>mi_worktreePath = wt_path tree, mi_branchName = wt_branchName tree,
                    mi_headSha = ir_headSha r, mi_targetSha = ir_targetSha r\<rparr>
      | _ \<Rightarrow> Inl (Typed_refusal Worktree_state ''Resolution worktree or integration binding changed'' None))"

definition resolution_check ::
    "integration_reads \<Rightarrow> work_cycle \<Rightarrow> string \<Rightarrow> nat \<Rightarrow> (cycle_db, unit) job" where
  "resolution_check ig c actingFor n =
     and_then (find_cycle c) (\<lambda>saved.
       if lr_stopping (ig_launch ig) \<or> map_option cy_version saved \<noteq> Some (cy_version c)
          \<or> \<not> ig_editor ig n actingFor
       then throw (Request_error ''Resolution was superseded or delegation was revoked'')
       else if ig_live ig n
       then throw (Typed_refusal Worktree_state
         ''End the active agent session before changing resolution state'' None)
       else give ())"

text \<open>Under the repository's merge lock and the worktree's guard, after the first check.\<close>

definition resolutionMutation ::
    "integration_reads \<Rightarrow> work_cycle \<Rightarrow> string \<Rightarrow> (cycle_db, 'a) job \<Rightarrow> (cycle_db, 'a) job" where
  "resolutionMutation ig c actingFor operation =
     (if lr_worktree (ig_launch ig) = None \<or> \<not> ig_repository ig \<or> \<not> lr_git (ig_launch ig)
      then throw not_found
      else if ig_busy ig 0 then throw Repository_busy
      else and_then (unless_error (ig_treeBusy ig)) (\<lambda>_.
           and_then (resolution_check ig c actingFor 0) (\<lambda>_. operation)))"

text \<open>The step's attempt ends with the step a resolution replaces.\<close>

definition new_step_attempt :: attempt_changes where
  "new_step_attempt = no_attempt_changes
     \<lparr>ac_housekeepingInstructions := Put [], ac_resultContinuations := Put 0,
      ac_providerRecovery := Put None, ac_outputRepair := Put None\<rparr>"

definition cycle_deadline :: "integration_reads \<Rightarrow> work_cycle \<Rightarrow> time" where
  "cycle_deadline ig c = deadline (lr_now (ig_launch ig)) (maxRunMinutes (cy_policy c))"

subsection \<open>The controller's steps\<close>

definition resolution_ready :: "integration_resolution \<Rightarrow> resolution_state \<Rightarrow> bool" where
  "resolution_ready r s =
     (rst_headSha s = ir_headSha r \<and> rst_mergeHeadSha s = Some (ir_targetSha r)
      \<and> rst_conflicts s = [] \<and> rst_untracked s = [] \<and> \<not> rst_unstaged s \<and> truthy (rst_treeSha s))"

definition resolution_not_ready :: service_error where
  "resolution_not_ready = Typed_refusal Resolution_not_ready
     ''Resolution is not ready: resolve and stage all changes, clear generated files, and keep the pinned merge pending. Resume with guidance.'' None"

definition resolution_write ::
    "integration_reads \<Rightarrow> decision_scope option \<Rightarrow> work_cycle \<Rightarrow> integration_resolution \<Rightarrow> string
     \<Rightarrow> string \<Rightarrow> (cycle_db, work_cycle) job" where
  "resolution_write ig dec c r reason action =
     run_change (ig_launch ig) dec c
       (no_changes\<lparr>ch_integrationResolution := Put r, ch_reason := Some reason\<rparr>) action None"

definition advance_preparing ::
    "integration_reads \<Rightarrow> decision_scope option \<Rightarrow> work_cycle \<Rightarrow> integration_resolution \<Rightarrow> merge_input
     \<Rightarrow> (cycle_db, unit) job" where
  "advance_preparing ig dec c r input =
     and_then (awaiting (ig_launch ig) ''resolution-prepare'') (\<lambda>_.
     and_then (requiring (git_value (ig_prepare ig input))) (\<lambda>conflicts.
     and_then (resolution_check ig c (cy_createdByUserId c) 1) (\<lambda>_.
     and_then (resolution_write ig dec c (r\<lparr>ir_status := Res_resolving, ir_paths := conflicts\<rparr>)
         ''Agent resolving the pinned integration update before a fresh review.'' ''resolution-prepared'')
       (\<lambda>_. give ()))))"

definition advance_resolving ::
    "integration_reads \<Rightarrow> decision_scope option \<Rightarrow> work_cycle \<Rightarrow> integration_resolution \<Rightarrow> merge_input
     \<Rightarrow> (cycle_db, unit) job" where
  "advance_resolving ig dec c r input =
     and_then (awaiting (ig_launch ig) ''resolution-inspect'') (\<lambda>_.
     and_then (requiring (git_value (ig_resolution ig input))) (\<lambda>state.
       if \<not> resolution_ready r state then throw resolution_not_ready
       else and_then (resolution_check ig c (cy_createdByUserId c) 1) (\<lambda>_.
            and_then (resolution_write ig dec c
                (r\<lparr>ir_status := Res_committing, ir_treeSha := rst_treeSha state\<rparr>)
                ''Recording the verified resolution tree before the daemon commits the integration update.''
                ''resolution-commit-reserved'')
              (\<lambda>_. give ()))))"

definition advance_committing ::
    "integration_reads \<Rightarrow> decision_scope option \<Rightarrow> work_cycle \<Rightarrow> integration_resolution \<Rightarrow> merge_input
     \<Rightarrow> (cycle_db, unit) job" where
  "advance_committing ig dec c r input =
     (if \<not> truthy (ir_treeSha r) then throw (Request_error ''Missing resolution tree reservation'')
      else and_then (awaiting (ig_launch ig) ''resolution-finish'') (\<lambda>_.
           and_then (requiring (git_value (ig_finish ig input (the (ir_treeSha r)) (ir_id r)))) (\<lambda>sha.
           and_then (resolution_check ig c (cy_createdByUserId c) 1) (\<lambda>_.
           and_then (resolution_write ig dec c (r\<lparr>ir_status := Res_completed, ir_commitSha := Some sha\<rparr>)
               ''Integration conflict resolved. A fresh review of the combined changes is required.''
               ''resolution-completed'') (\<lambda>changed.
           and_then (run_next (ig_launch ig) dec changed Review (ig_findRun ig (cy_currentRunId c)) None
               no_changes None None) (\<lambda>_. give ()))))))"

definition advanceResolution ::
    "integration_reads \<Rightarrow> decision_scope option \<Rightarrow> work_cycle \<Rightarrow> (cycle_db, unit) job" where
  "advanceResolution ig dec c =
     (case cy_integrationResolution c of
        None \<Rightarrow> throw not_found
      | Some r \<Rightarrow>
          if \<not> lr_git (ig_launch ig) then throw not_found
          else resolutionMutation ig c (cy_createdByUserId c)
            (and_then (requiring (resolutionContext ig c False)) (\<lambda>input.
               case ir_status r of
                 Res_preparing \<Rightarrow> advance_preparing ig dec c r input
               | Res_resolving \<Rightarrow> advance_resolving ig dec c r input
               | Res_committing \<Rightarrow> advance_committing ig dec c r input
               | _ \<Rightarrow> give ())))"

section \<open>The effects as paths of the cycle store\<close>

lemma follows_integrationAdvanced:
  "orderly (ig_launch ig) \<Longrightarrow> follows H (integrationAdvanced ig tree reviewed) (\<lambda>_. {})"
  unfolding integrationAdvanced_def
  by (intro asked_intros) simp_all

lemma follows_refresh_check: "follows H (refresh_check ig c launching n) (\<lambda>_. {})"
  unfolding refresh_check_def
  by (intro asked_intros follows_case_sum) simp_all

lemma follows_update_worktree:
  "orderly (ig_launch ig) \<Longrightarrow> follows H (update_worktree ig c launching) (\<lambda>_. {})"
  unfolding update_worktree_def
  by (intro asked_intros follows_refresh_check) simp_all

lemma restore_wf_undone: "stop_wf c \<Longrightarrow> restore_wf (refresh_undone c)"
  by (auto simp: restore_wf_def refresh_undone_def restoredStatus_def stop_wf_def split: option.splits cycle_stop.splits)

lemma follows_case_refresh:
  "follows H m R \<Longrightarrow> (\<And>s d. follows H (n s d) R)
   \<Longrightarrow> follows H (case x of Refresh_restore \<Rightarrow> m | Refresh_stop s d \<Rightarrow> n s d) R"
  by (cases x) simp_all

lemma follows_refresh_failed:
  assumes "stop_wf c"
  shows "follows H (refresh_failed ig dec c reserved e) (\<lambda>_. {})"
proof -
  have stopped: "restore_wf (refresh_stopped ig s d)" for s d
    by (simp add: restore_wf_plain refresh_stopped_def)
  show ?thesis
    unfolding refresh_failed_def
    by (intro asked_intros follows_case_refresh follows_then_row [OF follows_change])
       (simp_all add: restore_wf_undone assms stopped)
qed

lemma follows_refresh_reserved:
  assumes "orderly (ig_launch ig)" "stop_wf c" "reserved \<in> H"
  shows "follows H (refresh_reserved ig dec c reserved parent launching) (\<lambda>_. {})"
  unfolding refresh_reserved_def
  by (rule cy.refines_catch [OF _ follows_refresh_failed [OF assms(2)]],
      intro asked_intros follows_refresh_check follows_update_worktree follows_then_row [OF follows_next])
     (use assms in simp_all)

lemma follows_refresh_due:
  assumes "orderly (ig_launch ig)" "stop_wf c" "c \<in> H"
  shows "follows H (refresh_due ig dec c parent launching settings) (\<lambda>_. {})"
  unfolding refresh_due_def
  by (intro asked_intros follows_case_sum follows_then_row [OF follows_stop]
      follows_then_row [OF follows_change] follows_refresh_reserved restore_wf_plain)
     (use assms in \<open>simp_all add: decideRefreshReservation_def just_write_def\<close>)

lemma follows_refreshIntegration:
  assumes "orderly (ig_launch ig)" "c \<in> H"
  shows "follows H (refreshIntegration ig dec c parent launching) (\<lambda>_. {})"
proof (rule cy.refines_good [OF assms(2)])
  assume wf: "stop_wf c"
  show ?thesis
    unfolding refreshIntegration_def performIntegrationRefresh_def prod.case
    by (intro asked_intros follows_then_plain [OF follows_integrationAdvanced] follows_refresh_due)
     (use assms wf in \<open>auto intro!: cy.refines_give asked_intros follows_then_plain [OF follows_integrationAdvanced] follows_refresh_due split: option.split\<close>)
qed

lemma follows_resolution_check: "follows H (resolution_check ig c u n) (\<lambda>_. {})"
  unfolding resolution_check_def by (intro asked_intros) simp_all

lemma follows_resolutionMutation:
  "follows H m R \<Longrightarrow> follows H (resolutionMutation ig c u m) R"
  unfolding resolutionMutation_def
  by (intro asked_intros follows_resolution_check)

lemma follows_resolution_write:
  "c \<in> H \<Longrightarrow> follows H (resolution_write ig dec c r reason action) (\<lambda>x. {x})"
  unfolding resolution_write_def by (intro follows_change restore_wf_plain) simp_all

lemma follows_advanceResolution:
  assumes "orderly (ig_launch ig)" "c \<in> H"
  shows "follows H (advanceResolution ig dec c) (\<lambda>_. {})"
proof -
  note intros = asked_intros follows_resolution_check follows_then_row [OF follows_resolution_write]
    follows_then_row [OF follows_next]
  have "follows H (advance_preparing ig dec c r input) (\<lambda>_. {})"
    "follows H (advance_resolving ig dec c r input) (\<lambda>_. {})"
    "follows H (advance_committing ig dec c r input) (\<lambda>_. {})" for r input
    unfolding advance_preparing_def advance_resolving_def advance_committing_def
    by (intro intros; use assms in simp)+
  then show ?thesis
    unfolding advanceResolution_def
    by (intro asked_intros follows_resolutionMutation) (auto intro: cy.refines_give split: resolution_status.split)
qed

end
