(* ===== verification/Resolution.thy ===== *)
theory Resolution
  imports Integration
begin

text \<open>
  The operator's integration-conflict command (\<open>resolveIntegration\<close> of
  \<open>cycle/effects/integration.ts\<close>), with the agent it launches (\<open>operatorResolutionProfile\<close>,
  \<open>cycleLayers\<close> of \<open>agent-profile-policy.ts\<close>) and the investigation's hold
  (\<open>requireNoInvestigation\<close> of \<open>cycle/gates.ts\<close>).
\<close>

section \<open>The command\<close>

datatype resolution_action = Do_inspect | Do_start | Do_resume | Do_abandon

record resolution_request =
  rq_action :: resolution_action
  rq_expectedVersion :: nat
  rq_profile :: "agent_profile option"
  rq_instructions :: "string option"

definition requireNoInvestigation :: "work_cycle \<Rightarrow> bool \<Rightarrow> service_error option" where
  "requireNoInvestigation c ending =
     (if investigationLive c
      then Some (Request_error ''An investigation of this stop is running. Wait for it, or end it, first.'')
      else if \<not> ending \<and> worktreeChangeOpen c
      then Some (Request_error ''The worktree changed while this stop's investigation ran. Inspect it, then acknowledge the change first.'')
      else None)"

section \<open>The resolution's agent\<close>

definition cycleLayers ::
    "(string \<times> agent_selections) option \<Rightarrow> bool \<Rightarrow> work_cycle \<Rightarrow> agent_context \<Rightarrow> agent_context" where
  "cycleLayers assignment owned c ax =
     ax\<lparr>ax_assignment := assignment,
        ax_profiles := Some (if owned then L_saved_definition else L_cycle_start, cy_profiles c)\<rparr>"

definition launched_profile :: "agent_context \<Rightarrow> service_error + agent_profile" where
  "launched_profile ax =
     (case resolveAgent ax of
        None \<Rightarrow> Inl (Other_error ''No agent selection layer for this purpose.'')
      | Some e \<Rightarrow>
          (case launchProfile e of
             None \<Rightarrow> Inl (Other_error ''This resolution has no step permissions to launch with.'')
           | Some p \<Rightarrow> Inr p))"

definition operatorResolutionProfile ::
    "integration_reads \<Rightarrow> work_cycle \<Rightarrow> agent_profile option \<Rightarrow> agent_profile option
     \<Rightarrow> service_error + agent_profile" where
  "operatorResolutionProfile ig c chosen recorded =
     launched_profile (cycleLayers (ig_assignment ig) (ig_owned ig) c
       ((no_layers (For_specialist Spec_conflict))
         \<lparr>ax_permissionMode := Some (ap_permissionMode (step_profile (cy_profiles c) Remediate)),
          ax_action := map_option (\<lambda>p. \<lparr>aa_layer = L_integration_resolution,
            aa_selection = agent_selection.truncate p,
            aa_permissionMode = Some (ap_permissionMode p)\<rparr>) chosen,
          ax_integrationResolution := recorded\<rparr>))"

definition resolution_agent ::
    "integration_reads \<Rightarrow> work_cycle \<Rightarrow> agent_profile option \<Rightarrow> agent_profile option
     \<Rightarrow> service_error + agent_profile" where
  "resolution_agent ig c chosen recorded =
     (case operatorResolutionProfile ig c chosen recorded of
        Inl e \<Rightarrow> Inl e
      | Inr p \<Rightarrow> if lr_hasBackend (ig_launch ig) (as_backend p) then Inr p
                  else Inl (Request_error ''Resolution agent is unavailable''))"

section \<open>Its four actions\<close>

text \<open>The mutation's check, and the roadmap's when a roadmap acts.\<close>

definition owned_check ::
    "integration_reads \<Rightarrow> work_cycle \<Rightarrow> string \<Rightarrow> launch_actor option \<Rightarrow> nat \<Rightarrow> (cycle_db, unit) job" where
  "owned_check ig c actingFor actor n =
     and_then (resolution_check ig c actingFor n) (\<lambda>_.
       unless_error (case actor of None \<Rightarrow> None | Some a \<Rightarrow> la_check a))"

definition resolve_inspect ::
    "integration_reads \<Rightarrow> work_cycle \<Rightarrow> command_context \<Rightarrow> worktree \<Rightarrow> (cycle_db, unit) job
     \<Rightarrow> (cycle_db, work_cycle) job" where
  "resolve_inspect ig c ctx tree check =
     (if ownsIntegrationResolution c
      then throw (Request_error ''Resume or abandon the existing resolution'')
      else and_then (awaiting (ig_launch ig) ''resolve-inspect'') (\<lambda>_.
        case (ig_inspect ig (wt_path tree),
              ig_resolveBranch ig (wt_path tree) (over (wt_integrationBranch tree) [])) of
          (Inr head, Inr target) \<Rightarrow>
            and_then (awaiting (ig_launch ig) ''resolve-preview'') (\<lambda>_.
            and_then (requiring (git_conflict (ig_preview ig
                \<lparr>mi_worktreePath = wt_path tree, mi_branchName = wt_branchName tree,
                 mi_headSha = rs_headSha head, mi_targetSha = target\<rparr>))) (\<lambda>found.
            and_then check (\<lambda>_.
              if fst found = []
              then throw (Request_error ''No textual conflicts found. Use Update from integration, then resume for review.'')
              else run_change (ig_launch ig) None c
                (no_changes\<lparr>ch_integrationResolution := Put (detected_resolution ig
                     \<lparr>cf_headSha = rs_headSha head, cf_targetSha = target,
                      cf_targetBranch = over (wt_integrationBranch tree) [],
                      cf_paths = fst found, cf_diagnostics = snd found\<rparr>),
                   ch_reason := Some (''Integration conflicts in '' @ string_of_nat (length (fst found))
                     @ '' files. Delegate resolution when ready.'')\<rparr>)
                ''resolution-inspected'' (Some ctx))))
        | _ \<Rightarrow> throw (Request_error ''Cannot inspect integration commits'')))"

definition resolve_abandon ::
    "integration_reads \<Rightarrow> work_cycle \<Rightarrow> command_context \<Rightarrow> integration_resolution
     \<Rightarrow> (cycle_db, unit) job \<Rightarrow> (cycle_db, work_cycle) job" where
  "resolve_abandon ig c ctx r check =
     (if \<not> ownsIntegrationResolution c
      then throw (Request_error ''No pending integration resolution to abandon'')
      else and_then (requiring (resolutionContext ig c True)) (\<lambda>input.
           and_then (awaiting (ig_launch ig) ''resolution-abort'') (\<lambda>_.
           and_then (unless_error (map_option Request_error (ig_abort ig input))) (\<lambda>_.
           and_then check (\<lambda>_.
             run_change (ig_launch ig) None c
               (no_changes\<lparr>ch_integrationResolution := Put (r\<lparr>ir_status := Res_abandoned\<rparr>),
                  ch_status := Some Needs_attention,
                  ch_attention := Some (make_attention Resolution_abandoned None None None None),
                  ch_reason := Some ''Resolution abandoned. The owned merge was aborted; untracked files and any unrelated edits are preserved. Inspect the diff before starting again.''\<rparr>)
               ''resolution-abandoned'' (Some ctx))))))"

definition branches_unchanged ::
    "worktree \<Rightarrow> integration_resolution \<Rightarrow> string + string \<Rightarrow> string + repository_state \<Rightarrow> bool" where
  "branches_unchanged tree r target head =
     (case (target, head) of
        (Inr t, Inr h) \<Rightarrow> t = ir_targetSha r \<and> rs_headSha h = ir_headSha r \<and> rs_clean h
          \<and> rs_branch h = wt_branchName tree
      | _ \<Rightarrow> False)"

definition prior_run :: "integration_reads \<Rightarrow> work_cycle \<Rightarrow> agent_run option" where
  "prior_run ig c =
     (case ig_findRun ig (cy_currentRunId c) of
        Some run \<Rightarrow> Some run
      | None \<Rightarrow> if truthy (cy_parentRunId c) then ig_findRun ig (the (cy_parentRunId c)) else None)"

definition resolve_start ::
    "integration_reads \<Rightarrow> work_cycle \<Rightarrow> command_context \<Rightarrow> resolution_request \<Rightarrow> worktree
     \<Rightarrow> integration_resolution \<Rightarrow> (cycle_db, unit) job \<Rightarrow> (cycle_db, work_cycle) job" where
  "resolve_start ig c ctx rq tree r check =
     (if ir_status r \<noteq> Res_detected
      then throw (Request_error ''Inspect conflicts before starting another resolution'')
      else and_then (awaiting (ig_launch ig) ''resolve-start'') (\<lambda>_.
        if \<not> branches_unchanged tree r (ig_resolveBranch ig (wt_path tree) (ir_targetBranch r))
               (ig_inspect ig (wt_path tree))
        then throw (Request_error ''Branches changed since inspection. Inspect integration conflicts again.'')
        else and_then (requiring (resolution_agent ig c (rq_profile rq) None)) (\<lambda>p.
             and_then check (\<lambda>_.
               case prior_run ig c of
                 None \<Rightarrow> throw (Request_error ''Resolution requires the prior cycle handoff'')
               | Some source \<Rightarrow>
                   run_change (ig_launch ig) None c
                     (no_changes\<lparr>ch_integrationResolution := Put (r\<lparr>ir_status := Res_preparing,
                          ir_profile := Some p, ir_instructions := Some (over (rq_instructions rq) []),
                          ir_attempts := 1, ir_runIds := Some [lr_freshRunId (ig_launch ig)]\<rparr>),
                        ch_status := Some Running, ch_step := Some Remediate,
                        ch_parentRunId := Put (run_id source),
                        ch_currentRunId := Some (lr_freshRunId (ig_launch ig)),
                        ch_attempt := new_step_attempt,
                        ch_runDeadlineAt := Some (cycle_deadline ig c),
                        ch_reason := Some ''Preparing the pinned integration merge for agent resolution.''\<rparr>)
                     ''resolution-started'' (Some ctx)))))"

definition resolve_retry ::
    "integration_reads \<Rightarrow> work_cycle \<Rightarrow> command_context \<Rightarrow> resolution_request \<Rightarrow> integration_resolution
     \<Rightarrow> agent_run \<Rightarrow> (cycle_db, unit) job \<Rightarrow> (cycle_db, work_cycle) job" where
  "resolve_retry ig c ctx rq r run check =
     (if 3 \<le> ir_attempts r
      then throw (Request_error ''Resolution reached its three-agent-attempt limit. Abandon and inspect again to authorize a new attempt.'')
      else and_then (requiring (resolution_agent ig c (rq_profile rq) (ir_profile r))) (\<lambda>p.
           and_then check (\<lambda>_.
             run_change (ig_launch ig) None c
               (no_changes\<lparr>ch_integrationResolution := Put (r\<lparr>ir_profile := Some p,
                    ir_instructions := Some (case rq_instructions rq of
                       Some t \<Rightarrow> t | None \<Rightarrow> over (ir_instructions r) []),
                    ir_attempts := ir_attempts r + 1,
                    ir_runIds := Some (over (ir_runIds r) [] @ [lr_freshRunId (ig_launch ig)])\<rparr>),
                  ch_status := Some Running, ch_parentRunId := Put (run_id run),
                  ch_currentRunId := Some (lr_freshRunId (ig_launch ig)), ch_keepAttempt := True,
                  ch_runDeadlineAt := Some (cycle_deadline ig c),
                  ch_reason := Some ''Resuming conflict resolution with the existing edits and handoff.''\<rparr>)
               ''resolution-resumed'' (Some ctx))))"

definition resolve_resume ::
    "integration_reads \<Rightarrow> work_cycle \<Rightarrow> command_context \<Rightarrow> resolution_request \<Rightarrow> integration_resolution
     \<Rightarrow> (cycle_db, unit) job \<Rightarrow> (cycle_db, work_cycle) job" where
  "resolve_resume ig c ctx rq r check =
     (if \<not> ownsIntegrationResolution c
      then throw (Request_error ''There is no pending resolution to resume'')
      else
        let run = ig_findRun ig (cy_currentRunId c);
            again = (\<lambda>reason. no_changes\<lparr>ch_status := Some Running,
                      ch_runDeadlineAt := Some (cycle_deadline ig c), ch_reason := Some reason\<rparr>)
        in if ir_status r = Res_resolving \<and> map_option run_status run = Some Run_finished
              \<and> cy_status c = Paused \<and> rq_instructions rq = None \<and> rq_profile rq = None
           then and_then check (\<lambda>_. run_change (ig_launch ig) None c
                  (again ''Resuming verification of the completed resolution run.'')
                  ''resolution-resumed'' (Some ctx))
           else (case (ir_status r, run) of
                   (Res_resolving, Some found) \<Rightarrow> resolve_retry ig c ctx rq r found check
                 | _ \<Rightarrow> and_then check (\<lambda>_. run_change (ig_launch ig) None c
                          (again ''Resuming the reserved integration operation.'')
                          ''resolution-resumed'' (Some ctx))))"

section \<open>The command's shell\<close>

definition resolve_action ::
    "integration_reads \<Rightarrow> work_cycle \<Rightarrow> command_context \<Rightarrow> resolution_request \<Rightarrow> worktree
     \<Rightarrow> (nat \<Rightarrow> (cycle_db, unit) job) \<Rightarrow> (cycle_db, work_cycle) job" where
  "resolve_action ig c ctx rq tree check =
     and_then (check 1) (\<lambda>_.
       if rq_action rq = Do_inspect then resolve_inspect ig c ctx tree (check 2)
       else (case cy_integrationResolution c of
               None \<Rightarrow> throw (Request_error ''Inspect integration conflicts first'')
             | Some r \<Rightarrow>
                 (case rq_action rq of
                    Do_abandon \<Rightarrow> resolve_abandon ig c ctx r (check 2)
                  | _ \<Rightarrow>
                      and_then (awaiting (ig_launch ig) ''resolution-validate'') (\<lambda>_.
                      and_then (unless_error (ig_validateResolution ig)) (\<lambda>_.
                        if rq_action rq = Do_start then resolve_start ig c ctx rq tree r (check 2)
                        else resolve_resume ig c ctx rq r (check 2))))))"

definition resolution_gates :: "integration_reads \<Rightarrow> work_cycle \<Rightarrow> resolution_request \<Rightarrow> service_error option" where
  "resolution_gates ig c rq =
     (if rq_action rq = Do_abandon then None
      else if truthy (cy_workItemId c) then ig_ready ig
      else (case finalizationForCycle (ig_launch ig) c of Inl e \<Rightarrow> Some e | Inr v \<Rightarrow> None))"

definition resolveIntegration ::
    "integration_reads \<Rightarrow> command_context \<Rightarrow> string \<times> string \<Rightarrow> resolution_request
     \<Rightarrow> launch_actor option \<Rightarrow> (cycle_db, work_cycle) job" where
  "resolveIntegration ig ctx key rq actor =
     and_then (unless_error (lr_requireRole (ig_launch ig) ctx)) (\<lambda>_.
     and_then (looking (\<lambda>db. cycles_find (db_rows db) key)) (\<lambda>row.
       case row of
         None \<Rightarrow> throw not_found
       | Some c \<Rightarrow>
           and_then (unless_error (requireNoInvestigation c False)) (\<lambda>_.
             if cy_version c \<noteq> rq_expectedVersion rq \<or> cy_status c \<notin> {Paused, Needs_attention}
             then throw (Request_error ''Pause the cycle and refresh before resolving integration conflicts'')
             else (case lr_worktree (ig_launch ig) of
                     None \<Rightarrow> throw not_found
                   | Some tree \<Rightarrow>
                       if \<not> lr_git (ig_launch ig) \<or> \<not> truthy (wt_integrationBranch tree)
                          \<or> wt_status tree \<noteq> Tree_active
                       then throw not_found
                       else
                         let actingFor = (if rq_action rq = Do_abandon then ctx_userId ctx
                                          else cy_createdByUserId c)
                         in and_then (unless_error (resolution_gates ig c rq)) (\<lambda>_.
                              resolutionMutation ig c actingFor
                                (resolve_action ig c ctx rq tree (owned_check ig c actingFor actor)))))))"

section \<open>The command as a path of the cycle store\<close>

lemma follows_owned_check: "follows H (owned_check ig c u actor n) (\<lambda>_. {})"
  unfolding owned_check_def by (intro asked_intros follows_resolution_check)

lemma follows_resolve_action:
  assumes "orderly (ig_launch ig)" "c \<in> H" "\<And>H n. follows H (chk n) (\<lambda>_. {})"
  shows "follows H (resolve_action ig c ctx rq tree chk) (\<lambda>x. {x})"
proof -
  note intros = asked_intros assms(3) follows_change restore_wf_plain
  have inspect: "follows H (resolve_inspect ig c ctx tree (chk 2)) (\<lambda>x. {x})"
    unfolding resolve_inspect_def prod.case
    by (intro intros follows_case_sum; use assms in simp)
  have abandon: "follows H (resolve_abandon ig c ctx r (chk 2)) (\<lambda>x. {x})" for r
    unfolding resolve_abandon_def by (intro intros; use assms in simp)
  have start: "follows H (resolve_start ig c ctx rq tree r (chk 2)) (\<lambda>x. {x})" for r
    unfolding resolve_start_def by (intro intros; use assms in simp)
  have retry: "follows H (resolve_retry ig c ctx rq r run (chk 2)) (\<lambda>x. {x})" for r run
    unfolding resolve_retry_def by (intro intros; use assms in simp)
  have resume: "follows H (resolve_resume ig c ctx rq r (chk 2)) (\<lambda>x. {x})" for r
    unfolding resolve_resume_def Let_def prod.case
    by (intro intros) (use assms in \<open>auto intro!: intros retry split: resolution_status.split option.split\<close>)
  show ?thesis
    unfolding resolve_action_def
    by (intro intros) (use assms in \<open>auto intro!: intros inspect abandon start resume split: resolution_action.split\<close>)
qed

lemma follows_resolveIntegration:
  assumes "orderly (ig_launch ig)"
  shows "follows H (resolveIntegration ig ctx key rq actor) (\<lambda>x. {x})"
proof -
  have look: "follows H (looking (\<lambda>db. cycles_find (db_rows db) key)) set_option" for H
    by (rule cy.refines_look)
  show ?thesis
    unfolding resolveIntegration_def Let_def
    by (intro asked_intros follows_then_maybe [OF look] follows_resolutionMutation
        follows_resolve_action follows_owned_check assms) simp_all
qed

end
