(* ===== verification/Integration_Properties.thy ===== *)
theory Integration_Properties
  imports Resolution
begin

text \<open>
  What the integration effects promise of the cycle's record: a refresh that meets contention is
  undone exactly, and a conflict resolution launches a bounded number of agents.
\<close>

section \<open>A refresh that met contention\<close>

text \<open>A record as the writer leaves it, with no investigation and no repair beyond a running step.\<close>

definition settled :: "work_cycle \<Rightarrow> bool" where
  "settled c =
     (stop_wf c \<and> cy_attempt c \<noteq> Some empty_attempt \<and> cy_waits c \<noteq> Some no_waits
      \<and> length (cy_reason c) \<le> 4000 \<and> cy_investigation c = None
      \<and> (cy_status c = Running \<or> output_repair_of c = None))"

lemma no_edits [simp]: "edit_attempt no_attempt_changes a = a"
  by (simp add: edit_attempt_def no_attempt_changes_def)

lemma kept_attempt:
  assumes "ch_attempt ch = no_attempt_changes" "ch_currentRunId ch = None"
    "cy_attempt c \<noteq> Some empty_attempt" "next_status c ch = Running \<and> \<not> k \<or> output_repair_of c = None"
  shows "written_attempt c ch k = cy_attempt c"
  using assms
  by (auto simp: written_attempt_def Let_def reserves_other_def attempt_of_def over_def split: option.splits)

lemma kept_waits:
  assumes "ch_waits ch = no_wait_changes" "cy_waits c \<noteq> Some no_waits"
  shows "written_waits c ch = cy_waits c"
proof (cases "cy_waits c")
  case None
  with assms show ?thesis
    by (simp add: written_waits_def no_wait_changes_def waits_of_def over_def no_waits_def)
next
  case (Some w)
  with assms show ?thesis
    by (cases w) (auto simp: written_waits_def Let_def no_wait_changes_def waits_of_def over_def no_waits_def)
qed

lemma kept_stages:
  "ch_finalizationProgress ch = Keep \<Longrightarrow> ch_remediationRounds ch = None
   \<Longrightarrow> ch_additionalRemediationRounds ch = Keep \<Longrightarrow> scaled_stages c ch = cy_finalizationProgress c"
  by (simp add: scaled_stages_def Let_def split: option.splits)

lemma refresh_reserved_run:
  assumes "settled c"
  defines "ch \<equiv> cwr_changes (decideRefreshReservation c)"
  shows "updated_cycle rd at False c ch = c
    \<lparr>cy_status := Running, cy_stop := None,
     cy_integrationRefreshes := Some (over (cy_integrationRefreshes c) 0 + 1),
     cy_reason := ''Updating from integration before a fresh review of the combined changes.'',
     cy_version := cy_version c + 1, cy_updatedAt := at\<rparr>"
proof -
  have ch: "ch = no_changes\<lparr>ch_status := Some Running,
        ch_integrationRefreshes := Put (over (cy_integrationRefreshes c) 0 + 1),
        ch_reason := Some ''Updating from integration before a fresh review of the combined changes.''\<rparr>"
    by (simp add: ch_def decideRefreshReservation_def just_write_def)
  have "written_attempt c ch False = cy_attempt c"
    by (rule kept_attempt) (use assms(1) in \<open>simp_all add: ch next_status_def settled_def\<close>)
  moreover have "written_waits c ch = cy_waits c"
    by (rule kept_waits) (use assms(1) in \<open>simp_all add: ch settled_def\<close>)
  moreover have "completed_attention rd c ch at = None"
    by (simp add: completed_attention_def declared_attention_def ch next_status_def attention_status_def)
  then have "written_stop c ch (completed_attention rd c ch at) at = None"
    by (simp add: written_stop_def ch next_status_def)
  moreover have "scaled_stages c ch = cy_finalizationProgress c"
    by (rule kept_stages) (simp_all add: ch no_changes_def)
  moreover have "js_slice 4000 (''Updating from integration before a fresh review of the combined changes.'') = ''Updating from integration before a fresh review of the combined changes.''"
    by (simp add: js_slice_def)
  ultimately show ?thesis
    using assms(1)
    by (intro work_cycle.equality)
       (simp_all add: updated_cycle_def Let_def apply_fields_def next_status_def ch no_changes_def settled_def
         del: updated_cycle_frame)
qed


lemma undone_exactly:
  assumes "settled c"
  shows "(updated_cycle rd' at' False
        (updated_cycle rd at False c (cwr_changes (decideRefreshReservation c))) (refresh_undone c))
     = c\<lparr>cy_version := cy_version c + 2, cy_updatedAt := at'\<rparr>"
proof -
  define r where "r = updated_cycle rd at False c (cwr_changes (decideRefreshReservation c))"
  define ch where "ch = refresh_undone c"
  note r = r_def [unfolded refresh_reserved_run [OF assms]]
  have ch: "ch = no_changes\<lparr>ch_status := Some (cy_status c), ch_restore := Some (cy_stop c),
      ch_integrationRefreshes := (case cy_integrationRefreshes c of None \<Rightarrow> Drop | Some n \<Rightarrow> Put n),
      ch_reason := Some (cy_reason c)\<rparr>"
    by (simp add: ch_def refresh_undone_def restoredStatus_def)
  have same: "output_repair_of r = output_repair_of c" "cy_attempt r = cy_attempt c" "cy_waits r = cy_waits c"
    by (simp_all add: r output_repair_of_def attempt_of_def)
  have "written_attempt r ch False = cy_attempt c"
    using kept_attempt [of ch r False] assms by (simp add: same ch next_status_def settled_def)
  moreover have "written_waits r ch = cy_waits c"
    using kept_waits [of ch r] assms by (simp add: same ch settled_def)
  moreover have "written_stop r ch a at' = cy_stop c" for a
    by (simp add: written_stop_def ch)
  moreover have "scaled_stages r ch = cy_finalizationProgress c"
    using kept_stages [of ch r] by (simp add: ch no_changes_def r)
  moreover have "js_slice 4000 (cy_reason c) = cy_reason c"
    using assms by (simp add: js_slice_def settled_def)
  moreover have "edit_opt (case cy_integrationRefreshes c of None \<Rightarrow> Drop | Some n \<Rightarrow> Put n) x
      = cy_integrationRefreshes c" for x
    by (simp split: option.split)
  ultimately show ?thesis
    using assms
    unfolding r_def [symmetric] ch_def [symmetric]
    by (intro work_cycle.equality)
       (simp_all add: updated_cycle_def Let_def apply_fields_def next_status_def ch no_changes_def settled_def r
         del: updated_cycle_frame)
qed


text \<open>
  C34. A refresh that meets contention leaves no trace but two versions: when the repository turns
  out busy after the attempt was reserved, the write that follows puts back the status, its stop,
  the refresh count, the reason and every other field exactly as they were before the reservation.
\<close>

theorem contention_undone:
  assumes "settled c" "indexed (db_rows db)"
    and reserve: "change rd at dec db c (cwr_changes (decideRefreshReservation c)) ''advance'' None []
      = Inr (Wrote db1 reserved)"
    and undo: "refresh_failed ig dec' c reserved Repository_busy db1 = (Inr finished, db2)"
  shows "cycles_find (db_rows db2) (cycle_key c)
    = Some (c\<lparr>cy_version := cy_version c + 2, cy_updatedAt := lr_now (ig_launch ig)\<rparr>)"
proof -
  let ?lr = "ig_launch ig"
  note w = change_Wrote [OF reserve, simplified]
  have key: "cycle_key reserved = cycle_key c" by (simp add: w(1))
  have found: "cycles_find (db_rows db1) (cycle_key c) = Some reserved"
    using cycles.put_same [OF assms(2) w(2)] key by simp
  have ok: "indexed (db_rows db1)" by (rule cycles.put_ok [OF assms(2) w(2)])
  have run: "cy_status reserved = Running"
    unfolding w(1) refresh_reserved_run [OF assms(1)] by simp
  have new: "updated_cycle rd' at' False reserved (refresh_undone c)
      = c\<lparr>cy_version := cy_version c + 2, cy_updatedAt := at'\<rparr>" for rd' at'
    unfolding w(1) by (rule undone_exactly [OF assms(1)])
  have moved: "cy_integrationRefreshes reserved \<noteq> cy_integrationRefreshes c"
    unfolding w(1) refresh_reserved_run [OF assms(1)] by (simp add: over_def split: option.split)
  from undo found run have
    "and_then (run_change ?lr dec' reserved (refresh_undone c) ''advance'' None) (\<lambda>_. give True) db1
      = (Inr finished, db2)"
    by (simp add: refresh_failed_def and_then_def find_cycle_def looking_def refreshFailure_def)
  then obtain u where u: "run_change ?lr dec' reserved (refresh_undone c) ''advance'' None db1 = (Inr u, db2)"
    by (auto simp: and_then_def give_def split: prod.splits sum.splits)
  then obtain x where x: "change (lr_policy ?lr) (lr_now ?lr) dec' db1 reserved (refresh_undone c) ''advance'' None []
      = Inr x" by (auto simp: run_change_def split: sum.splits)
  show ?thesis
  proof (cases x)
    case (Unchanged y)
    with x have "(updated_cycle (lr_policy ?lr) (lr_now ?lr) False reserved (refresh_undone c))
        \<lparr>cy_version := cy_version reserved, cy_updatedAt := cy_updatedAt reserved\<rparr> = reserved"
      by (auto simp: change_def Let_def split: if_splits sum.splits replace_result.splits)
    from arg_cong [OF this, of cy_integrationRefreshes] moved show ?thesis by (simp add: new)
  next
    case (Wrote d y)
    with u x have "d = db2" by (simp add: run_change_def)
    with Wrote x have c2: "change (lr_policy ?lr) (lr_now ?lr) dec' db1 reserved (refresh_undone c) ''advance'' None []
        = Inr (Wrote db2 y)" by simp
    note w2 = change_Wrote [OF c2, simplified]
    have "cycle_key y = cycle_key c" by (simp add: w2(1) key)
    with cycles.put_same [OF ok w2(2)] show ?thesis by (simp add: w2(1) new)
  qed
qed


definition gated_cycle :: work_cycle where
  "gated_cycle = sample_cycle\<lparr>cy_status := Awaiting_merge, cy_step := Review,
     cy_stop := Some (Held_at Gate_stop (make_attention Merge_approval None None None None) 1000)\<rparr>"

lemma gated_settled: "settled gated_cycle"
  by (simp add: settled_def gated_cycle_def stop_wf_def carries_iff make_attention_def output_repair_of_def
      attempt_of_def empty_attempt_def present_def stop_kind_of_def awaiting_merge_gates_def)

definition quiet_integration :: integration_reads where
  "quiet_integration = \<lparr>ig_launch = quiet_launch, ig_refreshing = False,
     ig_owner = (\<lambda>_. \<lparr>or_launch = quiet_launch, or_owner = None, or_creatorEditor = None,
        or_findRun = (\<lambda>_. None), or_runtimeChanges = (\<lambda>_. False)\<rparr>),
     ig_editor = (\<lambda>_ _. True), ig_live = (\<lambda>_. False), ig_busy = (\<lambda>_. False), ig_treeActive = True,
     ig_resolveBranch = (\<lambda>_ _. Inr ''abc''), ig_inspect = (\<lambda>_. Inl []), ig_isAncestor = (\<lambda>_ _. Inr True),
     ig_updateRefusal = (\<lambda>_. None), ig_repository = True, ig_treeBusy = None, ig_ready = None,
     ig_validateResolution = None, ig_assignment = None, ig_owned = False, ig_findRun = (\<lambda>_. None),
     ig_preview = (\<lambda>_. Inl []), ig_abort = (\<lambda>_. None), ig_prepare = (\<lambda>_. Inl []),
     ig_resolution = (\<lambda>_. Inl []), ig_finish = (\<lambda>_ _ _. Inl []), ig_freshResolutionId = ''res''\<rparr>"

theorem contention_undone_witness:
  "\<exists>db1 db2 r ok. change quiet_reads 2000 None (lone gated_cycle) gated_cycle
       (cwr_changes (decideRefreshReservation gated_cycle)) ''advance'' None [] = Inr (Wrote db1 r)
     \<and> cy_status r = Running
     \<and> refresh_failed quiet_integration None gated_cycle r Repository_busy db1 = (Inr ok, db2)
     \<and> cycles_find (db_rows db2) (cycle_key gated_cycle)
        = Some (gated_cycle\<lparr>cy_version := 3, cy_updatedAt := 5000\<rparr>)"
proof -
  let ?c = gated_cycle
  define r where "r = updated_cycle quiet_reads 2000 False ?c (cwr_changes (decideRefreshReservation ?c))"
  note r = r_def [unfolded refresh_reserved_run [OF gated_settled]]
  have rows: "db_rows (lone ?c) = [?c]" by (simp add: lone_def)
  have "r\<lparr>cy_version := cy_version ?c, cy_updatedAt := cy_updatedAt ?c\<rparr> \<noteq> ?c"
  proof
    assume "r\<lparr>cy_version := cy_version ?c, cy_updatedAt := cy_updatedAt ?c\<rparr> = ?c"
    from arg_cong [OF this, of cy_status] show False by (simp add: r gated_cycle_def)
  qed
  moreover have "checkTransition (cy_status ?c) (cy_status r) (cy_stop r) ''advance'' = Inr ()"
    by (simp add: r checkTransition_ok gated_cycle_def carries_iff may_go_live)
  ultimately obtain db1 where one: "change quiet_reads 2000 None (lone ?c) ?c
      (cwr_changes (decideRefreshReservation ?c)) ''advance'' None [] = Inr (Wrote db1 r)"
    and rows1: "db_rows db1 = [r]"
    by - (rule single_row_write [OF rows r_def, of None], auto)
  let ?u = "?c\<lparr>cy_version := cy_version ?c + 2, cy_updatedAt := 5000\<rparr>"
  have u: "updated_cycle quiet_reads 5000 False r (refresh_undone ?c) = ?u"
    unfolding r_def by (rule undone_exactly [OF gated_settled])
  have "?u\<lparr>cy_version := cy_version r, cy_updatedAt := cy_updatedAt r\<rparr> \<noteq> r"
  proof
    assume "?u\<lparr>cy_version := cy_version r, cy_updatedAt := cy_updatedAt r\<rparr> = r"
    from arg_cong [OF this, of cy_status] show False by (simp add: r gated_cycle_def)
  qed
  moreover have "checkTransition (cy_status r) (cy_status ?u) (cy_stop ?u) ''advance'' = Inr ()"
    using gated_settled by (simp add: r checkTransition_ok settled_def stop_wf_def gated_cycle_def may_go_live)
  ultimately obtain db2 where two: "change quiet_reads 5000 None db1 r (refresh_undone ?c) ''advance'' None []
      = Inr (Wrote db2 ?u)"
    by - (rule single_row_write [OF rows1 u [symmetric], of None], auto)
  have q: "ig_launch quiet_integration = quiet_launch" "lr_policy quiet_launch = quiet_reads"
    "lr_now quiet_launch = 5000"
    by (simp_all add: quiet_integration_def quiet_launch_def)
  have found: "cycles_find (db_rows db1) (cycle_key ?c) = Some r"
    by (simp add: rows1 cycles_find_def r cycle_key_def)
  have failed: "refresh_failed quiet_integration None ?c r Repository_busy db1 = (Inr True, db2)"
    using two found
    by (simp add: refresh_failed_def and_then_def find_cycle_def looking_def refreshFailure_def r
        run_change_def give_def q)
  have "indexed (db_rows (lone ?c))" by (simp add: rows)
  from contention_undone [OF gated_settled this one failed] one failed
  show ?thesis by (auto simp: q r gated_cycle_def)
qed

section \<open>A resolution's agents\<close>

lemma updated_resolution:
  "cy_integrationResolution (updated_cycle rd at k c ch)
     = edit_opt (ch_integrationResolution ch) (cy_integrationResolution c)"
  by (simp add: updated_cycle_def Let_def apply_fields_def)

lemma no_changes_resolution [simp]: "ch_integrationResolution no_changes = Keep"
  by (simp add: no_changes_def)

text \<open>What a command does to the resolution's attempts: keeps the run, or launches one more.\<close>

datatype attempt_effect = Same_run | Launched nat "string list"

definition attempt_effect_of :: "integration_reads \<Rightarrow> work_cycle \<Rightarrow> work_cycle \<Rightarrow> attempt_effect \<Rightarrow> bool" where
  "attempt_effect_of ig c c' e =
     (case e of
        Same_run \<Rightarrow> cy_currentRunId c' = cy_currentRunId c
          \<and> (\<forall>r'. cy_integrationResolution c' = Some r' \<longrightarrow> ir_attempts r' = 0
               \<or> (\<exists>r. cy_integrationResolution c = Some r \<and> ir_attempts r' = ir_attempts r))
      | Launched n runs \<Rightarrow> cy_currentRunId c' = lr_freshRunId (ig_launch ig) \<and> cy_status c' = Running
          \<and> (\<exists>r'. cy_integrationResolution c' = Some r' \<and> ir_attempts r' = n \<and> ir_runIds r' = Some runs))"

lemmas effect_simps = and_then_Inr attempt_effect_of_def updated_resolution next_status_def

lemma resolve_inspect_effect:
  "resolve_inspect ig c ctx tree chk db = (Inr c', db') \<Longrightarrow> attempt_effect_of ig c c' Same_run"
  by (auto simp: resolve_inspect_def effect_simps detected_resolution_def dest!: run_change_commanded
      split: if_splits sum.splits)

lemma resolve_abandon_effect:
  "resolve_abandon ig c ctx r chk db = (Inr c', db') \<Longrightarrow> cy_integrationResolution c = Some r
   \<Longrightarrow> attempt_effect_of ig c c' Same_run"
  by (auto simp: resolve_abandon_def effect_simps dest!: run_change_commanded split: if_splits)

lemma resolve_start_effect:
  "resolve_start ig c ctx rq tree r chk db = (Inr c', db')
   \<Longrightarrow> attempt_effect_of ig c c' (Launched 1 [lr_freshRunId (ig_launch ig)])"
  by (auto simp: resolve_start_def effect_simps dest!: run_change_commanded split: if_splits option.splits)

lemma resolve_retry_effect:
  "resolve_retry ig c ctx rq r run chk db = (Inr c', db')
   \<Longrightarrow> ir_attempts r < 3 \<and> attempt_effect_of ig c c'
        (Launched (Suc (ir_attempts r)) (over (ir_runIds r) [] @ [lr_freshRunId (ig_launch ig)]))"
  by (auto simp: resolve_retry_def effect_simps dest!: run_change_commanded split: if_splits)

lemma resolve_resume_effect:
  assumes "resolve_resume ig c ctx rq r chk db = (Inr c', db')" "cy_integrationResolution c = Some r"
  shows "attempt_effect_of ig c c' Same_run
    \<or> ir_attempts r < 3 \<and> attempt_effect_of ig c c'
        (Launched (Suc (ir_attempts r)) (over (ir_runIds r) [] @ [lr_freshRunId (ig_launch ig)]))"
proof -
  from assms(1) consider (retry) run where "resolve_retry ig c ctx rq r run chk db = (Inr c', db')"
    | (again) reason where "and_then chk (\<lambda>_. run_change (ig_launch ig) None c
        (no_changes\<lparr>ch_status := Some Running, ch_runDeadlineAt := Some (cycle_deadline ig c),
           ch_reason := Some reason\<rparr>) ''resolution-resumed'' (Some ctx)) db = (Inr c', db')"
    by (auto simp: resolve_resume_def Let_def split: if_splits resolution_status.splits option.splits)
  then show ?thesis
  proof cases
    case retry
    then show ?thesis using resolve_retry_effect by blast
  next
    case again
    with assms(2) show ?thesis
      by (auto simp: effect_simps dest!: run_change_commanded)
  qed
qed

lemma resolve_action_effect:
  assumes "resolve_action ig c ctx rq tree chk db = (Inr c', db')"
  shows "attempt_effect_of ig c c' Same_run
    \<or> rq_action rq = Do_start
      \<and> attempt_effect_of ig c c' (Launched 1 [lr_freshRunId (ig_launch ig)])
    \<or> (\<exists>r. rq_action rq = Do_resume \<and> cy_integrationResolution c = Some r \<and> ir_attempts r < 3
        \<and> attempt_effect_of ig c c'
          (Launched (Suc (ir_attempts r)) (over (ir_runIds r) [] @ [lr_freshRunId (ig_launch ig)])))"
proof (cases "rq_action rq")
  case Do_inspect
  with assms show ?thesis
    by (auto simp: resolve_action_def and_then_Inr dest: resolve_inspect_effect)
next
  case Do_start
  with assms show ?thesis
    by (auto simp: resolve_action_def and_then_Inr dest: resolve_start_effect split: option.splits)
next
  case Do_resume
  with assms obtain r db1 where "cy_integrationResolution c = Some r"
      "resolve_resume ig c ctx rq r (chk 2) db1 = (Inr c', db')"
    by (auto simp: resolve_action_def and_then_Inr split: option.splits)
  with resolve_resume_effect [OF this(2,1)] Do_resume show ?thesis by blast
next
  case Do_abandon
  with assms show ?thesis
    by (auto simp: resolve_action_def and_then_Inr dest: resolve_abandon_effect split: option.splits)
qed

text \<open>
  C35. A conflict resolution launches at most three agents: the operator's command either keeps the
  cycle's run and the attempts made, or launches one more agent, on the fresh run it records; a
  started resolution counts one, a resumed one the next, and none is launched past the third.
\<close>

theorem resolution_attempts_bounded:
  assumes "resolveIntegration ig ctx key rq actor db = (Inr c', db')"
    "cycles_find (db_rows db) key = Some c"
    "\<And>r. cy_integrationResolution c = Some r \<Longrightarrow> ir_attempts r \<le> 3"
  shows "(\<forall>r'. cy_integrationResolution c' = Some r' \<longrightarrow> ir_attempts r' \<le> 3)
    \<and> (cy_currentRunId c' \<noteq> cy_currentRunId c \<longrightarrow>
        cy_currentRunId c' = lr_freshRunId (ig_launch ig) \<and> cy_status c' = Running
        \<and> (\<exists>r' before. cy_integrationResolution c' = Some r'
            \<and> ir_runIds r' = Some (before @ [cy_currentRunId c'])
            \<and> (rq_action rq = Do_start \<and> ir_attempts r' = 1 \<and> before = []
               \<or> rq_action rq = Do_resume \<and> (\<exists>r. cy_integrationResolution c = Some r
                   \<and> before = over (ir_runIds r) [] \<and> ir_attempts r' = Suc (ir_attempts r)))))"
proof -
  from assms(1,2) obtain tree chk db1 where "resolve_action ig c ctx rq tree chk db1 = (Inr c', db')"
    by (auto simp: resolveIntegration_def resolutionMutation_def and_then_Inr looking_def Let_def
        unless_error_def give_def split: if_splits option.splits)
  from resolve_action_effect [OF this] assms(3) show ?thesis
    by (auto simp: attempt_effect_of_def)
qed


definition pending_resolution :: integration_resolution where
  "pending_resolution = \<lparr>ir_runIds = Some [''r0'', ''r1''], ir_id = ''res'', ir_status = Res_resolving,
     ir_headSha = ''abc'', ir_targetSha = ''def'', ir_targetBranch = ''main'', ir_paths = [''f''],
     ir_diagnostics = [], ir_createdAt = 0, ir_attempts = 2, ir_profile = None, ir_instructions = None,
     ir_treeSha = None, ir_commitSha = None\<rparr>"

definition resolving_cycle :: work_cycle where
  "resolving_cycle = sample_cycle\<lparr>cy_status := Paused, cy_step := Remediate,
     cy_integrationResolution := Some pending_resolution\<rparr>"

definition resolving_reads :: integration_reads where
  "resolving_reads = quiet_integration\<lparr>ig_launch := quiet_launch
       \<lparr>lr_worktree := Some (sample_worktree\<lparr>wt_integrationBranch := Some ''main''\<rparr>)\<rparr>,
     ig_findRun := (\<lambda>_. Some sample_run)\<rparr>"

definition resume_request :: resolution_request where
  "resume_request = \<lparr>rq_action = Do_resume, rq_expectedVersion = 1, rq_profile = Some sample_profile,
     rq_instructions = None\<rparr>"

lemma resolving_agent:
  "\<exists>p. resolution_agent resolving_reads resolving_cycle (Some sample_profile) None = Inr p"
proof -
  let ?a = "\<lparr>aa_layer = L_integration_resolution, aa_selection = agent_selection.truncate sample_profile,
      aa_permissionMode = Some (ap_permissionMode sample_profile)\<rparr>"
  let ?ax = "cycleLayers (ig_assignment resolving_reads) (ig_owned resolving_reads) resolving_cycle
      ((no_layers (For_specialist Spec_conflict))
        \<lparr>ax_permissionMode := Some (ap_permissionMode (step_profile (cy_profiles resolving_cycle) Remediate)),
         ax_action := Some ?a, ax_integrationResolution := None\<rparr>)"
  obtain rest where "candidates ?ax = agent_candidate_of (aa_selection ?a)
      (from_layer L_integration_resolution) (Some (ap_permissionMode sample_profile)) # rest"
    by (simp add: candidates_def Let_def no_layers_def cycleLayers_def action_candidates_def
        cong del: option.case_cong_weak)
  then have "resolution_agent resolving_reads resolving_cycle (Some sample_profile) None
      = Inr (agent_selection.extend (selectAgent (agent_selection.truncate sample_profile))
          \<lparr>ap_permissionMode = ap_permissionMode sample_profile\<rparr>)"
    by (simp add: resolution_agent_def operatorResolutionProfile_def launched_profile_def resolveAgent_def
        launchProfile_def resolving_reads_def quiet_launch_def del: agent_candidate_of_sel)
       (simp add: agent_candidate_of_def)
  then show ?thesis by blast
qed

lemma resolving_sel [simp]:
  "cy_integrationResolution resolving_cycle = Some pending_resolution" "cy_version resolving_cycle = 1"
  "cy_status resolving_cycle = Paused" "cy_workItemId resolving_cycle = Some ''i1''"
  "cy_investigation resolving_cycle = None" "cy_currentRunId resolving_cycle = ''r1''"
  "ir_attempts pending_resolution = 2" "ir_profile pending_resolution = None"
  "ir_status pending_resolution = Res_resolving" "ir_instructions pending_resolution = None"
  "ir_runIds pending_resolution = Some [''r0'', ''r1'']"
  by (simp_all add: resolving_cycle_def pending_resolution_def)

lemma resolving_reads_sel [simp]:
  "lr_freshRunId (ig_launch resolving_reads) = ''r2''" "lr_policy (ig_launch resolving_reads) = quiet_reads"
  "lr_now (ig_launch resolving_reads) = 5000" "lr_git (ig_launch resolving_reads)"
  "lr_worktree (ig_launch resolving_reads) = Some (sample_worktree\<lparr>wt_integrationBranch := Some ''main''\<rparr>)"
  "lr_requireRole (ig_launch resolving_reads) x = None" "lr_others (ig_launch resolving_reads) call db = db"
  "\<not> lr_stopping (ig_launch resolving_reads)"
  "ig_findRun resolving_reads i = Some sample_run" "ig_editor resolving_reads n user" "\<not> ig_live resolving_reads n"
  "ig_ready resolving_reads = None" "ig_validateResolution resolving_reads = None"
  "ig_repository resolving_reads" "\<not> ig_busy resolving_reads n" "ig_treeBusy resolving_reads = None"
  by (simp_all add: resolving_reads_def quiet_integration_def quiet_launch_def)

theorem resolution_attempts_bounded_witness:
  "\<exists>c' db' r. resolveIntegration resolving_reads sample_context (cycle_key resolving_cycle) resume_request None
       (lone resolving_cycle) = (Inr c', db')
     \<and> cy_currentRunId c' = ''r2'' \<and> cy_integrationResolution c' = Some r \<and> ir_attempts r = 3"
proof -
  let ?c = resolving_cycle and ?ig = resolving_reads
  let ?r = "the (cy_integrationResolution ?c)"
  obtain p where p: "resolution_agent ?ig ?c (Some sample_profile) None = Inr p" using resolving_agent by blast
  define ch where "ch = no_changes\<lparr>ch_integrationResolution := Put (?r\<lparr>ir_profile := Some p,
        ir_instructions := Some [], ir_attempts := 3, ir_runIds := Some [''r0'', ''r1'', ''r2'']\<rparr>),
      ch_status := Some Running, ch_parentRunId := Put (run_id sample_run), ch_currentRunId := Some ''r2'',
      ch_keepAttempt := True, ch_runDeadlineAt := Some (cycle_deadline ?ig ?c),
      ch_reason := Some ''Resuming conflict resolution with the existing edits and handoff.''\<rparr>"
  define u where "u = updated_cycle quiet_reads 5000 True ?c ch"
  have stop: "cy_stop u = None"
    by (simp add: u_def written_stop_def completed_attention_def declared_attention_def attention_status_def
        next_status_def ch_def no_changes_def)
  have run: "cy_currentRunId u = ''r2''" "cy_status u = Running"
    by (simp_all add: u_def ch_def next_status_def)
  have "checkTransition (cy_status ?c) (cy_status u) (cy_stop u) ''resolution-resumed'' = Inr ()"
    by (simp add: run stop checkTransition_ok carries_iff resolving_cycle_def may_go_live)
  moreover have "u\<lparr>cy_version := cy_version ?c, cy_updatedAt := cy_updatedAt ?c\<rparr> \<noteq> ?c"
  proof
    assume "u\<lparr>cy_version := cy_version ?c, cy_updatedAt := cy_updatedAt ?c\<rparr> = ?c"
    from arg_cong [OF this, of cy_status] show False by (simp add: run resolving_cycle_def)
  qed
  moreover have rows: "db_rows (lone ?c) = [?c]" by (simp add: lone_def)
  ultimately obtain db' where w: "change quiet_reads 5000 None (lone ?c) ?c ch ''resolution-resumed''
      (Some sample_context) [] = Inr (Wrote db' u)"
    by - (rule single_row_write [OF rows u_def, of "Some sample_context"], auto)
  have found: "cycles_find (db_rows (lone ?c)) (cycle_key ?c) = Some ?c"
    by (simp add: rows cycles_find_def)
  have check: "owned_check ?ig ?c x None n (lone ?c) = (Inr (), lone ?c)"
    "resolution_check ?ig ?c x n (lone ?c) = (Inr (), lone ?c)" for x n
    by (simp_all add: owned_check_def resolution_check_def find_cycle_def job_values found and_then_def
        looking_def give_def)
  have retry: "resolve_retry ?ig ?c sample_context resume_request pending_resolution sample_run
      (owned_check ?ig ?c x None n) (lone ?c) = (Inr u, db')" for x n
    using w p
    by (simp add: resolve_retry_def job_values and_then_def check run_change_def resume_request_def
        ch_def u_def numeral_3_eq_3)
  have resume: "resolve_resume ?ig ?c sample_context resume_request pending_resolution
      (owned_check ?ig ?c x None n) (lone ?c) = (Inr u, db')" for x n
    using retry
    by (simp add: resolve_resume_def Let_def ownsIntegrationResolution_def resume_request_def)
  have action: "resolve_action ?ig ?c sample_context resume_request tree (owned_check ?ig ?c x None) (lone ?c)
      = (Inr u, db')" for x tree
    using resume
    by (simp add: resolve_action_def and_then_def check resume_request_def awaiting_def unless_error_def give_def)
  have res: "resolveIntegration ?ig sample_context (cycle_key ?c) resume_request None (lone ?c) = (Inr u, db')"
    using action
    by (simp add: resolveIntegration_def resolutionMutation_def job_values found requireNoInvestigation_def
        investigationLive_def worktreeChangeOpen_def resolution_gates_def resume_request_def truthy_def
        sample_worktree_def and_then_def check looking_def Let_def)
  from resolution_attempts_bounded [OF res found] run obtain r where
    "cy_integrationResolution u = Some r" "ir_attempts r = 3"
    by (auto simp: resume_request_def)
  with res run show ?thesis by blast
qed

end
