(* ===== verification/Stage_Policy.thy ===== *)
theory Stage_Policy
  imports Owner
begin

text \<open>
  A staged finalization's reports (\<open>apps/server/src/services/finalization-stage-policy.ts\<close>):
  whether a complete report is valid for the cycle's stage, the obligations and follow-ups it
  records, and whether the finished stages may be promoted. The obligations are a keyed list, as
  the JavaScript \<open>Map\<close> keeps them: an identity stays where it was first put.
\<close>

section \<open>The report's checks\<close>

definition known_obligation :: "work_cycle \<Rightarrow> string \<Rightarrow> obligation option" where
  "known_obligation c i =
     (case cy_finalizationProgress c of
        None \<Rightarrow> None
      | Some p \<Rightarrow> find (\<lambda>ob. ob_id ob = i) (rev (fp_obligations p)))"

definition named_stage :: "finalization \<Rightarrow> work_cycle \<Rightarrow> finalization_stage option" where
  "named_stage v c =
     (case fin_stages v of
        None \<Rightarrow> None
      | Some stages \<Rightarrow> nth_opt stages (case cy_finalizationProgress c of None \<Rightarrow> 0 | Some p \<Rightarrow> fp_stageIndex p))"

definition required_checks :: "finalization \<Rightarrow> finalization_stage \<Rightarrow> string list" where
  "required_checks v stage =
     (if fs_kind stage = Final_review then dedup (concat (map fs_requiredChecks (over (fin_stages v) [])))
      else fs_requiredChecks stage)"

text \<open>An adopted obligation the report changed without a decision.\<close>

definition changed_obligation :: "obligation \<Rightarrow> obligation \<Rightarrow> bool" where
  "changed_obligation prior ob =
     ((ob_source ob \<noteq> None \<and> ob_source ob \<noteq> ob_source prior)
      \<or> (ob_requirement ob \<noteq> None \<and> ob_requirement ob \<noteq> ob_requirement prior)
      \<or> (ob_workItemSourceId ob \<noteq> None \<and> ob_workItemSourceId ob \<noteq> ob_workItemSourceId prior))"

text \<open>Evidence of an earlier run is reused only from a completed stage on the same commits.\<close>

definition reusable_evidence ::
    "work_cycle \<Rightarrow> finalization_stage \<Rightarrow> review_branch_context \<Rightarrow> obligation option \<Rightarrow> obligation \<Rightarrow> bool" where
  "reusable_evidence c stage baseline prior ob =
     (fs_kind stage \<noteq> Final_review
      \<and> (case prior of
           None \<Rightarrow> False
         | Some p \<Rightarrow>
             ob_status p = Met \<and> ob_runId p = ob_reusedFromRunId ob
             \<and> ob_headSha p = Some (rbc_headSha baseline) \<and> ob_targetSha p = Some (rbc_targetSha baseline)
             \<and> (case cy_finalizationProgress c of
                  None \<Rightarrow> False
                | Some pr \<Rightarrow> (\<exists>s\<in>set (fp_stages pr). st_status s = Stage_completed
                    \<and> st_completedRunId s = ob_runId p
                    \<and> st_headSha s = Some (rbc_headSha baseline)
                    \<and> st_targetSha s = Some (rbc_targetSha baseline)))
             \<and> (ob_requirement ob = None \<or> ob_requirement p = ob_requirement ob)
             \<and> ob_evidence p = ob_evidence ob \<and> ob_status ob = Met))"

definition obligation_issues ::
    "work_cycle \<Rightarrow> finalization_stage \<Rightarrow> review_branch_context \<Rightarrow> obligation \<Rightarrow> string list" where
  "obligation_issues c stage baseline ob =
     (let prior = known_obligation c (ob_id ob) in
      (if prior = None \<and> (\<not> truthy (ob_source ob) \<or> \<not> truthy (ob_requirement ob))
       then [''New obligation '' @ ob_id ob @ '' requires an exact source citation and requirement.'']
       else [])
      @ (if (case prior of None \<Rightarrow> False | Some p \<Rightarrow> changed_obligation p ob)
         then [''Obligation '' @ ob_id ob @ '' changed its adopted source or requirement. Request and obtain an explicit plan-change decision first.'']
         else [])
      @ (if truthy (ob_reusedFromRunId ob) \<and> \<not> reusable_evidence c stage baseline prior ob
         then [''Obligation '' @ ob_id ob @ '' cannot reuse that evidence: only complete matching-commit, matching-requirement evidence is reusable; final review always revalidates.'']
         else []))"

definition missing_obligations :: "work_cycle \<Rightarrow> finalization_stage \<Rightarrow> stage_report \<Rightarrow> obligation list" where
  "missing_obligations c stage report =
     filter (\<lambda>ob. (fs_workItemSourceIds stage = [] \<or> \<not> truthy (ob_workItemSourceId ob)
                    \<or> the (ob_workItemSourceId ob) \<in> set (fs_workItemSourceIds stage))
                  \<and> ob_id ob \<notin> set (map ob_id (sr_obligations report)))
       (case cy_finalizationProgress c of None \<Rightarrow> [] | Some p \<Rightarrow> fp_obligations p)"

definition stage_report_issues ::
    "finalization \<Rightarrow> work_cycle \<Rightarrow> finalization_stage \<Rightarrow> review_report \<Rightarrow> stage_report
     \<Rightarrow> review_branch_context \<Rightarrow> string list" where
  "stage_report_issues v c stage rp report baseline =
     (if \<exists>f\<in>set (rp_findings rp). fd_category f = None
      then [''Every staged finding needs a category independent of severity. Split bundled concerns into separate IDs.'']
      else [])
     @ (if fs_kind stage = Final_review \<and> \<not> sr_fullChecks report
        then [''The final independent review must run and report the full required checks.''] else [])
     @ map (\<lambda>name. ''Required check missing: '' @ name)
         (filter (\<lambda>name. \<not> (\<exists>k\<in>set (sr_checks report). chk_name k = name)) (required_checks v stage))
     @ (if rp_gateMet rp
           \<and> ((\<exists>k\<in>set (sr_checks report). chk_status k \<noteq> Check_passed)
              \<or> (\<exists>ob\<in>set (sr_obligations report). ob_status ob \<noteq> Met))
        then [''A met stage exit gate requires passing checks and no reported obligation gaps or unapproved changes.'']
        else [])
     @ concat (map (obligation_issues c stage baseline) (sr_obligations report))
     @ (if (fs_kind stage = Conformance \<or> fs_kind stage = Final_review)
           \<and> missing_obligations c stage report \<noteq> []
        then [''Missing adopted obligations: '' @ js_join '', '' (map ob_id (missing_obligations c stage report))
              @ ''. Report each current disposition; historical completion is not evidence of current conformance.'']
        else [])"

definition stage_unnamed :: "assessment" where
  "stage_unnamed = Invalid
     [''A staged finalization report must name the current stage and have its recorded review baseline. Read craftingtable-finalization-state.json.'']
     (Some Content_fault)"

definition assessStageReport ::
    "finalization \<Rightarrow> work_cycle \<Rightarrow> assessment \<Rightarrow> review_branch_context option \<Rightarrow> assessment" where
  "assessStageReport v c a baseline =
     (case (fin_stages v, a) of
        (Some stages, Complete is rp) \<Rightarrow>
          (case (named_stage v c, rp_finalization rp, baseline) of
             (Some stage, Some report, Some b) \<Rightarrow>
               if sr_stageId report \<noteq> fs_id stage then stage_unnamed
               else
                 let issues = stage_report_issues v c stage rp report b
                 in if issues \<noteq> [] then Invalid (take 20 issues) (Some Content_fault) else a
           | _ \<Rightarrow> stage_unnamed)
      | _ \<Rightarrow> a)"

section \<open>The evidence a report records\<close>

text \<open>One reported obligation put into the ledger; \<open>None\<close>: the thrown error.\<close>

definition recorded_obligation ::
    "work_cycle \<Rightarrow> review_branch_context \<Rightarrow> obligation option \<Rightarrow> obligation \<Rightarrow> obligation option" where
  "recorded_obligation c baseline prior entry =
     (let pick = (\<lambda>field. case field entry of Some x \<Rightarrow> Some x
                    | None \<Rightarrow> (case prior of None \<Rightarrow> None | Some p \<Rightarrow> field p))
      in if \<not> truthy (pick ob_source) \<or> \<not> truthy (pick ob_requirement) then None
         else Some (entry\<lparr>
           ob_source := pick ob_source,
           ob_requirement := pick ob_requirement,
           ob_workItemSourceId := (if truthy (pick ob_workItemSourceId) then pick ob_workItemSourceId
                                   else ob_workItemSourceId entry),
           ob_approvedChange := (case prior of
               None \<Rightarrow> ob_approvedChange entry
             | Some p \<Rightarrow> (case ob_approvedChange p of
                             None \<Rightarrow> ob_approvedChange entry | Some x \<Rightarrow> Some x)),
           ob_runId := Some (cy_currentRunId c),
           ob_headSha := Some (rbc_headSha baseline),
           ob_targetSha := Some (rbc_targetSha baseline)\<rparr>))"

fun record_obligations ::
    "work_cycle \<Rightarrow> review_branch_context \<Rightarrow> obligation list \<Rightarrow> obligation list \<Rightarrow> obligation list option" where
  "record_obligations c baseline ledger [] = Some ledger"
| "record_obligations c baseline ledger (entry # rest) =
     (case recorded_obligation c baseline (find (\<lambda>ob. ob_id ob = ob_id entry) ledger) entry of
        None \<Rightarrow> None
      | Some ob \<Rightarrow> record_obligations c baseline (put_keyed ob_id ob ledger) rest)"

text \<open>A parked follow-up is kept as the review reports it now, or is dropped from the ledger.\<close>

fun record_followUps :: "finding list \<Rightarrow> finding list \<Rightarrow> finding list" where
  "record_followUps ledger [] = ledger"
| "record_followUps ledger (f # rest) =
     record_followUps
       (case find (\<lambda>x. fd_id x = fd_id f) ledger of
          None \<Rightarrow> ledger
        | Some prior \<Rightarrow>
            if staysFollowUp prior f then put_keyed fd_id f ledger
            else filter (\<lambda>x. fd_id x \<noteq> fd_id f) ledger) rest"

definition recordStageEvidence ::
    "work_cycle \<Rightarrow> review_report \<Rightarrow> review_branch_context \<Rightarrow> finalization_progress option" where
  "recordStageEvidence c rp baseline =
     (case (cy_finalizationProgress c, rp_finalization rp) of
        (Some p, Some report) \<Rightarrow>
          (case record_obligations c baseline (fold (put_keyed ob_id) (fp_obligations p) [])
                  (sr_obligations report) of
             None \<Rightarrow> None
           | Some obligations \<Rightarrow> Some (p
               \<lparr>fp_obligations := obligations,
                fp_followUps := record_followUps (fold (put_keyed fd_id) (fp_followUps p) []) (rp_findings rp)\<rparr>))
      | _ \<Rightarrow> None)"

section \<open>Promotion\<close>

definition stages_complete :: "finalization_stage list \<Rightarrow> work_cycle \<Rightarrow> bool" where
  "stages_complete stages c =
     (case cy_finalizationProgress c of
        None \<Rightarrow> False
      | Some p \<Rightarrow>
          Suc (fp_stageIndex p) = length stages \<and> map st_id (fp_stages p) = map fs_id stages
          \<and> (case currentFinalizationStage c of
               None \<Rightarrow> False
             | Some s \<Rightarrow> st_completedRunId s = Some (cy_currentRunId c) \<and> st_status s = Stage_completed)
          \<and> (\<forall>s\<in>set (fp_stages p). st_status s = Stage_completed))"

definition current_evidence :: "work_cycle \<Rightarrow> review_branch_context option \<Rightarrow> obligation \<Rightarrow> bool" where
  "current_evidence c baseline ob =
     (ob_status ob = Met \<and> ob_runId ob = Some (cy_currentRunId c)
      \<and> ob_headSha ob = map_option rbc_headSha baseline
      \<and> ob_targetSha ob = map_option rbc_targetSha baseline)"

definition stagedPromotionIssue ::
    "finalization \<Rightarrow> work_cycle \<Rightarrow> assessment option \<Rightarrow> review_branch_context option \<Rightarrow> string option" where
  "stagedPromotionIssue v c a baseline =
     (case fin_stages v of
        None \<Rightarrow> None
      | Some stages \<Rightarrow>
          if \<not> stages_complete stages c
          then Some ''Every finalization stage and the final independent review must be complete.''
          else (case map_option (\<lambda>x. assessStageReport v c x baseline) a of
             Some (Complete is rp) \<Rightarrow>
               if \<exists>ob\<in>set (case cy_finalizationProgress c of None \<Rightarrow> [] | Some p \<Rightarrow> fp_obligations p).
                    \<not> current_evidence c baseline ob
               then Some ''Every adopted obligation needs current final-review evidence.''
               else if (case rp_finalization rp of
                          None \<Rightarrow> False
                        | Some report \<Rightarrow> (\<exists>k\<in>set (sr_checks report). chk_status k \<noteq> Check_passed))
               then Some ''All final required checks must pass.''
               else None
           | _ \<Rightarrow> Some ''The final staged review report is incomplete or stale.''))"

end
