(* ===== verification/Stage_Evidence.thy ===== *)
theory Stage_Evidence
  imports Stage_Policy
begin

text \<open>
  What the staged reports guarantee: the adopted obligations a review may not lose or rewrite, and
  the evidence a promotion needs.
\<close>

section \<open>The ledger a report may leave\<close>

definition stated :: "obligation \<Rightarrow> bool" where
  "stated ob = (truthy (ob_source ob) \<and> truthy (ob_requirement ob))"

text \<open>An entry that keeps an adopted obligation, or states a new one.\<close>

definition entry_keeps :: "work_cycle \<Rightarrow> obligation \<Rightarrow> bool" where
  "entry_keeps c entry =
     (case known_obligation c (ob_id entry) of
        None \<Rightarrow> stated entry
      | Some k \<Rightarrow> \<not> changed_obligation k entry)"

text \<open>Every adopted obligation stands in the ledger with its source and requirement.\<close>

definition ledger_keeps :: "work_cycle \<Rightarrow> obligation list \<Rightarrow> bool" where
  "ledger_keeps c ledger =
     (distinct (map ob_id ledger) \<and> (\<forall>ob\<in>set ledger. stated ob)
      \<and> (\<forall>i k. known_obligation c i = Some k \<longrightarrow>
           (\<exists>ob. find (\<lambda>x. ob_id x = i) ledger = Some ob
             \<and> ob_source ob = ob_source k \<and> ob_requirement ob = ob_requirement k)))"

definition current_entry :: "work_cycle \<Rightarrow> review_branch_context \<Rightarrow> obligation \<Rightarrow> bool" where
  "current_entry c b ob =
     (ob_runId ob = Some (cy_currentRunId c) \<and> ob_headSha ob = Some (rbc_headSha b)
      \<and> ob_targetSha ob = Some (rbc_targetSha b))"

lemma known_id: "known_obligation c i = Some k \<Longrightarrow> ob_id k = i"
  by (auto simp: known_obligation_def split: option.splits dest!: find_Some_in)

lemma put_keyed_set: "set (put_keyed key v xs) \<subseteq> insert v (set xs)"
  by (induction xs) auto

lemma recorded_step:
  assumes "ledger_keeps c L" "entry_keeps c entry"
  obtains ob where "recorded_obligation c b (find (\<lambda>x. ob_id x = ob_id entry) L) entry = Some ob"
    and "ob_id ob = ob_id entry" and "current_entry c b ob" and "ob_status ob = ob_status entry"
    and "ledger_keeps c (put_keyed ob_id ob L)"
proof -
  let ?prior = "find (\<lambda>x. ob_id x = ob_id entry) L"
  define pick :: "(obligation \<Rightarrow> string option) \<Rightarrow> string option" where
    "pick = (\<lambda>field. case field entry of Some x \<Rightarrow> Some x
      | None \<Rightarrow> (case ?prior of None \<Rightarrow> None | Some p \<Rightarrow> field p))"
  have src: "truthy (pick ob_source)" and req: "truthy (pick ob_requirement)"
    and same: "\<And>k. known_obligation c (ob_id entry) = Some k \<Longrightarrow>
      pick ob_source = ob_source k \<and> pick ob_requirement = ob_requirement k"
  proof -
    show same: "pick ob_source = ob_source k \<and> pick ob_requirement = ob_requirement k"
      if k: "known_obligation c (ob_id entry) = Some k" for k
    proof -
      from assms(1) k obtain ob where "?prior = Some ob" "ob_source ob = ob_source k"
          "ob_requirement ob = ob_requirement k"
        unfolding ledger_keeps_def by blast
      with assms(2) k show ?thesis
        by (auto simp: pick_def entry_keeps_def changed_obligation_def split: option.splits)
    qed
    have "truthy (pick ob_source) \<and> truthy (pick ob_requirement)"
    proof (cases "known_obligation c (ob_id entry)")
      case None
      with assms(2) show ?thesis
        by (auto simp: entry_keeps_def stated_def pick_def truthy_def split: option.splits)
    next
      case (Some k)
      with assms(1) obtain ob where ob: "?prior = Some ob" "ob_source ob = ob_source k"
          "ob_requirement ob = ob_requirement k"
        unfolding ledger_keeps_def by blast
      then have "stated ob" using assms(1) find_Some_in [OF ob(1)] by (simp add: ledger_keeps_def)
      with same [OF Some] ob show ?thesis by (simp add: stated_def)
    qed
    then show "truthy (pick ob_source)" "truthy (pick ob_requirement)" by blast+
  qed
  obtain ob where ob: "recorded_obligation c b ?prior entry = Some ob"
      "ob_source ob = pick ob_source" "ob_requirement ob = pick ob_requirement"
      "ob_id ob = ob_id entry" "current_entry c b ob" "ob_status ob = ob_status entry"
    using src req by (auto simp: recorded_obligation_def Let_def pick_def [symmetric] current_entry_def)
  have "ledger_keeps c (put_keyed ob_id ob L)"
    unfolding ledger_keeps_def
  proof (intro conjI allI impI ballI)
    show "distinct (map ob_id (put_keyed ob_id ob L))"
      using assms(1) by (intro distinct_put_keyed) (simp add: ledger_keeps_def)
    show "stated x" if "x \<in> set (put_keyed ob_id ob L)" for x
      using that put_keyed_set [of ob_id ob L] assms(1) src req ob
      by (auto simp: ledger_keeps_def stated_def)
    show "\<exists>x. find (\<lambda>x. ob_id x = i) (put_keyed ob_id ob L) = Some x
        \<and> ob_source x = ob_source k \<and> ob_requirement x = ob_requirement k"
      if "known_obligation c i = Some k" for i k
      using that assms(1) same ob
      by (auto simp: find_put_keyed ledger_keeps_def)
  qed
  with ob that show thesis by blast
qed

lemma recorded_all:
  assumes "ledger_keeps c L" "\<And>e. e \<in> set es \<Longrightarrow> entry_keeps c e"
  shows "\<exists>L'. record_obligations c b L es = Some L' \<and> ledger_keeps c L'
    \<and> (\<forall>e\<in>set es. \<exists>ob\<in>set L'. ob_id ob = ob_id e \<and> current_entry c b ob)
    \<and> (\<forall>i. i \<notin> ob_id ` set es \<longrightarrow> find (\<lambda>x. ob_id x = i) L' = find (\<lambda>x. ob_id x = i) L)
    \<and> (\<forall>i ob. find (\<lambda>x. ob_id x = i) L = Some ob \<and> current_entry c b ob \<longrightarrow>
         (\<exists>ob'. find (\<lambda>x. ob_id x = i) L' = Some ob' \<and> current_entry c b ob'))"
  using assms
proof (induction es arbitrary: L)
  case Nil
  then show ?case by auto
next
  case (Cons e es)
  from recorded_step [OF Cons.prems(1) Cons.prems(2) [of e]] obtain ob where
    ob: "recorded_obligation c b (find (\<lambda>x. ob_id x = ob_id e) L) e = Some ob" "ob_id ob = ob_id e"
      "current_entry c b ob" "ledger_keeps c (put_keyed ob_id ob L)" by auto
  from Cons.IH [OF ob(4)] Cons.prems(2) obtain L' where
    L': "record_obligations c b (put_keyed ob_id ob L) es = Some L'" "ledger_keeps c L'"
      "\<forall>e\<in>set es. \<exists>ob\<in>set L'. ob_id ob = ob_id e \<and> current_entry c b ob"
      "\<forall>i. i \<notin> ob_id ` set es \<longrightarrow> find (\<lambda>x. ob_id x = i) L' = find (\<lambda>x. ob_id x = i) (put_keyed ob_id ob L)"
      "\<forall>i x. find (\<lambda>y. ob_id y = i) (put_keyed ob_id ob L) = Some x \<and> current_entry c b x \<longrightarrow>
         (\<exists>x'. find (\<lambda>y. ob_id y = i) L' = Some x' \<and> current_entry c b x')"
    by auto
  have first: "\<exists>x\<in>set L'. ob_id x = ob_id e \<and> current_entry c b x"
  proof -
    have "find (\<lambda>y. ob_id y = ob_id e) (put_keyed ob_id ob L) = Some ob"
      by (simp add: find_put_keyed ob(2))
    with L'(5) ob(3) obtain x where "find (\<lambda>y. ob_id y = ob_id e) L' = Some x" "current_entry c b x" by blast
    with find_Some_in [OF this(1)] show ?thesis by blast
  qed
  show ?case
  proof (intro exI [of _ L'] conjI allI impI ballI)
    show "record_obligations c b L (e # es) = Some L'" using ob(1) L'(1) by simp
    show "ledger_keeps c L'" by (rule L'(2))
    show "\<exists>x\<in>set L'. ob_id x = ob_id d \<and> current_entry c b x" if "d \<in> set (e # es)" for d
      using that first L'(3) by auto
    show "find (\<lambda>x. ob_id x = i) L' = find (\<lambda>x. ob_id x = i) L" if "i \<notin> ob_id ` set (e # es)" for i
      using that L'(4) ob(2) by (auto simp: find_put_keyed)
    show "\<exists>x'. find (\<lambda>x. ob_id x = i) L' = Some x' \<and> current_entry c b x'"
      if "find (\<lambda>x. ob_id x = i) L = Some x \<and> current_entry c b x" for i x
      using that L'(5) ob(2,3) by (simp add: find_put_keyed)
  qed
qed


lemma assess_complete:
  assumes "assessStageReport v c (Complete is rp) (Some b) = Complete is' rp'" "fin_stages v = Some stages"
  obtains stage report where "named_stage v c = Some stage" "rp_finalization rp = Some report"
    "sr_stageId report = fs_id stage" "stage_report_issues v c stage rp report b = []"
  using assms
  by (auto simp: assessStageReport_def stage_unnamed_def Let_def split: option.splits if_splits)

lemma assess_same: "assessStageReport v c x b = Complete iss rp \<Longrightarrow> x = Complete iss rp"
  by (cases x) (auto simp: assessStageReport_def stage_unnamed_def Let_def split: option.splits if_splits)

lemma keyed_once:
  assumes "distinct (map key xs)"
  shows "find (\<lambda>x. key x = i) (fold (put_keyed key) xs []) = find (\<lambda>x. key x = i) xs"
proof (cases "find (\<lambda>x. key x = i) xs")
  case None
  then have "find (\<lambda>x. key x = i) (rev xs) = None" by (simp add: find_None_all)
  with None show ?thesis by (simp add: find_fold_put_keyed)
next
  case (Some x)
  with find_Some_in [OF Some] have "find (\<lambda>x. key x = i) (rev xs) = Some x"
    using find_key_distinct [of key "rev xs" x] assms by (simp flip: rev_map)
  with Some show ?thesis by (simp add: find_fold_put_keyed)
qed

lemma known_distinct:
  assumes "cy_finalizationProgress c = Some p" "distinct (map ob_id (fp_obligations p))"
  shows "known_obligation c i = find (\<lambda>ob. ob_id ob = i) (fp_obligations p)"
proof (cases "find (\<lambda>ob. ob_id ob = i) (fp_obligations p)")
  case None
  then have "find (\<lambda>ob. ob_id ob = i) (rev (fp_obligations p)) = None" by (simp add: find_None_all)
  with None assms(1) show ?thesis by (simp add: known_obligation_def)
next
  case (Some x)
  with find_Some_in [OF Some] have "find (\<lambda>ob. ob_id ob = i) (rev (fp_obligations p)) = Some x"
    using find_key_distinct [of ob_id "rev (fp_obligations p)" x] assms(2) by (simp flip: rev_map)
  with Some assms(1) show ?thesis by (simp add: known_obligation_def)
qed

lemma loaded_ledger:
  assumes p: "cy_finalizationProgress c = Some p"
    and adopted: "distinct (map ob_id (fp_obligations p))" "\<forall>ob\<in>set (fp_obligations p). stated ob"
  shows "ledger_keeps c (fold (put_keyed ob_id) (fp_obligations p) [])"
    "find (\<lambda>x. ob_id x = i) (fold (put_keyed ob_id) (fp_obligations p) []) = known_obligation c i"
proof -
  let ?L = "fold (put_keyed ob_id) (fp_obligations p) []"
  note known = known_distinct [OF p adopted(1)]
  have at: "find (\<lambda>x. ob_id x = i) ?L = known_obligation c i" for i
    by (simp add: keyed_once [OF adopted(1)] known)
  then show "find (\<lambda>x. ob_id x = i) ?L = known_obligation c i" .
  have sub: "set ?L \<subseteq> set (fp_obligations p)"
  proof
    fix x assume "x \<in> set ?L"
    have "distinct (map ob_id ?L)" using fold_put_keyed [of ob_id "fp_obligations p" "[]"] by simp
    from find_key_distinct [OF this \<open>x \<in> set ?L\<close>] have "known_obligation c (ob_id x) = Some x" by (simp add: at)
    then show "x \<in> set (fp_obligations p)" unfolding known by (auto dest: find_Some_in)
  qed
  show "ledger_keeps c ?L"
    using fold_put_keyed [of ob_id "fp_obligations p" "[]"] adopted(2) sub
    by (auto simp: ledger_keeps_def at)
qed

lemma accepted_entry_keeps:
  assumes "stage_report_issues v c stage rp report b = []" "e \<in> set (sr_obligations report)"
  shows "entry_keeps c e"
proof -
  from assms have none: "obligation_issues c stage b e = []"
    unfolding stage_report_issues_def append_is_Nil_conv concat_eq_Nil_conv by simp
  then show ?thesis
    by (cases "known_obligation c (ob_id e)")
       (simp_all add: obligation_issues_def entry_keeps_def stated_def split: if_splits)
qed

text \<open>
  C36. No adopted obligation is lost or rewritten by a review: when a staged report is accepted,
  recording its evidence succeeds; every adopted obligation stands in the new ledger with the source
  and the requirement it was adopted with, unchanged where the report does not name it; every
  reported obligation carries the evidence of the current run and the reviewed commits; and the
  ledger again holds one entry per identity, each with its source and requirement. The stages and
  their decisions are untouched.
\<close>

theorem adopted_obligations_kept:
  assumes "assessStageReport v c (Complete is rp) (Some b) = Complete is' rp'" "fin_stages v = Some stages"
    and p: "cy_finalizationProgress c = Some p"
    and adopted: "distinct (map ob_id (fp_obligations p))" "\<forall>ob\<in>set (fp_obligations p). stated ob"
  shows "\<exists>report p'. rp_finalization rp = Some report \<and> recordStageEvidence c rp b = Some p'
    \<and> fp_stages p' = fp_stages p \<and> fp_stageIndex p' = fp_stageIndex p \<and> fp_decisions p' = fp_decisions p
    \<and> distinct (map ob_id (fp_obligations p')) \<and> (\<forall>ob\<in>set (fp_obligations p'). stated ob)
    \<and> (\<forall>ob\<in>set (fp_obligations p). \<exists>ob'\<in>set (fp_obligations p').
          ob_id ob' = ob_id ob \<and> ob_source ob' = ob_source ob \<and> ob_requirement ob' = ob_requirement ob
          \<and> (ob_id ob \<notin> ob_id ` set (sr_obligations report) \<longrightarrow> ob' = ob))
    \<and> (\<forall>e\<in>set (sr_obligations report). \<exists>ob'\<in>set (fp_obligations p').
          ob_id ob' = ob_id e \<and> current_entry c b ob')"
proof -
  from assess_complete [OF assms(1,2)] obtain stage report where
    report: "rp_finalization rp = Some report" "stage_report_issues v c stage rp report b = []"
    by blast
  let ?L = "fold (put_keyed ob_id) (fp_obligations p) []"
  note loaded = loaded_ledger [OF p adopted]
  from recorded_all [OF loaded(1) accepted_entry_keeps [OF report(2)]] obtain L' where L':
    "record_obligations c b ?L (sr_obligations report) = Some L'" "ledger_keeps c L'"
    "\<forall>e\<in>set (sr_obligations report). \<exists>ob\<in>set L'. ob_id ob = ob_id e \<and> current_entry c b ob"
    "\<forall>i. i \<notin> ob_id ` set (sr_obligations report) \<longrightarrow>
       find (\<lambda>x. ob_id x = i) L' = find (\<lambda>x. ob_id x = i) ?L"
    by blast
  have kept: "\<exists>ob'\<in>set L'. ob_id ob' = ob_id ob \<and> ob_source ob' = ob_source ob
      \<and> ob_requirement ob' = ob_requirement ob
      \<and> (ob_id ob \<notin> ob_id ` set (sr_obligations report) \<longrightarrow> ob' = ob)"
    if "ob \<in> set (fp_obligations p)" for ob
  proof -
    have k: "known_obligation c (ob_id ob) = Some ob"
      using find_key_distinct [OF adopted(1) that] known_distinct [OF p adopted(1)] by simp
    then obtain ob' where ob': "find (\<lambda>x. ob_id x = ob_id ob) L' = Some ob'"
        "ob_source ob' = ob_source ob" "ob_requirement ob' = ob_requirement ob"
      using L'(2) unfolding ledger_keeps_def by blast
    moreover have "ob' = ob" if "ob_id ob \<notin> ob_id ` set (sr_obligations report)"
      using L'(4) that ob'(1) k by (simp add: loaded(2))
    ultimately show ?thesis using find_Some_in [OF ob'(1)] by blast
  qed
  have "recordStageEvidence c rp b = Some (p\<lparr>fp_obligations := L',
      fp_followUps := record_followUps (fold (put_keyed fd_id) (fp_followUps p) []) (rp_findings rp)\<rparr>)"
    using report(1) p L'(1) by (simp add: recordStageEvidence_def)
  with report(1) kept L'(2,3) show ?thesis by (auto simp: ledger_keeps_def)
qed


definition sample_obligation :: "string option \<Rightarrow> obligation" where
  "sample_obligation src = \<lparr>ob_id = ''O-1'', ob_source = src, ob_requirement = src,
     ob_workItemSourceId = None, ob_status = Met, ob_evidence = ''e'', ob_proposedRequirement = None,
     ob_reusedFromRunId = None, ob_runId = None, ob_headSha = None, ob_targetSha = None,
     ob_approvedChange = None\<rparr>"

definition sample_report :: review_report where
  "sample_report = clean_report\<lparr>rp_finalization := Some \<lparr>sr_stageId = ''s1'', sr_fullChecks = True,
     sr_checks = [\<lparr>chk_name = ''tests'', chk_status = Check_passed, chk_evidence = ''ok''\<rparr>],
     sr_obligations = [sample_obligation None]\<rparr>\<rparr>"

definition sample_finalization :: finalization where
  "sample_finalization = \<lparr>fin_id = ''f1'', fin_planVersionId = ''v1'', fin_integrationBranch = ''main'',
     fin_integrationSha = ''s0'', fin_targetBranch = ''release'', fin_targetSha = ''s0'',
     fin_worktreeId = ''t1'', fin_cycleId = ''c1'',
     fin_stages = Some [\<lparr>fs_id = ''s1'', fs_kind = Final_review, fs_name = ''Final'',
       fs_workItemSourceIds = [], fs_instructions = [], fs_review = sample_profile,
       fs_implement = sample_profile, fs_policy = default_completion_policy,
       fs_requiredChecks = [''tests''], fs_keepAsFollowUps = False\<rparr>],
     fin_finalReview = sample_profile, fin_policy = default_completion_policy, fin_instructions = [],
     fin_status = Fin_active, fin_version = 1\<rparr>"

definition sample_progress :: "obligation \<Rightarrow> finalization_progress" where
  "sample_progress ob = \<lparr>fp_stageIndex = 0,
     fp_stages = [(sample_stage Stage_completed)\<lparr>st_completedRunId := Some ''r1''\<rparr>],
     fp_obligations = [ob], fp_followUps = [], fp_decisions = []\<rparr>"

definition staged_cycle :: "obligation \<Rightarrow> work_cycle" where
  "staged_cycle ob = sample_cycle\<lparr>cy_step := Review, cy_finalizationId := Some ''f1'',
     cy_finalizationProgress := Some (sample_progress ob)\<rparr>"

definition sample_branch :: review_branch_context where
  "sample_branch = \<lparr>rbc_repositoryPolicyVersion = None, rbc_headSha = ''h1'', rbc_targetBranch = ''main'',
     rbc_targetSha = ''s0'', rbc_worktreeVersion = 1\<rparr>"

lemma sample_assessed:
  "assessStageReport sample_finalization (staged_cycle (sample_obligation (Some ''plan'')))
     (Complete [] sample_report) (Some sample_branch) = Complete [] sample_report"
  by (simp add: assessStageReport_def sample_finalization_def named_stage_def nth_opt_def staged_cycle_def
      sample_progress_def sample_report_def clean_report_def stage_report_issues_def required_checks_def
      obligation_issues_def known_obligation_def sample_obligation_def missing_obligations_def
      changed_obligation_def truthy_def)

theorem adopted_obligations_kept_witness:
  "\<exists>p' ob. recordStageEvidence (staged_cycle (sample_obligation (Some ''plan''))) sample_report sample_branch = Some p'
     \<and> ob \<in> set (fp_obligations p') \<and> ob_source ob = Some ''plan''"
proof -
  have "fin_stages sample_finalization = Some (the (fin_stages sample_finalization))"
    by (simp add: sample_finalization_def)
  from adopted_obligations_kept [OF sample_assessed this, of "sample_progress (sample_obligation (Some ''plan''))"]
  show ?thesis
    by (auto simp: staged_cycle_def sample_progress_def stated_def sample_obligation_def truthy_def)
qed

text \<open>
  C37. A staged finalization is promoted only on complete and current evidence: every planned stage is
  completed in order, the current run completed the last of them, its report is valid and reports
  each check any stage requires, all passed, and every adopted obligation is met by that run's
  evidence on the reviewed commits.
\<close>

theorem promotion_needs_current_evidence:
  assumes "stagedPromotionIssue v c a (Some b) = None" "fin_stages v = Some stages"
    "fs_kind (last stages) = Final_review"
  shows "\<exists>p iss rp report. cy_finalizationProgress c = Some p \<and> a = Some (Complete iss rp)
    \<and> rp_finalization rp = Some report
    \<and> map st_id (fp_stages p) = map fs_id stages \<and> (\<forall>s\<in>set (fp_stages p). st_status s = Stage_completed)
    \<and> st_completedRunId (last (fp_stages p)) = Some (cy_currentRunId c)
    \<and> sr_stageId report = fs_id (last stages) \<and> sr_fullChecks report
    \<and> (\<forall>k\<in>set (sr_checks report). chk_status k = Check_passed)
    \<and> (\<forall>s\<in>set stages. \<forall>name\<in>set (fs_requiredChecks s). name \<in> chk_name ` set (sr_checks report))
    \<and> (\<forall>ob\<in>set (fp_obligations p). ob_status ob = Met \<and> current_entry c b ob)"
proof -
  from assms(1,2) obtain p iss rp where p: "cy_finalizationProgress c = Some p"
    and complete: "stages_complete stages c"
    and a: "\<exists>x. a = Some x \<and> assessStageReport v c x (Some b) = Complete iss rp"
    and current: "\<forall>ob\<in>set (fp_obligations p). current_evidence c (Some b) ob"
    and checks: "\<And>report. rp_finalization rp = Some report \<Longrightarrow>
        \<forall>k\<in>set (sr_checks report). chk_status k = Check_passed"
    by (auto simp: stagedPromotionIssue_def stages_complete_def split: option.splits assessment.splits if_splits)
  from a assess_same have ac: "a = Some (Complete iss rp)" by blast
  with a have "assessStageReport v c (Complete iss rp) (Some b) = Complete iss rp" by simp
  from assess_complete [OF this assms(2)] obtain stage report where
    r: "named_stage v c = Some stage" "rp_finalization rp = Some report" "sr_stageId report = fs_id stage"
      "stage_report_issues v c stage rp report b = []" .
  have ne: "stages \<noteq> []" and len: "Suc (fp_stageIndex p) = length stages"
    and ids: "map st_id (fp_stages p) = map fs_id stages"
    using complete p by (auto simp: stages_complete_def)
  have idx: "fp_stageIndex p = length stages - 1" using len by simp
  have last: "stage = last stages"
    using r(1) assms(2) p ne idx
    by (auto simp: named_stage_def nth_opt_def last_conv_nth split: if_splits)
  have plen: "length (fp_stages p) = length stages" using arg_cong [OF ids, of length] by simp
  have "fp_stages p \<noteq> []" using ne plen by auto
  then have at: "last (fp_stages p) = fp_stages p ! fp_stageIndex p"
    using idx plen by (simp add: last_conv_nth)
  have run: "st_completedRunId (last (fp_stages p)) = Some (cy_currentRunId c)"
    unfolding at using complete p
    by (auto simp: stages_complete_def currentFinalizationStage_def nth_opt_def
        split: option.splits if_splits)
  have full: "sr_fullChecks report" and req: "\<forall>name\<in>set (required_checks v stage). name \<in> chk_name ` set (sr_checks report)"
    using r(4) assms(3) last
    unfolding stage_report_issues_def append_is_Nil_conv
    by (auto simp: filter_empty_conv image_iff split: if_splits)
  have "name \<in> set (required_checks v stage)" if "s \<in> set stages" "name \<in> set (fs_requiredChecks s)" for s name
    using that assms(2,3) last by (auto simp: required_checks_def)
  with p ac r(2,3) ids complete run full req checks [OF r(2)] last current show ?thesis
    by (auto simp: stages_complete_def current_evidence_def current_entry_def)
qed


definition recorded_sample :: obligation where
  "recorded_sample = (sample_obligation (Some ''plan''))
     \<lparr>ob_runId := Some ''r1'', ob_headSha := Some ''h1'', ob_targetSha := Some ''s0''\<rparr>"

theorem promotion_needs_current_evidence_witness:
  "stagedPromotionIssue sample_finalization (staged_cycle recorded_sample) (Some (Complete [] sample_report))
      (Some sample_branch) = None
   \<and> current_entry (staged_cycle recorded_sample) sample_branch recorded_sample"
proof -
  let ?c = "staged_cycle recorded_sample"
  have "assessStageReport sample_finalization ?c (Complete [] sample_report) (Some sample_branch)
      = Complete [] sample_report"
    by (simp add: assessStageReport_def sample_finalization_def named_stage_def nth_opt_def staged_cycle_def
        sample_progress_def sample_report_def clean_report_def stage_report_issues_def required_checks_def
        obligation_issues_def known_obligation_def sample_obligation_def missing_obligations_def
        changed_obligation_def truthy_def recorded_sample_def)
  then have n: "stagedPromotionIssue sample_finalization ?c (Some (Complete [] sample_report))
      (Some sample_branch) = None"
    by (simp add: stagedPromotionIssue_def stages_complete_def current_evidence_def staged_cycle_def
        sample_progress_def currentFinalizationStage_def nth_opt_def sample_finalization_def sample_stage_def
        recorded_sample_def sample_obligation_def sample_branch_def sample_report_def)
  have "fin_stages sample_finalization = Some (the (fin_stages sample_finalization))"
    "fs_kind (last (the (fin_stages sample_finalization))) = Final_review"
    by (simp_all add: sample_finalization_def)
  from promotion_needs_current_evidence [OF n this] n show ?thesis
    by (auto simp: staged_cycle_def sample_progress_def)
qed

end
