(* ===== verification/Stage_Effects.thy ===== *)
theory Stage_Effects
  imports Resolution Stage_Policy
begin

text \<open>
  A staged finalization's stage effects
  (\<open>apps/server/src/services/cycle/effects/finalization-stage.ts\<close>): advancing a stage after its
  review, whether the review is current, and entering and completing a stage. The remediation and
  integration effects it calls, with what they read, come with the record \<open>effect_reads\<close>.
\<close>

section \<open>What the effects read\<close>

record effect_reads =
  er_remediation :: remediation_reads
  er_integration :: integration_reads
  er_stageChanges :: "string + tree_changes" \<comment> \<open>the worktree after a stage's review\<close>
  er_assertReview :: "worktree \<Rightarrow> agent_run \<Rightarrow> service_error option"

definition er_launch :: "'a effect_reads_scheme \<Rightarrow> launch_reads" where
  "er_launch er = rr_launch (er_remediation er)"

definition orderly_effects :: "'a effect_reads_scheme \<Rightarrow> bool" where
  "orderly_effects er =
     (orderly (rr_launch (er_remediation er)) \<and> orderly (ig_launch (er_integration er)))"

section \<open>Entering and completing a stage\<close>

definition set_stages :: "(nat \<Rightarrow> stage_state \<Rightarrow> stage_state) \<Rightarrow> finalization_progress \<Rightarrow> finalization_progress" where
  "set_stages f p = p\<lparr>fp_stages := map (\<lambda>(i, s). f i s) (List.enumerate 0 (fp_stages p))\<rparr>"

definition entered :: "finalization_progress \<Rightarrow> finalization_progress" where
  "entered p = set_stages (\<lambda>i s. if i = fp_stageIndex p \<and> st_status s = Stage_pending
                                then s\<lparr>st_status := Stage_reviewing\<rparr> else s) p"

definition stage_changes :: "finalization_stage \<Rightarrow> finalization_progress \<Rightarrow> string \<Rightarrow> cycle_changes" where
  "stage_changes stage p reason = no_changes
     \<lparr>ch_finalizationProgress := Put (entered p),
      ch_policy := Some (fs_policy stage),
      ch_polishPhase := Put (if fs_kind stage = Final_review then Phase_final_review else Phase_verify),
      ch_findingFocus := Put (case nth_opt (fp_stages p) (fp_stageIndex p) of
                                None \<Rightarrow> [] | Some s \<Rightarrow> st_selectedFindingIds s),
      ch_stalledReviews := Some 0,
      ch_previousFindingFingerprint := Drop,
      ch_reason := Some reason\<rparr>"

definition enterFinalizationStage ::
    "'a effect_reads_scheme \<Rightarrow> decision_scope option \<Rightarrow> work_cycle \<Rightarrow> agent_run \<Rightarrow> finalization_progress
     \<Rightarrow> string \<Rightarrow> command_context option \<Rightarrow> (cycle_db, work_cycle) job" where
  "enterFinalizationStage er dec c run p reason ctx =
     and_then (requiring (finalizationForCycle (er_launch er) c)) (\<lambda>v.
       case (case v of None \<Rightarrow> None
             | Some f \<Rightarrow> (case fin_stages f of None \<Rightarrow> None | Some ss \<Rightarrow> nth_opt ss (fp_stageIndex p))) of
         None \<Rightarrow> throw (Request_error ''Unknown finalization stage.'')
       | Some stage \<Rightarrow>
           run_next (er_launch er) dec c Review (Some run) ctx (stage_changes stage p reason)
             (Some ''enter-finalization-stage'') None)"

definition completed_stages :: "agent_run \<Rightarrow> review_branch_context \<Rightarrow> finalization_progress \<Rightarrow> finalization_progress" where
  "completed_stages run b p = set_stages (\<lambda>i s. if i = fp_stageIndex p
       then s\<lparr>st_status := Stage_completed, st_completedRunId := Some (run_id run),
              st_headSha := Some (rbc_headSha b), st_targetSha := Some (rbc_targetSha b)\<rparr>
       else s) p"

definition completeFinalizationStage ::
    "'a effect_reads_scheme \<Rightarrow> decision_scope option \<Rightarrow> work_cycle \<Rightarrow> agent_run \<Rightarrow> (cycle_db, work_cycle) job" where
  "completeFinalizationStage er dec c run =
     (case (cy_finalizationProgress c, run_reviewBranchContext run) of
        (Some p, Some b) \<Rightarrow>
          let done_stages = completed_stages run b p in
          (case decideStageCompletion (fp_stages done_stages) of
             Promotion_gate g \<Rightarrow>
               run_change (er_launch er) dec c
                 (no_changes\<lparr>ch_finalizationProgress := Put done_stages, ch_status := Some Awaiting_merge,
                    ch_attention := Some (make_attention (eg_code g) None None None None),
                    ch_reason := Some (eg_reason g)\<rparr>) ''final-stages-completed'' None
           | Next_stage i \<Rightarrow>
               enterFinalizationStage er dec c run (done_stages\<lparr>fp_stageIndex := i\<rparr>)
                 ''Starting the next finalization stage.'' None)
      | _ \<Rightarrow> throw (Request_error ''Stage state is unavailable.''))"

section \<open>Whether a stage's review is current\<close>

definition stageReviewIsCurrent ::
    "'a effect_reads_scheme \<Rightarrow> decision_scope option \<Rightarrow> work_cycle \<Rightarrow> agent_run \<Rightarrow> (cycle_db, bool) job" where
  "stageReviewIsCurrent er dec c run =
     (case lr_worktree (er_launch er) of
        None \<Rightarrow> throw (Typed_refusal Worktree_state
          ''Stage completion requires the managed branch without a pending Git operation.'' None)
      | Some tree \<Rightarrow>
          and_then (awaiting (er_launch er) ''stage-inspect'') (\<lambda>_.
            case er_stageChanges er of
              Inl m \<Rightarrow> throw (Typed_refusal Worktree_state
                ''Stage completion requires the managed branch without a pending Git operation.'' None)
            | Inr state \<Rightarrow>
                if \<not> lr_git (er_launch er) \<or> gc_conflicted state \<or> gc_branch state \<noteq> Some (wt_branchName tree)
                then throw (Typed_refusal Worktree_state
                  ''Stage completion requires the managed branch without a pending Git operation.'' None)
                else if \<not> gc_clean state
                        \<or> map_option rbc_headSha (run_reviewBranchContext run) \<noteq> Some (gc_headSha state)
                then and_then (housekeeping (er_remediation er) dec c run stage_review_changed_worktree None None)
                       (\<lambda>_. give False)
                else and_then (refreshIntegration (er_integration er) dec c (Some run) False) (\<lambda>over.
                       if over then give False
                       else and_then (awaiting (er_launch er) ''stage-assert-review'') (\<lambda>_.
                            and_then (unless_error (er_assertReview er tree run)) (\<lambda>_. give True)))))"

section \<open>Advancing a stage\<close>

text \<open>Open optional findings that no selection names and this stage does not discover are parked.\<close>

definition parked_optional ::
    "work_cycle \<Rightarrow> finalization_stage \<Rightarrow> bool \<Rightarrow> finding list \<Rightarrow> finalization_progress \<Rightarrow> finalization_progress" where
  "parked_optional c stage discovery findings p = p\<lparr>fp_followUps := fold (put_keyed fd_id)
     (filter (\<lambda>f. fd_status f = Open \<and> optionalFinding f
        \<and> fd_id f \<notin> set (over (cy_findingFocus c) [])
        \<and> (\<forall>s\<in>set (fp_stages p). fd_id f \<notin> set (st_selectedFindingIds s))
        \<and> (\<not> discovery \<or> fd_category f \<noteq> Some (fs_kind stage))) findings)
     (fold (put_keyed fd_id) (fp_followUps p) [])\<rparr>"

definition ledger_full :: "finalization_progress \<Rightarrow> bool" where
  "ledger_full p = (2000 < length (fp_obligations p) \<or> 500 < length (fp_followUps p))"

fun find_last_index :: "('a \<Rightarrow> bool) \<Rightarrow> 'a list \<Rightarrow> nat option" where
  "find_last_index P [] = None"
| "find_last_index P (x # xs) =
     (case find_last_index P xs of Some i \<Rightarrow> Some (Suc i) | None \<Rightarrow> if P x then Some 0 else None)"

fun kind_text :: "stage_kind \<Rightarrow> string" where
  "kind_text Correctness = ''correctness''"
| "kind_text Conformance = ''conformance''"
| "kind_text Simplification = ''simplification''"
| "kind_text Polish = ''polish''"
| "kind_text Final_review = ''final-review''"

text \<open>The earlier stage a required finding reopens; its used budget is retained.\<close>

definition reopened_index :: "finalization \<Rightarrow> finalization_progress \<Rightarrow> stage_kind option \<Rightarrow> nat option" where
  "reopened_index v p kind =
     (case (kind, fin_stages v) of
        (Some k, Some stages) \<Rightarrow>
          (case find_last_index (\<lambda>s. fs_kind s = k) stages of
             None \<Rightarrow> None
           | Some i \<Rightarrow> if i < fp_stageIndex p then Some i else None)
      | _ \<Rightarrow> None)"

definition reopened :: "finalization_stage list \<Rightarrow> nat \<Rightarrow> finalization_progress \<Rightarrow> finalization_progress" where
  "reopened stages i p = (set_stages (\<lambda>j s.
       if j = i then s\<lparr>st_status := Stage_reviewing\<rparr>
       else if map_option fs_kind (nth_opt stages j) = Some Final_review then s\<lparr>st_status := Stage_pending\<rparr>
       else s) p)\<lparr>fp_stageIndex := i\<rparr>"

definition selected_open :: "work_cycle \<Rightarrow> stage_state option \<Rightarrow> finding list \<Rightarrow> bool" where
  "selected_open c state findings =
     (\<exists>f\<in>set findings. fd_status f = Open
        \<and> (fd_id f \<in> set (over (cy_findingFocus c) [])
           \<or> (case state of None \<Rightarrow> False | Some s \<Rightarrow> fd_id f \<in> set (st_selectedFindingIds s))))"

definition stage_discovery ::
    "'a effect_reads_scheme \<Rightarrow> decision_scope option \<Rightarrow> work_cycle \<Rightarrow> agent_run \<Rightarrow> finalization_stage
     \<Rightarrow> finalization_progress \<Rightarrow> finding list \<Rightarrow> (cycle_db, unit) job" where
  "stage_discovery er dec c run stage p findings =
     and_then (stageReviewIsCurrent er dec c run) (\<lambda>current.
       if \<not> current then give ()
       else
         let choices = filter (\<lambda>f. fd_status f = Open \<and> optionalFinding f
               \<and> fd_category f = Some (fs_kind stage)) findings
         in case decideDiscovery (fs_name stage) (fs_keepAsFollowUps stage) choices (fp_followUps p) of
              Discovery_stop s \<Rightarrow> and_then (run_stop (er_launch er) dec c s) (\<lambda>_. give ())
            | Discovery_follow_ups ledger \<Rightarrow>
                and_then (run_change (er_launch er) dec c
                    (no_changes\<lparr>ch_finalizationProgress := Put (p\<lparr>fp_followUps := ledger\<rparr>),
                       ch_reason := Some (fs_name stage @ '': '' @ string_of_nat (length choices)
                         @ '' optional finding(s) kept as follow-up work, as chosen at the start.'')\<rparr>)
                    ''stage-optional-follow-ups'' None) (\<lambda>changed.
                and_then (completeFinalizationStage er dec changed run) (\<lambda>_. give ()))
            | Discovery_select reason \<Rightarrow>
                and_then (run_change (er_launch er) dec c
                    (no_changes\<lparr>ch_status := Some Needs_attention,
                       ch_attention := Some (make_attention Stage_batch_selection None None None None),
                       ch_finalizationProgress := Put (set_stages (\<lambda>i s. if i = fp_stageIndex p
                            then s\<lparr>st_status := Stage_selecting\<rparr> else s) p),
                       ch_reason := Some reason\<rparr>) ''stage-selection-required'' None) (\<lambda>_. give ())
            | Discovery_complete \<Rightarrow>
                and_then (completeFinalizationStage er dec c run) (\<lambda>_. give ()))"

definition stage_outcome_job ::
    "'a effect_reads_scheme \<Rightarrow> decision_scope option \<Rightarrow> work_cycle \<Rightarrow> agent_run \<Rightarrow> finalization_stage
     \<Rightarrow> finalization_progress \<Rightarrow> finding list \<Rightarrow> stage_outcome \<Rightarrow> (cycle_db, unit) job" where
  "stage_outcome_job er dec c run stage p findings outcome =
     (case outcome of
        Stage_discovery \<Rightarrow> stage_discovery er dec c run stage p findings
      | Stage_remediate \<Rightarrow>
          and_then (reviewRemediation (er_remediation er) dec c run None None) (\<lambda>_. give ())
      | Stage_stop s \<Rightarrow> and_then (run_stop (er_launch er) dec c s) (\<lambda>_. give ())
      | Stage_complete \<Rightarrow>
          and_then (stageReviewIsCurrent er dec c run) (\<lambda>current.
            if \<not> current then give ()
            else and_then (completeFinalizationStage er dec c run) (\<lambda>_. give ())))"

text \<open>The stage's own pass once its evidence is recorded; \<open>c\<close> is the record that holds it.\<close>

definition recorded_stage ::
    "'a effect_reads_scheme \<Rightarrow> decision_scope option \<Rightarrow> work_cycle \<Rightarrow> agent_run \<Rightarrow> finalization
     \<Rightarrow> finalization_stage \<Rightarrow> stage_state option \<Rightarrow> bool \<Rightarrow> string list \<Rightarrow> review_report \<Rightarrow> stage_report
     \<Rightarrow> finalization_progress \<Rightarrow> (cycle_db, unit) job" where
  "recorded_stage er dec c run v stage state discovery issues rp report p =
     (let decided = stageFindings c (rp_findings rp) (sr_checks report) (sr_obligations report);
          found = fst decided
      in case reopened_index v p (snd decided) of
           Some i \<Rightarrow>
             and_then (enterFinalizationStage er dec c run (reopened (over (fin_stages v) []) i p)
                 (''New '' @ kind_text (the (snd decided)) @ '' issues reopened ''
                  @ fs_name (over (fin_stages v) [] ! i) @ ''. Its used budget is retained.'') None)
               (\<lambda>_. give ())
         | None \<Rightarrow>
             let selectedOpen = selected_open c state (rp_findings rp);
                 finalReview = (fs_kind stage = Final_review);
                 ownPass = (case state of None \<Rightarrow> True | Some s \<Rightarrow> st_completedRunId s = None);
                 decide = (\<lambda>c g. decideStageOutcome c issues rp g discovery selectedOpen finalReview)
             in if nitsParked c found selectedOpen finalReview ownPass
                then
                  let q = p\<lparr>fp_followUps := fp_followUps p @ sg_required found\<rparr> in
                  if 500 < length (fp_followUps q)
                  then and_then (run_stop (er_launch er) dec c ledgerFull) (\<lambda>_. give ())
                  else and_then (run_change (er_launch er) dec c
                         (no_changes\<lparr>ch_finalizationProgress := Put q,
                            ch_reason := Some (fs_name stage
                              @ '': its remediation attempts are spent and only nits remain; ''
                              @ string_of_nat (length (sg_required found)) @ '' kept as follow-up work.'')\<rparr>)
                         ''stage-nits-parked'' None) (\<lambda>c1.
                       stage_outcome_job er dec c1 run stage q (rp_findings rp)
                         (decide c1 (found\<lparr>sg_required := []\<rparr>)))
                else stage_outcome_job er dec c run stage p (rp_findings rp) (decide c found))"

definition advanceFinalizationStage ::
    "'a effect_reads_scheme \<Rightarrow> decision_scope option \<Rightarrow> work_cycle \<Rightarrow> agent_run \<Rightarrow> bool \<Rightarrow> (cycle_db, unit) job" where
  "advanceFinalizationStage er dec c run noQuestions =
     (let stopped = (\<lambda>c s. and_then (run_stop (er_launch er) dec c s) (\<lambda>_. give ())) in
      and_then (requiring (finalizationForCycle (er_launch er) c)) (\<lambda>value.
        case (value, cy_finalizationProgress c, case value of None \<Rightarrow> None | Some v \<Rightarrow> named_stage v c,
              rr_assessment (er_remediation er) run, run_reviewBranchContext run) of
          (Some v, Some progress, Some stage, Some raw, Some baseline) \<Rightarrow>
            (case assessStageReport v c raw (Some baseline) of
               Complete issues rp \<Rightarrow>
                 (case rp_finalization rp of
                    None \<Rightarrow> stopped c (stageReportInvalid (Some issues))
                  | Some report \<Rightarrow>
                      (case recordStageEvidence c rp baseline of
                         None \<Rightarrow> throw (Other_error ''Missing adopted obligation source or requirement'')
                       | Some evidence \<Rightarrow>
                           let state = currentFinalizationStage c;
                               discovery = ((fs_kind stage = Simplification \<or> fs_kind stage = Polish)
                                 \<and> map_option st_status state \<noteq> Some Stage_verifying);
                               p = parked_optional c stage discovery (rp_findings rp) evidence
                           in if ledger_full p then stopped c ledgerFull
                              else and_then (run_change (er_launch er) dec c
                                     (no_changes\<lparr>ch_finalizationProgress := Put p\<rparr>) ''stage-evidence'' None)
                                   (\<lambda>c1. case decideStageInput noQuestions (sr_obligations report) of
                                      Some s \<Rightarrow> stopped c1 s
                                    | None \<Rightarrow> recorded_stage er dec c1 run v stage state discovery issues rp report p)))
             | a \<Rightarrow> stopped c (stageReportInvalid (Some (assessment_issues a))))
        | _ \<Rightarrow> stopped c (stageReportInvalid None)))"

section \<open>The effects as paths of the cycle store\<close>

lemma orderly_effectsD:
  assumes "orderly_effects er"
  shows "orderly (er_launch er)" "orderly (rr_launch (er_remediation er))" "orderly (ig_launch (er_integration er))"
  using assms by (simp_all add: orderly_effects_def er_launch_def)

lemma field_changes_stage [simp]: "field_changes (stage_changes st p reason)"
  by (simp add: stage_changes_def field_changes_def)

lemma follows_enterFinalizationStage:
  assumes "orderly_effects er" "c \<in> H"
  shows "follows H (enterFinalizationStage er dec c run p reason ctx) (\<lambda>x. {x})"
  unfolding enterFinalizationStage_def
  by (intro asked_intros follows_next orderly_effectsD assms) simp_all

lemma follows_completeFinalizationStage:
  assumes "orderly_effects er" "c \<in> H"
  shows "follows H (completeFinalizationStage er dec c run) (\<lambda>x. {x})"
  unfolding completeFinalizationStage_def Let_def
  using assms
  by (auto intro!: follows_enterFinalizationStage follows_change restore_wf_plain
      split: option.split stage_completion.split)

lemma follows_stageReviewIsCurrent:
  assumes "orderly_effects er" "c \<in> H"
  shows "follows H (stageReviewIsCurrent er dec c run) (\<lambda>_. {})"
  unfolding stageReviewIsCurrent_def
  by (intro asked_intros follows_case_sum follows_then_row [OF follows_housekeeping]
      follows_then_plain [OF follows_refreshIntegration])
     (use assms in \<open>simp_all add: orderly_effectsD\<close>)

lemma follows_stage_discovery:
  assumes "orderly_effects er" "c \<in> H"
  shows "follows H (stage_discovery er dec c run stage p fs) (\<lambda>_. {})"
proof -
  have "follows H (case d of
      Discovery_stop s \<Rightarrow> and_then (run_stop (er_launch er) dec c s) (\<lambda>_. give ())
    | Discovery_follow_ups ledger \<Rightarrow>
        and_then (run_change (er_launch er) dec c (no_changes\<lparr>ch_finalizationProgress := q ledger, ch_reason := r\<rparr>) a None)
          (\<lambda>changed. and_then (completeFinalizationStage er dec changed run) (\<lambda>_. give ()))
    | Discovery_select reason \<Rightarrow>
        and_then (run_change (er_launch er) dec c (sel reason) b None) (\<lambda>_. give ())
    | Discovery_complete \<Rightarrow> and_then (completeFinalizationStage er dec c run) (\<lambda>_. give ())) (\<lambda>_. {})"
    if "\<And>reason. ch_restore (sel reason) = None" for d q r a b sel
    by (cases d, simp_all; intro asked_intros follows_then_row [OF follows_stop]
        follows_then_row [OF follows_change] follows_then_row [OF follows_completeFinalizationStage] restore_wf_plain)
       (use assms that in simp_all)
  then show ?thesis
    unfolding stage_discovery_def Let_def
    by (intro asked_intros follows_then_plain [OF follows_stageReviewIsCurrent] assms) simp_all
qed

lemma follows_stage_outcome:
  assumes "orderly_effects er" "c \<in> H"
  shows "follows H (stage_outcome_job er dec c run stage p fs out) (\<lambda>_. {})"
  unfolding stage_outcome_job_def
  by (cases out, simp_all;
      intro asked_intros follows_stage_discovery follows_then_row [OF follows_reviewRemediation]
        follows_then_row [OF follows_stop] follows_then_plain [OF follows_stageReviewIsCurrent]
        follows_then_row [OF follows_completeFinalizationStage])
     (use assms in \<open>simp_all add: orderly_effectsD\<close>)

lemma follows_recorded_stage:
  assumes "orderly_effects er" "c \<in> H"
  shows "follows H (recorded_stage er dec c run v stage state d issues rp report p) (\<lambda>_. {})"
  unfolding recorded_stage_def Let_def
  by (intro asked_intros follows_stage_outcome follows_then_row [OF follows_enterFinalizationStage]
      follows_then_row [OF follows_stop] follows_then_row [OF follows_change] restore_wf_plain)
     (use assms in simp_all)

lemma follows_advanceFinalizationStage:
  assumes "orderly_effects er" "c \<in> H"
  shows "follows H (advanceFinalizationStage er dec c run noQuestions) (\<lambda>_. {})"
proof -
  have stop: "follows H' (and_then (run_stop (er_launch er) dec d s) (\<lambda>_. give ())) (\<lambda>_. {})"
    if "d \<in> H'" for d s H'
    by (rule follows_then_row [OF follows_stop [OF that]]) simp
  have recorded: "follows H (and_then (run_change (er_launch er) dec c
        (no_changes\<lparr>ch_finalizationProgress := q\<rparr>) a None)
      (\<lambda>c1. case i of Some s \<Rightarrow> and_then (run_stop (er_launch er) dec c1 s) (\<lambda>_. give ())
         | None \<Rightarrow> recorded_stage er dec c1 run v stage state d issues rp report p)) (\<lambda>_. {})"
    for q a i v stage state d issues rp report p
    by (cases i, simp_all; intro follows_then_row [OF follows_change] restore_wf_plain stop follows_recorded_stage)
       (use assms in simp_all)
  show ?thesis
    unfolding advanceFinalizationStage_def Let_def
    by (intro asked_intros)
       (auto intro!: stop recorded assms(2) split: option.split assessment.split)
qed

end
