(* ===== verification/Workflow_Effects.thy ===== *)
theory Workflow_Effects
  imports Stage_Effects
begin

text \<open>
  The cycle's review effects (\<open>apps/server/src/services/cycle/effects/workflow.ts\<close>): a review's
  approval, the adopted definitions it carries, and the workflow's controller reviews. Why a check
  definition changed is told by \<open>definitionChangeReason\<close> of
  \<open>repository-checks-service.ts\<close>.
\<close>

section \<open>The adopted check definitions\<close>

record definition_path =
  dp_path :: string
  dp_adopted :: "string option"
  dp_head :: "string option"

record merge_adoption =
  ma_proposal :: "(string \<times> string) list option" \<comment> \<open>the proposal's definition digests\<close>
  ma_unchanged :: bool
  ma_checks :: "string list"
  ma_issues :: "string list"

record check_diagnosis =
  dg_declarationId :: string
  dg_version :: nat
  dg_sourceCommit :: string
  dg_headSha :: string
  dg_targetBranch :: string
  dg_targetSha :: string
  dg_paths :: "definition_path list"
  dg_sliceChanged :: "string list"
  dg_targetDiffers :: "string list"
  dg_merge :: "merge_adoption option"

definition check_declaration_path :: string where
  "check_declaration_path = ''.craftingtable/checks.json''"

definition slice_made :: "check_diagnosis \<Rightarrow> string list" where
  "slice_made d = map dp_path
     (filter (\<lambda>p. dp_path p \<in> set (dg_sliceChanged d) \<and> dp_head p \<noteq> dp_adopted p) (dg_paths d))"

definition inherited_definitions :: "check_diagnosis \<Rightarrow> string list" where
  "inherited_definitions d = map dp_path
     (filter (\<lambda>p. dp_path p \<noteq> check_declaration_path \<and> dp_head p \<noteq> dp_adopted p
                  \<and> dp_path p \<notin> set (slice_made d)) (dg_paths d))"

definition inherited_part :: "check_diagnosis \<Rightarrow> string list" where
  "inherited_part d =
     (let inherited = inherited_definitions d in
      if inherited = [] then []
      else [''This slice did not change '' @ js_join '', '' inherited @ '': adoption version ''
            @ string_of_nat (dg_version d) @ '' (from '' @ js_slice 12 (dg_sourceCommit d)
            @ '') differs from what it carries from '' @ dg_targetBranch d
            @ (if \<exists>p\<in>set (dg_targetDiffers d). p \<in> set inherited
               then '' (head '' @ js_slice 12 (dg_targetSha d) @ '')'' else [])
            @ ''. Adopt the checks from '' @ dg_targetBranch d
            @ '' on the Repositories page, then resume for a fresh review.''])"

definition slice_part :: "check_diagnosis \<Rightarrow> bool \<Rightarrow> string list" where
  "slice_part d merges =
     (let made = slice_made d; issues = (case dg_merge d of None \<Rightarrow> [] | Some m \<Rightarrow> ma_issues m) in
      if made = [] then []
      else if \<not> merges then
        [''This slice changes '' @ js_join '', '' made
         @ '', and this review does not merge, so nothing can adopt the change. Adopt it on the Repositories page, then resume for a fresh review; or stop this cycle and revert the change in a new attempt.'']
      else if issues \<noteq> [] then
        [''This slice changes '' @ js_join '', '' made @ '', and its merge cannot adopt the change: ''
         @ js_join '' '' issues
         @ '' Fix it in the slice, or adopt it on the Repositories page, then resume for a fresh review; or stop this cycle and revert the change in a new attempt.'']
      else
        [''This slice changes '' @ js_join '', '' made @ '', and its checks, run as adoption version ''
         @ string_of_nat (dg_version d)
         @ '' defines them, cannot meet the gate with the definitions it proposes. Adopt the checks from the slice's commit ''
         @ js_slice 12 (dg_headSha d)
         @ '' on the Repositories page, then resume for a fresh review; or stop this cycle and revert the change in a new attempt.''])"

definition definitionChangeReason :: "check_diagnosis \<Rightarrow> bool \<Rightarrow> string" where
  "definitionChangeReason d merges =
     (let parts = js_join '' '' (inherited_part d @ slice_part d merges) in
      if parts \<noteq> [] then parts
      else ''A declared check ran with definitions that differ from the adopted ones. Resume for a fresh review.'')"

section \<open>What the review effects read\<close>

text \<open>Why a run's checks do not meet the gate: \<open>assertRun\<close>'s error, as its callers tell it apart.\<close>

datatype run_gap =
    Definition_changed string string string
  | Checks_missing "string list" string
  | Other_gap

record run_environment =
  re_checkDeclarationId :: "string option"
  re_runtimeId :: "string option"

record checkpoint_entry = workflow_checkpoint +
  ce_requirements :: "string list"
  ce_caseIds :: "string list"
  ce_roles :: "string list"

record workflow_context =
  wx_definitionId :: string
  wx_checkpoints :: "checkpoint_entry list"
  wx_contextDigest :: string

record workflow_reads =
  wr_effects :: effect_reads
  wr_changes :: "git_changes option" \<comment> \<open>the worktree's changes, if Git inspected them\<close>
  wr_reviewedWorktree :: "worktree option"
  wr_environment :: "run_environment option"
  wr_diagnose :: "string + check_diagnosis option"
  wr_assertRun :: "(string \<times> string) list option \<Rightarrow> run_gap option"
  wr_owner :: "string \<Rightarrow> owner_reads" \<comment> \<open>by the place that asks\<close>
  wr_context :: "string \<Rightarrow> workflow_context option"
  wr_requireReady :: "service_error option"
  wr_securityRole :: "string \<Rightarrow> string option" \<comment> \<open>the map's security reviewer, by definition\<close>
  wr_activeUser :: "string option"
  wr_requireEditor :: "service_error option"
  wr_acceptCheckpoint :: "service_error option"
  wr_failedReassessment :: "nat option" \<comment> \<open>the version a reassessment last failed at\<close>

definition wr_launch :: "workflow_reads \<Rightarrow> launch_reads" where
  "wr_launch wr = er_launch (wr_effects wr)"

section \<open>The definitions a review's checks ran with\<close>

definition assert_declared ::
    "workflow_reads \<Rightarrow> (string \<times> string) list option \<Rightarrow> service_error option" where
  "assert_declared wr digests =
     (if \<not> truthy (case wr_environment wr of None \<Rightarrow> None | Some e \<Rightarrow> re_checkDeclarationId e) then None
      else case wr_assertRun wr digests of
             Some (Definition_changed r c m) \<Rightarrow> Some (Check_changed r c m)
           | _ \<Rightarrow> None)"

definition adoptable :: "bool \<Rightarrow> check_diagnosis option \<Rightarrow> (string \<times> string) list option" where
  "adoptable merges diagnosis =
     (case (case diagnosis of None \<Rightarrow> None | Some d \<Rightarrow> dg_merge d) of
        None \<Rightarrow> None
      | Some m \<Rightarrow> if merges \<and> \<not> ma_unchanged m \<and> ma_issues m = [] then ma_proposal m else None)"

definition changed_error ::
    "bool \<Rightarrow> check_diagnosis option \<Rightarrow> service_error \<Rightarrow> service_error" where
  "changed_error merges diagnosis e =
     (case (e, diagnosis) of
        (Check_changed r c m, Some d) \<Rightarrow> Check_changed r c (definitionChangeReason d merges)
      | _ \<Rightarrow> e)"

definition unadopted_change :: "worktree \<Rightarrow> bool \<Rightarrow> check_diagnosis option \<Rightarrow> service_error option" where
  "unadopted_change tree merges diagnosis =
     (case diagnosis of
        None \<Rightarrow> None
      | Some d \<Rightarrow>
          (case dg_merge d of
             None \<Rightarrow> None
           | Some m \<Rightarrow>
               if \<not> ma_unchanged m \<and> adoptable merges diagnosis = None
               then Some (Check_changed (wt_repositoryId tree)
                      (case ma_checks m of c # cs \<Rightarrow> c | [] \<Rightarrow> dg_declarationId d)
                      (definitionChangeReason d merges))
               else None))"

definition missing_checks_error ::
    "worktree \<Rightarrow> check_diagnosis \<Rightarrow> string list \<Rightarrow> string \<Rightarrow> service_error" where
  "missing_checks_error tree d missing message =
     Check_changed (wt_repositoryId tree)
       (case missing of c # cs \<Rightarrow> c | [] \<Rightarrow> dg_declarationId d)
       (''This slice changes '' @ js_join '', '' (dg_sliceChanged d)
        @ ''; its adopted checks did not all pass on the reviewed commit, so its merge cannot adopt them. ''
        @ message
        @ '' If the change needs its new definitions to pass, adopt the checks from the slice's commit ''
        @ js_slice 12 (dg_headSha d)
        @ '' on the Repositories page, then resume for a fresh review; or stop this cycle and revert the change in a new attempt.'')"

definition adopts_definitions ::
    "workflow_reads \<Rightarrow> worktree \<Rightarrow> bool \<Rightarrow> check_diagnosis option \<Rightarrow> service_error + bool" where
  "adopts_definitions wr tree merges diagnosis =
     (case assert_declared wr (adoptable merges diagnosis) of
        Some e \<Rightarrow> Inl (changed_error merges diagnosis e)
      | None \<Rightarrow>
          (case unadopted_change tree merges diagnosis of
             Some e \<Rightarrow> Inl e
           | None \<Rightarrow>
               (case adoptable merges diagnosis of
                  None \<Rightarrow> Inr False
                | Some digests \<Rightarrow>
                    (case (wr_assertRun wr (Some digests), diagnosis) of
                       (None, d) \<Rightarrow> Inr True
                     | (Some (Checks_missing missing message), Some d) \<Rightarrow>
                         Inl (missing_checks_error tree d missing message)
                     | _ \<Rightarrow> Inr False))))"

definition declared_only :: "workflow_reads \<Rightarrow> (cycle_db, bool) job" where
  "declared_only wr = and_then (unless_error (assert_declared wr None)) (\<lambda>_. give False)"

definition declaredDefinitions ::
    "workflow_reads \<Rightarrow> worktree \<Rightarrow> agent_run \<Rightarrow> bool \<Rightarrow> (cycle_db, bool) job" where
  "declaredDefinitions wr tree run merges =
     (case (run_reviewBranchContext run, wr_environment wr) of
        (Some branch, Some e) \<Rightarrow>
          if \<not> truthy (re_checkDeclarationId e) \<or> re_runtimeId e = None then declared_only wr
          else and_then (awaiting (wr_launch wr) ''diagnose-checks'') (\<lambda>_.
                 case wr_diagnose wr of
                   Inl m \<Rightarrow> declared_only wr
                 | Inr diagnosis \<Rightarrow> requiring (adopts_definitions wr tree merges diagnosis))
      | _ \<Rightarrow> declared_only wr)"

section \<open>Starting a controller review\<close>

definition workflowContext :: "workflow_reads \<Rightarrow> string \<Rightarrow> work_cycle \<Rightarrow> workflow_context option" where
  "workflowContext wr ask c =
     (if \<not> truthy (cy_workItemId c) \<or> scope_kind_of c \<noteq> Some Slice then None else wr_context wr ask)"

definition delegation_roles :: "owner_reads \<Rightarrow> string list option" where
  "delegation_roles rd = map_option wd_roles (workflowDelegation rd)"

definition security_reviewer_role :: string where
  "security_reviewer_role = ''independent-security-reviewer-if-required-by-source''"

definition decision_reviewer_role :: string where
  "decision_reviewer_role = ''repository-maintainer''"

definition new_workflow :: cycle_workflow where
  "new_workflow = \<lparr>wf_reassessments = 0, wf_questions = [], wf_securityRequired = None,
     wf_activeReview = None, wf_securityReceipt = None, wf_waiting = None\<rparr>"

definition started_review ::
    "agent_run \<Rightarrow> active_review_kind \<Rightarrow> string option \<Rightarrow> checkpoint_entry option \<Rightarrow> string \<Rightarrow> active_review" where
  "started_review source kind checkpointId checkpoint digest =
     \<lparr>ar_kind = kind, ar_checkpointId = checkpointId, ar_sourceRunId = run_id source,
      ar_requirements = (case checkpoint of None \<Rightarrow> [] | Some k \<Rightarrow> ce_requirements k),
      ar_caseIds = (case checkpoint of None \<Rightarrow> [] | Some k \<Rightarrow> ce_caseIds k),
      ar_roles = (case checkpoint of
          Some k \<Rightarrow> ce_roles k
        | None \<Rightarrow> if kind = AR_security then [security_reviewer_role] else [decision_reviewer_role]),
      ar_contextDigest = digest\<rparr>"

definition workflow_review_changes ::
    "work_cycle \<Rightarrow> agent_run \<Rightarrow> active_review_kind \<Rightarrow> string option \<Rightarrow> checkpoint_entry option
     \<Rightarrow> string \<Rightarrow> cycle_changes" where
  "workflow_review_changes c source kind checkpointId checkpoint digest =
     (let w = over (cy_workflow c) new_workflow in
      no_changes\<lparr>
        ch_workflow := Put (w\<lparr>wf_questions := [], wf_waiting := Some None,
          wf_reassessments := wf_reassessments w + (if kind = AR_reassessment then 1 else 0),
          wf_activeReview := Some (Some (started_review source kind checkpointId checkpoint digest))\<rparr>),
        ch_reason := Some (case kind of
            AR_reassessment \<Rightarrow> ''Classifying prior questions against the saved plan in a bounded read-only review.''
          | AR_security \<Rightarrow> ''Starting the separate source-required security review.''
          | AR_checkpoint \<Rightarrow> ''Starting independent checkpoint review: '' @ over checkpointId [] @ ''.'')\<rparr>)"

definition checkpoint_ready :: "checkpoint_entry option \<Rightarrow> bool" where
  "checkpoint_ready k =
     (case k of None \<Rightarrow> False | Some x \<Rightarrow> wk_supported x \<and> wk_assigned x \<and> wk_pending x = [])"

definition startWorkflowReview ::
    "workflow_reads \<Rightarrow> decision_scope option \<Rightarrow> work_cycle \<Rightarrow> agent_run \<Rightarrow> active_review_kind
     \<Rightarrow> string option \<Rightarrow> (cycle_db, unit) job" where
  "startWorkflowReview wr dec c source kind checkpointId =
     (let rd = wr_owner wr ''start''; delegation = workflowDelegation rd in
      case workflowContext wr ''start'' c of
        None \<Rightarrow> give ()
      | Some context \<Rightarrow>
          if \<not> controllerReviewRunnable rd \<or> (delegation = None \<and> kind \<noteq> AR_security) then give ()
          else and_then (unless_error (wr_requireReady wr)) (\<lambda>_.
            let checkpoint = find (\<lambda>k. Some (wk_id k) = checkpointId) (wx_checkpoints context) in
            if kind = AR_checkpoint \<and> \<not> checkpoint_ready checkpoint
            then throw (Typed_refusal Launch_refused ''Checkpoint review requirements are not ready.'' None)
            else if kind = AR_security
                 \<and> (case delegation of None \<Rightarrow> False | Some d \<Rightarrow>
                      (case wr_securityRole wr (wx_definitionId context) of
                         None \<Rightarrow> True | Some role \<Rightarrow> role \<notin> set (wd_roles d)))
            then and_then (run_stop (wr_launch wr) dec c securityReviewerStop) (\<lambda>_. give ())
            else case wr_activeUser wr of
                None \<Rightarrow> throw (Typed_refusal Delegation_authority_lost
                  ''Delegating user is no longer active.'' None)
              | Some user \<Rightarrow>
                  and_then (unless_error (wr_requireEditor wr)) (\<lambda>_.
                  and_then (run_next (wr_launch wr) dec c Review (Some source) None
                      (workflow_review_changes c source kind checkpointId checkpoint
                         (wx_contextDigest context))
                      (Some ''workflow-review'')
                      (Some \<lparr>la_check =
                         (if delegation_roles (wr_owner wr ''reserve'') \<noteq> map_option wd_roles delegation
                          then Some (Concurrent_error ''Reviewer delegation changed while the review started; it is decided again.'')
                          else None)\<rparr>)) (\<lambda>_. give ()))))"

section \<open>Advancing the workflow\<close>

definition gate_write :: "effect_gate \<Rightarrow> cycle_changes" where
  "gate_write g = no_changes\<lparr>ch_status := Some Awaiting_merge,
     ch_attention := Some (make_attention (eg_code g) (eg_refs g) None None None),
     ch_reason := Some (eg_reason g)\<rparr>"

definition invariant_failed :: "string \<Rightarrow> service_error" where
  "invariant_failed what = Other_error (''Invariant failed: '' @ what)"

text \<open>The obligations that remain; the answer is whether the effect handled the cycle.\<close>

definition settle_obligations ::
    "workflow_reads \<Rightarrow> decision_scope option \<Rightarrow> work_cycle \<Rightarrow> agent_run \<Rightarrow> nat \<Rightarrow> cycle_workflow
     \<Rightarrow> workflow_context \<Rightarrow> (cycle_db, bool) job" where
  "settle_obligations wr dec c run initial w context =
     (case decideObligations (cy_status c) w (map workflow_checkpoint.truncate (wx_checkpoints context)) of
        Start_checkpoint_review k \<Rightarrow>
          and_then (startWorkflowReview wr dec c run AR_checkpoint (Some k)) (\<lambda>_. give True)
      | Obligation_attention code message refs asked \<Rightarrow>
          and_then (run_change (wr_launch wr) dec c (no_changes\<lparr>ch_workflow := Put asked\<rparr>) ''advance'' None) (\<lambda>c1.
          and_then (run_attention (wr_launch wr) dec c1 code message (Some refs) None) (\<lambda>_. give True))
      | Obligation_gate waiting unchanged \<Rightarrow>
          if unchanged then give True
          else and_then (run_change (wr_launch wr) dec c
                 (no_changes\<lparr>ch_status := Some Awaiting_merge,
                    ch_attention := Some (make_attention Controller_wait None None None None),
                    ch_workflow := Put (w\<lparr>wf_waiting := Some (Some waiting)\<rparr>),
                    ch_reason := Some waiting\<rparr>) ''workflow-wait'' None) (\<lambda>_. give True)
      | Clear_waiting \<Rightarrow>
          and_then (run_change (wr_launch wr) dec c
              (no_changes\<lparr>ch_workflow := Put (w\<lparr>wf_waiting := Some None\<rparr>)\<rparr>) ''advance'' None) (\<lambda>c1.
            give (cy_version c1 \<noteq> initial))
      | Obligations_done \<Rightarrow> give (cy_version c \<noteq> initial))"

text \<open>The security review a slice owes, then its obligations; \<open>active\<close> is the review just completed.\<close>

definition workflow_obligations ::
    "workflow_reads \<Rightarrow> decision_scope option \<Rightarrow> work_cycle \<Rightarrow> agent_run \<Rightarrow> nat
     \<Rightarrow> workflow_delegation option \<Rightarrow> workflow_context \<Rightarrow> active_review option \<Rightarrow> (cycle_db, bool) job" where
  "workflow_obligations wr dec c run initial delegation context active =
     (case cy_workflow c of
        None \<Rightarrow> throw (invariant_failed ''the cycle's workflow'')
      | Some w \<Rightarrow>
          if wf_securityRequired w = Some True \<and> \<not> securityReviewCurrent (wr_owner wr ''current'') c run
          then (if map_option ar_kind active = Some AR_security
                then and_then (run_stop (wr_launch wr) dec c securityReviewNotCurrent) (\<lambda>_. give True)
                else and_then (startWorkflowReview wr dec c run AR_security None) (\<lambda>_. give True))
          else if delegation = None then give (cy_version c \<noteq> initial)
          else case (if active = None then Some context else workflowContext wr ''after-review'' c) of
                 None \<Rightarrow> throw (invariant_failed ''the workflow context after the review'')
               | Some current \<Rightarrow> settle_obligations wr dec c run initial w current)"

definition completed_review ::
    "agent_run \<Rightarrow> review_branch_context \<Rightarrow> active_review \<Rightarrow> cycle_workflow \<Rightarrow> cycle_workflow" where
  "completed_review run branch active w =
     w\<lparr>wf_activeReview := Some None,
       wf_securityReceipt := (if ar_kind active = AR_security
         then Some \<lparr>sr_runId = run_id run, sr_headSha = rbc_headSha branch, sr_targetSha = rbc_targetSha branch\<rparr>
         else wf_securityReceipt w)\<rparr>"

definition complete_active_review ::
    "workflow_reads \<Rightarrow> decision_scope option \<Rightarrow> work_cycle \<Rightarrow> agent_run \<Rightarrow> review_branch_context
     \<Rightarrow> nat \<Rightarrow> workflow_delegation option \<Rightarrow> workflow_context \<Rightarrow> active_review option \<Rightarrow> (cycle_db, bool) job" where
  "complete_active_review wr dec c run branch initial delegation context active =
     (case active of
        None \<Rightarrow> workflow_obligations wr dec c run initial delegation context None
      | Some a \<Rightarrow>
          and_then (if ar_kind a = AR_checkpoint
                    then and_then (awaiting (wr_launch wr) ''accept-checkpoint'')
                           (\<lambda>_. unless_error (wr_acceptCheckpoint wr))
                    else give ()) (\<lambda>_.
          and_then (case cy_workflow c of
              None \<Rightarrow> throw (invariant_failed ''the cycle's workflow'')
            | Some w \<Rightarrow> run_change (wr_launch wr) dec c
                (no_changes\<lparr>ch_workflow := Put (completed_review run branch a w)\<rparr>)
                ''workflow-review-completed'' None) (\<lambda>c1.
          workflow_obligations wr dec c1 run initial delegation context (Some a))))"

definition dropped_review :: "workflow_context \<Rightarrow> active_review option \<Rightarrow> active_review option" where
  "dropped_review context active =
     (case active of
        Some a \<Rightarrow>
          if ar_kind a = AR_checkpoint
             \<and> \<not> checkpoint_ready (find (\<lambda>k. Some (wk_id k) = ar_checkpointId a) (wx_checkpoints context))
          then Some a else None
      | None \<Rightarrow> None)"

definition advanceWorkflow ::
    "workflow_reads \<Rightarrow> decision_scope option \<Rightarrow> work_cycle \<Rightarrow> agent_run \<Rightarrow> (cycle_db, bool) job" where
  "advanceWorkflow wr dec c run =
     (let rd = wr_owner wr ''advance''; delegation = workflowDelegation rd; initial = cy_version c in
      case cy_workflow c of
        None \<Rightarrow> give False
      | Some w \<Rightarrow>
          if scope_kind_of c \<noteq> Some Slice \<or> \<not> truthy (cy_workItemId c)
             \<or> (delegation = None \<and> wf_securityRequired w \<noteq> Some True \<and> active_review_of c = None)
          then give False
          else case reviewAuthorityMissing rd of
            Some missing \<Rightarrow>
              and_then (run_stop (wr_launch wr) dec c (workflowAuthorityStop missing)) (\<lambda>_. give True)
          | None \<Rightarrow>
              if \<not> controllerReviewRunnable rd then
                (case workflowHeldGate (cy_status c) of
                   None \<Rightarrow> give True
                 | Some held \<Rightarrow>
                     and_then (run_change (wr_launch wr) dec c (gate_write held) ''advance'' None)
                       (\<lambda>_. give True))
              else case (run_reviewBranchContext run, workflowContext wr ''advance'' c) of
                (Some branch, Some context) \<Rightarrow>
                  (case dropped_review context (active_review_of c) of
                     Some a \<Rightarrow>
                       and_then (run_change (wr_launch wr) dec c
                           (no_changes\<lparr>ch_workflow := Put (w\<lparr>wf_activeReview := Some None, wf_waiting := Some None\<rparr>),
                              ch_reason := Some (over (ar_checkpointId a) ''undefined''
                                @ '': the checkpoint changed during its review; deciding its obligation again.'')\<rparr>)
                           ''advance'' None) (\<lambda>c1.
                         complete_active_review wr dec c1 run branch initial delegation context None)
                   | None \<Rightarrow>
                       complete_active_review wr dec c run branch initial delegation context (active_review_of c))
              | _ \<Rightarrow> give False)"

section \<open>A review's approval\<close>

definition approve_reviewed ::
    "workflow_reads \<Rightarrow> decision_scope option \<Rightarrow> work_cycle \<Rightarrow> agent_run \<Rightarrow> bool \<Rightarrow> string
     \<Rightarrow> (cycle_db, unit) job" where
  "approve_reviewed wr dec c run reviewOnly reason =
     (case wr_reviewedWorktree wr of
        None \<Rightarrow> throw not_found
      | Some tree \<Rightarrow>
          and_then (awaiting (wr_launch wr) ''assert-review'') (\<lambda>_.
          and_then (unless_error (er_assertReview (wr_effects wr) tree run)) (\<lambda>_.
          and_then (declaredDefinitions wr tree run (\<not> reviewOnly)) (\<lambda>adopts.
          and_then (advanceWorkflow wr dec c run) (\<lambda>handled.
            if handled then give ()
            else and_then (run_change (wr_launch wr) dec c
                   (gate_write (approvalGate reviewOnly adopts (Some (wt_repositoryId tree)) reason))
                   ''advance'' None) (\<lambda>_. give ()))))))"

definition approveReview ::
    "workflow_reads \<Rightarrow> decision_scope option \<Rightarrow> work_cycle \<Rightarrow> agent_run \<Rightarrow> worktree \<Rightarrow> bool \<Rightarrow> string
     \<Rightarrow> (cycle_db, unit) job" where
  "approveReview wr dec c run tree reviewOnly reason =
     (let stop = (\<lambda>s. and_then (run_stop (wr_launch wr) dec c s) (\<lambda>_. give ())) in
      and_then (awaiting (wr_launch wr) ''approval-inspect'') (\<lambda>_.
        case decideApproval reviewOnly (cy_reviewHeadSha c) (wt_branchName tree) (wr_changes wr) of
          Approval_refuse m \<Rightarrow> throw (Typed_refusal Worktree_state m None)
        | Approval_stop s \<Rightarrow> stop s
        | Approval_housekeeping reason' \<Rightarrow>
            and_then (housekeeping (er_remediation (wr_effects wr)) dec c run reason' None None) (\<lambda>_. give ())
        | Approval_continue \<Rightarrow>
            and_then (awaiting (wr_launch wr) ''approved-head'') (\<lambda>_.
            and_then (requiring (cleanHead (wr_launch wr))) (\<lambda>head.
              case decideApprovedHead head (cy_reviewHeadSha c) of
                Some s \<Rightarrow> stop s
              | None \<Rightarrow>
                  and_then (refreshIntegration (er_integration (wr_effects wr)) dec c (Some run) True) (\<lambda>over.
                    if over then give () else approve_reviewed wr dec c run reviewOnly reason)))))"

section \<open>Reassessment\<close>

text \<open>The answer is the version a reassessment failed at, which the process keeps for the cycle.\<close>

definition reassessment_failed ::
    "workflow_reads \<Rightarrow> decision_scope option \<Rightarrow> work_cycle \<Rightarrow> service_error \<Rightarrow> (cycle_db, nat option) job" where
  "reassessment_failed wr dec c e =
     (case reassessmentFailure e of
        None \<Rightarrow> throw e
      | Some failed \<Rightarrow>
          and_then (find_cycle c) (\<lambda>row.
            case row of
              None \<Rightarrow> give None
            | Some current \<Rightarrow>
                if cy_version current \<noteq> cy_version c then give None
                else and_then (run_change (wr_launch wr) dec current
                       (no_changes\<lparr>ch_status := Some Needs_attention,
                          ch_attention := Some (make_attention (es_code failed) None None None None),
                          ch_reason := Some (es_message failed)\<rparr>) ''advance'' None)
                     (\<lambda>updated. give (Some (cy_version updated)))))"

definition reassess ::
    "workflow_reads \<Rightarrow> decision_scope option \<Rightarrow> work_cycle \<Rightarrow> agent_run \<Rightarrow> (cycle_db, nat option) job" where
  "reassess wr dec c source =
     (if wr_failedReassessment wr = Some (cy_version c) then give (wr_failedReassessment wr)
      else catch_with
             (and_then (startWorkflowReview wr dec c source AR_reassessment None) (\<lambda>_. give None))
             (reassessment_failed wr dec c))"

section \<open>The effects as paths of the cycle store\<close>

lemma field_changes_workflow [simp]:
  "field_changes (workflow_review_changes c source kind k e d)"
  by (simp add: workflow_review_changes_def field_changes_def Let_def)

lemma gate_write_plain [simp]: "ch_restore (gate_write g) = None"
  by (simp add: gate_write_def)

lemma follows_declared_only: "follows H (declared_only wr) (\<lambda>_. {})"
  unfolding declared_only_def by (intro asked_intros) simp_all

lemma follows_declaredDefinitions:
  assumes "orderly (wr_launch wr)"
  shows "follows H (declaredDefinitions wr tree run merges) (\<lambda>_. {})"
  unfolding declaredDefinitions_def
  by (auto intro!: follows_declared_only asked_intros follows_case_sum follows_requiring assms
      split: option.split)

lemma follows_startWorkflowReview:
  assumes "orderly (wr_launch wr)" "c \<in> H"
  shows "follows H (startWorkflowReview wr dec c source kind k) (\<lambda>_. {})"
  unfolding startWorkflowReview_def Let_def
  by (intro asked_intros follows_then_row [OF follows_stop] follows_then_row [OF follows_next])
     (use assms in simp_all)

lemma follows_settle_obligations:
  assumes "orderly (wr_launch wr)" "c \<in> H"
  shows "follows H (settle_obligations wr dec c run n w context) (\<lambda>_. {})"
  unfolding settle_obligations_def
  by (cases "decideObligations (cy_status c) w (map workflow_checkpoint.truncate (wx_checkpoints context))";
      simp;
      intro asked_intros follows_then_plain [OF follows_startWorkflowReview]
        follows_then_row [OF follows_change] follows_then_row [OF follows_attention] restore_wf_plain impI conjI)
     (use assms in simp_all)

lemma follows_workflow_obligations:
  assumes "orderly (wr_launch wr)" "c \<in> H"
  shows "follows H (workflow_obligations wr dec c run n delegation context active) (\<lambda>_. {})"
  unfolding workflow_obligations_def
  by (intro asked_intros follows_then_row [OF follows_stop] follows_settle_obligations
      follows_then_plain [OF follows_startWorkflowReview])
     (use assms in simp_all)

lemma follows_complete_active_review:
  assumes "orderly (wr_launch wr)" "c \<in> H"
  shows "follows H (complete_active_review wr dec c run branch n delegation context active) (\<lambda>_. {})"
  unfolding complete_active_review_def
  by (intro asked_intros follows_workflow_obligations
      follows_then_row [where m = "case cy_workflow c of None \<Rightarrow> _ | Some w \<Rightarrow> _ w"] follows_change restore_wf_plain)
     (use assms in simp_all)

lemma follows_advanceWorkflow:
  assumes "orderly (wr_launch wr)" "c \<in> H"
  shows "follows H (advanceWorkflow wr dec c run) (\<lambda>_. {})"
  unfolding advanceWorkflow_def Let_def prod.case
  by (intro asked_intros follows_then_row [OF follows_stop] follows_then_row [OF follows_change]
      follows_complete_active_review restore_wf_plain)
     (use assms in simp_all)

lemma wr_orderly:
  assumes "orderly_effects (wr_effects wr)"
  shows "orderly (wr_launch wr)"
  using orderly_effectsD [OF assms] by (simp add: wr_launch_def)

lemma follows_approve_reviewed:
  assumes "orderly_effects (wr_effects wr)" "c \<in> H"
  shows "follows H (approve_reviewed wr dec c run reviewOnly reason) (\<lambda>_. {})"
  unfolding approve_reviewed_def
  by (intro asked_intros follows_then_plain [OF follows_declaredDefinitions]
      follows_then_plain [OF follows_advanceWorkflow] follows_then_row [OF follows_change] restore_wf_plain)
     (use assms wr_orderly in simp_all)

lemma follows_approveReview:
  assumes "orderly_effects (wr_effects wr)" "c \<in> H"
  shows "follows H (approveReview wr dec c run tree reviewOnly reason) (\<lambda>_. {})"
proof -
  have rest: "follows H (case d of
      Approval_refuse m \<Rightarrow> throw (Typed_refusal Worktree_state m None)
    | Approval_stop s \<Rightarrow> and_then (run_stop (wr_launch wr) dec c s) (\<lambda>_. give ())
    | Approval_housekeeping r \<Rightarrow>
        and_then (housekeeping (er_remediation (wr_effects wr)) dec c run r None None) (\<lambda>_. give ())
    | Approval_continue \<Rightarrow>
        and_then (awaiting (wr_launch wr) ''approved-head'') (\<lambda>_.
        and_then (requiring (cleanHead (wr_launch wr))) (\<lambda>head.
          case decideApprovedHead head (cy_reviewHeadSha c) of
            Some s \<Rightarrow> and_then (run_stop (wr_launch wr) dec c s) (\<lambda>_. give ())
          | None \<Rightarrow>
              and_then (refreshIntegration (er_integration (wr_effects wr)) dec c (Some run) True) (\<lambda>over.
                if over then give () else approve_reviewed wr dec c run reviewOnly reason)))) (\<lambda>_. {})" for d
    by (cases d, simp_all;
        intro asked_intros follows_then_row [OF follows_stop] follows_then_row [OF follows_housekeeping]
          follows_then_plain [OF follows_refreshIntegration] follows_approve_reviewed)
       (use assms wr_orderly orderly_effectsD in simp_all)
  show ?thesis
    unfolding approveReview_def Let_def
    by (intro asked_intros rest) (use assms wr_orderly in simp_all)
qed

lemma follows_reassess:
  assumes "orderly (wr_launch wr)" "c \<in> H"
  shows "follows H (reassess wr dec c source) (\<lambda>_. {})"
  unfolding reassess_def reassessment_failed_def
  by (intro asked_intros cy.refines_catch follows_then_plain [OF follows_startWorkflowReview]
      follows_then_row [OF follows_change] restore_wf_plain)
     (use assms in simp_all)

end
