(* ===== verification/Restart_Effects.thy ===== *)
theory Restart_Effects
  imports Workflow_Effects
begin

text \<open>
  The cycle's effects that continue a session
  (\<open>apps/server/src/services/cycle/effects/restart.ts\<close>): a restart's resume, an output
  repair, and a design continued after its investigation.
\<close>

section \<open>What they read\<close>

record design_preview =
  dv_snapshotDigest :: string
  dv_facts :: string
  dv_sources :: "design_recovery_source list"

record restart_reads =
  sr_launch :: launch_reads
  sr_draining :: bool
  sr_preview :: "agent_run \<Rightarrow> service_error + design_preview"
  sr_assignment :: "(string \<times> agent_selections) option"
  sr_owned :: bool

section \<open>The interrupted session goes on\<close>

definition edit_of :: "'a option \<Rightarrow> 'a edit" where
  "edit_of x = (case x of None \<Rightarrow> Drop | Some v \<Rightarrow> Put v)"

definition resumed_changes :: "work_cycle \<Rightarrow> cycle_changes" where
  "resumed_changes c = no_changes
     \<lparr>ch_runDeadlineAt := Some (cy_runDeadlineAt c),
      ch_attempt :=
        \<lparr>ac_stepGuidance = edit_of (sa_stepGuidance (attempt_of c)),
         ac_housekeepingInstructions = edit_of (sa_housekeepingInstructions (attempt_of c)),
         ac_resultContinuations = Put (over (sa_resultContinuations (attempt_of c)) 0),
         ac_outputRepair = Put (output_repair_of c),
         ac_providerRecovery = Put (provider_recovery_of c)\<rparr>,
      ch_instructions := Some (cy_instructions c),
      ch_reason := Some (''Resuming the '' @ step_text (cy_step c)
        @ '' session that the daemon restart interrupted.'')\<rparr>"

definition resumeAfterRestart ::
    "restart_reads \<Rightarrow> decision_scope option \<Rightarrow> work_cycle \<Rightarrow> agent_run \<Rightarrow> (cycle_db, unit) job" where
  "resumeAfterRestart sr dec c run =
     (if sr_draining sr then give ()
      else and_then (run_next (sr_launch sr) dec c (cy_step c) (Some run) None (resumed_changes c)
             (Some ''resume-after-restart'') None) (\<lambda>_. give ()))"

section \<open>A report is corrected\<close>

definition output_repair_minutes :: int where
  "output_repair_minutes = 20"

definition repair_floor :: "time \<Rightarrow> time" where
  "repair_floor now = now + output_repair_minutes * 60000"

definition repair_changes ::
    "time \<Rightarrow> work_cycle \<Rightarrow> agent_run \<Rightarrow> attention_code \<Rightarrow> string list \<Rightarrow> nat \<Rightarrow> cycle_changes" where
  "repair_changes now c run code issues attempt = no_changes
     \<lparr>ch_attempt :=
        \<lparr>ac_stepGuidance = edit_of (sa_stepGuidance (attempt_of c)),
         ac_housekeepingInstructions = edit_of (sa_housekeepingInstructions (attempt_of c)),
         ac_resultContinuations = Put (over (sa_resultContinuations (attempt_of c)) 0),
         ac_outputRepair = Put (Some \<lparr>or_attempts = attempt, or_sourceRunId = run_id run,
           or_code = code, or_issues = issues\<rparr>),
         ac_providerRecovery = Keep\<rparr>,
      ch_runDeadlineAt := Some (if repair_floor now \<le> cy_runDeadlineAt c
        then cy_runDeadlineAt c else repair_floor now),
      ch_instructions := Some (cy_instructions c),
      ch_reason := Some (''The final report did not pass validation. Asking the same agent session to correct it (automatic repair ''
        @ string_of_nat attempt @ '' of '' @ string_of_nat output_repair_limit @ '').'')\<rparr>"

definition repairOutput ::
    "restart_reads \<Rightarrow> decision_scope option \<Rightarrow> work_cycle \<Rightarrow> agent_run \<Rightarrow> attention_code
     \<Rightarrow> string list \<Rightarrow> nat \<Rightarrow> (cycle_db, unit) job" where
  "repairOutput sr dec c run code issues attempt =
     (if sr_draining sr then give ()
      else and_then (run_next (sr_launch sr) dec c (cy_step c) (Some run) None
             (repair_changes (lr_now (sr_launch sr)) c run code issues attempt)
             (Some ''repair-output'') None) (\<lambda>_. give ()))"

section \<open>A design goes on from its investigation\<close>

definition design_selection :: "restart_reads \<Rightarrow> work_cycle \<Rightarrow> service_error + agent_selection" where
  "design_selection sr c =
     (case resolveAgent (cycleLayers (sr_assignment sr) (sr_owned sr) c (no_layers (For_step Design))) of
        None \<Rightarrow> Inl (Other_error ''No agent selection layer for this purpose.'')
      | Some e \<Rightarrow> if lr_hasBackend (sr_launch sr) (as_backend (res_selection e))
                  then Inr (res_selection e)
                  else Inl (Request_error ''The design backend is unavailable.''))"

definition continued_design ::
    "restart_reads \<Rightarrow> work_cycle \<Rightarrow> agent_run \<Rightarrow> design_recovery \<Rightarrow> design_preview \<Rightarrow> agent_selection
     \<Rightarrow> string \<Rightarrow> cycle_changes" where
  "continued_design sr c investigation recovery preview design reason = no_changes
     \<lparr>ch_status := Some Running, ch_step := Some Design,
      ch_currentRunId := Some (lr_freshRunId (sr_launch sr)),
      ch_parentRunId := Put (run_id investigation),
      ch_waits := \<lparr>wc_phase = Drop, wc_design = Drop\<rparr>,
      ch_designDependencyContinuations := Put 0,
      ch_attempt := new_step_attempt,
      ch_runDeadlineAt := Some (deadline (lr_now (sr_launch sr)) (maxRunMinutes (cy_policy c))),
      ch_designRecovery := Put
        \<lparr>dr_runId = lr_freshRunId (sr_launch sr), dr_sourceRunId = run_id investigation,
         dr_mode = Mode_continue, dr_automatic = True, dr_profile = design,
         dr_instructions = dr_instructions recovery, dr_snapshotDigest = dv_snapshotDigest preview,
         dr_facts = dv_facts preview, dr_sources = dv_sources preview,
         dr_attachments = dr_attachments recovery\<rparr>,
      ch_reason := Some reason\<rparr>"

definition continueDesign ::
    "restart_reads \<Rightarrow> decision_scope option \<Rightarrow> work_cycle \<Rightarrow> agent_run \<Rightarrow> string
     \<Rightarrow> (cycle_db, work_cycle) job" where
  "continueDesign sr dec c investigation reason =
     (case cy_designRecovery c of
        Some recovery \<Rightarrow>
          if dr_mode recovery \<noteq> Mode_investigate \<or> dr_runId recovery \<noteq> run_id investigation
          then throw (Request_error ''Only an investigation continues automatically.'')
          else and_then (requiring (sr_preview sr investigation)) (\<lambda>preview.
               and_then (requiring (design_selection sr c)) (\<lambda>design.
               run_change (sr_launch sr) dec c
                 (continued_design sr c investigation recovery preview design reason)
                 ''design-continue'' None))
      | None \<Rightarrow> throw (Request_error ''Only an investigation continues automatically.''))"

section \<open>The effects as paths of the cycle store\<close>

lemma field_changes_restart [simp]:
  "field_changes (resumed_changes c)" "field_changes (repair_changes now c run code issues n)"
  by (simp_all add: resumed_changes_def repair_changes_def field_changes_def)

lemma follows_resumeAfterRestart:
  assumes "orderly (sr_launch sr)" "c \<in> H"
  shows "follows H (resumeAfterRestart sr dec c run) (\<lambda>_. {})"
  unfolding resumeAfterRestart_def
  by (intro asked_intros follows_then_row [OF follows_next]) (use assms in simp_all)

lemma follows_repairOutput:
  assumes "orderly (sr_launch sr)" "c \<in> H"
  shows "follows H (repairOutput sr dec c run code issues n) (\<lambda>_. {})"
  unfolding repairOutput_def
  by (intro asked_intros follows_then_row [OF follows_next]) (use assms in simp_all)

lemma follows_continueDesign:
  assumes "c \<in> H"
  shows "follows H (continueDesign sr dec c run reason) (\<lambda>x. {x})"
  unfolding continueDesign_def
  by (intro asked_intros follows_change restore_wf_plain)
     (use assms in \<open>simp_all add: continued_design_def\<close>)

end
