(* ===== verification/Investigations.thy ===== *)
theory Investigations
  imports Resolution
begin

text \<open>
  A stop's read-only investigation
  (\<open>apps/server/src/services/cycle/commands/investigations.ts\<close>): ending it, reading its run
  back with the worktree compared, and the worktree change it may leave. The result a run is read
  back as is \<open>investigationResult\<close> of \<open>services/investigation.ts\<close>, its report
  \<open>parseInvestigationReport\<close> of \<open>packages/contracts/src/investigation-report.ts\<close>.
  Asking a live run to end is the agent process's and writes no cycle.
\<close>

section \<open>The report and the result\<close>

datatype investigation_parse =
    Investigation_absent
  | Investigation_invalid string
  | Investigation_complete "investigation_finding list"

text \<open>The decoder answers with the report's questions, or why the block is invalid.\<close>

definition parseInvestigationReport ::
    "(string \<Rightarrow> string + investigation_finding list) \<Rightarrow> string \<Rightarrow> investigation_parse" where
  "parseInvestigationReport decode text =
     (case blocks ''craftingtable-investigation'' (split_lf text) of
        [] \<Rightarrow>
          if includes_str (replicate 3 (CHR 0x60) @ ''craftingtable-investigation'') text
          then Investigation_invalid ''Incomplete investigation block.''
          else Investigation_absent
      | [b] \<Rightarrow> (case decode b of
                  Inr qs \<Rightarrow> Investigation_complete qs | Inl why \<Rightarrow> Investigation_invalid why)
      | _ \<Rightarrow> Investigation_invalid ''Provide one consolidated investigation block.'')"

record investigation_reads =
  vr_launch :: launch_reads
  vr_launching :: bool
  vr_settling :: bool
  vr_findRun :: "string \<Rightarrow> agent_run option"
  vr_finalText :: "agent_run \<Rightarrow> string"
  vr_decode :: "string \<Rightarrow> string + investigation_finding list"
  vr_agentTerminating :: bool
  vr_snapshot :: "string \<Rightarrow> worktree_snapshot option"
  vr_lastCheck :: "time option" \<comment> \<open>when the restored worktree was last looked for\<close>

definition plain_result :: "time \<Rightarrow> investigation_outcome \<Rightarrow> string option \<Rightarrow> investigation_result" where
  "plain_result at outcome message =
     \<lparr>ires_endedAt = at, ires_outcome = outcome, ires_worktreeChanged = False,
      ires_worktreeChange = None, ires_acknowledgedAt = None, ires_acknowledgedByUserId = None,
      ires_restoredAt = None, ires_message = message, ires_findings = None\<rparr>"

fun ended_outcome :: "run_status \<Rightarrow> investigation_outcome" where
  "ended_outcome Run_cancelled = Inv_cancelled"
| "ended_outcome Run_interrupted = Inv_interrupted"
| "ended_outcome s = Inv_failed"

definition result_of_run :: "investigation_reads \<Rightarrow> agent_run \<Rightarrow> investigation_result" where
  "result_of_run vr run =
     (let at = lr_now (vr_launch vr) in
      if run_status run \<noteq> Run_finished
      then plain_result at (ended_outcome (run_status run))
             (case (case lr_ended (vr_launch vr) run of None \<Rightarrow> None | Some e \<Rightarrow> rf_message e) of
                None \<Rightarrow> None
              | Some m \<Rightarrow> if m = [] then None else Some (js_slice 4000 m))
      else case parseInvestigationReport (vr_decode vr) (vr_finalText vr run) of
             Investigation_complete qs \<Rightarrow> (plain_result at Inv_finished None)\<lparr>ires_findings := Some qs\<rparr>
           | Investigation_absent \<Rightarrow> plain_result at Inv_finished (Some
               ''The investigation ended without a craftingtable-investigation block. Read its report on the run.'')
           | Investigation_invalid why \<Rightarrow> plain_result at Inv_finished (Some
               (why @ '' Read its report on the run.'')))"

section \<open>Settling it\<close>

definition write_investigation ::
    "investigation_reads \<Rightarrow> decision_scope option \<Rightarrow> work_cycle \<Rightarrow> cycle_investigation \<Rightarrow> string
     \<Rightarrow> command_context option \<Rightarrow> (cycle_db, work_cycle) job" where
  "write_investigation vr dec c i action ctx =
     run_change (vr_launch vr) dec c (no_changes\<lparr>ch_investigation := Put i\<rparr>) action ctx"

text \<open>The investigated worktree as it is now, or nothing when it cannot be read.\<close>

definition investigatedTree :: "investigation_reads \<Rightarrow> worktree_snapshot option" where
  "investigatedTree vr =
     (case lr_worktree (vr_launch vr) of
        None \<Rightarrow> None
      | Some tree \<Rightarrow> if lr_git (vr_launch vr) then vr_snapshot vr (wt_path tree) else None)"

definition compared_result ::
    "investigation_reads \<Rightarrow> agent_run \<Rightarrow> worktree_change option \<Rightarrow> investigation_result" where
  "compared_result vr run changed =
     (let r = result_of_run vr run in
      case changed of
        None \<Rightarrow> r
      | Some w \<Rightarrow> r\<lparr>ires_outcome := Inv_failed, ires_worktreeChanged := True,
                    ires_worktreeChange := Some w\<rparr>)"

definition settled_write ::
    "investigation_reads \<Rightarrow> decision_scope option \<Rightarrow> work_cycle \<Rightarrow> cycle_investigation \<Rightarrow> agent_run
     \<Rightarrow> worktree_change option \<Rightarrow> (cycle_db, unit) job" where
  "settled_write vr dec current i run changed =
     and_then (write_investigation vr dec current
         ((over (cy_investigation current) i)\<lparr>inv_result := Some (compared_result vr run changed)\<rparr>)
         (if changed = None then ''investigation-finished'' else ''investigation-worktree-changed'') None)
       (\<lambda>_. give ())"

definition settle_compared ::
    "investigation_reads \<Rightarrow> decision_scope option \<Rightarrow> work_cycle \<Rightarrow> cycle_investigation \<Rightarrow> agent_run
     \<Rightarrow> investigation_worktree \<Rightarrow> (cycle_db, unit) job" where
  "settle_compared vr dec c i run recorded =
     (if vr_agentTerminating vr then give ()
      else and_then (awaiting (vr_launch vr) ''investigated-tree'') (\<lambda>_.
           let changed = worktreeChange recorded (investigatedTree vr) in
           and_then (find_cycle c) (\<lambda>reread.
             case reread of
               None \<Rightarrow> give ()
             | Some current \<Rightarrow>
                 (case cy_investigation current of
                    None \<Rightarrow> give ()
                  | Some j \<Rightarrow>
                      if inv_id j \<noteq> inv_id i \<or> inv_result j \<noteq> None then give ()
                      else settled_write vr dec current i run changed))))"

definition settleInvestigation ::
    "investigation_reads \<Rightarrow> decision_scope option \<Rightarrow> work_cycle \<Rightarrow> (cycle_db, unit) job" where
  "settleInvestigation vr dec c =
     (case cy_investigation c of
        None \<Rightarrow> give ()
      | Some i \<Rightarrow>
          if inv_result i \<noteq> None \<or> vr_launching vr \<or> vr_settling vr then give ()
          else case vr_findRun vr (inv_runId i) of
            None \<Rightarrow>
              and_then (write_investigation vr dec c (i\<lparr>inv_result := Some
                  (plain_result (lr_now (vr_launch vr)) Inv_failed
                     (Some ''The investigation did not start. Start another if needed.''))\<rparr>)
                  ''advance'' None) (\<lambda>_. give ())
          | Some run \<Rightarrow>
              if \<not> isTerminalAgentRunStatus (run_status run) then give ()
              else case inv_worktree i of
                Some recorded \<Rightarrow> settle_compared vr dec c i run recorded
              | None \<Rightarrow> settled_write vr dec c i run None)"

section \<open>Ending it\<close>

definition end_now :: "investigation_reads \<Rightarrow> agent_run option \<Rightarrow> investigation_result" where
  "end_now vr run =
     (case run of
        Some r \<Rightarrow>
          if isTerminalAgentRunStatus (run_status r) then result_of_run vr r
          else plain_result (lr_now (vr_launch vr)) Inv_cancelled (Some ''Ended by the operator.'')
      | None \<Rightarrow> plain_result (lr_now (vr_launch vr)) Inv_cancelled (Some ''Ended by the operator.''))"

text \<open>A command's cycle: found, and still the version the operator saw.\<close>

definition commanded_cycle ::
    "launch_reads \<Rightarrow> command_context \<Rightarrow> string \<times> string \<Rightarrow> nat \<Rightarrow> (cycle_db, work_cycle) job" where
  "commanded_cycle lr ctx key expected =
     and_then (unless_error (lr_requireRole lr ctx)) (\<lambda>_.
     and_then (looking (\<lambda>db. cycles_find (db_rows db) key)) (\<lambda>row.
       case row of
         None \<Rightarrow> throw not_found
       | Some c \<Rightarrow>
           if cy_version c \<noteq> expected
           then throw (Concurrent_error ''Cycle changed; refresh and try again.'')
           else give c))"

definition endInvestigation ::
    "investigation_reads \<Rightarrow> command_context \<Rightarrow> string \<times> string \<Rightarrow> nat \<Rightarrow> bool
     \<Rightarrow> (cycle_db, work_cycle) job" where
  "endInvestigation vr ctx key expected stopping =
     and_then (commanded_cycle (vr_launch vr) ctx key expected) (\<lambda>c.
       case cy_investigation c of
         None \<Rightarrow> throw (Request_error ''No investigation of this stop is running.'')
       | Some i \<Rightarrow>
           if inv_result i \<noteq> None
           then throw (Request_error ''No investigation of this stop is running.'')
           else let run = vr_findRun vr (inv_runId i) in
             if inv_worktree i \<noteq> None \<and> run \<noteq> None \<and> \<not> stopping
             then and_then (write_investigation vr None c
                    (i\<lparr>inv_endRequestedAt := Some (lr_now (vr_launch vr)),
                       inv_endRequestedByUserId := Some (ctx_userId ctx)\<rparr>)
                    ''investigation-end-requested'' (Some ctx)) (\<lambda>requested.
                  and_then (settleInvestigation vr None requested) (\<lambda>_.
                  and_then (find_cycle requested) (\<lambda>row. give (over row requested))))
             else write_investigation vr None c (i\<lparr>inv_result := Some (end_now vr run)\<rparr>)
                    ''investigation-ended'' (Some ctx))"

section \<open>The worktree change it found\<close>

definition checkWorktreeRestored ::
    "investigation_reads \<Rightarrow> decision_scope option \<Rightarrow> work_cycle \<Rightarrow> (cycle_db, unit) job" where
  "checkWorktreeRestored vr dec c =
     (case cy_investigation c of
        None \<Rightarrow> give ()
      | Some i \<Rightarrow>
          (case inv_worktree i of
             None \<Rightarrow> give ()
           | Some recorded \<Rightarrow>
               if inv_result i = None
                  \<or> lr_now (vr_launch vr) - over (vr_lastCheck vr) 0 < restored_check then give ()
               else and_then (awaiting (vr_launch vr) ''investigated-tree'') (\<lambda>_.
                 if worktreeChange recorded (investigatedTree vr) \<noteq> None then give ()
                 else and_then (find_cycle c) (\<lambda>row.
                   case row of
                     None \<Rightarrow> give ()
                   | Some current \<Rightarrow>
                       (case cy_investigation current of
                          None \<Rightarrow> give ()
                        | Some j \<Rightarrow>
                            (case inv_result j of
                               None \<Rightarrow> give ()
                             | Some r \<Rightarrow>
                                 if inv_id j \<noteq> inv_id i \<or> \<not> worktreeChangeOpen current then give ()
                                 else and_then (write_investigation vr dec current
                                        (j\<lparr>inv_result := Some (r\<lparr>ires_restoredAt := Some (lr_now (vr_launch vr))\<rparr>)\<rparr>)
                                        ''investigation-worktree-restored'' None) (\<lambda>_. give ())))))))"

definition acknowledgeWorktreeChange ::
    "investigation_reads \<Rightarrow> command_context \<Rightarrow> string \<times> string \<Rightarrow> nat \<Rightarrow> (cycle_db, work_cycle) job" where
  "acknowledgeWorktreeChange vr ctx key expected =
     and_then (commanded_cycle (vr_launch vr) ctx key expected) (\<lambda>c.
       case (cy_investigation c, case cy_investigation c of None \<Rightarrow> None | Some i \<Rightarrow> inv_result i) of
         (Some i, Some r) \<Rightarrow>
           if \<not> worktreeChangeOpen c
           then throw (Request_error ''No worktree change of this stop's investigation is waiting to be acknowledged.'')
           else write_investigation vr None c
                  (i\<lparr>inv_result := Some (r\<lparr>ires_acknowledgedAt := Some (lr_now (vr_launch vr)),
                       ires_acknowledgedByUserId := Some (ctx_userId ctx)\<rparr>)\<rparr>)
                  ''investigation-change-acknowledged'' (Some ctx)
       | _ \<Rightarrow> throw (Request_error ''No worktree change of this stop's investigation is waiting to be acknowledged.''))"

section \<open>The operations as paths of the cycle store\<close>

lemma follows_write_investigation:
  "c \<in> H \<Longrightarrow> follows H (write_investigation vr dec c i action ctx) (\<lambda>x. {x})"
  unfolding write_investigation_def by (intro follows_change restore_wf_plain) simp_all

lemma follows_settled_write:
  "c \<in> H \<Longrightarrow> follows H (settled_write vr dec c i run w) (\<lambda>_. {})"
  unfolding settled_write_def by (intro asked_intros follows_then_row [OF follows_write_investigation]) simp_all

lemma follows_settleInvestigation:
  assumes "orderly (vr_launch vr)" "c \<in> H"
  shows "follows H (settleInvestigation vr dec c) (\<lambda>_. {})"
  unfolding settleInvestigation_def settle_compared_def Let_def
  by (intro asked_intros follows_settled_write follows_then_row [OF follows_write_investigation])
     (use assms in simp_all)

lemma follows_commanded_cycle: "follows H (commanded_cycle lr ctx key n) (\<lambda>x. {x})"
  unfolding commanded_cycle_def
  by (intro asked_intros follows_then_maybe [OF cy.refines_look]) simp_all

lemma follows_endInvestigation:
  assumes "orderly (vr_launch vr)"
  shows "follows H (endInvestigation vr ctx key n stopping) (\<lambda>x. {x})"
  unfolding endInvestigation_def Let_def
  by (intro asked_intros follows_then_row [OF follows_commanded_cycle]
      follows_then_row [OF follows_write_investigation] follows_write_investigation
      follows_then_plain [OF follows_settleInvestigation])
     (use assms in \<open>auto simp: over_def split: option.splits\<close>)

lemma follows_checkWorktreeRestored:
  assumes "orderly (vr_launch vr)" "c \<in> H"
  shows "follows H (checkWorktreeRestored vr dec c) (\<lambda>_. {})"
  unfolding checkWorktreeRestored_def
  by (intro asked_intros follows_then_row [OF follows_write_investigation]) (use assms in simp_all)

lemma follows_acknowledgeWorktreeChange:
  "follows H (acknowledgeWorktreeChange vr ctx key n) (\<lambda>x. {x})"
  unfolding acknowledgeWorktreeChange_def
  by (intro asked_intros follows_then_row [OF follows_commanded_cycle])
     (auto intro!: follows_write_investigation split: option.split)

end
