(* ===== verification/Pass.thy ===== *)
theory Pass
  imports Restart_Effects Investigations
begin

text \<open>
  One controller pass over a cycle
  (\<open>apps/server/src/services/work-cycle-service.ts\<close>): the facts are read, \<open>decide\<close> decides,
  the decision is carried out, and an error the way met is decided in its turn; with the
  application of a step's outcome
  (\<open>cycle/effects/apply-outcome.ts\<close>) and the order a pass takes the cycles in
  (\<open>cycle-priority.ts\<close>). What a pass reads beside the cycle rows is the record
  \<open>pass_reads\<close>.
\<close>

section \<open>What a pass reads\<close>

record pass_reads =
  pa_workflow :: workflow_reads
  pa_restart :: restart_reads
  pa_investigation :: investigation_reads
  pa_facts :: cycle_facts
  pa_kernel :: kernel_facts
  pa_throws :: "cycle_guard \<Rightarrow> service_error option" \<comment> \<open>a fact the guard asks for fails\<close>
  pa_startForCycle :: "service_error option"
  pa_drainingNow :: bool \<comment> \<open>\<open>isDraining\<close> when the effect asks it\<close>

definition pa_launch :: "pass_reads \<Rightarrow> launch_reads" where
  "pa_launch pr = wr_launch (pa_workflow pr)"

definition pa_effects :: "pass_reads \<Rightarrow> effect_reads" where
  "pa_effects pr = wr_effects (pa_workflow pr)"

section \<open>A step's outcome\<close>

definition workflow_written ::
    "launch_reads \<Rightarrow> decision_scope option \<Rightarrow> work_cycle \<Rightarrow> cycle_workflow option \<Rightarrow> (cycle_db, work_cycle) job" where
  "workflow_written lr dec c w =
     (case w of
        None \<Rightarrow> give c
      | Some x \<Rightarrow> run_change lr dec c (no_changes\<lparr>ch_workflow := Put x\<rparr>) ''advance'' None)"

text \<open>The review of a finalized implementation, unless two remediations in a row changed nothing.\<close>

definition review_finalized ::
    "pass_reads \<Rightarrow> decision_scope option \<Rightarrow> work_cycle \<Rightarrow> agent_run \<Rightarrow> (cycle_db, unit) job" where
  "review_finalized pr dec finalized run =
     and_then (if cy_step finalized = Remediate then awaiting (pa_launch pr) ''finalized-head'' else give ()) (\<lambda>_.
       let head = (if cy_step finalized = Remediate
                   then (case cleanHead (pa_launch pr) of Inl e \<Rightarrow> None | Inr h \<Rightarrow> Some h) else None)
       in case decideFinalized (cy_step finalized)
              (case head of None \<Rightarrow> False
               | Some h \<Rightarrow> h \<noteq> [] \<and> remediatedNothingTwice (er_remediation (pa_effects pr)) finalized run h) of
            Some s \<Rightarrow> and_then (run_stop (pa_launch pr) dec finalized s) (\<lambda>_. give ())
          | None \<Rightarrow> and_then (run_next (pa_launch pr) dec finalized Review (Some run) None no_changes None None)
                      (\<lambda>_. give ()))"

definition finalize_and_review ::
    "pass_reads \<Rightarrow> decision_scope option \<Rightarrow> work_cycle \<Rightarrow> agent_run \<Rightarrow> (cycle_db, unit) job" where
  "finalize_and_review pr dec c run =
     and_then (finalizeImplementation (er_remediation (pa_effects pr)) dec c run) (\<lambda>finished.
       case finished of
         None \<Rightarrow> give ()
       | Some finalized \<Rightarrow>
           and_then (refreshIntegration (er_integration (pa_effects pr)) dec finalized (Some run) True) (\<lambda>handled.
             if handled then give () else review_finalized pr dec finalized run))"

definition continue_design ::
    "pass_reads \<Rightarrow> decision_scope option \<Rightarrow> work_cycle \<Rightarrow> agent_run \<Rightarrow> string \<Rightarrow> (cycle_db, unit) job" where
  "continue_design pr dec c run reason =
     catch_with (and_then (continueDesign (pa_restart pr) dec c run reason) (\<lambda>_. give ()))
       (\<lambda>e. and_then (run_stop (pa_launch pr) dec c (continueDesignFailure e)) (\<lambda>_. give ()))"

definition remediate_review ::
    "pass_reads \<Rightarrow> decision_scope option \<Rightarrow> work_cycle \<Rightarrow> agent_run \<Rightarrow> bool \<Rightarrow> (cycle_db, unit) job" where
  "remediate_review pr dec c run clearActiveReview =
     and_then (workflow_written (pa_launch pr) dec c
         (if clearActiveReview
          then map_option (\<lambda>w. w\<lparr>wf_activeReview := Some None, wf_waiting := Some None\<rparr>) (cy_workflow c)
          else None)) (\<lambda>c1.
     and_then (reviewRemediation (er_remediation (pa_effects pr)) dec c1 run None None) (\<lambda>_. give ()))"

definition outcome_job ::
    "pass_reads \<Rightarrow> decision_scope option \<Rightarrow> work_cycle \<Rightarrow> agent_run \<Rightarrow> worktree \<Rightarrow> outcome
     \<Rightarrow> (cycle_db, unit) job" where
  "outcome_job pr dec c run tree d =
     (case d of
        Attention code m repairs \<Rightarrow>
          and_then (run_attention (pa_launch pr) dec c code m None repairs) (\<lambda>_. give ())
      | Repair_output code issues n \<Rightarrow> repairOutput (pa_restart pr) dec c run code issues n
      | Schedule_service_retry recovery due reason \<Rightarrow>
          and_then (run_change (pa_launch pr) dec c
              (no_changes\<lparr>ch_attempt := no_attempt_changes\<lparr>ac_providerRecovery := Put (Some recovery)\<rparr>,
                 ch_runDeadlineAt := due, ch_reason := Some reason\<rparr>) ''provider-backoff'' None) (\<lambda>_. give ())
      | Next_step st ch action \<Rightarrow>
          and_then (run_next (pa_launch pr) dec c st (Some run) None ch (Some action) None) (\<lambda>_. give ())
      | Advance_resolution \<Rightarrow> advanceResolution (er_integration (pa_effects pr)) dec c
      | Continue_design reason \<Rightarrow> continue_design pr dec c run reason
      | Design_wait since requirements reason \<Rightarrow>
          and_then (run_change (pa_launch pr) dec c
              (no_changes\<lparr>ch_waits := no_wait_changes\<lparr>wc_design := Put (since, requirements)\<rparr>,
                 ch_reason := Some reason\<rparr>) ''advance'' None) (\<lambda>_. give ())
      | Finalize_implementation \<Rightarrow> finalize_and_review pr dec c run
      | Advance_finalization_stage noQuestions \<Rightarrow>
          advanceFinalizationStage (pa_effects pr) dec c run noQuestions
      | Remediate_review clearActiveReview \<Rightarrow> remediate_review pr dec c run clearActiveReview
      | Approve_review reviewOnly reason \<Rightarrow> approveReview (pa_workflow pr) dec c run tree reviewOnly reason
      | _ \<Rightarrow> give ())"

text \<open>A live turn that ends is the agent process's: \<open>end-turn\<close> writes no cycle.\<close>

definition applyStepOutcome ::
    "pass_reads \<Rightarrow> decision_scope option \<Rightarrow> work_cycle \<Rightarrow> agent_run \<Rightarrow> worktree \<Rightarrow> step_decision
     \<Rightarrow> (cycle_db, unit) job" where
  "applyStepOutcome pr dec c run tree d =
     (case dec_outcome d of
        Wait_for_run \<Rightarrow> give ()
      | Resume_after_restart \<Rightarrow> resumeAfterRestart (pa_restart pr) dec c run
      | End_turn \<Rightarrow> give ()
      | x \<Rightarrow>
          if (\<exists>m r. x = Attention Restart_session_lost m r) \<and> pa_drainingNow pr then give ()
          else and_then (workflow_written (pa_launch pr) dec c (dec_workflow d)) (\<lambda>c1.
                 outcome_job pr dec c1 run tree x))"

section \<open>A decision carried out\<close>

definition run_wait ::
    "launch_reads \<Rightarrow> decision_scope option \<Rightarrow> work_cycle \<Rightarrow> phase_blocker list \<Rightarrow> string
     \<Rightarrow> (cycle_db, unit) job" where
  "run_wait lr dec c bs reason =
     (case waitForPhase_changes c (lr_now lr) bs reason of
        None \<Rightarrow> give ()
      | Some ch \<Rightarrow> and_then (run_change lr dec c ch ''advance'' None) (\<lambda>_. give ()))"

text \<open>A failure's stop or phase wait, only while the cycle is the version read and still driven.\<close>

definition stopAfterFailure ::
    "pass_reads \<Rightarrow> decision_scope option \<Rightarrow> work_cycle \<Rightarrow> refusal_decision \<Rightarrow> (cycle_db, unit) job" where
  "stopAfterFailure pr dec c failure =
     and_then (find_cycle c) (\<lambda>row.
       case row of
         None \<Rightarrow> give ()
       | Some current \<Rightarrow>
           if cy_version current \<noteq> cy_version c
              \<or> (cy_status current \<noteq> Running \<and> cy_status current \<noteq> Awaiting_merge)
           then give ()
           else (case failure of
                   Phase_wait bs reason \<Rightarrow> run_wait (pa_launch pr) dec current bs reason
                 | Refusal_stop s \<Rightarrow> and_then (run_stop (pa_launch pr) dec current s) (\<lambda>_. give ())))"

definition start_run ::
    "pass_reads \<Rightarrow> decision_scope option \<Rightarrow> work_cycle \<Rightarrow> bool \<Rightarrow> agent_run option \<Rightarrow> (cycle_db, unit) job" where
  "start_run pr dec c refreshFirst parent =
     and_then (if refreshFirst
               then refreshIntegration (er_integration (pa_effects pr)) dec c parent True
               else give False) (\<lambda>handled.
       if handled \<or> (refreshFirst \<and> pa_drainingNow pr) then give ()
       else catch_with
              (and_then (awaiting (pa_launch pr) ''start-run'') (\<lambda>_. unless_error (pa_startForCycle pr)))
              (\<lambda>e. case decideLaunch e of
                     None \<Rightarrow> throw e
                   | Some refused \<Rightarrow> stopAfterFailure pr dec c refused))"

definition runEffect ::
    "pass_reads \<Rightarrow> decision_scope option \<Rightarrow> work_cycle \<Rightarrow> cycle_effect \<Rightarrow> (cycle_db, unit) job" where
  "runEffect pr dec c effect =
     (case effect of
        Settle_investigation \<Rightarrow> settleInvestigation (pa_investigation pr) dec c
      | Check_worktree_restored \<Rightarrow> checkWorktreeRestored (pa_investigation pr) dec c
      | Reassess source \<Rightarrow> and_then (reassess (pa_workflow pr) dec c source) (\<lambda>_. give ())
      | Merge_boundary review \<Rightarrow>
          and_then (case review of None \<Rightarrow> give False | Some r \<Rightarrow> advanceWorkflow (pa_workflow pr) dec c r)
            (\<lambda>handled. if handled then give ()
               else and_then (refreshIntegration (er_integration (pa_effects pr)) dec c review False)
                      (\<lambda>_. give ()))
      | Advance_resolution_effect \<Rightarrow> advanceResolution (er_integration (pa_effects pr)) dec c)"

definition clear_phase_changes :: "time \<Rightarrow> string \<Rightarrow> cycle_changes" where
  "clear_phase_changes due reason = no_changes
     \<lparr>ch_waits := no_wait_changes\<lparr>wc_phase := Drop\<rparr>, ch_runDeadlineAt := Some due,
      ch_reason := Some reason\<rparr>"

definition apply_decision ::
    "pass_reads \<Rightarrow> decision_scope option \<Rightarrow> work_cycle \<Rightarrow> decision_body \<Rightarrow> (cycle_db, unit) job" where
  "apply_decision pr dec c d =
     (case d of
        Idle reason due \<Rightarrow> give ()
      | Complete_cycle code reason \<Rightarrow>
          and_then (run_change (pa_launch pr) dec c
              (no_changes\<lparr>ch_status := Some Completed, ch_end := Some code, ch_reason := Some reason\<rparr>)
              ''advance'' None) (\<lambda>_. give ())
      | Stop_at code m refs endTurn \<Rightarrow>
          and_then (run_attention (pa_launch pr) dec c code m refs None) (\<lambda>_. give ())
      | Wait (Record_phase bs reason) \<Rightarrow> run_wait (pa_launch pr) dec c bs reason
      | Wait (Clear_phase due reason) \<Rightarrow>
          and_then (run_change (pa_launch pr) dec c (clear_phase_changes due reason) ''advance'' None)
            (\<lambda>_. give ())
      | Launch st parent ch action \<Rightarrow>
          and_then (run_next (pa_launch pr) dec c st parent None ch action None) (\<lambda>_. give ())
      | Start_run refreshFirst parent \<Rightarrow> start_run pr dec c refreshFirst parent
      | Effect effect \<Rightarrow> runEffect pr dec c effect
      | Outcome run tree outcome \<Rightarrow>
          (case tree of
             None \<Rightarrow> throw not_found
           | Some w \<Rightarrow> applyStepOutcome pr dec c run w outcome))"

section \<open>The pass\<close>

text \<open>The facts are asked for lazily, guard by guard, and one may throw.\<close>

fun decide_lazily ::
    "(cycle_guard \<Rightarrow> service_error option) \<Rightarrow> (cycle_guard \<Rightarrow> decision_body option) \<Rightarrow> cycle_guard list
     \<Rightarrow> cycle_guard option
     \<Rightarrow> (service_error \<times> cycle_guard option) + (cycle_guard \<times> decision_body)" where
  "decide_lazily throws d [] met = Inl (Other_error ''No cycle guard decided.'', met)"
| "decide_lazily throws d (g # gs) met =
     (case throws g of
        Some e \<Rightarrow> Inl (e, Some g)
      | None \<Rightarrow> (case d g of Some b \<Rightarrow> Inr (g, b) | None \<Rightarrow> decide_lazily throws d gs (Some g)))"

definition pass_decision ::
    "pass_reads \<Rightarrow> work_cycle \<Rightarrow> (service_error \<times> cycle_guard option) + (cycle_guard \<times> decision_body)" where
  "pass_decision pr c =
     decide_lazily (pa_throws pr) (guard c (pa_facts pr) (pa_kernel pr) (lr_now (pa_launch pr))) cycle_guards None"

fun guard_text :: "cycle_guard \<Rightarrow> string" where
  "guard_text G_roadmap_settling = ''roadmap-settling''"
| "guard_text G_investigation_live = ''investigation-live''"
| "guard_text G_worktree_change_open = ''worktree-change-open''"
| "guard_text G_kernel_busy = ''kernel-busy''"
| "guard_text G_integrated = ''integrated''"
| "guard_text G_shared_decision_reassessment = ''shared-decision-reassessment''"
| "guard_text G_reassessable_stop = ''reassessable-stop''"
| "guard_text G_not_active = ''not-active''"
| "guard_text G_worktree_inactive = ''worktree-inactive''"
| "guard_text G_authority_lost = ''authority-lost''"
| "guard_text G_operator_merge_only = ''operator-merge-only''"
| "guard_text G_item_ready = ''item-ready''"
| "guard_text G_merge_reserved = ''merge-reserved''"
| "guard_text G_merge_boundary = ''merge-boundary''"
| "guard_text G_controller_review_held = ''controller-review-held''"
| "guard_text G_scope_phase_gates = ''scope-phase-gates''"
| "guard_text G_design_dependencies = ''design-dependencies''"
| "guard_text G_phase_wait_cleared = ''phase-wait-cleared''"
| "guard_text G_step_deadline = ''step-deadline''"
| "guard_text G_provider_retry_due = ''provider-retry-due''"
| "guard_text G_provider_retry_held = ''provider-retry-held''"
| "guard_text G_integration_resolution = ''integration-resolution''"
| "guard_text G_no_run = ''no-run''"
| "guard_text G_step_outcome = ''step-outcome''"

definition invariant_of :: "service_error \<Rightarrow> string option" where
  "invariant_of e =
     (case e of
        Other_error m \<Rightarrow> if starts_with ''Invariant failed: '' m then Some (drop 18 m) else None
      | _ \<Rightarrow> None)"

definition decision_record :: "cycle_guard \<Rightarrow> decision_body \<Rightarrow> decision_scope" where
  "decision_record g d =
     \<lparr>ds_kind = fst (decisionSummary d), ds_guard = Some (guard_text g), ds_code = snd (decisionSummary d),
      ds_invariant = None\<rparr>"

definition refusal_record :: "cycle_guard option \<Rightarrow> refusal_decision \<Rightarrow> decision_scope" where
  "refusal_record g r =
     \<lparr>ds_kind = ''refusal'', ds_guard = map_option guard_text g,
      ds_code = Some (case r of Phase_wait bs m \<Rightarrow> ''record-phase'' | Refusal_stop s \<Rightarrow> code_text (es_code s)),
      ds_invariant = None\<rparr>"

definition refused :: "pass_reads \<Rightarrow> work_cycle \<Rightarrow> cycle_guard option \<Rightarrow> service_error \<Rightarrow> (cycle_db, unit) job" where
  "refused pr c g e =
     (case decideRefusal e of
        None \<Rightarrow> throw e
      | Some r \<Rightarrow> stopAfterFailure pr (Some (refusal_record g r)) c r)"

text \<open>Contention is retried a second later, which is the kernel's and writes nothing.\<close>

definition failed_pass ::
    "pass_reads \<Rightarrow> work_cycle \<Rightarrow> cycle_guard option \<Rightarrow> service_error \<Rightarrow> (cycle_db, unit) job" where
  "failed_pass pr c g e =
     (case decideFailure e of
        Retry \<Rightarrow> give ()
      | Failure_stop s \<Rightarrow>
          stopAfterFailure pr (Some \<lparr>ds_kind = ''failure'', ds_guard = map_option guard_text g,
            ds_code = Some (code_text (es_code s)), ds_invariant = invariant_of e\<rparr>) c (Refusal_stop s))"

definition carryOut :: "pass_reads \<Rightarrow> work_cycle \<Rightarrow> cycle_guard \<Rightarrow> decision_body \<Rightarrow> (cycle_db, unit) job" where
  "carryOut pr c g d = apply_decision pr (Some (decision_record g d)) c d"

definition reconcile :: "pass_reads \<Rightarrow> work_cycle \<Rightarrow> (cycle_db, unit) job" where
  "reconcile pr c =
     (case pass_decision pr c of
        Inl (e, g) \<Rightarrow> refused pr c g e
      | Inr (g, d) \<Rightarrow> catch_with (carryOut pr c g d) (refused pr c (Some g)))"

definition met_guard :: "pass_reads \<Rightarrow> work_cycle \<Rightarrow> cycle_guard option" where
  "met_guard pr c = (case pass_decision pr c of Inl (e, g) \<Rightarrow> g | Inr (g, d) \<Rightarrow> Some g)"

definition passCycle :: "pass_reads \<Rightarrow> work_cycle \<Rightarrow> (cycle_db, unit) job" where
  "passCycle pr c = catch_with (reconcile pr c) (failed_pass pr c (met_guard pr c))"

text \<open>
  In the free-running loop a slow decision is the lane's one job, whose last failure is only
  logged; the rest of the round is then among the writers that run at its awaits.
\<close>

definition lane_job :: "pass_reads \<Rightarrow> work_cycle \<Rightarrow> cycle_guard \<Rightarrow> decision_body \<Rightarrow> (cycle_db, unit) job" where
  "lane_job pr c g d =
     catch_with (catch_with (catch_with (carryOut pr c g d) (refused pr c (Some g)))
         (failed_pass pr c (Some g))) (\<lambda>e. give ())"


section \<open>What decisions launch with\<close>

text \<open>The changes a decision launches a step with name neither a status nor a stop.\<close>

definition plain_next :: "outcome \<Rightarrow> bool" where
  "plain_next d = (\<forall>st ch a. d = Next_step st ch a \<longrightarrow> field_changes ch)"

lemma plain_next_simps [simp]:
  "plain_next Wait_for_run" "plain_next End_turn" "plain_next Resume_after_restart"
  "plain_next (Attention code m r)" "plain_next (Repair_output code is n)"
  "plain_next (Schedule_service_retry a dl reason)" "plain_next Advance_resolution"
  "plain_next (Next_step st ch act) = field_changes ch"
  "plain_next (Continue_design reason)" "plain_next (Design_wait t rs reason)"
  "plain_next Finalize_implementation" "plain_next (Advance_finalization_stage b)"
  "plain_next (Remediate_review b)" "plain_next (Approve_review b reason)"
  by (simp_all add: plain_next_def)

lemma field_changes_no_changes [simp]: "field_changes no_changes"
  by (simp add: field_changes_def)

lemma formatFault_plain [simp]: "plain_next (formatFault c f code m is fault)"
  by (simp add: formatFault_def Let_def)

lemma background_outcome_plain [simp]: "plain_next (background_outcome c f fin)"
  by (simp add: background_outcome_def continuation_changes_def field_changes_def)

lemma serviceRecovery_plain:
  assumes "case stop of None \<Rightarrow> True | Some d \<Rightarrow> plain_next (dec_outcome d)"
  shows "plain_next (dec_outcome (serviceRecovery c f failure e stop))"
  using assms
  by (auto simp: serviceRecovery_def recovery_stop_def Let_def split: option.splits outcome.splits)

lemma design_outcome_plain [simp]: "plain_next (design_outcome c f t)"
  by (auto simp: design_outcome_def investigation_outcome_def unresolved_outcome_def
      design_questions_outcome_def Let_def split: design_parse.splits option.splits)

lemma review_outcome_plain [simp]: "plain_next (review_outcome c f x t)"
  by (auto simp: review_outcome_def stage_review_outcome_def scope_review_outcome_def Let_def
      split: option.splits assessment.splits completion_action.splits)

lemma finished_outcome_plain: "plain_next (dec_outcome (finished_outcome c f t))"
proof -
  have "plain_next (dec_outcome d)" if "classify_workflow c f t = Inl d" for d
    using that by (auto simp: classify_workflow_def workflow_attention_def Let_def
        split: if_splits workflow_parse.splits)
  then show ?thesis
    by (auto simp: finished_outcome_def result_outcome_def Let_def split: sum.splits cycle_step.splits)
qed

lemma own_outcome_plain: "plain_next (dec_outcome (decideOwnOutcome c f))"
  unfolding decideOwnOutcome_def Let_def
  using serviceRecovery_plain [where stop = None and c = c and f = f] finished_outcome_plain [of c f]
  by (simp split: option.splits)

lemma step_outcome_plain: "plain_next (dec_outcome (decideStepOutcome c f))"
proof -
  have rec: "plain_next x"
    if "dec_outcome (serviceRecovery c f failure e (Some (decideOwnOutcome c f))) = x" for failure e x
    using serviceRecovery_plain [where stop = "Some (decideOwnOutcome c f)" and c = c and f = f]
      own_outcome_plain [of c f] that by auto
  show ?thesis
    using own_outcome_plain [of c f]
    by (auto simp: decideStepOutcome_def Let_def dest: rec split: outcome.splits option.splits)
qed

definition plain_decision :: "decision_body \<Rightarrow> bool" where
  "plain_decision b =
     (case b of
        Launch st p ch a \<Rightarrow> field_changes ch
      | Outcome r w d \<Rightarrow> plain_next (dec_outcome d)
      | _ \<Rightarrow> True)"

lemma plain_decision_simps [simp]:
  "plain_decision (Idle r due)" "plain_decision (Complete_cycle e m)" "plain_decision (Wait w)"
  "plain_decision (Stop_at code m refs x)" "plain_decision (Start_run x p)" "plain_decision (Effect eff)"
  "plain_decision (Launch st p ch a) = field_changes ch"
  "plain_decision (Outcome run t d) = plain_next (dec_outcome d)"
  by (simp_all add: plain_decision_def)

lemma readinessDecision_plain: "readinessDecision r = Some b \<Longrightarrow> plain_decision b"
  by (cases r) auto

lemma guard_plain: "guard c f k now g = Some b \<Longrightarrow> plain_decision b"
  by (cases g; auto simp: shared_reassessment_def reassessable_stop_def design_dependencies_def
      phase_wait_cleared_def provider_retry_due_def scope_phase_gates_def retry_changes_def
      field_changes_def step_outcome_plain readinessDecision_plain Let_def
      split: if_splits option.splits)

lemma decide_lazily_from:
  "decide_lazily throws d gs met = Inr (g, b) \<Longrightarrow> d g = Some b"
  by (induction gs arbitrary: met) (auto split: option.splits)

lemma pass_decision_plain: "pass_decision pr c = Inr (g, d) \<Longrightarrow> plain_decision d"
  unfolding pass_decision_def by (blast dest: decide_lazily_from guard_plain)

section \<open>The pass as a path of the cycle store\<close>

definition orderly_pass :: "pass_reads \<Rightarrow> bool" where
  "orderly_pass pr =
     (orderly_effects (pa_effects pr) \<and> orderly (sr_launch (pa_restart pr))
      \<and> orderly (vr_launch (pa_investigation pr)))"

lemma orderly_passD:
  assumes "orderly_pass pr"
  shows "orderly (pa_launch pr)" "orderly (wr_launch (pa_workflow pr))"
    "orderly_effects (pa_effects pr)" "orderly_effects (wr_effects (pa_workflow pr))"
    "orderly (rr_launch (er_remediation (pa_effects pr)))"
    "orderly (ig_launch (er_integration (pa_effects pr)))" "orderly (sr_launch (pa_restart pr))"
    "orderly (vr_launch (pa_investigation pr))"
  using assms orderly_effectsD [of "pa_effects pr"] wr_orderly [of "pa_workflow pr"]
  by (simp_all add: orderly_pass_def pa_effects_def pa_launch_def)

lemma follows_workflow_written: "c \<in> H \<Longrightarrow> follows H (workflow_written lr dec c w) (\<lambda>x. {x})"
  unfolding workflow_written_def by (intro job_intros follows_change restore_wf_plain) simp_all

lemma follows_review_finalized:
  assumes "orderly_pass pr" "c \<in> H"
  shows "follows H (review_finalized pr dec c run) (\<lambda>_. {})"
  unfolding review_finalized_def Let_def
  by (intro asked_intros follows_then_row [OF follows_stop] follows_then_row [OF follows_next])
     (use assms orderly_passD in simp_all)

lemma follows_finalize_and_review:
  assumes "orderly_pass pr" "c \<in> H"
  shows "follows H (finalize_and_review pr dec c run) (\<lambda>_. {})"
  unfolding finalize_and_review_def
  by (intro asked_intros follows_then_maybe [OF follows_finalizeImplementation]
      follows_then_plain [OF follows_refreshIntegration] follows_review_finalized)
     (use assms orderly_passD in simp_all)

lemma follows_continue_design:
  assumes "c \<in> H"
  shows "follows H (continue_design pr dec c run reason) (\<lambda>_. {})"
  unfolding continue_design_def
  by (intro cy.refines_catch follows_then_row [OF follows_continueDesign] follows_then_row [OF follows_stop])
     (use assms in simp_all)

lemma follows_remediate_review:
  assumes "orderly_pass pr" "c \<in> H"
  shows "follows H (remediate_review pr dec c run b) (\<lambda>_. {})"
  unfolding remediate_review_def
  by (intro follows_then_row [OF follows_workflow_written] follows_then_row [OF follows_reviewRemediation])
     (use assms orderly_passD in simp_all)

lemma follows_outcome_job:
  assumes "orderly_pass pr" "c \<in> H" "plain_next d"
  shows "follows H (outcome_job pr dec c run tree d) (\<lambda>_. {})"
proof (cases d)
  case (Next_step st ch a)
  with assms show ?thesis
    by (auto simp: outcome_job_def orderly_passD intro!: follows_then_row [OF follows_next])
qed (use assms orderly_passD [OF assms(1)] in \<open>auto simp: outcome_job_def
      intro!: follows_then_row [OF follows_attention] follows_then_row [OF follows_change] restore_wf_plain
        follows_repairOutput follows_advanceResolution follows_continue_design
        follows_finalize_and_review follows_advanceFinalizationStage follows_remediate_review
        follows_approveReview\<close>)

lemma follows_applyStepOutcome:
  assumes "orderly_pass pr" "c \<in> H" "plain_next (dec_outcome d)"
  shows "follows H (applyStepOutcome pr dec c run tree d) (\<lambda>_. {})"
proof -
  have rest: "follows H (and_then (workflow_written (pa_launch pr) dec c (dec_workflow d))
      (\<lambda>c1. outcome_job pr dec c1 run tree (dec_outcome d))) (\<lambda>_. {})"
    by (rule follows_then_row [OF follows_workflow_written [OF assms(2)]],
        rule follows_outcome_job) (use assms in simp_all)
  show ?thesis
    using rest assms orderly_passD [OF assms(1)]
    unfolding applyStepOutcome_def
    by (cases "dec_outcome d") (auto intro: follows_resumeAfterRestart)
qed

lemma waitForPhase_plain: "waitForPhase_changes c now bs reason = Some ch \<Longrightarrow> ch_restore ch = None"
  by (auto simp: waitForPhase_changes_def split: option.splits if_splits)

lemma follows_run_wait: "c \<in> H \<Longrightarrow> follows H (run_wait lr dec c bs reason) (\<lambda>_. {})"
  unfolding run_wait_def
  by (intro job_intros follows_then_row [OF follows_change] restore_wf_plain) (simp_all add: waitForPhase_plain)

lemma follows_stopAfterFailure: "follows H (stopAfterFailure pr dec c r) (\<lambda>_. {})"
  unfolding stopAfterFailure_def
  by (cases r; intro job_intros)
     (auto intro!: follows_run_wait follows_then_row [OF follows_stop])

lemma follows_start_run:
  assumes "orderly_pass pr" "c \<in> H"
  shows "follows H (start_run pr dec c b parent) (\<lambda>_. {})"
  unfolding start_run_def
  by (intro job_intros follows_then_plain [where m = "if b then _ else _"] follows_refreshIntegration
      cy.refines_catch follows_stopAfterFailure)
     (use assms orderly_passD in simp_all)

lemma follows_runEffect:
  assumes "orderly_pass pr" "c \<in> H"
  shows "follows H (runEffect pr dec c effect) (\<lambda>_. {})"
proof (cases effect)
  case (Merge_boundary review)
  then show ?thesis
    using assms orderly_passD [OF assms(1)]
    by (cases review)
       (auto simp: runEffect_def intro!: job_intros follows_then_plain [OF follows_advanceWorkflow]
         follows_then_plain [OF follows_refreshIntegration] follows_then_plain [where m = "give False"])
qed (use assms orderly_passD [OF assms(1)] in \<open>auto simp: runEffect_def
      intro!: follows_settleInvestigation follows_checkWorktreeRestored follows_then_plain [OF follows_reassess]
        follows_advanceResolution\<close>)

lemma follows_apply_decision:
  assumes "orderly_pass pr" "c \<in> H" "plain_decision d"
  shows "follows H (apply_decision pr dec c d) (\<lambda>_. {})"
proof (cases d)
  case (Wait w)
  then show ?thesis using assms
    by (cases w) (auto simp: apply_decision_def clear_phase_changes_def
        intro!: follows_run_wait follows_then_row [OF follows_change] restore_wf_plain)
next
  case (Outcome run tree x)
  then show ?thesis using assms
    by (cases tree) (auto simp: apply_decision_def intro!: follows_applyStepOutcome)
qed (use assms orderly_passD [OF assms(1)] in \<open>auto simp: apply_decision_def
      intro!: follows_then_row [OF follows_attention] follows_then_row [OF follows_change] restore_wf_plain
        follows_then_row [OF follows_next] follows_start_run follows_runEffect\<close>)

lemma follows_refused: "follows H (refused pr c g e) (\<lambda>_. {})"
  unfolding refused_def by (intro job_intros follows_stopAfterFailure)

lemma follows_failed_pass: "follows H (failed_pass pr c g e) (\<lambda>_. {})"
  unfolding failed_pass_def by (cases "decideFailure e") (simp_all add: follows_stopAfterFailure)

lemma follows_reconcile:
  assumes "orderly_pass pr" "c \<in> H"
  shows "follows H (reconcile pr c) (\<lambda>_. {})"
proof (cases "pass_decision pr c")
  case (Inl x)
  then show ?thesis by (cases x) (simp add: reconcile_def follows_refused)
next
  case (Inr x)
  with pass_decision_plain assms show ?thesis
    by (cases x) (auto simp: reconcile_def carryOut_def
        intro!: cy.refines_catch follows_apply_decision follows_refused)
qed

lemma follows_passCycle:
  assumes "orderly_pass pr" "c \<in> H"
  shows "follows H (passCycle pr c) (\<lambda>_. {})"
  unfolding passCycle_def
  by (intro cy.refines_catch follows_reconcile follows_failed_pass assms)

lemma follows_lane_job:
  assumes "orderly_pass pr" "c \<in> H" "plain_decision d"
  shows "follows H (lane_job pr c g d) (\<lambda>_. {})"
  unfolding lane_job_def carryOut_def
  by (intro cy.refines_catch follows_apply_decision follows_refused follows_failed_pass assms) simp

end
