(* ===== verification/Cycle_Priority.thy ===== *)
theory Cycle_Priority
  imports Owner "HOL-Library.Multiset"
begin

text \<open>
  The order a round takes the cycles in (\<open>apps/server/src/services/cycle-priority.ts\<close>): a
  running roadmap's own cycles exchange places among themselves, in the roadmap's order;
  every other cycle keeps its place.
\<close>

section \<open>Owners and queues\<close>

text \<open>A cycle's roadmap and place, while its running parallel roadmap drives it.\<close>

definition roadmap_place :: "owner_policy option \<Rightarrow> (string \<times> int) option" where
  "roadmap_place owner =
     (case owner of
        None \<Rightarrow> None
      | Some p \<Rightarrow>
          if op_status p \<noteq> Rm_running \<or> \<not> op_parallel p \<or> op_attemptStatus p = Ra_completed then None
          else if 0 \<le> op_entryIndex p then Some (op_roadmapId p, op_entryIndex p) else None)"

type_synonym owners = "string \<rightharpoonup> string \<times> int"

definition owners_of :: "(work_cycle \<Rightarrow> owner_policy option) \<Rightarrow> work_cycle list \<Rightarrow> owners" where
  "owners_of own cs =
     fold (\<lambda>c m. case roadmap_place (own c) of None \<Rightarrow> m | Some p \<Rightarrow> m(cy_id c \<mapsto> p)) cs Map.empty"

definition roadmap_of :: "owners \<Rightarrow> work_cycle \<Rightarrow> string option" where
  "roadmap_of owners c = map_option fst (owners (cy_id c))"

text \<open>Only owned cycles are queued, so a queued cycle's priority is never missing.\<close>

definition priority_of :: "owners \<Rightarrow> work_cycle \<Rightarrow> int" where
  "priority_of owners c = (case owners (cy_id c) of Some (r, p) \<Rightarrow> p | None \<Rightarrow> 0)"

type_synonym queues = "string \<rightharpoonup> work_cycle list"

definition roadmap_queues :: "owners \<Rightarrow> work_cycle list \<Rightarrow> queues" where
  "roadmap_queues owners cs =
     fold (\<lambda>c q. case roadmap_of owners c of
             None \<Rightarrow> q
           | Some r \<Rightarrow> q(r \<mapsto> over (q r) [] @ [c])) cs Map.empty"

definition sorted_queues :: "owners \<Rightarrow> queues \<Rightarrow> queues" where
  "sorted_queues owners q = (\<lambda>r. map_option (sort_key (priority_of owners)) (q r))"

definition invariant_error :: "string \<Rightarrow> service_error" where
  "invariant_error what = Other_error (''Invariant failed: '' @ what)"

fun take_turns :: "owners \<Rightarrow> queues \<Rightarrow> work_cycle list \<Rightarrow> service_error + work_cycle list" where
  "take_turns owners q [] = Inr []"
| "take_turns owners q (c # cs) =
     (case roadmap_of owners c of
        None \<Rightarrow> (case take_turns owners q cs of Inl e \<Rightarrow> Inl e | Inr out \<Rightarrow> Inr (c # out))
      | Some r \<Rightarrow>
          (case q r of
             None \<Rightarrow> Inl (invariant_error ''the roadmap's queue'')
           | Some [] \<Rightarrow> Inl (invariant_error ''the next owned cycle'')
           | Some (x # xs) \<Rightarrow>
               (case take_turns owners (q(r \<mapsto> xs)) cs of Inl e \<Rightarrow> Inl e | Inr out \<Rightarrow> Inr (x # out))))"

definition prioritizeRoadmapCycles ::
    "(work_cycle \<Rightarrow> owner_policy option) \<Rightarrow> work_cycle list \<Rightarrow> service_error + work_cycle list" where
  "prioritizeRoadmapCycles own cs =
     (let owners = owners_of own cs
      in take_turns owners (sorted_queues owners (roadmap_queues owners cs)) cs)"

lemma roadmap_queue_fold:
  "fold (\<lambda>c q. case roadmap_of owners c of None \<Rightarrow> q | Some r \<Rightarrow> q(r \<mapsto> over (q r) [] @ [c])) cs q r =
     (if \<exists>c\<in>set cs. roadmap_of owners c = Some r
      then Some (over (q r) [] @ filter (\<lambda>c. roadmap_of owners c = Some r) cs) else q r)"
proof (induction cs arbitrary: q)
  case (Cons c cs)
  then show ?case by (cases "roadmap_of owners c") auto
qed simp

lemma sorted_queue:
  "over (sorted_queues owners (roadmap_queues owners cs) r) [] =
     sort_key (priority_of owners) (filter (\<lambda>c. roadmap_of owners c = Some r) cs)"
  by (simp add: sorted_queues_def roadmap_queues_def roadmap_queue_fold)

text \<open>
  When every queue holds as many of its roadmap's cycles as the list has places for them, each
  place is filled from its own roadmap, in the queue's order.
\<close>

lemma take_turns_places:
  assumes "\<And>r. length (over (q r) []) = length (filter (\<lambda>c. roadmap_of owners c = Some r) cs)"
    "\<And>r. \<forall>x\<in>set (over (q r) []). roadmap_of owners x = Some r"
  shows "\<exists>out. take_turns owners q cs = Inr out
     \<and> map (roadmap_of owners) out = map (roadmap_of owners) cs
     \<and> filter (\<lambda>c. roadmap_of owners c = None) out = filter (\<lambda>c. roadmap_of owners c = None) cs
     \<and> (\<forall>r. filter (\<lambda>c. roadmap_of owners c = Some r) out = over (q r) [])"
  using assms
proof (induction cs arbitrary: q)
  case (Cons c cs)
  show ?case
  proof (cases "roadmap_of owners c")
    case None
    with Cons.prems have "length (over (q r) []) = length (filter (\<lambda>c. roadmap_of owners c = Some r) cs)" for r
      by simp
    from Cons.IH [OF this Cons.prems(2)] None show ?thesis by auto
  next
    case (Some r)
    with Cons.prems(1) [of r] obtain x xs where q: "q r = Some (x # xs)"
      by (cases "q r"; cases "over (q r) []") auto
    have x: "roadmap_of owners x = Some r" and xs: "\<forall>y\<in>set xs. roadmap_of owners y = Some r"
      using Cons.prems(2) [of r] q by auto
    have l: "length (over ((q(r \<mapsto> xs)) r') []) = length (filter (\<lambda>c. roadmap_of owners c = Some r') cs)" for r'
      using Cons.prems(1) [of r'] Some q by (cases "r' = r") auto
    have m: "\<forall>y\<in>set (over ((q(r \<mapsto> xs)) r') []). roadmap_of owners y = Some r'" for r'
      using Cons.prems(2) [of r'] xs by simp
    from Cons.IH [OF l m] obtain out where out: "take_turns owners (q(r \<mapsto> xs)) cs = Inr out"
        "map (roadmap_of owners) out = map (roadmap_of owners) cs"
        "filter (\<lambda>c. roadmap_of owners c = None) out = filter (\<lambda>c. roadmap_of owners c = None) cs"
        "\<And>r'. filter (\<lambda>c. roadmap_of owners c = Some r') out = over ((q(r \<mapsto> xs)) r') []" by blast
    have "filter (\<lambda>c. roadmap_of owners c = Some r') (x # out) = over (q r') []" for r'
      using out(4) [of r'] q x by (cases "r' = r") auto
    with out(1,2,3) Some q x show ?thesis by (intro exI [of _ "x # out"]) simp
  qed
qed simp

text \<open>Lists with the same members of each kind are permutations of each other.\<close>

lemma same_filters_mset:
  assumes "\<And>k. mset (filter (\<lambda>x. f x = k) xs) = mset (filter (\<lambda>x. f x = k) ys)"
  shows "mset xs = mset ys"
proof (rule multiset_eqI)
  fix x
  have "count (filter_mset (\<lambda>y. f y = f x) (mset xs)) x = count (filter_mset (\<lambda>y. f y = f x) (mset ys)) x"
    using assms [of "f x"] by (simp flip: mset_filter)
  then show "count (mset xs) x = count (mset ys) x" by simp
qed

lemma prioritized:
  obtains out where "prioritizeRoadmapCycles own cs = Inr out"
    "map (roadmap_of (owners_of own cs)) out = map (roadmap_of (owners_of own cs)) cs"
    "filter (\<lambda>c. roadmap_of (owners_of own cs) c = None) out =
       filter (\<lambda>c. roadmap_of (owners_of own cs) c = None) cs"
    "\<And>r. filter (\<lambda>c. roadmap_of (owners_of own cs) c = Some r) out =
       sort_key (priority_of (owners_of own cs)) (filter (\<lambda>c. roadmap_of (owners_of own cs) c = Some r) cs)"
    "mset out = mset cs"
proof -
  let ?o = "owners_of own cs"
  let ?q = "sorted_queues ?o (roadmap_queues ?o cs)"
  have l: "length (over (?q r) []) = length (filter (\<lambda>c. roadmap_of ?o c = Some r) cs)" for r
    by (simp add: sorted_queue)
  have m: "\<forall>x\<in>set (over (?q r) []). roadmap_of ?o x = Some r" for r
    by (simp add: sorted_queue)
  from take_turns_places [OF l m]
  obtain out where "take_turns ?o ?q cs = Inr out"
      "map (roadmap_of ?o) out = map (roadmap_of ?o) cs"
      "filter (\<lambda>c. roadmap_of ?o c = None) out = filter (\<lambda>c. roadmap_of ?o c = None) cs"
      "\<And>r. filter (\<lambda>c. roadmap_of ?o c = Some r) out = over (?q r) []"
    by blast
  then have out: "prioritizeRoadmapCycles own cs = Inr out"
      "map (roadmap_of ?o) out = map (roadmap_of ?o) cs"
      "filter (\<lambda>c. roadmap_of ?o c = None) out = filter (\<lambda>c. roadmap_of ?o c = None) cs"
      "\<And>r. filter (\<lambda>c. roadmap_of ?o c = Some r) out =
         sort_key (priority_of ?o) (filter (\<lambda>c. roadmap_of ?o c = Some r) cs)"
    by (simp_all add: sorted_queue prioritizeRoadmapCycles_def Let_def)
  have "mset (filter (\<lambda>c. roadmap_of ?o c = k) out) = mset (filter (\<lambda>c. roadmap_of ?o c = k) cs)" for k
    using out(3,4) by (cases k) simp_all
  then have "mset out = mset cs" by (rule same_filters_mset)
  with out show thesis by (rule that)
qed

section \<open>Properties\<close>

text \<open>
  C39. A round's order loses and repeats no cycle and never meets a broken invariant: every place
  that belonged to a cycle without a driving roadmap keeps that cycle, every place of a
  roadmap's cycle goes to a cycle of the same roadmap, and a roadmap's cycles come in the
  order of its entries, those of one entry as they stood.
\<close>

theorem roadmap_order:
  "\<exists>out. prioritizeRoadmapCycles own cs = Inr out \<and> mset out = mset cs
     \<and> map (roadmap_of (owners_of own cs)) out = map (roadmap_of (owners_of own cs)) cs
     \<and> filter (\<lambda>c. roadmap_of (owners_of own cs) c = None) out =
         filter (\<lambda>c. roadmap_of (owners_of own cs) c = None) cs
     \<and> (\<forall>r. filter (\<lambda>c. roadmap_of (owners_of own cs) c = Some r) out =
         sort_key (priority_of (owners_of own cs)) (filter (\<lambda>c. roadmap_of (owners_of own cs) c = Some r) cs))"
  by (rule prioritized [of own cs]) blast

end
