(* ===== verification/Rounds.thy ===== *)
theory Rounds
  imports Pass Cycle_Priority
begin

text \<open>
  A round of the controller (\<open>apps/server/src/services/work-cycle-service.ts\<close>,
  \<open>declareAttention\<close>, \<open>pass\<close> and the slow lane of \<open>reconcile\<close>): the declared attention is
  brought up to date, the active cycles are put in their roadmaps' order, and each that no
  command holds has its turn. A slow decision of the free-running loop becomes the lane's one
  job; its writes are then among those of the writers that run at the round's awaits. The
  round is a path of the cycle store, and no cycle's error keeps it from the others.
\<close>

section \<open>The slow lane\<close>

record lane_state =
  ln_job :: "string option" \<comment> \<open>the cycle of the lane's one job\<close>
  ln_marked :: bool \<comment> \<open>its \<open>markedMeanwhile\<close>\<close>
  ln_waiting :: "string list" \<comment> \<open>\<open>laneWaiting\<close>, in insertion order\<close>

definition leave_lane :: "string \<Rightarrow> lane_state \<Rightarrow> lane_state" where
  "leave_lane i ln = ln\<lparr>ln_waiting := filter (\<lambda>j. j \<noteq> i) (ln_waiting ln)\<rparr>"

definition wait_for_lane :: "string \<Rightarrow> lane_state \<Rightarrow> lane_state" where
  "wait_for_lane i ln =
     (if i \<in> set (ln_waiting ln) then ln else ln\<lparr>ln_waiting := ln_waiting ln @ [i]\<rparr>)"

text \<open>The end of the job marks every waiting cycle, and its own only when something marked it.\<close>

definition job_ended :: "lane_state \<Rightarrow> string list \<times> lane_state" where
  "job_ended ln =
     ((case ln_job ln of Some i \<Rightarrow> if ln_marked ln then [i] else [] | None \<Rightarrow> []) @ ln_waiting ln,
      ln\<lparr>ln_job := None, ln_marked := False\<rparr>)"

datatype turn =
    Turn_refused service_error "cycle_guard option"
  | Turn_carries cycle_guard decision_body
  | Turn_dispatches cycle_guard decision_body
  | Turn_waits cycle_guard decision_body

definition lane_turn ::
    "bool \<Rightarrow> (string \<Rightarrow> bool) \<Rightarrow> pass_reads \<Rightarrow> work_cycle \<Rightarrow> lane_state \<Rightarrow> turn \<times> lane_state" where
  "lane_turn lanes heldByCommand pr c ln =
     (let first = (if lanes then find (\<lambda>i. \<not> heldByCommand i) (ln_waiting ln) else None)
      in case pass_decision pr c of
           Inl (e, g) \<Rightarrow> (Turn_refused e g, leave_lane (cy_id c) ln)
         | Inr (g, d) \<Rightarrow>
             if lanes \<and> decisionLane d = Slow then
               if ln_job ln \<noteq> None \<or> (first \<noteq> None \<and> first \<noteq> Some (cy_id c))
               then (Turn_waits g d, wait_for_lane (cy_id c) ln)
               else (Turn_dispatches g d,
                     (leave_lane (cy_id c) ln)\<lparr>ln_job := Some (cy_id c), ln_marked := False\<rparr>)
             else (Turn_carries g d, leave_lane (cy_id c) ln))"

text \<open>
  What a turn does to the database: the whole pass, or for the lane's job what runs of it (and
  of the other writers) before the round goes on.
\<close>

definition turn_job :: "pass_reads \<Rightarrow> work_cycle \<Rightarrow> turn \<Rightarrow> (cycle_db, unit) job" where
  "turn_job pr c t =
     (case t of
        Turn_refused e g \<Rightarrow> catch_with (refused pr c g e) (failed_pass pr c g)
      | Turn_carries g d \<Rightarrow>
          catch_with (catch_with (carryOut pr c g d) (refused pr c (Some g))) (failed_pass pr c (Some g))
      | Turn_dispatches g d \<Rightarrow> awaiting (pa_launch pr) ''lane''
      | Turn_waits g d \<Rightarrow> give ())"

section \<open>A round\<close>

record round_reads =
  rd_stale :: bool \<comment> \<open>stored state changed since the attention was last declared\<close>
  rd_snapshot :: "cycle_db \<Rightarrow> policy_reads" \<comment> \<open>a read snapshot of the attention's claims\<close>
  rd_now :: time
  rd_owner :: "work_cycle \<Rightarrow> owner_policy option"
  rd_marked :: "string list option" \<comment> \<open>\<open>None\<close>: every cycle\<close>
  rd_heldByCommand :: "string \<Rightarrow> bool"
  rd_stopping :: "string \<Rightarrow> bool" \<comment> \<open>the daemon is stopping when this cycle's turn comes\<close>
  rd_lanes :: bool
  rd_jobEnds :: "string \<Rightarrow> bool" \<comment> \<open>the lane's job ended before this cycle's turn\<close>
  rd_pass :: "work_cycle \<Rightarrow> pass_reads"

definition attention_statuses :: "cycle_status set" where
  "attention_statuses = {Needs_attention, Awaiting_merge}"

text \<open>A cycle whose attention is rewritten starts a fresh snapshot.\<close>

fun declare_rows ::
    "(cycle_db \<Rightarrow> policy_reads) \<Rightarrow> time \<Rightarrow> policy_reads \<Rightarrow> work_cycle list \<Rightarrow> cycle_db \<Rightarrow> cycle_db" where
  "declare_rows snap now reads [] db = db"
| "declare_rows snap now reads (c # cs) db =
     (if cy_status c \<notin> attention_statuses then declare_rows snap now reads cs db
      else case refreshAttention reads now None db c of
             None \<Rightarrow> declare_rows snap now reads cs db
           | Some (db', c') \<Rightarrow> declare_rows snap now (snap db') cs db')"

definition declareAttention :: "round_reads \<Rightarrow> (cycle_db, unit) job" where
  "declareAttention rr db =
     (Inr (), declare_rows (rd_snapshot rr) (rd_now rr) (rd_snapshot rr db)
                (cycles_listActive (db_rows db)) db)"

text \<open>The round that takes up every cycle drops the ended ones from the lane.\<close>

definition keep_waiting :: "round_reads \<Rightarrow> work_cycle list \<Rightarrow> lane_state \<Rightarrow> lane_state" where
  "keep_waiting rr active ln =
     (if rd_marked rr = None
      then ln\<lparr>ln_waiting := filter (\<lambda>i. i \<in> set (map cy_id active)) (ln_waiting ln)\<rparr> else ln)"

definition asked_for :: "round_reads \<Rightarrow> work_cycle \<Rightarrow> bool" where
  "asked_for rr c = (case rd_marked rr of None \<Rightarrow> True | Some is \<Rightarrow> cy_id c \<in> set is)"

definition taken_up :: "round_reads \<Rightarrow> lane_state \<Rightarrow> work_cycle list \<Rightarrow> work_cycle list" where
  "taken_up rr ln active =
     filter (\<lambda>c. ln_job ln \<noteq> Some (cy_id c) \<and> \<not> rd_heldByCommand rr (cy_id c)) (filter (asked_for rr) active)"

definition mark_job :: "round_reads \<Rightarrow> lane_state \<Rightarrow> work_cycle list \<Rightarrow> lane_state" where
  "mark_job rr ln active =
     (if \<exists>c\<in>set (filter (asked_for rr) active). ln_job ln = Some (cy_id c)
      then ln\<lparr>ln_marked := True\<rparr> else ln)"

text \<open>A pass that throws ends the round: its error is beside the lane's state.\<close>

fun pass_cycles ::
    "round_reads \<Rightarrow> lane_state \<Rightarrow> work_cycle list \<Rightarrow> (cycle_db, lane_state \<times> service_error option) job" where
  "pass_cycles rr ln [] = give (ln, None)"
| "pass_cycles rr ln (c # cs) =
     (if rd_stopping rr (cy_id c) then give (ln, None)
      else
        let ln1 = (if rd_jobEnds rr (cy_id c) then snd (job_ended ln) else ln);
            (t, ln2) = lane_turn (rd_lanes rr) (rd_heldByCommand rr) (rd_pass rr c) c ln1
        in and_then (captured (turn_job (rd_pass rr c) c t)) (\<lambda>r.
             case r of Inl e \<Rightarrow> give (ln2, Some e) | Inr _ \<Rightarrow> pass_cycles rr ln2 cs))"

definition pass_round ::
    "round_reads \<Rightarrow> lane_state \<Rightarrow> (cycle_db, lane_state \<times> service_error option) job" where
  "pass_round rr ln =
     and_then (if rd_stale rr then declareAttention rr else give ()) (\<lambda>_.
     and_then (looking (\<lambda>db. cycles_listActive (db_rows db))) (\<lambda>active.
       let ln1 = mark_job rr (keep_waiting rr active ln) active
       in case prioritizeRoadmapCycles (rd_owner rr) (taken_up rr ln1 active) of
            Inl e \<Rightarrow> give (ln1, Some e)
          | Inr cs \<Rightarrow> pass_cycles rr ln1 cs))"

section \<open>A round as a path of the cycle store\<close>

definition orderly_round :: "round_reads \<Rightarrow> bool" where
  "orderly_round rr = (\<forall>c. orderly_pass (rd_pass rr c))"

text \<open>The rows of the table, all read at once.\<close>

lemma reads_rows:
  assumes "sys_inv s" "set cs \<subseteq> set (db_rows (sy_db s))"
  shows "sys_step\<^sup>*\<^sup>* s (s\<lparr>sy_held := sy_held s \<union> set cs\<rparr>)"
  using assms
proof (induction cs arbitrary: s)
  case (Cons c cs)
  have "cycles_find (db_rows (sy_db s)) (cycle_key c) = Some c"
    using Cons.prems by (auto simp: sys_inv_def intro: indexed_find)
  then have step: "sys_step s (s\<lparr>sy_held := insert c (sy_held s)\<rparr>)" by (rule sys_step.Read)
  from Cons.IH [OF sys_inv_step [OF step Cons.prems(1)]] Cons.prems(2)
  have "sys_step\<^sup>*\<^sup>* (s\<lparr>sy_held := insert c (sy_held s)\<rparr>) (s\<lparr>sy_held := insert c (sy_held s) \<union> set cs\<rparr>)"
    by simp
  with step show ?case by (simp add: converse_rtranclp_into_rtranclp)
qed simp

lemma follows_list: "follows H (looking (\<lambda>db. cycles_listActive (db_rows db))) set"
  unfolding refines_def
proof (intro allI impI)
  fix s :: system assume inv: "sys_inv s" and "H \<subseteq> sy_held s"
  let ?cs = "cycles_listActive (db_rows (sy_db s))"
  have "set ?cs \<subseteq> set (db_rows (sy_db s))" by (auto simp: cycles_listActive_def)
  from reads_rows [OF inv this]
  show "\<exists>t. sys_step\<^sup>*\<^sup>* s t \<and> sy_db t = snd (looking (\<lambda>db. cycles_listActive (db_rows db)) (sy_db s))
      \<and> sy_held s \<subseteq> sy_held t
      \<and> (\<forall>x. fst (looking (\<lambda>db. cycles_listActive (db_rows db)) (sy_db s)) = Inr x \<longrightarrow> set x \<subseteq> sy_held t)"
    by (intro exI [of _ "s\<lparr>sy_held := sy_held s \<union> set ?cs\<rparr>"]) (auto simp: looking_def)
qed

lemma declared_rows:
  assumes "set cs \<subseteq> sy_held s"
  shows "\<exists>t. sys_step\<^sup>*\<^sup>* s t \<and> sy_db t = declare_rows snap now reads cs (sy_db s) \<and> sy_held s \<subseteq> sy_held t"
  using assms
proof (induction cs arbitrary: s reads)
  case Nil
  then show ?case by (intro exI [of _ s]) simp
next
  case (Cons c cs)
  show ?case
  proof (cases "cy_status c \<notin> attention_statuses \<or> refreshAttention reads now None (sy_db s) c = None")
    case True
    then have "declare_rows snap now reads (c # cs) (sy_db s) = declare_rows snap now reads cs (sy_db s)"
      by auto
    with Cons.IH [of s reads] Cons.prems show ?thesis by simp
  next
    case False
    then obtain db' c' where r: "refreshAttention reads now None (sy_db s) c = Some (db', c')" by auto
    let ?u = "\<lparr>sy_db = db', sy_held = insert c' (sy_held s)\<rparr>"
    from Cons.prems have "c \<in> sy_held s" by simp
    from sys_step.Refresh [OF this r] have step: "sys_step s ?u" .
    from Cons.IH [of ?u "snap db'"] Cons.prems obtain t where
      "sys_step\<^sup>*\<^sup>* ?u t" "sy_db t = declare_rows snap now (snap db') cs db'" "sy_held ?u \<subseteq> sy_held t"
      by auto
    with False r step show ?thesis
      by (intro exI [of _ t]) (auto intro: converse_rtranclp_into_rtranclp)
  qed
qed

lemma follows_declareAttention: "follows H (declareAttention rr) (\<lambda>_. {})"
  unfolding refines_def
proof (intro allI impI)
  fix s :: system assume inv: "sys_inv s" and "H \<subseteq> sy_held s"
  let ?cs = "cycles_listActive (db_rows (sy_db s))"
  let ?u = "s\<lparr>sy_held := sy_held s \<union> set ?cs\<rparr>"
  have "set ?cs \<subseteq> set (db_rows (sy_db s))" by (auto simp: cycles_listActive_def)
  from reads_rows [OF inv this] have su: "sys_step\<^sup>*\<^sup>* s ?u" .
  have "set ?cs \<subseteq> sy_held ?u" by simp
  from declared_rows [OF this, of "rd_snapshot rr" "rd_now rr" "rd_snapshot rr (sy_db s)"] obtain t where
    "sys_step\<^sup>*\<^sup>* ?u t" "sy_db t = snd (declareAttention rr (sy_db s))" "sy_held ?u \<subseteq> sy_held t"
    by (auto simp: declareAttention_def)
  with su show "\<exists>t. sys_step\<^sup>*\<^sup>* s t \<and> sy_db t = snd (declareAttention rr (sy_db s))
      \<and> sy_held s \<subseteq> sy_held t \<and> (\<forall>x. fst (declareAttention rr (sy_db s)) = Inr x \<longrightarrow> {} \<subseteq> sy_held t)"
    by (intro exI [of _ t]) auto
qed

lemma follows_turn:
  assumes "orderly_pass pr" "c \<in> H" "lane_turn lanes held pr c ln = (t, ln')"
  shows "follows H (turn_job pr c t) (\<lambda>_. {})"
proof (cases t)
  case (Turn_carries g d)
  with assms(3) have "pass_decision pr c = Inr (g, d)"
    by (auto simp: lane_turn_def Let_def split: sum.splits if_splits)
  then have "plain_decision d" by (rule pass_decision_plain)
  with assms Turn_carries show ?thesis
    by (auto simp: turn_job_def carryOut_def
        intro!: cy.refines_catch follows_apply_decision follows_refused follows_failed_pass)
qed (use assms orderly_passD in \<open>auto simp: turn_job_def
      intro!: cy.refines_catch follows_refused follows_failed_pass follows_awaiting\<close>)

lemma follows_pass_cycles:
  assumes "orderly_round rr" "set cs \<subseteq> H"
  shows "follows H (pass_cycles rr ln cs) (\<lambda>_. {})"
  using assms(2)
proof (induction cs arbitrary: ln H)
  case (Cons c cs)
  obtain t ln2 where t: "lane_turn (rd_lanes rr) (rd_heldByCommand rr) (rd_pass rr c) c
      (if rd_jobEnds rr (cy_id c) then snd (job_ended ln) else ln) = (t, ln2)" by (meson surj_pair)
  have "follows H (and_then (captured (turn_job (rd_pass rr c) c t)) (\<lambda>r.
      case r of Inl e \<Rightarrow> give (ln2, Some e) | Inr _ \<Rightarrow> pass_cycles rr ln2 cs)) (\<lambda>_. {})"
  proof (rule follows_then_plain)
    show "follows H (captured (turn_job (rd_pass rr c) c t)) (\<lambda>_. {})"
      by (rule cy.refines_weaken [OF cy.refines_captured [OF follows_turn [OF _ _ t]]])
         (use assms(1) Cons.prems in \<open>auto simp: orderly_round_def split: sum.splits\<close>)
  next
    fix r
    show "follows H (case r of Inl e \<Rightarrow> give (ln2, Some e) | Inr _ \<Rightarrow> pass_cycles rr ln2 cs) (\<lambda>_. {})"
      using Cons by (cases r) auto
  qed
  with t show ?case by (simp add: Let_def)
qed simp

lemma follows_round:
  assumes "orderly_round rr"
  shows "follows H (pass_round rr ln) (\<lambda>_. {})"
proof -
  have rest: "follows (H \<union> set active)
      (let ln1 = mark_job rr (keep_waiting rr active ln) active
       in case prioritizeRoadmapCycles (rd_owner rr) (taken_up rr ln1 active) of
            Inl e \<Rightarrow> give (ln1, Some e) | Inr cs \<Rightarrow> pass_cycles rr ln1 cs) (\<lambda>_. {})" for active
  proof -
    let ?ln1 = "mark_job rr (keep_waiting rr active ln) active"
    obtain cs where cs: "prioritizeRoadmapCycles (rd_owner rr) (taken_up rr ?ln1 active) = Inr cs"
      "mset cs = mset (taken_up rr ?ln1 active)" by (rule prioritized)
    have "set cs = set (taken_up rr ?ln1 active)" using cs(2) by (rule mset_eq_setD)
    then have "set cs \<subseteq> H \<union> set active" by (auto simp: taken_up_def)
    from follows_pass_cycles [OF assms this] cs(1) show ?thesis by (simp add: Let_def)
  qed
  show ?thesis
    unfolding pass_round_def
    by (rule follows_then_plain, simp add: follows_declareAttention,
        rule cy.refines_then [OF follows_list rest])
qed

section \<open>Errors a round absorbs\<close>

text \<open>A write that keeps a cycle's place keeps the indexes, unless it activates the cycle.\<close>

lemma indexed_map:
  assumes "indexed rows"
    "\<And>x. x \<in> set rows \<Longrightarrow> cy_id (f x) = cy_id x \<and> cy_workspaceId (f x) = cy_workspaceId x
       \<and> cy_worktreeId (f x) = cy_worktreeId x \<and> cy_workItemId (f x) = cy_workItemId x
       \<and> cy_executionScope (f x) = cy_executionScope x \<and> (cycle_active (f x) \<longrightarrow> cycle_active x)"
  shows "indexed (map f rows)"
  using assms
proof (induction rows)
  case (Cons r rs)
  have apart: "cy_id x \<noteq> cy_id r \<and> \<not> index_clash r x" if "x \<in> set rs" for x
    using Cons.prems(1) that by simp
  have same: "cy_id (f x) = cy_id x" "cy_workspaceId (f x) = cy_workspaceId x"
    "cy_worktreeId (f x) = cy_worktreeId x" "cy_workItemId (f x) = cy_workItemId x"
    "cy_executionScope (f x) = cy_executionScope x" "cycle_active (f x) \<Longrightarrow> cycle_active x"
    if "x \<in> set (r # rs)" for x using Cons.prems(2) [OF that] by blast+
  have "cy_id (f x) \<noteq> cy_id (f r) \<and> \<not> index_clash (f r) (f x)" if x: "x \<in> set rs" for x
    using apart [OF x] same [of x] same [of r] x by (auto simp: index_clash_def)
  with Cons show ?case by simp
qed simp

lemma write_fits:
  assumes "indexed rows" "cycles_find rows (cycle_key c) = Some c" "cycle_active c"
  shows "\<exists>rows'. cycles_replace rows (updated_cycle rd at k c ch) (cy_version c) = Replaced rows'"
proof -
  let ?u = "updated_cycle rd at k c ch"
  have c: "c \<in> set rows" using assms(2) cycles_find_in by blast
  have only: "x = c" if "x \<in> set rows" "cycle_key x = cycle_key c" for x
    using indexed_find [OF assms(1) that(1)] that(2) assms(2) by simp
  have "indexed (map (update_row ?u (cy_version c)) rows)"
  proof (rule indexed_map [OF assms(1)])
    fix x assume "x \<in> set rows"
    with only [of x] assms(3)
    show "cy_id (update_row ?u (cy_version c) x) = cy_id x
       \<and> cy_workspaceId (update_row ?u (cy_version c) x) = cy_workspaceId x
       \<and> cy_worktreeId (update_row ?u (cy_version c) x) = cy_worktreeId x
       \<and> cy_workItemId (update_row ?u (cy_version c) x) = cy_workItemId x
       \<and> cy_executionScope (update_row ?u (cy_version c) x) = cy_executionScope x
       \<and> (cycle_active (update_row ?u (cy_version c) x) \<longrightarrow> cycle_active x)"
      by (cases "x = c") (auto simp: update_row_def)
  qed
  with c show ?thesis by (auto simp: cycles_replace_def)
qed

lemma change_refused:
  assumes "change rd at dec db c ch action ctx extra = Inl e"
    "cycles_replace (db_rows db) (updated_cycle rd at (ctx \<noteq> None) c ch) (cy_version c) = Replaced rows'"
  shows "\<exists>t. e = Transition t"
  using assms by (auto simp: change_def Let_def split: sum.splits if_splits)

text \<open>A write the state machine accepts, from the row just read, is made.\<close>

lemma fresh_write:
  assumes "sys_inv s" "cycles_find (db_rows (sy_db s)) (cycle_key c) = Some c" "cycle_active c"
    "acceptable c ch action"
  shows "\<exists>c'. fst (run_change lr dec c ch action ctx (sy_db s)) = Inr c'"
proof -
  have rows: "indexed (db_rows (sy_db s))" "stop_wf c"
    using assms(1,2) cycles_find_in by (auto simp: sys_inv_def)
  let ?m = "change (lr_policy lr) (lr_now lr) dec (sy_db s) c ch action ctx []"
  from write_fits [OF rows(1) assms(2,3)] obtain rows' where
    r: "cycles_replace (db_rows (sy_db s)) (updated_cycle (lr_policy lr) (lr_now lr) (ctx \<noteq> None) c ch)
        (cy_version c) = Replaced rows'" by blast
  have "\<exists>w. ?m = Inr w"
  proof (rule ccontr)
    assume "\<nexists>w. ?m = Inr w"
    then obtain e where e: "?m = Inl e" by (cases ?m) auto
    with change_refused r acceptable_change [OF rows(2) assms(4)] show False by metis
  qed
  then show ?thesis by (auto simp: run_change_def split: write_result.splits)
qed

lemma controller_error_accepted:
  assumes "cy_status c = Running \<or> cy_status c = Awaiting_merge"
  shows "acceptable c (attention_changes Controller_error m refs repairs) ''advance''"
  using assms
  by (auto simp: acceptable_simps attention_changes_def make_attention_def stop_kind_of_def awaiting_merge_gates_def)

lemma failure_recorded:
  assumes "sys_inv s"
  shows "fst (failed_pass pr c g e (sy_db s)) = Inr ()"
proof (cases "decideFailure e")
  case Retry
  then show ?thesis by (simp add: failed_pass_def give_def)
next
  case (Failure_stop st)
  then obtain m where st: "st = Stop Controller_error m None"
    by (auto simp: decideFailure_def split: if_splits)
  show ?thesis
  proof (cases "cycles_find (db_rows (sy_db s)) (cycle_key c)")
    case None
    then show ?thesis
      by (simp add: failed_pass_def Failure_stop stopAfterFailure_def and_then_def find_cycle_def looking_def give_def)
  next
    case (Some cur)
    then have cur: "cycles_find (db_rows (sy_db s)) (cycle_key cur) = Some cur"
      using cycles_find_in by metis
    have written: "\<exists>c'. fst (run_attention lr dec cur Controller_error m None None (sy_db s)) = Inr c'"
      if "cy_status cur = Running \<or> cy_status cur = Awaiting_merge" for lr dec
      unfolding run_attention_def
      by (rule fresh_write [OF assms cur _ controller_error_accepted [OF that]])
         (use that in \<open>auto simp: cycle_active_def\<close>)
    let ?dec = "Some \<lparr>ds_kind = ''failure'', ds_guard = map_option guard_text g,
      ds_code = Some (code_text Controller_error), ds_invariant = invariant_of e\<rparr>"
    show ?thesis
    proof (cases "cy_version cur \<noteq> cy_version c \<or> (cy_status cur \<noteq> Running \<and> cy_status cur \<noteq> Awaiting_merge)")
      case True
      with Some show ?thesis
        by (simp add: failed_pass_def Failure_stop st stopAfterFailure_def and_then_def find_cycle_def
            looking_def give_def)
    next
      case False
      with written obtain c' where
        "fst (run_attention (pa_launch pr) ?dec cur Controller_error m None None (sy_db s)) = Inr c'" by blast
      with False Some show ?thesis
        by (cases "run_attention (pa_launch pr) ?dec cur Controller_error m None None (sy_db s)")
           (simp add: failed_pass_def Failure_stop st stopAfterFailure_def and_then_def find_cycle_def
              looking_def give_def run_stop_def)
    qed
  qed
qed

lemma absorbed:
  assumes "sys_inv s" "follows H m (\<lambda>_. {})" "H \<subseteq> sy_held s"
  shows "fst (catch_with m (failed_pass pr c g) (sy_db s)) = Inr ()"
proof (cases "m (sy_db s)")
  case (Pair r d)
  show ?thesis
  proof (cases r)
    case (Inl e)
    from cy.refines_path [OF assms(2,1,3)] obtain t where "sys_step\<^sup>*\<^sup>* s t" "sy_db t = d"
      using Pair by auto
    with failure_recorded [OF cy.steps_inv [OF _ assms(1)], of t pr c g e] Pair Inl
    show ?thesis by (simp add: catch_with_def)
  qed (use Pair in \<open>simp add: catch_with_def\<close>)
qed

lemma turn_absorbs:
  assumes "sys_inv s" "orderly_pass pr" "c \<in> sy_held s" "lane_turn lanes held pr c ln = (t, ln')"
  shows "fst (turn_job pr c t (sy_db s)) = Inr ()"
proof (cases t)
  case (Turn_refused e g)
  then show ?thesis
    using absorbed [OF assms(1) follows_refused [of "{}"]] by (simp add: turn_job_def)
next
  case (Turn_carries g d)
  with assms(4) have "pass_decision pr c = Inr (g, d)"
    by (auto simp: lane_turn_def Let_def split: sum.splits if_splits)
  then have "plain_decision d" by (rule pass_decision_plain)
  then have "follows {c} (catch_with (carryOut pr c g d) (refused pr c (Some g))) (\<lambda>_. {})"
    unfolding carryOut_def by (intro cy.refines_catch follows_apply_decision follows_refused) (use assms in auto)
  from absorbed [OF assms(1) this] assms(3) Turn_carries show ?thesis by (simp add: turn_job_def)
qed (simp_all add: turn_job_def give_def awaiting_def)

lemma pass_cycles_absorb:
  assumes "sys_inv s" "orderly_round rr" "set cs \<subseteq> sy_held s"
  shows "\<exists>ln'. fst (pass_cycles rr ln cs (sy_db s)) = Inr (ln', None)"
  using assms(1,3)
proof (induction cs arbitrary: ln s)
  case (Cons c cs)
  let ?ln1 = "if rd_jobEnds rr (cy_id c) then snd (job_ended ln) else ln"
  obtain t ln2 where t: "lane_turn (rd_lanes rr) (rd_heldByCommand rr) (rd_pass rr c) c ?ln1 = (t, ln2)"
    by (meson surj_pair)
  have o: "orderly_pass (rd_pass rr c)" using assms(2) by (simp add: orderly_round_def)
  have ok: "fst (turn_job (rd_pass rr c) c t (sy_db s)) = Inr ()"
    by (rule turn_absorbs [OF Cons.prems(1) o _ t]) (use Cons.prems in simp)
  have f: "follows {c} (turn_job (rd_pass rr c) c t) (\<lambda>_. {})" by (rule follows_turn [OF o _ t]) simp
  from cy.refines_path [OF f Cons.prems(1)] Cons.prems(2) obtain u where
    u: "sys_step\<^sup>*\<^sup>* s u" "sy_db u = snd (turn_job (rd_pass rr c) c t (sy_db s))" "sy_held s \<subseteq> sy_held u" by auto
  from Cons.IH [OF cy.steps_inv [OF u(1) Cons.prems(1)], of ln2] Cons.prems(2) u(3)
  obtain ln' where "fst (pass_cycles rr ln2 cs (sy_db u)) = Inr (ln', None)" by auto
  with t ok u(2) show ?case
    by (cases "turn_job (rd_pass rr c) c t (sy_db s)")
       (auto simp: Let_def and_then_def captured_def catch_with_def give_def)
qed (simp add: give_def)

lemma reachable_path: "sys_step\<^sup>*\<^sup>* s t \<Longrightarrow> sys_reachable s \<Longrightarrow> sys_reachable t"
  by (induction rule: rtranclp_induct) (auto intro: sys_reachable.Step)

text \<open>A job from the snapshots a reachable state holds is a path to a reachable state.\<close>

lemma follows_reaches:
  assumes "follows H m R" "sys_reachable s" "H \<subseteq> sy_held s"
  shows "\<exists>t. sys_step\<^sup>*\<^sup>* s t \<and> sys_reachable t \<and> sy_db t = snd (m (sy_db s))"
proof -
  from cy.refines_path [OF assms(1) sys_reachable_inv [OF assms(2)] assms(3)]
  obtain t where "sys_step\<^sup>*\<^sup>* s t" "sy_db t = snd (m (sy_db s))" by blast
  with reachable_path [OF _ assms(2)] show ?thesis by auto
qed

end
