(* ===== verification/Round_Properties.thy ===== *)
theory Round_Properties
  imports Rounds Remediation_Properties Integration_Properties
begin

text \<open>
  What a round guarantees, with a round whose reads are quiet for the witnesses: it is a path of
  the cycle store's steps, it absorbs every error of a cycle, and a failure is recorded only
  over the version it met.
\<close>

section \<open>A round over one cycle\<close>

definition quiet_effects :: effect_reads where
  "quiet_effects = \<lparr>er_remediation = quiet_remediation, er_integration = quiet_integration,
     er_stageChanges = Inl [], er_assertReview = (\<lambda>_ _. None)\<rparr>"

definition quiet_owner :: owner_reads where
  "quiet_owner = \<lparr>or_launch = quiet_launch, or_owner = None, or_creatorEditor = None,
     or_findRun = (\<lambda>_. None), or_runtimeChanges = (\<lambda>_. False)\<rparr>"

definition quiet_workflow :: workflow_reads where
  "quiet_workflow = \<lparr>wr_effects = quiet_effects, wr_changes = None, wr_reviewedWorktree = None,
     wr_environment = None, wr_diagnose = Inr None, wr_assertRun = (\<lambda>_. None), wr_owner = (\<lambda>_. quiet_owner),
     wr_context = (\<lambda>_. None), wr_requireReady = None, wr_securityRole = (\<lambda>_. None), wr_activeUser = None,
     wr_requireEditor = None, wr_acceptCheckpoint = None, wr_failedReassessment = None\<rparr>"

definition quiet_restart :: restart_reads where
  "quiet_restart = \<lparr>sr_launch = quiet_launch, sr_draining = False, sr_preview = (\<lambda>_. Inl not_found),
     sr_assignment = None, sr_owned = False\<rparr>"

definition quiet_investigation :: investigation_reads where
  "quiet_investigation = \<lparr>vr_launch = quiet_launch, vr_launching = False, vr_settling = False,
     vr_findRun = (\<lambda>_. None), vr_finalText = (\<lambda>_. []), vr_decode = (\<lambda>_. Inl []), vr_agentTerminating = False,
     vr_snapshot = (\<lambda>_. None), vr_lastCheck = None\<rparr>"

text \<open>Every fact the decision asks for fails.\<close>

definition failing_pass :: pass_reads where
  "failing_pass = \<lparr>pa_workflow = quiet_workflow, pa_restart = quiet_restart,
     pa_investigation = quiet_investigation, pa_facts = sample_stored, pa_kernel = idle_kernel,
     pa_throws = (\<lambda>g. Some (Other_error ''Invariant failed: a worktree'')), pa_startForCycle = None,
     pa_drainingNow = False\<rparr>"

definition quiet_round :: round_reads where
  "quiet_round = \<lparr>rd_stale = True, rd_snapshot = (\<lambda>_. quiet_reads), rd_now = 6000, rd_owner = (\<lambda>_. None),
     rd_marked = None, rd_heldByCommand = (\<lambda>_. False), rd_stopping = (\<lambda>_. False), rd_lanes = True,
     rd_jobEnds = (\<lambda>_. False), rd_pass = (\<lambda>_. failing_pass)\<rparr>"

definition empty_lane :: lane_state where
  "empty_lane = \<lparr>ln_job = None, ln_marked = False, ln_waiting = []\<rparr>"

lemma quiet_round_orderly: "orderly_round quiet_round"
  by (simp add: orderly_round_def orderly_pass_def orderly_effects_def quiet_round_def failing_pass_def
      pa_effects_def quiet_workflow_def quiet_effects_def quiet_remediation_def quiet_integration_def
      quiet_restart_def quiet_investigation_def orderly_alone quiet_launch_def)

section \<open>Properties\<close>

text \<open>
  C3. A round of the controller refines the system of readers and writers: from any reachable
  state, whatever the facts read and whatever the other writers do at its awaits, the
  database it leaves is one the system's own steps reach.
\<close>

theorem round_refines_store:
  assumes "sys_reachable s" "orderly_round rr"
  shows "\<exists>t. sys_step\<^sup>*\<^sup>* s t \<and> sys_reachable t \<and> sy_db t = snd (pass_round rr ln (sy_db s))"
  using follows_reaches [OF follows_round [OF assms(2)] assms(1), of "{}"] by simp

theorem round_refines_store_witness:
  "\<exists>t. sys_step\<^sup>*\<^sup>* sample_system t \<and> sys_reachable t
     \<and> sy_db t = snd (pass_round quiet_round empty_lane (sy_db sample_system))"
  by (rule round_refines_store [OF sample_reachable quiet_round_orderly])

text \<open>
  C5. A round absorbs every error: whatever a cycle's facts, decision or effect throw, its pass
  ends by a recorded stop or a later look, and the round goes on to the next cycle.
\<close>

theorem round_absorbs_errors:
  assumes "sys_reachable s" "orderly_round rr"
  shows "\<exists>ln'. fst (pass_round rr ln (sy_db s)) = Inr (ln', None)"
proof -
  note inv = sys_reachable_inv [OF assms(1)]
  let ?first = "if rd_stale rr then declareAttention rr else give ()"
  have "follows {} ?first (\<lambda>_. {})" by (simp add: follows_declareAttention)
  from cy.refines_path [OF this inv] obtain u where
    u: "sys_step\<^sup>*\<^sup>* s u" "sy_db u = snd (?first (sy_db s))" by blast
  let ?active = "cycles_listActive (db_rows (sy_db u))"
  let ?ln1 = "mark_job rr (keep_waiting rr ?active ln) ?active"
  obtain cs where cs: "prioritizeRoadmapCycles (rd_owner rr) (taken_up rr ?ln1 ?active) = Inr cs"
    "mset cs = mset (taken_up rr ?ln1 ?active)" by (rule prioritized)
  have invu: "sys_inv u" by (rule cy.steps_inv [OF u(1) inv])
  have rows: "set ?active \<subseteq> set (db_rows (sy_db u))" by (auto simp: cycles_listActive_def)
  let ?v = "u\<lparr>sy_held := sy_held u \<union> set ?active\<rparr>"
  have "set cs \<subseteq> sy_held ?v" using mset_eq_setD [OF cs(2)] by (auto simp: taken_up_def)
  from pass_cycles_absorb [OF cy.steps_inv [OF reads_rows [OF invu rows] invu] assms(2) this, of ?ln1]
  obtain ln' where "fst (pass_cycles rr ?ln1 cs (sy_db u)) = Inr (ln', None)" by auto
  moreover have "?first (sy_db s) = (Inr (), sy_db u)"
    using u(2) by (auto simp: declareAttention_def give_def)
  ultimately show ?thesis
    using cs(1) by (simp add: pass_round_def and_then_def looking_def Let_def)
qed

theorem round_absorbs_errors_witness:
  "\<exists>ln'. fst (pass_round quiet_round empty_lane (sy_db sample_system)) = Inr (ln', None)"
  by (rule round_absorbs_errors [OF sample_reachable quiet_round_orderly])

section \<open>A failure and the version it met\<close>

lemma failed_current:
  assumes "cycles_find (db_rows db) (cycle_key c) = Some r" "decideFailure e \<noteq> Retry"
    "cy_version r = cy_version c" "cy_status r = Running \<or> cy_status r = Awaiting_merge"
  shows "\<exists>dec m. failed_pass pr c g e db =
      and_then (run_attention (pa_launch pr) dec r Controller_error m None None) (\<lambda>_. give ()) db"
proof -
  obtain m where m: "decideFailure e = Failure_stop (Stop Controller_error m None)"
    using assms(2) by (auto simp: decideFailure_def split: if_splits)
  show ?thesis
    by (intro exI [of _ "Some \<lparr>ds_kind = ''failure'', ds_guard = map_option guard_text g,
          ds_code = Some (code_text Controller_error), ds_invariant = invariant_of e\<rparr>"] exI [of _ m])
       (use assms m in \<open>auto simp: failed_pass_def stopAfterFailure_def find_cycle_def and_then_def
          looking_def run_stop_def\<close>)
qed

lemma controller_error_stop:
  assumes "cy_status c = Running \<or> cy_status c = Awaiting_merge" "c' = updated_cycle rd at k c
      (attention_changes Controller_error m None None)"
  shows "cy_status c' = Needs_attention" "cy_version c' = Suc (cy_version c)"
    "\<exists>a. cy_stop c' = Some (Held_at Attention_stop a at) \<and> at_code a = Controller_error"
proof -
  let ?ch = "attention_changes Controller_error m None None"
  show "cy_status c' = Needs_attention" "cy_version c' = Suc (cy_version c)"
    using assms(2) by (simp_all add: attention_changes_def next_status_def)
  let ?a = "completed_attention rd c ?ch at"
  have "?a \<noteq> None \<and> at_code (the ?a) = Controller_error"
  proof -
    let ?e = "(apply_fields ?ch c)\<lparr>cy_stop := Some (stopFor c (make_attention Controller_error None None None None)
        Needs_attention at)\<rparr>"
    have "cycle_stop_of ?e = Some (make_attention Controller_error None None None None)"
      by (simp add: cycle_stop_of_def cycleStop_def stopFor_def stopRecord_def attention_changes_def next_status_def)
    then show ?thesis
      by (auto simp: completed_attention_def attention_changes_def currentCycleAttention_def Let_def make_attention_def
          split: option.splits)
  qed
  then show "\<exists>a. cy_stop c' = Some (Held_at Attention_stop a at) \<and> at_code a = Controller_error"
    using assms
    by (auto simp: attention_changes_def written_stop_def Let_def stopFor_def stopRecord_def next_status_def
        stop_kind_of_def awaiting_merge_gates_def split: option.splits cycle_stop.splits)
qed

lemma change_made_or_nothing:
  assumes "run_change lr dec c ch action ctx db = (Inr c', db')" "next_status c ch \<noteq> cy_status c"
  shows "c' = updated_cycle (lr_policy lr) (lr_now lr) (ctx \<noteq> None) c ch"
    "cycles_put (db_rows db) c' (cy_version c) = Some (db_rows db')"
proof -
  let ?m = "change (lr_policy lr) (lr_now lr) dec db c ch action ctx []"
  have "?m \<noteq> Inr (Unchanged x)" for x
  proof
    assume "?m = Inr (Unchanged x)"
    then have "(updated_cycle (lr_policy lr) (lr_now lr) False c ch)
        \<lparr>cy_version := cy_version c, cy_updatedAt := cy_updatedAt c\<rparr> = c"
      by (auto simp: change_def Let_def split: if_splits replace_result.splits option.splits sum.splits)
    from arg_cong [OF this, of cy_status] assms(2) show False by simp
  qed
  with assms(1) have "?m = Inr (Wrote db' c')"
    by (auto simp: run_change_def split: sum.splits write_result.splits)
  from change_Wrote [OF this]
  show "c' = updated_cycle (lr_policy lr) (lr_now lr) (ctx \<noteq> None) c ch"
    "cycles_put (db_rows db) c' (cy_version c) = Some (db_rows db')" by simp_all
qed

text \<open>
  C38. An unexpected failure is recorded exactly over the version it met: while the row is the
  version the pass read and still driven it becomes the controller-error stop, one version on;
  a row another writer has changed meanwhile is left as that writer left it.
\<close>

theorem failure_over_its_version:
  assumes "sys_reachable s" "cycles_find (db_rows (sy_db s)) (cycle_key c) = Some r"
    "\<not> retryableControllerError e"
  shows "if cy_version r = cy_version c \<and> (cy_status r = Running \<or> cy_status r = Awaiting_merge)
     then \<exists>r' a. cycles_find (db_rows (snd (failed_pass pr c g e (sy_db s)))) (cycle_key c) = Some r'
            \<and> cy_status r' = Needs_attention \<and> cy_version r' = Suc (cy_version r)
            \<and> cy_stop r' = Some (Held_at Attention_stop a (lr_now (pa_launch pr))) \<and> at_code a = Controller_error
     else snd (failed_pass pr c g e (sy_db s)) = sy_db s"
proof (cases "cy_version r = cy_version c \<and> (cy_status r = Running \<or> cy_status r = Awaiting_merge)")
  case True
  note inv = sys_reachable_inv [OF assms(1)]
  let ?db = "sy_db s"
  have retry: "decideFailure e \<noteq> Retry" using assms(3) by (simp add: decideFailure_def)
  from failed_current [OF assms(2) retry] True obtain dec m where
    f: "failed_pass pr c g e ?db =
      and_then (run_attention (pa_launch pr) dec r Controller_error m None None) (\<lambda>_. give ()) ?db" by blast
  have key: "cycle_key r = cycle_key c" using assms(2) cycles_find_in by blast
  let ?ch = "attention_changes Controller_error m None None"
  let ?job = "run_change (pa_launch pr) dec r ?ch ''advance'' None"
  have "\<exists>r'. fst (?job ?db) = Inr r'"
    by (rule fresh_write [OF inv _ _ controller_error_accepted])
       (use assms(2) key True in \<open>auto simp: cycle_active_def\<close>)
  then obtain r' db' where j: "?job ?db = (Inr r', db')" by (metis prod.collapse)
  have "next_status r ?ch \<noteq> cy_status r" using True by (auto simp: attention_changes_def next_status_def)
  note w = change_made_or_nothing [OF j this]
  have "cycles_find (db_rows db') (cycle_key r') = Some r'"
    by (rule cycles.put_same [OF _ w(2)]) (use inv in \<open>simp add: sys_inv_def\<close>)
  moreover have "cycle_key r' = cycle_key c" using key by (simp add: w(1))
  moreover have "snd (failed_pass pr c g e ?db) = db'"
    using f j by (simp add: and_then_def run_attention_def give_def)
  moreover obtain a where "cy_stop r' = Some (Held_at Attention_stop a (lr_now (pa_launch pr)))"
    "at_code a = Controller_error"
    using controller_error_stop(3) [OF _ w(1)] True by blast
  ultimately show ?thesis
    using True controller_error_stop(1,2) [OF _ w(1)] by auto
next
  case False
  then show ?thesis
    using assms(2)
    by (auto simp: failed_pass_def stopAfterFailure_def find_cycle_def and_then_def looking_def give_def
        split: failure_decision.splits)
qed

theorem failure_over_its_version_witness:
  "\<exists>r' a. cycles_find (db_rows (snd (failed_pass failing_pass sample_cycle None (Other_error ''boom'') (sy_db sample_system))))
        (cycle_key sample_cycle) = Some r'
     \<and> cy_status r' = Needs_attention \<and> cy_version r' = Suc (cy_version sample_cycle)
     \<and> cy_stop r' = Some (Held_at Attention_stop a (lr_now (pa_launch failing_pass))) \<and> at_code a = Controller_error"
proof -
  have row: "cycles_find (db_rows (sy_db sample_system)) (cycle_key sample_cycle) = Some sample_cycle"
    by (simp add: sample_system_def sample_rows cycles_find_def)
  have "\<not> retryableControllerError (Other_error ''boom'')" by (simp add: retryableControllerError_def)
  from failure_over_its_version [OF sample_reachable row this, of failing_pass None] show ?thesis by simp
qed

end
