(* ===== verification/Merge_Gate.thy ===== *)
theory Merge_Gate
  imports Machine Plan_Diagnostics
begin

text \<open>
  The merge gate (\<open>apps/server/src/services/merge/gate.ts\<close>): whether a worktree's latest review
  lets it merge, and the checks of a merge that read no Git. Pure over the records it is given.
\<close>

section \<open>The gate of a worktree\<close>

datatype merge_gate_reason =
    Gate_ready | Gate_no_review | Gate_changes_requested | Gate_automation_active | Gate_review_pending
  | Gate_superseded | Gate_run_live | Gate_worktree_removed | Gate_branch_review_required
  | Gate_merge_recovery_required | Gate_scope_blocked | Gate_scope_review_only | Gate_check_adoption

record merge_gate =
  mg_mergeable :: bool
  mg_reason :: merge_gate_reason
  mg_reviewRunId :: "string option"
  mg_checkedOutBranch :: "string option"

definition closed_gate :: "merge_gate_reason \<Rightarrow> agent_run option \<Rightarrow> merge_gate" where
  "closed_gate reason review =
     \<lparr>mg_mergeable = False, mg_reason = reason, mg_reviewRunId = map_option run_id review, mg_checkedOutBranch = None\<rparr>"

text \<open>A worktree's runs, the newest first.\<close>

definition runs_of :: "worktree \<Rightarrow> agent_run list \<Rightarrow> agent_run list" where
  "runs_of tree runs =
     js_sort (\<lambda>l r. run_createdAt r - run_createdAt l) (filter (\<lambda>r. run_worktreeId r = wt_id tree) runs)"

definition live_gate :: "agent_run \<Rightarrow> merge_gate" where
  "live_gate live =
     (if run_role live = Role_review \<and> run_verdict live = None
      then closed_gate Gate_review_pending (Some live) else closed_gate Gate_run_live None)"

definition reviewed_current :: "worktree \<Rightarrow> agent_run \<Rightarrow> bool" where
  "reviewed_current tree review =
     (case (wt_integrationBranch tree, run_reviewBranchContext review) of
        (Some branch, Some b) \<Rightarrow> rbc_worktreeVersion b = wt_version tree \<and> rbc_targetBranch b = branch
      | _ \<Rightarrow> False)"

definition review_gate :: "worktree \<Rightarrow> agent_run option \<Rightarrow> agent_run \<Rightarrow> merge_gate" where
  "review_gate tree latest review =
     (if map_option run_id latest \<noteq> Some (run_id review) then closed_gate Gate_superseded (Some review)
      else if run_status review \<noteq> Run_finished then closed_gate Gate_review_pending (Some review)
      else if \<not> reviewed_current tree review then closed_gate Gate_branch_review_required (Some review)
      else case run_verdict review of
        Some Mergeable \<Rightarrow> (closed_gate Gate_ready (Some review))\<lparr>mg_mergeable := True\<rparr>
      | Some Changes_requested \<Rightarrow> closed_gate Gate_changes_requested (Some review)
      | None \<Rightarrow> closed_gate Gate_review_pending (Some review))"

definition mergeGateFor :: "worktree \<Rightarrow> agent_run list \<Rightarrow> merge_gate" where
  "mergeGateFor tree runs =
     (if wt_status tree \<noteq> Tree_active then closed_gate Gate_worktree_removed None
      else let all = runs_of tree runs in
        case find (\<lambda>r. \<not> isTerminalAgentRunStatus (run_status r)) all of
          Some live \<Rightarrow> live_gate live
        | None \<Rightarrow>
            let forWorktree = filter (\<lambda>r. \<not> isInvestigationRun r) all in
            case find (\<lambda>r. run_role r = Role_review) forWorktree of
              None \<Rightarrow> closed_gate Gate_no_review None
            | Some review \<Rightarrow> review_gate tree (case forWorktree of [] \<Rightarrow> None | r # rs \<Rightarrow> Some r) review)"

fun merge_gate_message :: "merge_gate_reason \<Rightarrow> string" where
  "merge_gate_message Gate_merge_recovery_required = ''Recover the reserved integration merge before continuing''"
| "merge_gate_message Gate_scope_blocked = ''Execution scope requirements or scoped review evidence are unresolved''"
| "merge_gate_message Gate_scope_review_only = ''This worktree records verification or parent acceptance; it does not merge''"
| "merge_gate_message Gate_check_adoption = ''Approve the check definitions this merge adopts, with the merge''"
| "merge_gate_message Gate_branch_review_required = ''Adopt an integration branch if needed and run a fresh review''"
| "merge_gate_message Gate_ready = ''Ready to merge''"
| "merge_gate_message Gate_no_review = ''Merging requires a review run with a mergeable verdict; launch a review first''"
| "merge_gate_message Gate_changes_requested = ''The latest review requested changes; address them and review again''"
| "merge_gate_message Gate_automation_active =
     ''The automated cycle has not reached merge approval; stop it to use the manual merge flow''"
| "merge_gate_message Gate_review_pending = ''The latest review has not returned a verdict yet''"
| "merge_gate_message Gate_superseded = ''A run started after the last review; review the branch again''"
| "merge_gate_message Gate_run_live = ''A run is still live in this worktree''"
| "merge_gate_message Gate_worktree_removed = ''The worktree has been removed''"

section \<open>The merge's checks\<close>

definition planPromotionUnapproved :: "worktree \<Rightarrow> bool \<Rightarrow> bool \<Rightarrow> bool \<Rightarrow> bool" where
  "planPromotionUnapproved tree finalApproval withSession delegated =
     (truthy (wt_planVersionId tree) \<and> (\<not> finalApproval \<or> \<not> withSession \<or> delegated))"

definition finalReviewReady :: "finalization \<Rightarrow> string \<Rightarrow> work_cycle option \<Rightarrow> bool" where
  "finalReviewReady f worktreeId cycle =
     (fin_status f = Fin_active \<and> fin_worktreeId f = worktreeId
      \<and> (case cycle of
           None \<Rightarrow> False
         | Some c \<Rightarrow> cy_polishPhase c = Some Phase_final_review \<and> cy_status c = Awaiting_merge))"

definition automationApproved :: "work_cycle option \<Rightarrow> string \<Rightarrow> string \<Rightarrow> bool" where
  "automationApproved cycle reviewRunId headSha =
     (case cycle of
        None \<Rightarrow> True
      | Some c \<Rightarrow> cy_status c = Awaiting_merge \<and> cy_currentRunId c = reviewRunId
                  \<and> cy_reviewHeadSha c = Some headSha)"

definition retargetRequired :: "string option \<Rightarrow> string \<Rightarrow> bool" where
  "retargetRequired targetBranch reviewed = (case targetBranch of None \<Rightarrow> False | Some t \<Rightarrow> t \<noteq> reviewed)"

text \<open>The approved head and target, and the reviewed ones.\<close>

definition finalCandidateMoved :: "(string \<times> string) option \<Rightarrow> string \<times> string \<Rightarrow> bool" where
  "finalCandidateMoved finalApproval reviewed =
     (case finalApproval of
        None \<Rightarrow> False
      | Some (head, target) \<Rightarrow> fst reviewed \<noteq> head \<or> snd reviewed \<noteq> target)"

section \<open>What an open gate means\<close>

interpretation newest_first: comparator "\<lambda>l r. run_createdAt r - run_createdAt l" "\<lambda>_. True"
  by unfold_locales simp_all

lemma closed_gate_sel [simp]:
  "\<not> mg_mergeable (closed_gate reason review)" "mg_reason (closed_gate reason review) = reason"
  "mg_reviewRunId (closed_gate reason review) = map_option run_id review"
  by (simp_all add: closed_gate_def)

lemma find_first_role:
  assumes "find P xs = Some x" "map_option k (case xs of [] \<Rightarrow> None | y # ys \<Rightarrow> Some y) = Some (k x)" "distinct (map k xs)"
  shows "\<exists>ys. xs = x # ys"
  using assms find_Some_in [OF assms(1)] by (cases xs) (auto split: if_splits)

lemma open_gate:
  assumes "mg_mergeable (mergeGateFor tree runs)" "distinct (map run_id runs)"
  shows "\<exists>r rest. filter (\<lambda>r. \<not> isInvestigationRun r) (runs_of tree runs) = r # rest
     \<and> mg_reviewRunId (mergeGateFor tree runs) = Some (run_id r) \<and> run_role r = Role_review
     \<and> run_status r = Run_finished \<and> run_verdict r = Some Mergeable \<and> reviewed_current tree r
     \<and> wt_status tree = Tree_active \<and> (\<forall>x\<in>set (runs_of tree runs). isTerminalAgentRunStatus (run_status x))"
proof -
  let ?all = "runs_of tree runs"
  let ?mine = "filter (\<lambda>r. \<not> isInvestigationRun r) ?all"
  have active: "wt_status tree = Tree_active" using assms(1) by (auto simp: mergeGateFor_def split: if_splits)
  have quiet: "find (\<lambda>r. \<not> isTerminalAgentRunStatus (run_status r)) ?all = None"
    using assms(1) active by (auto simp: mergeGateFor_def live_gate_def Let_def split: option.splits if_splits)
  obtain r where r: "find (\<lambda>r. run_role r = Role_review) ?mine = Some r"
    using assms(1) active quiet by (auto simp: mergeGateFor_def Let_def split: option.splits)
  let ?latest = "case ?mine of [] \<Rightarrow> None | r # rs \<Rightarrow> Some r"
  have g: "mergeGateFor tree runs = review_gate tree ?latest r"
    using active quiet r by (simp add: mergeGateFor_def Let_def)
  with assms(1) have g': "mg_mergeable (review_gate tree ?latest r)" by simp
  then have ok: "map_option run_id ?latest = Some (run_id r)" "run_status r = Run_finished"
    "reviewed_current tree r" "run_verdict r = Some Mergeable"
    unfolding review_gate_def by (auto split: if_splits option.splits run_verdict.splits)
  have "mg_reviewRunId (mergeGateFor tree runs) = Some (run_id r)"
    unfolding g using ok by (simp add: review_gate_def)
  moreover have "distinct (map run_id ?mine)"
  proof -
    have "mset ?all = mset (filter (\<lambda>r. run_worktreeId r = wt_id tree) runs)" by (simp add: runs_of_def)
    then have "mset (map run_id ?all) = mset (map run_id (filter (\<lambda>r. run_worktreeId r = wt_id tree) runs))" by simp
    then have "distinct (map run_id ?all) = distinct (map run_id (filter (\<lambda>r. run_worktreeId r = wt_id tree) runs))"
      by (rule mset_eq_imp_distinct_iff)
    with assms(2) show ?thesis by (simp add: distinct_map_filter)
  qed
  from find_first_role [OF r ok(1) this] obtain rest where "?mine = r # rest" by blast
  ultimately show ?thesis using ok active quiet find_Some_in [OF r] by (auto simp: find_None_all)
qed

text \<open>
  C14. An open merge gate names a finished review with a mergeable verdict, taken of the worktree
  as it is on the branch it merges into, newer than every other run of the worktree that could
  have changed it, while no run of the worktree is live.
\<close>

theorem merge_gate_sound:
  assumes "mg_mergeable (mergeGateFor tree runs)" "distinct (map run_id runs)"
  shows "\<exists>r\<in>set runs. mg_reviewRunId (mergeGateFor tree runs) = Some (run_id r)
    \<and> run_worktreeId r = wt_id tree \<and> run_role r = Role_review \<and> run_status r = Run_finished
    \<and> run_verdict r = Some Mergeable \<and> reviewed_current tree r \<and> wt_status tree = Tree_active
    \<and> (\<forall>x\<in>set runs. run_worktreeId x = wt_id tree \<longrightarrow> isTerminalAgentRunStatus (run_status x)
         \<and> (isInvestigationRun x \<or> run_createdAt x \<le> run_createdAt r))"
proof -
  from open_gate [OF assms] obtain r rest where
    r: "filter (\<lambda>r. \<not> isInvestigationRun r) (runs_of tree runs) = r # rest"
      "mg_reviewRunId (mergeGateFor tree runs) = Some (run_id r)" "run_role r = Role_review" "run_status r = Run_finished"
      "run_verdict r = Some Mergeable" "reviewed_current tree r" "wt_status tree = Tree_active"
      "\<forall>x\<in>set (runs_of tree runs). isTerminalAgentRunStatus (run_status x)" by blast
  have members: "set (runs_of tree runs) = {x \<in> set runs. run_worktreeId x = wt_id tree}"
    by (auto simp: runs_of_def)
  have "sorted_wrt (\<lambda>l r. run_createdAt r - run_createdAt l \<le> 0) (runs_of tree runs)"
    unfolding runs_of_def by (rule newest_first.sorted_js_sort) simp
  then have "sorted_wrt (\<lambda>l r. run_createdAt r - run_createdAt l \<le> 0) (r # rest)"
    unfolding r(1) [symmetric] by (rule sorted_wrt_filter)
  then have newest: "\<forall>x\<in>set (r # rest). run_createdAt x \<le> run_createdAt r" by auto
  have "r \<in> set (runs_of tree runs)" using r(1) by (metis filter_is_subset list.set_intros(1) subsetD)
  moreover have "\<forall>x\<in>set (runs_of tree runs). \<not> isInvestigationRun x \<longrightarrow> run_createdAt x \<le> run_createdAt r"
    using newest unfolding r(1) [symmetric] by simp
  ultimately show ?thesis using r members by blast
qed

definition mergeable_review :: agent_run where
  "mergeable_review = sample_run
     \<lparr>run_verdict := Some Mergeable,
       run_reviewBranchContext := Some \<lparr>rbc_repositoryPolicyVersion = None, rbc_headSha = ''h'', rbc_targetBranch = ''main'',
         rbc_targetSha = ''m'', rbc_worktreeVersion = 1\<rparr>\<rparr>"

theorem merge_gate_sound_witness:
  "mg_reviewRunId (mergeGateFor (sample_worktree\<lparr>wt_integrationBranch := Some ''main''\<rparr>) [mergeable_review]) = Some ''r1''
   \<and> (\<exists>r\<in>set [mergeable_review]. run_verdict r = Some Mergeable \<and> run_status r = Run_finished)"
proof -
  let ?tree = "sample_worktree\<lparr>wt_integrationBranch := Some ''main''\<rparr>"
  have g: "mergeGateFor ?tree [mergeable_review] = (closed_gate Gate_ready (Some mergeable_review))\<lparr>mg_mergeable := True\<rparr>"
    by (simp add: mergeGateFor_def runs_of_def js_sort_def mergeable_review_def sample_run_def sample_worktree_def
        isTerminalAgentRunStatus_def terminal_run_statuses_def isInvestigationRun_def review_gate_def reviewed_current_def)
  then have open_now: "mg_mergeable (mergeGateFor ?tree [mergeable_review])" by simp
  from merge_gate_sound [OF this] g show ?thesis by (simp add: mergeable_review_def sample_run_def)
qed

end
