(* ===== verification/Control.thy ===== *)
theory Control
  imports Investigations Workflow_Effects Command_Properties
begin

text \<open>
  The command handlers of a cycle (\<open>apps/server/src/services/cycle/commands/control.ts\<close>, with
  the gates of \<open>cycle/gates.ts\<close>): the operator's pause, stop, resume and provider retry through
  their stages, the settings change, the roadmap's stop, an amendment's retirement, the repeated
  reviews, leaving a merge to the operator and the work item's remediation grant. What the
  handlers read of storage and Git is a record, indexed by the ask where a value is read again;
  the end of an agent's turn writes no cycle and is not modelled; the account of the changed
  settings in the audit row is not carried.
\<close>

section \<open>What the handlers read\<close>

record control_reads =
  ct_integration :: integration_reads
  ct_remediation :: remediation_reads
  ct_facts :: "nat \<Rightarrow> work_cycle \<Rightarrow> command_facts" \<comment> \<open>at each stage of a command\<close>
  ct_newest :: "agent_run option" \<comment> \<open>read once\<close>
  ct_currentRun :: "agent_run option"
  ct_runs :: "nat \<Rightarrow> agent_run list" \<comment> \<open>the worktree's, newest first\<close>
  ct_live :: "nat \<Rightarrow> bool"
  ct_lastText :: "nat \<Rightarrow> string option" \<comment> \<open>of the newest run's completed turn\<close>
  ct_contextDigest :: "nat \<Rightarrow> string option"
  ct_movedPins :: "moved_pin list"
  ct_unsettledDecisions :: "string list"
  ct_available :: "service_error option" \<comment> \<open>\<open>mutations.requireAvailable\<close>\<close>
  ct_enter :: "service_error option" \<comment> \<open>\<open>mutations.during\<close>\<close>
  ct_ready :: "nat \<Rightarrow> service_error option"
  ct_validateLaunch :: "service_error option"
  ct_role :: "nat \<Rightarrow> service_error option" \<comment> \<open>\<open>requireRole\<close> again\<close>
  ct_tree :: "nat \<Rightarrow> worktree option" \<comment> \<open>the cycle's worktree, read again\<close>
  ct_treeScope :: "service_error option" \<comment> \<open>\<open>requireTreeScope\<close>\<close>
  ct_changeTree :: "service_error option" \<comment> \<open>\<open>changeWorktree\<close> refuses or fails\<close>
  ct_transitioning :: bool
  ct_mergeReserved :: bool
  ct_amendmentRetired :: bool
  ct_owned :: bool \<comment> \<open>a roadmap owns the cycle\<close>
  ct_selections :: "profile_purpose \<Rightarrow> agent_selection option"
  ct_modelIds :: "(profile_purpose \<times> agent_selection) list \<Rightarrow> service_error option"
  ct_assign :: "service_error option" \<comment> \<open>the entry's assignment, when roadmaps are attached\<close>
  ct_attached :: bool
  ct_declaredBefore :: bool \<comment> \<open>\<open>declaredReviews\<close> has the cycle and commit\<close>
  ct_resolveBranch :: "string \<Rightarrow> string \<Rightarrow> string + string"

definition ct_launch :: "control_reads \<Rightarrow> launch_reads" where
  "ct_launch cr = rr_launch (ct_remediation cr)"

section \<open>Gates\<close>

definition transitionGate :: "control_reads \<Rightarrow> work_cycle \<Rightarrow> (cycle_db, unit) job" where
  "transitionGate cr c =
     (if map_option wt_status (lr_worktree (ct_launch cr)) \<noteq> Some Tree_active \<or> \<not> truthy (cy_workItemId c)
      then give ()
      else if cy_step c \<noteq> Review
              \<and> (case ct_currentRun cr of
                   None \<Rightarrow> True
                 | Some r \<Rightarrow> run_status r \<in> {Run_failed, Run_cancelled, Run_interrupted})
      then and_then (awaiting (ct_launch cr) ''validate-launch'') (\<lambda>_. unless_error (ct_validateLaunch cr))
      else give ())"

definition stale_pins :: "attention_refs option \<Rightarrow> moved_pin list \<Rightarrow> moved_pin list" where
  "stale_pins refs moved =
     (let recorded = map pin_alias (over (case refs of None \<Rightarrow> None | Some r \<Rightarrow> ref_pins r) [])
      in filter (\<lambda>p. recorded = [] \<or> pin_alias p \<in> set recorded) moved)"

definition assertPinsRefreshed :: "control_reads \<Rightarrow> work_cycle \<Rightarrow> (cycle_db, unit) job" where
  "assertPinsRefreshed cr c =
     (case held_stop_of c of
        None \<Rightarrow> give ()
      | Some stop \<Rightarrow>
          if at_code stop \<noteq> Upstream_pin_moved \<or> lr_worktree (ct_launch cr) = None then give ()
          else and_then (awaiting (ct_launch cr) ''moved-pins'') (\<lambda>_.
            let stale = stale_pins (at_refs stop) (ct_movedPins cr) in
            if stale = [] then give ()
            else throw (Request_error (js_join '', '' (map pin_alias stale)
              @ '' still differs from its saved pin. Preview and save the dependency refresh in the dependency environment, then resume.''))))"

definition assertDecisionsSettled :: "control_reads \<Rightarrow> work_cycle \<Rightarrow> service_error option" where
  "assertDecisionsSettled cr c =
     (let unsettled = (if map_option at_code (held_stop_of c) = Some Shared_decision_required
                       then ct_unsettledDecisions cr else []);
          one = (length unsettled = 1)
      in if unsettled = [] then None
         else Some (Request_error (js_join '', '' unsettled @ '' '' @ (if one then ''is'' else ''are'')
           @ '' not approved for this slice yet. Prepare and approve '' @ (if one then ''it'' else ''them'')
           @ '' in Shared architecture decisions, then resume.'')))"

definition resumeNeedsGuidance :: "control_reads \<Rightarrow> nat \<Rightarrow> work_cycle \<Rightarrow> bool" where
  "resumeNeedsGuidance cr n c =
     (if truthy (cy_finalizationId c) \<or> \<not> slice_scope c \<or> cy_step c \<notin> {Implement, Remediate, Review}
      then False
      else case ct_lastText cr n of None \<Rightarrow> False | Some t \<Rightarrow> raisesOpenQuestions t)"

definition attestationInputsChanged :: "control_reads \<Rightarrow> nat \<Rightarrow> work_cycle \<Rightarrow> bool" where
  "attestationInputsChanged cr n c =
     (map_option at_code (held_stop_of c) = Some Checkpoint_attestation_failed
      \<and> (case active_review_of c of
           None \<Rightarrow> False
         | Some a \<Rightarrow> ar_kind a = AR_checkpoint \<and> ct_contextDigest cr n \<noteq> Some (ar_contextDigest a)))"

text \<open>The facts of a command at one of its stages; the newest run is read once.\<close>

definition commandFacts :: "control_reads \<Rightarrow> nat \<Rightarrow> work_cycle \<Rightarrow> command_facts" where
  "commandFacts cr n c = (ct_facts cr n c)
     \<lparr>cf_newestRun := ct_newest cr, cf_attestationInputsChanged := attestationInputsChanged cr n c,
      cf_needsGuidance := resumeNeedsGuidance cr n c\<rparr>"

section \<open>Applying a decision\<close>

definition refused_request :: "command_refusal \<Rightarrow> service_error" where
  "refused_request r = Request_error (rfu_message r)"

definition applyCommand ::
    "control_reads \<Rightarrow> work_cycle \<Rightarrow> command_refusal + command_write \<Rightarrow> string \<Rightarrow> command_context
     \<Rightarrow> (cycle_db, work_cycle) job" where
  "applyCommand cr c d action ctx =
     (case d of
        Inl r \<Rightarrow> throw (refused_request r)
      | Inr w \<Rightarrow> run_change (ct_launch cr) None c (cwr_changes w) action (Some ctx))"

fun action_text :: "operator_action \<Rightarrow> string" where
  "action_text Op_pause = ''pause''" | "action_text Op_stop = ''stop''"
| "action_text Op_resume = ''resume''" | "action_text Op_retry_provider = ''retry-provider''"

definition actor_check :: "launch_actor option \<Rightarrow> service_error option" where
  "actor_check actor = (case actor of None \<Rightarrow> None | Some a \<Rightarrow> la_check a)"

section \<open>Reviewing a scope again\<close>

definition review_resume_check ::
    "control_reads \<Rightarrow> work_cycle \<Rightarrow> nat \<Rightarrow> launch_actor option \<Rightarrow> nat \<Rightarrow> (cycle_db, unit) job" where
  "review_resume_check cr c expected actor n =
     and_then (unless_error (actor_check actor)) (\<lambda>_.
     and_then (find_cycle c) (\<lambda>row.
       if map_option cy_version row \<noteq> Some expected
       then throw (Request_error ''Cycle changed; refresh before resuming.'')
       else unless_error (ct_ready cr n)))"

text \<open>
  The worktree brought up to date under the transition lock, and the review reserved under the
  worktree's mutation: the check runs in the update and again before the reservation.
\<close>

definition review_after_update ::
    "control_reads \<Rightarrow> (nat \<Rightarrow> (cycle_db, unit) job) \<Rightarrow> (cycle_db, work_cycle) job \<Rightarrow> (cycle_db, work_cycle) job" where
  "review_after_update cr check reserve =
     (if ct_transitioning cr then throw (Request_error ''Recovery is already being prepared.'')
      else and_then (check 1) (\<lambda>_.
        and_then (awaiting (ct_launch cr) ''change-worktree'') (\<lambda>_.
        and_then (check 2) (\<lambda>_.
        and_then (awaiting (ct_launch cr) ''changed-worktree'') (\<lambda>_.
        and_then (unless_error (ct_changeTree cr)) (\<lambda>_.
        and_then (unless_error (ct_enter cr)) (\<lambda>_.
        and_then (check 3) (\<lambda>_. reserve))))))))"

definition reviewScopeAgain ::
    "control_reads \<Rightarrow> command_context \<Rightarrow> work_cycle \<Rightarrow> agent_run option \<Rightarrow> string \<Rightarrow> bool \<Rightarrow> nat
     \<Rightarrow> launch_actor option \<Rightarrow> (cycle_db, work_cycle) job" where
  "reviewScopeAgain cr ctx c run guidance snapshotCheck expected actor =
     (case lr_worktree (ct_launch cr) of
        None \<Rightarrow> throw (Request_error ''Review snapshot is unavailable.'')
      | Some tree \<Rightarrow>
          and_then (case (case run of None \<Rightarrow> None | Some r \<Rightarrow> run_reviewBranchContext r) of
                      None \<Rightarrow> give ()
                    | Some reviewed \<Rightarrow>
                        if snapshotCheck \<and> lr_git (ct_launch cr)
                        then and_then (awaiting (ct_launch cr) ''resolve-target'') (\<lambda>_.
                          if ct_resolveBranch cr (wt_path tree) (rbc_targetBranch reviewed) = Inr (rbc_targetSha reviewed)
                          then throw (Request_error ''The integration snapshot has not changed since this review, so resuming would repeat it. Repair the findings in the owning slice, or give review guidance.'')
                          else give ())
                        else give ()) (\<lambda>_.
          review_after_update cr (review_resume_check cr c expected actor)
            (run_next (ct_launch cr) None c Review run (Some ctx)
              (no_changes\<lparr>ch_attempt := no_attempt_changes\<lparr>ac_stepGuidance := Put guidance\<rparr>\<rparr>)
              (Some ''resume'') actor)))"

section \<open>The operator's command\<close>

definition resume_request_of :: "nat \<Rightarrow> resolution_request" where
  "resume_request_of expected = \<lparr>rq_action = Do_resume, rq_expectedVersion = expected,
     rq_profile = None, rq_instructions = None\<rparr>"

definition take_step ::
    "control_reads \<Rightarrow> command_context \<Rightarrow> work_cycle \<Rightarrow> operator_command \<Rightarrow> launch_actor option
     \<Rightarrow> resume_step \<Rightarrow> (cycle_db, work_cycle) job" where
  "take_step cr ctx c cmd actor step =
     (case step of
        Step_refuse r \<Rightarrow> applyCommand cr c (Inl r) (action_text (oc_action cmd)) ctx
      | Step_write w \<Rightarrow> applyCommand cr c (Inr w) (action_text (oc_action cmd)) ctx
      | Step_launch st parent ch action \<Rightarrow>
          run_next (ct_launch cr) None c st parent (Some ctx) (over ch no_changes) action None
      | Step_remediate grant \<Rightarrow>
          (case ct_newest cr of
             None \<Rightarrow> throw (invariant_failed ''the reviewed run a remediate step resumes from'')
           | Some run \<Rightarrow> reviewRemediation (ct_remediation cr) None c run (Some ctx)
               (map_option (\<lambda>i. \<lparr>gr_additionalRounds = 0, gr_instructions = i, gr_agentOverride = None\<rparr>) grant))
      | Step_review_scope guidance snapshotCheck \<Rightarrow>
          reviewScopeAgain cr ctx c (ct_newest cr) guidance snapshotCheck (oc_expectedVersion cmd) actor)"

definition resume_gates :: "control_reads \<Rightarrow> work_cycle \<Rightarrow> (cycle_db, unit) job" where
  "resume_gates cr c =
     and_then (unless_error (ct_available cr)) (\<lambda>_.
     and_then (if truthy (cy_workItemId c) then unless_error (ct_ready cr 0)
               else and_then (requiring (finalizationForCycle (ct_launch cr) c)) (\<lambda>_. give ())) (\<lambda>_.
       if resumeAdopts c (ct_newest cr) then give () else transitionGate cr c))"

definition resume_command ::
    "control_reads \<Rightarrow> command_context \<Rightarrow> work_cycle \<Rightarrow> operator_command \<Rightarrow> launch_actor option
     \<Rightarrow> (cycle_db, work_cycle) job" where
  "resume_command cr ctx c cmd actor =
     and_then (assertPinsRefreshed cr c) (\<lambda>_.
     and_then (unless_error (assertDecisionsSettled cr c)) (\<lambda>_.
       case decideResume c (commandFacts cr 1 c) (oc_guidance cmd) of
         Gate_resolution \<Rightarrow>
           resolveIntegration (ct_integration cr) ctx (cycle_key c) (resume_request_of (oc_expectedVersion cmd)) None
       | Gate_refuse r \<Rightarrow> applyCommand cr c (Inl r) (action_text (oc_action cmd)) ctx
       | Gate_write w \<Rightarrow> applyCommand cr c (Inr w) (action_text (oc_action cmd)) ctx
       | Gates_open \<Rightarrow>
           and_then (resume_gates cr c) (\<lambda>_.
             take_step cr ctx c cmd actor (fst (decideResumeStep c (commandFacts cr 2 c) (oc_guidance cmd))))))"

definition control ::
    "control_reads \<Rightarrow> command_context \<Rightarrow> string \<times> string \<Rightarrow> operator_command \<Rightarrow> launch_actor option
     \<Rightarrow> (cycle_db, work_cycle) job" where
  "control cr ctx key cmd actor =
     and_then (unless_error (lr_requireRole (ct_launch cr) ctx)) (\<lambda>_.
     and_then (unless_error (actor_check actor)) (\<lambda>_.
     and_then (looking (\<lambda>db. cycles_find (db_rows db) key)) (\<lambda>row.
       case row of
         None \<Rightarrow> throw not_found
       | Some c \<Rightarrow>
           and_then (unless_error (requireNoInvestigation c (oc_action cmd = Op_stop))) (\<lambda>_.
             case decideCommand c (commandFacts cr 0 c)
                    (if oc_action cmd \<in> {Op_pause, Op_stop} then cmd\<lparr>oc_guidance := None\<rparr> else cmd) of
               Refuse r \<Rightarrow> applyCommand cr c (Inl r) (action_text (oc_action cmd)) ctx
             | Write_now w \<Rightarrow> applyCommand cr c (Inr w) (action_text (oc_action cmd)) ctx
             | Resume_on \<Rightarrow> resume_command cr ctx c cmd actor))))"

section \<open>The settings of a stopped cycle\<close>

fun backend_name :: "agent_backend \<Rightarrow> string" where
  "backend_name Claude_code = ''claude-code''" | "backend_name Codex = ''codex''"

fun validateAgentSelections ::
    "launch_reads \<Rightarrow> (profile_purpose \<times> agent_selection) list \<Rightarrow> service_error option" where
  "validateAgentSelections lr [] = None"
| "validateAgentSelections lr ((purpose, s) # rest) =
     (if lr_hasBackend lr (as_backend s) then validateAgentSelections lr rest
      else Some (Request_error (''Agent backend '' @ backend_name (as_backend s) @ '' is unavailable.'')))"

definition changeSettings ::
    "control_reads \<Rightarrow> command_context \<Rightarrow> string \<times> string \<Rightarrow> settings_change \<Rightarrow> (cycle_db, work_cycle) job" where
  "changeSettings cr ctx key chg =
     and_then (unless_error (lr_requireRole (ct_launch cr) ctx)) (\<lambda>_.
     and_then (looking (\<lambda>db. cycles_find (db_rows db) key)) (\<lambda>row.
       case row of
         None \<Rightarrow> throw not_found
       | Some c \<Rightarrow>
           and_then (unless_error (requireNoInvestigation c False)) (\<lambda>_.
             case decideSettingsChange c (ct_amendmentRetired cr) chg (investigationLive c) (worktreeChangeOpen c)
                    (ct_transitioning cr) (ct_owned cr) (ct_selections cr) of
               Inl r \<Rightarrow> throw (refused_request r)
             | Inr r \<Rightarrow>
                 and_then (unless_error (if sr_agents r = [] then None
                   else case validateAgentSelections (ct_launch cr) (sr_agents r) of
                          Some e \<Rightarrow> Some e | None \<Rightarrow> ct_modelIds cr (sr_agents r))) (\<lambda>_.
                 and_then (unless_error (if sr_agents r = [] \<or> \<not> ct_owned cr then None
                   else if \<not> ct_attached cr
                   then Some (Request_error ''A roadmap cycle's agents cannot change: roadmaps are not attached.'')
                   else ct_assign cr)) (\<lambda>_.
                 run_change (ct_launch cr) None c (sr_changes r) ''change-settings'' (Some ctx))))))"

section \<open>Repeating a finished scope review\<close>

definition repeat_check ::
    "control_reads \<Rightarrow> work_cycle \<Rightarrow> bool \<Rightarrow> nat \<Rightarrow> launch_actor option \<Rightarrow> nat \<Rightarrow> (cycle_db, unit) job" where
  "repeat_check cr c unstarted expected actor n =
     and_then (unless_error (actor_check actor)) (\<lambda>_.
     and_then (unless_error (ct_role cr n)) (\<lambda>_.
     and_then (find_cycle c) (\<lambda>row.
       if map_option cy_version row \<noteq> Some expected \<or> map_option cy_status row \<noteq> Some (cy_status c)
       then throw (Request_error ''Cycle changed; refresh before requesting another review.'')
       else if map_option wt_status (ct_tree cr n) \<noteq> Some Tree_active
       then throw (Request_error ''The review worktree is no longer active.'')
       else and_then (unless_error (ct_treeScope cr)) (\<lambda>_.
         and_then (unless_error (ct_ready cr n)) (\<lambda>_.
         if (if unstarted then ct_runs cr n \<noteq> []
             else map_option run_id (case ct_runs cr n of [] \<Rightarrow> None | r # rs \<Rightarrow> Some r) \<noteq> Some (cy_currentRunId c))
            \<or> ct_live cr n
         then throw (Request_error ''End live sessions and reconcile any newer manual runs before repeating this review.'')
         else and_then (looking (\<lambda>db. activeForWorktree (db_rows db) (cy_workspaceId c) (cy_worktreeId c))) (\<lambda>owner.
           if owner \<noteq> None \<and> map_option cy_id owner \<noteq> Some (cy_id c)
           then throw (Request_error ''Another cycle already owns this review worktree.'')
           else give ()))))))"

definition repeatScopeReview ::
    "control_reads \<Rightarrow> command_context \<Rightarrow> string \<times> string \<Rightarrow> nat \<Rightarrow> string \<Rightarrow> launch_actor option
     \<Rightarrow> (cycle_db, work_cycle) job" where
  "repeatScopeReview cr ctx key expected guidance actor =
     and_then (unless_error (lr_requireRole (ct_launch cr) ctx)) (\<lambda>_.
     and_then (looking (\<lambda>db. cycles_find (db_rows db) key)) (\<lambda>row.
       case row of
         None \<Rightarrow> throw not_found
       | Some c \<Rightarrow>
           and_then (unless_error (requireNoInvestigation c False)) (\<lambda>_.
             let unstarted = (cy_status c \<in> {Paused, Needs_attention} \<and> ct_currentRun cr = None \<and> ct_runs cr 0 = []);
                 tree = lr_worktree (ct_launch cr);
                 matches = (case tree of
                              None \<Rightarrow> False
                            | Some t \<Rightarrow> sameExecutionScope (wt_executionScope t) (cy_executionScope c))
             in case decideReviewAgain c unstarted matches of
                  Some r \<Rightarrow> throw (refused_request r)
                | None \<Rightarrow>
                    if tree = None then throw not_found
                    else and_then (repeat_check cr c unstarted expected actor 0) (\<lambda>_.
                      review_after_update cr (repeat_check cr c unstarted expected actor)
                        (run_next (ct_launch cr) None c Review (ct_currentRun cr) (Some ctx)
                          (no_changes
                            \<lparr>ch_attempt := no_attempt_changes\<lparr>ac_stepGuidance := Put (js_trim guidance)\<rparr>,
                             ch_reason := Some ''Starting a fresh independent review with the existing reviewer assignment.''\<rparr>)
                          (Some ''review-again'') actor)))))"

section \<open>The roadmap's commands\<close>

definition windDownStop ::
    "control_reads \<Rightarrow> command_context option \<Rightarrow> work_cycle \<Rightarrow> (cycle_db, work_cycle) job" where
  "windDownStop cr ctx c =
     and_then (find_cycle c) (\<lambda>row.
       case row of
         None \<Rightarrow> give c
       | Some current \<Rightarrow>
           (case decideWindDownStop current (ct_mergeReserved cr) of
              No_write \<Rightarrow> give current
            | Scheduled_refuse r \<Rightarrow> throw (refused_request r)
            | Scheduled w \<Rightarrow> run_change (ct_launch cr) None current (cwr_changes w) ''roadmap-wound-down'' ctx))"

definition retired_changes :: "string \<Rightarrow> cycle_changes" where
  "retired_changes amendmentId = no_changes
     \<lparr>ch_status := Some Stopped, ch_end := Some Amendment_retired,
      ch_reason := Some (''Retired by reviewed planning amendment '' @ amendmentId
        @ ''. Worktree and original run context retained.'')\<rparr>"

definition retireForAmendment ::
    "control_reads \<Rightarrow> command_context \<Rightarrow> work_cycle \<Rightarrow> string \<Rightarrow> (cycle_db, work_cycle) job" where
  "retireForAmendment cr ctx c amendmentId =
     and_then (unless_error (lr_requireRole (ct_launch cr) ctx)) (\<lambda>_.
     and_then (unless_error (requireNoInvestigation c True)) (\<lambda>_.
     and_then (unless_error (ct_available cr)) (\<lambda>_.
       if ct_live cr 0 \<or> ownsIntegrationResolution c \<or> ct_mergeReserved cr
       then throw (Request_error ''Wait for active sessions and Git operations before applying the amendment.'')
       else run_change (ct_launch cr) None c (retired_changes amendmentId) ''amendment-retired'' (Some ctx))))"

text \<open>
  A failed launch of the declared-checks review puts the cycle back, unless another writer has
  moved it; the answer is whether a review was started.
\<close>

definition review_put_back ::
    "control_reads \<Rightarrow> work_cycle \<Rightarrow> work_cycle \<Rightarrow> service_error \<Rightarrow> (cycle_db, bool) job" where
  "review_put_back cr c reserved e =
     and_then (find_cycle c) (\<lambda>row.
       case row of
         None \<Rightarrow> throw e
       | Some latest \<Rightarrow>
           if cy_version latest = cy_version reserved \<and> cy_status latest = Running
           then and_then (run_change (ct_launch cr) None latest ((restoredStatus c)\<lparr>ch_reason := Some (cy_reason c)\<rparr>)
                  ''advance'' None) (\<lambda>_. throw e)
           else throw e)"

definition reviewForDeclaredChecks ::
    "control_reads \<Rightarrow> work_cycle \<Rightarrow> launch_actor \<Rightarrow> (cycle_db, bool) job" where
  "reviewForDeclaredChecks cr c actor =
     (case (decideDeclaredChecksReview c (ct_currentRun cr) (ct_declaredBefore cr) (lr_stopping (ct_launch cr))
              (ct_live cr 0), ct_currentRun cr) of
        (Scheduled w, Some review) \<Rightarrow>
          and_then (unless_error (la_check actor)) (\<lambda>_.
          and_then (find_cycle c) (\<lambda>row.
            if map_option cy_version row \<noteq> Some (cy_version c) then give False
            else and_then (run_change (ct_launch cr) None c (cwr_changes w) ''advance'' None) (\<lambda>reserved.
              catch_with
                (and_then (run_next (ct_launch cr) None reserved Review (Some review) None no_changes
                   (Some ''advance'') (Some actor)) (\<lambda>_. give True))
                (review_put_back cr c reserved))))
      | _ \<Rightarrow> give False)"

definition leaveMergeToOperator ::
    "control_reads \<Rightarrow> work_cycle \<Rightarrow> string \<Rightarrow> (cycle_db, unit) job" where
  "leaveMergeToOperator cr c repositoryId =
     (case decideLeaveMerge c repositoryId (merge_adopts_checks (held_stop_of c)) of
        Scheduled w \<Rightarrow> and_then (run_change (ct_launch cr) None c (cwr_changes w) ''advance'' None) (\<lambda>_. give ())
      | _ \<Rightarrow> give ())"

section \<open>More remediation for a work item\<close>

definition extra_rounds_limit :: nat where "extra_rounds_limit = 20"

definition validExtraRounds :: "nat \<Rightarrow> nat \<Rightarrow> nat \<Rightarrow> bool" where
  "validExtraRounds rounds least base =
     (least \<le> rounds \<and> rounds \<le> extra_rounds_limit \<and> base + rounds \<le> 9007199254740991 - extra_rounds_limit)"

record authorize_request =
  az_expectedVersion :: nat
  az_additionalRounds :: nat
  az_instructions :: string

definition authorizeWorkItemRemediation ::
    "control_reads \<Rightarrow> command_context \<Rightarrow> string \<times> string \<Rightarrow> authorize_request \<Rightarrow> (cycle_db, work_cycle) job" where
  "authorizeWorkItemRemediation cr ctx key rq =
     and_then (unless_error (lr_requireRole (ct_launch cr) ctx)) (\<lambda>_.
     and_then (looking (\<lambda>db. cycles_find (db_rows db) key)) (\<lambda>row.
       case row of
         None \<Rightarrow> throw not_found
       | Some c \<Rightarrow>
           and_then (unless_error (requireNoInvestigation c False)) (\<lambda>_.
             if cy_version c \<noteq> az_expectedVersion rq
             then throw (Request_error ''Cycle changed; refresh before authorizing remediation.'')
             else if \<not> truthy (cy_workItemId c) \<or> truthy (cy_finalizationId c)
             then throw (Request_error ''Use finalization recovery for a plan finalization.'')
             else and_then (unless_error (ct_ready cr 0)) (\<lambda>_.
               and_then (unless_error (ct_available cr)) (\<lambda>_.
               if \<not> validExtraRounds (az_additionalRounds rq) 1 (remediationAllowance c)
               then throw (Request_error ''Authorize between 1 and 20 additional remediation attempts.'')
               else case remediationBlocker (ct_remediation cr) c (js_trim (az_instructions rq) \<noteq> []) of
                 Some b \<Rightarrow> throw (Request_error b)
               | None \<Rightarrow>
                   (case ct_currentRun cr of
                      None \<Rightarrow> throw not_found
                    | Some run \<Rightarrow> grantRemediation (ct_remediation cr) None c run ctx
                        \<lparr>gr_additionalRounds = az_additionalRounds rq, gr_instructions = js_trim (az_instructions rq),
                         gr_agentOverride = None\<rparr>))))))"

section \<open>The commands as paths of the cycle store\<close>

lemma follows_transitionGate: "orderly (ct_launch cr) \<Longrightarrow> follows H (transitionGate cr c) (\<lambda>_. {})"
  unfolding transitionGate_def by (intro asked_intros) simp_all

lemma follows_assertPinsRefreshed: "orderly (ct_launch cr) \<Longrightarrow> follows H (assertPinsRefreshed cr c) (\<lambda>_. {})"
  unfolding assertPinsRefreshed_def Let_def by (intro asked_intros) simp_all

text \<open>The changes a decision writes put back no stop.\<close>

definition plain_write :: "command_write \<Rightarrow> bool" where
  "plain_write w = (ch_restore (cwr_changes w) = None)"

lemma follows_applyCommand_refused: "follows H (applyCommand cr c (Inl r) action ctx) (\<lambda>x. {x})"
  by (simp add: applyCommand_def)

lemma follows_applyCommand:
  assumes "c \<in> H" "plain_write w"
  shows "follows H (applyCommand cr c (Inr w) action ctx) (\<lambda>x. {x})"
  using assms unfolding applyCommand_def plain_write_def
  by (auto intro!: follows_change restore_wf_plain)

lemma follows_review_after_update:
  assumes "orderly (ct_launch cr)" "\<And>n. follows H (check n) (\<lambda>_. {})" "follows H reserve (\<lambda>x. {x})"
  shows "follows H (review_after_update cr check reserve) (\<lambda>x. {x})"
  unfolding review_after_update_def by (intro asked_intros assms)

lemma follows_review_resume_check: "follows H (review_resume_check cr c n actor k) (\<lambda>_. {})"
  unfolding review_resume_check_def by (intro asked_intros)

lemma follows_reviewScopeAgain:
  assumes "orderly (ct_launch cr)" "c \<in> H"
  shows "follows H (reviewScopeAgain cr ctx c run g snap n actor) (\<lambda>x. {x})"
  unfolding reviewScopeAgain_def
  by (intro asked_intros follows_review_after_update follows_review_resume_check follows_next assms)
     (simp_all add: assms field_changes_def)

lemma plain_decisions:
  "decideCommand c f cmd = Write_now w \<Longrightarrow> plain_write w"
  "decideResume c f g = Gate_write w \<Longrightarrow> plain_write w"
  "fst (decideResumeStep c f g) = Step_write w \<Longrightarrow> plain_write w"
  "decideWindDownStop c reserved = Scheduled w \<Longrightarrow> plain_write w"
  "decideDeclaredChecksReview c review asked stopping live = Scheduled w \<Longrightarrow> plain_write w"
  "decideLeaveMerge c repo adopts = Scheduled w \<Longrightarrow> plain_write w"
proof -
  show "decideCommand c f cmd = Write_now w \<Longrightarrow> plain_write w"
    by (drule decideCommand_writes, elim conjE disjE)
       (auto simp: stop_write_def pause_write_def plain_write_def elim!: decide_retry_writes)
  show "decideResume c f g = Gate_write w \<Longrightarrow> plain_write w"
    by (auto simp: decideResume_def plain_write_def split: option.splits if_splits)
  show "fst (decideResumeStep c f g) = Step_write w \<Longrightarrow> plain_write w"
    by (drule decideResumeStep_write, drule decideRelaunch_write) (simp add: plain_write_def)
qed (auto simp: decideWindDownStop_def decideDeclaredChecksReview_def decideLeaveMerge_def plain_write_def
    split: if_splits)

text \<open>A launch a resume decided only changes fields.\<close>

lemma launch_fields:
  assumes "fst (decideResumeStep c f g) = Step_launch st p ch a"
  shows "field_changes (over ch no_changes)"
  using assms
  by (auto simp: decideResumeStep_def decideGuided_def decideScopeReview_def decideRelaunch_def Let_def field_changes_def
      split: if_splits option.splits)

lemma follows_take_step:
  assumes "orderly (ct_launch cr)" "c \<in> H"
  shows "follows H (take_step cr ctx c cmd actor (fst (decideResumeStep c f g))) (\<lambda>x. {x})"
proof (cases "fst (decideResumeStep c f g)")
  case (Step_refuse r)
  then show ?thesis by (simp add: take_step_def follows_applyCommand_refused)
next
  case (Step_write w)
  with plain_decisions(3) show ?thesis using assms(2) by (simp add: take_step_def follows_applyCommand)
next
  case (Step_launch st p ch a)
  with launch_fields show ?thesis using assms by (simp add: take_step_def follows_next)
next
  case (Step_remediate grant)
  with assms show ?thesis
    by (auto simp: take_step_def ct_launch_def split: option.splits intro!: follows_reviewRemediation)
next
  case (Step_review_scope g snap)
  with assms show ?thesis by (simp add: take_step_def follows_reviewScopeAgain)
qed

lemma follows_resume_gates: "orderly (ct_launch cr) \<Longrightarrow> follows H (resume_gates cr c) (\<lambda>_. {})"
  unfolding resume_gates_def
  by (intro asked_intros follows_then_plain [OF follows_transitionGate] follows_transitionGate) simp_all

lemma follows_resume_command:
  assumes "orderly (ct_launch cr)" "orderly (ig_launch (ct_integration cr))" "c \<in> H"
  shows "follows H (resume_command cr ctx c cmd actor) (\<lambda>x. {x})"
proof -
  have step: "follows H (and_then (resume_gates cr c) (\<lambda>_.
      take_step cr ctx c cmd actor (fst (decideResumeStep c f g)))) (\<lambda>x. {x})" for f g
    by (intro follows_then_plain [OF follows_resume_gates] follows_take_step assms)
  have "follows H (case decideResume c (commandFacts cr 1 c) (oc_guidance cmd) of
         Gate_resolution \<Rightarrow>
           resolveIntegration (ct_integration cr) ctx (cycle_key c) (resume_request_of (oc_expectedVersion cmd)) None
       | Gate_refuse r \<Rightarrow> applyCommand cr c (Inl r) (action_text (oc_action cmd)) ctx
       | Gate_write w \<Rightarrow> applyCommand cr c (Inr w) (action_text (oc_action cmd)) ctx
       | Gates_open \<Rightarrow> and_then (resume_gates cr c) (\<lambda>_.
             take_step cr ctx c cmd actor (fst (decideResumeStep c (commandFacts cr 2 c) (oc_guidance cmd))))) (\<lambda>x. {x})"
    using assms step plain_decisions(2)
    by (cases "decideResume c (commandFacts cr 1 c) (oc_guidance cmd)")
       (simp_all add: follows_applyCommand follows_applyCommand_refused follows_resolveIntegration)
  then show ?thesis
    unfolding resume_command_def
    by (intro asked_intros follows_then_plain [OF follows_assertPinsRefreshed] assms) simp_all
qed

lemma follows_row_then:
  "(\<And>row. follows (H \<union> set_option row) (f row) S) \<Longrightarrow>
     follows H (and_then (looking (\<lambda>db. cycles_find (db_rows db) key)) f) S"
  by (rule cy.refines_then [OF cy.refines_look])

lemma follows_control:
  assumes "orderly (ct_launch cr)" "orderly (ig_launch (ct_integration cr))"
  shows "follows H (control cr ctx key cmd actor) (\<lambda>x. {x})"
proof -
  have decided: "follows G (case decideCommand c f q of
       Refuse r \<Rightarrow> applyCommand cr c (Inl r) a ctx
     | Write_now w \<Rightarrow> applyCommand cr c (Inr w) a ctx
     | Resume_on \<Rightarrow> resume_command cr ctx c cmd actor) (\<lambda>x. {x})" if "c \<in> G" for G c f q a
    using that assms plain_decisions(1)
    by (cases "decideCommand c f q") (simp_all add: follows_applyCommand follows_applyCommand_refused follows_resume_command)
  show ?thesis
    unfolding control_def
    by (intro asked_intros follows_row_then decided) simp_all
qed

lemma follows_changeSettings: "follows H (changeSettings cr ctx key chg) (\<lambda>x. {x})"
proof -
  have plain: "ch_restore (sr_changes r) = None"
    if "decideSettingsChange c retired q live open' tr owned cur = Inr r" for c retired q live open' tr owned cur r
    using that by (auto simp: decideSettingsChange_def Let_def split: if_splits)
  show ?thesis
    unfolding changeSettings_def
    by (intro asked_intros follows_row_then follows_case_sum follows_change restore_wf_plain) (auto dest: plain)
qed

lemma follows_repeat_check: "follows H (repeat_check cr c u n actor k) (\<lambda>_. {})"
  unfolding repeat_check_def
  by (intro asked_intros follows_then_plain [OF cy.refines_looking]) simp_all

lemma follows_repeatScopeReview:
  assumes "orderly (ct_launch cr)"
  shows "follows H (repeatScopeReview cr ctx key n g actor) (\<lambda>x. {x})"
  unfolding repeatScopeReview_def Let_def
  by (intro asked_intros follows_row_then follows_then_plain [OF follows_repeat_check]
      follows_review_after_update follows_repeat_check follows_next assms)
     (simp_all add: field_changes_def)

lemma follows_windDownStop:
  assumes "c \<in> H"
  shows "follows H (windDownStop cr ctx c) (\<lambda>x. {x})"
proof -
  have "follows (H \<union> {d}) (case decideWindDownStop d b of
        No_write \<Rightarrow> give d | Scheduled_refuse r \<Rightarrow> throw (refused_request r)
      | Scheduled w \<Rightarrow> run_change (ct_launch cr) None d (cwr_changes w) a ctx) (\<lambda>x. {x})" for d b a
    using plain_decisions(4) [of d b]
    by (cases "decideWindDownStop d b") (auto simp: plain_write_def intro!: follows_change restore_wf_plain)
  then show ?thesis
    unfolding windDownStop_def by (intro asked_intros) (use assms in auto)
qed

lemma follows_retireForAmendment:
  assumes "c \<in> H"
  shows "follows H (retireForAmendment cr ctx c amendment) (\<lambda>x. {x})"
  unfolding retireForAmendment_def retired_changes_def
  by (intro asked_intros follows_change restore_wf_plain) (use assms in simp_all)

lemma restore_wf_restored: "stop_wf c \<Longrightarrow> restore_wf ((restoredStatus c)\<lparr>ch_reason := Some r\<rparr>)"
  by (auto simp: restore_wf_def restoredStatus_def stop_wf_def split: option.splits cycle_stop.splits)

lemma follows_reviewForDeclaredChecks:
  assumes "orderly (ct_launch cr)" "c \<in> H" "stop_wf c"
  shows "follows H (reviewForDeclaredChecks cr c actor) (\<lambda>_. {})"
proof -
  have undone: "follows G (review_put_back cr c reserved e) (\<lambda>_. {})" for G reserved e
    unfolding review_put_back_def
    by (intro asked_intros follows_then_row [OF follows_change] restore_wf_restored assms(3)) simp_all
  have launch: "follows G (and_then (run_next (ct_launch cr) None d Review (Some review) None no_changes a (Some actor))
      (\<lambda>_. give True)) (\<lambda>_. {})" if "d \<in> G" for G d review a
    by (intro follows_then_row [OF follows_next]) (use that assms(1) in \<open>simp_all add: field_changes_def\<close>)
  have body: "follows G (and_then (run_change (ct_launch cr) None c (cwr_changes w) a None) (\<lambda>reserved.
      catch_with (and_then (run_next (ct_launch cr) None reserved Review (Some review) None no_changes b (Some actor))
        (\<lambda>_. give True)) (review_put_back cr c reserved))) (\<lambda>_. {})" if "c \<in> G" "plain_write w" for G w review a b
    by (intro follows_then_row [OF follows_change] cy.refines_catch launch undone restore_wf_plain)
       (use that in \<open>simp_all add: plain_write_def\<close>)
  show ?thesis
    unfolding reviewForDeclaredChecks_def
    by (auto split: scheduled_write.split option.split intro!: asked_intros body dest: plain_decisions(5))
       (use assms(2) in auto)
qed

lemma follows_leaveMergeToOperator:
  assumes "c \<in> H"
  shows "follows H (leaveMergeToOperator cr c repo) (\<lambda>_. {})"
  using assms plain_decisions(6) unfolding leaveMergeToOperator_def
  by (auto simp: plain_write_def split: scheduled_write.split intro!: follows_then_row [OF follows_change] restore_wf_plain)

lemma follows_authorizeWorkItemRemediation:
  assumes "orderly (ct_launch cr)"
  shows "follows H (authorizeWorkItemRemediation cr ctx key rq) (\<lambda>x. {x})"
  unfolding authorizeWorkItemRemediation_def
  by (intro asked_intros follows_row_then follows_grantRemediation)
     (use assms in \<open>simp_all add: ct_launch_def\<close>)

end
