(* ===== verification/Control_Properties.thy ===== *)
theory Control_Properties
  imports Control Rounds Remediation_Properties Integration_Properties
begin

text \<open>
  The command handlers against the cycle store: every modelled handler is a path of the system of
  readers and writers, a request over another version writes nothing, and a stop's investigation
  holds every request but the one that ends it.
\<close>

section \<open>Every command is a path of the system\<close>

text \<open>
  The requests of a cycle by its key, and the handler of each: those of \<open>control.ts\<close>, the conflict
  resolution of \<open>effects/integration.ts\<close>, and the end of an investigation and the acknowledgement of
  the change it found of \<open>investigations.ts\<close>.
\<close>

datatype cycle_request =
    Control_request operator_command "launch_actor option"
  | Settings_request settings_change
  | Repeat_review nat string "launch_actor option"
  | More_remediation authorize_request
  | Resolve_request resolution_request "launch_actor option"
  | End_investigation nat bool
  | Acknowledge_change nat

record request_reads =
  qr_control :: control_reads
  qr_investigation :: investigation_reads

fun handle_request ::
    "request_reads \<Rightarrow> command_context \<Rightarrow> string \<times> string \<Rightarrow> cycle_request \<Rightarrow> (cycle_db, work_cycle) job" where
  "handle_request qr ctx key (Control_request cmd actor) = control (qr_control qr) ctx key cmd actor"
| "handle_request qr ctx key (Settings_request chg) = changeSettings (qr_control qr) ctx key chg"
| "handle_request qr ctx key (Repeat_review n guidance actor) =
     repeatScopeReview (qr_control qr) ctx key n guidance actor"
| "handle_request qr ctx key (More_remediation rq) = authorizeWorkItemRemediation (qr_control qr) ctx key rq"
| "handle_request qr ctx key (Resolve_request rq actor) =
     resolveIntegration (ct_integration (qr_control qr)) ctx key rq actor"
| "handle_request qr ctx key (End_investigation n stopping) =
     endInvestigation (qr_investigation qr) ctx key n stopping"
| "handle_request qr ctx key (Acknowledge_change n) = acknowledgeWorktreeChange (qr_investigation qr) ctx key n"

fun request_version :: "cycle_request \<Rightarrow> nat" where
  "request_version (Control_request cmd actor) = oc_expectedVersion cmd"
| "request_version (Settings_request chg) = sg_expectedVersion chg"
| "request_version (Repeat_review n guidance actor) = n"
| "request_version (More_remediation rq) = az_expectedVersion rq"
| "request_version (Resolve_request rq actor) = rq_expectedVersion rq"
| "request_version (End_investigation n stopping) = n"
| "request_version (Acknowledge_change n) = n"

text \<open>The commands given the caller's snapshot of the cycle.\<close>

definition snapshot_commands ::
    "control_reads \<Rightarrow> command_context \<Rightarrow> work_cycle \<Rightarrow> (cycle_db, work_cycle) job set" where
  "snapshot_commands cr ctx c =
     {windDownStop cr context c | context. True} \<union> {retireForAmendment cr ctx c amendment | amendment. True}"

definition quiet_snapshot_commands :: "control_reads \<Rightarrow> work_cycle \<Rightarrow> (cycle_db \<Rightarrow> cycle_db) set" where
  "quiet_snapshot_commands cr c =
     {snd \<circ> reviewForDeclaredChecks cr c actor | actor. True} \<union> {snd \<circ> leaveMergeToOperator cr c repo | repo. True}"

definition command_databases ::
    "request_reads \<Rightarrow> command_context \<Rightarrow> string \<times> string \<Rightarrow> work_cycle set \<Rightarrow> (cycle_db \<Rightarrow> cycle_db) set" where
  "command_databases qr ctx key held =
     range (\<lambda>req. snd \<circ> handle_request qr ctx key req)
     \<union> (\<Union>c\<in>held. {snd \<circ> job | job. job \<in> snapshot_commands (qr_control qr) ctx c}
          \<union> quiet_snapshot_commands (qr_control qr) c)"

definition orderly_requests :: "request_reads \<Rightarrow> bool" where
  "orderly_requests qr =
     (orderly (ct_launch (qr_control qr)) \<and> orderly (ig_launch (ct_integration (qr_control qr)))
      \<and> orderly (vr_launch (qr_investigation qr)))"

lemma orderly_requestsD:
  assumes "orderly_requests qr"
  shows "orderly (ct_launch (qr_control qr))" "orderly (ig_launch (ct_integration (qr_control qr)))"
    "orderly (vr_launch (qr_investigation qr))"
  using assms by (simp_all add: orderly_requests_def)

lemma follows_request:
  assumes "orderly_requests qr"
  shows "follows {} (handle_request qr ctx key req) (\<lambda>x. {x})"
  using orderly_requestsD [OF assms]
  by (cases req) (simp_all add: follows_control follows_changeSettings follows_repeatScopeReview
      follows_authorizeWorkItemRemediation follows_resolveIntegration follows_endInvestigation
      follows_acknowledgeWorktreeChange)

lemma follows_snapshot:
  assumes "job \<in> snapshot_commands cr ctx c"
  shows "follows {c} job (\<lambda>x. {x})"
  using assms unfolding snapshot_commands_def
  by (auto intro: follows_windDownStop follows_retireForAmendment)

lemma follows_quiet_snapshot:
  assumes "f \<in> quiet_snapshot_commands (qr_control qr) c" "orderly_requests qr" "stop_wf c"
  obtains (answer) m :: "(cycle_db, bool) job" where "f = snd \<circ> m" "follows {c} m (\<lambda>_. {})"
  | (silent) m :: "(cycle_db, unit) job" where "f = snd \<circ> m" "follows {c} m (\<lambda>_. {})"
  using assms(1) follows_reviewForDeclaredChecks [OF orderly_requestsD(1) [OF assms(2)], of c "{c}"]
    follows_leaveMergeToOperator [of c "{c}" "qr_control qr"] assms(3)
  unfolding quiet_snapshot_commands_def by fastforce

text \<open>
  C4. Every modelled command handler refines the system of readers and writers: the seven requests
  of a cycle (the operator's command, the settings change, the repeated review, the additional
  remediation, the conflict resolution, the end of an investigation, the acknowledgement of the
  change it found) and the four commands the daemon gives with its own snapshot (the roadmap's stop,
  the amendment's retirement, the review for declared checks, the merge left to the operator). From
  any reachable state, whatever the handlers read and whatever the other writers do at their awaits,
  the database a handler leaves is one the system's own steps reach.
\<close>

theorem commands_refine_store:
  assumes "sys_reachable s" "orderly_requests qr" "f \<in> command_databases qr ctx key (sy_held s)"
  shows "\<exists>t. sys_step\<^sup>*\<^sup>* s t \<and> sys_reachable t \<and> sy_db t = f (sy_db s)"
proof -
  consider (keyed) req where "f = snd \<circ> handle_request qr ctx key req"
    | (snapshot) c job where "c \<in> sy_held s" "f = snd \<circ> job" "job \<in> snapshot_commands (qr_control qr) ctx c"
    | (quiet) c where "c \<in> sy_held s" "f \<in> quiet_snapshot_commands (qr_control qr) c"
    using assms(3) unfolding command_databases_def by blast
  then show ?thesis
  proof cases
    case keyed
    from follows_reaches [OF follows_request [OF assms(2)] assms(1)] keyed show ?thesis by simp
  next
    case snapshot
    from follows_reaches [OF follows_snapshot [OF snapshot(3)] assms(1)] snapshot(1, 2) show ?thesis by simp
  next
    case quiet
    with sys_reachable_inv [OF assms(1)] have "stop_wf c" by (simp add: sys_inv_def)
    from quiet(2) assms(2) this show ?thesis
      by (cases rule: follows_quiet_snapshot) (use follows_reaches assms(1) quiet(1) in \<open>fastforce+\<close>)
  qed
qed

definition quiet_control :: control_reads where
  "quiet_control = \<lparr>ct_integration = quiet_integration, ct_remediation = quiet_remediation,
     ct_facts = (\<lambda>_ _. sample_command_facts), ct_newest = None, ct_currentRun = None, ct_runs = (\<lambda>_. []),
     ct_live = (\<lambda>_. False), ct_lastText = (\<lambda>_. None), ct_contextDigest = (\<lambda>_. None), ct_movedPins = [],
     ct_unsettledDecisions = [], ct_available = None, ct_enter = None, ct_ready = (\<lambda>_. None),
     ct_validateLaunch = None, ct_role = (\<lambda>_. None), ct_tree = (\<lambda>_. None), ct_treeScope = None,
     ct_changeTree = None, ct_transitioning = False, ct_mergeReserved = False, ct_amendmentRetired = False,
     ct_owned = False, ct_selections = (\<lambda>_. None), ct_modelIds = (\<lambda>_. None), ct_assign = None,
     ct_attached = True, ct_declaredBefore = False, ct_resolveBranch = (\<lambda>_ _. Inl [])\<rparr>"

definition quiet_requests :: request_reads where
  "quiet_requests = \<lparr>qr_control = quiet_control, qr_investigation =
     \<lparr>vr_launch = quiet_launch, vr_launching = False, vr_settling = False, vr_findRun = (\<lambda>_. None),
      vr_finalText = (\<lambda>_. []), vr_decode = (\<lambda>_. Inl []), vr_agentTerminating = False,
      vr_snapshot = (\<lambda>_. None), vr_lastCheck = None\<rparr>\<rparr>"

lemma quiet_requests_orderly: "orderly_requests quiet_requests"
  by (simp add: orderly_requests_def quiet_requests_def ct_launch_def quiet_control_def quiet_remediation_def
      quiet_integration_def orderly_alone quiet_launch_def)

theorem commands_refine_store_witness:
  "\<exists>t. sys_step\<^sup>*\<^sup>* sample_system t \<and> sys_reachable t
     \<and> sy_db t = (snd \<circ> control quiet_control sample_context (''w1'', ''c1'') pause_command None) (sy_db sample_system)"
proof -
  let ?key = "(''w1'', ''c1'')" and ?req = "Control_request pause_command None"
  have "snd \<circ> handle_request quiet_requests sample_context ?key ?req
      \<in> command_databases quiet_requests sample_context ?key (sy_held sample_system)"
    unfolding command_databases_def by (intro UnI1 range_eqI) (rule refl)
  from commands_refine_store [OF sample_reachable quiet_requests_orderly this]
  show ?thesis by (simp add: quiet_requests_def)
qed

section \<open>Commands that write nothing\<close>

definition writes_nothing :: "cycle_db \<Rightarrow> (cycle_db, 'a) job \<Rightarrow> bool" where
  "writes_nothing db job = (\<exists>e. job db = (Inl e, db))"

lemma writes_nothing_throw [simp, intro]: "writes_nothing db (throw e)"
  by (simp add: writes_nothing_def throw_def)

lemma writes_nothing_unless [simp]:
  "writes_nothing db (and_then (unless_error err) f) = (err = None \<longrightarrow> writes_nothing db (f ()))"
  by (cases err) (simp_all add: writes_nothing_def and_then_def unless_error_def give_def throw_def)

lemma writes_nothing_looking [simp]:
  "writes_nothing db (and_then (looking g) f) = writes_nothing db (f (g db))"
  by (simp add: writes_nothing_def and_then_def looking_def)

lemma writes_nothing_commanded:
  assumes "cycles_find (db_rows db) key = Some c"
  shows "writes_nothing db (and_then (commanded_cycle lr ctx key n) f)
    = (lr_requireRole lr ctx = None \<longrightarrow> cy_version c = n \<longrightarrow> writes_nothing db (f c))"
  using assms
  by (cases "lr_requireRole lr ctx")
     (auto simp: commanded_cycle_def writes_nothing_def and_then_def unless_error_def looking_def give_def throw_def)

lemma writes_nothing_before: "writes_nothing db m \<Longrightarrow> writes_nothing db (and_then m f)"
  by (auto simp: writes_nothing_def and_then_def)

text \<open>
  C15. A request given for another version than the stored row's is refused: it throws and writes
  nothing.
\<close>

theorem stale_command_refused:
  assumes "cycles_find (db_rows db) key = Some c" "cy_version c \<noteq> request_version req"
  shows "writes_nothing db (handle_request qr ctx key req)"
proof (cases req)
  case (Control_request cmd actor)
  with assms show ?thesis
    by (auto simp: control_def decideCommand_def applyCommand_def)
next
  case (Settings_request chg)
  with assms show ?thesis by (auto simp: changeSettings_def decideSettingsChange_def)
next
  case (Repeat_review n guidance actor)
  have "cycle_key c = key" using cycles_find_in [OF assms(1)] by simp
  with assms Repeat_review have "writes_nothing db (repeat_check (qr_control qr) c u n actor 0)" for u
    by (simp add: repeat_check_def find_cycle_def)
  with assms Repeat_review show ?thesis
    by (auto simp: repeatScopeReview_def Let_def split: option.split intro!: writes_nothing_before)
next
  case (More_remediation rq)
  with assms show ?thesis by (auto simp: authorizeWorkItemRemediation_def)
next
  case (Resolve_request rq actor)
  with assms show ?thesis by (auto simp: resolveIntegration_def)
next
  case (End_investigation n stopping)
  with assms show ?thesis by (simp add: endInvestigation_def writes_nothing_commanded)
next
  case (Acknowledge_change n)
  with assms show ?thesis by (simp add: acknowledgeWorktreeChange_def writes_nothing_commanded)
qed

theorem stale_command_refused_witness:
  "writes_nothing (lone gated_cycle) (handle_request quiet_requests sample_context (cycle_key gated_cycle)
     (Control_request (pause_command\<lparr>oc_expectedVersion := 7\<rparr>) None))"
proof -
  have "cycles_find (db_rows (lone gated_cycle)) (cycle_key gated_cycle) = Some gated_cycle"
    by (simp add: lone_def cycles_find_def)
  moreover have "cy_version gated_cycle \<noteq> 7" by (simp add: gated_cycle_def sample_cycle_def)
  ultimately show ?thesis by (intro stale_command_refused) simp_all
qed

section \<open>A stop's investigation\<close>

text \<open>
  What a held stop lets through: its running investigation only the investigation's end, the change
  it found only the acknowledgement and the command that stops the cycle.
\<close>

fun let_through :: "bool \<Rightarrow> cycle_request \<Rightarrow> bool" where
  "let_through live (Control_request cmd actor) = (\<not> live \<and> oc_action cmd = Op_stop)"
| "let_through live (End_investigation n stopping) = live"
| "let_through live (Acknowledge_change n) = (\<not> live)"
| "let_through live _ = False"

text \<open>
  C16. While a stop's investigation runs, every request of the cycle but the investigation's end
  throws and writes nothing; while the worktree change it found is open, every request but the
  acknowledgement of the change and the command that stops the cycle does.
\<close>

theorem investigation_holds_commands:
  assumes "cycles_find (db_rows db) key = Some c" "investigationHolds c"
    and "\<not> let_through (investigationLive c) req"
  shows "writes_nothing db (handle_request qr ctx key req)"
proof -
  obtain i where i: "cy_investigation c = Some i"
    using assms(2) by (auto simp: investigationHolds_def investigationLive_def worktreeChangeOpen_def split: option.splits)
  have held: "requireNoInvestigation c False \<noteq> None" "investigationLive c \<Longrightarrow> requireNoInvestigation c True \<noteq> None"
    using assms(2) by (auto simp: requireNoInvestigation_def investigationHolds_def)
  show ?thesis
  proof (cases req)
    case (End_investigation n stopping)
    with assms(1,3) i show ?thesis
      by (auto simp: endInvestigation_def writes_nothing_commanded investigationLive_def)
  next
    case (Acknowledge_change n)
    with assms(1,3) i show ?thesis
      by (auto simp: acknowledgeWorktreeChange_def writes_nothing_commanded investigationLive_def)
  next
    case (Control_request cmd actor)
    with assms held show ?thesis by (auto simp: control_def)
  qed (use assms(1) held in \<open>auto simp: changeSettings_def repeatScopeReview_def
      authorizeWorkItemRemediation_def resolveIntegration_def\<close>)
qed

theorem investigation_holds_commands_witness:
  "writes_nothing (lone investigated_cycle) (handle_request quiet_requests sample_context
     (cycle_key investigated_cycle) (Control_request (pause_command\<lparr>oc_action := Op_stop\<rparr>) None))"
proof -
  have "investigationLive investigated_cycle"
    by (simp add: investigated_cycle_def sample_investigation_def investigationLive_def)
  then show ?thesis
    by (intro investigation_holds_commands) (simp_all add: lone_def cycles_find_def investigationHolds_def)
qed

text \<open>A row written in place is still what the indexes allow.\<close>

lemma indexed_in_place:
  assumes "\<forall>r\<in>set rows. cy_id (f r) = cy_id r \<and> cycle_active (f r) = cycle_active r
      \<and> cy_workspaceId (f r) = cy_workspaceId r \<and> cy_worktreeId (f r) = cy_worktreeId r
      \<and> cy_workItemId (f r) = cy_workItemId r \<and> cy_executionScope (f r) = cy_executionScope r"
  shows "indexed (map f rows) = indexed rows"
  using assms by (induction rows) (auto simp: index_clash_def)

lemma written_in_place:
  assumes "indexed rows" "cycles_find rows (cycle_key c) = Some c" "ch_status ch = None"
    "u = updated_cycle rd at k c ch"
  shows "\<exists>rows'. cycles_replace rows u (cy_version c) = Replaced rows'"
proof -
  have c: "c \<in> set rows" using cycles_find_in [OF assms(2)] by simp
  have only: "r = c" if "r \<in> set rows" "cycle_key r = cycle_key c" for r
    using indexed_find [OF assms(1) that(1)] that(2) assms(2) by simp
  have place: "cycle_key u = cycle_key c" "cycle_active u = cycle_active c" "cy_id u = cy_id c"
    "cy_workspaceId u = cy_workspaceId c" "cy_worktreeId u = cy_worktreeId c" "cy_workItemId u = cy_workItemId c"
    "cy_executionScope u = cy_executionScope c"
    using assms(3,4) by (simp_all add: updated_cycle_def Let_def apply_fields_def cycle_key_def cycle_active_def next_status_def)
  have "indexed (map (update_row u (cy_version c)) rows)"
    using assms(1) only place by (subst indexed_in_place) (auto simp: update_row_def)
  with c place(1) show ?thesis by (auto simp: cycles_replace_def Let_def)
qed

text \<open>A write that names no status and no stop keeps both.\<close>

lemma stop_kept:
  assumes "stop_wf c" "ch_status ch = None" "ch_attention ch = None" "ch_restore ch = None" "ch_end ch = None"
  shows "written_stop c ch (completed_attention rd c ch at) at = cy_stop c"
  using assms
  by (cases "cy_status c")
     (auto simp: completed_attention_def declared_attention_def written_stop_def Let_def attention_status_def
        next_status_def stop_wf_def carries_iff held_stop_of_def stopFor_def stopRecord_def
      split: option.splits cycle_stop.splits)

lemma investigation_written:
  assumes "indexed (db_rows db)" "cycles_find (db_rows db) (cycle_key c) = Some c" "stop_wf c"
    "cy_investigation c = Some j"
  shows "\<exists>u db'. write_investigation vr dec c i action (Some ctx) db = (Inr u, db')
    \<and> cycles_find (db_rows db') (cycle_key c) = Some u \<and> cy_investigation u = Some i
    \<and> cy_status u = cy_status c \<and> cy_stop u = cy_stop c \<and> cy_step u = cy_step c
    \<and> cy_currentRunId u = cy_currentRunId c"
proof -
  let ?ch = "no_changes\<lparr>ch_investigation := Put i\<rparr>" and ?lr = "vr_launch vr"
  define u where "u = updated_cycle (lr_policy ?lr) (lr_now ?lr) True c ?ch"
  have fields: "cy_status u = cy_status c" "cy_stop u = cy_stop c" "cy_step u = cy_step c"
    "cy_currentRunId u = cy_currentRunId c" "cy_investigation u = Some i" "cycle_key u = cycle_key c"
    using stop_kept [OF assms(3), of ?ch] assms(4)
    by (simp_all add: u_def updated_cycle_def Let_def apply_fields_def next_status_def investigation_ends_def cycle_key_def)
  from written_in_place [OF assms(1,2) _ u_def] obtain rows'
    where rows: "cycles_replace (db_rows db) u (cy_version c) = Replaced rows'" by auto
  have "checkTransition (cy_status c) (cy_status u) (cy_stop u) action = Inr ()"
    using assms(3) fields(1,2) by (simp add: checkTransition_def stop_wf_def)
  with rows fields obtain db' where w: "change (lr_policy ?lr) (lr_now ?lr) dec db c ?ch action (Some ctx) []
      = Inr (Wrote db' u)"
    by (auto simp: change_def Let_def u_def [symmetric] db_record_def split: option.splits)
  then have "cycles_find (db_rows db') (cycle_key u) = Some u"
    using cycles.put_same [OF assms(1) change_Wrote(2) [OF w]] by simp
  with w fields show ?thesis by (auto simp: write_investigation_def run_change_def)
qed


definition released_cycle :: work_cycle where
  "released_cycle = investigated_cycle\<lparr>cy_stop :=
     Some (stopRecord (make_attention Design_open_questions None None None None) 0)\<rparr>"


end
