(* ===== verification/Spec2Isabelle.thy ===== *)
theory Spec2Isabelle
  imports Plan_Package Machine Command_Properties Agents Remediation_Properties Integration_Properties
    Stage_Evidence Workflow_Effects Round_Properties Merge_Gate Control_Properties
begin

text \<open>
  CraftingTable's daemon supervises coding agents. A plan is uploaded as a bundle of documents
  and becomes a graph of work items; a work item is carried by a work cycle, which alternates
  implementation, review and remediation runs in a Git worktree until the work can be merged or
  an operator is needed. This development models two parts of the daemon from their source: the
  plan import, from an archive or from uploaded parts, and the cycle controller with everything
  that writes a cycle.

  \<^bold>\<open>The parts and how they interact.\<close> Upload: \<open>analyzePlanBundle\<close>
  takes the parts in, verifies checksum manifests, parses, normalizes the work breakdown, builds its
  graph and computes the bundle's digest. An upload may also be a ZIP archive:
  \<open>readArchive\<close> reads its entries, and \<open>preparePlanArchive\<close> makes such
  parts of the directory an operator selects. Control: \<open>WorkCycleService\<close> runs rounds;
  a round lists the active cycles in the roadmaps' order, and for each makes a pass: it reads facts,
  \<open>decide\<close> asks its ordered guards, and the one decision is applied - a launch, a stop,
  a wait, or an effect (remediation, integration refresh, conflict resolution, finalization stage,
  workflow review, restart). Operators and roadmaps write the same cycles through command handlers.
  Every write goes through \<open>CycleWriter.change\<close>, which checks the state machine and
  replaces the row only at the version it read. The slow lane keeps one long effect out of the
  round.

  \<^bold>\<open>Theories and sources\<close> (paths under \<open>src/\<close>).
  \<^item> \<open>Prelude\<close>: times, JavaScript string and array operations, optional fields, generic lemmas.
  \<^item> \<open>Attention\<close>, \<open>Execution\<close>, \<open>Reports\<close>, \<open>Cycle\<close>, \<open>Actions\<close>: the records and rules of
    \<open>packages/domain/src\<close> and \<open>packages/contracts/src\<close>: attention codes and stops; agents, runs
    and worktrees; findings, stages, open questions and the fenced reports; the cycle; the offered
    actions. An interface is a record with the source's fields in order, an enumeration a datatype.
  \<^item> \<open>Transitions\<close> (\<open>services/cycle/core/transitions.ts\<close>), \<open>Store\<close> (\<open>work-cycles.ts\<close> of
    \<open>packages/storage\<close>), \<open>Writer\<close> and \<open>Launch\<close> (\<open>services/cycle/writer.ts\<close>): the table of
    statuses, the rows with their unique indexes and optimistic replace, \<open>change\<close> field by field,
    and \<open>next\<close>, which reserves a run.
  \<^item> \<open>Write_Safety\<close>: the system \<open>sys_step\<close> of readers and writers over one database, each writer
    holding snapshots it read before; the invariant of its reachable states.
  \<^item> \<open>Effects\<close> (\<open>effect-decisions.ts\<close>, \<open>errors.ts\<close>), \<open>Step_Outcome\<close> (\<open>step-outcome.ts\<close>), \<open>Machine\<close>
    (\<open>machine.ts\<close>, \<open>facts.ts\<close>, \<open>lanes.ts\<close>, \<open>next-look.ts\<close>), \<open>Commands\<close> (\<open>commands.ts\<close>),
    \<open>Accepted_Writes\<close>: the pure decision core.
  \<^item> \<open>Agents\<close>: \<open>agent-resolution.ts\<close>. \<open>Owner\<close>: the roadmap's answers. \<open>Stage_Policy\<close>,
    \<open>Stage_Evidence\<close>: \<open>finalization-stage-policy.ts\<close>.
  \<^item> \<open>Jobs\<close>: the shape of an effect, a function from the database to a result or the error thrown,
    with the database as the writes before it left it; the locale \<open>step_system\<close> is the
    interface of a system of steps, in which a job is proved a path of the system, and it is
    interpreted on the cycle store.
  \<^item> \<open>Remediation\<close>, \<open>Integration\<close>, \<open>Resolution\<close>, \<open>Stage_Effects\<close>, \<open>Workflow_Effects\<close>,
    \<open>Restart_Effects\<close>: the effects of \<open>services/cycle/effects\<close>, whole, as jobs.
  \<^item> \<open>Investigations\<close>, \<open>Control\<close>, \<open>Resolution\<close>: the modelled command handlers
    (\<open>control.ts\<close> of \<open>services/cycle/commands\<close> with \<open>cycle/gates.ts\<close>, \<open>investigations.ts\<close> but the
    start of one, and the resolution command of \<open>effects/integration.ts\<close>), as jobs.
  \<^item> \<open>Pass\<close>, \<open>Cycle_Priority\<close>, \<open>Rounds\<close>: \<open>apply-outcome.ts\<close>, \<open>cycle-priority.ts\<close> and the
    pass, the failures, the lane and the round of \<open>work-cycle-service.ts\<close>.
  \<^item> \<open>Merge_Gate\<close>: \<open>services/merge/gate.ts\<close>.
  \<^item> \<open>Plan_Diagnostics\<close>, \<open>Plan_Json\<close>, \<open>Plan_Normalize\<close>, \<open>Plan_Graph\<close>, \<open>Plan_Digest\<close>,
    \<open>Plan_Bundle\<close>: the files of those names in \<open>packages/planning/src\<close> (\<open>parse.ts\<close> is
    \<open>Plan_Json\<close>), with the limits of \<open>limits.ts\<close> and the roles of \<open>packages/domain/src/planning.ts\<close>.
    \<open>Plan_Example\<close> is a bundle evaluated step by step. \<open>Plan_Archive\<close> is \<open>archive.ts\<close>: the ZIP
    records byte by byte, their cross-checks and the checksum. \<open>Plan_Package\<close> is
    \<open>plan-archive.ts\<close>: what an archive offers, and the selected package.
  The \<open>_Properties\<close> theories hold the properties that span the components they import.

  \<^bold>\<open>What the lemmas show.\<close> The lemmas \<open>follows_...\<close> show that every modelled effect, command
  handler, pass and round is a path of \<open>sys_step\<close>, whatever the other writers do at its awaits; so the
  invariants of reachable states (each stored cycle carries the stop its status asks for, one
  active cycle per worktree, one committed write per version) hold whatever order they run in. The
  decision lemmas (\<open>..._acceptable\<close>, \<open>decide_...\<close>) show that what the core decides is a write
  the state machine accepts, and within the bounds the code states (rounds, retries, repairs,
  continuations, deadlines). The planning lemmas show that the depth-first search finds a cycle
  exactly when there is one (\<open>searching\<close> is its invariant, \<open>ranked\<close> the proof of
  acyclicity it leaves behind), that the digest's encoding is injective and its order canonical
  (the locale \<open>comparator\<close>), and that a plan that is yielded is well formed. Of the archive
  they show that no read leaves the buffer, that the entries of an accepted archive have
  distinct safe paths, disjoint bytes and the sizes and checksums their records state, and
  that the table-driven checksum is the bitwise one, which a change of one byte always changes.

  \<^bold>\<open>Bounds and termination.\<close> No function uses fuel. The search terminates by the
  unvisited nodes and then the edges left on its stack; the other recursions are structural, or over
  the entries and bytes an archive states, each step consuming some. Lengths in the digest are
  encoded in 4 and 8 bytes, and a length that does not fit throws; the limits on a bundle (64 parts
  of 2 MiB) keep every length within them, so an import never throws.

  \<^bold>\<open>Modelling decisions.\<close> A timestamp is its milliseconds, an identifier a string, a text its
  ASCII characters (string lengths are in characters, typographic quotes are ASCII). A
  comparison of two values by \<open>JSON.stringify\<close> is structural equality. The fields of a write are
  optional (a required field) or an \<open>edit\<close> (\<open>Keep\<close>, \<open>Drop\<close>, \<open>Put\<close>: an optional one). A
  thrown error is \<open>None\<close> of a decision or \<open>Inl\<close> of a job, and keeps the writes made before
  it. Facts and storage reads are records that an effect is given; a fact asked again later is
  indexed by the ask, and the cycle's own row is always read from the threaded database. One
  effect reads the clock once and reserves at most one run. Other writers act at the awaits, by
  an arbitrary function (\<open>lr_others\<close>) of which the theorems ask only that it follows the
  system's own steps (\<open>orderly\<close>). The in-memory locks (refreshing, ending, settling, transitions)
  are reads; a guard that is taken throws. The lane's state is tracked; the wake-up kernel's
  timers are not. Ending a live agent's turn writes no cycle and is left out of the jobs, as is
  the account of changed settings in an audit row's details.

  \<^bold>\<open>Parameters\<close> stand for what is not under \<open>src/\<close> or is a process:
  Git, the YAML library, \<open>JSON.parse\<close> and the Zod decoders, inflation and UTF-8
  decoding, SHA-256, Unicode normalization and collation, the agents' back ends, and the records of
  other tables.

  \<^bold>\<open>Not modelled.\<close> The merge executor's Git operations and receipts; the
  concurrency map with its schemas (\<open>concurrency.ts\<close>,
  \<open>concurrency-schema.ts\<close>); the roadmap scheduler; the agents' adapters and the Git
  package, which drive processes; the other storage repositories, which are SQL; and the HTTP API,
  the command line and the web client, which present what these parts decide. Of the commands of
  \<open>services/cycle/commands\<close>, \<open>start.ts\<close>, \<open>recovery.ts\<close>, \<open>finalization.ts\<close> and the start of an
  investigation are left out: no theorem here speaks of them, though the insertion of a row and the
  write they end in are those of \<open>Store\<close> and \<open>Writer\<close>.
\<close>

end
